(* ===== verification/Desk_Prelude.thy ===== *)
theory Desk_Prelude
  imports Complex_Main "HOL-Library.AList" "HOL-Library.Multiset"
begin

text \<open>
  What every component shares: the JavaScript values the services exchange (strings,
  dates, JSON details), the exceptions they throw, and the shape of a service method.

  A string is a list of code units in the range 0..255; the em dash of two message
  texts is written as two hyphens. A \<^verbatim>\<open>Date\<close> is its \<^verbatim>\<open>getTime()\<close>
  value in milliseconds. A method that awaits repositories and may throw is an \<open>act\<close>:
  it maps the world to an exception or a value, and to the world it leaves behind. An
  exception does not roll anything back, as in the code.
\<close>

named_theorems act_simps \<open>evaluation of service methods step by step\<close>
named_theorems tbl_simps \<open>lookups after a write to a table\<close>

type_synonym ident = string
type_synonym time = int

subsection \<open>Exceptions and JSON details\<close>

datatype json =
    JNull
  | JBool bool
  | JNum rat
  | JStr string
  | JDate time
  | JArr "json list"
  | JObj "(string \<times> json) list"

definition jopt :: "string option \<Rightarrow> json" where
  "jopt v = (case v of None \<Rightarrow> JNull | Some s \<Rightarrow> JStr s)"

definition jdate :: "time option \<Rightarrow> json" where
  "jdate v = (case v of None \<Rightarrow> JNull | Some t \<Rightarrow> JDate t)"

definition jint :: "int \<Rightarrow> json" where
  "jint i = JNum (of_int i)"

text \<open>
  The NestJS exceptions the services throw; \<open>Plain\<close> is a bare \<^verbatim>\<open>Error\<close>, \<open>Conflict\<close> the
  \<^verbatim>\<open>HttpException\<close> of a blocked export, \<open>TooManyRequests\<close> a \<^verbatim>\<open>BudgetExceededException\<close>. An
  \<^verbatim>\<open>UnauthorizedException\<close> without argument has the message \<^verbatim>\<open>Unauthorized\<close>.
\<close>

datatype api_error =
    BadRequest string
  | Unauthorized string
  | Forbidden string
  | NotFound string
  | Conflict json
  | TooManyRequests json
  | ServiceUnavailable string
  | Plain string

subsection \<open>Service methods\<close>

type_synonym ('w, 'a) act = "'w \<Rightarrow> (api_error + 'a) \<times> 'w"

definition ret :: "'a \<Rightarrow> ('w, 'a) act" where
  "ret a w = (Inr a, w)"

definition throw :: "api_error \<Rightarrow> ('w, 'a) act" where
  "throw e w = (Inl e, w)"

definition bindA :: "('w, 'a) act \<Rightarrow> ('a \<Rightarrow> ('w, 'b) act) \<Rightarrow> ('w, 'b) act" where
  "bindA m f w = (case m w of (r, w') \<Rightarrow> (case r of Inl e \<Rightarrow> (Inl e, w') | Inr a \<Rightarrow> f a w'))"

definition askA :: "('w \<Rightarrow> 'a) \<Rightarrow> ('w, 'a) act" where
  "askA f w = (Inr (f w), w)"

text \<open>\<open>throwIf b e\<close> is a guard clause: \<^verbatim>\<open>if (b) throw e;\<close>\<close>

definition throwIf :: "bool \<Rightarrow> api_error \<Rightarrow> ('w, unit) act" where
  "throwIf b e = (if b then throw e else ret ())"

definition orThrow :: "'a option \<Rightarrow> api_error \<Rightarrow> ('w, 'a) act" where
  "orThrow v e = (case v of None \<Rightarrow> throw e | Some a \<Rightarrow> ret a)"

text \<open>\<open>tryA m h\<close> is \<^verbatim>\<open>try { m } catch (err) { h(err) }\<close>; the effects of \<open>m\<close> stay.\<close>

definition tryA :: "('w, 'a) act \<Rightarrow> (api_error \<Rightarrow> ('w, 'a) act) \<Rightarrow> ('w, 'a) act" where
  "tryA m h w = (case m w of (r, w') \<Rightarrow> (case r of Inl e \<Rightarrow> h e w' | Inr a \<Rightarrow> (Inr a, w')))"

text \<open>\<^verbatim>\<open>for (const x of xs) acc = await f(x, acc)\<close>: the first exception ends the loop.\<close>

fun foldA :: "('x \<Rightarrow> 'a \<Rightarrow> ('w, 'a) act) \<Rightarrow> 'x list \<Rightarrow> 'a \<Rightarrow> ('w, 'a) act" where
  "foldA f [] a = ret a"
| "foldA f (x # xs) a = bindA (f x a) (foldA f xs)"

lemma ret_apply [simp, act_simps]: "ret a w = (Inr a, w)"
  by (simp add: ret_def)

lemma throw_apply [simp, act_simps]: "throw e w = (Inl e, w)"
  by (simp add: throw_def)

lemma askA_apply [simp, act_simps]: "askA f w = (Inr (f w), w)"
  by (simp add: askA_def)

lemma throwIf_apply [act_simps]: "throwIf b e w = (if b then (Inl e, w) else (Inr (), w))"
  by (simp add: throwIf_def)

lemma throwIf_True [simp]: "b \<Longrightarrow> throwIf b e w = (Inl e, w)"
  by (simp add: throwIf_def)

lemma throwIf_False [simp]: "\<not> b \<Longrightarrow> throwIf b e w = (Inr (), w)"
  by (simp add: throwIf_def)

lemma orThrow_None [simp, act_simps]: "orThrow None e w = (Inl e, w)"
  by (simp add: orThrow_def)

lemma orThrow_Some [simp, act_simps]: "orThrow (Some a) e w = (Inr a, w)"
  by (simp add: orThrow_def)

lemma bindA_Inr [simp, act_simps]: "m w = (Inr a, w') \<Longrightarrow> bindA m f w = f a w'"
  by (simp add: bindA_def)

lemma bindA_Inl [simp, act_simps]: "m w = (Inl e, w') \<Longrightarrow> bindA m f w = (Inl e, w')"
  by (simp add: bindA_def)

lemma bindA_eq_Inr:
  "bindA m f w = (Inr b, w'') \<longleftrightarrow> (\<exists>a w'. m w = (Inr a, w') \<and> f a w' = (Inr b, w''))"
  by (auto simp: bindA_def split: prod.splits sum.splits)

lemma bindA_eq_Inl:
  "bindA m f w = (Inl e, w'') \<longleftrightarrow>
     m w = (Inl e, w'') \<or> (\<exists>a w'. m w = (Inr a, w') \<and> f a w' = (Inl e, w''))"
  by (auto simp: bindA_def split: prod.splits sum.splits)

lemma throwIf_eq_Inr: "throwIf b e w = (Inr u, w') \<longleftrightarrow> \<not> b \<and> w' = w"
  by (auto simp: throwIf_def)

lemma orThrow_eq_Inr: "orThrow v e w = (Inr a, w') \<longleftrightarrow> v = Some a \<and> w' = w"
  by (auto simp: orThrow_def split: option.splits)

lemma tryA_Inr [simp, act_simps]: "m w = (Inr a, w') \<Longrightarrow> tryA m h w = (Inr a, w')"
  by (simp add: tryA_def)

lemma tryA_Inl [simp, act_simps]: "m w = (Inl e, w') \<Longrightarrow> tryA m h w = h e w'"
  by (simp add: tryA_def)

text \<open>Inverting a successful run into the runs of its steps.\<close>

lemmas act_elims = bindA_eq_Inr throwIf_eq_Inr orThrow_eq_Inr

text \<open>
  \<open>keeps P m\<close>: whatever \<open>m\<close> does, value or exception, it keeps \<open>P\<close> of the world. The rules
  below push a frame or an invariant through the steps of a method.
\<close>

definition keeps :: "('w \<Rightarrow> bool) \<Rightarrow> ('w, 'a) act \<Rightarrow> bool" where
  "keeps P m \<longleftrightarrow> (\<forall>w. P w \<longrightarrow> P (snd (m w)))"

lemma keepsD: "keeps P m \<Longrightarrow> P w \<Longrightarrow> P (snd (m w))"
  by (simp add: keeps_def)

lemma keepsD_eq: "keeps P m \<Longrightarrow> P w \<Longrightarrow> m w = (r, w') \<Longrightarrow> P w'"
  by (metis keeps_def snd_conv)

lemma keeps_ret [intro]: "keeps P (ret a)"
  by (simp add: keeps_def)

lemma keeps_throw [intro]: "keeps P (throw e)"
  by (simp add: keeps_def)

lemma keeps_askA [intro]: "keeps P (askA f)"
  by (simp add: keeps_def)

lemma keeps_throwIf [intro]: "keeps P (throwIf b e)"
  by (simp add: keeps_def throwIf_def)

lemma keeps_orThrow [intro]: "keeps P (orThrow v e)"
  by (cases v) (simp_all add: keeps_def)

lemma keeps_bindA [intro]: "keeps P m \<Longrightarrow> (\<And>a. keeps P (f a)) \<Longrightarrow> keeps P (bindA m f)"
  by (fastforce simp: keeps_def bindA_def split: prod.splits sum.splits)

lemma keeps_tryA [intro]: "keeps P m \<Longrightarrow> (\<And>e. keeps P (h e)) \<Longrightarrow> keeps P (tryA m h)"
  by (fastforce simp: keeps_def tryA_def split: prod.splits sum.splits)

lemma keeps_if [intro]: "keeps P m \<Longrightarrow> keeps P n \<Longrightarrow> keeps P (if b then m else n)"
  by simp

lemma keeps_foldA [intro]: "(\<And>x a. keeps P (f x a)) \<Longrightarrow> keeps P (foldA f xs a)"
  by (induction xs arbitrary: a) auto

subsection \<open>JavaScript operators\<close>

text \<open>\<open>v ?? d\<close>\<close>

definition orElse :: "'a option \<Rightarrow> 'a \<Rightarrow> 'a" where
  "orElse v d = (case v of None \<Rightarrow> d | Some x \<Rightarrow> x)"

lemma orElse_simps [simp]: "orElse None d = d" "orElse (Some x) d = x"
  by (simp_all add: orElse_def)

text \<open>
  A field of a patch object: \<open>None\<close> is \<^verbatim>\<open>undefined\<close> (leave the column alone), \<open>Some v\<close>
  sets it. \<open>setIf\<close> is \<^verbatim>\<open>if (data.f !== undefined) row.f = data.f\<close>.
\<close>

definition setIf :: "'v option \<Rightarrow> ('v \<Rightarrow> 'r \<Rightarrow> 'r) \<Rightarrow> 'r \<Rightarrow> 'r" where
  "setIf v put r = (case v of None \<Rightarrow> r | Some x \<Rightarrow> put x r)"

lemma setIf_simps [simp]: "setIf None put r = r" "setIf (Some x) put r = put x r"
  by (simp_all add: setIf_def)

lemma setIf_keep: "(\<And>v s. f (put v s) = f s) \<Longrightarrow> f (setIf x put r) = f r"
  by (cases x) simp_all

text \<open>A string is falsy when it is missing or empty.\<close>

definition truthyS :: "string option \<Rightarrow> bool" where
  "truthyS v = (case v of None \<Rightarrow> False | Some s \<Rightarrow> s \<noteq> [])"

lemma truthyS_simps [simp]: "truthyS None = False" "truthyS (Some s) = (s \<noteq> [])"
  by (simp_all add: truthyS_def)

subsection \<open>Strings\<close>

definition js_space :: "char \<Rightarrow> bool" where
  "js_space c \<longleftrightarrow> (let n = of_char c :: nat in (9 \<le> n \<and> n \<le> 13) \<or> n = 32 \<or> n = 160)"

definition trim :: "string \<Rightarrow> string" where
  "trim s = rev (dropWhile js_space (rev (dropWhile js_space s)))"

definition lower_char :: "char \<Rightarrow> char" where
  "lower_char c = (let n = of_char c :: nat in
     if (65 \<le> n \<and> n \<le> 90) \<or> (192 \<le> n \<and> n \<le> 222 \<and> n \<noteq> 215) then char_of (n + 32) else c)"

definition toLowerCase :: "string \<Rightarrow> string" where
  "toLowerCase s = map lower_char s"

text \<open>\<^verbatim>\<open>s.includes('@')\<close> for a one-character needle.\<close>

definition includes_char :: "string \<Rightarrow> char \<Rightarrow> bool" where
  "includes_char s c \<longleftrightarrow> c \<in> set s"

fun starts_with :: "string \<Rightarrow> string \<Rightarrow> bool" where
  "starts_with s [] = True"
| "starts_with [] (p # ps) = False"
| "starts_with (c # s) (p # ps) = (c = p \<and> starts_with s ps)"

definition ends_with :: "string \<Rightarrow> string \<Rightarrow> bool" where
  "ends_with s p = starts_with (rev s) (rev p)"

fun includes_str :: "string \<Rightarrow> string \<Rightarrow> bool" where
  "includes_str [] p = (p = [])"
| "includes_str (c # s) p = (starts_with (c # s) p \<or> includes_str s p)"

text \<open>\<^verbatim>\<open>xs.join(sep)\<close>\<close>

fun join :: "string \<Rightarrow> string list \<Rightarrow> string" where
  "join sep [] = []"
| "join sep [x] = x"
| "join sep (x # y # xs) = x @ sep @ join sep (y # xs)"

text \<open>\<^verbatim>\<open>s.split(c)\<close> for a one-character separator: never the empty list.\<close>

fun split_char :: "char \<Rightarrow> string \<Rightarrow> string list" where
  "split_char c [] = [[]]"
| "split_char c (x # xs) =
     (if x = c then [] # split_char c xs
      else (case split_char c xs of [] \<Rightarrow> [[x]] | y # ys \<Rightarrow> (x # y) # ys))"

lemma split_char_nonempty: "split_char c s \<noteq> []"
  by (induction s) (auto split: list.splits)

text \<open>Decimal rendering of a counter (\<^verbatim>\<open>`${n}`\<close>).\<close>

fun digit :: "nat \<Rightarrow> char" where
  "digit n = char_of (48 + n)"

fun show_nat :: "nat \<Rightarrow> string" where
  "show_nat n = (if n < 10 then [digit n] else show_nat (n div 10) @ [digit (n mod 10)])"

declare show_nat.simps [simp del]

definition show_int :: "int \<Rightarrow> string" where
  "show_int i = (if i < 0 then CHR ''-'' # show_nat (nat (- i)) else show_nat (nat i))"

text \<open>
  \<^verbatim>\<open>date.toISOString().slice(0, 10)\<close>: the UTC calendar date, for the years 0 to 9999. The
  year, month and day come from the number of days since 1970 by the usual civil-calendar
  arithmetic (400-year eras starting in March).
\<close>

definition day_ms :: int where
  "day_ms = 86400000"

definition civil :: "int \<Rightarrow> int \<times> int \<times> int" where
  "civil days =
     (let z = days + 719468; era = z div 146097; doe = z mod 146097;
          yoe = (doe - doe div 1460 + doe div 36524 - doe div 146096) div 365;
          doy = doe - (365 * yoe + yoe div 4 - yoe div 100);
          mp = (5 * doy + 2) div 153;
          d = doy - (153 * mp + 2) div 5 + 1;
          m = (if mp < 10 then mp + 3 else mp - 9);
          y = yoe + era * 400 + (if m \<le> 2 then 1 else 0)
      in (y, m, d))"

definition pad_left :: "nat \<Rightarrow> string \<Rightarrow> string" where
  "pad_left n s = replicate (n - length s) (CHR ''0'') @ s"

definition iso_date :: "time \<Rightarrow> string" where
  "iso_date t = (case civil (t div day_ms) of (y, m, d) \<Rightarrow>
     pad_left 4 (show_int y) @ ''-'' @ pad_left 2 (show_int m) @ ''-'' @ pad_left 2 (show_int d))"

text \<open>\<^verbatim>\<open>toISOString()\<close>, with the time of day.\<close>

definition iso_datetime :: "time \<Rightarrow> string" where
  "iso_datetime t =
     (let ms = t mod day_ms in
      iso_date t @ ''T'' @ pad_left 2 (show_int (ms div 3600000)) @ '':'' @
      pad_left 2 (show_int (ms div 60000 mod 60)) @ '':'' @
      pad_left 2 (show_int (ms div 1000 mod 60)) @ ''.'' @ pad_left 3 (show_int (ms mod 1000)) @ ''Z'')"

lemma trim_blank: "trim s = [] \<longleftrightarrow> list_all js_space s"
  by (induction s) (auto simp: trim_def list_all_iff dropWhile_eq_Nil_conv)

lemma dropWhile_idem: "dropWhile P (dropWhile P xs) = dropWhile P xs"
  by (induction xs) auto

subsection \<open>Stable sorting by a key\<close>

text \<open>
  \<^verbatim>\<open>rows.sort((a, b) => b.k - a.k)\<close>: \<^verbatim>\<open>Array.prototype.sort\<close> is stable, and so is
  \<open>sort_key\<close>.
\<close>

definition sort_desc :: "('r \<Rightarrow> int) \<Rightarrow> 'r list \<Rightarrow> 'r list" where
  "sort_desc k rows = sort_key (\<lambda>r. - k r) rows"

definition sort_asc :: "('r \<Rightarrow> int) \<Rightarrow> 'r list \<Rightarrow> 'r list" where
  "sort_asc k rows = sort_key k rows"

lemma set_sort_desc [simp]: "set (sort_desc k rows) = set rows"
  by (simp add: sort_desc_def)

lemma set_sort_asc [simp]: "set (sort_asc k rows) = set rows"
  by (simp add: sort_asc_def)

lemma length_sort_desc [simp]: "length (sort_desc k rows) = length rows"
  by (simp add: sort_desc_def)

lemma sort_desc_Nil [simp]: "sort_desc k rows = [] \<longleftrightarrow> rows = []"
  by (metis set_empty set_sort_desc)

lemma sort_desc_hd_max:
  assumes "sort_desc k rows = r # rs" and "x \<in> set rows"
  shows "k x \<le> k r"
proof -
  have "sorted (map (\<lambda>r. - k r) (sort_desc k rows))"
    by (simp add: sort_desc_def)
  moreover have "x \<in> set (r # rs)"
    using assms set_sort_desc by metis
  ultimately show ?thesis
    using assms(1) by auto
qed

lemma sort_asc_hd_min:
  assumes "sort_asc k rows = r # rs" and "x \<in> set rows"
  shows "k r \<le> k x"
proof -
  have "sorted (map k (sort_asc k rows))"
    by (simp add: sort_asc_def)
  moreover have "x \<in> set (r # rs)"
    using assms set_sort_asc by metis
  ultimately show ?thesis
    using assms(1) by auto
qed

lemma sort_desc_first:
  assumes "sort_desc k rows = r # rs"
  shows "r \<in> set rows" and "\<forall>x \<in> set rows. k x \<le> k r" and "hd (filter (\<lambda>y. k y = k r) rows) = r"
proof -
  show "r \<in> set rows"
    using assms set_sort_desc [of k rows] by (metis list.set_intros(1))
  show "\<forall>x \<in> set rows. k x \<le> k r"
    using sort_desc_hd_max [OF assms] by blast
  have "filter (\<lambda>y. - k y = - k r) (sort_key (\<lambda>y. - k y) rows) = filter (\<lambda>y. - k y = - k r) rows"
    by (rule sort_key_stable)
  then have "filter (\<lambda>y. k y = k r) rows = filter (\<lambda>y. k y = k r) (sort_desc k rows)"
    by (simp add: sort_desc_def)
  also have "\<dots> = r # filter (\<lambda>y. k y = k r) rs"
    by (simp add: assms)
  finally show "hd (filter (\<lambda>y. k y = k r) rows) = r" by simp
qed

text \<open>The newest of rows in insertion order: a later row wins only with a greater key.\<close>

lemma sort_desc_append_newer:
  assumes "\<forall>y \<in> set rows. k y < k x"
  shows "hd (sort_desc k (rows @ [x])) = x"
proof -
  obtain r rs where rs: "sort_desc k (rows @ [x]) = r # rs"
    by (metis append_is_Nil_conv list.exhaust not_Cons_self2 sort_desc_Nil)
  note first = sort_desc_first [OF rs]
  have "r = x"
  proof (rule ccontr)
    assume "r \<noteq> x"
    then have "k r < k x" using first(1) assms by auto
    then show False using first(2) by auto
  qed
  then show ?thesis by (simp add: rs)
qed

lemma sort_desc_append_older:
  assumes "sort_desc k rows = e # es" and "k x \<le> k e"
  shows "hd (sort_desc k (rows @ [x])) = e"
proof -
  obtain r rs where rs: "sort_desc k (rows @ [x]) = r # rs"
    by (metis append_is_Nil_conv list.exhaust not_Cons_self2 sort_desc_Nil)
  note first = sort_desc_first [OF rs] and old = sort_desc_first [OF assms(1)]
  have key: "k r = k e"
    using first(1,2) old(1,2) assms(2) by (auto intro: antisym)
  have ne: "filter (\<lambda>y. k y = k e) rows \<noteq> []"
    using old(1) by (auto simp: filter_empty_conv)
  have "r = hd (filter (\<lambda>y. k y = k e) (rows @ [x]))"
    using first(3) unfolding key by (rule sym)
  also have "\<dots> = hd (filter (\<lambda>y. k y = k e) rows)"
    unfolding filter_append by (rule hd_append2 [OF ne])
  also have "\<dots> = e" by (rule old(3))
  finally show ?thesis unfolding rs by simp
qed

subsection \<open>Object literals as tables\<close>

text \<open>
  The names every object literal inherits from \<^verbatim>\<open>Object.prototype\<close>: \<^verbatim>\<open>table[name]\<close>
  answers something truthy for them.
\<close>

definition proto_keys :: "string list" where
  "proto_keys = [''constructor'', ''__defineGetter__'', ''__defineSetter__'', ''hasOwnProperty'',
     ''__lookupGetter__'', ''__lookupSetter__'', ''isPrototypeOf'', ''propertyIsEnumerable'',
     ''toString'', ''valueOf'', ''__proto__'', ''toLocaleString'']"

end
