(* ===== verification/Rows.thy ===== *)
theory Rows
  imports Desk_Prelude
begin

text \<open>
  The database rows, and the input objects of \<^verbatim>\<open>repositories/types.ts\<close> and of the
  repository interfaces. Every row record carries a prefix for its fields (\<open>tn_\<close> for a
  tender, \<open>cd_\<close> for a client document, ...); \<open>org\<close> is the column
  \<^verbatim>\<open>organizationId\<close> and \<open>company\<close> is \<^verbatim>\<open>clientCompanyId\<close>. A nullable column is
  an option. In a create object \<open>None\<close> stands for both \<^verbatim>\<open>undefined\<close> and
  \<^verbatim>\<open>null\<close> of an optional field, which every \<^verbatim>\<open>??\<close> default treats alike; in an
  update object the outer option is \<^verbatim>\<open>undefined\<close> and the inner one \<^verbatim>\<open>null\<close>.
\<close>

subsection \<open>Organisations and users\<close>

record organization =
  og_id :: ident
  og_name :: string
  og_createdAt :: time
  og_updatedAt :: time

record update_organization =
  uog_name :: "string option"

datatype user_role = Owner | BidManager | Presales | Finance | DocController | Reviewer

definition role_name :: "user_role \<Rightarrow> string" where
  "role_name r = (case r of Owner \<Rightarrow> ''Owner'' | BidManager \<Rightarrow> ''BidManager''
     | Presales \<Rightarrow> ''Presales'' | Finance \<Rightarrow> ''Finance''
     | DocController \<Rightarrow> ''DocController'' | Reviewer \<Rightarrow> ''Reviewer'')"

record user =
  us_id :: ident
  us_email :: string
  us_name :: string
  us_password :: "string option"
  us_role :: user_role
  us_org :: ident
  us_createdAt :: time
  us_updatedAt :: time

record create_user =
  cus_email :: string
  cus_name :: string
  cus_role :: user_role
  cus_org :: ident
  cus_password :: "string option"

record update_user =
  uus_email :: "string option"
  uus_name :: "string option"
  uus_role :: "user_role option"

subsection \<open>Client companies, tenders, documents\<close>

record client_company =
  cc_id :: ident
  cc_name :: string
  cc_org :: ident
  cc_createdAt :: time
  cc_updatedAt :: time

record create_company =
  ccc_name :: string
  ccc_org :: ident

record update_company =
  ucc_name :: "string option"

record tender =
  tn_id :: ident
  tn_title :: string
  tn_source :: string
  tn_status :: string
  tn_org :: ident
  tn_company :: ident
  tn_sector :: "string option"
  tn_sectorCategory :: "string option"
  tn_sectorConfidence :: "rat option"
  tn_sectorClassifiedAt :: "time option"
  tn_sectorInputHash :: "string option"
  tn_sectorModel :: "string option"
  tn_createdAt :: time
  tn_updatedAt :: time

record create_tender =
  ctn_title :: string
  ctn_org :: ident
  ctn_company :: ident
  ctn_source :: "string option"
  ctn_status :: "string option"

record update_tender =
  utn_title :: "string option"
  utn_status :: "string option"
  utn_source :: "string option"
  utn_sector :: "string option option"
  utn_sectorCategory :: "string option option"
  utn_sectorConfidence :: "rat option option"
  utn_sectorClassifiedAt :: "time option option"
  utn_sectorInputHash :: "string option option"
  utn_sectorModel :: "string option option"

record client_document =
  cd_id :: ident
  cd_filename :: string
  cd_documentType :: string
  cd_sensitivity :: string
  cd_state :: string
  cd_expiresAt :: "time option"
  cd_storageKey :: "string option"
  cd_contentType :: "string option"
  cd_sizeBytes :: "int option"
  cd_company :: ident
  cd_org :: ident
  cd_createdAt :: time
  cd_updatedAt :: time

record create_document =
  ccd_filename :: string
  ccd_company :: ident
  ccd_org :: ident
  ccd_documentType :: "string option"
  ccd_sensitivity :: "string option"
  ccd_state :: "string option"
  ccd_expiresAt :: "time option"
  ccd_storageKey :: "string option"
  ccd_contentType :: "string option"
  ccd_sizeBytes :: "int option"

record update_document =
  ucd_filename :: "string option"
  ucd_documentType :: "string option"
  ucd_sensitivity :: "string option"
  ucd_state :: "string option"
  ucd_expiresAt :: "time option option"
  ucd_storageKey :: "string option option"
  ucd_contentType :: "string option option"
  ucd_sizeBytes :: "int option option"

record audit_event =
  ae_id :: ident
  ae_action :: string
  ae_entityType :: string
  ae_entityId :: string
  ae_userId :: "ident option"
  ae_org :: ident
  ae_details :: json
  ae_timestamp :: time

record create_audit =
  cae_action :: string
  cae_entityType :: string
  cae_entityId :: string
  cae_userId :: "ident option"
  cae_org :: ident
  cae_details :: "json option"

subsection \<open>Compliance\<close>

record compliance_matrix =
  cm_id :: ident
  cm_tenderId :: ident
  cm_org :: ident
  cm_version :: int
  cm_status :: string
  cm_generatedAt :: time
  cm_createdAt :: time
  cm_updatedAt :: time

record create_matrix =
  ccm_tenderId :: ident
  ccm_org :: ident
  ccm_version :: int
  ccm_status :: "string option"
  ccm_generatedAt :: "time option"

record update_matrix =
  ucm_status :: "string option"

text \<open>A missing owner (\<^verbatim>\<open>undefined\<close>) is kept by the in-memory table; the database refuses it.\<close>

record compliance_item =
  ci_id :: ident
  ci_matrixId :: ident
  ci_org :: ident
  ci_requirementId :: string
  ci_requirementText :: string
  ci_category :: string
  ci_owner :: "string option"
  ci_risk :: string
  ci_status :: string
  ci_dueDate :: "time option"
  ci_createdAt :: time
  ci_updatedAt :: time

record create_item =
  cci_matrixId :: ident
  cci_org :: ident
  cci_requirementId :: string
  cci_requirementText :: string
  cci_category :: string
  cci_owner :: "string option"
  cci_risk :: string
  cci_status :: string
  cci_dueDate :: "time option"

record update_item =
  uci_owner :: "string option"
  uci_status :: "string option"
  uci_risk :: "string option"
  uci_dueDate :: "time option option"

record tender_requirement =
  tr_id :: ident
  tr_tenderId :: ident
  tr_org :: ident
  tr_category :: string
  tr_text :: string
  tr_risk :: string
  tr_owner :: "string option"
  tr_source :: string
  tr_createdAt :: time
  tr_updatedAt :: time

record create_requirement =
  ctr_tenderId :: ident
  ctr_org :: ident
  ctr_category :: string
  ctr_text :: string
  ctr_risk :: "string option"
  ctr_owner :: "string option"
  ctr_source :: "string option"

record update_requirement =
  utr_category :: "string option"
  utr_text :: "string option"
  utr_risk :: "string option"
  utr_owner :: "string option option"

record evidence_link =
  el_id :: ident
  el_org :: ident
  el_itemId :: ident
  el_documentId :: ident
  el_note :: "string option"
  el_createdAt :: time
  el_updatedAt :: time

record create_evidence =
  cel_org :: ident
  cel_itemId :: ident
  cel_documentId :: ident
  cel_note :: "string option"

record update_evidence =
  uel_note :: "string option option"

subsection \<open>PDPL\<close>

record consent_event =
  ce_id :: ident
  ce_org :: ident
  ce_subjectEmail :: string
  ce_subjectUserId :: "ident option"
  ce_purpose :: string
  ce_state :: string
  ce_source :: string
  ce_recordedBy :: "ident option"
  ce_details :: json
  ce_recordedAt :: time
  ce_createdAt :: time
  ce_updatedAt :: time

record create_consent =
  cce_org :: ident
  cce_subjectEmail :: string
  cce_subjectUserId :: "ident option"
  cce_purpose :: string
  cce_state :: string
  cce_source :: "string option"
  cce_recordedBy :: "ident option"
  cce_details :: "json option"

record subject_request =
  ds_id :: ident
  ds_org :: ident
  ds_type :: string
  ds_subjectEmail :: string
  ds_status :: string
  ds_requestedBy :: "ident option"
  ds_requestedAt :: time
  ds_decidedBy :: "ident option"
  ds_decidedAt :: "time option"
  ds_completedAt :: "time option"
  ds_notes :: "string option"
  ds_payload :: json
  ds_createdAt :: time
  ds_updatedAt :: time

record create_request =
  cds_org :: ident
  cds_type :: string
  cds_subjectEmail :: string
  cds_requestedBy :: "ident option"
  cds_notes :: "string option"

record update_request =
  uds_status :: "string option"
  uds_decidedBy :: "ident option option"
  uds_decidedAt :: "time option option"
  uds_completedAt :: "time option option"
  uds_notes :: "string option option"
  uds_payload :: "json option"

record tender_access =
  ta_id :: ident
  ta_org :: ident
  ta_userId :: ident
  ta_tenderId :: ident
  ta_role :: string
  ta_grantedBy :: "ident option"
  ta_grantedAt :: time
  ta_createdAt :: time
  ta_updatedAt :: time

record create_access =
  cta_org :: ident
  cta_userId :: ident
  cta_tenderId :: ident
  cta_role :: string
  cta_grantedBy :: "ident option"

record update_access =
  uta_role :: "string option"

record retention_action =
  ra_id :: ident
  ra_org :: ident
  ra_documentId :: ident
  ra_action :: string
  ra_reason :: string
  ra_requestedBy :: ident
  ra_requestedAt :: time
  ra_status :: string
  ra_decidedBy :: "ident option"
  ra_decidedAt :: "time option"
  ra_executedAt :: "time option"
  ra_createdAt :: time
  ra_updatedAt :: time

record create_retention =
  cra_org :: ident
  cra_documentId :: ident
  cra_action :: string
  cra_reason :: string
  cra_requestedBy :: ident

record update_retention =
  ura_status :: "string option"
  ura_decidedBy :: "ident option option"
  ura_decidedAt :: "time option option"
  ura_executedAt :: "time option option"

record dpo_contact =
  dc_id :: ident
  dc_org :: ident
  dc_name :: string
  dc_email :: string
  dc_phone :: "string option"
  dc_authorityEmail :: string
  dc_retentionPolicyDays :: int
  dc_updatedBy :: "ident option"
  dc_createdAt :: time
  dc_updatedAt :: time

record upsert_dpo =
  udc_org :: ident
  udc_name :: string
  udc_email :: string
  udc_phone :: "string option"
  udc_authorityEmail :: string
  udc_retentionPolicyDays :: "int option"
  udc_updatedBy :: "ident option"

record training_record =
  dt_id :: ident
  dt_org :: ident
  dt_userId :: "ident option"
  dt_subjectName :: string
  dt_subjectEmail :: string
  dt_topic :: string
  dt_provider :: "string option"
  dt_completedAt :: time
  dt_validUntil :: "time option"
  dt_evidenceRef :: "string option"
  dt_evidenceDocumentId :: "ident option"
  dt_notes :: "string option"
  dt_recordedBy :: ident
  dt_createdAt :: time
  dt_updatedAt :: time

record create_training =
  cdt_org :: ident
  cdt_userId :: "ident option"
  cdt_subjectName :: string
  cdt_subjectEmail :: string
  cdt_topic :: string
  cdt_provider :: "string option"
  cdt_completedAt :: time
  cdt_validUntil :: "time option"
  cdt_evidenceRef :: "string option"
  cdt_evidenceDocumentId :: "ident option"
  cdt_notes :: "string option"
  cdt_recordedBy :: ident

record update_training =
  udt_subjectName :: "string option"
  udt_subjectEmail :: "string option"
  udt_topic :: "string option"
  udt_provider :: "string option option"
  udt_completedAt :: "time option"
  udt_validUntil :: "time option option"
  udt_evidenceRef :: "string option option"
  udt_evidenceDocumentId :: "ident option option"
  udt_notes :: "string option option"

subsection \<open>Ingestion\<close>

record ingestion_job =
  ij_id :: ident
  ij_org :: ident
  ij_kind :: string
  ij_status :: string
  ij_payload :: json
  ij_result :: json
  ij_errorMessage :: "string option"
  ij_attempts :: int
  ij_claimedBy :: "string option"
  ij_claimedAt :: "time option"
  ij_completedAt :: "time option"
  ij_createdBy :: "ident option"
  ij_createdAt :: time
  ij_updatedAt :: time

record create_job =
  cij_org :: ident
  cij_kind :: string
  cij_payload :: json
  cij_createdBy :: "ident option"

record update_job =
  uij_status :: "string option"
  uij_result :: "json option"
  uij_errorMessage :: "string option option"
  uij_claimedBy :: "string option option"
  uij_claimedAt :: "time option option"
  uij_completedAt :: "time option option"
  uij_attempts :: "int option"

record inbound_email =
  ie_id :: ident
  ie_messageId :: string
  ie_org :: "ident option"
  ie_fromAddress :: string
  ie_toAddress :: string
  ie_subject :: "string option"
  ie_body :: string
  ie_status :: string
  ie_routedAction :: "string option"
  ie_routedEntityType :: "string option"
  ie_routedEntityId :: "string option"
  ie_rejectionReason :: "string option"
  ie_receivedAt :: time
  ie_createdAt :: time

record create_email =
  cie_messageId :: string
  cie_org :: "ident option"
  cie_fromAddress :: string
  cie_toAddress :: string
  cie_subject :: "string option"
  cie_body :: string
  cie_status :: string
  cie_routedAction :: "string option"
  cie_routedEntityType :: "string option"
  cie_routedEntityId :: "string option"
  cie_rejectionReason :: "string option"
  cie_receivedAt :: "time option"

record api_key =
  ik_id :: ident
  ik_org :: ident
  ik_name :: string
  ik_keyPrefix :: string
  ik_keyHash :: string
  ik_createdBy :: ident
  ik_createdAt :: time
  ik_lastUsedAt :: "time option"
  ik_revokedAt :: "time option"

record create_api_key =
  cik_org :: ident
  cik_name :: string
  cik_keyPrefix :: string
  cik_keyHash :: string
  cik_createdBy :: ident

subsection \<open>Billing and model usage\<close>

record usage_log =
  lu_id :: ident
  lu_org :: ident
  lu_tenderId :: "ident option"
  lu_provider :: string
  lu_model :: string
  lu_promptVersion :: "string option"
  lu_jobType :: "string option"
  lu_inputTokens :: "int option"
  lu_outputTokens :: "int option"
  lu_totalTokens :: "int option"
  lu_estimatedCost :: "rat option"
  lu_status :: string
  lu_errorMessage :: "string option"
  lu_createdAt :: time

record create_usage =
  clu_org :: ident
  clu_tenderId :: "ident option"
  clu_provider :: string
  clu_model :: string
  clu_promptVersion :: "string option"
  clu_jobType :: "string option"
  clu_inputTokens :: "int option"
  clu_outputTokens :: "int option"
  clu_totalTokens :: "int option"
  clu_estimatedCost :: "rat option"
  clu_status :: "string option"
  clu_errorMessage :: "string option"

record daily_totals =
  dy_requestCount :: int
  dy_totalTokens :: int
  dy_totalCost :: rat

record subscription =
  sb_id :: ident
  sb_org :: ident
  sb_planCode :: string
  sb_status :: string
  sb_stripeCustomerId :: "string option"
  sb_stripeSubscriptionId :: "string option"
  sb_periodStart :: "time option"
  sb_periodEnd :: "time option"
  sb_cancelAtPeriodEnd :: bool
  sb_createdAt :: time
  sb_updatedAt :: time

record upsert_subscription =
  usb_org :: ident
  usb_planCode :: string
  usb_status :: string
  usb_stripeCustomerId :: "string option"
  usb_stripeSubscriptionId :: "string option"
  usb_periodStart :: "time option"
  usb_periodEnd :: "time option"
  usb_cancelAtPeriodEnd :: "bool option"

record usage_counter =
  uc_id :: ident
  uc_org :: ident
  uc_date :: time
  uc_metric :: string
  uc_count :: int
  uc_createdAt :: time
  uc_updatedAt :: time

subsection \<open>Webhooks\<close>

record webhook_subscription =
  ws_id :: ident
  ws_org :: ident
  ws_url :: string
  ws_secret :: string
  ws_eventTypes :: "string list"
  ws_active :: bool
  ws_description :: "string option"
  ws_createdBy :: ident
  ws_createdAt :: time
  ws_updatedAt :: time

record create_webhook =
  cws_org :: ident
  cws_url :: string
  cws_secret :: string
  cws_eventTypes :: "string list"
  cws_active :: "bool option"
  cws_description :: "string option"
  cws_createdBy :: ident

record update_webhook =
  uws_url :: "string option"
  uws_eventTypes :: "string list option"
  uws_active :: "bool option"
  uws_description :: "string option option"
  uws_secret :: "string option"

record webhook_delivery =
  wd_id :: ident
  wd_subscriptionId :: ident
  wd_org :: ident
  wd_eventType :: string
  wd_payload :: json
  wd_status :: string
  wd_attempts :: int
  wd_lastError :: "string option"
  wd_responseStatus :: "int option"
  wd_lastTriedAt :: "time option"
  wd_deliveredAt :: "time option"
  wd_createdAt :: time
  wd_updatedAt :: time

record create_delivery =
  cwd_subscriptionId :: ident
  cwd_org :: ident
  cwd_eventType :: string
  cwd_payload :: json

record update_delivery =
  uwd_status :: "string option"
  uwd_attempts :: "int option"
  uwd_lastError :: "string option option"
  uwd_responseStatus :: "int option option"
  uwd_lastTriedAt :: "time option option"
  uwd_deliveredAt :: "time option option"

end
