(* ===== verification/World.thy ===== *)
theory World
  imports Rows
begin

text \<open>
  The state of the API process: one table per repository of
  \<^verbatim>\<open>src/apps/api/src/repositories/fake\<close> (the in-memory implementations of the
  repository interfaces), the supply of random identifiers and the clock. A table is a
  JavaScript \<^verbatim>\<open>Map\<close>: an association list in insertion order, where setting an existing
  key keeps its position. \<^verbatim>\<open>randomUUID()\<close> and \<^verbatim>\<open>new Date()\<close> read the next value of a
  stream that the world carries, so every call has its own reading.
\<close>

type_synonym 'r tbl = "(ident \<times> 'r) list"

record world =
  w_uuid :: "nat \<Rightarrow> ident"
  w_uuid_n :: nat
  w_clock :: "nat \<Rightarrow> time"
  w_ticks :: nat
  w_orgs :: "organization list"
  w_users :: "user tbl"
  w_companies :: "client_company tbl"
  w_tenders :: "tender tbl"
  w_documents :: "client_document tbl"
  w_audit :: "audit_event tbl"
  w_matrices :: "compliance_matrix tbl"
  w_items :: "compliance_item tbl"
  w_requirements :: "tender_requirement tbl"
  w_evidence :: "evidence_link tbl"
  w_consents :: "consent_event tbl"
  w_requests :: "subject_request tbl"
  w_access :: "tender_access tbl"
  w_retention :: "retention_action tbl"
  w_dpo :: "dpo_contact tbl"
  w_training :: "training_record tbl"
  w_jobs :: "ingestion_job tbl"
  w_emails :: "inbound_email tbl"
  w_keys :: "api_key tbl"
  w_llm :: "usage_log list"
  w_subscriptions :: "subscription tbl"
  w_counters :: "usage_counter tbl"
  w_hooks :: "webhook_subscription tbl"
  w_deliveries :: "webhook_delivery tbl"

type_synonym 'a wact = "(world, 'a) act"

subsection \<open>Identifiers, clock, table writes\<close>

definition uuidA :: "ident wact" where
  "uuidA w = (Inr (w_uuid w (w_uuid_n w)), w\<lparr>w_uuid_n := Suc (w_uuid_n w)\<rparr>)"

definition nowA :: "time wact" where
  "nowA w = (Inr (w_clock w (w_ticks w)), w\<lparr>w_ticks := Suc (w_ticks w)\<rparr>)"

definition modA :: "(world \<Rightarrow> world) \<Rightarrow> unit wact" where
  "modA f w = (Inr (), f w)"

definition rowsT :: "'r tbl \<Rightarrow> 'r list" where
  "rowsT t = map snd t"

definition getT :: "'r tbl \<Rightarrow> ident \<Rightarrow> 'r option" where
  "getT t k = map_of t k"

definition setT :: "ident \<Rightarrow> 'r \<Rightarrow> 'r tbl \<Rightarrow> 'r tbl" where
  "setT k r t = AList.update k r t"

definition delT :: "ident \<Rightarrow> 'r tbl \<Rightarrow> 'r tbl" where
  "delT k t = AList.delete k t"

definition keysT :: "'r tbl \<Rightarrow> ident set" where
  "keysT t = fst ` set t"

text \<open>Mutating every row in place: \<^verbatim>\<open>for (const e of records.values()) ...\<close>.\<close>

definition mapT :: "('r \<Rightarrow> 'r) \<Rightarrow> 'r tbl \<Rightarrow> 'r tbl" where
  "mapT f t = map (\<lambda>(k, r). (k, f r)) t"

text \<open>An optional instant that defaults to the clock: \<^verbatim>\<open>now: Date = new Date()\<close>.\<close>

definition nowOr :: "time option \<Rightarrow> time wact" where
  "nowOr t = (case t of Some u \<Rightarrow> ret u | None \<Rightarrow> nowA)"

lemma uuidA_apply [act_simps]:
  "uuidA w = (Inr (w_uuid w (w_uuid_n w)), w\<lparr>w_uuid_n := Suc (w_uuid_n w)\<rparr>)"
  by (simp add: uuidA_def)

lemma nowA_apply [act_simps]:
  "nowA w = (Inr (w_clock w (w_ticks w)), w\<lparr>w_ticks := Suc (w_ticks w)\<rparr>)"
  by (simp add: nowA_def)

lemma modA_apply [simp, act_simps]: "modA f w = (Inr (), f w)"
  by (simp add: modA_def)

lemma keeps_uuidA [intro]: "(\<And>w n. P w \<Longrightarrow> P (w\<lparr>w_uuid_n := n\<rparr>)) \<Longrightarrow> keeps P uuidA"
  by (simp add: keeps_def uuidA_def)

lemma keeps_nowA [intro]: "(\<And>w n. P w \<Longrightarrow> P (w\<lparr>w_ticks := n\<rparr>)) \<Longrightarrow> keeps P nowA"
  by (simp add: keeps_def nowA_def)

lemma keeps_modA [intro]: "(\<And>w. P w \<Longrightarrow> P (f w)) \<Longrightarrow> keeps P (modA f)"
  by (simp add: keeps_def)

lemma getT_setT [tbl_simps]: "getT (setT k r t) j = (if j = k then Some r else getT t j)"
  by (simp add: getT_def setT_def update_conv')

lemma getT_delT [tbl_simps]: "getT (delT k t) j = (if j = k then None else getT t j)"
  by (simp add: getT_def delT_def delete_conv')

lemma getT_mapT [tbl_simps]: "getT (mapT f t) j = map_option f (getT t j)"
  by (induction t) (auto simp: getT_def mapT_def)

lemma keysT_mapT [simp]: "keysT (mapT f t) = keysT t"
  by (force simp: keysT_def mapT_def)

lemma keysT_setT [simp]: "keysT (setT k r t) = insert k (keysT t)"
  by (induction t) (auto simp: keysT_def setT_def)

lemma keysT_delT [simp]: "keysT (delT k t) = keysT t - {k}"
  by (force simp: keysT_def delT_def AList.delete_eq)

lemma getT_None: "getT t k = None \<longleftrightarrow> k \<notin> keysT t"
  by (simp add: getT_def keysT_def map_of_eq_None_iff)

lemma rowsT_mapT [simp]: "rowsT (mapT f t) = map f (rowsT t)"
  by (induction t) (auto simp: rowsT_def mapT_def)

text \<open>Adding under a new key appends the row.\<close>

lemma setT_fresh: "k \<notin> keysT t \<Longrightarrow> setT k r t = t @ [(k, r)]"
  by (induction t) (auto simp: setT_def keysT_def)

lemma rowsT_setT_fresh: "k \<notin> keysT t \<Longrightarrow> rowsT (setT k r t) = rowsT t @ [r]"
  by (simp add: setT_fresh rowsT_def)

lemma rowsT_getT: "getT t k = Some r \<Longrightarrow> r \<in> set (rowsT t)"
  by (force simp: getT_def rowsT_def dest: map_of_SomeD)

lemma set_rowsT_setT: "set (rowsT (setT k r t)) \<subseteq> insert r (set (rowsT t))"
  by (induction t) (auto simp: rowsT_def setT_def)

lemma set_rowsT_delT: "set (rowsT (delT k t)) \<subseteq> set (rowsT t)"
  by (induction t) (auto simp: rowsT_def delT_def)

text \<open>
  A well-formed table: distinct keys, and every row sits under its own \<^verbatim>\<open>id\<close>.
\<close>

definition tbl_ok :: "('r \<Rightarrow> ident) \<Rightarrow> 'r tbl \<Rightarrow> bool" where
  "tbl_ok key t \<longleftrightarrow> distinct (map fst t) \<and> (\<forall>(k, r) \<in> set t. key r = k)"

lemma tbl_ok_Nil [simp]: "tbl_ok key []"
  by (simp add: tbl_ok_def)

lemma tbl_ok_setT: "tbl_ok key t \<Longrightarrow> key r = k \<Longrightarrow> tbl_ok key (setT k r t)"
proof -
  have *: "set (setT k r t) \<subseteq> insert (k, r) (set t)"
    by (induction t) (auto simp: setT_def)
  assume "tbl_ok key t" and "key r = k"
  then show ?thesis
    using * by (auto simp: tbl_ok_def setT_def distinct_update)
qed

lemma tbl_ok_delT: "tbl_ok key t \<Longrightarrow> tbl_ok key (delT k t)"
  by (auto simp: tbl_ok_def delT_def AList.delete_eq distinct_map_filter inj_on_def
      intro: inj_on_subset split: prod.splits)

lemma tbl_ok_mapT: "tbl_ok key t \<Longrightarrow> (\<And>r. key (f r) = key r) \<Longrightarrow> tbl_ok key (mapT f t)"
  by (force simp: tbl_ok_def mapT_def comp_def split_beta)

lemma tbl_ok_getT: "tbl_ok key t \<Longrightarrow> getT t k = Some r \<Longrightarrow> key r = k"
  by (auto simp: tbl_ok_def getT_def dest: map_of_SomeD)

lemma tbl_ok_rowsT: "tbl_ok key t \<Longrightarrow> r \<in> set (rowsT t) \<Longrightarrow> getT t (key r) = Some r"
  by (auto simp: tbl_ok_def getT_def rowsT_def)

lemma set_setT:
  "distinct (map fst t) \<Longrightarrow> set (setT k x t) = insert (k, x) {p \<in> set t. fst p \<noteq> k}"
proof (induction t)
  case (Cons p t)
  then show ?case
    by (cases p; cases "fst p = k") (auto simp: setT_def image_iff)
qed (simp add: setT_def)

lemma set_rowsT_setT_ok:
  assumes "tbl_ok key t" and "r \<in> set (rowsT (setT k x t))"
  shows "r = x \<or> (r \<in> set (rowsT t) \<and> key r \<noteq> k)"
proof -
  obtain j where "(j, r) \<in> set (setT k x t)"
    using assms(2) by (auto simp: rowsT_def)
  then show ?thesis
    using assms(1) by (auto simp: set_setT tbl_ok_def rowsT_def intro: rev_image_eqI)
qed

lemma find_rowsT_in: "List.find P (rowsT t) = Some r \<Longrightarrow> r \<in> set (rowsT t) \<and> P r"
  by (auto simp: find_Some_iff)

subsection \<open>A concrete world for evaluation\<close>

text \<open>
  Empty tables, identifiers \<^verbatim>\<open>u\<close>, \<^verbatim>\<open>uu\<close>, \<^verbatim>\<open>uuu\<close>, ... (all different) and a clock
  that advances a second per reading.
\<close>

definition world0 :: world where
  "world0 = \<lparr>w_uuid = (\<lambda>n. replicate (Suc n) (CHR ''u'')), w_uuid_n = 0,
     w_clock = (\<lambda>n. 1000 * int n), w_ticks = 0,
     w_orgs = [], w_users = [], w_companies = [], w_tenders = [], w_documents = [],
     w_audit = [], w_matrices = [], w_items = [], w_requirements = [], w_evidence = [],
     w_consents = [], w_requests = [], w_access = [], w_retention = [], w_dpo = [],
     w_training = [], w_jobs = [], w_emails = [], w_keys = [], w_llm = [],
     w_subscriptions = [], w_counters = [], w_hooks = [], w_deliveries = []\<rparr>"

lemma world0_uuid_inj: "inj (w_uuid world0)"
  by (rule injI) (simp add: world0_def)

lemma setT_setT: "setT k r' (setT k r t) = setT k r' t"
  by (induction t) (auto simp: setT_def)

lemma delT_setT_fresh: "k \<notin> keysT t \<Longrightarrow> delT k (setT k r t) = t"
  by (force simp: setT_fresh delT_def AList.delete_eq keysT_def intro!: filter_True)

end
