(* ===== verification/Store.thy ===== *)
theory Store
  imports World
begin

text \<open>
  The access pattern every tenant-scoped repository follows (look the row up by id, give up
  unless its \<^verbatim>\<open>organizationId\<close> is the caller's, then patch, stamp and store it), and the
  contract its callers rely on, as locales: what a lookup may return, what an update or a
  delete does to the rows a tenant sees. The repositories interpret the locales, and tenant
  isolation over any sequence of writes is proved here once.
\<close>

subsection \<open>The shared access pattern\<close>

text \<open>\<^verbatim>\<open>const r = records.get(id); return r && r.organizationId === organizationId ? r : null\<close>\<close>

definition scoped :: "('r \<Rightarrow> ident) \<Rightarrow> 'r tbl \<Rightarrow> ident \<Rightarrow> ident \<Rightarrow> 'r option" where
  "scoped org_of t rid org =
     (case getT t rid of Some r \<Rightarrow> (if org_of r = org then Some r else None) | None \<Rightarrow> None)"

definition scoped_update ::
    "(world \<Rightarrow> 'r tbl) \<Rightarrow> (('r tbl \<Rightarrow> 'r tbl) \<Rightarrow> world \<Rightarrow> world) \<Rightarrow> ('r \<Rightarrow> ident) \<Rightarrow> api_error \<Rightarrow>
     (time \<Rightarrow> 'r \<Rightarrow> 'r) \<Rightarrow> ident \<Rightarrow> ident \<Rightarrow> 'r wact" where
  "scoped_update get put org_of err patch rid org =
     bindA (askA (\<lambda>w. scoped org_of (get w) rid org)) (\<lambda>found.
     bindA (orThrow found err) (\<lambda>r.
     bindA nowA (\<lambda>t.
     bindA (modA (put (setT rid (patch t r)))) (\<lambda>_.
     ret (patch t r)))))"

definition scoped_delete ::
    "(world \<Rightarrow> 'r tbl) \<Rightarrow> (('r tbl \<Rightarrow> 'r tbl) \<Rightarrow> world \<Rightarrow> world) \<Rightarrow> ('r \<Rightarrow> ident) \<Rightarrow>
     ident \<Rightarrow> ident \<Rightarrow> bool wact" where
  "scoped_delete get put org_of rid org =
     bindA (askA (\<lambda>w. scoped org_of (get w) rid org)) (\<lambda>found.
       (case found of
          None \<Rightarrow> ret False
        | Some r \<Rightarrow> bindA (modA (put (delT rid))) (\<lambda>_. ret True)))"

text \<open>\<^verbatim>\<open>this.records.set(row.id, row); return row;\<close>\<close>

definition insert_row ::
    "(('r tbl \<Rightarrow> 'r tbl) \<Rightarrow> world \<Rightarrow> world) \<Rightarrow> ident \<Rightarrow> 'r \<Rightarrow> 'r wact" where
  "insert_row put rid r = bindA (modA (put (setT rid r))) (\<lambda>_. ret r)"

definition rows_where :: "('r \<Rightarrow> bool) \<Rightarrow> 'r tbl \<Rightarrow> 'r list" where
  "rows_where P t = filter P (rowsT t)"

lemma insert_row_apply [act_simps]: "insert_row put rid r w = (Inr r, put (setT rid r) w)"
  by (simp add: insert_row_def act_simps)

lemma set_rows_where [simp]: "set (rows_where P t) = {r \<in> set (rowsT t). P r}"
  by (auto simp: rows_where_def)

lemma scoped_Some_iff: "scoped org_of t rid org = Some r \<longleftrightarrow> getT t rid = Some r \<and> org_of r = org"
  by (auto simp: scoped_def split: option.splits)

lemma scoped_org: "scoped org_of t rid org = Some r \<Longrightarrow> org_of r = org"
  by (simp add: scoped_Some_iff)

lemma scoped_setT:
  "scoped org_of (setT k r t) j h = (if j = k then if org_of r = h then Some r else None
                                     else scoped org_of t j h)"
  by (simp add: scoped_def getT_setT)

lemma scoped_delT: "scoped org_of (delT k t) j h = (if j = k then None else scoped org_of t j h)"
  by (simp add: scoped_def getT_delT)

lemma scoped_update_None:
  "scoped org_of (get w) rid org = None \<Longrightarrow>
     scoped_update get put org_of err patch rid org w = (Inl err, w)"
  by (simp add: scoped_update_def bindA_def)

lemma scoped_update_Some:
  "scoped org_of (get w) rid org = Some r \<Longrightarrow> r' = patch (w_clock w (w_ticks w)) r \<Longrightarrow>
     scoped_update get put org_of err patch rid org w
     = (Inr r', put (setT rid r') (w\<lparr>w_ticks := Suc (w_ticks w)\<rparr>))"
  by (simp add: scoped_update_def bindA_def nowA_def)

lemma scoped_update_eq_Inr:
  "scoped_update get put org_of err patch rid org w = (Inr r', w') \<longleftrightarrow>
     (\<exists>r. scoped org_of (get w) rid org = Some r \<and> r' = patch (w_clock w (w_ticks w)) r \<and>
          w' = put (setT rid r') (w\<lparr>w_ticks := Suc (w_ticks w)\<rparr>))"
  by (cases "scoped org_of (get w) rid org")
     (auto simp: scoped_update_None scoped_update_Some)

lemma keeps_scoped_update:
  assumes "\<And>w n. P w \<Longrightarrow> P (w\<lparr>w_ticks := n\<rparr>)"
    and "\<And>w r t. P w \<Longrightarrow> scoped org_of (get w) rid org = Some r \<Longrightarrow> P (put (setT rid (patch t r)) w)"
    and "\<And>w n. get (w\<lparr>w_ticks := n\<rparr>) = get w"
  shows "keeps P (scoped_update get put org_of err patch rid org)"
  unfolding keeps_def
proof (intro allI impI)
  fix w assume "P w"
  then show "P (snd (scoped_update get put org_of err patch rid org w))"
    using assms by (cases "scoped org_of (get w) rid org")
      (simp_all add: scoped_update_None scoped_update_Some)
qed

lemma scoped_delete_None:
  "scoped org_of (get w) rid org = None \<Longrightarrow> scoped_delete get put org_of rid org w = (Inr False, w)"
  by (simp add: scoped_delete_def bindA_def)

lemma scoped_delete_Some:
  "scoped org_of (get w) rid org = Some r \<Longrightarrow>
     scoped_delete get put org_of rid org w = (Inr True, put (delT rid) w)"
  by (simp add: scoped_delete_def bindA_def)

subsection \<open>Fresh identifiers\<close>

text \<open>
  What \<^verbatim>\<open>randomUUID\<close> promises: it never repeats, so no future value is a key of the table.
\<close>

definition uuid_ok :: "(world \<Rightarrow> 'r tbl) \<Rightarrow> world \<Rightarrow> bool" where
  "uuid_ok get w \<longleftrightarrow> inj (w_uuid w) \<and> (\<forall>i \<ge> w_uuid_n w. w_uuid w i \<notin> keysT (get w))"

lemma uuid_ok_next: "uuid_ok get w \<Longrightarrow> w_uuid w (w_uuid_n w) \<notin> keysT (get w)"
  by (simp add: uuid_ok_def)

lemma uuid_ok_setT:
  assumes "uuid_ok get w" and "get w' = setT (w_uuid w (w_uuid_n w)) r (get w)"
    and "w_uuid w' = w_uuid w" and "w_uuid_n w' = Suc (w_uuid_n w)"
  shows "uuid_ok get w'"
proof -
  have "w_uuid w i \<noteq> w_uuid w (w_uuid_n w)" if "Suc (w_uuid_n w) \<le> i" for i
    using that assms(1) by (auto simp: uuid_ok_def dest: injD)
  then show ?thesis
    using assms by (simp add: uuid_ok_def)
qed

lemma uuid_ok_mono:
  assumes "uuid_ok get w" and "keysT (get w') \<subseteq> keysT (get w)"
    and "w_uuid w' = w_uuid w" and "w_uuid_n w \<le> w_uuid_n w'"
  shows "uuid_ok get w'"
  using assms by (auto simp: uuid_ok_def)

subsection \<open>What a client of a tenant-scoped repository relies on\<close>

locale tenant_reader =
  fixes view :: "ident \<Rightarrow> ident \<Rightarrow> world \<Rightarrow> 'r option"
    and find :: "ident \<Rightarrow> ident \<Rightarrow> 'r option wact"
    and org_of :: "'r \<Rightarrow> ident"
  assumes find_view: "find i g = askA (view i g)"
    and view_org: "view i g w = Some r \<Longrightarrow> org_of r = g"
    and view_same: "view i g w = Some r \<Longrightarrow> view i h w = Some r' \<Longrightarrow> r = r'"
begin

lemma view_unique_org: "view i g w = Some r \<Longrightarrow> g \<noteq> h \<Longrightarrow> view i h w = None"
  by (metis not_None_eq view_org view_same)

lemma find_foreign: "view i g w = Some r \<Longrightarrow> g \<noteq> h \<Longrightarrow> find i h w = (Inr None, w)"
  by (simp add: find_view view_unique_org)

end

locale tenant_writer = tenant_reader +
  fixes upd :: "'p \<Rightarrow> ident \<Rightarrow> ident \<Rightarrow> 'r wact"
  assumes upd_missing: "view i g w = None \<Longrightarrow> \<exists>e. upd p i g w = (Inl e, w)"
    and upd_found: "view i g w = Some r \<Longrightarrow>
          \<exists>r' w'. upd p i g w = (Inr r', w') \<and> view i g w' = Some r'"
    and upd_other: "j \<noteq> i \<Longrightarrow> view j h (snd (upd p i g w)) = view j h w"
begin

lemma upd_iff: "(\<exists>r. fst (upd p i g w) = Inr r) \<longleftrightarrow> view i g w \<noteq> None"
proof (cases "view i g w")
  case None
  then show ?thesis using upd_missing [of i g w p] by auto
next
  case (Some r)
  then show ?thesis using upd_found [of i g w r p] by auto
qed

lemma upd_foreign:
  assumes "view i h w = Some r" and "g \<noteq> h"
  shows "\<exists>e. upd p i g w = (Inl e, w)"
  by (rule upd_missing) (rule view_unique_org [OF assms(1)], use assms(2) in simp)

lemma upd_isolated:
  assumes "g \<noteq> h"
  shows "view j h (snd (upd p i g w)) = view j h w"
proof (cases "j = i")
  case True
  show ?thesis
  proof (cases "view i g w")
    case None
    then show ?thesis using upd_missing [of i g w p] by auto
  next
    case (Some r)
    moreover obtain r' w' where "upd p i g w = (Inr r', w')" "view i g w' = Some r'"
      using Some upd_found by blast
    ultimately show ?thesis
      using True assms view_unique_org [OF _ assms] by simp
  qed
qed (simp add: upd_other)

end

locale tenant_store = tenant_writer +
  fixes del :: "ident \<Rightarrow> ident \<Rightarrow> bool wact"
  assumes del_missing: "view i g w = None \<Longrightarrow> del i g w = (Inr False, w)"
    and del_found: "view i g w = Some r \<Longrightarrow> \<exists>w'. del i g w = (Inr True, w') \<and> (\<forall>h. view i h w' = None)"
    and del_other: "j \<noteq> i \<Longrightarrow> view j h (snd (del i g w)) = view j h w"
begin

lemma del_isolated:
  assumes "g \<noteq> h"
  shows "view j h (snd (del i g w)) = view j h w"
proof (cases "view i g w")
  case None
  then show ?thesis by (simp add: del_missing)
next
  case (Some r)
  then obtain w' where "del i g w = (Inr True, w')" "\<forall>h. view i h w' = None"
    using del_found by blast
  then show ?thesis
    using view_unique_org [OF Some assms] del_other [of j i h g w] by (cases "j = i") simp_all
qed

text \<open>A tenant running any sequence of updates and deletes leaves the others' views alone.\<close>

lemma writes_isolated:
  assumes "g \<noteq> h"
  shows "view j h (fold (\<lambda>(i, patch) w. case patch of Some p \<Rightarrow> snd (upd p i g w)
                                              | None \<Rightarrow> snd (del i g w)) ops w) = view j h w"
  using assms
  by (induction ops arbitrary: w) (auto simp: upd_isolated del_isolated split: option.splits)

end

text \<open>The shared access pattern satisfies the contract, for any table.\<close>

lemma scoped_reader:
  assumes "\<And>i g. view i g = (\<lambda>w. scoped org_of (get w) i g)" and "\<And>i g. fnd i g = askA (view i g)"
  shows "tenant_reader view fnd org_of"
  using assms by unfold_locales (simp_all add: scoped_Some_iff)

lemma scoped_writer:
  assumes view: "\<And>i g. view i g = (\<lambda>w. scoped org_of (get w) i g)"
    and fnd: "\<And>i g. fnd i g = askA (view i g)"
    and upd: "\<And>p i g. upd p i g = scoped_update get put org_of err (patch p) i g"
    and org: "\<And>p t r. org_of (patch p t r) = org_of r"
    and lens: "\<And>f w. get (put f w) = f (get w)" "\<And>w n. get (w\<lparr>w_ticks := n\<rparr>) = get w"
  shows "tenant_writer view fnd org_of upd"
proof (rule tenant_writer.intro, rule scoped_reader [where view = view and fnd = fnd, OF view fnd], rule tenant_writer_axioms.intro)
  show "\<exists>e. upd p i g w = (Inl e, w)" if "view i g w = None" for i g w p
    using that by (simp add: view upd scoped_update_None)
  show "\<exists>r' w'. upd p i g w = (Inr r', w') \<and> view i g w' = Some r'"
    if "view i g w = Some r" for i g w r p
    using that scoped_update_Some [of org_of get w i g r _ "patch p" put err]
    by (auto simp: view upd lens org scoped_setT scoped_org)
  show "view j h (snd (upd p i g w)) = view j h w" if "j \<noteq> i" for j i h p g w
    using that by (cases "scoped org_of (get w) i g")
      (simp_all add: view upd lens scoped_update_None scoped_update_Some scoped_setT)
qed

lemma scoped_store:
  assumes view: "\<And>i g. view i g = (\<lambda>w. scoped org_of (get w) i g)"
    and fnd: "\<And>i g. fnd i g = askA (view i g)"
    and upd: "\<And>p i g. upd p i g = scoped_update get put org_of err (patch p) i g"
    and del: "\<And>i g. del i g = scoped_delete get put org_of i g"
    and org: "\<And>p t r. org_of (patch p t r) = org_of r"
    and lens: "\<And>f w. get (put f w) = f (get w)" "\<And>w n. get (w\<lparr>w_ticks := n\<rparr>) = get w"
  shows "tenant_store view fnd org_of upd del"
proof (rule tenant_store.intro, rule scoped_writer [where view = view and fnd = fnd and upd = upd
      and get = get and put = put and patch = patch and err = err, OF view fnd upd org lens], rule tenant_store_axioms.intro)
  show "del i g w = (Inr False, w)" if "view i g w = None" for i g w
    using that by (simp add: view del scoped_delete_None)
  show "\<exists>w'. del i g w = (Inr True, w') \<and> (\<forall>h. view i h w' = None)"
    if "view i g w = Some r" for i g w r
    using that by (simp add: view del lens scoped_delete_Some scoped_delT)
  show "view j h (snd (del i g w)) = view j h w" if "j \<noteq> i" for j i h g w
    using that by (cases "scoped org_of (get w) i g")
      (simp_all add: view del lens scoped_delete_None scoped_delete_Some scoped_delT)
qed

subsection \<open>What a run does to the world\<close>

text \<open>
  \<open>runs R m\<close>: every run of \<open>m\<close>, whether it returns or throws, relates the world before to the
  world after by \<open>R\<close>. For a reflexive and transitive \<open>R\<close> it is enough that every step does.
\<close>

definition runs :: "(world \<Rightarrow> world \<Rightarrow> bool) \<Rightarrow> 'a wact \<Rightarrow> bool" where
  "runs R m \<longleftrightarrow> (\<forall>w. R w (snd (m w)))"

definition preorder_rel :: "(world \<Rightarrow> world \<Rightarrow> bool) \<Rightarrow> bool" where
  "preorder_rel R \<longleftrightarrow> (\<forall>w. R w w) \<and> (\<forall>a b c. R a b \<longrightarrow> R b c \<longrightarrow> R a c)"

named_theorems runs_rules \<open>how a relation between worlds passes through the steps of a method\<close>

lemma runsD: "runs R m \<Longrightarrow> R w (snd (m w))"
  by (simp add: runs_def)

lemma runsD_eq: "runs R m \<Longrightarrow> m w = (r, w') \<Longrightarrow> R w w'"
  by (metis runsD snd_conv)

lemma runs_ret [runs_rules]: "preorder_rel R \<Longrightarrow> runs R (ret a)"
  by (simp add: runs_def preorder_rel_def)

lemma runs_throw [runs_rules]: "preorder_rel R \<Longrightarrow> runs R (throw e)"
  by (simp add: runs_def preorder_rel_def)

lemma runs_askA [runs_rules]: "preorder_rel R \<Longrightarrow> runs R (askA f)"
  by (simp add: runs_def preorder_rel_def)

lemma runs_throwIf [runs_rules]: "preorder_rel R \<Longrightarrow> runs R (throwIf b e)"
  by (simp add: runs_def preorder_rel_def throwIf_apply)

lemma runs_orThrow [runs_rules]: "preorder_rel R \<Longrightarrow> runs R (orThrow v e)"
  by (cases v) (simp_all add: runs_def preorder_rel_def)

lemma runs_bindA [runs_rules]:
  assumes "preorder_rel R" and "runs R m" and "\<And>a. runs R (f a)"
  shows "runs R (bindA m f)"
  unfolding runs_def
proof
  fix w
  obtain r w1 where m: "m w = (r, w1)" by (cases "m w")
  then have "R w w1" using assms(2) runsD_eq by blast
  moreover have "R w1 (snd (f a w1))" for a using assms(3) runsD by blast
  ultimately show "R w (snd (bindA m f w))"
    using assms(1) unfolding preorder_rel_def bindA_def m by (cases r) auto
qed

lemma runs_tryA [runs_rules]:
  assumes "preorder_rel R" and "runs R m" and "\<And>e. runs R (h e)"
  shows "runs R (tryA m h)"
  unfolding runs_def
proof
  fix w
  obtain r w1 where m: "m w = (r, w1)" by (cases "m w")
  then have "R w w1" using assms(2) runsD_eq by blast
  moreover have "R w1 (snd (h e w1))" for e using assms(3) runsD by blast
  ultimately show "R w (snd (tryA m h w))"
    using assms(1) unfolding preorder_rel_def tryA_def m by (cases r) auto
qed

lemma runs_foldA [runs_rules]:
  "preorder_rel R \<Longrightarrow> (\<And>x a. runs R (f x a)) \<Longrightarrow> runs R (foldA f xs a)"
  by (induction xs arbitrary: a) (simp_all add: runs_ret runs_bindA)

lemma runs_if [runs_rules]: "runs R m \<Longrightarrow> runs R n \<Longrightarrow> runs R (if b then m else n)"
  by simp

lemma runs_case_option [runs_rules]:
  "runs R m \<Longrightarrow> (\<And>a. runs R (f a)) \<Longrightarrow> runs R (case v of None \<Rightarrow> m | Some a \<Rightarrow> f a)"
  by (cases v) simp_all

lemma runs_case_list [runs_rules]:
  "runs R m \<Longrightarrow> (\<And>a as. runs R (f a as)) \<Longrightarrow> runs R (case v of [] \<Rightarrow> m | a # as \<Rightarrow> f a as)"
  by (cases v) simp_all

lemma runs_case_prod [runs_rules]: "(\<And>a b. runs R (f a b)) \<Longrightarrow> runs R (case p of (a, b) \<Rightarrow> f a b)"
  by (cases p) simp

lemma runs_scoped_update:
  assumes "preorder_rel R" and "runs R nowA"
    and "\<And>w r t. scoped org_of (get w) i g = Some r \<Longrightarrow> R w (put (setT i (patch t r)) w)"
    and "\<And>w n. get (w\<lparr>w_ticks := n\<rparr>) = get w"
  shows "runs R (scoped_update get put org_of err patch i g)"
  unfolding runs_def
proof
  fix w
  show "R w (snd (scoped_update get put org_of err patch i g w))"
  proof (cases "scoped org_of (get w) i g")
    case None
    then show ?thesis
      using assms(1) by (simp add: scoped_update_None preorder_rel_def)
  next
    case (Some r)
    let ?w = "w\<lparr>w_ticks := Suc (w_ticks w)\<rparr>"
    have "R w ?w"
      using assms(2) by (auto simp: runs_def nowA_def)
    moreover have "R ?w (put (setT i (patch t r)) ?w)" for t
      by (rule assms(3)) (simp add: assms(4) Some)
    ultimately show ?thesis
      using Some assms(1) unfolding preorder_rel_def by (auto simp: scoped_update_Some)
  qed
qed

subsection \<open>Rows that live by the rules of a state machine\<close>

text \<open>The supply of identifiers only moves forward.\<close>

definition uuid_adv :: "world \<Rightarrow> world \<Rightarrow> bool" where
  "uuid_adv w w' \<longleftrightarrow> w_uuid w' = w_uuid w \<and> w_uuid_n w \<le> w_uuid_n w'"

lemma uuid_adv_preorder [simp]: "preorder_rel uuid_adv"
  by (auto simp: preorder_rel_def uuid_adv_def)

text \<open>
  \<open>row_step get move new w w'\<close>: from \<open>w\<close> to \<open>w'\<close> the rows of the table \<open>get\<close> only changed by
  moves of the row machine \<open>move\<close>, and rows were only added under fresh identifiers, each
  satisfying \<open>new\<close>.
\<close>

inductive row_step ::
    "(world \<Rightarrow> 'r tbl) \<Rightarrow> ('r \<Rightarrow> 'r \<Rightarrow> bool) \<Rightarrow> ('r \<Rightarrow> bool) \<Rightarrow> world \<Rightarrow> world \<Rightarrow> bool"
  for get move new where
  row_same: "get w' = get w \<Longrightarrow> uuid_adv w w' \<Longrightarrow> row_step get move new w w'"
| row_moved: "getT (get w) i = Some r \<Longrightarrow> move r r' \<Longrightarrow> get w' = setT i r' (get w) \<Longrightarrow>
     uuid_adv w w' \<Longrightarrow> row_step get move new w w'"
| row_added: "new r \<Longrightarrow> get w' = setT (w_uuid w (w_uuid_n w)) r (get w) \<Longrightarrow>
     w_uuid w' = w_uuid w \<Longrightarrow> Suc (w_uuid_n w) \<le> w_uuid_n w' \<Longrightarrow> row_step get move new w w'"
| row_trans: "row_step get move new w w1 \<Longrightarrow> row_step get move new w1 w2 \<Longrightarrow>
     row_step get move new w w2"

lemma row_step_refl: "row_step get move new w w"
  by (rule row_same) (simp_all add: uuid_adv_def)

lemma row_step_preorder [simp]: "preorder_rel (row_step get move new)"
  unfolding preorder_rel_def using row_step_refl row_trans by blast

lemma row_step_uuid_ok: "row_step get move new w w' \<Longrightarrow> uuid_ok get w \<Longrightarrow> uuid_ok get w'"
proof (induction rule: row_step.induct)
  case (row_moved w i r r' w')
  then have "i \<in> keysT (get w)" using getT_None [of "get w" i] by auto
  then show ?case
    using row_moved by (auto simp: uuid_ok_def uuid_adv_def)
next
  case (row_added r w' w)
  then show ?case
    by (auto simp: uuid_ok_def dest: injD)
qed (auto simp: uuid_ok_def uuid_adv_def)

text \<open>A row stays, under its identifier, and only ever moves.\<close>

lemma row_step_moves:
  "row_step get move new w w' \<Longrightarrow> uuid_ok get w \<Longrightarrow> getT (get w) i = Some r \<Longrightarrow>
     \<exists>r'. getT (get w') i = Some r' \<and> move\<^sup>*\<^sup>* r r'"
proof (induction arbitrary: r rule: row_step.induct)
  case (row_moved w j x x' w')
  then show ?case by (cases "i = j") (auto simp: getT_setT)
next
  case (row_added x w' w)
  then have "i \<noteq> w_uuid w (w_uuid_n w)"
    using uuid_ok_next [of get w] getT_None [of "get w" i] by auto
  then show ?case using row_added by (simp add: getT_setT)
next
  case (row_trans w w1 w2)
  then obtain r1 where "getT (get w1) i = Some r1" "move\<^sup>*\<^sup>* r r1" by blast
  moreover have "uuid_ok get w1" using row_trans row_step_uuid_ok by blast
  ultimately show ?case using row_trans.IH(2) by (meson rtranclp_trans)
qed simp

locale row_machine =
  fixes get :: "world \<Rightarrow> 'r tbl"
    and move :: "'r \<Rightarrow> 'r \<Rightarrow> bool"
    and new :: "'r \<Rightarrow> bool"
    and ok :: "'r \<Rightarrow> bool"
    and final :: "'r \<Rightarrow> bool"
  assumes move_ok: "move r r' \<Longrightarrow> ok r \<Longrightarrow> ok r'"
    and new_ok: "new r \<Longrightarrow> ok r"
    and final_stuck: "final r \<Longrightarrow> \<not> move r r'"
begin

lemma rows_ok:
  "row_step get move new w w' \<Longrightarrow> \<forall>r \<in> set (rowsT (get w)). ok r \<Longrightarrow> \<forall>r \<in> set (rowsT (get w')). ok r"
proof (induction rule: row_step.induct)
  case (row_moved w i r r' w')
  then have "ok r'" using move_ok rowsT_getT by metis
  then show ?case
    using row_moved set_rowsT_setT [of i r' "get w"] by auto
next
  case (row_added r w' w)
  then show ?case
    using new_ok set_rowsT_setT [of "w_uuid w (w_uuid_n w)" r "get w"] by auto
qed auto

lemma final_frozen:
  "row_step get move new w w' \<Longrightarrow> uuid_ok get w \<Longrightarrow> getT (get w) i = Some r \<Longrightarrow> final r \<Longrightarrow>
     getT (get w') i = Some r"
proof (induction rule: row_step.induct)
  case (row_moved w j x x' w')
  then have "i \<noteq> j" using final_stuck by auto
  then show ?case using row_moved by (simp add: getT_setT)
next
  case (row_added x w' w)
  have "i \<noteq> w_uuid w (w_uuid_n w)"
    using row_added uuid_ok_next [of get w] getT_None [of "get w" i] by auto
  then show ?case using row_added by (simp add: getT_setT)
next
  case (row_trans w w1 w2)
  then show ?case using row_step_uuid_ok by blast
qed simp

end

subsection \<open>Every method only moves the identifier supply forward\<close>

lemma runs_modA: "(\<And>w. R w (f w)) \<Longrightarrow> runs R (modA f)"
  by (simp add: runs_def)

lemma runs_insert_row: "(\<And>w. R w (put (setT i r) w)) \<Longrightarrow> runs R (insert_row put i r)"
  by (simp add: runs_def insert_row_apply)

lemma uuid_adv_uuidA [runs_rules]: "runs uuid_adv uuidA"
  by (simp add: runs_def uuidA_def uuid_adv_def)

lemma uuid_adv_nowA [runs_rules]: "runs uuid_adv nowA"
  by (simp add: runs_def nowA_def uuid_adv_def)

text \<open>A frame together with it: the table \<open>get\<close> is left alone.\<close>

definition frame :: "(world \<Rightarrow> 'r) \<Rightarrow> world \<Rightarrow> world \<Rightarrow> bool" where
  "frame get w w' \<longleftrightarrow> get w' = get w \<and> uuid_adv w w'"

lemma frame_preorder [simp]: "preorder_rel (frame get)"
  by (auto simp: preorder_rel_def frame_def uuid_adv_def)

lemma frame_uuidA [runs_rules]:
  "(\<And>w n. get (w\<lparr>w_uuid_n := n\<rparr>) = get w) \<Longrightarrow> runs (frame get) uuidA"
  by (simp add: runs_def uuidA_def uuid_adv_def frame_def)

lemma frame_nowA [runs_rules]: "(\<And>w n. get (w\<lparr>w_ticks := n\<rparr>) = get w) \<Longrightarrow> runs (frame get) nowA"
  by (simp add: runs_def nowA_def uuid_adv_def frame_def)

lemma frame_row_step: "frame get w w' \<Longrightarrow> row_step get move new w w'"
  by (rule row_same) (simp_all add: frame_def)

lemma runs_frame_row_step: "runs (frame get) m \<Longrightarrow> runs (row_step get move new) m"
  by (simp add: runs_def frame_row_step)

lemma frame_uuid_ok: "frame get w w' \<Longrightarrow> uuid_ok get w \<Longrightarrow> uuid_ok get w'"
  by (auto simp: frame_def uuid_ok_def uuid_adv_def)

end
