(* ===== verification/Repos_Core.thy ===== *)
theory Repos_Core
  imports Store
begin

text \<open>
  The in-memory repositories of organisations, users, client companies, tenders, client
  documents and audit events (\<^verbatim>\<open>repositories/fake\<close>), one definition per method, and
  the tenancy contract of the scoped ones.
\<close>

subsection \<open>fake-organization.repository.ts\<close>

definition orgs_findAll :: "organization list wact" where
  "orgs_findAll = askA w_orgs"

definition org_by_id :: "ident \<Rightarrow> world \<Rightarrow> organization option" where
  "org_by_id i w = List.find (\<lambda>r. og_id r = i) (w_orgs w)"

definition orgs_findById :: "ident \<Rightarrow> organization option wact" where
  "orgs_findById i = askA (org_by_id i)"

definition orgs_create :: "string \<Rightarrow> organization wact" where
  "orgs_create name =
     bindA uuidA (\<lambda>i. bindA nowA (\<lambda>t1. bindA nowA (\<lambda>t2.
       let r = \<lparr>og_id = i, og_name = name, og_createdAt = t1, og_updatedAt = t2\<rparr>
       in bindA (modA (w_orgs_update (\<lambda>rs. rs @ [r]))) (\<lambda>_. ret r))))"

text \<open>The first row with the id, patched; \<open>upd_first\<close> is the in-place write \<^verbatim>\<open>find\<close> gives access to.\<close>

fun upd_first :: "('r \<Rightarrow> bool) \<Rightarrow> ('r \<Rightarrow> 'r) \<Rightarrow> 'r list \<Rightarrow> 'r list" where
  "upd_first P f [] = []"
| "upd_first P f (r # rs) = (if P r then f r # rs else r # upd_first P f rs)"

fun del_first :: "('r \<Rightarrow> bool) \<Rightarrow> 'r list \<Rightarrow> 'r list" where
  "del_first P [] = []"
| "del_first P (r # rs) = (if P r then rs else r # del_first P rs)"

definition og_patch :: "update_organization \<Rightarrow> time \<Rightarrow> organization \<Rightarrow> organization" where
  "og_patch d t r =
     setIf (uog_name d) (\<lambda>v. og_name_update (\<lambda>_. v)) r \<lparr>og_updatedAt := max t (og_updatedAt r + 1)\<rparr>"

definition orgs_update :: "ident \<Rightarrow> update_organization \<Rightarrow> organization wact" where
  "orgs_update i d =
     bindA (askA (org_by_id i)) (\<lambda>found.
     bindA (orThrow found (Plain ''Organization not found'')) (\<lambda>r.
     bindA nowA (\<lambda>t.
     bindA (modA (w_orgs_update (upd_first (\<lambda>x. og_id x = i) (\<lambda>_. og_patch d t r)))) (\<lambda>_.
     ret (og_patch d t r)))))"

definition orgs_delete :: "ident \<Rightarrow> bool wact" where
  "orgs_delete i =
     bindA (askA (org_by_id i)) (\<lambda>found.
     bindA (throwIf (found = None) (Plain ''Organization not found'')) (\<lambda>_.
     bindA (modA (w_orgs_update (del_first (\<lambda>x. og_id x = i)))) (\<lambda>_. ret True)))"

subsection \<open>fake-user.repository.ts\<close>

definition users_findAll :: "ident \<Rightarrow> user list wact" where
  "users_findAll org = askA (\<lambda>w. rows_where (\<lambda>u. us_org u = org) (w_users w))"

definition user_view :: "ident \<Rightarrow> ident \<Rightarrow> world \<Rightarrow> user option" where
  "user_view i org w = scoped us_org (w_users w) i org"

definition users_findById :: "ident \<Rightarrow> ident \<Rightarrow> user option wact" where
  "users_findById i org = askA (user_view i org)"

text \<open>The lookup by e-mail takes no organisation: e-mail is unique in the whole database.\<close>

definition user_by_email :: "string \<Rightarrow> world \<Rightarrow> user option" where
  "user_by_email email w = List.find (\<lambda>u. us_email u = email) (rowsT (w_users w))"

definition users_findByEmail :: "string \<Rightarrow> user option wact" where
  "users_findByEmail email = askA (user_by_email email)"

definition users_create :: "create_user \<Rightarrow> user wact" where
  "users_create d =
     bindA uuidA (\<lambda>i. bindA nowA (\<lambda>t1. bindA nowA (\<lambda>t2.
       insert_row w_users_update i
         \<lparr>us_id = i, us_email = cus_email d, us_name = cus_name d, us_password = cus_password d,
          us_role = cus_role d, us_org = cus_org d, us_createdAt = t1, us_updatedAt = t2\<rparr>)))"

definition us_patch :: "update_user \<Rightarrow> time \<Rightarrow> user \<Rightarrow> user" where
  "us_patch d t r =
     (setIf (uus_role d) (\<lambda>v. us_role_update (\<lambda>_. v))
     (setIf (uus_name d) (\<lambda>v. us_name_update (\<lambda>_. v))
     (setIf (uus_email d) (\<lambda>v. us_email_update (\<lambda>_. v)) r))) \<lparr>us_updatedAt := t\<rparr>"

definition users_update :: "update_user \<Rightarrow> ident \<Rightarrow> ident \<Rightarrow> user wact" where
  "users_update d =
     scoped_update w_users w_users_update us_org
       (Plain ''User not found or not in organization'') (us_patch d)"

definition us_erase :: "string \<Rightarrow> time \<Rightarrow> user \<Rightarrow> user" where
  "us_erase pseudonym t r =
     r\<lparr>us_email := pseudonym, us_name := ''[erased]'', us_password := None, us_updatedAt := t\<rparr>"

definition users_anonymise :: "string \<Rightarrow> ident \<Rightarrow> ident \<Rightarrow> user wact" where
  "users_anonymise pseudonym =
     scoped_update w_users w_users_update us_org
       (Plain ''User not found or not in organization'') (us_erase pseudonym)"

definition users_delete :: "ident \<Rightarrow> ident \<Rightarrow> bool wact" where
  "users_delete = scoped_delete w_users w_users_update us_org"

lemma us_patch_org [simp]: "us_org (us_patch d t r) = us_org r"
  by (simp add: us_patch_def setIf_keep [where f = us_org])

lemma us_patch_id [simp]: "us_id (us_patch d t r) = us_id r"
  by (simp add: us_patch_def setIf_keep [where f = us_id])

interpretation users: tenant_store user_view users_findById us_org users_update users_delete
  by (rule scoped_store [where get = w_users and put = w_users_update and patch = us_patch and
        err = "Plain ''User not found or not in organization''"])
     (auto simp: user_view_def fun_eq_iff users_findById_def users_update_def users_delete_def)

text \<open>Erasure is a write under the same contract.\<close>

interpretation erased_users: tenant_writer user_view users_findById us_org users_anonymise
  by (rule scoped_writer [where get = w_users and put = w_users_update and patch = us_erase and
        err = "Plain ''User not found or not in organization''"])
     (auto simp: user_view_def fun_eq_iff users_findById_def users_anonymise_def us_erase_def)

subsection \<open>fake-client-company.repository.ts\<close>

definition companies_findAll :: "ident \<Rightarrow> client_company list wact" where
  "companies_findAll org = askA (\<lambda>w. rows_where (\<lambda>c. cc_org c = org) (w_companies w))"

definition company_view :: "ident \<Rightarrow> ident \<Rightarrow> world \<Rightarrow> client_company option" where
  "company_view i org w = scoped cc_org (w_companies w) i org"

definition companies_findById :: "ident \<Rightarrow> ident \<Rightarrow> client_company option wact" where
  "companies_findById i org = askA (company_view i org)"

definition companies_create :: "create_company \<Rightarrow> client_company wact" where
  "companies_create d =
     bindA uuidA (\<lambda>i. bindA nowA (\<lambda>t1. bindA nowA (\<lambda>t2.
       insert_row w_companies_update i
         \<lparr>cc_id = i, cc_name = ccc_name d, cc_org = ccc_org d, cc_createdAt = t1, cc_updatedAt = t2\<rparr>)))"

definition cc_patch :: "update_company \<Rightarrow> time \<Rightarrow> client_company \<Rightarrow> client_company" where
  "cc_patch d t r = (setIf (ucc_name d) (\<lambda>v. cc_name_update (\<lambda>_. v)) r) \<lparr>cc_updatedAt := t\<rparr>"

definition companies_update :: "update_company \<Rightarrow> ident \<Rightarrow> ident \<Rightarrow> client_company wact" where
  "companies_update d =
     scoped_update w_companies w_companies_update cc_org
       (Plain ''ClientCompany not found or not in organization'') (cc_patch d)"

definition companies_delete :: "ident \<Rightarrow> ident \<Rightarrow> bool wact" where
  "companies_delete = scoped_delete w_companies w_companies_update cc_org"

lemma cc_patch_org [simp]: "cc_org (cc_patch d t r) = cc_org r"
  by (cases "ucc_name d") (simp_all add: cc_patch_def)

interpretation companies:
  tenant_store company_view companies_findById cc_org companies_update companies_delete
  by (rule scoped_store [where get = w_companies and put = w_companies_update and patch = cc_patch
        and err = "Plain ''ClientCompany not found or not in organization''"])
     (auto simp: company_view_def fun_eq_iff companies_findById_def companies_update_def
       companies_delete_def)

subsection \<open>fake-tender.repository.ts\<close>

definition tenders_findAll :: "ident \<Rightarrow> tender list wact" where
  "tenders_findAll org = askA (\<lambda>w. rows_where (\<lambda>t. tn_org t = org) (w_tenders w))"

definition tender_view :: "ident \<Rightarrow> ident \<Rightarrow> world \<Rightarrow> tender option" where
  "tender_view i org w = scoped tn_org (w_tenders w) i org"

definition tenders_findById :: "ident \<Rightarrow> ident \<Rightarrow> tender option wact" where
  "tenders_findById i org = askA (tender_view i org)"

definition tenders_create :: "create_tender \<Rightarrow> tender wact" where
  "tenders_create d =
     bindA uuidA (\<lambda>i. bindA nowA (\<lambda>t1. bindA nowA (\<lambda>t2.
       insert_row w_tenders_update i
         \<lparr>tn_id = i, tn_title = ctn_title d, tn_source = orElse (ctn_source d) ''manual'',
          tn_status = orElse (ctn_status d) ''intake'', tn_org = ctn_org d,
          tn_company = ctn_company d, tn_sector = None, tn_sectorCategory = None,
          tn_sectorConfidence = None, tn_sectorClassifiedAt = None, tn_sectorInputHash = None,
          tn_sectorModel = None, tn_createdAt = t1, tn_updatedAt = t2\<rparr>)))"

definition tn_patch :: "update_tender \<Rightarrow> time \<Rightarrow> tender \<Rightarrow> tender" where
  "tn_patch d t r =
     (setIf (utn_sectorModel d) (\<lambda>v. tn_sectorModel_update (\<lambda>_. v))
     (setIf (utn_sectorInputHash d) (\<lambda>v. tn_sectorInputHash_update (\<lambda>_. v))
     (setIf (utn_sectorClassifiedAt d) (\<lambda>v. tn_sectorClassifiedAt_update (\<lambda>_. v))
     (setIf (utn_sectorConfidence d) (\<lambda>v. tn_sectorConfidence_update (\<lambda>_. v))
     (setIf (utn_sectorCategory d) (\<lambda>v. tn_sectorCategory_update (\<lambda>_. v))
     (setIf (utn_sector d) (\<lambda>v. tn_sector_update (\<lambda>_. v))
     (setIf (utn_source d) (\<lambda>v. tn_source_update (\<lambda>_. v))
     (setIf (utn_status d) (\<lambda>v. tn_status_update (\<lambda>_. v))
     (setIf (utn_title d) (\<lambda>v. tn_title_update (\<lambda>_. v)) r))))))))) \<lparr>tn_updatedAt := t\<rparr>"

definition tenders_update :: "update_tender \<Rightarrow> ident \<Rightarrow> ident \<Rightarrow> tender wact" where
  "tenders_update d =
     scoped_update w_tenders w_tenders_update tn_org
       (Plain ''Tender not found or not in organization'') (tn_patch d)"

definition tenders_delete :: "ident \<Rightarrow> ident \<Rightarrow> bool wact" where
  "tenders_delete = scoped_delete w_tenders w_tenders_update tn_org"

lemma tn_patch_org [simp]: "tn_org (tn_patch d t r) = tn_org r"
  by (simp add: tn_patch_def setIf_keep [where f = tn_org])

interpretation tenders:
  tenant_store tender_view tenders_findById tn_org tenders_update tenders_delete
  by (rule scoped_store [where get = w_tenders and put = w_tenders_update and patch = tn_patch
        and err = "Plain ''Tender not found or not in organization''"])
     (auto simp: tender_view_def fun_eq_iff tenders_findById_def tenders_update_def
       tenders_delete_def)

subsection \<open>fake-client-document.repository.ts\<close>

definition documents_findAll :: "ident \<Rightarrow> client_document list wact" where
  "documents_findAll org = askA (\<lambda>w. rows_where (\<lambda>d. cd_org d = org) (w_documents w))"

definition document_view :: "ident \<Rightarrow> ident \<Rightarrow> world \<Rightarrow> client_document option" where
  "document_view i org w = scoped cd_org (w_documents w) i org"

definition documents_findById :: "ident \<Rightarrow> ident \<Rightarrow> client_document option wact" where
  "documents_findById i org = askA (document_view i org)"

definition documents_create :: "create_document \<Rightarrow> client_document wact" where
  "documents_create d =
     bindA uuidA (\<lambda>i. bindA nowA (\<lambda>t1. bindA nowA (\<lambda>t2.
       insert_row w_documents_update i
         \<lparr>cd_id = i, cd_filename = ccd_filename d,
          cd_documentType = orElse (ccd_documentType d) ''other'',
          cd_sensitivity = orElse (ccd_sensitivity d) ''low'',
          cd_state = orElse (ccd_state d) ''active'', cd_expiresAt = ccd_expiresAt d,
          cd_storageKey = ccd_storageKey d, cd_contentType = ccd_contentType d,
          cd_sizeBytes = ccd_sizeBytes d, cd_company = ccd_company d, cd_org = ccd_org d,
          cd_createdAt = t1, cd_updatedAt = t2\<rparr>)))"

definition cd_patch :: "update_document \<Rightarrow> time \<Rightarrow> client_document \<Rightarrow> client_document" where
  "cd_patch d t r =
     (setIf (ucd_sizeBytes d) (\<lambda>v. cd_sizeBytes_update (\<lambda>_. v))
     (setIf (ucd_contentType d) (\<lambda>v. cd_contentType_update (\<lambda>_. v))
     (setIf (ucd_storageKey d) (\<lambda>v. cd_storageKey_update (\<lambda>_. v))
     (setIf (ucd_expiresAt d) (\<lambda>v. cd_expiresAt_update (\<lambda>_. v))
     (setIf (ucd_state d) (\<lambda>v. cd_state_update (\<lambda>_. v))
     (setIf (ucd_sensitivity d) (\<lambda>v. cd_sensitivity_update (\<lambda>_. v))
     (setIf (ucd_documentType d) (\<lambda>v. cd_documentType_update (\<lambda>_. v))
     (setIf (ucd_filename d) (\<lambda>v. cd_filename_update (\<lambda>_. v)) r)))))))) \<lparr>cd_updatedAt := t\<rparr>"

definition documents_update :: "update_document \<Rightarrow> ident \<Rightarrow> ident \<Rightarrow> client_document wact" where
  "documents_update d =
     scoped_update w_documents w_documents_update cd_org
       (Plain ''ClientDocument not found or not in organization'') (cd_patch d)"

definition documents_delete :: "ident \<Rightarrow> ident \<Rightarrow> bool wact" where
  "documents_delete = scoped_delete w_documents w_documents_update cd_org"

lemma cd_patch_org [simp]: "cd_org (cd_patch d t r) = cd_org r"
  by (simp add: cd_patch_def setIf_keep [where f = cd_org])

interpretation documents:
  tenant_store document_view documents_findById cd_org documents_update documents_delete
  by (rule scoped_store [where get = w_documents and put = w_documents_update and patch = cd_patch
        and err = "Plain ''ClientDocument not found or not in organization''"])
     (auto simp: document_view_def fun_eq_iff documents_findById_def documents_update_def
       documents_delete_def)

subsection \<open>fake-audit-event.repository.ts\<close>

definition audit_create :: "create_audit \<Rightarrow> audit_event wact" where
  "audit_create d =
     bindA uuidA (\<lambda>i. bindA nowA (\<lambda>t.
       insert_row w_audit_update i
         \<lparr>ae_id = i, ae_action = cae_action d, ae_entityType = cae_entityType d,
          ae_entityId = cae_entityId d, ae_userId = cae_userId d, ae_org = cae_org d,
          ae_details = orElse (cae_details d) JNull, ae_timestamp = t\<rparr>))"

definition audit_findForUser :: "ident \<Rightarrow> ident \<Rightarrow> audit_event list wact" where
  "audit_findForUser user org =
     askA (\<lambda>w. rows_where (\<lambda>e. ae_userId e = Some user \<and> ae_org e = org) (w_audit w))"

definition audit_findRecent :: "ident \<Rightarrow> int \<Rightarrow> audit_event list wact" where
  "audit_findRecent org limit =
     askA (\<lambda>w. take (nat (max 0 (min limit 500)))
       (sort_desc ae_timestamp (rows_where (\<lambda>e. ae_org e = org) (w_audit w))))"

definition audit_of :: "ident \<Rightarrow> ident \<Rightarrow> audit_event \<Rightarrow> bool" where
  "audit_of user org e \<longleftrightarrow> ae_userId e = Some user \<and> ae_org e = org"

definition audit_anonymiseUser :: "ident \<Rightarrow> ident \<Rightarrow> nat wact" where
  "audit_anonymiseUser user org =
     bindA (askA (\<lambda>w. length (rows_where (audit_of user org) (w_audit w)))) (\<lambda>count.
     bindA (modA (w_audit_update (mapT (\<lambda>e.
       if audit_of user org e then e\<lparr>ae_userId := None\<rparr> else e)))) (\<lambda>_.
     ret count))"

end
