(* ===== verification/Repos_Compliance.thy ===== *)
theory Repos_Compliance
  imports Store
begin

text \<open>
  The in-memory repositories of compliance matrices, compliance items, tender requirements
  and evidence links.
\<close>

subsection \<open>fake-compliance-matrix.repository.ts\<close>

definition matrices_of :: "ident \<Rightarrow> ident \<Rightarrow> world \<Rightarrow> compliance_matrix list" where
  "matrices_of tender org w =
     sort_desc cm_version
       (rows_where (\<lambda>m. cm_tenderId m = tender \<and> cm_org m = org) (w_matrices w))"

definition matrices_findAllForTender :: "ident \<Rightarrow> ident \<Rightarrow> compliance_matrix list wact" where
  "matrices_findAllForTender tender org = askA (matrices_of tender org)"

definition matrix_view :: "ident \<Rightarrow> ident \<Rightarrow> world \<Rightarrow> compliance_matrix option" where
  "matrix_view i org w = scoped cm_org (w_matrices w) i org"

definition matrices_findById :: "ident \<Rightarrow> ident \<Rightarrow> compliance_matrix option wact" where
  "matrices_findById i org = askA (matrix_view i org)"

definition matrix_by_version :: "ident \<Rightarrow> int \<Rightarrow> ident \<Rightarrow> world \<Rightarrow> compliance_matrix option" where
  "matrix_by_version tender version org w =
     List.find (\<lambda>m. cm_tenderId m = tender \<and> cm_version m = version \<and> cm_org m = org)
       (rowsT (w_matrices w))"

definition matrices_findByVersion :: "ident \<Rightarrow> int \<Rightarrow> ident \<Rightarrow> compliance_matrix option wact" where
  "matrices_findByVersion tender version org = askA (matrix_by_version tender version org)"

definition latest_matrix :: "ident \<Rightarrow> ident \<Rightarrow> world \<Rightarrow> compliance_matrix option" where
  "latest_matrix tender org w =
     (case matrices_of tender org w of [] \<Rightarrow> None | m # _ \<Rightarrow> Some m)"

definition matrices_latestForTender :: "ident \<Rightarrow> ident \<Rightarrow> compliance_matrix option wact" where
  "matrices_latestForTender tender org = askA (latest_matrix tender org)"

definition matrices_create :: "create_matrix \<Rightarrow> compliance_matrix wact" where
  "matrices_create d =
     bindA (matrices_findByVersion (ccm_tenderId d) (ccm_version d) (ccm_org d)) (\<lambda>clash.
     bindA (throwIf (clash \<noteq> None)
       (Plain (''ComplianceMatrix version '' @ show_int (ccm_version d) @
               '' already exists for tender '' @ ccm_tenderId d))) (\<lambda>_.
     bindA nowA (\<lambda>t. bindA uuidA (\<lambda>i.
       insert_row w_matrices_update i
         \<lparr>cm_id = i, cm_tenderId = ccm_tenderId d, cm_org = ccm_org d, cm_version = ccm_version d,
          cm_status = orElse (ccm_status d) ''draft'',
          cm_generatedAt = orElse (ccm_generatedAt d) t, cm_createdAt = t, cm_updatedAt = t\<rparr>))))"

definition cm_patch :: "update_matrix \<Rightarrow> time \<Rightarrow> compliance_matrix \<Rightarrow> compliance_matrix" where
  "cm_patch d t r = (setIf (ucm_status d) (\<lambda>v. cm_status_update (\<lambda>_. v)) r) \<lparr>cm_updatedAt := t\<rparr>"

definition matrices_update :: "update_matrix \<Rightarrow> ident \<Rightarrow> ident \<Rightarrow> compliance_matrix wact" where
  "matrices_update d =
     scoped_update w_matrices w_matrices_update cm_org
       (Plain ''ComplianceMatrix not found or not in organization'') (cm_patch d)"

definition matrices_delete :: "ident \<Rightarrow> ident \<Rightarrow> bool wact" where
  "matrices_delete = scoped_delete w_matrices w_matrices_update cm_org"

lemma cm_patch_org [simp]: "cm_org (cm_patch d t r) = cm_org r"
  by (simp add: cm_patch_def setIf_keep [where f = cm_org])

interpretation matrices:
  tenant_store matrix_view matrices_findById cm_org matrices_update matrices_delete
  by (rule scoped_store [where get = w_matrices and put = w_matrices_update and patch = cm_patch
        and err = "Plain ''ComplianceMatrix not found or not in organization''"])
     (auto simp: matrix_view_def fun_eq_iff matrices_findById_def matrices_update_def
       matrices_delete_def)

subsection \<open>fake-compliance-item.repository.ts\<close>

definition items_of :: "ident \<Rightarrow> ident \<Rightarrow> world \<Rightarrow> compliance_item list" where
  "items_of matrix org w = rows_where (\<lambda>i. ci_matrixId i = matrix \<and> ci_org i = org) (w_items w)"

definition items_findAllForMatrix :: "ident \<Rightarrow> ident \<Rightarrow> compliance_item list wact" where
  "items_findAllForMatrix matrix org = askA (items_of matrix org)"

definition item_view :: "ident \<Rightarrow> ident \<Rightarrow> world \<Rightarrow> compliance_item option" where
  "item_view i org w = scoped ci_org (w_items w) i org"

definition items_findById :: "ident \<Rightarrow> ident \<Rightarrow> compliance_item option wact" where
  "items_findById i org = askA (item_view i org)"

definition items_create :: "create_item \<Rightarrow> compliance_item wact" where
  "items_create d =
     bindA nowA (\<lambda>t. bindA uuidA (\<lambda>i.
       insert_row w_items_update i
         \<lparr>ci_id = i, ci_matrixId = cci_matrixId d, ci_org = cci_org d,
          ci_requirementId = cci_requirementId d, ci_requirementText = cci_requirementText d,
          ci_category = cci_category d, ci_owner = cci_owner d, ci_risk = cci_risk d,
          ci_status = cci_status d, ci_dueDate = cci_dueDate d, ci_createdAt = t,
          ci_updatedAt = t\<rparr>))"

text \<open>\<^verbatim>\<open>createMany\<close>: one create after the other.\<close>

fun items_createMany :: "create_item list \<Rightarrow> compliance_item list wact" where
  "items_createMany [] = ret []"
| "items_createMany (d # ds) =
     bindA (items_create d) (\<lambda>r. bindA (items_createMany ds) (\<lambda>rs. ret (r # rs)))"

definition ci_patch :: "update_item \<Rightarrow> time \<Rightarrow> compliance_item \<Rightarrow> compliance_item" where
  "ci_patch d t r =
     (setIf (uci_dueDate d) (\<lambda>v. ci_dueDate_update (\<lambda>_. v))
     (setIf (uci_risk d) (\<lambda>v. ci_risk_update (\<lambda>_. v))
     (setIf (uci_status d) (\<lambda>v. ci_status_update (\<lambda>_. v))
     (setIf (uci_owner d) (\<lambda>v. ci_owner_update (\<lambda>_. Some v)) r)))) \<lparr>ci_updatedAt := t\<rparr>"

definition items_update :: "update_item \<Rightarrow> ident \<Rightarrow> ident \<Rightarrow> compliance_item wact" where
  "items_update d =
     scoped_update w_items w_items_update ci_org
       (Plain ''ComplianceItem not found or not in organization'') (ci_patch d)"

definition items_delete :: "ident \<Rightarrow> ident \<Rightarrow> bool wact" where
  "items_delete = scoped_delete w_items w_items_update ci_org"

lemma ci_patch_org [simp]: "ci_org (ci_patch d t r) = ci_org r"
  by (simp add: ci_patch_def setIf_keep [where f = ci_org])

interpretation items: tenant_store item_view items_findById ci_org items_update items_delete
  by (rule scoped_store [where get = w_items and put = w_items_update and patch = ci_patch
        and err = "Plain ''ComplianceItem not found or not in organization''"])
     (auto simp: item_view_def fun_eq_iff items_findById_def items_update_def items_delete_def)

subsection \<open>fake-tender-requirement.repository.ts\<close>

definition requirements_of :: "ident \<Rightarrow> ident \<Rightarrow> world \<Rightarrow> tender_requirement list" where
  "requirements_of tender org w =
     rows_where (\<lambda>r. tr_tenderId r = tender \<and> tr_org r = org) (w_requirements w)"

definition requirements_findAllForTender :: "ident \<Rightarrow> ident \<Rightarrow> tender_requirement list wact" where
  "requirements_findAllForTender tender org = askA (requirements_of tender org)"

definition requirement_view :: "ident \<Rightarrow> ident \<Rightarrow> world \<Rightarrow> tender_requirement option" where
  "requirement_view i org w = scoped tr_org (w_requirements w) i org"

definition requirements_findById :: "ident \<Rightarrow> ident \<Rightarrow> tender_requirement option wact" where
  "requirements_findById i org = askA (requirement_view i org)"

definition requirements_create :: "create_requirement \<Rightarrow> tender_requirement wact" where
  "requirements_create d =
     bindA nowA (\<lambda>t. bindA uuidA (\<lambda>i.
       insert_row w_requirements_update i
         \<lparr>tr_id = i, tr_tenderId = ctr_tenderId d, tr_org = ctr_org d,
          tr_category = ctr_category d, tr_text = ctr_text d,
          tr_risk = orElse (ctr_risk d) ''medium'', tr_owner = ctr_owner d,
          tr_source = orElse (ctr_source d) ''manual'', tr_createdAt = t, tr_updatedAt = t\<rparr>))"

fun requirements_createMany :: "create_requirement list \<Rightarrow> tender_requirement list wact" where
  "requirements_createMany [] = ret []"
| "requirements_createMany (d # ds) =
     bindA (requirements_create d) (\<lambda>r.
     bindA (requirements_createMany ds) (\<lambda>rs. ret (r # rs)))"

definition tr_patch :: "update_requirement \<Rightarrow> time \<Rightarrow> tender_requirement \<Rightarrow> tender_requirement" where
  "tr_patch d t r =
     (setIf (utr_owner d) (\<lambda>v. tr_owner_update (\<lambda>_. v))
     (setIf (utr_risk d) (\<lambda>v. tr_risk_update (\<lambda>_. v))
     (setIf (utr_text d) (\<lambda>v. tr_text_update (\<lambda>_. v))
     (setIf (utr_category d) (\<lambda>v. tr_category_update (\<lambda>_. v)) r)))) \<lparr>tr_updatedAt := t\<rparr>"

definition requirements_update ::
    "update_requirement \<Rightarrow> ident \<Rightarrow> ident \<Rightarrow> tender_requirement wact" where
  "requirements_update d =
     scoped_update w_requirements w_requirements_update tr_org
       (Plain ''TenderRequirement not found or not in organization'') (tr_patch d)"

definition requirements_delete :: "ident \<Rightarrow> ident \<Rightarrow> bool wact" where
  "requirements_delete = scoped_delete w_requirements w_requirements_update tr_org"

lemma tr_patch_org [simp]: "tr_org (tr_patch d t r) = tr_org r"
  by (simp add: tr_patch_def setIf_keep [where f = tr_org])

interpretation requirements:
  tenant_store requirement_view requirements_findById tr_org requirements_update requirements_delete
  by (rule scoped_store [where get = w_requirements and put = w_requirements_update
        and patch = tr_patch
        and err = "Plain ''TenderRequirement not found or not in organization''"])
     (auto simp: requirement_view_def fun_eq_iff requirements_findById_def requirements_update_def
       requirements_delete_def)

subsection \<open>fake-evidence-link.repository.ts\<close>

definition links_of_item :: "ident \<Rightarrow> ident \<Rightarrow> world \<Rightarrow> evidence_link list" where
  "links_of_item item org w = rows_where (\<lambda>l. el_itemId l = item \<and> el_org l = org) (w_evidence w)"

definition links_findAllForItem :: "ident \<Rightarrow> ident \<Rightarrow> evidence_link list wact" where
  "links_findAllForItem item org = askA (links_of_item item org)"

definition links_findAllForDocument :: "ident \<Rightarrow> ident \<Rightarrow> evidence_link list wact" where
  "links_findAllForDocument document org =
     askA (\<lambda>w. rows_where (\<lambda>l. el_documentId l = document \<and> el_org l = org) (w_evidence w))"

definition link_view :: "ident \<Rightarrow> ident \<Rightarrow> world \<Rightarrow> evidence_link option" where
  "link_view i org w = scoped el_org (w_evidence w) i org"

definition links_findById :: "ident \<Rightarrow> ident \<Rightarrow> evidence_link option wact" where
  "links_findById i org = askA (link_view i org)"

text \<open>The uniqueness check of a pair does not look at the organisation.\<close>

definition link_clash :: "ident \<Rightarrow> ident \<Rightarrow> world \<Rightarrow> bool" where
  "link_clash item document w \<longleftrightarrow>
     list_ex (\<lambda>l. el_itemId l = item \<and> el_documentId l = document) (rowsT (w_evidence w))"

definition links_create :: "create_evidence \<Rightarrow> evidence_link wact" where
  "links_create d =
     bindA (askA (link_clash (cel_itemId d) (cel_documentId d))) (\<lambda>clash.
     bindA (throwIf clash (Plain ''EvidenceLink already exists for this item/document pair'')) (\<lambda>_.
     bindA nowA (\<lambda>t. bindA uuidA (\<lambda>i.
       insert_row w_evidence_update i
         \<lparr>el_id = i, el_org = cel_org d, el_itemId = cel_itemId d, el_documentId = cel_documentId d,
          el_note = cel_note d, el_createdAt = t, el_updatedAt = t\<rparr>))))"

definition el_patch :: "update_evidence \<Rightarrow> time \<Rightarrow> evidence_link \<Rightarrow> evidence_link" where
  "el_patch d t r = (setIf (uel_note d) (\<lambda>v. el_note_update (\<lambda>_. v)) r) \<lparr>el_updatedAt := t\<rparr>"

definition links_update :: "update_evidence \<Rightarrow> ident \<Rightarrow> ident \<Rightarrow> evidence_link wact" where
  "links_update d =
     scoped_update w_evidence w_evidence_update el_org
       (Plain ''EvidenceLink not found or not in organization'') (el_patch d)"

definition links_delete :: "ident \<Rightarrow> ident \<Rightarrow> bool wact" where
  "links_delete = scoped_delete w_evidence w_evidence_update el_org"

definition links_unlink :: "ident \<Rightarrow> ident \<Rightarrow> ident \<Rightarrow> bool wact" where
  "links_unlink item document org =
     bindA (askA (\<lambda>w. List.find
       (\<lambda>l. el_itemId l = item \<and> el_documentId l = document \<and> el_org l = org)
       (rowsT (w_evidence w)))) (\<lambda>found.
     (case found of
        None \<Rightarrow> ret False
      | Some l \<Rightarrow>
          bindA (askA (\<lambda>w. getT (w_evidence w) (el_id l) \<noteq> None)) (\<lambda>present.
          bindA (modA (w_evidence_update (delT (el_id l)))) (\<lambda>_. ret present))))"

lemma el_patch_org [simp]: "el_org (el_patch d t r) = el_org r"
  by (simp add: el_patch_def setIf_keep [where f = el_org])

interpretation links: tenant_store link_view links_findById el_org links_update links_delete
  by (rule scoped_store [where get = w_evidence and put = w_evidence_update and patch = el_patch
        and err = "Plain ''EvidenceLink not found or not in organization''"])
     (auto simp: link_view_def fun_eq_iff links_findById_def links_update_def links_delete_def)

end
