(* ===== verification/Repos_Pdpl.thy ===== *)
theory Repos_Pdpl
  imports Store
begin

text \<open>
  The in-memory repositories behind the data-protection services: consent events, data-subject
  requests, tender access grants, retention actions, the DPO contact and training records.
\<close>

subsection \<open>fake-consent-event.repository.ts\<close>

definition consents_create :: "create_consent \<Rightarrow> consent_event wact" where
  "consents_create d =
     bindA nowA (\<lambda>t. bindA uuidA (\<lambda>i.
       insert_row w_consents_update i
         \<lparr>ce_id = i, ce_org = cce_org d, ce_subjectEmail = cce_subjectEmail d,
          ce_subjectUserId = cce_subjectUserId d, ce_purpose = cce_purpose d,
          ce_state = cce_state d, ce_source = orElse (cce_source d) ''api'',
          ce_recordedBy = cce_recordedBy d, ce_details = orElse (cce_details d) JNull,
          ce_recordedAt = t, ce_createdAt = t, ce_updatedAt = t\<rparr>))"

definition consent_of :: "string \<Rightarrow> ident \<Rightarrow> consent_event \<Rightarrow> bool" where
  "consent_of email org e \<longleftrightarrow> ce_subjectEmail e = email \<and> ce_org e = org"

definition consents_findAllForSubject :: "string \<Rightarrow> ident \<Rightarrow> consent_event list wact" where
  "consents_findAllForSubject email org =
     askA (\<lambda>w. rows_where (consent_of email org) (w_consents w))"

definition consents_findById :: "ident \<Rightarrow> ident \<Rightarrow> consent_event option wact" where
  "consents_findById i org = askA (\<lambda>w. scoped ce_org (w_consents w) i org)"

definition current_consent :: "string \<Rightarrow> string \<Rightarrow> ident \<Rightarrow> world \<Rightarrow> consent_event option" where
  "current_consent email purpose org w =
     (case sort_desc ce_recordedAt
             (rows_where (\<lambda>e. ce_subjectEmail e = email \<and> ce_purpose e = purpose \<and> ce_org e = org)
               (w_consents w)) of
        [] \<Rightarrow> None
      | e # _ \<Rightarrow> Some e)"

definition consents_findCurrent :: "string \<Rightarrow> string \<Rightarrow> ident \<Rightarrow> consent_event option wact" where
  "consents_findCurrent email purpose org = askA (current_consent email purpose org)"

definition consents_anonymiseSubject :: "string \<Rightarrow> ident \<Rightarrow> string \<Rightarrow> nat wact" where
  "consents_anonymiseSubject email org pseudonym =
     bindA (askA (\<lambda>w. length (rows_where (consent_of email org) (w_consents w)))) (\<lambda>count.
     bindA (modA (w_consents_update (mapT (\<lambda>e.
       if consent_of email org e
       then e\<lparr>ce_subjectEmail := pseudonym, ce_subjectUserId := None\<rparr> else e)))) (\<lambda>_.
     ret count))"

subsection \<open>fake-data-subject-request.repository.ts\<close>

definition requests_create :: "create_request \<Rightarrow> subject_request wact" where
  "requests_create d =
     bindA nowA (\<lambda>t. bindA uuidA (\<lambda>i.
       insert_row w_requests_update i
         \<lparr>ds_id = i, ds_org = cds_org d, ds_type = cds_type d,
          ds_subjectEmail = cds_subjectEmail d, ds_status = ''pending'',
          ds_requestedBy = cds_requestedBy d, ds_requestedAt = t, ds_decidedBy = None,
          ds_decidedAt = None, ds_completedAt = None, ds_notes = cds_notes d,
          ds_payload = JNull, ds_createdAt = t, ds_updatedAt = t\<rparr>))"

definition request_view :: "ident \<Rightarrow> ident \<Rightarrow> world \<Rightarrow> subject_request option" where
  "request_view i org w = scoped ds_org (w_requests w) i org"

definition requests_findById :: "ident \<Rightarrow> ident \<Rightarrow> subject_request option wact" where
  "requests_findById i org = askA (request_view i org)"

definition requests_findAll :: "ident \<Rightarrow> string option \<Rightarrow> subject_request list wact" where
  "requests_findAll org status =
     askA (\<lambda>w. rows_where
       (\<lambda>r. ds_org r = org \<and> (case status of None \<Rightarrow> True | Some s \<Rightarrow> ds_status r = s)) (w_requests w))"

definition requests_findForSubject :: "string \<Rightarrow> ident \<Rightarrow> subject_request list wact" where
  "requests_findForSubject email org =
     askA (\<lambda>w. rows_where (\<lambda>r. ds_subjectEmail r = email \<and> ds_org r = org) (w_requests w))"

definition ds_patch :: "update_request \<Rightarrow> time \<Rightarrow> subject_request \<Rightarrow> subject_request" where
  "ds_patch d t r =
     (setIf (uds_payload d) (\<lambda>v. ds_payload_update (\<lambda>_. v))
     (setIf (uds_notes d) (\<lambda>v. ds_notes_update (\<lambda>_. v))
     (setIf (uds_completedAt d) (\<lambda>v. ds_completedAt_update (\<lambda>_. v))
     (setIf (uds_decidedAt d) (\<lambda>v. ds_decidedAt_update (\<lambda>_. v))
     (setIf (uds_decidedBy d) (\<lambda>v. ds_decidedBy_update (\<lambda>_. v))
     (setIf (uds_status d) (\<lambda>v. ds_status_update (\<lambda>_. v)) r)))))) \<lparr>ds_updatedAt := t\<rparr>"

definition requests_update :: "update_request \<Rightarrow> ident \<Rightarrow> ident \<Rightarrow> subject_request wact" where
  "requests_update d =
     scoped_update w_requests w_requests_update ds_org
       (Plain ''DataSubjectRequest not found or not in organization'') (ds_patch d)"

lemma ds_patch_org [simp]: "ds_org (ds_patch d t r) = ds_org r"
  by (simp add: ds_patch_def setIf_keep [where f = ds_org])

interpretation requests: tenant_writer request_view requests_findById ds_org requests_update
  by (rule scoped_writer [where get = w_requests and put = w_requests_update and patch = ds_patch
        and err = "Plain ''DataSubjectRequest not found or not in organization''"])
     (auto simp: request_view_def fun_eq_iff requests_findById_def requests_update_def)

subsection \<open>fake-tender-access.repository.ts\<close>

definition access_match :: "ident \<Rightarrow> ident \<Rightarrow> ident \<Rightarrow> tender_access \<Rightarrow> bool" where
  "access_match user tender org a \<longleftrightarrow>
     ta_userId a = user \<and> ta_tenderId a = tender \<and> ta_org a = org"

definition access_for :: "ident \<Rightarrow> ident \<Rightarrow> ident \<Rightarrow> world \<Rightarrow> tender_access option" where
  "access_for user tender org w = List.find (access_match user tender org) (rowsT (w_access w))"

definition access_findByUserAndTender ::
    "ident \<Rightarrow> ident \<Rightarrow> ident \<Rightarrow> tender_access option wact" where
  "access_findByUserAndTender user tender org = askA (access_for user tender org)"

definition access_create :: "create_access \<Rightarrow> tender_access wact" where
  "access_create d =
     bindA (access_findByUserAndTender (cta_userId d) (cta_tenderId d) (cta_org d)) (\<lambda>existing.
     bindA (throwIf (existing \<noteq> None)
       (Plain (''TenderAccess already exists for user '' @ cta_userId d @ '' on tender '' @
               cta_tenderId d))) (\<lambda>_.
     bindA nowA (\<lambda>t. bindA uuidA (\<lambda>i.
       insert_row w_access_update i
         \<lparr>ta_id = i, ta_org = cta_org d, ta_userId = cta_userId d, ta_tenderId = cta_tenderId d,
          ta_role = cta_role d, ta_grantedBy = cta_grantedBy d, ta_grantedAt = t,
          ta_createdAt = t, ta_updatedAt = t\<rparr>))))"

definition access_view :: "ident \<Rightarrow> ident \<Rightarrow> world \<Rightarrow> tender_access option" where
  "access_view i org w = scoped ta_org (w_access w) i org"

definition access_findById :: "ident \<Rightarrow> ident \<Rightarrow> tender_access option wact" where
  "access_findById i org = askA (access_view i org)"

definition access_findAllForTender :: "ident \<Rightarrow> ident \<Rightarrow> tender_access list wact" where
  "access_findAllForTender tender org =
     askA (\<lambda>w. rows_where (\<lambda>a. ta_tenderId a = tender \<and> ta_org a = org) (w_access w))"

definition access_findAllForUser :: "ident \<Rightarrow> ident \<Rightarrow> tender_access list wact" where
  "access_findAllForUser user org =
     askA (\<lambda>w. rows_where (\<lambda>a. ta_userId a = user \<and> ta_org a = org) (w_access w))"

definition ta_patch :: "update_access \<Rightarrow> time \<Rightarrow> tender_access \<Rightarrow> tender_access" where
  "ta_patch d t r = (setIf (uta_role d) (\<lambda>v. ta_role_update (\<lambda>_. v)) r) \<lparr>ta_updatedAt := t\<rparr>"

definition access_update :: "update_access \<Rightarrow> ident \<Rightarrow> ident \<Rightarrow> tender_access wact" where
  "access_update d =
     scoped_update w_access w_access_update ta_org
       (Plain ''TenderAccess not found or not in organization'') (ta_patch d)"

definition access_delete :: "ident \<Rightarrow> ident \<Rightarrow> bool wact" where
  "access_delete = scoped_delete w_access w_access_update ta_org"

definition access_revoke :: "ident \<Rightarrow> ident \<Rightarrow> ident \<Rightarrow> bool wact" where
  "access_revoke user tender org =
     bindA (access_findByUserAndTender user tender org) (\<lambda>found.
     (case found of
        None \<Rightarrow> ret False
      | Some a \<Rightarrow>
          bindA (askA (\<lambda>w. getT (w_access w) (ta_id a) \<noteq> None)) (\<lambda>present.
          bindA (modA (w_access_update (delT (ta_id a)))) (\<lambda>_. ret present))))"

lemma ta_patch_org [simp]: "ta_org (ta_patch d t r) = ta_org r"
  by (simp add: ta_patch_def setIf_keep [where f = ta_org])

interpretation access: tenant_store access_view access_findById ta_org access_update access_delete
  by (rule scoped_store [where get = w_access and put = w_access_update and patch = ta_patch
        and err = "Plain ''TenderAccess not found or not in organization''"])
     (auto simp: access_view_def fun_eq_iff access_findById_def access_update_def access_delete_def)

subsection \<open>fake-retention-action.repository.ts\<close>

definition retention_create :: "create_retention \<Rightarrow> retention_action wact" where
  "retention_create d =
     bindA nowA (\<lambda>t. bindA uuidA (\<lambda>i.
       insert_row w_retention_update i
         \<lparr>ra_id = i, ra_org = cra_org d, ra_documentId = cra_documentId d,
          ra_action = cra_action d, ra_reason = cra_reason d, ra_requestedBy = cra_requestedBy d,
          ra_requestedAt = t, ra_status = ''pending'', ra_decidedBy = None, ra_decidedAt = None,
          ra_executedAt = None, ra_createdAt = t, ra_updatedAt = t\<rparr>))"

definition action_view :: "ident \<Rightarrow> ident \<Rightarrow> world \<Rightarrow> retention_action option" where
  "action_view i org w = scoped ra_org (w_retention w) i org"

definition retention_findById :: "ident \<Rightarrow> ident \<Rightarrow> retention_action option wact" where
  "retention_findById i org = askA (action_view i org)"

definition retention_findAll :: "ident \<Rightarrow> string option \<Rightarrow> retention_action list wact" where
  "retention_findAll org status =
     askA (\<lambda>w. rows_where
       (\<lambda>r. ra_org r = org \<and> (case status of None \<Rightarrow> True | Some s \<Rightarrow> ra_status r = s)) (w_retention w))"

definition actions_for_document :: "ident \<Rightarrow> ident \<Rightarrow> world \<Rightarrow> retention_action list" where
  "actions_for_document document org w =
     rows_where (\<lambda>r. ra_documentId r = document \<and> ra_org r = org) (w_retention w)"

definition retention_findForDocument :: "ident \<Rightarrow> ident \<Rightarrow> retention_action list wact" where
  "retention_findForDocument document org = askA (actions_for_document document org)"

definition ra_patch :: "update_retention \<Rightarrow> time \<Rightarrow> retention_action \<Rightarrow> retention_action" where
  "ra_patch d t r =
     (setIf (ura_executedAt d) (\<lambda>v. ra_executedAt_update (\<lambda>_. v))
     (setIf (ura_decidedAt d) (\<lambda>v. ra_decidedAt_update (\<lambda>_. v))
     (setIf (ura_decidedBy d) (\<lambda>v. ra_decidedBy_update (\<lambda>_. v))
     (setIf (ura_status d) (\<lambda>v. ra_status_update (\<lambda>_. v)) r)))) \<lparr>ra_updatedAt := t\<rparr>"

definition retention_update :: "update_retention \<Rightarrow> ident \<Rightarrow> ident \<Rightarrow> retention_action wact" where
  "retention_update d =
     scoped_update w_retention w_retention_update ra_org
       (Plain ''RetentionAction not found or not in organization'') (ra_patch d)"

lemma ra_patch_org [simp]: "ra_org (ra_patch d t r) = ra_org r"
  by (simp add: ra_patch_def setIf_keep [where f = ra_org])

interpretation retention: tenant_writer action_view retention_findById ra_org retention_update
  by (rule scoped_writer [where get = w_retention and put = w_retention_update and patch = ra_patch
        and err = "Plain ''RetentionAction not found or not in organization''"])
     (auto simp: action_view_def fun_eq_iff retention_findById_def retention_update_def)

subsection \<open>fake-dpo-contact.repository.ts\<close>

definition dpo_upsert :: "upsert_dpo \<Rightarrow> dpo_contact wact" where
  "dpo_upsert d =
     bindA (askA (\<lambda>w. getT (w_dpo w) (udc_org d))) (\<lambda>existing.
     bindA nowA (\<lambda>t.
     bindA (case existing of None \<Rightarrow> uuidA | Some r \<Rightarrow> ret (dc_id r)) (\<lambda>i.
       insert_row w_dpo_update (udc_org d)
         \<lparr>dc_id = i, dc_org = udc_org d, dc_name = udc_name d, dc_email = udc_email d,
          dc_phone = udc_phone d, dc_authorityEmail = udc_authorityEmail d,
          dc_retentionPolicyDays = orElse (udc_retentionPolicyDays d) 2555,
          dc_updatedBy = udc_updatedBy d,
          dc_createdAt = (case existing of None \<Rightarrow> t | Some r \<Rightarrow> dc_createdAt r),
          dc_updatedAt = t\<rparr>)))"

definition dpo_findByOrg :: "ident \<Rightarrow> dpo_contact option wact" where
  "dpo_findByOrg org = askA (\<lambda>w. getT (w_dpo w) org)"

subsection \<open>fake-dpo-training-record.repository.ts\<close>

definition training_create :: "create_training \<Rightarrow> training_record wact" where
  "training_create d =
     bindA nowA (\<lambda>t. bindA uuidA (\<lambda>i.
       insert_row w_training_update i
         \<lparr>dt_id = i, dt_org = cdt_org d, dt_userId = cdt_userId d,
          dt_subjectName = cdt_subjectName d, dt_subjectEmail = cdt_subjectEmail d,
          dt_topic = cdt_topic d, dt_provider = cdt_provider d, dt_completedAt = cdt_completedAt d,
          dt_validUntil = cdt_validUntil d, dt_evidenceRef = cdt_evidenceRef d,
          dt_evidenceDocumentId = cdt_evidenceDocumentId d, dt_notes = cdt_notes d,
          dt_recordedBy = cdt_recordedBy d, dt_createdAt = t, dt_updatedAt = t\<rparr>))"

definition training_view :: "ident \<Rightarrow> ident \<Rightarrow> world \<Rightarrow> training_record option" where
  "training_view i org w = scoped dt_org (w_training w) i org"

definition training_findById :: "ident \<Rightarrow> ident \<Rightarrow> training_record option wact" where
  "training_findById i org = askA (training_view i org)"

definition training_of :: "ident \<Rightarrow> world \<Rightarrow> training_record list" where
  "training_of org w =
     sort_desc dt_completedAt (rows_where (\<lambda>r. dt_org r = org) (w_training w))"

definition training_findAll :: "ident \<Rightarrow> training_record list wact" where
  "training_findAll org = askA (training_of org)"

definition expires_by :: "time \<Rightarrow> training_record \<Rightarrow> bool" where
  "expires_by cutoff r = (case dt_validUntil r of None \<Rightarrow> False | Some u \<Rightarrow> u \<le> cutoff)"

definition training_findExpiringBefore :: "ident \<Rightarrow> time \<Rightarrow> training_record list wact" where
  "training_findExpiringBefore org cutoff =
     askA (\<lambda>w. sort_asc (\<lambda>r. orElse (dt_validUntil r) 0)
       (rows_where (\<lambda>r. dt_org r = org \<and> expires_by cutoff r) (w_training w)))"

definition dt_patch :: "update_training \<Rightarrow> time \<Rightarrow> training_record \<Rightarrow> training_record" where
  "dt_patch d t r =
     (setIf (udt_notes d) (\<lambda>v. dt_notes_update (\<lambda>_. v))
     (setIf (udt_evidenceDocumentId d) (\<lambda>v. dt_evidenceDocumentId_update (\<lambda>_. v))
     (setIf (udt_evidenceRef d) (\<lambda>v. dt_evidenceRef_update (\<lambda>_. v))
     (setIf (udt_validUntil d) (\<lambda>v. dt_validUntil_update (\<lambda>_. v))
     (setIf (udt_completedAt d) (\<lambda>v. dt_completedAt_update (\<lambda>_. v))
     (setIf (udt_provider d) (\<lambda>v. dt_provider_update (\<lambda>_. v))
     (setIf (udt_topic d) (\<lambda>v. dt_topic_update (\<lambda>_. v))
     (setIf (udt_subjectEmail d) (\<lambda>v. dt_subjectEmail_update (\<lambda>_. v))
     (setIf (udt_subjectName d) (\<lambda>v. dt_subjectName_update (\<lambda>_. v)) r)))))))))
     \<lparr>dt_updatedAt := t\<rparr>"

definition training_update :: "update_training \<Rightarrow> ident \<Rightarrow> ident \<Rightarrow> training_record wact" where
  "training_update d =
     scoped_update w_training w_training_update dt_org
       (NotFound ''DpoTrainingRecord not found'') (dt_patch d)"

text \<open>The service ignores the boolean a delete returns.\<close>

definition training_delete :: "ident \<Rightarrow> ident \<Rightarrow> bool wact" where
  "training_delete = scoped_delete w_training w_training_update dt_org"

lemma dt_patch_org [simp]: "dt_org (dt_patch d t r) = dt_org r"
  by (simp add: dt_patch_def setIf_keep [where f = dt_org])

interpretation training:
  tenant_store training_view training_findById dt_org training_update training_delete
  by (rule scoped_store [where get = w_training and put = w_training_update and patch = dt_patch
        and err = "NotFound ''DpoTrainingRecord not found''"])
     (auto simp: training_view_def fun_eq_iff training_findById_def training_update_def
       training_delete_def)

end
