(* ===== verification/Repos_Ops.thy ===== *)
theory Repos_Ops
  imports Store
begin

text \<open>
  The in-memory repositories behind ingestion, billing, model usage and webhooks.
\<close>

subsection \<open>fake-ingestion-job.repository.ts\<close>

definition jobs_create :: "create_job \<Rightarrow> ingestion_job wact" where
  "jobs_create d =
     bindA nowA (\<lambda>t. bindA uuidA (\<lambda>i.
       insert_row w_jobs_update i
         \<lparr>ij_id = i, ij_org = cij_org d, ij_kind = cij_kind d, ij_status = ''pending'',
          ij_payload = cij_payload d, ij_result = JNull, ij_errorMessage = None, ij_attempts = 0,
          ij_claimedBy = None, ij_claimedAt = None, ij_completedAt = None,
          ij_createdBy = cij_createdBy d, ij_createdAt = t, ij_updatedAt = t\<rparr>))"

definition job_view :: "ident \<Rightarrow> ident \<Rightarrow> world \<Rightarrow> ingestion_job option" where
  "job_view i org w = scoped ij_org (w_jobs w) i org"

definition jobs_findById :: "ident \<Rightarrow> ident \<Rightarrow> ingestion_job option wact" where
  "jobs_findById i org = askA (job_view i org)"

definition jobs_findAll :: "ident \<Rightarrow> string option \<Rightarrow> string option \<Rightarrow> ingestion_job list wact" where
  "jobs_findAll org status kind =
     askA (\<lambda>w. rows_where (\<lambda>j. ij_org j = org
       \<and> (case status of None \<Rightarrow> True | Some s \<Rightarrow> ij_status j = s)
       \<and> (case kind of None \<Rightarrow> True | Some k \<Rightarrow> ij_kind j = k)) (w_jobs w))"

definition claimable :: "string option \<Rightarrow> ingestion_job \<Rightarrow> bool" where
  "claimable kind j \<longleftrightarrow>
     ij_status j = ''pending'' \<and> (case kind of None \<Rightarrow> True | Some k \<Rightarrow> ij_kind j = k)"

definition pending_jobs :: "string option \<Rightarrow> world \<Rightarrow> ingestion_job list" where
  "pending_jobs kind w = sort_asc ij_createdAt (rows_where (claimable kind) (w_jobs w))"

definition jobs_claimNext :: "string \<Rightarrow> string option \<Rightarrow> ingestion_job option wact" where
  "jobs_claimNext worker kind =
     bindA (askA (pending_jobs kind)) (\<lambda>pending.
     (case pending of
        [] \<Rightarrow> ret None
      | j # _ \<Rightarrow>
          bindA nowA (\<lambda>t1. bindA nowA (\<lambda>t2.
            let j' = j\<lparr>ij_status := ''processing'', ij_claimedBy := Some worker,
                       ij_claimedAt := Some t1, ij_attempts := ij_attempts j + 1,
                       ij_updatedAt := t2\<rparr>
            in bindA (modA (w_jobs_update (setT (ij_id j) j'))) (\<lambda>_. ret (Some j'))))))"

definition ij_patch :: "update_job \<Rightarrow> time \<Rightarrow> ingestion_job \<Rightarrow> ingestion_job" where
  "ij_patch d t r =
     (setIf (uij_attempts d) (\<lambda>v. ij_attempts_update (\<lambda>_. v))
     (setIf (uij_completedAt d) (\<lambda>v. ij_completedAt_update (\<lambda>_. v))
     (setIf (uij_claimedAt d) (\<lambda>v. ij_claimedAt_update (\<lambda>_. v))
     (setIf (uij_claimedBy d) (\<lambda>v. ij_claimedBy_update (\<lambda>_. v))
     (setIf (uij_errorMessage d) (\<lambda>v. ij_errorMessage_update (\<lambda>_. v))
     (setIf (uij_result d) (\<lambda>v. ij_result_update (\<lambda>_. v))
     (setIf (uij_status d) (\<lambda>v. ij_status_update (\<lambda>_. v)) r))))))) \<lparr>ij_updatedAt := t\<rparr>"

definition jobs_update :: "update_job \<Rightarrow> ident \<Rightarrow> ident \<Rightarrow> ingestion_job wact" where
  "jobs_update d =
     scoped_update w_jobs w_jobs_update ij_org
       (Plain ''IngestionJob not found or not in organization'') (ij_patch d)"

lemma ij_patch_org [simp]: "ij_org (ij_patch d t r) = ij_org r"
  by (simp add: ij_patch_def setIf_keep [where f = ij_org])

interpretation jobs: tenant_writer job_view jobs_findById ij_org jobs_update
  by (rule scoped_writer [where get = w_jobs and put = w_jobs_update and patch = ij_patch
        and err = "Plain ''IngestionJob not found or not in organization''"])
     (auto simp: job_view_def fun_eq_iff jobs_findById_def jobs_update_def)

subsection \<open>fake-inbound-email.repository.ts\<close>

text \<open>
  \<open>byMessageId\<close> is a second index of the same rows, written together with \<open>rows\<close>; rows
  are never removed or changed, so a lookup in it is the row with that message id.
\<close>

definition email_by_message :: "string \<Rightarrow> world \<Rightarrow> inbound_email option" where
  "email_by_message m w = List.find (\<lambda>r. ie_messageId r = m) (rowsT (w_emails w))"

definition emails_findByMessageId :: "string \<Rightarrow> inbound_email option wact" where
  "emails_findByMessageId m = askA (email_by_message m)"

definition emails_create :: "create_email \<Rightarrow> inbound_email wact" where
  "emails_create d =
     bindA (emails_findByMessageId (cie_messageId d)) (\<lambda>clash.
     bindA (throwIf (clash \<noteq> None)
       (Plain (''unique constraint: messageId='' @ cie_messageId d @ '' already exists''))) (\<lambda>_.
     bindA uuidA (\<lambda>i.
     bindA (case cie_receivedAt d of Some t \<Rightarrow> ret t | None \<Rightarrow> nowA) (\<lambda>t1.
     bindA nowA (\<lambda>t2.
       insert_row w_emails_update i
         \<lparr>ie_id = i, ie_messageId = cie_messageId d, ie_org = cie_org d,
          ie_fromAddress = cie_fromAddress d, ie_toAddress = cie_toAddress d,
          ie_subject = cie_subject d, ie_body = cie_body d, ie_status = cie_status d,
          ie_routedAction = cie_routedAction d, ie_routedEntityType = cie_routedEntityType d,
          ie_routedEntityId = cie_routedEntityId d, ie_rejectionReason = cie_rejectionReason d,
          ie_receivedAt = t1, ie_createdAt = t2\<rparr>)))))"

definition emails_findRecent :: "ident \<Rightarrow> nat \<Rightarrow> inbound_email list wact" where
  "emails_findRecent org limit =
     askA (\<lambda>w. take limit
       (sort_desc ie_receivedAt (rows_where (\<lambda>r. ie_org r = Some org) (w_emails w))))"

subsection \<open>fake-ingestion-api-key.repository.ts\<close>

definition key_by_prefix :: "string \<Rightarrow> world \<Rightarrow> api_key option" where
  "key_by_prefix p w = List.find (\<lambda>k. ik_keyPrefix k = p) (rowsT (w_keys w))"

definition keys_findByPrefix :: "string \<Rightarrow> api_key option wact" where
  "keys_findByPrefix p = askA (key_by_prefix p)"

definition keys_create :: "create_api_key \<Rightarrow> api_key wact" where
  "keys_create d =
     bindA (keys_findByPrefix (cik_keyPrefix d)) (\<lambda>clash.
     bindA (throwIf (clash \<noteq> None) (Plain ''unique constraint: keyPrefix'')) (\<lambda>_.
     bindA uuidA (\<lambda>i. bindA nowA (\<lambda>t.
       insert_row w_keys_update i
         \<lparr>ik_id = i, ik_org = cik_org d, ik_name = cik_name d, ik_keyPrefix = cik_keyPrefix d,
          ik_keyHash = cik_keyHash d, ik_createdBy = cik_createdBy d, ik_createdAt = t,
          ik_lastUsedAt = None, ik_revokedAt = None\<rparr>))))"

definition keys_findAllByOrg :: "ident \<Rightarrow> api_key list wact" where
  "keys_findAllByOrg org =
     askA (\<lambda>w. sort_desc ik_createdAt (rows_where (\<lambda>k. ik_org k = org) (w_keys w)))"

definition keys_markUsed :: "ident \<Rightarrow> unit wact" where
  "keys_markUsed i =
     bindA (askA (\<lambda>w. getT (w_keys w) i)) (\<lambda>found.
     (case found of
        None \<Rightarrow> ret ()
      | Some k \<Rightarrow>
          bindA nowA (\<lambda>t. modA (w_keys_update (setT i (k\<lparr>ik_lastUsedAt := Some t\<rparr>))))))"

definition keys_revoke :: "ident \<Rightarrow> ident \<Rightarrow> api_key wact" where
  "keys_revoke i org =
     bindA (askA (\<lambda>w. getT (w_keys w) i)) (\<lambda>found.
     (case found of
        None \<Rightarrow> throw (NotFound ''IngestionApiKey not found or already revoked'')
      | Some k \<Rightarrow>
          bindA (throwIf (ik_org k \<noteq> org \<or> ik_revokedAt k \<noteq> None)
            (NotFound ''IngestionApiKey not found or already revoked'')) (\<lambda>_.
          bindA nowA (\<lambda>t.
          bindA (modA (w_keys_update (setT i (k\<lparr>ik_revokedAt := Some t\<rparr>)))) (\<lambda>_.
          ret (k\<lparr>ik_revokedAt := Some t\<rparr>))))))"

subsection \<open>fake-llm-usage-log.repository.ts\<close>

definition llm_create :: "create_usage \<Rightarrow> usage_log wact" where
  "llm_create d =
     bindA uuidA (\<lambda>i. bindA nowA (\<lambda>t.
       let r = \<lparr>lu_id = i, lu_org = clu_org d, lu_tenderId = clu_tenderId d,
                lu_provider = clu_provider d, lu_model = clu_model d,
                lu_promptVersion = clu_promptVersion d, lu_jobType = clu_jobType d,
                lu_inputTokens = clu_inputTokens d, lu_outputTokens = clu_outputTokens d,
                lu_totalTokens = clu_totalTokens d, lu_estimatedCost = clu_estimatedCost d,
                lu_status = orElse (clu_status d) ''ok'', lu_errorMessage = clu_errorMessage d,
                lu_createdAt = t\<rparr>
       in bindA (modA (w_llm_update (\<lambda>rs. rs @ [r]))) (\<lambda>_. ret r)))"

text \<open>The loop of \<^verbatim>\<open>dailyTotals\<close>, with its \<^verbatim>\<open>continue\<close>s.\<close>

fun totals_loop :: "ident \<Rightarrow> time \<Rightarrow> usage_log list \<Rightarrow> daily_totals \<Rightarrow> daily_totals" where
  "totals_loop org since [] acc = acc"
| "totals_loop org since (r # rs) acc =
     (if lu_org r \<noteq> org then totals_loop org since rs acc
      else if lu_status r \<noteq> ''ok'' then totals_loop org since rs acc
      else if lu_createdAt r < since then totals_loop org since rs acc
      else totals_loop org since rs
        \<lparr>dy_requestCount = dy_requestCount acc + 1,
         dy_totalTokens = dy_totalTokens acc + orElse (lu_totalTokens r) 0,
         dy_totalCost = dy_totalCost acc + orElse (lu_estimatedCost r) 0\<rparr>)"

definition llm_dailyTotals :: "ident \<Rightarrow> time \<Rightarrow> daily_totals wact" where
  "llm_dailyTotals org since =
     askA (\<lambda>w. totals_loop org since (w_llm w)
       \<lparr>dy_requestCount = 0, dy_totalTokens = 0, dy_totalCost = 0\<rparr>)"

subsection \<open>fake-subscription.repository.ts\<close>

definition subscriptions_findByOrg :: "ident \<Rightarrow> subscription option wact" where
  "subscriptions_findByOrg org = askA (\<lambda>w. getT (w_subscriptions w) org)"

definition subscription_by_stripe :: "string \<Rightarrow> world \<Rightarrow> subscription option" where
  "subscription_by_stripe s w =
     List.find (\<lambda>r. sb_stripeSubscriptionId r = Some s) (rowsT (w_subscriptions w))"

definition subscriptions_findByStripeId :: "string \<Rightarrow> subscription option wact" where
  "subscriptions_findByStripeId s = askA (subscription_by_stripe s)"

definition subscriptions_upsert :: "upsert_subscription \<Rightarrow> subscription wact" where
  "subscriptions_upsert d =
     bindA (askA (\<lambda>w. getT (w_subscriptions w) (usb_org d))) (\<lambda>existing.
     bindA nowA (\<lambda>t.
     bindA (case existing of None \<Rightarrow> uuidA | Some r \<Rightarrow> ret (sb_id r)) (\<lambda>i.
       insert_row w_subscriptions_update (usb_org d)
         \<lparr>sb_id = i, sb_org = usb_org d, sb_planCode = usb_planCode d, sb_status = usb_status d,
          sb_stripeCustomerId = usb_stripeCustomerId d,
          sb_stripeSubscriptionId = usb_stripeSubscriptionId d,
          sb_periodStart = usb_periodStart d, sb_periodEnd = usb_periodEnd d,
          sb_cancelAtPeriodEnd = orElse (usb_cancelAtPeriodEnd d) False,
          sb_createdAt = (case existing of None \<Rightarrow> t | Some r \<Rightarrow> sb_createdAt r),
          sb_updatedAt = t\<rparr>)))"

subsection \<open>fake-usage-counter.repository.ts\<close>

definition counter_key :: "ident \<Rightarrow> time \<Rightarrow> string \<Rightarrow> string" where
  "counter_key org date metric = org @ ''|'' @ iso_date date @ ''|'' @ metric"

definition counters_bump :: "ident \<Rightarrow> time \<Rightarrow> string \<Rightarrow> int \<Rightarrow> int wact" where
  "counters_bump org date metric delta =
     (let k = counter_key org date metric in
     bindA (askA (\<lambda>w. getT (w_counters w) k)) (\<lambda>existing.
     bindA nowA (\<lambda>t.
     bindA (case existing of None \<Rightarrow> uuidA | Some r \<Rightarrow> ret (uc_id r)) (\<lambda>i.
     let n = (case existing of None \<Rightarrow> 0 | Some r \<Rightarrow> uc_count r) + delta in
     bindA (modA (w_counters_update (setT k
       \<lparr>uc_id = i, uc_org = org, uc_date = date, uc_metric = metric, uc_count = n,
        uc_createdAt = (case existing of None \<Rightarrow> t | Some r \<Rightarrow> uc_createdAt r),
        uc_updatedAt = t\<rparr>))) (\<lambda>_. ret n)))))"

definition counters_findDay :: "ident \<Rightarrow> time \<Rightarrow> usage_counter list wact" where
  "counters_findDay org date =
     askA (\<lambda>w. rows_where (\<lambda>r. uc_org r = org \<and> iso_date (uc_date r) = iso_date date) (w_counters w))"

text \<open>\<^verbatim>\<open>out[r.metric] = (out[r.metric] ?? 0n) + r.count\<close>\<close>

fun sum_loop :: "ident \<Rightarrow> time \<Rightarrow> time \<Rightarrow> usage_counter list \<Rightarrow> (string \<times> int) list \<Rightarrow>
    (string \<times> int) list" where
  "sum_loop org since until [] out = out"
| "sum_loop org since until (r # rs) out =
     (if uc_org r \<noteq> org then sum_loop org since until rs out
      else if uc_date r < since \<or> until \<le> uc_date r then sum_loop org since until rs out
      else sum_loop org since until rs
        (AList.update (uc_metric r) (orElse (map_of out (uc_metric r)) 0 + uc_count r) out))"

definition counters_sumRange :: "ident \<Rightarrow> time \<Rightarrow> time \<Rightarrow> (string \<times> int) list wact" where
  "counters_sumRange org since until = askA (\<lambda>w. sum_loop org since until (rowsT (w_counters w)) [])"

subsection \<open>fake-webhook-subscription.repository.ts\<close>

definition hooks_create :: "create_webhook \<Rightarrow> webhook_subscription wact" where
  "hooks_create d =
     bindA nowA (\<lambda>t. bindA uuidA (\<lambda>i.
       insert_row w_hooks_update i
         \<lparr>ws_id = i, ws_org = cws_org d, ws_url = cws_url d, ws_secret = cws_secret d,
          ws_eventTypes = cws_eventTypes d, ws_active = orElse (cws_active d) True,
          ws_description = cws_description d, ws_createdBy = cws_createdBy d,
          ws_createdAt = t, ws_updatedAt = t\<rparr>))"

definition hook_view :: "ident \<Rightarrow> ident \<Rightarrow> world \<Rightarrow> webhook_subscription option" where
  "hook_view i org w = scoped ws_org (w_hooks w) i org"

definition hooks_findById :: "ident \<Rightarrow> ident \<Rightarrow> webhook_subscription option wact" where
  "hooks_findById i org = askA (hook_view i org)"

definition hooks_findAll :: "ident \<Rightarrow> webhook_subscription list wact" where
  "hooks_findAll org =
     askA (\<lambda>w. sort_desc ws_createdAt (rows_where (\<lambda>r. ws_org r = org) (w_hooks w)))"

definition active_hooks :: "ident \<Rightarrow> string \<Rightarrow> world \<Rightarrow> webhook_subscription list" where
  "active_hooks org event w =
     rows_where (\<lambda>r. ws_org r = org \<and> ws_active r \<and> event \<in> set (ws_eventTypes r)) (w_hooks w)"

definition hooks_findActiveForEvent :: "ident \<Rightarrow> string \<Rightarrow> webhook_subscription list wact" where
  "hooks_findActiveForEvent org event = askA (active_hooks org event)"

definition ws_patch :: "update_webhook \<Rightarrow> time \<Rightarrow> webhook_subscription \<Rightarrow> webhook_subscription" where
  "ws_patch d t r =
     (setIf (uws_description d) (\<lambda>v. ws_description_update (\<lambda>_. v))
     (setIf (uws_active d) (\<lambda>v. ws_active_update (\<lambda>_. v))
     (setIf (uws_eventTypes d) (\<lambda>v. ws_eventTypes_update (\<lambda>_. v))
     (setIf (uws_secret d) (\<lambda>v. ws_secret_update (\<lambda>_. v))
     (setIf (uws_url d) (\<lambda>v. ws_url_update (\<lambda>_. v)) r))))) \<lparr>ws_updatedAt := t\<rparr>"

definition hooks_update :: "update_webhook \<Rightarrow> ident \<Rightarrow> ident \<Rightarrow> webhook_subscription wact" where
  "hooks_update d =
     scoped_update w_hooks w_hooks_update ws_org
       (NotFound ''WebhookSubscription not found'') (ws_patch d)"

definition hooks_delete :: "ident \<Rightarrow> ident \<Rightarrow> bool wact" where
  "hooks_delete = scoped_delete w_hooks w_hooks_update ws_org"

lemma ws_patch_org [simp]: "ws_org (ws_patch d t r) = ws_org r"
  by (simp add: ws_patch_def setIf_keep [where f = ws_org])

interpretation hooks: tenant_store hook_view hooks_findById ws_org hooks_update hooks_delete
  by (rule scoped_store [where get = w_hooks and put = w_hooks_update and patch = ws_patch
        and err = "NotFound ''WebhookSubscription not found''"])
     (auto simp: hook_view_def fun_eq_iff hooks_findById_def hooks_update_def hooks_delete_def)

subsection \<open>fake-webhook-delivery.repository.ts\<close>

definition deliveries_create :: "create_delivery \<Rightarrow> webhook_delivery wact" where
  "deliveries_create d =
     bindA nowA (\<lambda>t. bindA uuidA (\<lambda>i.
       insert_row w_deliveries_update i
         \<lparr>wd_id = i, wd_subscriptionId = cwd_subscriptionId d, wd_org = cwd_org d,
          wd_eventType = cwd_eventType d, wd_payload = cwd_payload d, wd_status = ''pending'',
          wd_attempts = 0, wd_lastError = None, wd_responseStatus = None, wd_lastTriedAt = None,
          wd_deliveredAt = None, wd_createdAt = t, wd_updatedAt = t\<rparr>))"

definition delivery_view :: "ident \<Rightarrow> ident \<Rightarrow> world \<Rightarrow> webhook_delivery option" where
  "delivery_view i org w = scoped wd_org (w_deliveries w) i org"

definition deliveries_findById :: "ident \<Rightarrow> ident \<Rightarrow> webhook_delivery option wact" where
  "deliveries_findById i org = askA (delivery_view i org)"

definition deliveries_findRecent :: "ident \<Rightarrow> nat \<Rightarrow> webhook_delivery list wact" where
  "deliveries_findRecent org limit =
     askA (\<lambda>w. take limit
       (sort_desc wd_createdAt (rows_where (\<lambda>r. wd_org r = org) (w_deliveries w))))"

definition wd_patch :: "update_delivery \<Rightarrow> time \<Rightarrow> webhook_delivery \<Rightarrow> webhook_delivery" where
  "wd_patch d t r =
     (setIf (uwd_deliveredAt d) (\<lambda>v. wd_deliveredAt_update (\<lambda>_. v))
     (setIf (uwd_lastTriedAt d) (\<lambda>v. wd_lastTriedAt_update (\<lambda>_. v))
     (setIf (uwd_responseStatus d) (\<lambda>v. wd_responseStatus_update (\<lambda>_. v))
     (setIf (uwd_lastError d) (\<lambda>v. wd_lastError_update (\<lambda>_. v))
     (setIf (uwd_attempts d) (\<lambda>v. wd_attempts_update (\<lambda>_. v))
     (setIf (uwd_status d) (\<lambda>v. wd_status_update (\<lambda>_. v)) r)))))) \<lparr>wd_updatedAt := t\<rparr>"

text \<open>The update of a delivery is by id alone: the caller names no organisation.\<close>

definition deliveries_update :: "ident \<Rightarrow> update_delivery \<Rightarrow> webhook_delivery wact" where
  "deliveries_update i d =
     bindA (askA (\<lambda>w. getT (w_deliveries w) i)) (\<lambda>found.
     bindA (orThrow found (NotFound ''WebhookDelivery not found'')) (\<lambda>r.
     bindA nowA (\<lambda>t.
     bindA (modA (w_deliveries_update (setT i (wd_patch d t r)))) (\<lambda>_.
     ret (wd_patch d t r)))))"

interpretation delivery_reader: tenant_reader delivery_view deliveries_findById wd_org
  by (rule scoped_reader [where get = w_deliveries])
     (auto simp: delivery_view_def fun_eq_iff deliveries_findById_def)

end
