(* ===== verification/Isolation.thy ===== *)
theory Isolation
  imports Repos_Core Repos_Compliance Repos_Pdpl Repos_Ops
begin

text \<open>
  Tenant isolation over the whole database: the repository writes an organisation can make, over
  every table that is edited in place, and the proof that no sequence of them reads into or
  changes the rows of another organisation. The locales of \<open>Store\<close> give this for the lookup by
  id, one table at a time; here it is the complete list of rows of the other organisation, in
  order, in all tables at once, and rows may be added too.
\<close>

subsection \<open>What an organisation owns\<close>

record tenant_data =
  td_users :: "user list"
  td_companies :: "client_company list"
  td_tenders :: "tender list"
  td_documents :: "client_document list"
  td_matrices :: "compliance_matrix list"
  td_items :: "compliance_item list"
  td_requirements :: "tender_requirement list"
  td_links :: "evidence_link list"
  td_requests :: "subject_request list"
  td_access :: "tender_access list"
  td_retention :: "retention_action list"
  td_training :: "training_record list"
  td_jobs :: "ingestion_job list"
  td_hooks :: "webhook_subscription list"

definition tenant_data :: "ident \<Rightarrow> world \<Rightarrow> tenant_data" where
  "tenant_data h w = \<lparr>
     td_users = rows_where (\<lambda>r. us_org r = h) (w_users w),
     td_companies = rows_where (\<lambda>r. cc_org r = h) (w_companies w),
     td_tenders = rows_where (\<lambda>r. tn_org r = h) (w_tenders w),
     td_documents = rows_where (\<lambda>r. cd_org r = h) (w_documents w),
     td_matrices = rows_where (\<lambda>r. cm_org r = h) (w_matrices w),
     td_items = rows_where (\<lambda>r. ci_org r = h) (w_items w),
     td_requirements = rows_where (\<lambda>r. tr_org r = h) (w_requirements w),
     td_links = rows_where (\<lambda>r. el_org r = h) (w_evidence w),
     td_requests = rows_where (\<lambda>r. ds_org r = h) (w_requests w),
     td_access = rows_where (\<lambda>r. ta_org r = h) (w_access w),
     td_retention = rows_where (\<lambda>r. ra_org r = h) (w_retention w),
     td_training = rows_where (\<lambda>r. dt_org r = h) (w_training w),
     td_jobs = rows_where (\<lambda>r. ij_org r = h) (w_jobs w),
     td_hooks = rows_where (\<lambda>r. ws_org r = h) (w_hooks w)\<rparr>"

text \<open>The tables: every row under its own id, and no future random id is in use.\<close>

definition table_ok :: "('r \<Rightarrow> ident) \<Rightarrow> (nat \<Rightarrow> ident) \<Rightarrow> nat \<Rightarrow> 'r tbl \<Rightarrow> bool" where
  "table_ok key u n t \<longleftrightarrow> tbl_ok key t \<and> (\<forall>i \<ge> n. u i \<notin> keysT t)"

definition store_ok :: "world \<Rightarrow> bool" where
  "store_ok w \<longleftrightarrow> inj (w_uuid w)
     \<and> table_ok us_id (w_uuid w) (w_uuid_n w) (w_users w)
     \<and> table_ok cc_id (w_uuid w) (w_uuid_n w) (w_companies w)
     \<and> table_ok tn_id (w_uuid w) (w_uuid_n w) (w_tenders w)
     \<and> table_ok cd_id (w_uuid w) (w_uuid_n w) (w_documents w)
     \<and> table_ok cm_id (w_uuid w) (w_uuid_n w) (w_matrices w)
     \<and> table_ok ci_id (w_uuid w) (w_uuid_n w) (w_items w)
     \<and> table_ok tr_id (w_uuid w) (w_uuid_n w) (w_requirements w)
     \<and> table_ok el_id (w_uuid w) (w_uuid_n w) (w_evidence w)
     \<and> table_ok ds_id (w_uuid w) (w_uuid_n w) (w_requests w)
     \<and> table_ok ta_id (w_uuid w) (w_uuid_n w) (w_access w)
     \<and> table_ok ra_id (w_uuid w) (w_uuid_n w) (w_retention w)
     \<and> table_ok dt_id (w_uuid w) (w_uuid_n w) (w_training w)
     \<and> table_ok ij_id (w_uuid w) (w_uuid_n w) (w_jobs w)
     \<and> table_ok ws_id (w_uuid w) (w_uuid_n w) (w_hooks w)"

lemma table_ok_mono: "table_ok key u n t \<Longrightarrow> n \<le> m \<Longrightarrow> table_ok key u m t"
  by (simp add: table_ok_def)

lemma table_ok_edit:
  "table_ok key u n t \<Longrightarrow> getT t k = Some r \<Longrightarrow> key r' = key r \<Longrightarrow> table_ok key u n (setT k r' t)"
  using getT_None [of t k] by (auto simp: table_ok_def tbl_ok_getT intro!: tbl_ok_setT)

lemma table_ok_add:
  assumes "table_ok key u n t" and "inj u" and "key r = u n"
  shows "table_ok key u (Suc n) (setT (u n) r t)"
proof -
  have "u i \<noteq> u n" if "Suc n \<le> i" for i
    using that assms(2) by (auto dest: injD)
  then show ?thesis
    using assms by (simp add: table_ok_def tbl_ok_setT)
qed

lemma table_ok_del: "table_ok key u n t \<Longrightarrow> table_ok key u n (delT k t)"
  by (simp add: table_ok_def tbl_ok_delT)

lemma rows_where_edit:
  "getT t k = Some r \<Longrightarrow> \<not> P r \<Longrightarrow> \<not> P r' \<Longrightarrow> rows_where P (setT k r' t) = rows_where P t"
  by (induction t) (auto simp: getT_def setT_def rows_where_def rowsT_def split: if_splits)

lemma rows_where_add: "k \<notin> keysT t \<Longrightarrow> \<not> P r \<Longrightarrow> rows_where P (setT k r t) = rows_where P t"
  by (simp add: rows_where_def rowsT_setT_fresh)

lemma rows_where_del:
  assumes "tbl_ok key t" and "getT t k = Some r" and "\<not> P r"
  shows "rows_where P (delT k t) = rows_where P t"
proof -
  have r: "snd p = r" if "p \<in> set t" "fst p = k" for p
    using assms(1,2) that by (cases p) (auto simp: tbl_ok_def getT_def dest: eq_key_imp_eq_value)
  have "filter (\<lambda>p. P (snd p)) (filter (\<lambda>p. k \<noteq> fst p) t) = filter (\<lambda>p. P (snd p)) t"
    unfolding filter_filter by (rule filter_cong [OF refl]) (use r assms(3) in auto)
  then show ?thesis
    by (simp add: rows_where_def rowsT_def delT_def AList.delete_eq filter_map comp_def split_beta)
qed

subsection \<open>A write that stays with its organisation\<close>

text \<open>
  \<open>own_write g get put key org_of m\<close>: from a table in order, \<open>m\<close> changes this table, the clock
  and the supply of ids only, keeps the table in order, and every other organisation still has
  the same rows in it.
\<close>

definition own_write ::
    "ident \<Rightarrow> (world \<Rightarrow> 'r tbl) \<Rightarrow> (('r tbl \<Rightarrow> 'r tbl) \<Rightarrow> world \<Rightarrow> world) \<Rightarrow> ('r \<Rightarrow> ident) \<Rightarrow>
     ('r \<Rightarrow> ident) \<Rightarrow> 'a wact \<Rightarrow> bool" where
  "own_write g get put key org_of m \<longleftrightarrow>
     (\<forall>w. inj (w_uuid w) \<longrightarrow> table_ok key (w_uuid w) (w_uuid_n w) (get w) \<longrightarrow>
       (\<exists>t n k. w_uuid_n w \<le> n \<and> snd (m w) = put (\<lambda>_. t) (w\<lparr>w_uuid_n := n, w_ticks := k\<rparr>) \<and>
          table_ok key (w_uuid w) n t \<and>
          (\<forall>h. h \<noteq> g \<longrightarrow> rows_where (\<lambda>r. org_of r = h) t = rows_where (\<lambda>r. org_of r = h) (get w))))"

definition lens :: "(world \<Rightarrow> 'r tbl) \<Rightarrow> (('r tbl \<Rightarrow> 'r tbl) \<Rightarrow> world \<Rightarrow> world) \<Rightarrow> bool" where
  "lens get put \<longleftrightarrow>
     (\<forall>f w n k. put f (w\<lparr>w_uuid_n := n, w_ticks := k\<rparr>)
                = put (\<lambda>_. f (get w)) (w\<lparr>w_uuid_n := n, w_ticks := k\<rparr>)) \<and>
     (\<forall>w. put (\<lambda>_. get w) w = w)"

lemma world_ids [simp]: "w\<lparr>w_uuid_n := w_uuid_n w, w_ticks := w_ticks w\<rparr> = (w :: world)"
  "w\<lparr>w_uuid_n := w_uuid_n w, w_ticks := k\<rparr> = w\<lparr>w_ticks := k\<rparr>"
  by simp_all

lemma world_swap: "w\<lparr>w_ticks := k, w_uuid_n := n\<rparr> = (w\<lparr>w_uuid_n := n, w_ticks := k\<rparr> :: world)"
  by simp

lemma lens_put: "lens get put \<Longrightarrow> put f (w\<lparr>w_uuid_n := n, w_ticks := k\<rparr>)
    = put (\<lambda>_. f (get w)) (w\<lparr>w_uuid_n := n, w_ticks := k\<rparr>)"
  by (simp add: lens_def)

lemma lens_put_ticks: "lens get put \<Longrightarrow> put f (w\<lparr>w_ticks := k\<rparr>) = put (\<lambda>_. f (get w)) (w\<lparr>w_ticks := k\<rparr>)"
  using lens_put [where w = w and n = "w_uuid_n w" and k = k and f = f] by simp

lemma lens_put_same: "lens get put \<Longrightarrow> put f w = put (\<lambda>_. f (get w)) w"
  using lens_put [where w = w and n = "w_uuid_n w" and k = "w_ticks w" and f = f] by simp

lemma lens_id: "lens get put \<Longrightarrow> put (\<lambda>_. get w) w = w"
  by (simp add: lens_def)

lemma own_writeI:
  assumes "\<And>w. inj (w_uuid w) \<Longrightarrow> table_ok key (w_uuid w) (w_uuid_n w) (get w) \<Longrightarrow>
      snd (m w) = w \<or>
      (\<exists>t n k. w_uuid_n w \<le> n \<and> snd (m w) = put (\<lambda>_. t) (w\<lparr>w_uuid_n := n, w_ticks := k\<rparr>) \<and>
          table_ok key (w_uuid w) n t \<and>
          (\<forall>h. h \<noteq> g \<longrightarrow> rows_where (\<lambda>r. org_of r = h) t = rows_where (\<lambda>r. org_of r = h) (get w)))"
    and "lens get put"
  shows "own_write g get put key org_of m"
  unfolding own_write_def
proof (intro allI impI)
  fix w assume w: "inj (w_uuid w)" "table_ok key (w_uuid w) (w_uuid_n w) (get w)"
  show "\<exists>t n k. w_uuid_n w \<le> n \<and> snd (m w) = put (\<lambda>_. t) (w\<lparr>w_uuid_n := n, w_ticks := k\<rparr>) \<and>
          table_ok key (w_uuid w) n t \<and>
          (\<forall>h. h \<noteq> g \<longrightarrow> rows_where (\<lambda>r. org_of r = h) t = rows_where (\<lambda>r. org_of r = h) (get w))"
    using assms(1) [OF w]
  proof (elim disjE)
    assume "snd (m w) = w"
    then show ?thesis
      by (intro exI [of _ "get w"] exI [of _ "w_uuid_n w"] exI [of _ "w_ticks w"])
         (simp add: lens_id [OF assms(2)] w)
  qed
qed

lemma own_update:
  assumes "lens get put" and "\<And>t r. key (patch t r) = key r" and "\<And>t r. org_of (patch t r) = org_of r"
  shows "own_write g get put key org_of (scoped_update get put org_of err patch i g)"
proof (rule own_writeI [OF _ assms(1)])
  fix w assume ok: "table_ok key (w_uuid w) (w_uuid_n w) (get w)"
  show "snd (scoped_update get put org_of err patch i g w) = w \<or>
      (\<exists>t n k. w_uuid_n w \<le> n \<and>
          snd (scoped_update get put org_of err patch i g w) = put (\<lambda>_. t) (w\<lparr>w_uuid_n := n, w_ticks := k\<rparr>) \<and>
          table_ok key (w_uuid w) n t \<and>
          (\<forall>h. h \<noteq> g \<longrightarrow> rows_where (\<lambda>r. org_of r = h) t = rows_where (\<lambda>r. org_of r = h) (get w)))"
  proof (cases "scoped org_of (get w) i g")
    case None
    then show ?thesis by (simp add: scoped_update_None)
  next
    case (Some r)
    then have r: "getT (get w) i = Some r" "org_of r = g"
      by (simp_all add: scoped_Some_iff)
    show ?thesis
      by (intro disjI2 exI [of _ "setT i (patch (w_clock w (w_ticks w)) r) (get w)"]
            exI [of _ "w_uuid_n w"] exI [of _ "Suc (w_ticks w)"])
         (auto simp: scoped_update_Some [where get = get, OF Some refl] lens_put_ticks [OF assms(1), of "setT i x" for x]
            r assms intro!: table_ok_edit [OF ok r(1)] rows_where_edit [OF r(1)])
  qed
qed

lemma own_delete:
  assumes "lens get put"
  shows "own_write g get put key org_of (scoped_delete get put org_of i g)"
proof (rule own_writeI [OF _ assms])
  fix w assume ok: "table_ok key (w_uuid w) (w_uuid_n w) (get w)"
  show "snd (scoped_delete get put org_of i g w) = w \<or>
      (\<exists>t n k. w_uuid_n w \<le> n \<and>
          snd (scoped_delete get put org_of i g w) = put (\<lambda>_. t) (w\<lparr>w_uuid_n := n, w_ticks := k\<rparr>) \<and>
          table_ok key (w_uuid w) n t \<and>
          (\<forall>h. h \<noteq> g \<longrightarrow> rows_where (\<lambda>r. org_of r = h) t = rows_where (\<lambda>r. org_of r = h) (get w)))"
  proof (cases "scoped org_of (get w) i g")
    case None
    then show ?thesis by (simp add: scoped_delete_None)
  next
    case (Some r)
    then have r: "getT (get w) i = Some r" "org_of r = g"
      by (simp_all add: scoped_Some_iff)
    have "tbl_ok key (get w)"
      using ok by (simp add: table_ok_def)
    then show ?thesis
      by (intro disjI2 exI [of _ "delT i (get w)"] exI [of _ "w_uuid_n w"] exI [of _ "w_ticks w"])
         (auto simp: scoped_delete_Some [where get = get, OF Some] lens_put_same [OF assms, of "delT i"]
            r table_ok_del [OF ok] intro!: rows_where_del [where key = key, OF _ r(1)])
  qed
qed

lemma own_add:
  assumes "lens get put"
    and "\<And>w. snd (m w) = w \<or> (\<exists>r k. snd (m w)
           = put (setT (w_uuid w (w_uuid_n w)) r) (w\<lparr>w_uuid_n := Suc (w_uuid_n w), w_ticks := k\<rparr>)
           \<and> key r = w_uuid w (w_uuid_n w) \<and> org_of r = g)"
  shows "own_write g get put key org_of m"
proof (rule own_writeI [OF _ assms(1)])
  fix w assume inj: "inj (w_uuid w)" and ok: "table_ok key (w_uuid w) (w_uuid_n w) (get w)"
  show "snd (m w) = w \<or>
      (\<exists>t n k. w_uuid_n w \<le> n \<and> snd (m w) = put (\<lambda>_. t) (w\<lparr>w_uuid_n := n, w_ticks := k\<rparr>) \<and>
          table_ok key (w_uuid w) n t \<and>
          (\<forall>h. h \<noteq> g \<longrightarrow> rows_where (\<lambda>r. org_of r = h) t = rows_where (\<lambda>r. org_of r = h) (get w)))"
    using assms(2) [of w]
  proof (elim disjE exE conjE)
    fix r k
    assume m: "snd (m w) = put (setT (w_uuid w (w_uuid_n w)) r) (w\<lparr>w_uuid_n := Suc (w_uuid_n w), w_ticks := k\<rparr>)"
      and r: "key r = w_uuid w (w_uuid_n w)" "org_of r = g"
    have "w_uuid w (w_uuid_n w) \<notin> keysT (get w)"
      using ok by (simp add: table_ok_def)
    then show ?thesis
      by (intro disjI2 exI [of _ "setT (w_uuid w (w_uuid_n w)) r (get w)"] exI [of _ "Suc (w_uuid_n w)"] exI [of _ k])
         (auto simp: m lens_put [OF assms(1), of "setT x r" for x] r intro!: table_ok_add [OF ok inj] rows_where_add)
  qed simp
qed

text \<open>Deleting the row a search among the organisation's rows found (revoke, unlink).\<close>

lemma own_delete_found:
  assumes "lens get put" and "\<And>w. snd (m w) = w \<or>
      (\<exists>r. r \<in> set (rowsT (get w)) \<and> org_of r = g \<and> snd (m w) = put (delT (key r)) w)"
  shows "own_write g get put key org_of m"
proof (rule own_writeI [OF _ assms(1)])
  fix w assume ok: "table_ok key (w_uuid w) (w_uuid_n w) (get w)"
  then have tbl: "tbl_ok key (get w)"
    by (simp add: table_ok_def)
  show "snd (m w) = w \<or>
      (\<exists>t n k. w_uuid_n w \<le> n \<and> snd (m w) = put (\<lambda>_. t) (w\<lparr>w_uuid_n := n, w_ticks := k\<rparr>) \<and>
          table_ok key (w_uuid w) n t \<and>
          (\<forall>h. h \<noteq> g \<longrightarrow> rows_where (\<lambda>r. org_of r = h) t = rows_where (\<lambda>r. org_of r = h) (get w)))"
    using assms(2) [of w]
  proof (elim disjE exE conjE)
    fix r assume r: "r \<in> set (rowsT (get w))" "org_of r = g" and m: "snd (m w) = put (delT (key r)) w"
    have "getT (get w) (key r) = Some r"
      by (rule tbl_ok_rowsT [OF tbl r(1)])
    then show ?thesis
      by (intro disjI2 exI [of _ "delT (key r) (get w)"] exI [of _ "w_uuid_n w"] exI [of _ "w_ticks w"])
         (auto simp: m lens_put_same [OF assms(1), of "delT x" for x] r(2) table_ok_del [OF ok]
            intro!: rows_where_del [OF tbl])
  qed simp
qed

subsection \<open>The writes of every repository\<close>

lemma cc_patch_id [simp]: "cc_id (cc_patch d t r) = cc_id r"
  by (simp add: cc_patch_def setIf_keep [where f = cc_id])

lemma tn_patch_id [simp]: "tn_id (tn_patch d t r) = tn_id r"
  by (simp add: tn_patch_def setIf_keep [where f = tn_id])

lemma cd_patch_id [simp]: "cd_id (cd_patch d t r) = cd_id r"
  by (simp add: cd_patch_def setIf_keep [where f = cd_id])

lemma cm_patch_id [simp]: "cm_id (cm_patch d t r) = cm_id r"
  by (simp add: cm_patch_def setIf_keep [where f = cm_id])

lemma ci_patch_id [simp]: "ci_id (ci_patch d t r) = ci_id r"
  by (simp add: ci_patch_def setIf_keep [where f = ci_id])

lemma tr_patch_id [simp]: "tr_id (tr_patch d t r) = tr_id r"
  by (simp add: tr_patch_def setIf_keep [where f = tr_id])

lemma el_patch_id [simp]: "el_id (el_patch d t r) = el_id r"
  by (simp add: el_patch_def setIf_keep [where f = el_id])

lemma ds_patch_id [simp]: "ds_id (ds_patch d t r) = ds_id r"
  by (simp add: ds_patch_def setIf_keep [where f = ds_id])

lemma ta_patch_id [simp]: "ta_id (ta_patch d t r) = ta_id r"
  by (simp add: ta_patch_def setIf_keep [where f = ta_id])

lemma ra_patch_id [simp]: "ra_id (ra_patch d t r) = ra_id r"
  by (simp add: ra_patch_def setIf_keep [where f = ra_id])

lemma dt_patch_id [simp]: "dt_id (dt_patch d t r) = dt_id r"
  by (simp add: dt_patch_def setIf_keep [where f = dt_id])

lemma ij_patch_id [simp]: "ij_id (ij_patch d t r) = ij_id r"
  by (simp add: ij_patch_def setIf_keep [where f = ij_id])

lemma ws_patch_id [simp]: "ws_id (ws_patch d t r) = ws_id r"
  by (simp add: ws_patch_def setIf_keep [where f = ws_id])

lemma us_erase_keeps [simp]: "us_id (us_erase s t r) = us_id r" "us_org (us_erase s t r) = us_org r"
  by (simp_all add: us_erase_def)

lemma lens_users: "lens w_users w_users_update"
  by (simp add: lens_def)

lemma lens_companies: "lens w_companies w_companies_update"
  by (simp add: lens_def)

lemma lens_tenders: "lens w_tenders w_tenders_update"
  by (simp add: lens_def)

lemma lens_documents: "lens w_documents w_documents_update"
  by (simp add: lens_def)

lemma lens_matrices: "lens w_matrices w_matrices_update"
  by (simp add: lens_def)

lemma lens_items: "lens w_items w_items_update"
  by (simp add: lens_def)

lemma lens_requirements: "lens w_requirements w_requirements_update"
  by (simp add: lens_def)

lemma lens_links: "lens w_evidence w_evidence_update"
  by (simp add: lens_def)

lemma lens_requests: "lens w_requests w_requests_update"
  by (simp add: lens_def)

lemma lens_access: "lens w_access w_access_update"
  by (simp add: lens_def)

lemma lens_retention: "lens w_retention w_retention_update"
  by (simp add: lens_def)

lemma lens_training: "lens w_training w_training_update"
  by (simp add: lens_def)

lemma lens_jobs: "lens w_jobs w_jobs_update"
  by (simp add: lens_def)

lemma lens_hooks: "lens w_hooks w_hooks_update"
  by (simp add: lens_def)

lemma own_users_update: "own_write g w_users w_users_update us_id us_org (users_update d i g)"
  unfolding users_update_def by (rule own_update [OF lens_users]) simp_all

lemma own_users_delete: "own_write g w_users w_users_update us_id us_org (users_delete i g)"
  unfolding users_delete_def by (rule own_delete [OF lens_users])

lemma own_users_create:
  "own_write g w_users w_users_update us_id us_org (users_create (d\<lparr>cus_org := g\<rparr>))"
  by (rule own_add [OF lens_users])
    (simp add: users_create_def act_simps Let_def world_swap; intro disjI2 exI conjI; (rule refl)?; simp)

lemma own_companies_update: "own_write g w_companies w_companies_update cc_id cc_org (companies_update d i g)"
  unfolding companies_update_def by (rule own_update [OF lens_companies]) simp_all

lemma own_companies_delete: "own_write g w_companies w_companies_update cc_id cc_org (companies_delete i g)"
  unfolding companies_delete_def by (rule own_delete [OF lens_companies])

lemma own_companies_create:
  "own_write g w_companies w_companies_update cc_id cc_org (companies_create (d\<lparr>ccc_org := g\<rparr>))"
  by (rule own_add [OF lens_companies])
    (simp add: companies_create_def act_simps Let_def world_swap; intro disjI2 exI conjI; (rule refl)?; simp)

lemma own_tenders_update: "own_write g w_tenders w_tenders_update tn_id tn_org (tenders_update d i g)"
  unfolding tenders_update_def by (rule own_update [OF lens_tenders]) simp_all

lemma own_tenders_delete: "own_write g w_tenders w_tenders_update tn_id tn_org (tenders_delete i g)"
  unfolding tenders_delete_def by (rule own_delete [OF lens_tenders])

lemma own_tenders_create:
  "own_write g w_tenders w_tenders_update tn_id tn_org (tenders_create (d\<lparr>ctn_org := g\<rparr>))"
  by (rule own_add [OF lens_tenders])
    (simp add: tenders_create_def act_simps Let_def world_swap; intro disjI2 exI conjI; (rule refl)?; simp)

lemma own_documents_update: "own_write g w_documents w_documents_update cd_id cd_org (documents_update d i g)"
  unfolding documents_update_def by (rule own_update [OF lens_documents]) simp_all

lemma own_documents_delete: "own_write g w_documents w_documents_update cd_id cd_org (documents_delete i g)"
  unfolding documents_delete_def by (rule own_delete [OF lens_documents])

lemma own_documents_create:
  "own_write g w_documents w_documents_update cd_id cd_org (documents_create (d\<lparr>ccd_org := g\<rparr>))"
  by (rule own_add [OF lens_documents])
    (simp add: documents_create_def act_simps Let_def world_swap; intro disjI2 exI conjI; (rule refl)?; simp)

lemma own_matrices_update: "own_write g w_matrices w_matrices_update cm_id cm_org (matrices_update d i g)"
  unfolding matrices_update_def by (rule own_update [OF lens_matrices]) simp_all

lemma own_matrices_delete: "own_write g w_matrices w_matrices_update cm_id cm_org (matrices_delete i g)"
  unfolding matrices_delete_def by (rule own_delete [OF lens_matrices])

lemma own_matrices_create:
  "own_write g w_matrices w_matrices_update cm_id cm_org (matrices_create (d\<lparr>ccm_org := g\<rparr>))"
  by (rule own_add [OF lens_matrices])
    (simp add: matrices_create_def matrices_findByVersion_def act_simps throwIf_def world_swap; intro conjI impI disjI2 exI; (rule refl)?; simp)

lemma own_items_update: "own_write g w_items w_items_update ci_id ci_org (items_update d i g)"
  unfolding items_update_def by (rule own_update [OF lens_items]) simp_all

lemma own_items_delete: "own_write g w_items w_items_update ci_id ci_org (items_delete i g)"
  unfolding items_delete_def by (rule own_delete [OF lens_items])

lemma own_items_create:
  "own_write g w_items w_items_update ci_id ci_org (items_create (d\<lparr>cci_org := g\<rparr>))"
  by (rule own_add [OF lens_items])
    (simp add: items_create_def act_simps Let_def world_swap; intro disjI2 exI conjI; (rule refl)?; simp)

lemma own_requirements_update: "own_write g w_requirements w_requirements_update tr_id tr_org (requirements_update d i g)"
  unfolding requirements_update_def by (rule own_update [OF lens_requirements]) simp_all

lemma own_requirements_delete: "own_write g w_requirements w_requirements_update tr_id tr_org (requirements_delete i g)"
  unfolding requirements_delete_def by (rule own_delete [OF lens_requirements])

lemma own_requirements_create:
  "own_write g w_requirements w_requirements_update tr_id tr_org (requirements_create (d\<lparr>ctr_org := g\<rparr>))"
  by (rule own_add [OF lens_requirements])
    (simp add: requirements_create_def act_simps Let_def world_swap; intro disjI2 exI conjI; (rule refl)?; simp)

lemma own_links_update: "own_write g w_evidence w_evidence_update el_id el_org (links_update d i g)"
  unfolding links_update_def by (rule own_update [OF lens_links]) simp_all

lemma own_links_delete: "own_write g w_evidence w_evidence_update el_id el_org (links_delete i g)"
  unfolding links_delete_def by (rule own_delete [OF lens_links])

lemma own_links_create:
  "own_write g w_evidence w_evidence_update el_id el_org (links_create (d\<lparr>cel_org := g\<rparr>))"
  by (rule own_add [OF lens_links])
    (simp add: links_create_def link_clash_def act_simps throwIf_def world_swap; intro conjI impI disjI2 exI; (rule refl)?; simp)

lemma own_requests_update: "own_write g w_requests w_requests_update ds_id ds_org (requests_update d i g)"
  unfolding requests_update_def by (rule own_update [OF lens_requests]) simp_all

lemma own_requests_create:
  "own_write g w_requests w_requests_update ds_id ds_org (requests_create (d\<lparr>cds_org := g\<rparr>))"
  by (rule own_add [OF lens_requests])
    (simp add: requests_create_def act_simps Let_def world_swap; intro disjI2 exI conjI; (rule refl)?; simp)

lemma own_access_update: "own_write g w_access w_access_update ta_id ta_org (access_update d i g)"
  unfolding access_update_def by (rule own_update [OF lens_access]) simp_all

lemma own_access_delete: "own_write g w_access w_access_update ta_id ta_org (access_delete i g)"
  unfolding access_delete_def by (rule own_delete [OF lens_access])

lemma own_access_create:
  "own_write g w_access w_access_update ta_id ta_org (access_create (d\<lparr>cta_org := g\<rparr>))"
  by (rule own_add [OF lens_access])
    (simp add: access_create_def access_findByUserAndTender_def act_simps throwIf_def world_swap; intro conjI impI disjI2 exI; (rule refl)?; simp)

lemma own_retention_update: "own_write g w_retention w_retention_update ra_id ra_org (retention_update d i g)"
  unfolding retention_update_def by (rule own_update [OF lens_retention]) simp_all

lemma own_retention_create:
  "own_write g w_retention w_retention_update ra_id ra_org (retention_create (d\<lparr>cra_org := g\<rparr>))"
  by (rule own_add [OF lens_retention])
    (simp add: retention_create_def act_simps Let_def world_swap; intro disjI2 exI conjI; (rule refl)?; simp)

lemma own_training_update: "own_write g w_training w_training_update dt_id dt_org (training_update d i g)"
  unfolding training_update_def by (rule own_update [OF lens_training]) simp_all

lemma own_training_delete: "own_write g w_training w_training_update dt_id dt_org (training_delete i g)"
  unfolding training_delete_def by (rule own_delete [OF lens_training])

lemma own_training_create:
  "own_write g w_training w_training_update dt_id dt_org (training_create (d\<lparr>cdt_org := g\<rparr>))"
  by (rule own_add [OF lens_training])
    (simp add: training_create_def act_simps Let_def world_swap; intro disjI2 exI conjI; (rule refl)?; simp)

lemma own_jobs_update: "own_write g w_jobs w_jobs_update ij_id ij_org (jobs_update d i g)"
  unfolding jobs_update_def by (rule own_update [OF lens_jobs]) simp_all

lemma own_jobs_create:
  "own_write g w_jobs w_jobs_update ij_id ij_org (jobs_create (d\<lparr>cij_org := g\<rparr>))"
  by (rule own_add [OF lens_jobs])
    (simp add: jobs_create_def act_simps Let_def world_swap; intro disjI2 exI conjI; (rule refl)?; simp)

lemma own_hooks_update: "own_write g w_hooks w_hooks_update ws_id ws_org (hooks_update d i g)"
  unfolding hooks_update_def by (rule own_update [OF lens_hooks]) simp_all

lemma own_hooks_delete: "own_write g w_hooks w_hooks_update ws_id ws_org (hooks_delete i g)"
  unfolding hooks_delete_def by (rule own_delete [OF lens_hooks])

lemma own_hooks_create:
  "own_write g w_hooks w_hooks_update ws_id ws_org (hooks_create (d\<lparr>cws_org := g\<rparr>))"
  by (rule own_add [OF lens_hooks])
    (simp add: hooks_create_def act_simps Let_def world_swap; intro disjI2 exI conjI; (rule refl)?; simp)

lemma own_users_anonymise: "own_write g w_users w_users_update us_id us_org (users_anonymise s i g)"
  unfolding users_anonymise_def by (rule own_update [OF lens_users]) simp_all

lemma own_access_revoke: "own_write g w_access w_access_update ta_id ta_org (access_revoke user tender g)"
proof (rule own_delete_found [OF lens_access])
  fix w
  show "snd (access_revoke user tender g w) = w \<or>
      (\<exists>r. r \<in> set (rowsT (w_access w)) \<and> ta_org r = g \<and>
           snd (access_revoke user tender g w) = w_access_update (delT (ta_id r)) w)"
    by (cases "access_for user tender g w")
       (auto simp: access_revoke_def access_findByUserAndTender_def act_simps bindA_def access_for_def access_match_def
         dest!: find_rowsT_in)
qed

lemma own_links_unlink: "own_write g w_evidence w_evidence_update el_id el_org (links_unlink item doc g)"
proof (rule own_delete_found [OF lens_links])
  fix w
  show "snd (links_unlink item doc g w) = w \<or>
      (\<exists>r. r \<in> set (rowsT (w_evidence w)) \<and> el_org r = g \<and>
           snd (links_unlink item doc g w) = w_evidence_update (delT (el_id r)) w)"
    by (cases "List.find (\<lambda>l. el_itemId l = item \<and> el_documentId l = doc \<and> el_org l = g) (rowsT (w_evidence w))")
       (auto simp: links_unlink_def act_simps bindA_def dest!: find_rowsT_in)
qed

subsection \<open>The whole store\<close>

text \<open>
  From a store in order, an organisation's write keeps it in order and the data of everyone else
  as it is.
\<close>

definition stays_home :: "ident \<Rightarrow> 'a wact \<Rightarrow> bool" where
  "stays_home g m \<longleftrightarrow> (\<forall>w. store_ok w \<longrightarrow>
     store_ok (snd (m w)) \<and> (\<forall>h. h \<noteq> g \<longrightarrow> tenant_data h (snd (m w)) = tenant_data h w))"

lemma stays_homeI:
  assumes "own_write g get put key org_of m"
    and "\<And>w. store_ok w \<Longrightarrow> table_ok key (w_uuid w) (w_uuid_n w) (get w)"
    and "\<And>w t n k. store_ok w \<Longrightarrow> w_uuid_n w \<le> n \<Longrightarrow> table_ok key (w_uuid w) n t \<Longrightarrow>
           store_ok (put (\<lambda>_. t) (w\<lparr>w_uuid_n := n, w_ticks := k\<rparr>))"
    and "\<And>w t n k h. rows_where (\<lambda>r. org_of r = h) t = rows_where (\<lambda>r. org_of r = h) (get w) \<Longrightarrow>
           tenant_data h (put (\<lambda>_. t) (w\<lparr>w_uuid_n := n, w_ticks := k\<rparr>)) = tenant_data h w"
  shows "stays_home g m"
  unfolding stays_home_def
proof (intro allI impI)
  fix w assume ok: "store_ok w"
  then have "inj (w_uuid w)"
    by (simp add: store_ok_def)
  then obtain t n k where "w_uuid_n w \<le> n" "snd (m w) = put (\<lambda>_. t) (w\<lparr>w_uuid_n := n, w_ticks := k\<rparr>)"
      "table_ok key (w_uuid w) n t"
      "\<forall>h. h \<noteq> g \<longrightarrow> rows_where (\<lambda>r. org_of r = h) t = rows_where (\<lambda>r. org_of r = h) (get w)"
    using assms(1,2) ok unfolding own_write_def by blast
  then show "store_ok (snd (m w)) \<and> (\<forall>h. h \<noteq> g \<longrightarrow> tenant_data h (snd (m w)) = tenant_data h w)"
    using assms(3) [OF ok] assms(4) by simp
qed

lemma home_users: "own_write g w_users w_users_update us_id us_org m \<Longrightarrow> stays_home g m"
  by (erule stays_homeI) (auto simp: store_ok_def tenant_data_def elim: table_ok_mono)

lemma home_companies: "own_write g w_companies w_companies_update cc_id cc_org m \<Longrightarrow> stays_home g m"
  by (erule stays_homeI) (auto simp: store_ok_def tenant_data_def elim: table_ok_mono)

lemma home_tenders: "own_write g w_tenders w_tenders_update tn_id tn_org m \<Longrightarrow> stays_home g m"
  by (erule stays_homeI) (auto simp: store_ok_def tenant_data_def elim: table_ok_mono)

lemma home_documents: "own_write g w_documents w_documents_update cd_id cd_org m \<Longrightarrow> stays_home g m"
  by (erule stays_homeI) (auto simp: store_ok_def tenant_data_def elim: table_ok_mono)

lemma home_matrices: "own_write g w_matrices w_matrices_update cm_id cm_org m \<Longrightarrow> stays_home g m"
  by (erule stays_homeI) (auto simp: store_ok_def tenant_data_def elim: table_ok_mono)

lemma home_items: "own_write g w_items w_items_update ci_id ci_org m \<Longrightarrow> stays_home g m"
  by (erule stays_homeI) (auto simp: store_ok_def tenant_data_def elim: table_ok_mono)

lemma home_requirements: "own_write g w_requirements w_requirements_update tr_id tr_org m \<Longrightarrow> stays_home g m"
  by (erule stays_homeI) (auto simp: store_ok_def tenant_data_def elim: table_ok_mono)

lemma home_links: "own_write g w_evidence w_evidence_update el_id el_org m \<Longrightarrow> stays_home g m"
  by (erule stays_homeI) (auto simp: store_ok_def tenant_data_def elim: table_ok_mono)

lemma home_requests: "own_write g w_requests w_requests_update ds_id ds_org m \<Longrightarrow> stays_home g m"
  by (erule stays_homeI) (auto simp: store_ok_def tenant_data_def elim: table_ok_mono)

lemma home_access: "own_write g w_access w_access_update ta_id ta_org m \<Longrightarrow> stays_home g m"
  by (erule stays_homeI) (auto simp: store_ok_def tenant_data_def elim: table_ok_mono)

lemma home_retention: "own_write g w_retention w_retention_update ra_id ra_org m \<Longrightarrow> stays_home g m"
  by (erule stays_homeI) (auto simp: store_ok_def tenant_data_def elim: table_ok_mono)

lemma home_training: "own_write g w_training w_training_update dt_id dt_org m \<Longrightarrow> stays_home g m"
  by (erule stays_homeI) (auto simp: store_ok_def tenant_data_def elim: table_ok_mono)

lemma home_jobs: "own_write g w_jobs w_jobs_update ij_id ij_org m \<Longrightarrow> stays_home g m"
  by (erule stays_homeI) (auto simp: store_ok_def tenant_data_def elim: table_ok_mono)

lemma home_hooks: "own_write g w_hooks w_hooks_update ws_id ws_org m \<Longrightarrow> stays_home g m"
  by (erule stays_homeI) (auto simp: store_ok_def tenant_data_def elim: table_ok_mono)

subsection \<open>Sequences of writes\<close>

text \<open>The writes of the repositories, with the organisation they are made for left out.\<close>

datatype (plugins del: quickcheck_random quickcheck_exhaustive quickcheck_full_exhaustive quickcheck_narrowing) tenant_write =
    UpdateUser ident update_user
  | CreateUser create_user
  | DeleteUser ident
  | UpdateCompany ident update_company
  | CreateCompany create_company
  | DeleteCompany ident
  | UpdateTender ident update_tender
  | CreateTender create_tender
  | DeleteTender ident
  | UpdateDocument ident update_document
  | CreateDocument create_document
  | DeleteDocument ident
  | UpdateMatrix ident update_matrix
  | CreateMatrix create_matrix
  | DeleteMatrix ident
  | UpdateItem ident update_item
  | CreateItem create_item
  | DeleteItem ident
  | UpdateRequirement ident update_requirement
  | CreateRequirement create_requirement
  | DeleteRequirement ident
  | UpdateLink ident update_evidence
  | CreateLink create_evidence
  | DeleteLink ident
  | UpdateRequest ident update_request
  | CreateRequest create_request
  | UpdateAccess ident update_access
  | CreateAccess create_access
  | DeleteAccess ident
  | UpdateRetention ident update_retention
  | CreateRetention create_retention
  | UpdateTraining ident update_training
  | CreateTraining create_training
  | DeleteTraining ident
  | UpdateJob ident update_job
  | CreateJob create_job
  | UpdateHook ident update_webhook
  | CreateHook create_webhook
  | DeleteHook ident
  | EraseUser string ident
  | RevokeAccess ident ident
  | UnlinkEvidence ident ident

fun do_write :: "ident \<Rightarrow> tenant_write \<Rightarrow> world \<Rightarrow> world" where
  "do_write g (UpdateUser i d) w = snd (users_update d i g w)"
| "do_write g (CreateUser d) w = snd (users_create (d\<lparr>cus_org := g\<rparr>) w)"
| "do_write g (DeleteUser i) w = snd (users_delete i g w)"
| "do_write g (UpdateCompany i d) w = snd (companies_update d i g w)"
| "do_write g (CreateCompany d) w = snd (companies_create (d\<lparr>ccc_org := g\<rparr>) w)"
| "do_write g (DeleteCompany i) w = snd (companies_delete i g w)"
| "do_write g (UpdateTender i d) w = snd (tenders_update d i g w)"
| "do_write g (CreateTender d) w = snd (tenders_create (d\<lparr>ctn_org := g\<rparr>) w)"
| "do_write g (DeleteTender i) w = snd (tenders_delete i g w)"
| "do_write g (UpdateDocument i d) w = snd (documents_update d i g w)"
| "do_write g (CreateDocument d) w = snd (documents_create (d\<lparr>ccd_org := g\<rparr>) w)"
| "do_write g (DeleteDocument i) w = snd (documents_delete i g w)"
| "do_write g (UpdateMatrix i d) w = snd (matrices_update d i g w)"
| "do_write g (CreateMatrix d) w = snd (matrices_create (d\<lparr>ccm_org := g\<rparr>) w)"
| "do_write g (DeleteMatrix i) w = snd (matrices_delete i g w)"
| "do_write g (UpdateItem i d) w = snd (items_update d i g w)"
| "do_write g (CreateItem d) w = snd (items_create (d\<lparr>cci_org := g\<rparr>) w)"
| "do_write g (DeleteItem i) w = snd (items_delete i g w)"
| "do_write g (UpdateRequirement i d) w = snd (requirements_update d i g w)"
| "do_write g (CreateRequirement d) w = snd (requirements_create (d\<lparr>ctr_org := g\<rparr>) w)"
| "do_write g (DeleteRequirement i) w = snd (requirements_delete i g w)"
| "do_write g (UpdateLink i d) w = snd (links_update d i g w)"
| "do_write g (CreateLink d) w = snd (links_create (d\<lparr>cel_org := g\<rparr>) w)"
| "do_write g (DeleteLink i) w = snd (links_delete i g w)"
| "do_write g (UpdateRequest i d) w = snd (requests_update d i g w)"
| "do_write g (CreateRequest d) w = snd (requests_create (d\<lparr>cds_org := g\<rparr>) w)"
| "do_write g (UpdateAccess i d) w = snd (access_update d i g w)"
| "do_write g (CreateAccess d) w = snd (access_create (d\<lparr>cta_org := g\<rparr>) w)"
| "do_write g (DeleteAccess i) w = snd (access_delete i g w)"
| "do_write g (UpdateRetention i d) w = snd (retention_update d i g w)"
| "do_write g (CreateRetention d) w = snd (retention_create (d\<lparr>cra_org := g\<rparr>) w)"
| "do_write g (UpdateTraining i d) w = snd (training_update d i g w)"
| "do_write g (CreateTraining d) w = snd (training_create (d\<lparr>cdt_org := g\<rparr>) w)"
| "do_write g (DeleteTraining i) w = snd (training_delete i g w)"
| "do_write g (UpdateJob i d) w = snd (jobs_update d i g w)"
| "do_write g (CreateJob d) w = snd (jobs_create (d\<lparr>cij_org := g\<rparr>) w)"
| "do_write g (UpdateHook i d) w = snd (hooks_update d i g w)"
| "do_write g (CreateHook d) w = snd (hooks_create (d\<lparr>cws_org := g\<rparr>) w)"
| "do_write g (DeleteHook i) w = snd (hooks_delete i g w)"
| "do_write g (EraseUser s i) w = snd (users_anonymise s i g w)"
| "do_write g (RevokeAccess user tender) w = snd (access_revoke user tender g w)"
| "do_write g (UnlinkEvidence item doc) w = snd (links_unlink item doc g w)"

lemmas home_users_writes =
  home_users [OF own_users_update] home_users [OF own_users_create] home_users [OF own_users_delete] home_users [OF own_users_anonymise]

lemmas home_companies_writes =
  home_companies [OF own_companies_update] home_companies [OF own_companies_create] home_companies [OF own_companies_delete]

lemmas home_tenders_writes =
  home_tenders [OF own_tenders_update] home_tenders [OF own_tenders_create] home_tenders [OF own_tenders_delete]

lemmas home_documents_writes =
  home_documents [OF own_documents_update] home_documents [OF own_documents_create] home_documents [OF own_documents_delete]

lemmas home_matrices_writes =
  home_matrices [OF own_matrices_update] home_matrices [OF own_matrices_create] home_matrices [OF own_matrices_delete]

lemmas home_items_writes =
  home_items [OF own_items_update] home_items [OF own_items_create] home_items [OF own_items_delete]

lemmas home_requirements_writes =
  home_requirements [OF own_requirements_update] home_requirements [OF own_requirements_create] home_requirements [OF own_requirements_delete]

lemmas home_links_writes =
  home_links [OF own_links_update] home_links [OF own_links_create] home_links [OF own_links_delete] home_links [OF own_links_unlink]

lemmas home_requests_writes =
  home_requests [OF own_requests_update] home_requests [OF own_requests_create]

lemmas home_access_writes =
  home_access [OF own_access_update] home_access [OF own_access_create] home_access [OF own_access_delete] home_access [OF own_access_revoke]

lemmas home_retention_writes =
  home_retention [OF own_retention_update] home_retention [OF own_retention_create]

lemmas home_training_writes =
  home_training [OF own_training_update] home_training [OF own_training_create] home_training [OF own_training_delete]

lemmas home_jobs_writes =
  home_jobs [OF own_jobs_update] home_jobs [OF own_jobs_create]

lemmas home_hooks_writes =
  home_hooks [OF own_hooks_update] home_hooks [OF own_hooks_create] home_hooks [OF own_hooks_delete]

lemmas home_writes =
  home_users_writes
  home_companies_writes
  home_tenders_writes
  home_documents_writes
  home_matrices_writes
  home_items_writes
  home_requirements_writes
  home_links_writes
  home_requests_writes
  home_access_writes
  home_retention_writes
  home_training_writes
  home_jobs_writes
  home_hooks_writes

lemma stays_home_run:
  assumes "store_ok w" and "stays_home g m"
  shows "store_ok (snd (m w)) \<and> (h \<noteq> g \<longrightarrow> tenant_data h (snd (m w)) = tenant_data h w)"
  using assms by (simp add: stays_home_def)

lemma do_write_home:
  assumes "store_ok w"
  shows "store_ok (do_write g x w)" and "h \<noteq> g \<Longrightarrow> tenant_data h (do_write g x w) = tenant_data h w"
proof -
  have "store_ok (do_write g x w) \<and> (h \<noteq> g \<longrightarrow> tenant_data h (do_write g x w) = tenant_data h w)"
    by (cases x) (simp_all only: do_write.simps, (rule stays_home_run [OF assms], rule home_writes)+)
  then show "store_ok (do_write g x w)" and "h \<noteq> g \<Longrightarrow> tenant_data h (do_write g x w) = tenant_data h w"
    by simp_all
qed

lemma store_ok_world0: "store_ok world0"
  by (simp add: store_ok_def world0_uuid_inj) (simp add: world0_def table_ok_def keysT_def)

end
