(* ===== verification/Audit_Trail.thy ===== *)
theory Audit_Trail
  imports Repos_Core
begin

text \<open>
  The audit trail: \<^verbatim>\<open>audit/audit.service.ts\<close>, and the interceptor
  \<^verbatim>\<open>audit/audit.interceptor.ts\<close> that writes one event after each audited handler that
  succeeded, with secret-looking body fields masked.
\<close>

definition audit_record :: "create_audit \<Rightarrow> audit_event wact" where
  "audit_record d = audit_create d"

definition audit_recent :: "ident \<Rightarrow> int option \<Rightarrow> audit_event list wact" where
  "audit_recent org limit = audit_findRecent org (orElse limit 100)"

subsection \<open>Masking\<close>

text \<open>\<^verbatim>\<open>/password|token|api[_-]?key|secret|authorization/i.test(k)\<close>\<close>

definition secret_words :: "string list" where
  "secret_words = [''password'', ''token'', ''apikey'', ''api_key'', ''api-key'', ''secret'',
     ''authorization'']"

definition secret_key :: "string \<Rightarrow> bool" where
  "secret_key k = list_ex (includes_str (toLowerCase k)) secret_words"

text \<open>
  \<^verbatim>\<open>body\<close> is the parsed JSON object, \<^verbatim>\<open>out\<close> the object under construction, whose
  keys keep the order of their first assignment.
\<close>

fun redact_loop :: "(string \<times> json) list \<Rightarrow> string list \<Rightarrow> (string \<times> json) list \<Rightarrow>
    (string \<times> json) list" where
  "redact_loop body [] out = out"
| "redact_loop body (k # ks) out =
     (case map_of body k of
        None \<Rightarrow> redact_loop body ks out
      | Some v \<Rightarrow> redact_loop body ks
          (AList.update k (if secret_key k then JStr ''[redacted]'' else v) out))"

definition redactDetails ::
    "(string \<times> json) list option \<Rightarrow> string list option \<Rightarrow> (string \<times> json) list" where
  "redactDetails body keys =
     (case (body, keys) of
        (Some b, Some (k # ks)) \<Rightarrow> redact_loop b (k # ks) []
      | _ \<Rightarrow> [])"

subsection \<open>The interceptor\<close>

record principal =
  pr_userId :: ident
  pr_org :: ident
  pr_role :: string

record audit_meta =
  am_action :: string
  am_entityType :: string
  am_entityIdFrom :: "string option"
  am_entityIdKey :: "string option"
  am_detailsFrom :: "string list option"

record http_request =
  hr_method :: string
  hr_originalUrl :: "string option"
  hr_url :: string
  hr_params :: "(string \<times> json) list"
  hr_body :: "(string \<times> json) list option"
  hr_user :: "principal option"

text \<open>\<^verbatim>\<open>typeof o[key] === 'string' ? o[key] : 'unknown'\<close>\<close>

definition str_field :: "(string \<times> json) list \<Rightarrow> string \<Rightarrow> string" where
  "str_field kvs key = (case map_of kvs key of Some (JStr s) \<Rightarrow> s | _ \<Rightarrow> ''unknown'')"

definition extractEntityId :: "audit_meta \<Rightarrow> http_request \<Rightarrow> principal \<Rightarrow> json \<Rightarrow> string" where
  "extractEntityId m req p response =
     (let source = orElse (am_entityIdFrom m) ''response'';
          key = orElse (am_entityIdKey m) ''id'' in
      if source = ''principal'' then pr_userId p
      else if source = ''param'' then str_field (hr_params req) key
      else if source = ''body'' then
        (case hr_body req of Some b \<Rightarrow> str_field b key | None \<Rightarrow> ''unknown'')
      else (case response of JObj kvs \<Rightarrow> str_field kvs key | _ \<Rightarrow> ''unknown''))"

text \<open>The details object: method and path, then the masked body fields spread over them.\<close>

definition audit_details :: "audit_meta \<Rightarrow> http_request \<Rightarrow> json" where
  "audit_details m req =
     JObj (fold (\<lambda>(k, v). AList.update k v) (redactDetails (hr_body req) (am_detailsFrom m))
       [(''method'', JStr (hr_method req)), (''path'', JStr (orElse (hr_originalUrl req) (hr_url req)))])"

definition audit_tap :: "audit_meta \<Rightarrow> http_request \<Rightarrow> json \<Rightarrow> unit wact" where
  "audit_tap m req response =
     (case hr_user req of
        None \<Rightarrow> ret ()
      | Some p \<Rightarrow>
          if pr_org p = '''' then ret ()
          else tryA
            (bindA (audit_record
               \<lparr>cae_action = am_action m, cae_entityType = am_entityType m,
                cae_entityId = extractEntityId m req p response,
                cae_userId = Some (pr_userId p), cae_org = pr_org p,
                cae_details = Some (audit_details m req)\<rparr>) (\<lambda>_. ret ()))
            (\<lambda>_. ret ()))"

definition intercept :: "audit_meta option \<Rightarrow> http_request \<Rightarrow> json wact \<Rightarrow> json wact" where
  "intercept meta req handler =
     (case meta of
        None \<Rightarrow> handler
      | Some m \<Rightarrow> bindA handler (\<lambda>response. bindA (audit_tap m req response) (\<lambda>_. ret response)))"

subsection \<open>What masking lets through\<close>

lemma redact_loop_map_of:
  "map_of (redact_loop body ks out) k =
     (if k \<in> set ks \<and> map_of body k \<noteq> None
      then Some (if secret_key k then JStr ''[redacted]'' else the (map_of body k))
      else map_of out k)"
  by (induction ks arbitrary: out) (auto simp: update_conv' split: option.splits)

lemma redactDetails_map_of:
  "map_of (redactDetails (Some body) (Some ks)) k =
     (if k \<in> set ks \<and> map_of body k \<noteq> None
      then Some (if secret_key k then JStr ''[redacted]'' else the (map_of body k))
      else None)"
  by (cases ks) (simp_all add: redactDetails_def redact_loop_map_of del: redact_loop.simps)

lemma fold_update_map_of:
  "distinct (map fst kvs) \<Longrightarrow>
     map_of (fold (\<lambda>(k, v). AList.update k v) kvs base) k
     = (case map_of kvs k of Some v \<Rightarrow> Some v | None \<Rightarrow> map_of base k)"
proof (induction kvs arbitrary: base)
  case (Cons kv kvs)
  then show ?case
    by (cases kv; cases "k = fst kv") (auto simp: update_conv' map_of_eq_None_iff [THEN iffD2] split: option.splits)
qed simp

lemma redact_loop_distinct:
  "distinct (map fst out) \<Longrightarrow> distinct (map fst (redact_loop body ks out))"
  by (induction ks arbitrary: out) (auto simp: distinct_update split: option.splits)

lemma redactDetails_distinct: "distinct (map fst (redactDetails body keys))"
  by (auto simp: redactDetails_def redact_loop_distinct simp del: redact_loop.simps
      split: option.splits list.splits)

lemma audit_record_apply [act_simps]:
  "audit_record d w =
     (let r = \<lparr>ae_id = w_uuid w (w_uuid_n w), ae_action = cae_action d,
               ae_entityType = cae_entityType d, ae_entityId = cae_entityId d,
               ae_userId = cae_userId d, ae_org = cae_org d,
               ae_details = orElse (cae_details d) JNull, ae_timestamp = w_clock w (w_ticks w)\<rparr>
      in (Inr r, w\<lparr>w_uuid_n := Suc (w_uuid_n w), w_ticks := Suc (w_ticks w),
                    w_audit := setT (w_uuid w (w_uuid_n w)) r (w_audit w)\<rparr>))"
  by (simp add: audit_record_def audit_create_def bindA_def uuidA_def nowA_def insert_row_apply Let_def)

lemma audit_record_Inr: "\<exists>r w'. audit_record d w = (Inr r, w')"
  by (simp add: audit_record_apply Let_def)

lemma frame_audit_record [runs_rules]:
  assumes "\<And>w n. get (w\<lparr>w_uuid_n := n\<rparr>) = get w" "\<And>w n. get (w\<lparr>w_ticks := n\<rparr>) = get w"
    and "\<And>w f. get (w_audit_update f w) = get w"
  shows "runs (frame get) (audit_record d)"
  using assms by (simp add: runs_def audit_record_apply Let_def frame_def uuid_adv_def)

lemma uuid_adv_audit_record [runs_rules]: "runs uuid_adv (audit_record d)"
  by (simp add: runs_def audit_record_apply Let_def uuid_adv_def)

lemma audit_details_field:
  assumes "k \<noteq> ''method''" and "k \<noteq> ''path''" and "audit_details m req = JObj kvs"
  shows "map_of kvs k = map_of (redactDetails (hr_body req) (am_detailsFrom m)) k"
  using assms by (auto simp: audit_details_def fold_update_map_of redactDetails_distinct
      split: option.splits)

lemma redacted_secret:
  assumes "secret_key k"
  shows "map_of (redactDetails body keys) k = None
       \<or> map_of (redactDetails body keys) k = Some (JStr ''[redacted]'')"
proof (cases "body = None \<or> keys = None")
  case True
  then show ?thesis by (auto simp: redactDetails_def split: option.splits)
next
  case False
  then obtain b ks where "body = Some b" "keys = Some ks" by auto
  then show ?thesis using assms redactDetails_map_of [of b ks k] by (cases "map_of b k") auto
qed

lemma secret_key_plain: "\<not> secret_key ''method''" "\<not> secret_key ''path''"
  by (code_simp, code_simp)


definition demo_meta :: audit_meta where
  "demo_meta = \<lparr>am_action = ''login'', am_entityType = ''User'', am_entityIdFrom = Some ''principal'',
     am_entityIdKey = None, am_detailsFrom = Some [''email'', ''apiToken'']\<rparr>"

definition demo_req :: http_request where
  "demo_req = \<lparr>hr_method = ''POST'', hr_originalUrl = None, hr_url = ''/auth'', hr_params = [],
     hr_body = Some [(''email'', JStr ''a@b''), (''apiToken'', JStr ''s3cret'')],
     hr_user = Some \<lparr>pr_userId = ''u1'', pr_org = ''org'', pr_role = ''Owner''\<rparr>\<rparr>"


lemma audit_tap_Inr: "\<exists>w'. audit_tap m req response w = (Inr (), w')"
  by (auto simp: audit_tap_def tryA_def bindA_def audit_record_apply Let_def split: option.splits)

text \<open>
  C36: auditing is transparent to the caller: an audited handler answers (value or exception)
  exactly as it does without the interceptor, and a handler that throws leaves no audit event
  of its own.
\<close>

theorem intercept_transparent:
  "fst (intercept meta req handler w) = fst (handler w) \<and>
   (\<forall>e w'. handler w = (Inl e, w') \<longrightarrow> intercept meta req handler w = (Inl e, w'))"
proof (cases "handler w")
  case (Pair r w')
  show ?thesis
  proof (cases meta)
    case (Some m)
    then show ?thesis
      using Pair audit_tap_Inr [of m req "projr r" w']
      by (cases r) (auto simp: intercept_def bindA_def)
  qed (simp add: intercept_def Pair)
qed

theorem intercept_transparent_witness:
  "intercept (Some demo_meta) demo_req (throw (NotFound ''x'')) world0
     = (Inl (NotFound ''x''), world0)"
  using intercept_transparent [of "Some demo_meta" demo_req "throw (NotFound ''x'')" world0] by simp

end
