(* ===== verification/DataSubject.thy ===== *)
theory DataSubject
  imports Repos_Pdpl Audit_Trail
begin

text \<open>
  Data-subject requests (\<^verbatim>\<open>pdpl/data-subject.service.ts\<close>): creation, approval, denial and
  execution of access, erasure and rectification requests, with the audit event each of them
  leaves. The snapshot and the erasure result are kept as values and, converted to JSON, as
  the payload of the request row.
\<close>

subsection \<open>Rows as JSON\<close>

definition role_name :: "user_role \<Rightarrow> string" where
  "role_name r = (case r of Owner \<Rightarrow> ''Owner'' | BidManager \<Rightarrow> ''BidManager''
     | Presales \<Rightarrow> ''Presales'' | Finance \<Rightarrow> ''Finance'' | DocController \<Rightarrow> ''DocController''
     | Reviewer \<Rightarrow> ''Reviewer'')"

definition audit_json :: "audit_event \<Rightarrow> json" where
  "audit_json e = JObj
     [(''id'', JStr (ae_id e)), (''action'', JStr (ae_action e)),
      (''entityType'', JStr (ae_entityType e)), (''entityId'', JStr (ae_entityId e)),
      (''userId'', jopt (ae_userId e)), (''organizationId'', JStr (ae_org e)),
      (''details'', ae_details e), (''timestamp'', JDate (ae_timestamp e))]"

definition consent_json :: "consent_event \<Rightarrow> json" where
  "consent_json e = JObj
     [(''id'', JStr (ce_id e)), (''organizationId'', JStr (ce_org e)),
      (''subjectEmail'', JStr (ce_subjectEmail e)), (''subjectUserId'', jopt (ce_subjectUserId e)),
      (''purpose'', JStr (ce_purpose e)), (''state'', JStr (ce_state e)),
      (''source'', JStr (ce_source e)), (''recordedBy'', jopt (ce_recordedBy e)),
      (''details'', ce_details e), (''recordedAt'', JDate (ce_recordedAt e)),
      (''createdAt'', JDate (ce_createdAt e)), (''updatedAt'', JDate (ce_updatedAt e))]"

definition request_json :: "subject_request \<Rightarrow> json" where
  "request_json r = JObj
     [(''id'', JStr (ds_id r)), (''organizationId'', JStr (ds_org r)), (''type'', JStr (ds_type r)),
      (''subjectEmail'', JStr (ds_subjectEmail r)), (''status'', JStr (ds_status r)),
      (''requestedBy'', jopt (ds_requestedBy r)), (''requestedAt'', JDate (ds_requestedAt r)),
      (''decidedBy'', jopt (ds_decidedBy r)), (''decidedAt'', jdate (ds_decidedAt r)),
      (''completedAt'', jdate (ds_completedAt r)), (''notes'', jopt (ds_notes r)),
      (''payload'', ds_payload r), (''createdAt'', JDate (ds_createdAt r)),
      (''updatedAt'', JDate (ds_updatedAt r))]"

subsection \<open>Values the service returns\<close>

record snapshot_user =
  su_id :: ident
  su_email :: string
  su_name :: string
  su_role :: user_role
  su_org :: ident
  su_createdAt :: time

record access_snapshot =
  sn_subjectEmail :: string
  sn_user :: "snapshot_user option"
  sn_auditEvents :: "audit_event list"
  sn_consentEvents :: "consent_event list"
  sn_previousRequests :: "subject_request list"
  sn_generatedAt :: time

record erasure_result =
  er_auditAnonymised :: nat
  er_consentAnonymised :: nat
  er_userAnonymised :: bool

record execute_result =
  ex_request :: subject_request
  ex_snapshot :: "access_snapshot option"
  ex_erasure :: "erasure_result option"

definition snapshot_json :: "access_snapshot \<Rightarrow> json" where
  "snapshot_json s = JObj
     [(''subjectEmail'', JStr (sn_subjectEmail s)),
      (''user'', case sn_user s of None \<Rightarrow> JNull | Some u \<Rightarrow> JObj
         [(''id'', JStr (su_id u)), (''email'', JStr (su_email u)), (''name'', JStr (su_name u)),
          (''role'', JStr (role_name (su_role u))), (''organizationId'', JStr (su_org u)),
          (''createdAt'', JDate (su_createdAt u))]),
      (''auditEvents'', JArr (map audit_json (sn_auditEvents s))),
      (''consentEvents'', JArr (map consent_json (sn_consentEvents s))),
      (''previousRequests'', JArr (map request_json (sn_previousRequests s))),
      (''generatedAt'', JDate (sn_generatedAt s))]"

definition erasure_fields :: "erasure_result \<Rightarrow> (string \<times> json) list" where
  "erasure_fields r =
     [(''auditAnonymised'', jint (int (er_auditAnonymised r))),
      (''consentAnonymised'', jint (int (er_consentAnonymised r))),
      (''userAnonymised'', JBool (er_userAnonymised r))]"

subsection \<open>The service\<close>

definition no_request_change :: update_request where
  "no_request_change = \<lparr>uds_status = None, uds_decidedBy = None, uds_decidedAt = None,
     uds_completedAt = None, uds_notes = None, uds_payload = None\<rparr>"

definition createRequest ::
    "ident \<Rightarrow> string \<Rightarrow> string \<Rightarrow> ident option \<Rightarrow> string option \<Rightarrow> subject_request wact" where
  "createRequest org type email requestedBy notes =
     bindA (throwIf (email = [] \<or> \<not> includes_char email (CHR ''@''))
       (BadRequest ''subjectEmail required'')) (\<lambda>_.
     bindA (requests_create \<lparr>cds_org = org, cds_type = type, cds_subjectEmail = email,
       cds_requestedBy = requestedBy, cds_notes = notes\<rparr>) (\<lambda>req.
     bindA (audit_record
       \<lparr>cae_action = ''data_subject.'' @ type @ ''.requested'',
        cae_entityType = ''DataSubjectRequest'', cae_entityId = ds_id req,
        cae_userId = requestedBy, cae_org = org,
        cae_details = Some (JObj [(''subjectEmail'', JStr email), (''type'', JStr type)])\<rparr>) (\<lambda>_.
     ret req)))"

definition list_requests :: "ident \<Rightarrow> string option \<Rightarrow> subject_request list wact" where
  "list_requests org status = requests_findAll org status"

definition get_request :: "ident \<Rightarrow> ident \<Rightarrow> subject_request wact" where
  "get_request i org =
     bindA (requests_findById i org) (\<lambda>found.
       orThrow found (NotFound ''DataSubjectRequest not found''))"

definition assertPending :: "subject_request \<Rightarrow> unit wact" where
  "assertPending req =
     throwIf (ds_status req \<noteq> ''pending'')
       (BadRequest (''request not pending (status='' @ ds_status req @ '')''))"

text \<open>\<^verbatim>\<open>req.requestedBy && req.requestedBy === decidedBy\<close>\<close>

definition self_decided :: "subject_request \<Rightarrow> ident \<Rightarrow> bool" where
  "self_decided req decidedBy \<longleftrightarrow>
     truthyS (ds_requestedBy req) \<and> ds_requestedBy req = Some decidedBy"

definition assertApproverDiffersFromRequestor :: "subject_request \<Rightarrow> ident \<Rightarrow> unit wact" where
  "assertApproverDiffersFromRequestor req decidedBy =
     throwIf (self_decided req decidedBy)
       (BadRequest ''approver must differ from requestor (separation of duties)'')"

definition decision_audit ::
    "subject_request \<Rightarrow> string \<Rightarrow> ident \<Rightarrow> ident \<Rightarrow> ident \<Rightarrow> audit_event wact" where
  "decision_audit req verb i org decidedBy =
     audit_record
       \<lparr>cae_action = ''data_subject.'' @ ds_type req @ verb,
        cae_entityType = ''DataSubjectRequest'', cae_entityId = i, cae_userId = Some decidedBy,
        cae_org = org,
        cae_details = Some (JObj [(''subjectEmail'', JStr (ds_subjectEmail req)),
                                  (''type'', JStr (ds_type req))])\<rparr>"

definition approve_request :: "ident \<Rightarrow> ident \<Rightarrow> ident \<Rightarrow> subject_request wact" where
  "approve_request i org decidedBy =
     bindA (get_request i org) (\<lambda>req.
     bindA (assertPending req) (\<lambda>_.
     bindA (assertApproverDiffersFromRequestor req decidedBy) (\<lambda>_.
     bindA nowA (\<lambda>t.
     bindA (requests_update (no_request_change
       \<lparr>uds_status := Some ''approved'', uds_decidedBy := Some (Some decidedBy),
        uds_decidedAt := Some (Some t)\<rparr>) i org) (\<lambda>updated.
     bindA (decision_audit req ''.approved'' i org decidedBy) (\<lambda>_.
     ret updated))))))"

definition deny_request :: "ident \<Rightarrow> ident \<Rightarrow> ident \<Rightarrow> string option \<Rightarrow> subject_request wact" where
  "deny_request i org decidedBy notes =
     bindA (get_request i org) (\<lambda>req.
     bindA (assertPending req) (\<lambda>_.
     bindA nowA (\<lambda>t.
     bindA (requests_update (no_request_change
       \<lparr>uds_status := Some ''denied'', uds_decidedBy := Some (Some decidedBy),
        uds_decidedAt := Some (Some t), uds_notes := map_option Some notes\<rparr>) i org) (\<lambda>updated.
     bindA (decision_audit req ''.denied'' i org decidedBy) (\<lambda>_.
     ret updated)))))"

definition snapshot_user_of :: "user \<Rightarrow> snapshot_user" where
  "snapshot_user_of u =
     \<lparr>su_id = us_id u, su_email = us_email u, su_name = us_name u, su_role = us_role u,
      su_org = us_org u, su_createdAt = us_createdAt u\<rparr>"

definition buildAccessSnapshot :: "string \<Rightarrow> ident \<Rightarrow> access_snapshot wact" where
  "buildAccessSnapshot email org =
     bindA (users_findByEmail email) (\<lambda>user.
     bindA (case user of Some u \<Rightarrow> audit_findForUser (us_id u) org | None \<Rightarrow> ret []) (\<lambda>events.
     bindA (consents_findAllForSubject email org) (\<lambda>consents.
     bindA (requests_findForSubject email org) (\<lambda>previous.
     bindA nowA (\<lambda>t.
     ret \<lparr>sn_subjectEmail = email, sn_user = map_option snapshot_user_of user,
          sn_auditEvents = events, sn_consentEvents = consents, sn_previousRequests = previous,
          sn_generatedAt = t\<rparr>)))))"

definition pseudonym :: "ident \<Rightarrow> string" where
  "pseudonym uuid = ''[erased-'' @ uuid @ '']@erased.local''"

definition executeErasure :: "string \<Rightarrow> ident \<Rightarrow> erasure_result wact" where
  "executeErasure email org =
     bindA uuidA (\<lambda>uuid.
     bindA (users_findByEmail email) (\<lambda>user.
     bindA (case user of
              None \<Rightarrow> ret (0, False)
            | Some u \<Rightarrow>
                bindA (audit_anonymiseUser (us_id u) org) (\<lambda>n.
                bindA (users_anonymise (pseudonym uuid) (us_id u) org) (\<lambda>_.
                ret (n, True)))) (\<lambda>(auditAnonymised, userAnonymised).
     bindA (consents_anonymiseSubject email org (pseudonym uuid)) (\<lambda>consentAnonymised.
     ret \<lparr>er_auditAnonymised = auditAnonymised, er_consentAnonymised = consentAnonymised,
          er_userAnonymised = userAnonymised\<rparr>))))"

definition execution_audit :: "string \<Rightarrow> ident \<Rightarrow> ident \<Rightarrow> ident \<Rightarrow> json \<Rightarrow> audit_event wact" where
  "execution_audit action i org decidedBy details =
     audit_record
       \<lparr>cae_action = action, cae_entityType = ''DataSubjectRequest'', cae_entityId = i,
        cae_userId = Some decidedBy, cae_org = org, cae_details = Some details\<rparr>"

definition complete_request :: "ident \<Rightarrow> ident \<Rightarrow> json option \<Rightarrow> subject_request wact" where
  "complete_request i org payload =
     bindA nowA (\<lambda>t.
       requests_update (no_request_change
         \<lparr>uds_status := Some ''completed'', uds_completedAt := Some (Some t),
          uds_payload := payload\<rparr>) i org)"

definition execute_access :: "subject_request \<Rightarrow> ident \<Rightarrow> ident \<Rightarrow> ident \<Rightarrow> execute_result wact" where
  "execute_access req i org decidedBy =
     bindA (buildAccessSnapshot (ds_subjectEmail req) org) (\<lambda>snapshot.
     bindA (complete_request i org (Some (snapshot_json snapshot))) (\<lambda>updated.
     bindA (execution_audit ''data_subject.access.executed'' i org decidedBy
       (JObj [(''subjectEmail'', JStr (ds_subjectEmail req)),
              (''rowCounts'', JObj
                [(''audit'', jint (int (length (sn_auditEvents snapshot)))),
                 (''consent'', jint (int (length (sn_consentEvents snapshot)))),
                 (''previousRequests'', jint (int (length (sn_previousRequests snapshot))))])])) (\<lambda>_.
     ret \<lparr>ex_request = updated, ex_snapshot = Some snapshot, ex_erasure = None\<rparr>)))"

definition execute_erasure :: "subject_request \<Rightarrow> ident \<Rightarrow> ident \<Rightarrow> ident \<Rightarrow> execute_result wact" where
  "execute_erasure req i org decidedBy =
     bindA (executeErasure (ds_subjectEmail req) org) (\<lambda>result.
     bindA (complete_request i org (Some (JObj (erasure_fields result)))) (\<lambda>updated.
     bindA (execution_audit ''data_subject.erasure.executed'' i org decidedBy
       (JObj (erasure_fields result @ [(''subjectAnonymised'', JBool True)]))) (\<lambda>_.
     ret \<lparr>ex_request = updated, ex_snapshot = None, ex_erasure = Some result\<rparr>)))"

definition execute_rectification ::
    "subject_request \<Rightarrow> ident \<Rightarrow> ident \<Rightarrow> ident \<Rightarrow> execute_result wact" where
  "execute_rectification req i org decidedBy =
     bindA (complete_request i org None) (\<lambda>updated.
     bindA (execution_audit ''data_subject.rectification.executed'' i org decidedBy
       (JObj [(''subjectEmail'', JStr (ds_subjectEmail req))])) (\<lambda>_.
     ret \<lparr>ex_request = updated, ex_snapshot = None, ex_erasure = None\<rparr>))"

definition execute_request :: "ident \<Rightarrow> ident \<Rightarrow> ident \<Rightarrow> execute_result wact" where
  "execute_request i org decidedBy =
     bindA (get_request i org) (\<lambda>req.
     bindA (throwIf (ds_status req \<noteq> ''approved'')
       (BadRequest (''request must be approved before execution (got '' @ ds_status req @ '')''))) (\<lambda>_.
     bindA (assertApproverDiffersFromRequestor req decidedBy) (\<lambda>_.
     if ds_type req = ''access'' then execute_access req i org decidedBy
     else if ds_type req = ''erasure'' then execute_erasure req i org decidedBy
     else execute_rectification req i org decidedBy)))"

subsection \<open>Each operation on the request table\<close>

lemma get_request_apply:
  "get_request i org w = (case request_view i org w of
     None \<Rightarrow> (Inl (NotFound ''DataSubjectRequest not found''), w) | Some r \<Rightarrow> (Inr r, w))"
  by (simp add: get_request_def requests_findById_def split: option.splits)

lemma requests_update_apply:
  "request_view i org w = Some r \<Longrightarrow>
     requests_update d i org w =
       (Inr (ds_patch d (w_clock w (w_ticks w)) r),
        w\<lparr>w_ticks := Suc (w_ticks w),
          w_requests := setT i (ds_patch d (w_clock w (w_ticks w)) r) (w_requests w)\<rparr>)"
  by (simp add: requests_update_def request_view_def scoped_update_Some)

lemma request_view_tick [simp]: "request_view i org (w\<lparr>w_ticks := n\<rparr>) = request_view i org w"
  by (simp add: request_view_def)

lemma audit_frame [simp]:
  "w_requests (snd (audit_record d w)) = w_requests w"
  "w_users (snd (audit_record d w)) = w_users w"
  "w_consents (snd (audit_record d w)) = w_consents w"
  by (simp_all add: audit_record_apply Let_def)

definition ds_approved :: "ident \<Rightarrow> time \<Rightarrow> time \<Rightarrow> subject_request \<Rightarrow> subject_request" where
  "ds_approved decidedBy t u r =
     r\<lparr>ds_status := ''approved'', ds_decidedBy := Some decidedBy, ds_decidedAt := Some t,
       ds_updatedAt := u\<rparr>"

definition ds_denied ::
    "ident \<Rightarrow> string option \<Rightarrow> time \<Rightarrow> time \<Rightarrow> subject_request \<Rightarrow> subject_request" where
  "ds_denied decidedBy notes t u r =
     r\<lparr>ds_status := ''denied'', ds_decidedBy := Some decidedBy, ds_decidedAt := Some t,
       ds_notes := (case notes of None \<Rightarrow> ds_notes r | Some n \<Rightarrow> Some n), ds_updatedAt := u\<rparr>"

definition ds_completed :: "json option \<Rightarrow> time \<Rightarrow> time \<Rightarrow> subject_request \<Rightarrow> subject_request" where
  "ds_completed payload t u r =
     r\<lparr>ds_status := ''completed'', ds_completedAt := Some t,
       ds_payload := orElse payload (ds_payload r), ds_updatedAt := u\<rparr>"

lemma approve_apply:
  assumes "request_view i org w = Some r" "ds_status r = ''pending''" "\<not> self_decided r d"
  obtains w' where
    "approve_request i org d w =
       (Inr (ds_approved d (w_clock w (w_ticks w)) (w_clock w (Suc (w_ticks w))) r), w')"
    "w_requests w' = setT i (ds_approved d (w_clock w (w_ticks w)) (w_clock w (Suc (w_ticks w))) r)
       (w_requests w)"
  using assms
  by (simp add: approve_request_def bindA_def get_request_apply assertPending_def
      assertApproverDiffersFromRequestor_def nowA_def requests_update_apply decision_audit_def
      audit_record_apply Let_def ds_patch_def no_request_change_def ds_approved_def)

lemma approve_rejected:
  assumes "\<not> (\<exists>r. request_view i org w = Some r \<and> ds_status r = ''pending'' \<and> \<not> self_decided r d)"
  shows "\<exists>e. approve_request i org d w = (Inl e, w)"
  using assms
  by (cases "request_view i org w")
     (auto simp: approve_request_def bindA_def get_request_apply assertPending_def
       assertApproverDiffersFromRequestor_def throwIf_apply)

lemma deny_apply:
  assumes "request_view i org w = Some r" "ds_status r = ''pending''"
  obtains w' where
    "deny_request i org d notes w =
       (Inr (ds_denied d notes (w_clock w (w_ticks w)) (w_clock w (Suc (w_ticks w))) r), w')"
    "w_requests w' = setT i (ds_denied d notes (w_clock w (w_ticks w)) (w_clock w (Suc (w_ticks w))) r)
       (w_requests w)"
  using assms
  by (cases "notes")
     (simp_all add: deny_request_def bindA_def get_request_apply assertPending_def nowA_def
      requests_update_apply decision_audit_def audit_record_apply Let_def ds_patch_def
      no_request_change_def ds_denied_def)

lemma deny_rejected:
  assumes "\<not> (\<exists>r. request_view i org w = Some r \<and> ds_status r = ''pending'')"
  shows "\<exists>e. deny_request i org d notes w = (Inl e, w)"
  using assms
  by (cases "request_view i org w")
     (auto simp: deny_request_def bindA_def get_request_apply assertPending_def throwIf_apply)

lemma complete_apply:
  assumes "request_view i org w = Some r"
  shows "complete_request i org p w =
    (let r' = ds_completed p (w_clock w (w_ticks w)) (w_clock w (Suc (w_ticks w))) r in
     (Inr r', w\<lparr>w_ticks := Suc (Suc (w_ticks w)), w_requests := setT i r' (w_requests w)\<rparr>))"
  using assms
  by (cases p)
     (simp_all add: complete_request_def bindA_def nowA_def requests_update_apply Let_def
      ds_patch_def no_request_change_def ds_completed_def)

lemma frame_requests_erasure: "runs (frame w_requests) (executeErasure email org)"
  unfolding executeErasure_def users_findByEmail_def audit_anonymiseUser_def
    consents_anonymiseSubject_def users_anonymise_def
  by (intro runs_rules runs_modA runs_scoped_update) (simp_all add: frame_def uuid_adv_def)

lemma frame_requests_snapshot: "runs (frame w_requests) (buildAccessSnapshot email org)"
  unfolding buildAccessSnapshot_def users_findByEmail_def audit_findForUser_def
    consents_findAllForSubject_def requests_findForSubject_def
  by (intro runs_rules) (simp_all add: frame_def)

lemma execute_rejected:
  assumes "\<not> (\<exists>r. request_view i org w = Some r \<and> ds_status r = ''approved'' \<and> \<not> self_decided r d)"
  shows "\<exists>e. execute_request i org d w = (Inl e, w)"
  using assms
  by (cases "request_view i org w")
     (auto simp: execute_request_def bindA_def get_request_apply
       assertApproverDiffersFromRequestor_def throwIf_apply)

definition execute_body :: "subject_request \<Rightarrow> ident \<Rightarrow> ident \<Rightarrow> ident \<Rightarrow> execute_result wact" where
  "execute_body r i org d =
     (if ds_type r = ''access'' then execute_access r i org d
      else if ds_type r = ''erasure'' then execute_erasure r i org d
      else execute_rectification r i org d)"

lemma execute_apply:
  assumes "request_view i org w = Some r" "ds_status r = ''approved''" "\<not> self_decided r d"
  shows "execute_request i org d w = execute_body r i org d w"
  using assms
  by (simp add: execute_request_def bindA_def get_request_apply execute_body_def
      assertApproverDiffersFromRequestor_def)

text \<open>Every kind of execution prepares something, completes the row and writes one audit event.\<close>

lemma complete_and_audit_requests:
  assumes "request_view i org w = Some r"
  shows "\<exists>p t u. w_requests (snd (bindA (complete_request i org q) (\<lambda>updated.
            bindA (execution_audit a i org d det) (\<lambda>_. ret (f updated))) w))
          = setT i (ds_completed p t u r) (w_requests w)"
  using assms
  by (auto simp: bindA_def complete_apply execution_audit_def audit_record_apply Let_def)

lemma complete_after:
  assumes "runs (frame w_requests) m" and "request_view i org w0 = Some r"
  shows "w_requests (snd (bindA m (\<lambda>x. bindA (complete_request i org (q x)) (\<lambda>updated.
            bindA (execution_audit a i org d (det x)) (\<lambda>_. ret (f x updated)))) w0)) = w_requests w0
       \<or> (\<exists>p t u. w_requests (snd (bindA m (\<lambda>x. bindA (complete_request i org (q x)) (\<lambda>updated.
            bindA (execution_audit a i org d (det x)) (\<lambda>_. ret (f x updated)))) w0))
            = setT i (ds_completed p t u r) (w_requests w0))"
proof (cases "m w0")
  case (Pair res w1)
  then have same: "w_requests w1 = w_requests w0"
    using runsD_eq [OF assms(1) Pair] by (simp add: frame_def)
  then have view: "request_view i org w1 = Some r"
    using assms(2) by (simp add: request_view_def)
  show ?thesis
  proof (cases res)
    case (Inr x)
    then show ?thesis
      using Pair same complete_and_audit_requests [OF view, of "q x" a d "det x" "f x"] by simp
  qed (simp add: Pair same bindA_def)
qed

lemma execute_requests:
  assumes "request_view i org w = Some r" "ds_status r = ''approved''" "\<not> self_decided r d"
  shows "w_requests (snd (execute_request i org d w)) = w_requests w
       \<or> (\<exists>p t u. w_requests (snd (execute_request i org d w))
                  = setT i (ds_completed p t u r) (w_requests w))"
proof -
  consider "ds_type r = ''access''" | "ds_type r = ''erasure''"
    | "ds_type r \<noteq> ''access''" "ds_type r \<noteq> ''erasure''" by blast
  then show ?thesis
  proof cases
    case 1
    show ?thesis
      unfolding execute_apply [OF assms] execute_body_def if_P [OF 1] execute_access_def
      by (rule complete_after [OF frame_requests_snapshot assms(1)])
  next
    case 2
    then have ne: "ds_type r \<noteq> ''access''" by simp
    show ?thesis
      unfolding execute_apply [OF assms] execute_body_def if_not_P [OF ne] if_P [OF 2]
        execute_erasure_def
      by (rule complete_after [OF frame_requests_erasure assms(1)])
  next
    case 3
    show ?thesis
      unfolding execute_apply [OF assms] execute_body_def if_not_P [OF 3(1)] if_not_P [OF 3(2)]
        execute_rectification_def
      by (rule disjI2) (rule complete_and_audit_requests [OF assms(1)])
  qed
qed

lemma uuid_adv_requests_update [runs_rules]: "runs uuid_adv (requests_update d i org)"
  unfolding requests_update_def
  by (intro runs_rules runs_scoped_update) (simp_all add: uuid_adv_def)

lemma uuid_adv_approve: "runs uuid_adv (approve_request i org d)"
  unfolding approve_request_def get_request_def requests_findById_def assertPending_def
    assertApproverDiffersFromRequestor_def decision_audit_def
  by (intro runs_rules) simp_all

lemma uuid_adv_deny: "runs uuid_adv (deny_request i org d ns)"
  unfolding deny_request_def get_request_def requests_findById_def assertPending_def
    decision_audit_def
  by (intro runs_rules) simp_all

lemma uuid_adv_complete [runs_rules]: "runs uuid_adv (complete_request i org p)"
  unfolding complete_request_def by (intro runs_rules) simp_all

lemma runs_frame_uuid: "runs (frame get) m \<Longrightarrow> runs uuid_adv m"
  by (simp add: runs_def frame_def)

lemma uuid_adv_execute: "runs uuid_adv (execute_request i org d)"
  unfolding execute_request_def get_request_def requests_findById_def
    assertApproverDiffersFromRequestor_def execute_access_def execute_erasure_def
    execute_rectification_def execution_audit_def
  by (intro runs_rules runs_frame_uuid [OF frame_requests_snapshot]
      runs_frame_uuid [OF frame_requests_erasure]) simp_all

definition ds_new :: "subject_request \<Rightarrow> bool" where
  "ds_new r \<longleftrightarrow> ds_status r = ''pending'' \<and> ds_decidedBy r = None \<and> ds_decidedAt r = None \<and>
     ds_completedAt r = None"

lemma create_requests:
  "snd (createRequest org type email by ns w) = w \<or>
   (\<exists>r. ds_new r \<and> w_requests (snd (createRequest org type email by ns w))
            = setT (w_uuid w (w_uuid_n w)) r (w_requests w)
      \<and> w_uuid (snd (createRequest org type email by ns w)) = w_uuid w
      \<and> Suc (w_uuid_n w) \<le> w_uuid_n (snd (createRequest org type email by ns w)))"
  by (cases "email = [] \<or> \<not> includes_char email (CHR ''@'')")
     (auto simp: createRequest_def bindA_def requests_create_def nowA_def uuidA_def
      insert_row_apply audit_record_apply Let_def ds_new_def intro!: exI)

subsection \<open>The request state machine\<close>

text \<open>
  The abstract life of one request: pending, then approved or denied; approved, then
  completed. \<open>ds_step\<close> is one call of the service by anybody, in any organisation, or any
  other activity of the process that leaves the request table alone.
\<close>

inductive ds_move :: "subject_request \<Rightarrow> subject_request \<Rightarrow> bool" where
  move_approve: "ds_status r = ''pending'' \<Longrightarrow> \<not> self_decided r d \<Longrightarrow> ds_move r (ds_approved d t u r)"
| move_deny: "ds_status r = ''pending'' \<Longrightarrow> ds_move r (ds_denied d n t u r)"
| move_complete: "ds_status r = ''approved'' \<Longrightarrow> ds_move r (ds_completed p t u r)"

inductive ds_step :: "world \<Rightarrow> world \<Rightarrow> bool" where
  step_create: "ds_step w (snd (createRequest org type email by ns w))"
| step_approve: "ds_step w (snd (approve_request i org d w))"
| step_deny: "ds_step w (snd (deny_request i org d ns w))"
| step_execute: "ds_step w (snd (execute_request i org d w))"
| step_other: "w_requests w' = w_requests w \<Longrightarrow> w_uuid w' = w_uuid w \<Longrightarrow>
     w_uuid_n w \<le> w_uuid_n w' \<Longrightarrow> ds_step w w'"

inductive ds_reachable :: "world \<Rightarrow> bool" where
  reach_start: "w_requests w = [] \<Longrightarrow> ds_reachable w"
| reach_step: "ds_reachable w \<Longrightarrow> ds_step w w' \<Longrightarrow> ds_reachable w'"

inductive_simps ds_move_iff: "ds_move r r'"

text \<open>The service refines the abstract machine: each call is made of moves of rows.\<close>

lemma ds_step_refines:
  assumes "ds_step w w'"
  shows "row_step w_requests ds_move ds_new w w'"
  using assms
proof cases
  case (step_create org type email rb ns)
  from create_requests [of org type email rb ns w] show ?thesis
  proof
    assume "snd (createRequest org type email rb ns w) = w"
    then show ?thesis by (simp add: step_create row_step_refl)
  next
    assume "\<exists>r. ds_new r \<and> w_requests (snd (createRequest org type email rb ns w))
            = setT (w_uuid w (w_uuid_n w)) r (w_requests w)
      \<and> w_uuid (snd (createRequest org type email rb ns w)) = w_uuid w
      \<and> Suc (w_uuid_n w) \<le> w_uuid_n (snd (createRequest org type email rb ns w))"
    then show ?thesis
      unfolding step_create by (elim exE conjE) (rule row_added)
  qed
next
  case (step_approve i org d)
  show ?thesis
  proof (cases "\<exists>r. request_view i org w = Some r \<and> ds_status r = ''pending'' \<and> \<not> self_decided r d")
    case True
    then obtain r where r: "request_view i org w = Some r" "ds_status r = ''pending''"
      "\<not> self_decided r d" by blast
    from r obtain w1 where "approve_request i org d w
        = (Inr (ds_approved d (w_clock w (w_ticks w)) (w_clock w (Suc (w_ticks w))) r), w1)"
      "w_requests w1 = setT i (ds_approved d (w_clock w (w_ticks w)) (w_clock w (Suc (w_ticks w))) r)
        (w_requests w)" by (rule approve_apply)
    then have "w_requests w' = setT i
        (ds_approved d (w_clock w (w_ticks w)) (w_clock w (Suc (w_ticks w))) r) (w_requests w)"
      by (simp add: step_approve)
    moreover have "getT (w_requests w) i = Some r"
      using r(1) by (simp add: request_view_def scoped_Some_iff)
    ultimately show ?thesis
      using row_moved [where get = w_requests and move = ds_move and new = ds_new, OF _ ds_move.move_approve [OF r(2) r(3)]] runsD [OF uuid_adv_approve]
        step_approve by blast
  next
    case False
    from approve_rejected [OF this] have "w' = w" by (auto simp: step_approve)
    then show ?thesis by (simp add: row_step_refl)
  qed
next
  case (step_deny i org d ns)
  show ?thesis
  proof (cases "\<exists>r. request_view i org w = Some r \<and> ds_status r = ''pending''")
    case True
    then obtain r where r: "request_view i org w = Some r" "ds_status r = ''pending''" by blast
    from r obtain w1 where "deny_request i org d ns w
        = (Inr (ds_denied d ns (w_clock w (w_ticks w)) (w_clock w (Suc (w_ticks w))) r), w1)"
      "w_requests w1 = setT i (ds_denied d ns (w_clock w (w_ticks w)) (w_clock w (Suc (w_ticks w))) r)
        (w_requests w)" by (rule deny_apply)
    then have "w_requests w' = setT i
        (ds_denied d ns (w_clock w (w_ticks w)) (w_clock w (Suc (w_ticks w))) r) (w_requests w)"
      by (simp add: step_deny)
    moreover have "getT (w_requests w) i = Some r"
      using r(1) by (simp add: request_view_def scoped_Some_iff)
    ultimately show ?thesis
      using row_moved [where get = w_requests and move = ds_move and new = ds_new, OF _ ds_move.move_deny [OF r(2)]] runsD [OF uuid_adv_deny] step_deny by blast
  next
    case False
    from deny_rejected [OF this, of d ns] have "w' = w" by (auto simp: step_deny)
    then show ?thesis by (simp add: row_step_refl)
  qed
next
  case (step_execute i org d)
  show ?thesis
  proof (cases "\<exists>r. request_view i org w = Some r \<and> ds_status r = ''approved'' \<and> \<not> self_decided r d")
    case True
    then obtain r where r: "request_view i org w = Some r" "ds_status r = ''approved''"
      "\<not> self_decided r d" by blast
    moreover have "getT (w_requests w) i = Some r"
      using r(1) by (simp add: request_view_def scoped_Some_iff)
    ultimately show ?thesis
      using execute_requests [OF r] row_moved [where get = w_requests and move = ds_move and new = ds_new, OF _ ds_move.move_complete [OF r(2)]] row_same
        runsD [OF uuid_adv_execute] step_execute by metis
  next
    case False
    from execute_rejected [OF this] have "w' = w" by (auto simp: step_execute)
    then show ?thesis by (simp add: row_step_refl)
  qed
next
  case step_other
  then show ?thesis by (intro row_same) (simp_all add: uuid_adv_def)
qed

definition ds_row_ok :: "subject_request \<Rightarrow> bool" where
  "ds_row_ok r \<longleftrightarrow>
     ds_status r \<in> {''pending'', ''approved'', ''denied'', ''completed''} \<and>
     (ds_status r = ''pending'' \<longleftrightarrow> ds_decidedBy r = None) \<and>
     (ds_decidedBy r = None \<longleftrightarrow> ds_decidedAt r = None) \<and>
     (ds_status r = ''completed'' \<longleftrightarrow> ds_completedAt r \<noteq> None) \<and>
     (ds_status r \<in> {''approved'', ''completed''} \<longrightarrow>
        (\<exists>d. ds_decidedBy r = Some d \<and> \<not> self_decided r d))"

lemma ds_move_ok: "ds_move r r' \<Longrightarrow> ds_row_ok r \<Longrightarrow> ds_row_ok r'"
  by (induction rule: ds_move.induct)
     (auto simp: ds_row_ok_def ds_approved_def ds_denied_def ds_completed_def self_decided_def)

definition ds_final :: "subject_request \<Rightarrow> bool" where
  "ds_final r \<longleftrightarrow> ds_status r = ''denied'' \<or> ds_status r = ''completed''"

interpretation ds_machine: row_machine w_requests ds_move ds_new ds_row_ok ds_final
proof
  show "ds_row_ok r" if "ds_new r" for r
    using that by (auto simp: ds_new_def ds_row_ok_def)
  show "\<not> ds_move r r'" if "ds_final r" for r r'
    using that by (auto simp: ds_final_def ds_move_iff)
qed (rule ds_move_ok)

lemma ds_reachable_ok: "ds_reachable w \<Longrightarrow> \<forall>r \<in> set (rowsT (w_requests w)). ds_row_ok r"
  by (induction rule: ds_reachable.induct)
     (simp add: rowsT_def, rule ds_machine.rows_ok [OF ds_step_refines])

subsection \<open>Erasure\<close>

definition erased_consents :: "string \<Rightarrow> ident \<Rightarrow> string \<Rightarrow> consent_event tbl \<Rightarrow> consent_event tbl" where
  "erased_consents email org p = mapT (\<lambda>e. if consent_of email org e
     then e\<lparr>ce_subjectEmail := p, ce_subjectUserId := None\<rparr> else e)"

definition erased_audit :: "ident \<Rightarrow> ident \<Rightarrow> audit_event tbl \<Rightarrow> audit_event tbl" where
  "erased_audit user org = mapT (\<lambda>e. if audit_of user org e then e\<lparr>ae_userId := None\<rparr> else e)"

lemma erased_consents_gone:
  "p \<noteq> email \<Longrightarrow> e \<in> set (rowsT (erased_consents email org p t)) \<Longrightarrow> \<not> consent_of email org e"
proof -
  assume "p \<noteq> email" and "e \<in> set (rowsT (erased_consents email org p t))"
  then obtain x where "e = (if consent_of email org x
      then x\<lparr>ce_subjectEmail := p, ce_subjectUserId := None\<rparr> else x)"
    by (auto simp only: erased_consents_def rowsT_mapT set_map)
  then show "\<not> consent_of email org e"
    using \<open>p \<noteq> email\<close> by (cases "consent_of email org x") (simp_all add: consent_of_def)
qed

lemma erased_audit_gone: "e \<in> set (rowsT (erased_audit user org t)) \<Longrightarrow> \<not> audit_of user org e"
proof -
  assume "e \<in> set (rowsT (erased_audit user org t))"
  then obtain x where "e = (if audit_of user org x then x\<lparr>ae_userId := None\<rparr> else x)"
    by (auto simp only: erased_audit_def rowsT_mapT set_map)
  then show "\<not> audit_of user org e"
    by (cases "audit_of user org x") (simp_all add: audit_of_def)
qed

lemma executeErasure_no_user:
  assumes "user_by_email email w = None"
  shows "\<exists>n. executeErasure email org w =
    (Inr \<lparr>er_auditAnonymised = 0, er_consentAnonymised = n, er_userAnonymised = False\<rparr>,
     w\<lparr>w_uuid_n := Suc (w_uuid_n w),
       w_consents := erased_consents email org (pseudonym (w_uuid w (w_uuid_n w))) (w_consents w)\<rparr>)"
  using assms
  by (simp add: executeErasure_def bindA_def uuidA_def users_findByEmail_def user_by_email_def
      consents_anonymiseSubject_def erased_consents_def)

lemma executeErasure_user:
  assumes "user_by_email email w = Some u" and "user_view (us_id u) org w = Some u"
  shows "\<exists>n m. executeErasure email org w =
    (Inr \<lparr>er_auditAnonymised = n, er_consentAnonymised = m, er_userAnonymised = True\<rparr>,
     w\<lparr>w_uuid_n := Suc (w_uuid_n w), w_ticks := Suc (w_ticks w),
       w_audit := erased_audit (us_id u) org (w_audit w),
       w_users := setT (us_id u)
         (us_erase (pseudonym (w_uuid w (w_uuid_n w))) (w_clock w (w_ticks w)) u) (w_users w),
       w_consents := erased_consents email org (pseudonym (w_uuid w (w_uuid_n w))) (w_consents w)\<rparr>)"
  using assms
  by (simp add: executeErasure_def bindA_def uuidA_def users_findByEmail_def user_by_email_def
      audit_anonymiseUser_def users_anonymise_def user_view_def scoped_update_Some
      consents_anonymiseSubject_def erased_consents_def erased_audit_def)

lemma executeErasure_foreign:
  assumes "user_by_email email w = Some u" and "user_view (us_id u) org w = None"
  shows "executeErasure email org w =
    (Inl (Plain ''User not found or not in organization''),
     w\<lparr>w_uuid_n := Suc (w_uuid_n w), w_audit := erased_audit (us_id u) org (w_audit w)\<rparr>)"
  using assms
  by (simp add: executeErasure_def bindA_def uuidA_def users_findByEmail_def user_by_email_def
      audit_anonymiseUser_def users_anonymise_def user_view_def scoped_update_None
      erased_audit_def)

lemma user_by_email_view:
  assumes "tbl_ok us_id (w_users w)" and "user_by_email email w = Some u"
  shows "user_view (us_id u) org w = (if us_org u = org then Some u else None)"
proof -
  have "u \<in> set (rowsT (w_users w))"
    using assms(2) by (auto simp: user_by_email_def dest: find_rowsT_in)
  then show ?thesis
    using tbl_ok_rowsT [OF assms(1)] by (simp add: user_view_def scoped_def)
qed

lemma erased_email_gone:
  assumes "tbl_ok us_id (w_users w)" and "distinct (map us_email (rowsT (w_users w)))"
    and "user_by_email email w = Some u" and "p \<noteq> email"
    and "w_users w' = setT (us_id u) (us_erase p t u) (w_users w)"
  shows "user_by_email email w' = None"
proof -
  have u: "u \<in> set (rowsT (w_users w))" "us_email u = email"
    using assms(3) by (auto simp: user_by_email_def dest: find_rowsT_in)
  have "us_email x \<noteq> email" if "x \<in> set (rowsT (w_users w'))" for x
  proof -
    consider "x = us_erase p t u" | "x \<in> set (rowsT (w_users w))" "us_id x \<noteq> us_id u"
      using set_rowsT_setT_ok [OF assms(1)] \<open>x \<in> _\<close> assms(5) by metis
    then show ?thesis
    proof cases
      case 1
      then show ?thesis using assms(4) by (simp add: us_erase_def)
    next
      case 2
      then show ?thesis using u assms(2) by (auto simp: distinct_map dest: inj_onD)
    qed
  qed
  then show ?thesis by (auto simp: user_by_email_def find_None_iff)
qed

lemma execute_erasure_after:
  assumes "executeErasure (ds_subjectEmail r) org w = (Inr res, w1)"
    and "request_view i org w = Some r" and "w_requests w1 = w_requests w"
  shows "\<exists>r' w'. execute_erasure r i org d w
           = (Inr \<lparr>ex_request = r', ex_snapshot = None, ex_erasure = Some res\<rparr>, w')
       \<and> ds_status r' = ''completed'' \<and> ds_subjectEmail r' = ds_subjectEmail r
       \<and> request_view i org w' = Some r'
       \<and> w_users w' = w_users w1 \<and> w_consents w' = w_consents w1
       \<and> (\<forall>e \<in> set (rowsT (w_audit w')). e \<in> set (rowsT (w_audit w1)) \<or> ae_userId e = Some d)"
proof -
  have "request_view i org w1 = Some r"
    using assms by (simp add: request_view_def)
  moreover have "ds_org r = org"
    using assms(2) requests.view_org by blast
  ultimately show ?thesis
    using assms(1)
    by (auto simp: execute_erasure_def bindA_def complete_apply execution_audit_def
        audit_record_apply Let_def request_view_def scoped_setT ds_completed_def
        dest!: set_rowsT_setT [THEN subsetD])
qed

subsection \<open>Properties\<close>

text \<open>
  C6: separation of duties, in every state the service can reach: a request that is approved
  or completed was decided by a named person at a recorded time, and that person is not the
  one who filed it.
\<close>

theorem dsr_separation_of_duties:
  assumes "ds_reachable w" and "r \<in> set (rowsT (w_requests w))"
    and "ds_status r \<in> {''approved'', ''completed''}"
  shows "\<exists>d t. ds_decidedBy r = Some d \<and> ds_decidedAt r = Some t
           \<and> (ds_requestedBy r = Some d \<longrightarrow> d = [])"
proof -
  have "ds_row_ok r"
    using ds_reachable_ok [OF assms(1)] assms(2) by blast
  then show ?thesis
    using assms(3) by (auto simp: ds_row_ok_def self_decided_def)
qed

definition ds_demo :: world where
  "ds_demo = snd (approve_request ''u'' ''org'' ''bob''
     (snd (createRequest ''org'' ''erasure'' ''s@x'' (Some ''alice'') None world0)))"

definition ds_demo_row :: subject_request where
  "ds_demo_row = hd (rowsT (w_requests ds_demo))"

lemma ds_demo_reachable: "ds_reachable ds_demo"
proof -
  have "ds_reachable world0"
    by (rule reach_start) (simp add: world0_def)
  then show ?thesis
    unfolding ds_demo_def by (rule reach_step [OF reach_step [OF _ step_create] step_approve])
qed

lemma ds_demo_row_facts:
  "ds_demo_row \<in> set (rowsT (w_requests ds_demo))" "ds_status ds_demo_row = ''approved''"
  "ds_decidedBy ds_demo_row = Some ''bob''" "ds_requestedBy ds_demo_row = Some ''alice''"
  by code_simp+

theorem dsr_separation_of_duties_witness:
  "ds_reachable ds_demo \<and>
   (\<exists>d t. ds_decidedBy ds_demo_row = Some d \<and> ds_decidedAt ds_demo_row = Some t
      \<and> (ds_requestedBy ds_demo_row = Some d \<longrightarrow> d = []))"
  using dsr_separation_of_duties [OF ds_demo_reachable ds_demo_row_facts(1)]
  by (simp add: ds_demo_row_facts(2) ds_demo_reachable)

text \<open>
  C17: a decision is final: whatever the service is asked next, in any organisation, a denied
  or completed request is found unchanged.
\<close>

theorem dsr_final_states_frozen:
  assumes "ds_step w w'" and "uuid_ok w_requests w" and "request_view i org w = Some r"
    and "ds_status r = ''denied'' \<or> ds_status r = ''completed''"
  shows "request_view i org w' = Some r"
  using ds_machine.final_frozen [OF ds_step_refines [OF assms(1)] assms(2), of i r] assms(3,4)
  by (simp add: request_view_def scoped_Some_iff ds_final_def)

definition ds_demo_denied :: world where
  "ds_demo_denied = snd (deny_request ''u'' ''org'' ''bob'' None
     (snd (createRequest ''org'' ''access'' ''s@x'' (Some ''alice'') None world0)))"

lemma ds_demo_denied_uuid: "uuid_ok w_requests ds_demo_denied"
proof -
  have "w_uuid ds_demo_denied = w_uuid world0" "w_uuid_n ds_demo_denied = 3"
    "keysT (w_requests ds_demo_denied) = {''u''}"
    by (rule ext, code_simp) code_simp+
  then show ?thesis
    using world0_uuid_inj by (auto simp: uuid_ok_def world0_def)
qed

theorem dsr_final_states_frozen_witness:
  "\<exists>r. request_view ''u'' ''org'' ds_demo_denied = Some r \<and> ds_status r = ''denied'' \<and>
       request_view ''u'' ''org'' (snd (approve_request ''u'' ''org'' ''carol'' ds_demo_denied)) = Some r"
proof -
  let ?r = "the (request_view ''u'' ''org'' ds_demo_denied)"
  have "request_view ''u'' ''org'' ds_demo_denied \<noteq> None" "ds_status ?r = ''denied''"
    by code_simp+
  then show ?thesis
    using dsr_final_states_frozen [OF step_approve ds_demo_denied_uuid, of "''u''" "''org''" ?r]
    by auto
qed

text \<open>
  Approval, on every branch: an unknown (or foreign) request is a 404, one that is not
  pending or was filed by the approver a 400, all without effect; otherwise the row becomes
  approved, stamped with the approver and the time, and is what the tenant sees afterwards.
\<close>

theorem dsr_approve_outcome:
  "case request_view i org w of
     None \<Rightarrow> approve_request i org d w = (Inl (NotFound ''DataSubjectRequest not found''), w)
   | Some r \<Rightarrow>
       if ds_status r \<noteq> ''pending'' then approve_request i org d w
         = (Inl (BadRequest (''request not pending (status='' @ ds_status r @ '')'')), w)
       else if d \<noteq> [] \<and> ds_requestedBy r = Some d then approve_request i org d w
         = (Inl (BadRequest ''approver must differ from requestor (separation of duties)''), w)
       else (let r' = r\<lparr>ds_status := ''approved'', ds_decidedBy := Some d,
                        ds_decidedAt := Some (w_clock w (w_ticks w)),
                        ds_updatedAt := w_clock w (Suc (w_ticks w))\<rparr> in
         fst (approve_request i org d w) = Inr r' \<and>
         request_view i org (snd (approve_request i org d w)) = Some r')"
proof (cases "request_view i org w")
  case None
  then show ?thesis by (simp add: approve_request_def bindA_def get_request_apply)
next
  case (Some r)
  have org: "ds_org r = org"
    using requests.view_org [OF Some] .
  show ?thesis
  proof (cases "ds_status r = ''pending'' \<and> \<not> self_decided r d")
    case True
    then obtain w' where w': "approve_request i org d w =
        (Inr (ds_approved d (w_clock w (w_ticks w)) (w_clock w (Suc (w_ticks w))) r), w')"
      "w_requests w' = setT i (ds_approved d (w_clock w (w_ticks w)) (w_clock w (Suc (w_ticks w))) r)
         (w_requests w)"
      using approve_apply [OF Some] by blast
    then have "request_view i org w'
        = Some (ds_approved d (w_clock w (w_ticks w)) (w_clock w (Suc (w_ticks w))) r)"
      by (simp add: request_view_def scoped_setT ds_approved_def org)
    then show ?thesis
      using Some True w'(1) by (auto simp: self_decided_def Let_def ds_approved_def)
  next
    case False
    then show ?thesis
      using Some by (auto simp: approve_request_def bindA_def get_request_apply assertPending_def
          assertApproverDiffersFromRequestor_def throwIf_apply self_decided_def)
  qed
qed


definition erasure_demo :: world where
  "erasure_demo = snd (approve_request ''uuu'' ''org'' ''bob''
     (snd (createRequest ''org'' ''erasure'' ''s@x'' (Some ''alice'') None
     (snd (consents_create \<lparr>cce_org = ''org'', cce_subjectEmail = ''s@x'', cce_subjectUserId = None,
        cce_purpose = ''marketing'', cce_state = ''granted'', cce_source = None,
        cce_recordedBy = None, cce_details = None\<rparr>
     (snd (users_create \<lparr>cus_email = ''s@x'', cus_name = ''Sam'', cus_role = Presales,
        cus_org = ''org'', cus_password = None\<rparr> world0)))))))"

definition erasure_demo_row :: subject_request where
  "erasure_demo_row = the (request_view ''uuu'' ''org'' erasure_demo)"

lemma erasure_demo_facts:
  "request_view ''uuu'' ''org'' erasure_demo = Some erasure_demo_row"
  "ds_status erasure_demo_row = ''approved''" "ds_type erasure_demo_row = ''erasure''"
  "\<not> self_decided erasure_demo_row ''carol''" "tbl_ok us_id (w_users erasure_demo)"
  "distinct (map us_email (rowsT (w_users erasure_demo)))"
  "ds_subjectEmail erasure_demo_row = ''s@x''"
  "pseudonym (w_uuid erasure_demo (w_uuid_n erasure_demo)) \<noteq> ds_subjectEmail erasure_demo_row"
proof -
  have "request_view ''uuu'' ''org'' erasure_demo \<noteq> None" by code_simp
  then show "request_view ''uuu'' ''org'' erasure_demo = Some erasure_demo_row"
    by (simp add: erasure_demo_row_def)
qed code_simp+

lemma erasure_demo_user:
  assumes "user_by_email (ds_subjectEmail erasure_demo_row) erasure_demo = Some u"
  shows "us_org u = ''org'' \<and> us_id u \<noteq> ''carol''"
proof -
  have "map_option us_org (user_by_email (ds_subjectEmail erasure_demo_row) erasure_demo) = Some ''org''"
    "map_option us_id (user_by_email (ds_subjectEmail erasure_demo_row) erasure_demo) = Some ''u''"
    by code_simp+
  then show ?thesis using assms by simp
qed


text \<open>
  The access snapshot is not tenant-safe: the account it reports is whoever owns the
  e-mail in the whole database, with id, name, role and organisation, even when that account
  belongs to another tenant than the one that asks. Everything else in the snapshot is the
  asking tenant's own.
\<close>

theorem access_snapshot_user_of_any_tenant:
  "\<exists>s w'. buildAccessSnapshot email org w = (Inr s, w')
     \<and> sn_user s = map_option snapshot_user_of (user_by_email email w)
     \<and> list_all (\<lambda>e. ae_org e = org) (sn_auditEvents s)
     \<and> list_all (\<lambda>e. ce_org e = org \<and> ce_subjectEmail e = email) (sn_consentEvents s)
     \<and> list_all (\<lambda>r. ds_org r = org \<and> ds_subjectEmail r = email) (sn_previousRequests s)"
  by (cases "user_by_email email w")
     (auto simp: buildAccessSnapshot_def bindA_def users_findByEmail_def audit_findForUser_def
       consents_findAllForSubject_def requests_findForSubject_def nowA_def list_all_iff consent_of_def)

text \<open>
  An approved erasure of a subject whose account belongs to another organisation cannot be
  executed: the call fails with a bare error, and although the organisation does hold consent
  rows of the subject, none of them is anonymised and the request stays approved.
\<close>

theorem erasure_of_foreign_account_fails:
  assumes "request_view i org w = Some r" and "ds_status r = ''approved''"
    and "ds_type r = ''erasure''" and "\<not> self_decided r d" and "tbl_ok us_id (w_users w)"
    and "user_by_email (ds_subjectEmail r) w = Some u" and "us_org u \<noteq> org"
  shows "\<exists>w'. execute_request i org d w
           = (Inl (Plain ''User not found or not in organization''), w')
     \<and> w_consents w' = w_consents w \<and> request_view i org w' = Some r"
proof -
  have "execute_request i org d w = execute_erasure r i org d w"
    using execute_apply [OF assms(1,2,4)] assms(3) by (simp add: execute_body_def)
  moreover have "user_view (us_id u) org w = None"
    using user_by_email_view [OF assms(5,6)] assms(7) by simp
  ultimately show ?thesis
    using executeErasure_foreign [OF assms(6)] assms(1)
    by (simp add: execute_erasure_def bindA_def request_view_def)
qed

definition foreign_demo :: world where
  "foreign_demo = snd (approve_request ''uu'' ''org'' ''bob''
     (snd (createRequest ''org'' ''erasure'' ''s@x'' (Some ''alice'') None
     (snd (users_create \<lparr>cus_email = ''s@x'', cus_name = ''Sam'', cus_role = Presales,
        cus_org = ''other'', cus_password = None\<rparr> world0)))))"

theorem erasure_of_foreign_account_fails_witness:
  "\<exists>w'. execute_request ''uu'' ''org'' ''carol'' foreign_demo
     = (Inl (Plain ''User not found or not in organization''), w')"
proof -
  let ?r = "the (request_view ''uu'' ''org'' foreign_demo)"
  let ?u = "the (user_by_email (ds_subjectEmail ?r) foreign_demo)"
  have "request_view ''uu'' ''org'' foreign_demo \<noteq> None"
    "user_by_email (ds_subjectEmail ?r) foreign_demo \<noteq> None" by code_simp+
  then have "request_view ''uu'' ''org'' foreign_demo = Some ?r"
    "user_by_email (ds_subjectEmail ?r) foreign_demo = Some ?u" by auto
  moreover have "ds_status ?r = ''approved''" "ds_type ?r = ''erasure''"
    "\<not> self_decided ?r ''carol''" "tbl_ok us_id (w_users foreign_demo)" "us_org ?u \<noteq> ''org''"
    by code_simp+
  ultimately show ?thesis
    using erasure_of_foreign_account_fails by blast
qed

end
