(* ===== verification/Retention.thy ===== *)
theory Retention
  imports Repos_Pdpl Audit_Trail
begin

text \<open>
  Retention: the deterministic policy and the in-memory destruction requests of
  \<^verbatim>\<open>pdpl/retention.service.ts\<close>, the persisted actions and the sweep of
  \<^verbatim>\<open>pdpl/retention-action.service.ts\<close>, and the daily job of
  \<^verbatim>\<open>pdpl/retention.scheduler.ts\<close>.
\<close>

subsection \<open>The policy\<close>

record retention_inputs =
  ri_state :: string
  ri_expiresAt :: "time option"
  ri_policyEndsAt :: "time option"

definition reached :: "time option \<Rightarrow> time \<Rightarrow> bool" where
  "reached t now = (case t of None \<Rightarrow> False | Some u \<Rightarrow> u \<le> now)"

definition evaluate_retention :: "retention_inputs \<Rightarrow> time \<Rightarrow> string \<times> string" where
  "evaluate_retention doc now =
     (if reached (ri_policyEndsAt doc) now
      then (''eligible-for-destruction'', ''retention policy elapsed'')
      else if reached (ri_expiresAt doc) now \<and> ri_state doc \<noteq> ''archived''
      then (''flag-expired'', ''document expired'')
      else (''keep'', ''within retention window''))"

subsection \<open>In-memory destruction requests\<close>

record destroy_request =
  rr_id :: string
  rr_documentId :: string
  rr_requestor :: string
  rr_status :: string
  rr_reason :: string
  rr_decidedBy :: "string option"

record destroy_state =
  rs_counter :: nat
  rs_requests :: "(string \<times> destroy_request) list"

definition requestDestroy :: "string \<Rightarrow> string \<Rightarrow> string \<Rightarrow> (destroy_state, destroy_request) act" where
  "requestDestroy documentId requestor reason s =
     (if documentId = [] \<or> requestor = [] \<or> trim reason = []
      then (Inl (Plain ''documentId, requestor and reason are required''), s)
      else let n = Suc (rs_counter s);
               req = \<lparr>rr_id = ''rr-'' @ show_nat n, rr_documentId = documentId,
                      rr_requestor = requestor, rr_status = ''pending'', rr_reason = trim reason,
                      rr_decidedBy = None\<rparr>
           in (Inr req, \<lparr>rs_counter = n, rs_requests = setT (rr_id req) req (rs_requests s)\<rparr>))"

definition approveDestroy :: "string \<Rightarrow> string \<Rightarrow> (destroy_state, destroy_request) act" where
  "approveDestroy requestId approver s =
     (case getT (rs_requests s) requestId of
        None \<Rightarrow> (Inl (Plain ''request not found''), s)
      | Some req \<Rightarrow>
          if rr_status req \<noteq> ''pending''
          then (Inl (Plain (''cannot approve from status '' @ rr_status req)), s)
          else if approver = [] \<or> approver = rr_requestor req
          then (Inl (Plain ''approver must differ from requestor''), s)
          else let req' = req\<lparr>rr_status := ''approved'', rr_decidedBy := Some approver\<rparr>
               in (Inr req', s\<lparr>rs_requests := setT requestId req' (rs_requests s)\<rparr>))"

definition denyDestroy :: "string \<Rightarrow> string \<Rightarrow> (destroy_state, destroy_request) act" where
  "denyDestroy requestId approver s =
     (case getT (rs_requests s) requestId of
        None \<Rightarrow> (Inl (Plain ''request not found''), s)
      | Some req \<Rightarrow>
          if rr_status req \<noteq> ''pending''
          then (Inl (Plain (''cannot deny from status '' @ rr_status req)), s)
          else let req' = req\<lparr>rr_status := ''denied'', rr_decidedBy := Some approver\<rparr>
               in (Inr req', s\<lparr>rs_requests := setT requestId req' (rs_requests s)\<rparr>))"

subsection \<open>Persisted retention actions\<close>

definition no_retention_change :: update_retention where
  "no_retention_change = \<lparr>ura_status = None, ura_decidedBy = None, ura_decidedAt = None,
     ura_executedAt = None\<rparr>"

definition request_action ::
    "ident \<Rightarrow> ident \<Rightarrow> string \<Rightarrow> string \<Rightarrow> ident \<Rightarrow> retention_action wact" where
  "request_action org documentId action reason requestedBy =
     bindA (throwIf (trim reason = []) (BadRequest ''reason required'')) (\<lambda>_.
     bindA (documents_findById documentId org) (\<lambda>doc.
     bindA (throwIf (doc = None) (NotFound ''Document not found'')) (\<lambda>_.
     bindA (retention_create \<lparr>cra_org = org, cra_documentId = documentId, cra_action = action,
       cra_reason = trim reason, cra_requestedBy = requestedBy\<rparr>) (\<lambda>row.
     bindA (audit_record
       \<lparr>cae_action = ''retention.'' @ action @ ''.requested'', cae_entityType = ''RetentionAction'',
        cae_entityId = ra_id row, cae_userId = Some requestedBy, cae_org = org,
        cae_details = Some (JObj [(''documentId'', JStr documentId),
                                  (''reason'', JStr (ra_reason row))])\<rparr>) (\<lambda>_.
     ret row)))))"

definition get_action :: "ident \<Rightarrow> ident \<Rightarrow> retention_action wact" where
  "get_action i org =
     bindA (retention_findById i org) (\<lambda>found.
       orThrow found (NotFound ''RetentionAction not found''))"

definition list_actions :: "ident \<Rightarrow> string option \<Rightarrow> retention_action list wact" where
  "list_actions org status = retention_findAll org status"

definition assertActionPending :: "retention_action \<Rightarrow> unit wact" where
  "assertActionPending row =
     throwIf (ra_status row \<noteq> ''pending'')
       (BadRequest (''action not pending (status='' @ ra_status row @ '')''))"

definition assertActionApprover :: "retention_action \<Rightarrow> ident \<Rightarrow> unit wact" where
  "assertActionApprover row approver =
     throwIf (ra_requestedBy row = approver)
       (BadRequest ''approver must differ from requestor (separation of duties)'')"

definition action_audit ::
    "string \<Rightarrow> retention_action \<Rightarrow> ident \<Rightarrow> ident \<Rightarrow> ident \<Rightarrow> audit_event wact" where
  "action_audit action row i org approver =
     audit_record
       \<lparr>cae_action = action, cae_entityType = ''RetentionAction'', cae_entityId = i,
        cae_userId = Some approver, cae_org = org,
        cae_details = Some (JObj [(''documentId'', JStr (ra_documentId row))])\<rparr>"

definition decide_action :: "string \<Rightarrow> ident \<Rightarrow> ident \<Rightarrow> ident \<Rightarrow> retention_action wact" where
  "decide_action status i org approver =
     bindA nowA (\<lambda>t.
       retention_update (no_retention_change
         \<lparr>ura_status := Some status, ura_decidedBy := Some (Some approver),
          ura_decidedAt := Some (Some t)\<rparr>) i org)"

definition approve_action :: "ident \<Rightarrow> ident \<Rightarrow> ident \<Rightarrow> retention_action wact" where
  "approve_action i org approver =
     bindA (get_action i org) (\<lambda>row.
     bindA (assertActionPending row) (\<lambda>_.
     bindA (assertActionApprover row approver) (\<lambda>_.
     bindA (decide_action ''approved'' i org approver) (\<lambda>updated.
     bindA (action_audit ''retention.approved'' row i org approver) (\<lambda>_.
     ret updated)))))"

definition deny_action :: "ident \<Rightarrow> ident \<Rightarrow> ident \<Rightarrow> retention_action wact" where
  "deny_action i org approver =
     bindA (get_action i org) (\<lambda>row.
     bindA (assertActionPending row) (\<lambda>_.
     bindA (decide_action ''denied'' i org approver) (\<lambda>updated.
     bindA (action_audit ''retention.denied'' row i org approver) (\<lambda>_.
     ret updated))))"

subsection \<open>The sweep\<close>

definition toRetentionInputs :: "client_document \<Rightarrow> retention_inputs" where
  "toRetentionInputs doc =
     \<lparr>ri_state = cd_state doc, ri_expiresAt = cd_expiresAt doc, ri_policyEndsAt = cd_expiresAt doc\<rparr>"

definition inflight :: "retention_action list \<Rightarrow> bool" where
  "inflight rows \<longleftrightarrow> list_ex (\<lambda>r. ra_status r = ''pending'' \<or> ra_status r = ''approved'') rows"

definition sweep_one :: "ident \<Rightarrow> ident \<Rightarrow> time \<Rightarrow> client_document \<Rightarrow> nat \<Rightarrow> nat wact" where
  "sweep_one org triggeredBy now doc created =
     (let decision = evaluate_retention (toRetentionInputs doc) now in
      if fst decision \<noteq> ''eligible-for-destruction'' then ret created
      else
        bindA (retention_findForDocument (cd_id doc) org) (\<lambda>existing.
        if inflight existing then ret created
        else
          bindA (request_action org (cd_id doc) ''destroy'' (''auto-sweep: '' @ snd decision)
            triggeredBy) (\<lambda>_.
          ret (created + 1))))"

record sweep_result =
  sw_docsScanned :: nat
  sw_created :: nat

definition sweep :: "ident \<Rightarrow> ident \<Rightarrow> time option \<Rightarrow> sweep_result wact" where
  "sweep org triggeredBy time =
     bindA (case time of Some t \<Rightarrow> ret t | None \<Rightarrow> nowA) (\<lambda>now.
     bindA (documents_findAll org) (\<lambda>docs.
     bindA (foldA (sweep_one org triggeredBy now) docs 0) (\<lambda>created.
     ret \<lparr>sw_docsScanned = length docs, sw_created = created\<rparr>)))"

text \<open>
  The daily job: \<open>enabled\<close> is the environment switch \<^verbatim>\<open>RETENTION_SCHEDULER_ENABLED\<close>; a
  sweep that fails is logged and the next organisation is swept. Logging is left out.
\<close>

definition runDaily :: "string option \<Rightarrow> unit wact" where
  "runDaily enabled =
     (if enabled \<noteq> Some ''true'' then ret ()
      else
        bindA orgs_findAll (\<lambda>orgs.
        foldA (\<lambda>org _. tryA
          (bindA (sweep (og_id org) ''system:retention-scheduler'' None) (\<lambda>_. ret ()))
          (\<lambda>_. ret ())) orgs ()))"

subsection \<open>The action state machine\<close>

lemma get_action_apply:
  "get_action i org w = (case action_view i org w of
     None \<Rightarrow> (Inl (NotFound ''RetentionAction not found''), w) | Some r \<Rightarrow> (Inr r, w))"
  by (simp add: get_action_def retention_findById_def split: option.splits)

definition ra_decided :: "string \<Rightarrow> ident \<Rightarrow> time \<Rightarrow> time \<Rightarrow> retention_action \<Rightarrow> retention_action" where
  "ra_decided status approver t u r =
     r\<lparr>ra_status := status, ra_decidedBy := Some approver, ra_decidedAt := Some t, ra_updatedAt := u\<rparr>"

lemma decide_action_apply:
  assumes "action_view i org w = Some r"
  shows "decide_action s i org d w =
    (let r' = ra_decided s d (w_clock w (w_ticks w)) (w_clock w (Suc (w_ticks w))) r in
     (Inr r', w\<lparr>w_ticks := Suc (Suc (w_ticks w)), w_retention := setT i r' (w_retention w)\<rparr>))"
  using assms
  by (simp add: decide_action_def bindA_def nowA_def retention_update_def action_view_def
      scoped_update_Some ra_patch_def no_retention_change_def ra_decided_def Let_def)

inductive ra_move :: "retention_action \<Rightarrow> retention_action \<Rightarrow> bool" where
  ra_approve: "ra_status r = ''pending'' \<Longrightarrow> ra_requestedBy r \<noteq> d \<Longrightarrow>
     ra_move r (ra_decided ''approved'' d t u r)"
| ra_deny: "ra_status r = ''pending'' \<Longrightarrow> ra_move r (ra_decided ''denied'' d t u r)"

inductive_simps ra_move_iff: "ra_move r r'"

definition ra_new :: "retention_action \<Rightarrow> bool" where
  "ra_new r \<longleftrightarrow> ra_status r = ''pending'' \<and> ra_decidedBy r = None \<and> ra_decidedAt r = None \<and>
     ra_executedAt r = None"

definition ra_row_ok :: "retention_action \<Rightarrow> bool" where
  "ra_row_ok r \<longleftrightarrow>
     ra_status r \<in> {''pending'', ''approved'', ''denied''} \<and> ra_executedAt r = None \<and>
     (ra_status r = ''pending'' \<longleftrightarrow> ra_decidedBy r = None) \<and>
     (ra_decidedBy r = None \<longleftrightarrow> ra_decidedAt r = None) \<and>
     (ra_status r = ''approved'' \<longrightarrow> ra_decidedBy r \<noteq> Some (ra_requestedBy r))"

definition ra_final :: "retention_action \<Rightarrow> bool" where
  "ra_final r \<longleftrightarrow> ra_status r \<noteq> ''pending''"

interpretation ra_machine: row_machine w_retention ra_move ra_new ra_row_ok ra_final
proof
  show "ra_row_ok r'" if "ra_move r r'" "ra_row_ok r" for r r'
    using that by cases (auto simp: ra_row_ok_def ra_decided_def)
  show "ra_row_ok r" if "ra_new r" for r
    using that by (auto simp: ra_new_def ra_row_ok_def)
  show "\<not> ra_move r r'" if "ra_final r" for r r'
    using that by (auto simp: ra_final_def ra_move_iff)
qed

lemma audit_row_step: "row_step w_retention ra_move ra_new w (snd (audit_record d w))"
proof -
  have "runs (frame w_retention) (audit_record d)" by (intro runs_rules) simp_all
  then show ?thesis by (rule runsD [OF runs_frame_row_step])
qed

lemma bind_audit_row_step:
  assumes "row_step w_retention ra_move ra_new w w1"
  shows "row_step w_retention ra_move ra_new w (snd (bindA (audit_record d) (\<lambda>_. ret x) w1))"
proof -
  have "snd (bindA (audit_record d) (\<lambda>_. ret x) w1) = snd (audit_record d w1)"
    by (simp add: bindA_def audit_record_apply Let_def)
  then show ?thesis
    using row_trans [OF assms audit_row_step [of w1 d]] by simp
qed

lemma approve_action_steps: "runs (row_step w_retention ra_move ra_new) (approve_action i org d)"
  unfolding runs_def
proof
  fix w
  show "row_step w_retention ra_move ra_new w (snd (approve_action i org d w))"
  proof (cases "\<exists>r. action_view i org w = Some r \<and> ra_status r = ''pending'' \<and> ra_requestedBy r \<noteq> d")
    case True
    then obtain r where r: "action_view i org w = Some r" "ra_status r = ''pending''"
      "ra_requestedBy r \<noteq> d" by blast
    let ?r' = "ra_decided ''approved'' d (w_clock w (w_ticks w)) (w_clock w (Suc (w_ticks w))) r"
    let ?w1 = "w\<lparr>w_ticks := Suc (Suc (w_ticks w)), w_retention := setT i ?r' (w_retention w)\<rparr>"
    have "row_step w_retention ra_move ra_new w ?w1"
      using r ra_approve [OF r(2,3)]
      by (intro row_moved [of w_retention w i r ra_move ?r'])
         (simp_all add: action_view_def scoped_Some_iff uuid_adv_def)
    moreover have "approve_action i org d w
        = bindA (action_audit ''retention.approved'' r i org d) (\<lambda>_. ret ?r') ?w1"
      using r by (simp add: approve_action_def bindA_def get_action_apply assertActionPending_def
          assertActionApprover_def decide_action_apply Let_def)
    ultimately show ?thesis
      by (simp only: action_audit_def bind_audit_row_step)
  next
    case False
    then have "snd (approve_action i org d w) = w"
      by (cases "action_view i org w")
         (auto simp: approve_action_def bindA_def get_action_apply assertActionPending_def
           assertActionApprover_def throwIf_apply)
    then show ?thesis by (simp add: row_step_refl)
  qed
qed

lemma deny_action_steps: "runs (row_step w_retention ra_move ra_new) (deny_action i org d)"
  unfolding runs_def
proof
  fix w
  show "row_step w_retention ra_move ra_new w (snd (deny_action i org d w))"
  proof (cases "\<exists>r. action_view i org w = Some r \<and> ra_status r = ''pending''")
    case True
    then obtain r where r: "action_view i org w = Some r" "ra_status r = ''pending''" by blast
    let ?r' = "ra_decided ''denied'' d (w_clock w (w_ticks w)) (w_clock w (Suc (w_ticks w))) r"
    let ?w1 = "w\<lparr>w_ticks := Suc (Suc (w_ticks w)), w_retention := setT i ?r' (w_retention w)\<rparr>"
    have "row_step w_retention ra_move ra_new w ?w1"
      using r ra_deny [OF r(2)]
      by (intro row_moved [of w_retention w i r ra_move ?r'])
         (simp_all add: action_view_def scoped_Some_iff uuid_adv_def)
    moreover have "deny_action i org d w
        = bindA (action_audit ''retention.denied'' r i org d) (\<lambda>_. ret ?r') ?w1"
      using r by (simp add: deny_action_def bindA_def get_action_apply assertActionPending_def
          decide_action_apply Let_def)
    ultimately show ?thesis
      by (simp only: action_audit_def bind_audit_row_step)
  next
    case False
    then have "snd (deny_action i org d w) = w"
      by (cases "action_view i org w")
         (auto simp: deny_action_def bindA_def get_action_apply assertActionPending_def
           throwIf_apply)
    then show ?thesis by (simp add: row_step_refl)
  qed
qed

definition ra_fresh :: "world \<Rightarrow> ident \<Rightarrow> ident \<Rightarrow> string \<Rightarrow> string \<Rightarrow> ident \<Rightarrow> retention_action" where
  "ra_fresh w org documentId action reason requestedBy =
     \<lparr>ra_id = w_uuid w (w_uuid_n w), ra_org = org, ra_documentId = documentId, ra_action = action,
      ra_reason = trim reason, ra_requestedBy = requestedBy,
      ra_requestedAt = w_clock w (w_ticks w), ra_status = ''pending'', ra_decidedBy = None,
      ra_decidedAt = None, ra_executedAt = None, ra_createdAt = w_clock w (w_ticks w),
      ra_updatedAt = w_clock w (w_ticks w)\<rparr>"

lemma request_action_rejected:
  assumes "trim reason = [] \<or> document_view documentId org w = None"
  shows "\<exists>e. request_action org documentId action reason d w = (Inl e, w)"
  using assms by (auto simp: request_action_def bindA_def throwIf_apply documents_findById_def)

lemma request_action_apply:
  assumes "trim reason \<noteq> []" and "document_view documentId org w \<noteq> None"
  obtains w' where
    "request_action org documentId action reason d w
       = (Inr (ra_fresh w org documentId action reason d), w')"
    "w_retention w' = setT (w_uuid w (w_uuid_n w)) (ra_fresh w org documentId action reason d)
       (w_retention w)"
    "w_documents w' = w_documents w" "w_uuid w' = w_uuid w" "w_uuid_n w' = Suc (Suc (w_uuid_n w))"
  using assms
  by (simp add: request_action_def bindA_def documents_findById_def retention_create_def nowA_def
      uuidA_def insert_row_apply audit_record_apply Let_def ra_fresh_def)

lemma request_action_steps [runs_rules]:
  "runs (row_step w_retention ra_move ra_new) (request_action org documentId action reason d)"
  unfolding runs_def
proof
  fix w
  show "row_step w_retention ra_move ra_new w (snd (request_action org documentId action reason d w))"
  proof (cases "trim reason = [] \<or> document_view documentId org w = None")
    case True
    from request_action_rejected [OF this, of action d] show ?thesis
      by (auto simp: row_step_refl)
  next
    case False
    then obtain w' where "request_action org documentId action reason d w
        = (Inr (ra_fresh w org documentId action reason d), w')"
      "w_retention w' = setT (w_uuid w (w_uuid_n w)) (ra_fresh w org documentId action reason d)
         (w_retention w)" "w_uuid w' = w_uuid w" "w_uuid_n w' = Suc (Suc (w_uuid_n w))"
      using request_action_apply [of reason documentId org w action d] by blast
    moreover have "ra_new (ra_fresh w org documentId action reason d)"
      by (simp add: ra_new_def ra_fresh_def)
    ultimately show ?thesis
      using row_added [of ra_new _ w_retention w' w ra_move] by simp
  qed
qed

lemma row_step_nowA [runs_rules]: "runs (row_step w_retention move new) nowA"
  by (intro runs_frame_row_step runs_rules) simp

lemma sweep_steps [runs_rules]: "runs (row_step w_retention ra_move ra_new) (sweep org d t)"
  unfolding sweep_def sweep_one_def Let_def documents_findAll_def retention_findForDocument_def
  by (intro runs_rules) simp_all

lemma runDaily_steps: "runs (row_step w_retention ra_move ra_new) (runDaily enabled)"
  unfolding runDaily_def orgs_findAll_def
  by (intro runs_rules) simp_all

text \<open>One call of the service or the scheduler, or anything that leaves the actions alone.\<close>

inductive ra_step :: "world \<Rightarrow> world \<Rightarrow> bool" where
  "ra_step w (snd (request_action org documentId action reason d w))"
| "ra_step w (snd (approve_action i org d w))"
| "ra_step w (snd (deny_action i org d w))"
| "ra_step w (snd (sweep org d t w))"
| "ra_step w (snd (runDaily enabled w))"
| "frame w_retention w w' \<Longrightarrow> ra_step w w'"

inductive ra_reachable :: "world \<Rightarrow> bool" where
  ra_start: "w_retention w = [] \<Longrightarrow> ra_reachable w"
| ra_next: "ra_reachable w \<Longrightarrow> ra_step w w' \<Longrightarrow> ra_reachable w'"

lemma ra_step_refines: "ra_step w w' \<Longrightarrow> row_step w_retention ra_move ra_new w w'"
  by (induction rule: ra_step.induct)
     (auto intro: runsD request_action_steps approve_action_steps deny_action_steps sweep_steps
       runDaily_steps frame_row_step)

lemma ra_reachable_ok: "ra_reachable w \<Longrightarrow> \<forall>r \<in> set (rowsT (w_retention w)). ra_row_ok r"
  by (induction rule: ra_reachable.induct)
     (simp add: rowsT_def, rule ra_machine.rows_ok [OF ra_step_refines])

subsection \<open>What a sweep does\<close>

definition due :: "time \<Rightarrow> client_document \<Rightarrow> bool" where
  "due now doc \<longleftrightarrow> reached (cd_expiresAt doc) now"

definition in_flight :: "ident \<Rightarrow> retention_action list \<Rightarrow> client_document \<Rightarrow> bool" where
  "in_flight org rows doc \<longleftrightarrow>
     (\<exists>r \<in> set rows. ra_documentId r = cd_id doc \<and> ra_org r = org \<and>
        (ra_status r = ''pending'' \<or> ra_status r = ''approved''))"

text \<open>The action a sweep files for a document.\<close>

definition swept :: "ident \<Rightarrow> ident \<Rightarrow> client_document \<Rightarrow> retention_action \<Rightarrow> bool" where
  "swept org d doc r \<longleftrightarrow> ra_documentId r = cd_id doc \<and> ra_org r = org \<and> ra_action r = ''destroy'' \<and>
     ra_status r = ''pending'' \<and> ra_requestedBy r = d \<and>
     ra_reason r = ''auto-sweep: retention policy elapsed''"

lemma evaluate_due:
  "fst (evaluate_retention (toRetentionInputs doc) now) = ''eligible-for-destruction'' \<longleftrightarrow> due now doc"
  "due now doc \<Longrightarrow> snd (evaluate_retention (toRetentionInputs doc) now) = ''retention policy elapsed''"
  by (simp_all add: evaluate_retention_def toRetentionInputs_def due_def)

lemma inflight_iff:
  "inflight (actions_for_document (cd_id doc) org w) \<longleftrightarrow> in_flight org (rowsT (w_retention w)) doc"
  by (auto simp: inflight_def in_flight_def actions_for_document_def list_ex_iff)

lemma auto_sweep_reason:
  "trim (''auto-sweep: '' @ ''retention policy elapsed'') = ''auto-sweep: retention policy elapsed''"
  by code_simp

lemma sweep_one_skip:
  "\<not> due now doc \<or> in_flight org (rowsT (w_retention w)) doc \<Longrightarrow>
     sweep_one org d now doc n w = (Inr n, w)"
  by (auto simp: sweep_one_def Let_def evaluate_due bindA_def retention_findForDocument_def
      inflight_iff)

lemma sweep_one_file:
  assumes "due now doc" and "\<not> in_flight org (rowsT (w_retention w)) doc"
    and "document_view (cd_id doc) org w \<noteq> None" and "uuid_ok w_retention w"
  obtains r w' where "sweep_one org d now doc n w = (Inr (Suc n), w')" "swept org d doc r"
    "rowsT (w_retention w') = rowsT (w_retention w) @ [r]"
    "w_documents w' = w_documents w" "uuid_ok w_retention w'"
proof -
  let ?reason = "''auto-sweep: '' @ ''retention policy elapsed''"
  let ?r = "ra_fresh w org (cd_id doc) ''destroy'' ?reason d"
  have "trim ?reason \<noteq> []" unfolding auto_sweep_reason by simp
  then obtain w' where w': "request_action org (cd_id doc) ''destroy'' ?reason d w = (Inr ?r, w')"
    "w_retention w' = setT (w_uuid w (w_uuid_n w)) ?r (w_retention w)"
    "w_documents w' = w_documents w"
    using request_action_apply [OF _ assms(3), of ?reason "''destroy''" d] by blast
  have "sweep_one org d now doc n w = (Inr (Suc n), w')"
    using assms(1,2) w'(1)
    by (simp add: sweep_one_def Let_def evaluate_due bindA_def retention_findForDocument_def
        inflight_iff)
  moreover have "swept org d doc ?r"
    by (simp add: swept_def ra_fresh_def auto_sweep_reason [simplified])
  moreover have "rowsT (w_retention w') = rowsT (w_retention w) @ [?r]"
    using w'(2) uuid_ok_next [OF assms(4)] by (simp add: rowsT_setT_fresh)
  moreover have "uuid_ok w_retention w'"
    using runsD_eq [OF request_action_steps w'(1)] assms(4) by (rule row_step_uuid_ok)
  ultimately show thesis
    using that w'(3) by blast
qed

lemma in_flight_append: "in_flight org (xs @ ys) doc \<longleftrightarrow> in_flight org xs doc \<or> in_flight org ys doc"
  by (auto simp: in_flight_def)

lemma list_all2_in_left: "list_all2 P xs ys \<Longrightarrow> x \<in> set xs \<Longrightarrow> \<exists>y \<in> set ys. P x y"
  by (induction rule: list_all2_induct) auto

lemma swept_in_flight: "swept org d x r \<Longrightarrow> in_flight org [r] doc \<longleftrightarrow> cd_id doc = cd_id x"
  by (auto simp: swept_def in_flight_def)

text \<open>The loop over the documents, from any intermediate count.\<close>

lemma sweep_loop:
  assumes "uuid_ok w_retention w" and "distinct (map cd_id docs)"
    and "\<forall>doc \<in> set docs. document_view (cd_id doc) org w \<noteq> None"
  shows "\<exists>new w'. foldA (sweep_one org d now) docs n w = (Inr (n + length new), w')
     \<and> rowsT (w_retention w') = rowsT (w_retention w) @ new
     \<and> w_documents w' = w_documents w
     \<and> list_all2 (swept org d)
         (filter (\<lambda>doc. due now doc \<and> \<not> in_flight org (rowsT (w_retention w)) doc) docs) new"
  using assms
proof (induction docs arbitrary: n w)
  case Nil
  then show ?case by simp
next
  case (Cons doc docs)
  let ?rows = "rowsT (w_retention w)"
  show ?case
  proof (cases "due now doc \<and> \<not> in_flight org ?rows doc")
    case False
    then have "sweep_one org d now doc n w = (Inr n, w)"
      using sweep_one_skip by blast
    then show ?thesis
      using Cons.IH [of w n] Cons.prems False by (auto simp: bindA_def)
  next
    case True
    then obtain r w1 where w1: "sweep_one org d now doc n w = (Inr (Suc n), w1)" "swept org d doc r"
      "rowsT (w_retention w1) = ?rows @ [r]" "w_documents w1 = w_documents w" "uuid_ok w_retention w1"
      using sweep_one_file [of now doc org w d n thesis] Cons.prems by force
    have fresh: "cd_id x \<noteq> cd_id doc" if "x \<in> set docs" for x
      using Cons.prems(2) that by (metis distinct.simps(2) image_eqI list.simps(9) list.set_map)
    have same: "filter (\<lambda>x. due now x \<and> \<not> in_flight org (?rows @ [r]) x) docs
        = filter (\<lambda>x. due now x \<and> \<not> in_flight org ?rows x) docs"
      using fresh by (intro filter_cong) (auto simp: in_flight_append swept_in_flight [OF w1(2)])
    have "\<forall>x \<in> set docs. document_view (cd_id x) org w1 \<noteq> None"
      using Cons.prems(3) w1(4) by (simp add: document_view_def)
    then obtain new w' where "foldA (sweep_one org d now) docs (Suc n) w1
        = (Inr (Suc n + length new), w')"
      "rowsT (w_retention w') = (?rows @ [r]) @ new" "w_documents w' = w_documents w"
      "list_all2 (swept org d) (filter (\<lambda>x. due now x \<and> \<not> in_flight org ?rows x) docs) new"
      using Cons.IH [OF w1(5), of "Suc n"] Cons.prems(2) w1(3,4) same by auto
    then show ?thesis
      using w1(1,2) True by (intro exI [of _ "r # new"] exI [of _ w']) (simp add: bindA_def)
  qed
qed

lemma org_documents_view:
  assumes "tbl_ok cd_id (w_documents w)"
    and "doc \<in> set (rows_where (\<lambda>d. cd_org d = org) (w_documents w))"
  shows "document_view (cd_id doc) org w = Some doc"
  using assms by (auto simp: document_view_def scoped_Some_iff dest: tbl_ok_rowsT)

lemma tbl_ok_distinct_keys:
  "tbl_ok key t \<Longrightarrow> distinct (map key (rows_where P t))"
proof -
  assume "tbl_ok key t"
  then have "map key (rowsT t) = map fst t" "distinct (map fst t)"
    by (auto simp: tbl_ok_def rowsT_def)
  then show ?thesis
    by (metis rows_where_def distinct_map_filter)
qed

lemma sweep_apply:
  assumes "tbl_ok cd_id (w_documents w)" and "uuid_ok w_retention w"
  shows "\<exists>new w'. sweep org d (Some now) w
      = (Inr \<lparr>sw_docsScanned = length (rows_where (\<lambda>x. cd_org x = org) (w_documents w)),
              sw_created = length new\<rparr>, w')
     \<and> rowsT (w_retention w') = rowsT (w_retention w) @ new
     \<and> w_documents w' = w_documents w
     \<and> list_all2 (swept org d)
         (filter (\<lambda>doc. due now doc \<and> \<not> in_flight org (rowsT (w_retention w)) doc)
           (rows_where (\<lambda>x. cd_org x = org) (w_documents w))) new"
proof -
  let ?docs = "rows_where (\<lambda>x. cd_org x = org) (w_documents w)"
  have "\<forall>doc \<in> set ?docs. document_view (cd_id doc) org w \<noteq> None"
    using org_documents_view [OF assms(1)] by blast
  then obtain new w' where "foldA (sweep_one org d now) ?docs 0 w = (Inr (length new), w')"
    "rowsT (w_retention w') = rowsT (w_retention w) @ new \<and> w_documents w' = w_documents w
     \<and> list_all2 (swept org d)
         (filter (\<lambda>doc. due now doc \<and> \<not> in_flight org (rowsT (w_retention w)) doc) ?docs) new"
    using sweep_loop [OF assms(2) tbl_ok_distinct_keys [OF assms(1)], of "\<lambda>x. cd_org x = org" org d now 0]
    by (auto simp only: add_0)
  then show ?thesis
    by (intro exI [of _ new] exI [of _ w'])
       (simp add: sweep_def bindA_def documents_findAll_def)
qed

subsection \<open>Properties\<close>

text \<open>
  C18: separation of duties for destruction, in every state the service and the scheduler can
  reach: an approved action was decided, at a recorded time, by somebody other than its
  requestor; and no action is ever marked executed (the schema's fourth status).
\<close>

theorem retention_separation_of_duties:
  assumes "ra_reachable w" and "r \<in> set (rowsT (w_retention w))"
  shows "ra_status r \<noteq> ''executed''
     \<and> (ra_status r = ''approved'' \<longrightarrow>
          (\<exists>d t. ra_decidedBy r = Some d \<and> ra_decidedAt r = Some t \<and> d \<noteq> ra_requestedBy r))"
proof -
  have "ra_row_ok r"
    using ra_reachable_ok [OF assms(1)] assms(2) by blast
  then show ?thesis by (auto simp: ra_row_ok_def)
qed

definition retention_demo :: world where
  "retention_demo = snd (documents_create \<lparr>ccd_filename = ''cr.pdf'', ccd_company = ''c'',
     ccd_org = ''org'', ccd_documentType = None, ccd_sensitivity = None, ccd_state = None,
     ccd_expiresAt = Some 5, ccd_storageKey = None, ccd_contentType = None, ccd_sizeBytes = None\<rparr>
     world0)"

definition retention_demo_swept :: world where
  "retention_demo_swept = snd (approve_action ''uu'' ''org'' ''bob''
     (snd (sweep ''org'' ''alice'' (Some 9) retention_demo)))"

definition retention_demo_row :: retention_action where
  "retention_demo_row = hd (rowsT (w_retention retention_demo_swept))"

lemma retention_demo_reachable: "ra_reachable retention_demo_swept"
proof -
  have "w_retention retention_demo = []" by code_simp
  then show ?thesis
    unfolding retention_demo_swept_def
    by (rule ra_next [OF ra_next [OF ra_start ra_step.intros(4)] ra_step.intros(2)])
qed

theorem retention_separation_of_duties_witness:
  "ra_status retention_demo_row = ''approved'' \<and>
   (\<exists>d t. ra_decidedBy retention_demo_row = Some d \<and> ra_decidedAt retention_demo_row = Some t
      \<and> d \<noteq> ra_requestedBy retention_demo_row)"
proof -
  have "retention_demo_row \<in> set (rowsT (w_retention retention_demo_swept))"
    "ra_status retention_demo_row = ''approved''" by code_simp+
  then show ?thesis
    using retention_separation_of_duties [OF retention_demo_reachable, of retention_demo_row] by simp
qed

text \<open>
  C19: a sweep at time \<open>now\<close> always succeeds, looks at every document of the organisation, and
  files exactly one pending destroy action, in document order, for each document whose expiry
  has been reached and that has no pending or approved action; nothing else is filed and no
  existing action changes.
\<close>

theorem sweep_files_exactly_the_due_documents:
  assumes "tbl_ok cd_id (w_documents w)" and "uuid_ok w_retention w"
  shows "\<exists>new w'. sweep org d (Some now) w
      = (Inr \<lparr>sw_docsScanned = length (rows_where (\<lambda>x. cd_org x = org) (w_documents w)),
              sw_created = length new\<rparr>, w')
     \<and> rowsT (w_retention w') = rowsT (w_retention w) @ new
     \<and> list_all2 (\<lambda>doc r. ra_documentId r = cd_id doc \<and> ra_org r = org \<and> ra_action r = ''destroy''
            \<and> ra_status r = ''pending'' \<and> ra_requestedBy r = d)
         (filter (\<lambda>doc. (\<exists>t. cd_expiresAt doc = Some t \<and> t \<le> now) \<and>
                    \<not> (\<exists>r \<in> set (rowsT (w_retention w)). ra_documentId r = cd_id doc \<and> ra_org r = org
                         \<and> ra_status r \<in> {''pending'', ''approved''}))
           (rows_where (\<lambda>x. cd_org x = org) (w_documents w))) new"
proof -
  have due: "due now = (\<lambda>doc. \<exists>t. cd_expiresAt doc = Some t \<and> t \<le> now)"
    by (auto simp: fun_eq_iff due_def reached_def split: option.splits)
  have flight: "in_flight org rows = (\<lambda>doc. \<exists>r \<in> set rows. ra_documentId r = cd_id doc
      \<and> ra_org r = org \<and> ra_status r \<in> {''pending'', ''approved''})" for rows
    by (auto simp: fun_eq_iff in_flight_def)
  from sweep_apply [OF assms, of org d now] show ?thesis
    unfolding due flight
    by (fastforce elim!: list_all2_mono simp: swept_def)
qed

lemma retention_demo_ok: "tbl_ok cd_id (w_documents retention_demo)" "uuid_ok w_retention retention_demo"
proof -
  show "tbl_ok cd_id (w_documents retention_demo)" by code_simp
  have "w_uuid retention_demo = w_uuid world0" by (rule ext) code_simp
  moreover have "w_retention retention_demo = []" by code_simp
  ultimately show "uuid_ok w_retention retention_demo"
    using world0_uuid_inj by (simp add: uuid_ok_def keysT_def)
qed

theorem sweep_files_exactly_the_due_documents_witness:
  "\<exists>new w'. sweep ''org'' ''alice'' (Some 9) retention_demo
     = (Inr \<lparr>sw_docsScanned = 1, sw_created = length new\<rparr>, w')
     \<and> rowsT (w_retention w') = new \<and> map ra_documentId new = [''u'']"
proof -
  let ?docs = "rows_where (\<lambda>x. cd_org x = ''org'') (w_documents retention_demo)"
  have r: "rowsT (w_retention retention_demo) = []" "length ?docs = 1" "map cd_id ?docs = [''u'']"
    "map cd_expiresAt ?docs = [Some 5]"
    by code_simp+
  then obtain doc where "?docs = [doc]" "cd_id doc = ''u''" "cd_expiresAt doc = Some 5"
    by (cases ?docs) auto
  then show ?thesis
    using sweep_files_exactly_the_due_documents [OF retention_demo_ok, of "''org''" "''alice''" 9] r
    by (auto simp: list_all2_Cons1)
qed

text \<open>
  Sweeping twice files nothing new: right after a sweep at \<open>now\<close>, a second sweep at the
  same time, by anybody, creates no action and leaves the action table as it is.
\<close>

theorem sweep_idempotent:
  assumes "tbl_ok cd_id (w_documents w)" and "uuid_ok w_retention w"
  shows "\<exists>res w'. sweep org d' (Some now) (snd (sweep org d (Some now) w)) = (Inr res, w')
     \<and> sw_created res = 0
     \<and> rowsT (w_retention w') = rowsT (w_retention (snd (sweep org d (Some now) w)))"
proof -
  let ?docs = "rows_where (\<lambda>x. cd_org x = org) (w_documents w)"
  from sweep_apply [OF assms, of org d now] obtain new w1 where
    w1: "snd (sweep org d (Some now) w) = w1" "w_documents w1 = w_documents w"
    "rowsT (w_retention w1) = rowsT (w_retention w) @ new"
    "list_all2 (swept org d)
       (filter (\<lambda>doc. due now doc \<and> \<not> in_flight org (rowsT (w_retention w)) doc) ?docs) new"
    by auto
  have ok: "tbl_ok cd_id (w_documents w1)" "uuid_ok w_retention w1"
    using assms row_step_uuid_ok [OF runsD [OF sweep_steps, of w org d "Some now"]] w1(1,2) by auto
  have "in_flight org (rowsT (w_retention w1)) doc" if "doc \<in> set ?docs" "due now doc" for doc
  proof (cases "in_flight org (rowsT (w_retention w)) doc")
    case False
    then have "doc \<in> set (filter (\<lambda>doc. due now doc \<and>
        \<not> in_flight org (rowsT (w_retention w)) doc) ?docs)" using that by simp
    then obtain r where "r \<in> set new" "swept org d doc r"
      using list_all2_in_left [OF w1(4)] by blast
    then show ?thesis by (auto simp: w1(3) in_flight_def swept_def)
  qed (simp add: w1(3) in_flight_append)
  then have "filter (\<lambda>doc. due now doc \<and> \<not> in_flight org (rowsT (w_retention w1)) doc) ?docs = []"
    by (auto simp: filter_empty_conv)
  then show ?thesis
    using sweep_apply [OF ok, of org d' now] by (auto simp: w1(1,2))
qed

theorem sweep_idempotent_witness:
  "\<exists>res w'. sweep ''org'' ''bob'' (Some 9) (snd (sweep ''org'' ''alice'' (Some 9) retention_demo))
     = (Inr res, w') \<and> sw_created res = 0"
  using sweep_idempotent [OF retention_demo_ok, of "''org''" "''bob''" 9 "''alice''"] by blast

end
