(* ===== verification/Consent.thy ===== *)
theory Consent
  imports Repos_Pdpl Audit_Trail
begin

text \<open>
  The consent ledger (\<^verbatim>\<open>pdpl/consent-ledger.service.ts\<close>): append-only events, the current
  state as the newest event, default deny.
\<close>

record consent_input =
  rc_subjectEmail :: string
  rc_subjectUserId :: "ident option"
  rc_purpose :: string
  rc_state :: string
  rc_source :: "string option"
  rc_recordedBy :: "ident option"
  rc_details :: "json option"

definition record_consent :: "ident \<Rightarrow> consent_input \<Rightarrow> consent_event wact" where
  "record_consent org i =
     bindA (throwIf (rc_subjectEmail i = [] \<or> \<not> includes_char (rc_subjectEmail i) (CHR ''@''))
       (BadRequest ''subjectEmail required'')) (\<lambda>_.
     bindA (throwIf (rc_purpose i = []) (BadRequest ''purpose required'')) (\<lambda>_.
     bindA (throwIf (rc_state i \<noteq> ''granted'' \<and> rc_state i \<noteq> ''withdrawn'')
       (BadRequest ''state must be granted|withdrawn'')) (\<lambda>_.
     bindA (consents_create
       \<lparr>cce_org = org, cce_subjectEmail = rc_subjectEmail i,
        cce_subjectUserId = rc_subjectUserId i, cce_purpose = rc_purpose i,
        cce_state = rc_state i, cce_source = Some (orElse (rc_source i) ''api''),
        cce_recordedBy = rc_recordedBy i, cce_details = rc_details i\<rparr>) (\<lambda>ev.
     bindA (audit_record
       \<lparr>cae_action = ''consent.'' @ rc_state i, cae_entityType = ''ConsentEvent'',
        cae_entityId = ce_id ev, cae_userId = rc_recordedBy i, cae_org = org,
        cae_details = Some (JObj
          [(''subjectEmail'', JStr (rc_subjectEmail i)), (''purpose'', JStr (rc_purpose i)),
           (''source'', JStr (orElse (rc_source i) ''api''))])\<rparr>) (\<lambda>_.
     ret ev)))))"

definition listForSubject :: "ident \<Rightarrow> string \<Rightarrow> consent_event list wact" where
  "listForSubject org email = consents_findAllForSubject email org"

definition currentState :: "ident \<Rightarrow> string \<Rightarrow> string \<Rightarrow> string option wact" where
  "currentState org email purpose =
     bindA (consents_findCurrent email purpose org) (\<lambda>latest. ret (map_option ce_state latest))"

definition hasActiveConsent :: "ident \<Rightarrow> string \<Rightarrow> string \<Rightarrow> bool wact" where
  "hasActiveConsent org email purpose =
     bindA (currentState org email purpose) (\<lambda>s. ret (s = Some ''granted''))"

subsection \<open>The current event\<close>

definition consent_rows :: "string \<Rightarrow> string \<Rightarrow> ident \<Rightarrow> world \<Rightarrow> consent_event list" where
  "consent_rows email purpose org w =
     rows_where (\<lambda>e. ce_subjectEmail e = email \<and> ce_purpose e = purpose \<and> ce_org e = org)
       (w_consents w)"

lemma current_consent_sort:
  "current_consent email purpose org w =
     (case sort_desc ce_recordedAt (consent_rows email purpose org w) of
        [] \<Rightarrow> None | e # _ \<Rightarrow> Some e)"
  by (simp add: current_consent_def consent_rows_def)

lemma hasActiveConsent_apply:
  "hasActiveConsent org email purpose w
     = (Inr (map_option ce_state (current_consent email purpose org w) = Some ''granted''), w)"
  by (simp add: hasActiveConsent_def currentState_def consents_findCurrent_def bindA_def)

lemma record_consent_apply:
  assumes "uuid_ok w_consents w" and "rc_subjectEmail i \<noteq> []"
    and "CHR ''@'' \<in> set (rc_subjectEmail i)" and "rc_purpose i \<noteq> []"
    and "rc_state i \<in> {''granted'', ''withdrawn''}"
  obtains ev w' where "record_consent org i w = (Inr ev, w')"
    "rowsT (w_consents w') = rowsT (w_consents w) @ [ev]"
    "ce_org ev = org" "ce_subjectEmail ev = rc_subjectEmail i" "ce_purpose ev = rc_purpose i"
    "ce_state ev = rc_state i" "ce_recordedAt ev = w_clock w (w_ticks w)"
proof -
  have "includes_char (rc_subjectEmail i) (CHR ''@'')"
    using assms(3) by (simp add: includes_char_def)
  then have "\<exists>ev w'. record_consent org i w = (Inr ev, w')
      \<and> w_consents w' = setT (w_uuid w (w_uuid_n w)) ev (w_consents w)
      \<and> ce_org ev = org \<and> ce_subjectEmail ev = rc_subjectEmail i \<and> ce_purpose ev = rc_purpose i
      \<and> ce_state ev = rc_state i \<and> ce_recordedAt ev = w_clock w (w_ticks w)"
    using assms(2,4,5)
    by (auto simp: record_consent_def bindA_def throwIf_apply consents_create_def nowA_def uuidA_def
        insert_row_apply audit_record_apply Let_def)
  then show thesis
    using that rowsT_setT_fresh [OF uuid_ok_next [OF assms(1)]] by metis
qed

text \<open>
  Consent is deny by default and evidence-based: a purpose is allowed exactly when the
  organisation holds events of that subject for that purpose and, among those with the newest
  time, the one recorded first says granted.
\<close>

theorem consent_granted_iff:
  "fst (hasActiveConsent org email purpose w) = Inr True \<longleftrightarrow>
     (\<exists>e \<in> set (consent_rows email purpose org w). ce_state e = ''granted''
        \<and> list_all (\<lambda>x. ce_recordedAt x \<le> ce_recordedAt e) (consent_rows email purpose org w)
        \<and> hd (filter (\<lambda>x. ce_recordedAt x = ce_recordedAt e) (consent_rows email purpose org w)) = e)"
proof (cases "sort_desc ce_recordedAt (consent_rows email purpose org w)")
  case Nil
  then have "current_consent email purpose org w = None"
    by (simp add: current_consent_sort sort_desc_def)
  then show ?thesis using Nil by (simp add: hasActiveConsent_apply)
next
  case (Cons e es)
  note first = sort_desc_first [OF Cons]
  have "x = e" if "x \<in> set (consent_rows email purpose org w)"
    "list_all (\<lambda>y. ce_recordedAt y \<le> ce_recordedAt x) (consent_rows email purpose org w)"
    "hd (filter (\<lambda>y. ce_recordedAt y = ce_recordedAt x) (consent_rows email purpose org w)) = x" for x
  proof -
    have "ce_recordedAt x = ce_recordedAt e"
      using that(1,2) first(1,2) by (intro antisym) (auto simp: list_all_iff)
    then have "hd (filter (\<lambda>y. ce_recordedAt y = ce_recordedAt e) (consent_rows email purpose org w)) = x"
      using that(3) by (simp only:)
    then show ?thesis using first(3) by (simp only:)
  qed
  note only_e = this
  have granted: "fst (hasActiveConsent org email purpose w) = Inr True \<longleftrightarrow> ce_state e = ''granted''"
    by (simp add: hasActiveConsent_apply current_consent_sort Cons)
  show ?thesis
    unfolding granted
  proof
    assume "ce_state e = ''granted''"
    then show "\<exists>e \<in> set (consent_rows email purpose org w). ce_state e = ''granted''
        \<and> list_all (\<lambda>x. ce_recordedAt x \<le> ce_recordedAt e) (consent_rows email purpose org w)
        \<and> hd (filter (\<lambda>x. ce_recordedAt x = ce_recordedAt e) (consent_rows email purpose org w)) = e"
      using first unfolding list_all_iff by blast
  qed (use only_e in blast)
qed

text \<open>
  The last word counts: once the ledger accepts an event at a later time than all earlier
  events of the subject and purpose, the purpose is allowed if and only if that event grants.
\<close>

theorem consent_last_event_wins:
  assumes "uuid_ok w_consents w"
    and "\<forall>e \<in> set (consent_rows (rc_subjectEmail i) (rc_purpose i) org w).
           ce_recordedAt e < w_clock w (w_ticks w)"
    and "record_consent org i w = (Inr ev, w')"
  shows "fst (hasActiveConsent org (rc_subjectEmail i) (rc_purpose i) w') = Inr (rc_state i = ''granted'')"
proof -
  have valid: "rc_subjectEmail i \<noteq> []" "CHR ''@'' \<in> set (rc_subjectEmail i)" "rc_purpose i \<noteq> []"
    "rc_state i \<in> {''granted'', ''withdrawn''}"
    using assms(3) by (auto simp: record_consent_def act_elims includes_char_def)
  obtain ev1 w1 where w1: "record_consent org i w = (Inr ev1, w1)"
    "rowsT (w_consents w1) = rowsT (w_consents w) @ [ev1]"
    "ce_org ev1 = org" "ce_subjectEmail ev1 = rc_subjectEmail i" "ce_purpose ev1 = rc_purpose i"
    "ce_state ev1 = rc_state i" "ce_recordedAt ev1 = w_clock w (w_ticks w)"
    by (rule record_consent_apply [OF assms(1) valid])
  have "consent_rows (rc_subjectEmail i) (rc_purpose i) org w'
      = consent_rows (rc_subjectEmail i) (rc_purpose i) org w @ [ev1]"
    using w1 assms(3) by (simp add: consent_rows_def rows_where_def)
  then have "current_consent (rc_subjectEmail i) (rc_purpose i) org w' = Some ev1"
    using sort_desc_append_newer [of "consent_rows (rc_subjectEmail i) (rc_purpose i) org w"
        ce_recordedAt ev1] assms(2) w1(7)
    by (auto simp: current_consent_sort split: list.splits)
  then show ?thesis
    by (simp add: hasActiveConsent_apply w1(6))
qed

definition consent_demo_input :: "string \<Rightarrow> consent_input" where
  "consent_demo_input state = \<lparr>rc_subjectEmail = ''s@x'', rc_subjectUserId = None,
     rc_purpose = ''whatsapp'', rc_state = state, rc_source = None, rc_recordedBy = None,
     rc_details = None\<rparr>"

definition consent_demo :: "(nat \<Rightarrow> time) \<Rightarrow> world" where
  "consent_demo clock =
     snd (record_consent ''org'' (consent_demo_input ''granted'') (world0\<lparr>w_clock := clock\<rparr>))"

lemma consent_demo_uuid: "uuid_ok w_consents (consent_demo clock)"
proof -
  have "w_uuid (consent_demo clock) = w_uuid world0" by (rule ext) code_simp
  moreover have "w_uuid_n (consent_demo clock) = 2" "keysT (w_consents (consent_demo clock)) = {''u''}"
    by code_simp+
  ultimately show ?thesis
    using world0_uuid_inj by (auto simp: uuid_ok_def world0_def)
qed

lemma consent_demo_accepts:
  assumes "s \<in> {''granted'', ''withdrawn''}"
  shows "\<exists>ev w'. record_consent ''org'' (consent_demo_input s) (consent_demo clock) = (Inr ev, w')"
proof -
  have "rc_subjectEmail (consent_demo_input s) \<noteq> []"
    "CHR ''@'' \<in> set (rc_subjectEmail (consent_demo_input s))"
    "rc_purpose (consent_demo_input s) \<noteq> []"
    "rc_state (consent_demo_input s) \<in> {''granted'', ''withdrawn''}"
    using assms by (simp_all add: consent_demo_input_def)
  from record_consent_apply [OF consent_demo_uuid this] show ?thesis by blast
qed

theorem consent_last_event_wins_witness:
  "fst (hasActiveConsent ''org'' ''s@x'' ''whatsapp''
     (snd (record_consent ''org'' (consent_demo_input ''withdrawn'') (consent_demo (\<lambda>n. int n)))))
   = Inr False"
proof -
  let ?w = "consent_demo (\<lambda>n. int n)" and ?i = "consent_demo_input ''withdrawn''"
  have "list_all (\<lambda>e. ce_recordedAt e < w_clock ?w (w_ticks ?w))
      (consent_rows (rc_subjectEmail ?i) (rc_purpose ?i) ''org'' ?w)"
    by code_simp
  moreover obtain ev w' where "record_consent ''org'' ?i ?w = (Inr ev, w')"
    using consent_demo_accepts [of "''withdrawn''" "\<lambda>n. int n"] by auto
  ultimately have "fst (hasActiveConsent ''org'' (rc_subjectEmail ?i) (rc_purpose ?i)
      (snd (record_consent ''org'' ?i ?w))) = Inr (rc_state ?i = ''granted'')"
    using consent_last_event_wins [OF consent_demo_uuid, where i = ?i and org = "''org''"]
    by (auto simp: list_all_iff)
  then show ?thesis by (simp add: consent_demo_input_def)
qed

text \<open>
  Within one clock reading the first event wins: a withdrawal accepted at the same
  millisecond as the current grant is stored but has no effect, the purpose stays allowed.
\<close>

theorem consent_same_instant_withdrawal_ignored:
  assumes "uuid_ok w_consents w"
    and "current_consent (rc_subjectEmail i) (rc_purpose i) org w = Some e"
    and "ce_state e = ''granted''" and "ce_recordedAt e = w_clock w (w_ticks w)"
    and "rc_state i = ''withdrawn''" and "record_consent org i w = (Inr ev, w')"
  shows "fst (hasActiveConsent org (rc_subjectEmail i) (rc_purpose i) w') = Inr True"
proof -
  have valid: "rc_subjectEmail i \<noteq> []" "CHR ''@'' \<in> set (rc_subjectEmail i)" "rc_purpose i \<noteq> []"
    "rc_state i \<in> {''granted'', ''withdrawn''}"
    using assms(6) by (auto simp: record_consent_def act_elims includes_char_def)
  obtain ev1 w1 where w1: "record_consent org i w = (Inr ev1, w1)"
    "rowsT (w_consents w1) = rowsT (w_consents w) @ [ev1]"
    "ce_org ev1 = org" "ce_subjectEmail ev1 = rc_subjectEmail i" "ce_purpose ev1 = rc_purpose i"
    "ce_recordedAt ev1 = w_clock w (w_ticks w)"
    by (rule record_consent_apply [OF assms(1) valid])
  have rows: "consent_rows (rc_subjectEmail i) (rc_purpose i) org w'
      = consent_rows (rc_subjectEmail i) (rc_purpose i) org w @ [ev1]"
    using w1 assms(6) by (simp add: consent_rows_def rows_where_def)
  obtain es where "sort_desc ce_recordedAt (consent_rows (rc_subjectEmail i) (rc_purpose i) org w) = e # es"
    using assms(2) by (auto simp: current_consent_sort split: list.splits)
  from sort_desc_append_older [OF this, of ev1]
  have "current_consent (rc_subjectEmail i) (rc_purpose i) org w' = Some e"
    using assms(4) w1(6) rows
    by (auto simp: current_consent_sort split: list.splits)
  then show ?thesis
    by (simp add: hasActiveConsent_apply assms(3))
qed

theorem consent_same_instant_withdrawal_ignored_witness:
  "fst (hasActiveConsent ''org'' ''s@x'' ''whatsapp''
     (snd (record_consent ''org'' (consent_demo_input ''withdrawn'') (consent_demo (\<lambda>_. 7)))))
   = Inr True"
proof -
  let ?w = "consent_demo (\<lambda>_. 7)" and ?i = "consent_demo_input ''withdrawn''"
  let ?e = "the (current_consent (rc_subjectEmail ?i) (rc_purpose ?i) ''org'' ?w)"
  have "current_consent (rc_subjectEmail ?i) (rc_purpose ?i) ''org'' ?w \<noteq> None" by code_simp
  then have "current_consent (rc_subjectEmail ?i) (rc_purpose ?i) ''org'' ?w = Some ?e" by auto
  moreover have "ce_state ?e = ''granted''" "ce_recordedAt ?e = w_clock ?w (w_ticks ?w)"
    "rc_state ?i = ''withdrawn''"
    by code_simp+
  moreover obtain ev w' where "record_consent ''org'' ?i ?w = (Inr ev, w')"
    using consent_demo_accepts [of "''withdrawn''" "\<lambda>_. 7"] by auto
  ultimately have "fst (hasActiveConsent ''org'' (rc_subjectEmail ?i) (rc_purpose ?i)
      (snd (record_consent ''org'' ?i ?w))) = Inr True"
    using consent_same_instant_withdrawal_ignored [OF consent_demo_uuid, where i = ?i and org = "''org''" and e = ?e] by auto
  then show ?thesis by (simp add: consent_demo_input_def)
qed

subsection \<open>The ledger refines a set of permissions\<close>

text \<open>
  The abstract ledger is the set of (organisation, subject, purpose) that are allowed; a grant
  adds one, a withdrawal removes one, and an event the service refuses changes nothing.
\<close>

definition allowed :: "world \<Rightarrow> (ident \<times> string \<times> string) set" where
  "allowed w = {(org, email, purpose). fst (hasActiveConsent org email purpose w) = Inr True}"

definition consent_valid :: "consent_input \<Rightarrow> bool" where
  "consent_valid i \<longleftrightarrow> rc_subjectEmail i \<noteq> [] \<and> CHR ''@'' \<in> set (rc_subjectEmail i) \<and> rc_purpose i \<noteq> [] \<and>
     rc_state i \<in> {''granted'', ''withdrawn''}"

definition ledger_spec :: "ident \<times> consent_input \<Rightarrow> (ident \<times> string \<times> string) set \<Rightarrow>
    (ident \<times> string \<times> string) set" where
  "ledger_spec = (\<lambda>(org, i) A.
     if \<not> consent_valid i then A
     else if rc_state i = ''granted'' then insert (org, rc_subjectEmail i, rc_purpose i) A
     else A - {(org, rc_subjectEmail i, rc_purpose i)})"

text \<open>Every stored event is older than the next reading of a clock that never stands still.\<close>

definition ledger_inv :: "world \<Rightarrow> bool" where
  "ledger_inv w \<longleftrightarrow> uuid_ok w_consents w \<and> strict_mono (w_clock w) \<and>
     (\<forall>e \<in> set (rowsT (w_consents w)). ce_recordedAt e < w_clock w (w_ticks w))"

lemma record_consent_refused: "\<not> consent_valid i \<Longrightarrow> snd (record_consent org i w) = w"
  by (auto simp: record_consent_def consent_valid_def includes_char_def bindA_def throwIf_apply)

lemma record_consent_step:
  assumes "ledger_inv w" and "consent_valid i"
  shows "\<exists>ev. rowsT (w_consents (snd (record_consent org i w))) = rowsT (w_consents w) @ [ev] \<and>
    ce_org ev = org \<and> ce_subjectEmail ev = rc_subjectEmail i \<and> ce_purpose ev = rc_purpose i \<and>
    ce_state ev = rc_state i \<and> ce_recordedAt ev = w_clock w (w_ticks w) \<and>
    ledger_inv (snd (record_consent org i w))"
proof -
  let ?w = "snd (record_consent org i w)"
  have uuid: "uuid_ok w_consents w" and clock: "strict_mono (w_clock w)"
    and older: "\<forall>e \<in> set (rowsT (w_consents w)). ce_recordedAt e < w_clock w (w_ticks w)"
    using assms(1) by (simp_all add: ledger_inv_def)
  obtain ev where ev: "w_consents ?w = setT (w_uuid w (w_uuid_n w)) ev (w_consents w)"
      "ce_org ev = org" "ce_subjectEmail ev = rc_subjectEmail i" "ce_purpose ev = rc_purpose i"
      "ce_state ev = rc_state i" "ce_recordedAt ev = w_clock w (w_ticks w)"
      "w_uuid ?w = w_uuid w" "w_uuid_n ?w = Suc (Suc (w_uuid_n w))" "w_clock ?w = w_clock w"
      "w_ticks ?w = Suc (Suc (w_ticks w))"
    using assms(2)
    by (auto simp: consent_valid_def includes_char_def record_consent_def bindA_def throwIf_apply
        consents_create_def nowA_def uuidA_def insert_row_apply audit_record_apply Let_def)
  have rows: "rowsT (w_consents ?w) = rowsT (w_consents w) @ [ev]"
    unfolding ev(1) by (rule rowsT_setT_fresh [OF uuid_ok_next [OF uuid]])
  have "uuid_ok w_consents ?w"
  proof -
    have "w_uuid w n \<noteq> w_uuid w (w_uuid_n w)" if "Suc (w_uuid_n w) < n" for n
      using that uuid by (auto simp: uuid_ok_def dest: injD)
    then show ?thesis
      using uuid by (auto simp: uuid_ok_def ev(1,7,8))
  qed
  moreover have "w_clock w (w_ticks w) < w_clock w (Suc (Suc (w_ticks w)))"
    using clock by (simp add: strict_mono_def)
  then have "\<forall>e \<in> set (rowsT (w_consents ?w)). ce_recordedAt e < w_clock ?w (w_ticks ?w)"
    using older ev(6) unfolding rows ev(9,10) by force
  ultimately have "ledger_inv ?w" using clock ev(9) by (simp add: ledger_inv_def)
  then show ?thesis using rows ev(2-6) by blast
qed

lemma record_consent_refines:
  assumes "ledger_inv w"
  shows "allowed (snd (record_consent org i w)) = ledger_spec (org, i) (allowed w) \<and>
    ledger_inv (snd (record_consent org i w))"
proof (cases "consent_valid i")
  case False
  then show ?thesis using assms by (simp add: record_consent_refused ledger_spec_def)
next
  case True
  obtain ev where ev: "rowsT (w_consents (snd (record_consent org i w))) = rowsT (w_consents w) @ [ev]"
      "ce_org ev = org" "ce_subjectEmail ev = rc_subjectEmail i" "ce_purpose ev = rc_purpose i"
      "ce_state ev = rc_state i" "ce_recordedAt ev = w_clock w (w_ticks w)"
      "ledger_inv (snd (record_consent org i w))"
    using record_consent_step [OF assms True] by blast
  have rows: "consent_rows e p g (snd (record_consent org i w)) = consent_rows e p g w @
      (if e = rc_subjectEmail i \<and> p = rc_purpose i \<and> g = org then [ev] else [])" for e p g
    using ev(1-4) by (simp add: consent_rows_def rows_where_def)
  have "\<forall>x \<in> set (consent_rows e p g w). ce_recordedAt x < ce_recordedAt ev" for e p g
    using assms ev(6) by (simp add: consent_rows_def ledger_inv_def)
  then have current: "current_consent e p g (snd (record_consent org i w))
      = (if e = rc_subjectEmail i \<and> p = rc_purpose i \<and> g = org then Some ev else current_consent e p g w)" for e p g
    using sort_desc_append_newer [of "consent_rows e p g w" ce_recordedAt ev]
    by (auto simp: current_consent_sort rows split: list.splits)
  show ?thesis
    using True ev(5,7)
    by (auto simp: allowed_def ledger_spec_def hasActiveConsent_apply current consent_valid_def)
qed



end
