(* ===== verification/Access_Control.thy ===== *)
theory Access_Control
  imports Repos_Pdpl Audit_Trail
begin

text \<open>
  Who may do what: per-tender grants (\<^verbatim>\<open>pdpl/tender-access.service.ts\<close>), the sensitivity
  matrix (\<^verbatim>\<open>pdpl/sensitivity.ts\<close>), the residency mode and gate
  (\<^verbatim>\<open>pdpl/residency.ts\<close>, \<^verbatim>\<open>pdpl/residency-gate.ts\<close>).
\<close>

subsection \<open>Tender access grants\<close>

datatype access_role = AOwner | AEditor | AReviewer | AViewer

definition access_role_name :: "access_role \<Rightarrow> string" where
  "access_role_name r = (case r of AOwner \<Rightarrow> ''Owner'' | AEditor \<Rightarrow> ''Editor''
     | AReviewer \<Rightarrow> ''Reviewer'' | AViewer \<Rightarrow> ''Viewer'')"

text \<open>
  \<^verbatim>\<open>ROLE_RANK[role]\<close> for a role of the table; a role that is not in it has no rank number
  (the lookup is \<^verbatim>\<open>undefined\<close>, or an inherited member that compares false to any number).
\<close>

definition role_rank :: "string \<Rightarrow> nat option" where
  "role_rank r = (if r = ''Owner'' then Some 4 else if r = ''Editor'' then Some 3
     else if r = ''Reviewer'' then Some 2 else if r = ''Viewer'' then Some 1 else None)"

definition rank_truthy :: "string \<Rightarrow> bool" where
  "rank_truthy r \<longleftrightarrow> role_rank r \<noteq> None \<or> r \<in> set proto_keys"

definition grant_access ::
    "ident \<Rightarrow> ident \<Rightarrow> ident \<Rightarrow> string \<Rightarrow> ident \<Rightarrow> tender_access wact" where
  "grant_access org userId tenderId role grantedBy =
     bindA (throwIf (\<not> rank_truthy role) (BadRequest (''invalid role '' @ role))) (\<lambda>_.
     bindA (access_create \<lparr>cta_org = org, cta_userId = userId, cta_tenderId = tenderId,
       cta_role = role, cta_grantedBy = Some grantedBy\<rparr>) (\<lambda>ta.
     bindA (audit_record
       \<lparr>cae_action = ''tender_access.grant'', cae_entityType = ''TenderAccess'',
        cae_entityId = ta_id ta, cae_userId = Some grantedBy, cae_org = org,
        cae_details = Some (JObj [(''subjectUserId'', JStr userId), (''tenderId'', JStr tenderId),
                                  (''role'', JStr role)])\<rparr>) (\<lambda>_.
     ret ta)))"

definition revoke_access :: "ident \<Rightarrow> ident \<Rightarrow> ident \<Rightarrow> ident \<Rightarrow> bool wact" where
  "revoke_access org userId tenderId revokedBy =
     bindA (access_revoke userId tenderId org) (\<lambda>removed.
     bindA (if removed then
         bindA (audit_record
           \<lparr>cae_action = ''tender_access.revoke'', cae_entityType = ''TenderAccess'',
            cae_entityId = userId @ '':'' @ tenderId, cae_userId = Some revokedBy, cae_org = org,
            cae_details = Some (JObj [(''subjectUserId'', JStr userId),
                                      (''tenderId'', JStr tenderId)])\<rparr>) (\<lambda>_. ret ())
       else ret ()) (\<lambda>_.
     ret removed))"

definition listForTender :: "ident \<Rightarrow> ident \<Rightarrow> tender_access list wact" where
  "listForTender org tenderId = access_findAllForTender tenderId org"

definition listForUser :: "ident \<Rightarrow> ident \<Rightarrow> tender_access list wact" where
  "listForUser org userId = access_findAllForUser userId org"

definition findRole :: "ident \<Rightarrow> ident \<Rightarrow> ident \<Rightarrow> string option wact" where
  "findRole org userId tenderId =
     bindA (access_findByUserAndTender userId tenderId org) (\<lambda>ta. ret (map_option ta_role ta))"

definition rank_at_least :: "string \<Rightarrow> access_role \<Rightarrow> bool" where
  "rank_at_least role minimum =
     (case (role_rank role, role_rank (access_role_name minimum)) of
        (Some a, Some b) \<Rightarrow> b \<le> a | _ \<Rightarrow> False)"

definition hasAtLeast :: "ident \<Rightarrow> ident \<Rightarrow> ident \<Rightarrow> access_role \<Rightarrow> bool wact" where
  "hasAtLeast org userId tenderId minimum =
     bindA (findRole org userId tenderId) (\<lambda>role.
     (case role of
        None \<Rightarrow> ret False
      | Some r \<Rightarrow> if r = [] then ret False else ret (rank_at_least r minimum)))"

definition require_access :: "ident \<Rightarrow> ident \<Rightarrow> ident \<Rightarrow> access_role \<Rightarrow> unit wact" where
  "require_access org userId tenderId minimum =
     bindA (hasAtLeast org userId tenderId minimum) (\<lambda>ok.
       throwIf (\<not> ok) (NotFound ''Tender not found''))"

subsection \<open>Sensitivity of documents\<close>

text \<open>
  \<^verbatim>\<open>READERS_BY_SENSITIVITY[s] ?? READERS_BY_SENSITIVITY.high\<close>; an inherited member is not a
  \<^verbatim>\<open>Set\<close> and its \<^verbatim>\<open>has\<close> call throws.
\<close>

definition readers :: "string \<Rightarrow> user_role list" where
  "readers s = (if s = ''medium'' then [Owner, DocController, BidManager]
     else if s = ''low'' then [Owner, DocController, BidManager, Presales, Finance, Reviewer]
     else [Owner, DocController])"

definition canReadSensitivity :: "user_role \<Rightarrow> string \<Rightarrow> api_error + bool" where
  "canReadSensitivity role s =
     (if s \<in> set proto_keys then Inl (Plain ''allowed.has is not a function'')
      else Inr (role \<in> set (readers s)))"

subsection \<open>Residency\<close>

record residency_config =
  rg_mode :: string
  rg_safeguards :: "string list"

text \<open>The two environment variables, each possibly unset.\<close>

definition readResidencyMode :: "string option \<Rightarrow> string option \<Rightarrow> residency_config" where
  "readResidencyMode residency safeguards =
     (let mode = (if toLowerCase (orElse residency ''ksa'') = ''cross_border''
                  then ''cross_border'' else ''ksa'');
          register = filter (\<lambda>s. s \<noteq> []) (map trim (split_char (CHR '','') (orElse safeguards [])))
      in \<lparr>rg_mode = mode, rg_safeguards = (if mode = ''cross_border'' then register else [])\<rparr>)"

record provider_descriptor =
  pd_name :: string
  pd_jurisdiction :: string
  pd_safeguard :: "string option"

text \<open>
  The gate reads the environment once: \<open>residency_cached\<close> is \<^verbatim>\<open>_config\<close> and the result is
  the configuration in force and the new cache.
\<close>

definition gate_config ::
    "residency_config option \<Rightarrow> string option \<times> string option \<Rightarrow> residency_config \<times> residency_config option" where
  "gate_config residency_cached env =
     (case residency_cached of
        Some c \<Rightarrow> (c, Some c)
      | None \<Rightarrow> let c = readResidencyMode (fst env) (snd env) in (c, Some c))"

definition isAllowed :: "residency_config \<Rightarrow> provider_descriptor \<Rightarrow> string \<Rightarrow> bool" where
  "isAllowed c provider sensitivity =
     (if sensitivity = ''low'' then True
      else if pd_jurisdiction provider = ''ksa'' then True
      else if rg_mode c = ''ksa'' then False
      else (case pd_safeguard provider of
              None \<Rightarrow> False
            | Some s \<Rightarrow> s \<noteq> [] \<and> s \<in> set (rg_safeguards c)))"

definition assertAllowed :: "residency_config \<Rightarrow> provider_descriptor \<Rightarrow> string \<Rightarrow> (world, unit) act" where
  "assertAllowed c provider sensitivity =
     (if isAllowed c provider sensitivity then ret ()
      else throw (Forbidden
        (''residency: '' @ pd_name provider @ '' (jurisdiction='' @ pd_jurisdiction provider @
         '') is not permitted for '' @ sensitivity @ ''-sensitivity data under mode='' @ rg_mode c @
         (if truthyS (pd_safeguard provider)
          then '' (safeguard '' @ the (pd_safeguard provider) @ '' not registered)''
          else '' (no safeguard declared)''))))"

subsection \<open>One grant per person and tender\<close>

definition access_key :: "tender_access \<Rightarrow> ident \<times> ident \<times> ident" where
  "access_key a = (ta_org a, ta_userId a, ta_tenderId a)"

definition access_ok :: "world \<Rightarrow> bool" where
  "access_ok w \<longleftrightarrow> tbl_ok ta_id (w_access w) \<and> uuid_ok w_access w \<and>
     distinct (map access_key (rowsT (w_access w)))"

lemma access_match_key: "access_match u t g a \<longleftrightarrow> access_key a = (g, u, t)"
  by (auto simp: access_match_def access_key_def)

lemma access_for_None_iff:
  "access_for u t g w = None \<longleftrightarrow> (g, u, t) \<notin> access_key ` set (rowsT (w_access w))"
  by (auto simp: access_for_def find_None_iff access_match_key intro: rev_image_eqI)

lemma access_for_Some:
  assumes "access_for u t g w = Some a"
  shows "a \<in> set (rowsT (w_access w))" "access_key a = (g, u, t)"
  using find_rowsT_in [of "access_match u t g" "w_access w" a] assms
  by (simp_all add: access_for_def access_match_key)

lemma frame_access_audit: "runs (frame w_access) (audit_record d)"
  by (intro runs_rules) simp_all

lemma access_ok_frame: "frame w_access w w' \<Longrightarrow> access_ok w \<Longrightarrow> access_ok w'"
  using frame_uuid_ok [of w_access w w'] by (auto simp: access_ok_def frame_def)

lemma grant_rejected:
  assumes "\<not> rank_truthy role \<or> access_for u t g w \<noteq> None"
  shows "\<exists>e. grant_access g u t role b w = (Inl e, w)"
  using assms by (auto simp: grant_access_def bindA_def throwIf_apply access_create_def
      access_findByUserAndTender_def)

lemma grant_apply:
  assumes "rank_truthy role" and "access_for u t g w = None"
  obtains a w' where "grant_access g u t role b w = (Inr a, w')" "ta_role a = role"
    "access_key a = (g, u, t)" "ta_id a = w_uuid w (w_uuid_n w)"
    "w_access w' = setT (w_uuid w (w_uuid_n w)) a (w_access w)"
    "w_uuid w' = w_uuid w" "w_uuid_n w' = Suc (Suc (w_uuid_n w))"
  using assms by (simp add: grant_access_def bindA_def access_create_def access_key_def
      access_findByUserAndTender_def nowA_def uuidA_def insert_row_apply audit_record_apply Let_def)

lemma uuid_ok_added:
  assumes "uuid_ok get w" "get w' = setT (w_uuid w (w_uuid_n w)) r (get w)"
    "w_uuid w' = w_uuid w" "w_uuid_n w' = Suc (Suc (w_uuid_n w))"
  shows "uuid_ok get w'"
  using row_step_uuid_ok [OF row_added [of "\<lambda>_. True" r get w' w "\<lambda>_ _. False"] assms(1)] assms(2-4)
  by simp

lemma grant_keeps_ok:
  assumes "access_ok w"
  shows "access_ok (snd (grant_access g u t role b w))"
proof (cases "\<not> rank_truthy role \<or> access_for u t g w \<noteq> None")
  case True
  from grant_rejected [OF this, of b] show ?thesis using assms by auto
next
  case False
  then obtain a w' where g: "grant_access g u t role b w = (Inr a, w')"
    "access_key a = (g, u, t)" "ta_id a = w_uuid w (w_uuid_n w)"
    "w_access w' = setT (w_uuid w (w_uuid_n w)) a (w_access w)"
    "w_uuid w' = w_uuid w" "w_uuid_n w' = Suc (Suc (w_uuid_n w))"
    using grant_apply by metis
  have "rowsT (w_access w') = rowsT (w_access w) @ [a]"
    using assms g(4) uuid_ok_next rowsT_setT_fresh unfolding access_ok_def by metis
  moreover have "(g, u, t) \<notin> access_key ` set (rowsT (w_access w))"
    using False access_for_None_iff by blast
  moreover have "uuid_ok w_access w'"
    using uuid_ok_added [OF _ g(4-6)] assms by (simp add: access_ok_def)
  ultimately show ?thesis
    using assms g by (simp add: access_ok_def tbl_ok_setT)
qed

lemma revoke_none:
  "access_for u t g w = None \<Longrightarrow> revoke_access g u t b w = (Inr False, w)"
  by (simp add: revoke_access_def bindA_def access_revoke_def access_findByUserAndTender_def)

lemma revoke_some:
  assumes "access_ok w" and "access_for u t g w = Some a"
  shows "\<exists>w'. revoke_access g u t b w = (Inr True, w') \<and>
    w_access w' = delT (ta_id a) (w_access w) \<and> uuid_adv w w'"
proof -
  have "getT (w_access w) (ta_id a) = Some a"
    using assms(1) access_for_Some(1) [OF assms(2)] by (simp add: access_ok_def tbl_ok_rowsT)
  then show ?thesis
    using assms(2)
    by (simp add: revoke_access_def bindA_def access_revoke_def access_findByUserAndTender_def
        audit_record_apply Let_def uuid_adv_def)
qed

lemma rowsT_delT_filter: "tbl_ok key t \<Longrightarrow> rowsT (delT k t) = filter (\<lambda>r. key r \<noteq> k) (rowsT t)"
  by (induction t) (auto simp: rowsT_def delT_def tbl_ok_def)

lemma revoke_rows:
  assumes "access_ok w" and "w_access w' = delT (ta_id a) (w_access w)"
    and "a \<in> set (rowsT (w_access w))"
  shows "rowsT (w_access w') = filter (\<lambda>r. ta_id r \<noteq> ta_id a) (rowsT (w_access w))"
    and "access_key a \<notin> access_key ` set (rowsT (w_access w'))"
proof -
  show rows: "rowsT (w_access w') = filter (\<lambda>r. ta_id r \<noteq> ta_id a) (rowsT (w_access w))"
    using assms by (simp add: access_ok_def rowsT_delT_filter [of ta_id])
  show "access_key a \<notin> access_key ` set (rowsT (w_access w'))"
    using assms(1,3) unfolding rows access_ok_def distinct_map inj_on_def by auto
qed

lemma revoke_keeps_ok:
  assumes "access_ok w"
  shows "access_ok (snd (revoke_access g u t b w))"
proof (cases "access_for u t g w")
  case None
  then show ?thesis using assms by (simp add: revoke_none)
next
  case (Some a)
  obtain w' where w': "revoke_access g u t b w = (Inr True, w')"
    "w_access w' = delT (ta_id a) (w_access w)" "uuid_adv w w'"
    using revoke_some [OF assms Some] by blast
  have "uuid_ok w_access w'"
    using assms w'(2,3) by (auto simp: access_ok_def uuid_ok_def uuid_adv_def)
  moreover have "distinct (map access_key (rowsT (w_access w')))"
    using revoke_rows(1) [OF assms w'(2) access_for_Some(1) [OF Some]] assms
    by (simp add: access_ok_def distinct_map_filter)
  ultimately show ?thesis
    using assms w' by (simp add: access_ok_def tbl_ok_delT)
qed

text \<open>Grants and revocations by anybody, interleaved with anything that leaves the grants alone.\<close>

inductive access_reachable :: "world \<Rightarrow> bool" where
  "w_access w = [] \<Longrightarrow> inj (w_uuid w) \<Longrightarrow> access_reachable w"
| "access_reachable w \<Longrightarrow> access_reachable (snd (grant_access g u t role b w))"
| "access_reachable w \<Longrightarrow> access_reachable (snd (revoke_access g u t b w))"
| "access_reachable w \<Longrightarrow> frame w_access w w' \<Longrightarrow> access_reachable w'"

lemma access_reachable_ok: "access_reachable w \<Longrightarrow> access_ok w"
proof (induction rule: access_reachable.induct)
  case (1 w)
  then show ?case by (simp add: access_ok_def uuid_ok_def keysT_def rowsT_def)
qed (simp_all add: grant_keeps_ok revoke_keeps_ok access_ok_frame)

subsection \<open>Properties\<close>

text \<open>
  C22: in every reachable state a person holds at most one grant per tender and organisation.
\<close>

theorem access_grant_unique:
  assumes "access_reachable w" and "a \<in> set (rowsT (w_access w))" and "b \<in> set (rowsT (w_access w))"
    and "ta_org a = ta_org b" and "ta_userId a = ta_userId b" and "ta_tenderId a = ta_tenderId b"
  shows "a = b"
  using access_reachable_ok [OF assms(1)] assms(2-)
  by (auto simp: access_ok_def distinct_map access_key_def inj_on_def)

definition access_demo :: world where
  "access_demo = snd (grant_access ''org'' ''bob'' ''t1'' ''Editor'' ''alice'' world0)"

lemma access_demo_reachable: "access_reachable access_demo"
proof -
  have "access_reachable world0"
    by (rule access_reachable.intros(1) [OF _ world0_uuid_inj]) (simp add: world0_def)
  then show ?thesis unfolding access_demo_def by (rule access_reachable.intros(2))
qed

theorem access_grant_unique_witness:
  "\<exists>a. set (rowsT (w_access access_demo)) = {a}"
proof -
  have "length (rowsT (w_access access_demo)) = 1" by code_simp
  then have "hd (rowsT (w_access access_demo)) \<in> set (rowsT (w_access access_demo))"
    by (cases "rowsT (w_access access_demo)") auto
  moreover have "list_all (\<lambda>a. ta_org a = ''org'' \<and> ta_userId a = ''bob'' \<and> ta_tenderId a = ''t1'')
      (rowsT (w_access access_demo))"
    by code_simp
  ultimately have "a = hd (rowsT (w_access access_demo))" if "a \<in> set (rowsT (w_access access_demo))" for a
    using access_grant_unique [OF access_demo_reachable that] that by (simp add: list_all_iff)
  then show ?thesis
    using \<open>hd _ \<in> _\<close> by blast
qed

text \<open>
  a revocation takes effect at once: whatever was granted before, right after
  \<open>revoke\<close> the person has no role on the tender, \<open>require\<close> answers 404 for every
  minimum, and the answer says whether there was a grant to remove.
\<close>

theorem revoke_takes_effect:
  assumes "access_reachable w"
  shows "\<exists>w'. revoke_access g u t b w = (Inr (access_for u t g w \<noteq> None), w')
     \<and> findRole g u t w' = (Inr None, w')
     \<and> require_access g u t m w' = (Inl (NotFound ''Tender not found''), w')"
proof -
  have "\<exists>w'. revoke_access g u t b w = (Inr (access_for u t g w \<noteq> None), w')
      \<and> access_for u t g w' = None"
  proof (cases "access_for u t g w")
    case None
    then show ?thesis by (simp add: revoke_none)
  next
    case (Some a)
    have ok: "access_ok w" using access_reachable_ok [OF assms] .
    from revoke_some [OF ok Some, of b] obtain w' where
      w': "revoke_access g u t b w = (Inr True, w')" "w_access w' = delT (ta_id a) (w_access w)"
      by blast
    have "access_for u t g w' = None"
      using revoke_rows(2) [OF ok w'(2) access_for_Some(1) [OF Some]] access_for_Some(2) [OF Some]
      by (simp add: access_for_None_iff)
    then show ?thesis using w'(1) Some by simp
  qed
  then show ?thesis
    by (auto simp: findRole_def require_access_def hasAtLeast_def bindA_def
        access_findByUserAndTender_def)
qed

theorem revoke_takes_effect_witness:
  "\<exists>w'. revoke_access ''org'' ''bob'' ''t1'' ''alice'' access_demo
       = (Inr (access_for ''bob'' ''t1'' ''org'' access_demo \<noteq> None), w')
     \<and> require_access ''org'' ''bob'' ''t1'' AViewer w' = (Inl (NotFound ''Tender not found''), w')"
  using revoke_takes_effect [OF access_demo_reachable] by blast

text \<open>
  The residency gate lets data go to a provider exactly when the data is of low
  sensitivity, the provider processes in the Kingdom, or the deployment opted into
  cross-border mode and lists the provider's own safeguard in the register.
\<close>

theorem residency_gate_iff:
  "isAllowed (readResidencyMode residency safeguards) p sensitivity \<longleftrightarrow>
     sensitivity = ''low'' \<or> pd_jurisdiction p = ''ksa'' \<or>
     ((\<exists>r. residency = Some r \<and> toLowerCase r = ''cross_border'') \<and>
      (\<exists>s. pd_safeguard p = Some s \<and> s \<noteq> [] \<and>
           s \<in> trim ` set (split_char (CHR '','') (orElse safeguards []))))"
proof -
  have mode: "toLowerCase (orElse residency ''ksa'') = ''cross_border'' \<longleftrightarrow>
      (\<exists>r. residency = Some r \<and> toLowerCase r = ''cross_border'')"
  proof (cases residency)
    case None
    have "toLowerCase ''ksa'' = ''ksa''" by code_simp
    then show ?thesis using None by simp
  qed simp
  show ?thesis
    by (cases "\<exists>r. residency = Some r \<and> toLowerCase r = ''cross_border''")
       (auto simp: isAllowed_def readResidencyMode_def Let_def mode split: option.splits)
qed

text \<open>
  Only the owner and the document controller read a document whose sensitivity is
  neither low nor medium, unknown labels included; the bid manager joins them for medium, and
  everybody reads low. A label that happens to name a member of \<^verbatim>\<open>Object.prototype\<close>
  answers nobody: the lookup throws.
\<close>

theorem sensitivity_readers:
  "canReadSensitivity role s =
     (if s = ''low'' then Inr True
      else if s = ''medium'' then Inr (role \<in> {Owner, DocController, BidManager})
      else if s \<in> set proto_keys then Inl (Plain ''allowed.has is not a function'')
      else Inr (role \<in> {Owner, DocController}))"
proof -
  have "''low'' \<notin> set proto_keys" "''medium'' \<notin> set proto_keys"
    by (simp_all add: proto_keys_def)
  then show ?thesis
    by (cases role) (auto simp: canReadSensitivity_def readers_def)
qed

end
