(* ===== verification/Notifications.thy ===== *)
theory Notifications
  imports Repos_Pdpl Audit_Trail
begin

text \<open>
  Multi-channel notifications (\<^verbatim>\<open>providers/notifications/notification-dispatcher.service.ts\<close>).
  The drivers (SMTP, Slack, WhatsApp, ...) are parameters: a driver is its name, its channel and
  a send method that may throw and may change the world.
\<close>

record message =
  ms_org :: ident
  ms_to :: string
  ms_subject :: "string option"
  ms_body :: string
  ms_payload :: "json option"

record sent =
  st_channel :: string
  st_to :: string
  st_externalId :: "string option"
  st_sentAt :: time

record driver =
  dv_name :: string
  dv_channel :: string
  dv_send :: "message \<Rightarrow> sent wact"

text \<open>The constructor: one driver per channel, a later one overrides.\<close>

definition byChannel :: "driver list \<Rightarrow> (string \<times> driver) list" where
  "byChannel drivers = fold (\<lambda>d m. AList.update (dv_channel d) d m) drivers []"

definition availableChannels :: "driver list \<Rightarrow> string list" where
  "availableChannels drivers = map fst (byChannel drivers)"

definition dispatch_send :: "driver list \<Rightarrow> string \<Rightarrow> message \<Rightarrow> sent wact" where
  "dispatch_send drivers channel m =
     (case map_of (byChannel drivers) channel of
        None \<Rightarrow> throw (Plain (''no notification driver registered for channel='' @ channel @
          ''; available: '' @
          (if availableChannels drivers = [] then ''(none)''
           else join '','' (availableChannels drivers))))
      | Some d \<Rightarrow> dv_send d m)"

text \<open>\<^verbatim>\<open>err.message\<close>; the response exceptions carry theirs in the constructor.\<close>

definition error_message :: "api_error \<Rightarrow> string" where
  "error_message e = (case e of BadRequest s \<Rightarrow> s | Unauthorized s \<Rightarrow> s | Forbidden s \<Rightarrow> s
     | NotFound s \<Rightarrow> s | Plain s \<Rightarrow> s | ServiceUnavailable s \<Rightarrow> s
     | Conflict _ \<Rightarrow> ''Http Exception'' | TooManyRequests _ \<Rightarrow> ''Budget Exceeded Exception'')"

text \<open>
  The fan-out starts the sends in channel order and waits for all of them; here they run one
  after the other. The outcome of a channel is an error text or what the driver answered.
\<close>

fun fanout :: "driver list \<Rightarrow> string list \<Rightarrow> message \<Rightarrow> (string \<times> (string + sent)) list wact" where
  "fanout drivers [] m = ret []"
| "fanout drivers (ch # chs) m =
     bindA (tryA (bindA (dispatch_send drivers ch m) (\<lambda>s. ret (ch, Inr s)))
       (\<lambda>e. ret (ch, Inl (error_message e)))) (\<lambda>r.
     bindA (fanout drivers chs m) (\<lambda>rs. ret (r # rs)))"

lemma byChannel_map_of:
  "map_of (byChannel drivers) ch
     = (case filter (\<lambda>d. dv_channel d = ch) (rev drivers) of [] \<Rightarrow> None | d # _ \<Rightarrow> Some d)"
proof -
  have "map_of (fold (\<lambda>d m. AList.update (dv_channel d) d m) ds base) ch
      = (case filter (\<lambda>d. dv_channel d = ch) (rev ds) of [] \<Rightarrow> map_of base ch | d # _ \<Rightarrow> Some d)"
    for ds base
    by (induction ds arbitrary: base) (auto simp: update_conv' split: list.splits)
  from this [of drivers "[]"] show ?thesis by (simp add: byChannel_def split: list.splits)
qed

text \<open>
  a fan-out always answers, with one outcome per requested channel in the order requested;
  a channel without a driver gets an error entry and does not stop the others.
\<close>

theorem fanout_reports_every_channel:
  "\<exists>rs w'. fanout drivers chs m w = (Inr rs, w') \<and> map fst rs = chs \<and>
     list_all (\<lambda>(ch, r). ch \<in> set (availableChannels drivers) \<or> (\<exists>e. r = Inl e)) rs"
proof (induction chs arbitrary: w)
  case Nil
  then show ?case by simp
next
  case (Cons ch chs)
  obtain r w1 where "tryA (bindA (dispatch_send drivers ch m) (\<lambda>s. ret (ch, Inr s)))
      (\<lambda>e. ret (ch, Inl (error_message e))) w = (Inr (ch, r), w1)"
    "ch \<in> set (availableChannels drivers) \<or> (\<exists>e. r = Inl e)"
  proof (cases "map_of (byChannel drivers) ch")
    case None
    then show ?thesis using that by (simp add: dispatch_send_def tryA_def bindA_def)
  next
    case (Some d)
    then have "ch \<in> set (availableChannels drivers)"
      by (auto simp: availableChannels_def image_iff dest!: map_of_SomeD intro!: bexI)
    then show ?thesis
      using that Some by (cases "dv_send d m w"; cases "fst (dv_send d m w)")
        (auto simp: dispatch_send_def tryA_def bindA_def)
  qed
  then show ?case
    using Cons.IH [of w1] by (auto simp: bindA_def)
qed

end
