(* ===== verification/Incident.thy ===== *)
theory Incident
  imports Notifications
begin

text \<open>
  Incidents and the authority notification: the in-memory register
  (\<^verbatim>\<open>pdpl/incident.service.ts\<close>), the DPO contact and the canonical notice
  (\<^verbatim>\<open>pdpl/dpo-contact.service.ts\<close>), and the dispatch
  (\<^verbatim>\<open>pdpl/authority-notification.service.ts\<close>).
\<close>

subsection \<open>The register\<close>

record incident =
  in_id :: string
  in_severity :: string
  in_kind :: string
  in_summary :: string
  in_detectedAt :: time
  in_reportedAt :: "time option"
  in_resolvedAt :: "time option"
  in_status :: string

record register =
  rg_counter :: nat
  rg_events :: "(string \<times> incident) list"

definition create_incident :: "string \<Rightarrow> string \<Rightarrow> string \<Rightarrow> time \<Rightarrow> register \<Rightarrow> incident \<times> register" where
  "create_incident severity kind summary detectedAt s =
     (let n = Suc (rg_counter s);
          inc = \<lparr>in_id = ''inc-'' @ show_nat n, in_severity = severity, in_kind = kind,
                 in_summary = summary, in_detectedAt = detectedAt, in_reportedAt = None,
                 in_resolvedAt = None, in_status = ''detected''\<rparr>
      in (inc, \<lparr>rg_counter = n, rg_events = setT (in_id inc) inc (rg_events s)\<rparr>))"

definition find_incident :: "string \<Rightarrow> register \<Rightarrow> incident option" where
  "find_incident i s = getT (rg_events s) i"

definition report_incident :: "string \<Rightarrow> time \<Rightarrow> (register, incident) act" where
  "report_incident i reportedAt s =
     (case getT (rg_events s) i of
        None \<Rightarrow> (Inl (Plain ''incident not found''), s)
      | Some inc \<Rightarrow> let inc' = inc\<lparr>in_reportedAt := Some reportedAt, in_status := ''reported''\<rparr>
                   in (Inr inc', s\<lparr>rg_events := setT i inc' (rg_events s)\<rparr>))"

definition resolve_incident :: "string \<Rightarrow> time \<Rightarrow> (register, incident) act" where
  "resolve_incident i resolvedAt s =
     (case getT (rg_events s) i of
        None \<Rightarrow> (Inl (Plain ''incident not found''), s)
      | Some inc \<Rightarrow> let inc' = inc\<lparr>in_resolvedAt := Some resolvedAt, in_status := ''resolved''\<rparr>
                   in (Inr inc', s\<lparr>rg_events := setT i inc' (rg_events s)\<rparr>))"

definition severe :: "string \<Rightarrow> bool" where
  "severe s \<longleftrightarrow> s = ''high'' \<or> s = ''critical''"

definition window72 :: int where
  "window72 = 72 * 3600000"

definition requiresAuthorityNotification :: "incident \<Rightarrow> time \<Rightarrow> bool" where
  "requiresAuthorityNotification inc now =
     (if \<not> severe (in_severity inc) then False
      else (case in_reportedAt inc of
              None \<Rightarrow> now - in_detectedAt inc > window72
            | Some r \<Rightarrow> r - in_detectedAt inc > window72))"

subsection \<open>The DPO contact\<close>

record dpo_input =
  di_name :: string
  di_email :: string
  di_phone :: "string option"
  di_authorityEmail :: string
  di_retentionPolicyDays :: "int option"

definition upsert_contact :: "ident \<Rightarrow> dpo_input \<Rightarrow> ident \<Rightarrow> dpo_contact wact" where
  "upsert_contact org d updatedBy =
     bindA (throwIf (trim (di_name d) = [] \<or> \<not> includes_char (di_email d) (CHR ''@''))
       (BadRequest ''name and a valid email are required'')) (\<lambda>_.
     bindA (throwIf (\<not> includes_char (di_authorityEmail d) (CHR ''@''))
       (BadRequest ''authorityEmail (SDAIA) is required'')) (\<lambda>_.
     bindA (dpo_upsert \<lparr>udc_org = org, udc_name = trim (di_name d), udc_email = trim (di_email d),
       udc_phone = map_option trim (di_phone d), udc_authorityEmail = trim (di_authorityEmail d),
       udc_retentionPolicyDays = di_retentionPolicyDays d, udc_updatedBy = Some updatedBy\<rparr>) (\<lambda>row.
     bindA (audit_record
       \<lparr>cae_action = ''dpo_contact.upsert'', cae_entityType = ''DpoContact'',
        cae_entityId = dc_id row, cae_userId = Some updatedBy, cae_org = org,
        cae_details = Some (JObj
          [(''name'', JStr (dc_name row)), (''email'', JStr (dc_email row)),
           (''authorityEmail'', JStr (dc_authorityEmail row)),
           (''retentionPolicyDays'', jint (dc_retentionPolicyDays row))])\<rparr>) (\<lambda>_.
     ret row))))"

definition get_contact :: "ident \<Rightarrow> dpo_contact option wact" where
  "get_contact org = dpo_findByOrg org"

definition require_contact :: "ident \<Rightarrow> dpo_contact wact" where
  "require_contact org =
     bindA (dpo_findByOrg org) (\<lambda>found.
       orThrow found (NotFound ''DpoContact missing -- upsert /dpo-contact first''))"

text \<open>\<^verbatim>\<open>toUpperCase\<close> of the ASCII severities.\<close>

definition upper_char :: "char \<Rightarrow> char" where
  "upper_char c = (let n = of_char c :: nat in if 97 \<le> n \<and> n \<le> 122 then char_of (n - 32) else c)"

record dispatch_record =
  nr_delivered :: bool
  nr_to :: string
  nr_cc :: string
  nr_subject :: string
  nr_body :: string

definition nl :: string where
  "nl = [CHR 0x0A]"

definition notice :: "dpo_contact \<Rightarrow> incident \<Rightarrow> dispatch_record" where
  "notice dpo inc =
     \<lparr>nr_delivered = False, nr_to = dc_authorityEmail dpo, nr_cc = dc_email dpo,
      nr_subject = ''[PDPL '' @ map upper_char (in_severity inc) @ ''] Incident '' @ in_id inc @
        '' -- '' @ in_kind inc,
      nr_body = ''Incident ID: '' @ in_id inc @ nl @ ''Severity: '' @ in_severity inc @ nl @
        ''Kind: '' @ in_kind inc @ nl @ ''Detected at: '' @ iso_datetime (in_detectedAt inc) @ nl @
        ''Status: '' @ in_status inc @ nl @ ''Summary: '' @ in_summary inc @ nl @ nl @
        ''This notification is issued under PDPL Art. 20 (72h breach'' @ nl @
        ''notification). Reply-to: '' @ dc_email dpo\<rparr>"

definition notifyAuthority :: "ident \<Rightarrow> incident \<Rightarrow> ident \<Rightarrow> dispatch_record wact" where
  "notifyAuthority org inc triggeredBy =
     bindA nowA (\<lambda>now.
     bindA (throwIf (\<not> requiresAuthorityNotification inc now)
       (BadRequest ''incident does not require authority notification (severity/timing)'')) (\<lambda>_.
     bindA (require_contact org) (\<lambda>dpo.
     bindA (audit_record
       \<lparr>cae_action = ''incident.authority_notified'', cae_entityType = ''Incident'',
        cae_entityId = in_id inc, cae_userId = Some triggeredBy, cae_org = org,
        cae_details = Some (JObj
          [(''to'', JStr (nr_to (notice dpo inc))), (''cc'', JStr (nr_cc (notice dpo inc))),
           (''subject'', JStr (nr_subject (notice dpo inc))),
           (''severity'', JStr (in_severity inc)), (''kind'', JStr (in_kind inc)),
           (''detectedAt'', JStr (iso_datetime (in_detectedAt inc)))])\<rparr>) (\<lambda>_.
     ret (notice dpo inc)))))"

subsection \<open>Dispatch\<close>

record authority_result =
  ar_payload :: dispatch_record
  ar_delivered :: bool
  ar_externalId :: "string option"
  ar_error :: "string option"
  ar_driver :: string

definition outcome_audit :: "string \<Rightarrow> incident \<Rightarrow> ident \<Rightarrow> ident \<Rightarrow> json \<Rightarrow> audit_event wact" where
  "outcome_audit action inc org triggeredBy details =
     audit_record
       \<lparr>cae_action = action, cae_entityType = ''Incident'', cae_entityId = in_id inc,
        cae_userId = Some triggeredBy, cae_org = org, cae_details = Some details\<rparr>"

definition notifyForIncident ::
    "driver list \<Rightarrow> register \<Rightarrow> ident \<Rightarrow> string \<Rightarrow> ident \<Rightarrow> authority_result wact" where
  "notifyForIncident drivers incidents org incidentId triggeredBy =
     bindA (orThrow (find_incident incidentId incidents) (NotFound ''incident not found'')) (\<lambda>inc.
     bindA nowA (\<lambda>now.
     bindA (throwIf (\<not> requiresAuthorityNotification inc now)
       (BadRequest ''incident does not require authority notification (severity/timing)'')) (\<lambda>_.
     bindA (notifyAuthority org inc triggeredBy) (\<lambda>payload.
     if ''email'' \<notin> set (availableChannels drivers)
     then ret \<lparr>ar_payload = payload, ar_delivered = nr_delivered payload, ar_externalId = None,
               ar_error = None, ar_driver = ''none''\<rparr>
     else
       tryA
         (bindA (dispatch_send drivers ''email''
            \<lparr>ms_org = org, ms_to = nr_to payload, ms_subject = Some (nr_subject payload),
             ms_body = nr_body payload,
             ms_payload = (if nr_cc payload = [] then None
                           else Some (JObj [(''cc'', JStr (nr_cc payload))]))\<rparr>) (\<lambda>s.
          bindA (outcome_audit ''incident.authority_notified.dispatched'' inc org triggeredBy
            (JObj [(''to'', JStr (nr_to payload)), (''driver'', JStr ''smtp''),
                   (''externalId'', jopt (st_externalId s))])) (\<lambda>_.
          ret \<lparr>ar_payload = payload, ar_delivered = True, ar_externalId = st_externalId s,
               ar_error = None, ar_driver = ''smtp''\<rparr>)))
         (\<lambda>e.
          bindA (outcome_audit ''incident.authority_notified.dispatch_failed'' inc org triggeredBy
            (JObj [(''to'', JStr (nr_to payload)), (''error'', JStr (error_message e))])) (\<lambda>_.
          ret \<lparr>ar_payload = payload, ar_delivered = False, ar_externalId = None,
               ar_error = Some (error_message e), ar_driver = ''smtp''\<rparr>))))))"

subsection \<open>Properties\<close>

lemma requires_later:
  "requiresAuthorityNotification inc now \<Longrightarrow> now \<le> later \<Longrightarrow> requiresAuthorityNotification inc later"
  by (auto simp: requiresAuthorityNotification_def split: if_splits option.splits)

text \<open>
  The authority cannot be told in time: for a severe incident that is not reported yet,
  every call of the notification within 72 hours of the detection is refused with a 400 and
  leaves no audit event; only once the window has passed does the service accept it.
\<close>

theorem authority_notice_refused_within_window:
  assumes "find_incident i incidents = Some inc" and "in_reportedAt inc = None"
    and "w_clock w (w_ticks w) \<le> in_detectedAt inc + 72 * 3600000"
  shows "notifyForIncident drivers incidents org i by w
     = (Inl (BadRequest ''incident does not require authority notification (severity/timing)''),
        w\<lparr>w_ticks := Suc (w_ticks w)\<rparr>)"
  using assms
  by (simp add: notifyForIncident_def bindA_def nowA_def requiresAuthorityNotification_def
      window72_def)

definition incident_demo :: register where
  "incident_demo = snd (create_incident ''critical'' ''leak'' ''mail sent to wrong tenant'' 0
     \<lparr>rg_counter = 0, rg_events = []\<rparr>)"

theorem authority_notice_refused_within_window_witness:
  "notifyForIncident [] incident_demo ''org'' ''inc-1'' ''alice'' world0
     = (Inl (BadRequest ''incident does not require authority notification (severity/timing)''),
        world0\<lparr>w_ticks := Suc (w_ticks world0)\<rparr>)"
proof (rule authority_notice_refused_within_window)
  have "find_incident ''inc-1'' incident_demo \<noteq> None" by code_simp
  then show "find_incident ''inc-1'' incident_demo
      = Some (the (find_incident ''inc-1'' incident_demo))" by auto
qed code_simp+


definition late_demo :: world where
  "late_demo = (snd (upsert_contact ''org'' \<lparr>di_name = ''Dana'', di_email = ''dpo@x'',
     di_phone = None, di_authorityEmail = ''sdaia@x'', di_retentionPolicyDays = None\<rparr> ''alice''
     world0))\<lparr>w_clock := \<lambda>n. 300000000 + int n\<rparr>"


end
