(* ===== verification/Training.thy ===== *)
theory Training
  imports Repos_Pdpl
begin

text \<open>
  DPO training records (\<^verbatim>\<open>pdpl/dpo-training.service.ts\<close>): validation, the expiry status of
  a record, listing with a filter, and the dashboard counts.
\<close>

datatype expiry_status = NoExpiry | Active | Expiring | Expired

record training_with_status =
  ts_row :: training_record
  ts_expiryStatus :: expiry_status
  ts_daysUntilExpiry :: "int option"

definition expiring_window_days :: int where
  "expiring_window_days = 60"

text \<open>\<^verbatim>\<open>Math.ceil(diff / 86_400_000)\<close> on an integral number of milliseconds.\<close>

definition ceil_days :: "int \<Rightarrow> int" where
  "ceil_days diff = - ((- diff) div day_ms)"

definition enrich :: "training_record \<Rightarrow> time \<Rightarrow> training_with_status" where
  "enrich row now =
     (case dt_validUntil row of
        None \<Rightarrow> \<lparr>ts_row = row, ts_expiryStatus = NoExpiry, ts_daysUntilExpiry = None\<rparr>
      | Some u \<Rightarrow>
          let diff = u - now; days = ceil_days diff in
          \<lparr>ts_row = row,
           ts_expiryStatus = (if diff < 0 then Expired
                              else if days \<le> expiring_window_days then Expiring else Active),
           ts_daysUntilExpiry = Some days\<rparr>)"

text \<open>The filter: no status and \<^verbatim>\<open>'all'\<close> are \<open>None\<close>.\<close>

definition training_list :: "ident \<Rightarrow> expiry_status option \<Rightarrow> time option \<Rightarrow> training_with_status list wact" where
  "training_list org status t =
     bindA (nowOr t) (\<lambda>now.
     bindA (training_findAll org) (\<lambda>rows.
     let enriched = map (\<lambda>r. enrich r now) rows in
     ret (case status of None \<Rightarrow> enriched | Some s \<Rightarrow> filter (\<lambda>r. ts_expiryStatus r = s) enriched)))"

definition training_get :: "ident \<Rightarrow> ident \<Rightarrow> time option \<Rightarrow> training_with_status wact" where
  "training_get i org t =
     bindA (nowOr t) (\<lambda>now.
     bindA (training_findById i org) (\<lambda>row.
     bindA (orThrow row (NotFound ''DpoTrainingRecord not found'')) (\<lambda>r.
     ret (enrich r now))))"

record training_input =
  ti_userId :: "ident option"
  ti_subjectName :: string
  ti_subjectEmail :: string
  ti_topic :: string
  ti_provider :: "string option"
  ti_completedAt :: time
  ti_validUntil :: "time option"
  ti_evidenceRef :: "string option"
  ti_evidenceDocumentId :: "ident option"
  ti_notes :: "string option"

text \<open>\<^verbatim>\<open>if (a && a.getTime() < b.getTime())\<close>\<close>

definition ends_before :: "time option \<Rightarrow> time \<Rightarrow> bool" where
  "ends_before u c = (case u of None \<Rightarrow> False | Some t \<Rightarrow> t < c)"

definition validate_training :: "training_input \<Rightarrow> unit wact" where
  "validate_training i =
     bindA (throwIf (trim (ti_subjectName i) = []) (BadRequest ''subjectName required'')) (\<lambda>_.
     bindA (throwIf (\<not> includes_char (ti_subjectEmail i) (CHR ''@''))
       (BadRequest ''subjectEmail must be a valid email'')) (\<lambda>_.
     bindA (throwIf (trim (ti_topic i) = []) (BadRequest ''topic required'')) (\<lambda>_.
     throwIf (ends_before (ti_validUntil i) (ti_completedAt i))
       (BadRequest ''validUntil cannot be earlier than completedAt''))))"

text \<open>\<^verbatim>\<open>s?.trim() || null\<close>\<close>

definition trim_or_null :: "string option \<Rightarrow> string option" where
  "trim_or_null s = (case s of None \<Rightarrow> None | Some x \<Rightarrow> if trim x = [] then None else Some (trim x))"

definition training_service_create :: "ident \<Rightarrow> ident \<Rightarrow> training_input \<Rightarrow> training_with_status wact" where
  "training_service_create org recordedBy i =
     bindA (validate_training i) (\<lambda>_.
     bindA (training_create
       \<lparr>cdt_org = org, cdt_userId = ti_userId i, cdt_subjectName = trim (ti_subjectName i),
        cdt_subjectEmail = toLowerCase (trim (ti_subjectEmail i)), cdt_topic = trim (ti_topic i),
        cdt_provider = trim_or_null (ti_provider i), cdt_completedAt = ti_completedAt i,
        cdt_validUntil = ti_validUntil i, cdt_evidenceRef = trim_or_null (ti_evidenceRef i),
        cdt_evidenceDocumentId = ti_evidenceDocumentId i, cdt_notes = trim_or_null (ti_notes i),
        cdt_recordedBy = recordedBy\<rparr>) (\<lambda>row.
     bindA nowA (\<lambda>now. ret (enrich row now))))"

definition blank_patch :: "string option \<Rightarrow> bool" where
  "blank_patch s = (case s of None \<Rightarrow> False | Some x \<Rightarrow> trim x = [])"

definition validate_training_patch :: "update_training \<Rightarrow> unit wact" where
  "validate_training_patch d =
     bindA (throwIf (blank_patch (udt_subjectName d)) (BadRequest ''subjectName cannot be blank'')) (\<lambda>_.
     bindA (throwIf (case udt_subjectEmail d of None \<Rightarrow> False
                     | Some e \<Rightarrow> \<not> includes_char e (CHR ''@''))
       (BadRequest ''subjectEmail must be a valid email'')) (\<lambda>_.
     bindA (throwIf (blank_patch (udt_topic d)) (BadRequest ''topic cannot be blank'')) (\<lambda>_.
     throwIf (case (udt_completedAt d, udt_validUntil d) of
                (Some c, Some (Some u)) \<Rightarrow> u < c | _ \<Rightarrow> False)
       (BadRequest ''validUntil cannot be earlier than completedAt''))))"

definition clean_training_patch :: "update_training \<Rightarrow> update_training" where
  "clean_training_patch d =
     d\<lparr>udt_subjectName := map_option trim (udt_subjectName d),
       udt_subjectEmail := map_option (\<lambda>e. toLowerCase (trim e)) (udt_subjectEmail d),
       udt_topic := map_option trim (udt_topic d),
       udt_provider := map_option trim_or_null (udt_provider d),
       udt_evidenceRef := map_option trim_or_null (udt_evidenceRef d),
       udt_notes := map_option trim_or_null (udt_notes d)\<rparr>"

definition training_service_update :: "ident \<Rightarrow> ident \<Rightarrow> update_training \<Rightarrow> training_with_status wact" where
  "training_service_update i org d =
     bindA (training_get i org None) (\<lambda>_.
     bindA (validate_training_patch d) (\<lambda>_.
     bindA (training_update (clean_training_patch d) i org) (\<lambda>row.
     bindA nowA (\<lambda>now. ret (enrich row now)))))"

definition training_service_remove :: "ident \<Rightarrow> ident \<Rightarrow> unit wact" where
  "training_service_remove i org =
     bindA (training_get i org None) (\<lambda>_.
     bindA (training_delete i org) (\<lambda>_. ret ()))"

record training_summary =
  sm_total :: nat
  sm_active :: nat
  sm_expiring :: nat
  sm_expired :: nat
  sm_noExpiry :: nat

fun summary_loop :: "training_with_status list \<Rightarrow> training_summary \<Rightarrow> training_summary" where
  "summary_loop [] out = out"
| "summary_loop (r # rs) out = summary_loop rs
     (if ts_expiryStatus r = Active then out\<lparr>sm_active := sm_active out + 1\<rparr>
      else if ts_expiryStatus r = Expiring then out\<lparr>sm_expiring := sm_expiring out + 1\<rparr>
      else if ts_expiryStatus r = Expired then out\<lparr>sm_expired := sm_expired out + 1\<rparr>
      else out\<lparr>sm_noExpiry := sm_noExpiry out + 1\<rparr>)"

definition training_summarize :: "ident \<Rightarrow> time option \<Rightarrow> training_summary wact" where
  "training_summarize org t =
     bindA (nowOr t) (\<lambda>now.
     bindA (training_list org None (Some now)) (\<lambda>rows.
     ret (summary_loop rows \<lparr>sm_total = length rows, sm_active = 0, sm_expiring = 0,
       sm_expired = 0, sm_noExpiry = 0\<rparr>)))"

subsection \<open>Status and counts\<close>

lemma ceil_days_le: "ceil_days diff \<le> n \<longleftrightarrow> diff \<le> n * day_ms"
  by (simp add: ceil_days_def day_ms_def) linarith

text \<open>
  The status of a record follows its last valid day: expired strictly after it, expiring
  during the sixty days up to and including it, active before that, no-expiry without one.
\<close>

theorem training_status_of:
  "ts_expiryStatus (enrich row now) =
     (case dt_validUntil row of
        None \<Rightarrow> NoExpiry
      | Some u \<Rightarrow> if u < now then Expired
                 else if u \<le> now + 60 * 86400000 then Expiring else Active)"
  by (auto simp: enrich_def Let_def ceil_days_le expiring_window_days_def day_ms_def
      split: option.splits)

definition count_status :: "expiry_status \<Rightarrow> training_with_status list \<Rightarrow> nat" where
  "count_status s rows = length (filter (\<lambda>r. ts_expiryStatus r = s) rows)"

lemma summary_loop_counts:
  "summary_loop rows out = out\<lparr>
     sm_active := sm_active out + count_status Active rows,
     sm_expiring := sm_expiring out + count_status Expiring rows,
     sm_expired := sm_expired out + count_status Expired rows,
     sm_noExpiry := sm_noExpiry out + count_status NoExpiry rows\<rparr>"
proof (induction rows arbitrary: out)
  case (Cons r rows)
  then show ?case
    by (cases "ts_expiryStatus r") (simp_all add: count_status_def)
qed (simp add: count_status_def)

lemma count_status_total:
  "count_status Active rows + count_status Expiring rows + count_status Expired rows +
     count_status NoExpiry rows = length rows"
proof (induction rows)
  case (Cons r rows)
  then show ?case by (cases "ts_expiryStatus r") (simp_all add: count_status_def)
qed (simp add: count_status_def)

text \<open>
  The dashboard agrees with the lists: at any one time each count is the length of the
  list filtered by that status, and the four counts add up to the total.
\<close>

theorem training_summary_agrees_with_lists:
  "\<exists>s. training_summarize org (Some now) w = (Inr s, w)
     \<and> (\<exists>xs. training_list org (Some Active) (Some now) w = (Inr xs, w) \<and> sm_active s = length xs)
     \<and> (\<exists>xs. training_list org (Some Expiring) (Some now) w = (Inr xs, w) \<and> sm_expiring s = length xs)
     \<and> (\<exists>xs. training_list org (Some Expired) (Some now) w = (Inr xs, w) \<and> sm_expired s = length xs)
     \<and> (\<exists>xs. training_list org (Some NoExpiry) (Some now) w = (Inr xs, w) \<and> sm_noExpiry s = length xs)
     \<and> (\<exists>xs. training_list org None (Some now) w = (Inr xs, w) \<and> sm_total s = length xs)
     \<and> sm_active s + sm_expiring s + sm_expired s + sm_noExpiry s = sm_total s"
  using count_status_total [of "map (\<lambda>r. enrich r now) (training_of org w)"]
  by (simp add: training_summarize_def training_list_def nowOr_def bindA_def training_findAll_def
      summary_loop_counts Let_def count_status_def)

text \<open>
  a record is created only with a valid period, but an update can break it: changing only
  the end of validity of a stored record to a date before its completion is accepted, as the
  patch is checked against itself and never against the stored row.
\<close>

theorem training_update_skips_stored_period:
  assumes "training_view i org w = Some r"
  shows "\<exists>res w'. training_service_update i org
       \<lparr>udt_subjectName = None, udt_subjectEmail = None, udt_topic = None, udt_provider = None,
        udt_completedAt = None, udt_validUntil = Some (Some (dt_completedAt r - 1)),
        udt_evidenceRef = None, udt_evidenceDocumentId = None, udt_notes = None\<rparr> w = (Inr res, w')
     \<and> ends_before (dt_validUntil (ts_row res)) (dt_completedAt (ts_row res))
     \<and> training_view i org w' = Some (ts_row res)"
proof -
  have "dt_org r = org"
    using training.view_org [OF assms] .
  then show ?thesis
    using assms
    by (simp add: training_service_update_def training_get_def nowOr_def bindA_def nowA_def
        training_findById_def validate_training_patch_def blank_patch_def clean_training_patch_def
        training_update_def training_view_def scoped_update_Some scoped_setT dt_patch_def enrich_def
        ends_before_def Let_def)
qed

definition training_demo :: world where
  "training_demo = snd (training_service_create ''org'' ''alice''
     \<lparr>ti_userId = None, ti_subjectName = ''Dana'', ti_subjectEmail = ''d@x'', ti_topic = ''PDPL'',
      ti_provider = None, ti_completedAt = 100, ti_validUntil = Some 200, ti_evidenceRef = None,
      ti_evidenceDocumentId = None, ti_notes = None\<rparr> world0)"

theorem training_update_skips_stored_period_witness:
  "\<exists>r res w'. training_view ''u'' ''org'' training_demo = Some r \<and> dt_validUntil r = Some 200 \<and>
     training_service_update ''u'' ''org''
       \<lparr>udt_subjectName = None, udt_subjectEmail = None, udt_topic = None, udt_provider = None,
        udt_completedAt = None, udt_validUntil = Some (Some (dt_completedAt r - 1)),
        udt_evidenceRef = None, udt_evidenceDocumentId = None, udt_notes = None\<rparr> training_demo
     = (Inr res, w') \<and> ends_before (dt_validUntil (ts_row res)) (dt_completedAt (ts_row res))"
proof -
  let ?r = "the (training_view ''u'' ''org'' training_demo)"
  have "training_view ''u'' ''org'' training_demo \<noteq> None" "dt_validUntil ?r = Some 200"
    by code_simp+
  moreover from this(1) have "training_view ''u'' ''org'' training_demo = Some ?r" by auto
  ultimately show ?thesis
    using training_update_skips_stored_period [of "''u''" "''org''" training_demo ?r] by blast
qed

end
