(* ===== verification/Documents.thy ===== *)
theory Documents
  imports Repos_Core Access_Control
begin

text \<open>
  The services closest to the rows: tenders (\<^verbatim>\<open>tender/tender.service.ts\<close>), client companies
  (\<^verbatim>\<open>client-company/client-company.service.ts\<close>), users (\<^verbatim>\<open>users/users.service.ts\<close>) and the
  document vault (\<^verbatim>\<open>document-vault/document-vault.service.ts\<close>) with its upload and download
  endpoints (\<^verbatim>\<open>document-vault/document-upload.controller.ts\<close>). The object store is a
  parameter; its key layout is \<^verbatim>\<open>buildKey\<close> of the MinIO provider.
\<close>

subsection \<open>Tenders, companies, users\<close>

definition no_tender_change :: update_tender where
  "no_tender_change = \<lparr>utn_title = None, utn_status = None, utn_source = None, utn_sector = None,
     utn_sectorCategory = None, utn_sectorConfidence = None, utn_sectorClassifiedAt = None,
     utn_sectorInputHash = None, utn_sectorModel = None\<rparr>"

definition tender_intake :: "string \<Rightarrow> ident \<Rightarrow> ident \<Rightarrow> string option \<Rightarrow> tender wact" where
  "tender_intake title company org source =
     tenders_create \<lparr>ctn_title = title, ctn_org = org, ctn_company = company,
       ctn_source = Some (orElse source ''manual''), ctn_status = Some ''intake''\<rparr>"

definition tender_list :: "ident \<Rightarrow> tender list wact" where
  "tender_list org = tenders_findAll org"

definition tender_get :: "ident \<Rightarrow> ident \<Rightarrow> tender wact" where
  "tender_get i org =
     bindA (tenders_findById i org) (\<lambda>t. orThrow t (NotFound ''Tender not found''))"

definition tender_updateStatus :: "ident \<Rightarrow> ident \<Rightarrow> string \<Rightarrow> tender wact" where
  "tender_updateStatus i org status = tenders_update (no_tender_change\<lparr>utn_status := Some status\<rparr>) i org"

definition tender_remove :: "ident \<Rightarrow> ident \<Rightarrow> bool wact" where
  "tender_remove i org = tenders_delete i org"

record sector_data =
  sd_sector :: string
  sd_category :: "string option"
  sd_confidence :: "rat option"
  sd_inputHash :: "string option"
  sd_model :: "string option"

definition persistSectorClassification :: "ident \<Rightarrow> ident \<Rightarrow> sector_data \<Rightarrow> tender wact" where
  "persistSectorClassification i org d =
     bindA nowA (\<lambda>t.
       tenders_update (no_tender_change
         \<lparr>utn_sector := Some (Some (sd_sector d)), utn_sectorCategory := Some (sd_category d),
          utn_sectorConfidence := Some (sd_confidence d), utn_sectorClassifiedAt := Some (Some t),
          utn_sectorInputHash := Some (sd_inputHash d), utn_sectorModel := Some (sd_model d)\<rparr>) i org)"

definition sector_row :: "sector_data \<Rightarrow> time \<Rightarrow> time \<Rightarrow> tender \<Rightarrow> tender" where
  "sector_row d t1 t2 r =
     r\<lparr>tn_sector := Some (sd_sector d), tn_sectorCategory := sd_category d,
       tn_sectorConfidence := sd_confidence d, tn_sectorClassifiedAt := Some t1,
       tn_sectorInputHash := sd_inputHash d, tn_sectorModel := sd_model d, tn_updatedAt := t2\<rparr>"

lemma persistSector_Some:
  assumes "tender_view i org w = Some r"
    and "r' = sector_row d (w_clock w (w_ticks w)) (w_clock w (Suc (w_ticks w))) r"
  shows "persistSectorClassification i org d w
    = (Inr r', w\<lparr>w_ticks := Suc (Suc (w_ticks w)), w_tenders := setT i r' (w_tenders w)\<rparr>)"
  using assms
  by (simp add: persistSectorClassification_def bindA_def nowA_def tenders_update_def tender_view_def
      scoped_update_Some tn_patch_def no_tender_change_def sector_row_def)

definition company_list :: "ident \<Rightarrow> client_company list wact" where
  "company_list org = companies_findAll org"

definition company_get :: "ident \<Rightarrow> ident \<Rightarrow> client_company wact" where
  "company_get i org =
     bindA (companies_findById i org) (\<lambda>c. orThrow c (NotFound ''ClientCompany not found''))"

definition company_create :: "string \<Rightarrow> ident \<Rightarrow> client_company wact" where
  "company_create name org = companies_create \<lparr>ccc_name = name, ccc_org = org\<rparr>"

definition company_update :: "ident \<Rightarrow> ident \<Rightarrow> string \<Rightarrow> client_company wact" where
  "company_update i org name = companies_update \<lparr>ucc_name = Some name\<rparr> i org"

definition company_remove :: "ident \<Rightarrow> ident \<Rightarrow> bool wact" where
  "company_remove i org = companies_delete i org"

record public_user =
  pu_id :: ident
  pu_email :: string
  pu_name :: string
  pu_role :: user_role
  pu_org :: ident

definition toPublic :: "user \<Rightarrow> public_user" where
  "toPublic u = \<lparr>pu_id = us_id u, pu_email = us_email u, pu_name = us_name u, pu_role = us_role u,
     pu_org = us_org u\<rparr>"

definition user_list :: "ident \<Rightarrow> public_user list wact" where
  "user_list org = bindA (users_findAll org) (\<lambda>rows. ret (map toPublic rows))"

subsection \<open>The vault\<close>

record register_input =
  rd_filename :: string
  rd_company :: ident
  rd_documentType :: "string option"
  rd_sensitivity :: "string option"
  rd_expiresAt :: "time option"

definition register_document :: "register_input \<Rightarrow> ident \<Rightarrow> client_document wact" where
  "register_document i org =
     documents_create
       \<lparr>ccd_filename = rd_filename i, ccd_company = rd_company i, ccd_org = org,
        ccd_documentType = Some (orElse (rd_documentType i) ''other''),
        ccd_sensitivity = Some (orElse (rd_sensitivity i) ''low''), ccd_state = Some ''active'',
        ccd_expiresAt = rd_expiresAt i, ccd_storageKey = None, ccd_contentType = None,
        ccd_sizeBytes = None\<rparr>"

definition document_list :: "ident \<Rightarrow> client_document list wact" where
  "document_list org = documents_findAll org"

text \<open>A sensitivity the reader's role may not see answers as if the document did not exist.\<close>

definition document_get :: "ident \<Rightarrow> ident \<Rightarrow> user_role option \<Rightarrow> client_document wact" where
  "document_get i org readerRole =
     bindA (documents_findById i org) (\<lambda>found.
     bindA (orThrow found (NotFound ''Document not found'')) (\<lambda>doc.
     (case readerRole of
        None \<Rightarrow> ret doc
      | Some role \<Rightarrow>
          (case canReadSensitivity role (cd_sensitivity doc) of
             Inl e \<Rightarrow> throw e
           | Inr allowed \<Rightarrow> if allowed then ret doc else throw (NotFound ''Document not found'')))))"

definition no_document_change :: update_document where
  "no_document_change = \<lparr>ucd_filename = None, ucd_documentType = None, ucd_sensitivity = None,
     ucd_state = None, ucd_expiresAt = None, ucd_storageKey = None, ucd_contentType = None,
     ucd_sizeBytes = None\<rparr>"

definition document_setState :: "ident \<Rightarrow> ident \<Rightarrow> string \<Rightarrow> client_document wact" where
  "document_setState i org state = documents_update (no_document_change\<lparr>ucd_state := Some state\<rparr>) i org"

definition attachBlob :: "ident \<Rightarrow> ident \<Rightarrow> string \<Rightarrow> string \<Rightarrow> int \<Rightarrow> client_document wact" where
  "attachBlob i org storageKey contentType sizeBytes =
     documents_update (no_document_change
       \<lparr>ucd_storageKey := Some (Some storageKey), ucd_contentType := Some (Some contentType),
        ucd_sizeBytes := Some (Some sizeBytes)\<rparr>) i org"

definition document_delete :: "ident \<Rightarrow> ident \<Rightarrow> bool wact" where
  "document_delete i org = documents_delete i org"

definition listExpiring :: "ident \<Rightarrow> time \<Rightarrow> client_document list wact" where
  "listExpiring org before =
     bindA (documents_findAll org) (\<lambda>all.
     ret (filter (\<lambda>d. cd_state d \<noteq> ''archived'' \<and>
       (case cd_expiresAt d of None \<Rightarrow> False | Some t \<Rightarrow> t \<le> before)) all))"

subsection \<open>Upload and download\<close>

definition buildKey :: "ident \<Rightarrow> ident \<Rightarrow> string \<Rightarrow> string" where
  "buildKey org document filename =
     org @ ''/'' @ document @ ''/'' @
     map (\<lambda>c. if c = CHR 0x5C \<or> c = CHR ''/'' then CHR ''_'' else c) filename"

record upload_file =
  uf_originalname :: string
  uf_mimetype :: string
  uf_size :: int
  uf_buffer :: string

record upload_body =
  ub_company :: ident
  ub_documentType :: "string option"
  ub_sensitivity :: "string option"
  ub_expiresAt :: "time option"

definition content_type :: "upload_file \<Rightarrow> string" where
  "content_type f = (if uf_mimetype f = [] then ''application/octet-stream'' else uf_mimetype f)"

text \<open>
  The endpoint, given the object store's write \<open>put key body type\<close>; a failed write is undone
  by deleting the row, whose own failure is swallowed. \<open>error_text\<close> renders the exception.
\<close>

definition upload_document ::
    "(string \<Rightarrow> string \<Rightarrow> string \<Rightarrow> unit wact) \<Rightarrow> (api_error \<Rightarrow> string) \<Rightarrow> upload_file option \<Rightarrow>
     upload_body \<Rightarrow> ident \<Rightarrow> client_document wact" where
  "upload_document put error_text file body org =
     bindA (orThrow file (BadRequest ''file is required (multipart field \"file\")'')) (\<lambda>f.
     bindA (throwIf (ub_company body = []) (BadRequest ''clientCompanyId is required'')) (\<lambda>_.
     bindA (register_document \<lparr>rd_filename = uf_originalname f, rd_company = ub_company body,
       rd_documentType = ub_documentType body, rd_sensitivity = ub_sensitivity body,
       rd_expiresAt = ub_expiresAt body\<rparr> org) (\<lambda>doc.
     let key = buildKey org (cd_id doc) (uf_originalname f) in
     bindA (tryA (put key (uf_buffer f) (content_type f))
       (\<lambda>e. bindA (tryA (bindA (document_delete (cd_id doc) org) (\<lambda>_. ret ())) (\<lambda>_. ret ())) (\<lambda>_.
             throw (BadRequest (''object-store write failed: '' @ error_text e))))) (\<lambda>_.
     attachBlob (cd_id doc) org key (content_type f) (uf_size f)))))"

definition download_document ::
    "(string \<Rightarrow> string wact) \<Rightarrow> ident \<Rightarrow> ident \<Rightarrow> user_role option \<Rightarrow> (string \<times> string) wact" where
  "download_document presign i org role =
     bindA (document_get i org role) (\<lambda>doc.
     (case cd_storageKey doc of
        None \<Rightarrow> throw (NotFound ''Document has no uploaded blob'')
      | Some key \<Rightarrow>
          if key = [] then throw (NotFound ''Document has no uploaded blob'')
          else bindA (presign key) (\<lambda>url. ret (url, cd_filename doc))))"

subsection \<open>An upload leaves a document with its blob, or nothing\<close>

lemma register_document_result:
  assumes "uuid_ok w_documents w"
  shows "\<exists>d w'. register_document i org w = (Inr d, w') \<and> cd_org d = org \<and>
    cd_id d = w_uuid w (w_uuid_n w) \<and> cd_id d \<notin> keysT (w_documents w) \<and>
    w_documents w' = setT (cd_id d) d (w_documents w)"
  using uuid_ok_next [OF assms]
  by (simp add: register_document_def documents_create_def bindA_def uuidA_apply nowA_apply
      insert_row_apply)

lemma document_delete_own:
  assumes "getT (w_documents w) k = Some d" and "cd_org d = org"
  shows "document_delete k org w = (Inr True, w_documents_update (delT k) w)"
  using assms scoped_delete_Some [of cd_org w_documents w k org d w_documents_update]
  by (simp add: document_delete_def documents_delete_def scoped_Some_iff)

lemma attachBlob_own:
  assumes "getT (w_documents w) k = Some d" and "cd_org d = org"
  shows "\<exists>d' w'. attachBlob k org key ct n w = (Inr d', w') \<and> cd_id d' = cd_id d \<and> cd_org d' = org \<and>
    cd_storageKey d' = Some key \<and> cd_contentType d' = Some ct \<and> cd_sizeBytes d' = Some n \<and>
    w_documents w' = setT k d' (w_documents w)"
  using assms
  by (simp add: attachBlob_def documents_update_def no_document_change_def cd_patch_def
      scoped_Some_iff scoped_update_Some [where r = d])

text \<open>
  C16: Given fresh identifiers and an object store that leaves the documents table alone, an
  upload that fails, for whatever reason, leaves the table as it was; one that returns adds
  exactly the returned row under a new id, in the caller's organisation, with the key its blob
  was stored under, its content type and its size.
\<close>

theorem upload_all_or_nothing:
  assumes fresh: "uuid_ok w_documents w"
    and store: "runs (frame w_documents) (put (buildKey org (w_uuid w (w_uuid_n w)) (uf_originalname f))
                  (uf_buffer f) (content_type f))"
    and run: "upload_document put error_text (Some f) body org w = (r, w')"
  shows "case r of
      Inl e \<Rightarrow> w_documents w' = w_documents w
    | Inr d \<Rightarrow> w_documents w' = w_documents w @ [(cd_id d, d)] \<and> cd_id d \<notin> keysT (w_documents w) \<and>
        cd_org d = org \<and> cd_storageKey d = Some (buildKey org (cd_id d) (uf_originalname f)) \<and>
        cd_contentType d = Some (content_type f) \<and> cd_sizeBytes d = Some (uf_size f)"
proof (cases "ub_company body = []")
  case True
  then show ?thesis using run by (auto simp: upload_document_def bindA_def)
next
  case False
  let ?i = "\<lparr>rd_filename = uf_originalname f, rd_company = ub_company body,
    rd_documentType = ub_documentType body, rd_sensitivity = ub_sensitivity body,
    rd_expiresAt = ub_expiresAt body\<rparr>"
  obtain d w1 where reg: "register_document ?i org w = (Inr d, w1)" and d: "cd_org d = org"
      "cd_id d = w_uuid w (w_uuid_n w)" "cd_id d \<notin> keysT (w_documents w)"
      "w_documents w1 = setT (cd_id d) d (w_documents w)"
    using register_document_result [OF fresh] by blast
  let ?key = "buildKey org (cd_id d) (uf_originalname f)"
  obtain r2 w2 where put: "put ?key (uf_buffer f) (content_type f) w1 = (r2, w2)"
    by (cases "put ?key (uf_buffer f) (content_type f) w1")
  have docs2: "w_documents w2 = setT (cd_id d) d (w_documents w)"
    using runsD_eq [OF store, of w1 r2 w2] put d by (simp add: frame_def)
  have own: "getT (w_documents w2) (cd_id d) = Some d"
    by (simp add: docs2 getT_setT)
  show ?thesis
  proof (cases r2)
    case (Inl e)
    then have "w_documents w' = delT (cd_id d) (w_documents w2) \<and> (\<exists>e'. r = Inl e')"
      using run False reg put document_delete_own [OF own d(1)]
      by (auto simp: upload_document_def bindA_def tryA_def Let_def)
    then show ?thesis using d(3) by (auto simp: docs2 delT_setT_fresh)
  next
    case (Inr u)
    obtain d' w3 where att: "attachBlob (cd_id d) org ?key (content_type f) (uf_size f) w2 = (Inr d', w3)"
        "cd_id d' = cd_id d" "cd_org d' = org" "cd_storageKey d' = Some ?key"
        "cd_contentType d' = Some (content_type f)" "cd_sizeBytes d' = Some (uf_size f)"
        "w_documents w3 = setT (cd_id d) d' (w_documents w2)"
      using attachBlob_own [OF own d(1)] by blast
    have "r = Inr d'" "w' = w3"
      using run False reg put att(1) Inr by (auto simp: upload_document_def bindA_def tryA_def Let_def)
    then show ?thesis
      using att d(3) setT_fresh [of "cd_id d" "w_documents w" d']
      by (simp only: sum.case docs2 setT_setT) simp
  qed
qed

definition pdf_file :: upload_file where
  "pdf_file = \<lparr>uf_originalname = ''a/b.pdf'', uf_mimetype = [], uf_size = 3, uf_buffer = ''xyz''\<rparr>"

definition pdf_body :: upload_body where
  "pdf_body = \<lparr>ub_company = ''c1'', ub_documentType = None, ub_sensitivity = None, ub_expiresAt = None\<rparr>"

theorem upload_all_or_nothing_witness:
  "(case upload_document (\<lambda>_ _ _. throw (Plain ''down'')) (\<lambda>_. ''down'') (Some pdf_file) pdf_body ''o1'' world0 of
     (r, w') \<Rightarrow> case r of
      Inl e \<Rightarrow> w_documents w' = w_documents world0
    | Inr d \<Rightarrow> w_documents w' = w_documents world0 @ [(cd_id d, d)] \<and> cd_id d \<notin> keysT (w_documents world0) \<and>
        cd_org d = ''o1'' \<and> cd_storageKey d = Some (buildKey ''o1'' (cd_id d) (uf_originalname pdf_file)) \<and>
        cd_contentType d = Some (content_type pdf_file) \<and> cd_sizeBytes d = Some (uf_size pdf_file))"
proof -
  have "uuid_ok w_documents world0"
    using world0_uuid_inj by (simp add: uuid_ok_def world0_def keysT_def)
  then show ?thesis
    using upload_all_or_nothing [where put = "\<lambda>_ _ _. throw (Plain ''down'')" and w = world0 and
        f = pdf_file and body = pdf_body and org = "''o1''" and error_text = "\<lambda>_. ''down''"]
    by (auto simp: runs_throw split: prod.splits)
qed

subsection \<open>Keys of different documents\<close>

lemma append_sep_inj:
  "a @ c # s = b @ c # t \<Longrightarrow> c \<notin> set a \<Longrightarrow> c \<notin> set b \<Longrightarrow> a = b \<and> s = t"
  by (induction a arbitrary: b) (case_tac b; auto)+

text \<open>
  Two documents share an object-store key only if they are the same document of the same
  organisation, when identifiers hold no slash (they are UUIDs); and the filename cannot add a
  path segment: the key has exactly the three segments.
\<close>

theorem storage_keys_separate:
  assumes "buildKey o1 d1 f1 = buildKey o2 d2 f2"
    and "CHR ''/'' \<notin> set o1 \<union> set o2 \<union> set d1 \<union> set d2"
  shows "o1 = o2 \<and> d1 = d2 \<and> count_list (buildKey o1 d1 f1) (CHR ''/'') = 2"
proof -
  have "o1 = o2 \<and> d1 = d2"
    using assms by (auto simp: buildKey_def dest!: append_sep_inj)
  moreover have "CHR ''/'' \<notin> set (map (\<lambda>c. if c = CHR 0x5C \<or> c = CHR ''/'' then CHR ''_'' else c) f1)"
    by auto
  ultimately show ?thesis
    using assms(2) by (simp add: buildKey_def count_list_append count_notin)
qed

theorem storage_keys_separate_witness:
  "''o1'' = (''o1'' :: string) \<and> ''d'' = (''d'' :: string) \<and>
   count_list (buildKey ''o1'' ''d'' ''x/y'') (CHR ''/'') = 2"
  by (rule storage_keys_separate [of "''o1''" "''d''" "''x/y''" "''o1''" "''d''" "''x_y''"])
     (simp_all add: buildKey_def)

text \<open>
  To a role that may not read its sensitivity a document answers exactly as one that does
  not exist: the same 404, the same world. Every other reader gets the row; a reader from
  another organisation never does.
\<close>

theorem sensitive_document_looks_missing:
  "document_get i org role w =
     (case document_view i org w of
        None \<Rightarrow> (Inl (NotFound ''Document not found''), w)
      | Some d \<Rightarrow>
          (case role of
             None \<Rightarrow> (Inr d, w)
           | Some r \<Rightarrow>
               (case canReadSensitivity r (cd_sensitivity d) of
                  Inl e \<Rightarrow> (Inl e, w)
                | Inr True \<Rightarrow> (Inr d, w)
                | Inr False \<Rightarrow> (Inl (NotFound ''Document not found''), w))))"
  by (auto simp: document_get_def documents_findById_def bindA_def orThrow_def
      split: option.splits sum.splits bool.splits)

end
