(* ===== verification/Compliance.thy ===== *)
theory Compliance
  imports Repos_Compliance Documents
begin

text \<open>
  The compliance matrix of a tender: the pure computation
  (\<^verbatim>\<open>compliance/compliance.service.ts\<close>), its persisted versions
  (\<^verbatim>\<open>compliance/compliance-matrix.service.ts\<close>) and the evidence links of its items
  (\<^verbatim>\<open>compliance/evidence-link.service.ts\<close>). Two readings of the code: \<^verbatim>\<open>generatedAt\<close> is the
  instant whose ISO form the code carries, and \<^verbatim>\<open>new Date(dueDate)\<close> is a parameter
  \<open>parse_date\<close> (due dates that are no date at all are outside the model).
\<close>

subsection \<open>The computation\<close>

record comp_requirement =
  rq_id :: string
  rq_text :: string
  rq_category :: string
  rq_critical :: bool

record evidence_doc =
  ev_id :: ident
  ev_documentType :: string
  ev_state :: string
  ev_expiresAt :: "time option"

record comp_item =
  it_requirementId :: string
  it_requirementText :: string
  it_category :: string
  it_evidenceDocId :: "ident option"
  it_owner :: "string option"
  it_dueDate :: "string option"
  it_risk :: string
  it_status :: string

record comp_matrix =
  mx_tenderId :: ident
  mx_version :: int
  mx_generatedAt :: time
  mx_items :: "comp_item list"

text \<open>
  The rule of a category: expected document type and owner. A category that names a member of
  \<^verbatim>\<open>Object.prototype\<close> finds that member, which has neither.
\<close>

definition category_rule :: "string \<Rightarrow> string option \<times> string option" where
  "category_rule category =
     (if category = ''legal'' then (Some ''legal'', Some ''DocController'')
      else if category = ''financial'' then (Some ''financial'', Some ''Finance'')
      else if category = ''technical'' then (Some ''technical'', Some ''Presales'')
      else if category = ''admin'' then (Some ''admin'', Some ''BidManager'')
      else if category \<in> set proto_keys then (None, None)
      else (Some ''other'', Some ''BidManager''))"

definition candidate :: "string \<Rightarrow> evidence_doc \<Rightarrow> bool" where
  "candidate category d \<longleftrightarrow>
     Some (ev_documentType d) = fst (category_rule category) \<and> ev_state d \<noteq> ''restricted''"

definition usable :: "time \<Rightarrow> evidence_doc \<Rightarrow> bool" where
  "usable now d \<longleftrightarrow> ev_state d \<noteq> ''archived'' \<and>
     (case ev_expiresAt d of None \<Rightarrow> True | Some t \<Rightarrow> now < t)"

definition lapsed :: "time \<Rightarrow> evidence_doc \<Rightarrow> bool" where
  "lapsed now d \<longleftrightarrow> (case ev_expiresAt d of None \<Rightarrow> False | Some t \<Rightarrow> t \<le> now)"

definition buildItem ::
    "comp_requirement \<Rightarrow> evidence_doc list \<Rightarrow> time \<Rightarrow> string option \<Rightarrow> comp_item" where
  "buildItem req vault now dueDate =
     (let candidates = filter (candidate (rq_category req)) vault;
          (status, evidence) =
            (case List.find (usable now) candidates of
               Some d \<Rightarrow> (''satisfied'', Some (ev_id d))
             | None \<Rightarrow>
                 (case List.find (lapsed now) candidates of
                    Some d \<Rightarrow> (''partial'', Some (ev_id d))
                  | None \<Rightarrow> (''missing'', None)));
          risk = (if status = ''satisfied'' then ''low''
                  else if status = ''partial'' then ''medium''
                  else if rq_critical req then ''critical'' else ''high'')
      in \<lparr>it_requirementId = rq_id req, it_requirementText = rq_text req,
          it_category = rq_category req, it_evidenceDocId = evidence,
          it_owner = snd (category_rule (rq_category req)), it_dueDate = dueDate,
          it_risk = risk, it_status = status\<rparr>)"

definition generateMatrix ::
    "ident \<Rightarrow> comp_requirement list \<Rightarrow> evidence_doc list \<Rightarrow> time \<Rightarrow> string option \<Rightarrow> int option \<Rightarrow>
     comp_matrix" where
  "generateMatrix tender reqs vault now dueDate previousVersion =
     \<lparr>mx_tenderId = tender, mx_version = orElse previousVersion 0 + 1, mx_generatedAt = now,
      mx_items = map (\<lambda>r. buildItem r vault now dueDate) reqs\<rparr>"

definition exportGate :: "comp_matrix \<Rightarrow> string list \<Rightarrow> bool \<times> comp_item list" where
  "exportGate m overridden =
     (let blocking = filter (\<lambda>i. it_risk i = ''critical'' \<and> it_status i \<noteq> ''satisfied'' \<and>
            it_requirementId i \<notin> set overridden) (mx_items m)
      in (blocking = [], blocking))"

record task =
  tk_title :: string
  tk_owner :: "string option"
  tk_dueDate :: "string option"
  tk_severity :: string
  tk_requirementId :: string

definition deriveTasks :: "comp_matrix \<Rightarrow> task list" where
  "deriveTasks m =
     map (\<lambda>i. \<lparr>tk_title = ''Provide evidence: '' @ it_requirementText i, tk_owner = it_owner i,
              tk_dueDate = it_dueDate i, tk_severity = it_risk i,
              tk_requirementId = it_requirementId i\<rparr>)
       (filter (\<lambda>i. it_status i \<noteq> ''satisfied'' \<and> it_status i \<noteq> ''overridden'') (mx_items m))"

subsection \<open>Persisted versions\<close>

definition to_requirement :: "tender_requirement \<Rightarrow> comp_requirement" where
  "to_requirement r = \<lparr>rq_id = tr_id r, rq_text = tr_text r, rq_category = tr_category r,
     rq_critical = (tr_risk r = ''critical'')\<rparr>"

definition to_create_item :: "(string \<Rightarrow> time) \<Rightarrow> ident \<Rightarrow> ident \<Rightarrow> comp_item \<Rightarrow> create_item" where
  "to_create_item parse_date matrix org i =
     \<lparr>cci_matrixId = matrix, cci_org = org, cci_requirementId = it_requirementId i,
      cci_requirementText = it_requirementText i, cci_category = it_category i,
      cci_owner = it_owner i, cci_risk = it_risk i, cci_status = it_status i,
      cci_dueDate = (case it_dueDate i of None \<Rightarrow> None
                     | Some s \<Rightarrow> if s = [] then None else Some (parse_date s))\<rparr>"

definition effective_requirements ::
    "ident \<Rightarrow> ident \<Rightarrow> comp_requirement list \<Rightarrow> comp_requirement list wact" where
  "effective_requirements tender org reqs =
     (if reqs = []
      then bindA (requirements_findAllForTender tender org) (\<lambda>rows. ret (map to_requirement rows))
      else ret reqs)"

definition generateAndPersist ::
    "(string \<Rightarrow> time) \<Rightarrow> ident \<Rightarrow> ident \<Rightarrow> comp_requirement list \<Rightarrow> evidence_doc list \<Rightarrow>
     time option \<Rightarrow> string option \<Rightarrow> (compliance_matrix \<times> compliance_item list) wact" where
  "generateAndPersist parse_date tender org reqs vault now dueDate =
     bindA (tender_get tender org) (\<lambda>_.
     bindA (effective_requirements tender org reqs) (\<lambda>effective.
     bindA (matrices_latestForTender tender org) (\<lambda>latest.
     let nextVersion = (case latest of None \<Rightarrow> 0 | Some m \<Rightarrow> cm_version m) + 1 in
     bindA (nowOr now) (\<lambda>t.
     let computed = generateMatrix tender effective vault t dueDate (Some (nextVersion - 1)) in
     bindA (matrices_create \<lparr>ccm_tenderId = tender, ccm_org = org, ccm_version = mx_version computed,
       ccm_status = Some ''draft'', ccm_generatedAt = Some (mx_generatedAt computed)\<rparr>) (\<lambda>m.
     bindA (if mx_items computed = [] then ret []
            else items_createMany (map (to_create_item parse_date (cm_id m) org) (mx_items computed)))
       (\<lambda>rows. ret (m, rows)))))))"

definition matrices_listForTender :: "ident \<Rightarrow> ident \<Rightarrow> compliance_matrix list wact" where
  "matrices_listForTender tender org =
     bindA (tender_get tender org) (\<lambda>_. matrices_findAllForTender tender org)"

definition getByVersion :: "ident \<Rightarrow> int \<Rightarrow> ident \<Rightarrow> (compliance_matrix \<times> compliance_item list) wact" where
  "getByVersion tender version org =
     bindA (tender_get tender org) (\<lambda>_.
     bindA (matrices_findByVersion tender version org) (\<lambda>found.
     bindA (orThrow found (NotFound (''ComplianceMatrix version '' @ show_int version @
       '' not found for tender '' @ tender))) (\<lambda>m.
     bindA (items_findAllForMatrix (cm_id m) org) (\<lambda>rows. ret (m, rows)))))"

definition updateItem :: "ident \<Rightarrow> ident \<Rightarrow> update_item \<Rightarrow> compliance_item wact" where
  "updateItem i org d =
     bindA (items_findById i org) (\<lambda>found.
     bindA (orThrow found (NotFound ''ComplianceItem not found'')) (\<lambda>_.
     items_update d i org))"

subsection \<open>Evidence links\<close>

definition link_evidence :: "ident \<Rightarrow> ident \<Rightarrow> ident \<Rightarrow> string option \<Rightarrow> evidence_link wact" where
  "link_evidence item document org note_text =
     bindA (items_findById item org) (\<lambda>i.
     bindA (orThrow i (NotFound ''ComplianceItem not found'')) (\<lambda>_.
     bindA (documents_findById document org) (\<lambda>d.
     bindA (orThrow d (NotFound ''ClientDocument not found'')) (\<lambda>_.
     links_create \<lparr>cel_org = org, cel_itemId = item, cel_documentId = document,
       cel_note = note_text\<rparr>))))"

definition unlink_evidence :: "ident \<Rightarrow> ident \<Rightarrow> ident \<Rightarrow> bool wact" where
  "unlink_evidence item document org = links_unlink item document org"

definition links_listForItem :: "ident \<Rightarrow> ident \<Rightarrow> evidence_link list wact" where
  "links_listForItem item org = links_findAllForItem item org"

definition links_listForDocument :: "ident \<Rightarrow> ident \<Rightarrow> evidence_link list wact" where
  "links_listForDocument document org = links_findAllForDocument document org"

subsection \<open>What the computation says of the vault\<close>

lemma find_filter_iff: "(List.find P (filter Q xs) \<noteq> None) \<longleftrightarrow> (\<exists>x \<in> set xs. Q x \<and> P x)"
  by (auto simp: find_None_iff)

lemma find_filter_Some: "List.find P (filter Q xs) = Some x \<Longrightarrow> x \<in> set xs \<and> Q x \<and> P x"
  by (induction xs) (auto split: if_splits)

lemma find_filter_None: "List.find P (filter Q xs) = None \<longleftrightarrow> \<not> (\<exists>x \<in> set xs. Q x \<and> P x)"
  by (auto simp: find_None_iff)

text \<open>The branches of \<^verbatim>\<open>buildItem\<close>.\<close>

lemma buildItem_cases:
  obtains (satisfied) d where "d \<in> set vault" "candidate (rq_category r) d" "usable now d"
      "it_status (buildItem r vault now due) = ''satisfied''"
      "it_evidenceDocId (buildItem r vault now due) = Some (ev_id d)"
      "it_risk (buildItem r vault now due) = ''low''"
  | (partial) d where "d \<in> set vault" "candidate (rq_category r) d" "lapsed now d"
      "\<not> (\<exists>e \<in> set vault. candidate (rq_category r) e \<and> usable now e)"
      "it_status (buildItem r vault now due) = ''partial''"
      "it_evidenceDocId (buildItem r vault now due) = Some (ev_id d)"
      "it_risk (buildItem r vault now due) = ''medium''"
  | (missing) "\<not> (\<exists>e \<in> set vault. candidate (rq_category r) e \<and> (usable now e \<or> lapsed now e))"
      "it_status (buildItem r vault now due) = ''missing''"
      "it_evidenceDocId (buildItem r vault now due) = None"
      "it_risk (buildItem r vault now due) = (if rq_critical r then ''critical'' else ''high'')"
proof (cases "List.find (usable now) (filter (candidate (rq_category r)) vault)")
  case (Some d)
  then show ?thesis
    using find_filter_Some [OF Some] that(1) [of d] by (simp add: buildItem_def)
next
  case None
  note unusable = None
  show ?thesis
  proof (cases "List.find (lapsed now) (filter (candidate (rq_category r)) vault)")
    case (Some d)
    then show ?thesis
      using find_filter_Some [OF Some] unusable [unfolded find_filter_None] unusable that(2) [of d]
      by (simp add: buildItem_def)
  next
    case None
    show ?thesis
      using unusable None unusable [unfolded find_filter_None] None [unfolded find_filter_None] that(3)
      by (auto simp add: buildItem_def)
  qed
qed

text \<open>
  A requirement is satisfied exactly when the vault has an unrestricted document of its
  category's type that is neither archived nor expired, partial when it only has expired ones,
  missing otherwise; the evidence named is such a document, and the risk is critical only for a
  critical requirement without any.
\<close>

theorem matrix_item_status:
  "let i = buildItem r vault now due;
       fresh = (\<exists>d \<in> set vault. candidate (rq_category r) d \<and> usable now d);
       stale = (\<exists>d \<in> set vault. candidate (rq_category r) d \<and> lapsed now d)
   in it_status i = (if fresh then ''satisfied'' else if stale then ''partial'' else ''missing'') \<and>
      it_risk i = (if fresh then ''low'' else if stale then ''medium''
                   else if rq_critical r then ''critical'' else ''high'') \<and>
      (case it_evidenceDocId i of
         None \<Rightarrow> it_status i = ''missing''
       | Some e \<Rightarrow> \<exists>d \<in> set vault. ev_id d = e \<and> candidate (rq_category r) d \<and>
                    (if fresh then usable now d else lapsed now d))"
  by (cases rule: buildItem_cases [of vault r now due]) (auto simp: Let_def)

lemma item_blocks_iff:
  "it_risk (buildItem r vault now due) = ''critical'' \<and> it_status (buildItem r vault now due) \<noteq> ''satisfied''
   \<longleftrightarrow> rq_critical r \<and> \<not> (\<exists>d \<in> set vault. candidate (rq_category r) d \<and> (usable now d \<or> lapsed now d))"
  by (cases rule: buildItem_cases [of vault r now due]) auto

lemma buildItem_id [simp]: "it_requirementId (buildItem r vault now due) = rq_id r"
  by (simp add: buildItem_def Let_def split_beta)

lemma gate_allows_iff:
  "fst (exportGate (generateMatrix tender reqs vault now due prev) overridden) \<longleftrightarrow>
     \<not> (\<exists>r \<in> set reqs. rq_critical r \<and> rq_id r \<notin> set overridden \<and>
          \<not> (\<exists>d \<in> set vault. candidate (rq_category r) d \<and> (usable now d \<or> lapsed now d)))"
  using item_blocks_iff [of _ vault now due]
  by (fastforce simp: exportGate_def generateMatrix_def Let_def filter_empty_conv)

text \<open>
  The export gate of a generated matrix lets the pack out exactly when every critical
  requirement is overridden or has a document, expired ones included: an expired certificate
  lowers the risk to medium, and only critical risks block.
\<close>

theorem export_allowed_iff:
  "fst (exportGate (generateMatrix tender reqs vault now due prev) overridden) \<longleftrightarrow>
     \<not> (\<exists>r \<in> set reqs. rq_critical r \<and> rq_id r \<notin> set overridden \<and>
          \<not> (\<exists>d \<in> set vault. candidate (rq_category r) d \<and> (usable now d \<or> lapsed now d)))"
  by (rule gate_allows_iff)

subsection \<open>The versions of a tender's matrix\<close>

lemma sort_desc_newest:
  assumes "\<forall>y \<in> set rows. k y < k x"
  shows "sort_desc k (rows @ [x]) = x # sort_desc k rows"
proof -
  have "foldr (insort_key (\<lambda>r. - k r)) rows [x] = x # foldr (insort_key (\<lambda>r. - k r)) rows []"
    using assms by (induction rows) simp_all
  then show ?thesis by (simp add: sort_desc_def sort_key_def)
qed

lemma items_createMany_returns:
  "\<exists>rs w'. items_createMany ds w = (Inr rs, w') \<and> frame w_matrices w w'"
proof (induction ds arbitrary: w)
  case (Cons d ds)
  obtain r w1 where 1: "items_create d w = (Inr r, w1)" "frame w_matrices w w1"
    by (simp add: items_create_def bindA_def nowA_def uuidA_def insert_row_apply frame_def uuid_adv_def)
  obtain rs w2 where "items_createMany ds w1 = (Inr rs, w2)" "frame w_matrices w1 w2"
    using Cons.IH by blast
  then show ?case
    using 1 by (auto simp: frame_def uuid_adv_def)
qed (simp add: frame_def uuid_adv_def)

definition next_version :: "ident \<Rightarrow> ident \<Rightarrow> world \<Rightarrow> int" where
  "next_version tender org w =
     (case latest_matrix tender org w of None \<Rightarrow> 0 | Some m \<Rightarrow> cm_version m) + 1"


lemma tender_get_apply:
  "tender_get i org w = (case tender_view i org w of
     None \<Rightarrow> (Inl (NotFound ''Tender not found''), w) | Some t \<Rightarrow> (Inr t, w))"
  by (simp add: tender_get_def tenders_findById_def bindA_def orThrow_def split: option.splits)

lemma effective_requirements_apply: "\<exists>e. effective_requirements tender org reqs w = (Inr e, w)"
  by (simp add: effective_requirements_def requirements_findAllForTender_def bindA_def)

lemma nowOr_apply:
  "\<exists>t w1. nowOr now w = (Inr t, w1) \<and> w_matrices w1 = w_matrices w \<and> w_uuid w1 = w_uuid w \<and>
     w_uuid_n w1 = w_uuid_n w"
  by (cases now) (simp_all add: nowOr_def nowA_def)

lemma matrices_create_clash:
  "matrix_by_version (ccm_tenderId d) (ccm_version d) (ccm_org d) w \<noteq> None \<Longrightarrow>
     \<exists>e. matrices_create d w = (Inl e, w)"
  by (simp add: matrices_create_def matrices_findByVersion_def bindA_def)

lemma matrices_create_free:
  "matrix_by_version (ccm_tenderId d) (ccm_version d) (ccm_org d) w = None \<Longrightarrow>
     \<exists>m w'. matrices_create d w = (Inr m, w') \<and> cm_tenderId m = ccm_tenderId d \<and>
       cm_org m = ccm_org d \<and> cm_version m = ccm_version d \<and>
       w_matrices w' = setT (w_uuid w (w_uuid_n w)) m (w_matrices w) \<and>
       w_uuid w' = w_uuid w \<and> w_uuid_n w' = Suc (w_uuid_n w)"
  by (simp add: matrices_create_def matrices_findByVersion_def bindA_def nowA_def uuidA_def
      insert_row_apply)

lemma persist_items_returns:
  "\<exists>rs w'. (if c = [] then ret [] else items_createMany ds) w = (Inr rs, w') \<and> frame w_matrices w w'"
  using items_createMany_returns [of ds w] by (auto simp: frame_def uuid_adv_def)

text \<open>Generation stops at the tender guard, at a version clash, or stores the next version.\<close>

lemma generateAndPersist_no_tender:
  "tender_view tender org w = None \<Longrightarrow>
     generateAndPersist parse_date tender org reqs vault now due w = (Inl (NotFound ''Tender not found''), w)"
  by (simp add: generateAndPersist_def tender_get_apply)

lemma generateAndPersist_clash:
  assumes "tender_view tender org w \<noteq> None"
    and "matrix_by_version tender (next_version tender org w) org w \<noteq> None"
  shows "\<exists>e w'. generateAndPersist parse_date tender org reqs vault now due w = (Inl e, w') \<and>
    frame w_matrices w w'"
proof -
  obtain e where e: "effective_requirements tender org reqs w = (Inr e, w)"
    using effective_requirements_apply by blast
  obtain t w1 where t: "nowOr now w = (Inr t, w1)" "w_matrices w1 = w_matrices w" "w_uuid w1 = w_uuid w"
      "w_uuid_n w1 = w_uuid_n w"
    using nowOr_apply by blast
  then have "matrix_by_version tender (next_version tender org w) org w1 \<noteq> None"
    using assms(2) by (simp add: matrix_by_version_def)
  then obtain x where "matrices_create \<lparr>ccm_tenderId = tender, ccm_org = org,
      ccm_version = next_version tender org w, ccm_status = Some ''draft'',
      ccm_generatedAt = Some t\<rparr> w1 = (Inl x, w1)"
    using matrices_create_clash [of "\<lparr>ccm_tenderId = tender, ccm_org = org,
      ccm_version = next_version tender org w, ccm_status = Some ''draft'',
      ccm_generatedAt = Some t\<rparr>" w1] by auto
  then show ?thesis
    using assms(1) e t
    by (auto simp: generateAndPersist_def tender_get_apply matrices_latestForTender_def Let_def
        generateMatrix_def next_version_def frame_def uuid_adv_def split: option.splits)
qed

lemma generateAndPersist_stored:
  assumes "tender_view tender org w \<noteq> None"
    and "matrix_by_version tender (next_version tender org w) org w = None"
  shows "\<exists>m its w'. generateAndPersist parse_date tender org reqs vault now due w = (Inr (m, its), w') \<and>
    cm_tenderId m = tender \<and> cm_org m = org \<and> cm_version m = next_version tender org w \<and>
    w_matrices w' = setT (w_uuid w (w_uuid_n w)) m (w_matrices w) \<and>
    w_uuid w' = w_uuid w \<and> Suc (w_uuid_n w) \<le> w_uuid_n w'"
proof -
  obtain e where e: "effective_requirements tender org reqs w = (Inr e, w)"
    using effective_requirements_apply by blast
  obtain t w1 where t: "nowOr now w = (Inr t, w1)" "w_matrices w1 = w_matrices w" "w_uuid w1 = w_uuid w"
      "w_uuid_n w1 = w_uuid_n w"
    using nowOr_apply by blast
  let ?d = "\<lparr>ccm_tenderId = tender, ccm_org = org, ccm_version = next_version tender org w,
    ccm_status = Some ''draft'', ccm_generatedAt = Some t\<rparr>"
  have "matrix_by_version tender (next_version tender org w) org w1 = None"
    using assms(2) t by (simp add: matrix_by_version_def)
  then obtain m w2 where m: "matrices_create ?d w1 = (Inr m, w2)" "cm_tenderId m = tender" "cm_org m = org"
      "cm_version m = next_version tender org w"
      "w_matrices w2 = setT (w_uuid w1 (w_uuid_n w1)) m (w_matrices w1)"
      "w_uuid w2 = w_uuid w1" "w_uuid_n w2 = Suc (w_uuid_n w1)"
    using matrices_create_free [of ?d w1] by auto
  let ?c = "generateMatrix tender e vault t due (Some (next_version tender org w - 1))"
  obtain its w3 where its: "(if mx_items ?c = [] then ret []
      else items_createMany (map (to_create_item parse_date (cm_id m) org) (mx_items ?c))) w2 = (Inr its, w3)"
      "frame w_matrices w2 w3"
    using persist_items_returns by blast
  have "generateAndPersist parse_date tender org reqs vault now due w = (Inr (m, its), w3)"
    using assms(1) e t(1) m(1) its(1)
    by (auto simp: generateAndPersist_def tender_get_apply matrices_latestForTender_def Let_def
        generateMatrix_def next_version_def split: option.splits)
  then show ?thesis
    using m t its(2) by (auto simp: frame_def uuid_adv_def)
qed

text \<open>Reachable worlds: generations, and anything that leaves the matrices alone.\<close>

inductive matrix_reachable :: "world \<Rightarrow> bool" where
  matrix_start: "w_matrices w = [] \<Longrightarrow> uuid_ok w_matrices w \<Longrightarrow> matrix_reachable w"
| matrix_generated: "matrix_reachable w \<Longrightarrow>
     matrix_reachable (snd (generateAndPersist parse_date tender org reqs vault now due w))"
| matrix_elsewhere: "matrix_reachable w \<Longrightarrow> frame w_matrices w w' \<Longrightarrow> matrix_reachable w'"

definition contiguous :: "ident \<Rightarrow> ident \<Rightarrow> world \<Rightarrow> bool" where
  "contiguous tender org w \<longleftrightarrow>
     map cm_version (matrices_of tender org w) = rev (map int [1..<Suc (length (matrices_of tender org w))])"

lemma contiguous_next:
  assumes "contiguous tender org w"
  shows "next_version tender org w = int (length (matrices_of tender org w)) + 1"
  using assms
  by (cases "matrices_of tender org w")
     (auto simp: next_version_def latest_matrix_def contiguous_def split: if_splits)

lemma set_matrices_of:
  "set (matrices_of tender org w) = {m \<in> set (rowsT (w_matrices w)). cm_tenderId m = tender \<and> cm_org m = org}"
  by (simp add: matrices_of_def)

lemma contiguous_bound:
  assumes "contiguous tender org w" and "m \<in> set (matrices_of tender org w)"
  shows "cm_version m < next_version tender org w"
proof -
  have "cm_version m \<in> set (map cm_version (matrices_of tender org w))"
    using assms(2) by simp
  then show ?thesis
    unfolding contiguous_next [OF assms(1)] assms(1) [unfolded contiguous_def] by auto
qed

lemma contiguous_no_clash:
  assumes "contiguous tender org w"
  shows "matrix_by_version tender (next_version tender org w) org w = None"
proof -
  have "cm_version m \<noteq> next_version tender org w"
    if "m \<in> set (rowsT (w_matrices w))" "cm_tenderId m = tender" "cm_org m = org" for m
    using contiguous_bound [OF assms, of m] that by (simp add: set_matrices_of)
  then show ?thesis
    by (auto simp: matrix_by_version_def find_None_iff)
qed

lemma matrices_of_append:
  assumes "w_matrices w' = w_matrices w @ [(k, m)]"
    and "\<forall>x \<in> set (matrices_of (cm_tenderId m) (cm_org m) w). cm_version x < cm_version m"
  shows "matrices_of tender org w' =
    (if tender = cm_tenderId m \<and> org = cm_org m then m # matrices_of tender org w
     else matrices_of tender org w)"
proof (cases "tender = cm_tenderId m \<and> org = cm_org m")
  case True
  then show ?thesis
    using assms sort_desc_newest [where k = cm_version and x = m]
    by (simp add: matrices_of_def rows_where_def rowsT_def)
next
  case False
  then show ?thesis
    using assms(1) by (auto simp: matrices_of_def rows_where_def rowsT_def)
qed

lemma matrix_reachable_inv:
  "matrix_reachable w \<Longrightarrow> uuid_ok w_matrices w \<and> (\<forall>tender org. contiguous tender org w)"
proof (induction rule: matrix_reachable.induct)
  case (matrix_start w)
  then show ?case
    by (simp add: contiguous_def matrices_of_def rows_where_def rowsT_def sort_desc_def)
next
  case (matrix_generated w parse_date tender org reqs vault now due)
  show ?case
  proof (cases "tender_view tender org w")
    case None
    then show ?thesis
      using matrix_generated by (simp add: generateAndPersist_no_tender)
  next
    case (Some tn)
    have contig: "contiguous tender org w" and uuid: "uuid_ok w_matrices w"
      using matrix_generated by simp_all
    obtain m its w' where gen: "generateAndPersist parse_date tender org reqs vault now due w = (Inr (m, its), w')"
        "cm_tenderId m = tender" "cm_org m = org" "cm_version m = next_version tender org w"
        "w_matrices w' = setT (w_uuid w (w_uuid_n w)) m (w_matrices w)"
        "w_uuid w' = w_uuid w" "Suc (w_uuid_n w) \<le> w_uuid_n w'"
      using generateAndPersist_stored [OF _ contiguous_no_clash [OF contig]] Some by blast
    have app: "w_matrices w' = w_matrices w @ [(w_uuid w (w_uuid_n w), m)]"
      using gen(5) setT_fresh [OF uuid_ok_next [OF uuid]] by simp
    have "contiguous t o' w'" for t o'
      using matrices_of_append [OF app, of t o'] contiguous_bound [OF contig] contiguous_next [OF contig]
        matrix_generated.IH gen(2-4)
      by (auto simp: contiguous_def)
    moreover have "row_step w_matrices (\<lambda>_ _. False) (\<lambda>_. True) w w'"
      by (rule row_added [OF _ gen(5-7)]) simp
    ultimately show ?thesis
      using row_step_uuid_ok uuid gen(1) by auto
  qed
next
  case (matrix_elsewhere w w')
  then show ?case
    using frame_uuid_ok by (auto simp: contiguous_def matrices_of_def frame_def)
qed

text \<open>
  C15: In every reachable world the matrix versions of a tender are 1, 2, ..., n without gap or
  repetition, newest first, and generating the next one succeeds exactly when the caller's
  organisation has the tender.
\<close>

theorem matrix_versions_contiguous:
  assumes "matrix_reachable w"
  shows "map cm_version (matrices_of tender org w)
           = rev (map int [1..<Suc (length (matrices_of tender org w))]) \<and>
         ((\<exists>r w'. generateAndPersist parse_date tender org reqs vault now due w = (Inr r, w'))
           \<longleftrightarrow> tender_view tender org w \<noteq> None)"
proof -
  have contig: "contiguous tender org w"
    using matrix_reachable_inv [OF assms] by blast
  have "(\<exists>r w'. generateAndPersist parse_date tender org reqs vault now due w = (Inr r, w'))
      \<longleftrightarrow> tender_view tender org w \<noteq> None"
    using generateAndPersist_no_tender [of tender org w]
      generateAndPersist_stored [OF _ contiguous_no_clash [OF contig]]
    by (cases "tender_view tender org w") (auto, blast)
  then show ?thesis using contig by (simp add: contiguous_def)
qed

definition matrix_demo :: world where
  "matrix_demo =
     (let w = snd (tender_intake ''Bridge'' ''c1'' ''o1'' None world0);
          gen = generateAndPersist (\<lambda>_. 0) ''u'' ''o1''
            [\<lparr>rq_id = ''r1'', rq_text = ''CR'', rq_category = ''legal'', rq_critical = True\<rparr>] [] None None
      in snd (gen (snd (gen w))))"

theorem matrix_versions_contiguous_witness:
  "matrix_reachable matrix_demo \<and> map cm_version (matrices_of ''u'' ''o1'' matrix_demo) = [2, 1]"
proof -
  have "w_matrices (snd (tender_intake ''Bridge'' ''c1'' ''o1'' None world0)) = []"
    by code_simp
  moreover have "w_uuid (snd (tender_intake ''Bridge'' ''c1'' ''o1'' None world0)) = w_uuid world0"
    by (rule ext) code_simp
  ultimately have "matrix_reachable (snd (tender_intake ''Bridge'' ''c1'' ''o1'' None world0))"
    using world0_uuid_inj by (intro matrix_start) (simp_all add: uuid_ok_def keysT_def)
  then have "matrix_reachable matrix_demo"
    unfolding matrix_demo_def Let_def by (intro matrix_generated)
  moreover have "length (matrices_of ''u'' ''o1'' matrix_demo) = 2"
    by code_simp
  ultimately show ?thesis
    using matrix_versions_contiguous [of matrix_demo "''u''" "''o1''"] by (simp add: upt_rec)
qed

end
