(* ===== verification/Reminders.thy ===== *)
theory Reminders
  imports Consent Compliance
begin

text \<open>
  Reminders (\<^verbatim>\<open>compliance/reminders.service.ts\<close>): expiry e-mails and WhatsApp nudges, each
  sent at most once per service instance, the latter only with consent. The provider is the
  file's \<^verbatim>\<open>StubNotificationProvider\<close>, which records what it is given.
\<close>

record reminder =
  rm_channel :: string
  rm_ref :: string
  rm_message :: string

record reminder_state =
  rs_seen :: "string list"
  rs_sent :: "reminder list"

definition whatsapp_purpose :: string where
  "whatsapp_purpose = ''whatsapp_reminders''"

definition stub_send :: "reminder \<Rightarrow> reminder_state \<Rightarrow> reminder_state" where
  "stub_send n st = st\<lparr>rs_sent := rs_sent st @ [n]\<rparr>"

text \<open>One document of the loop: skipped, already reminded, or sent.\<close>

definition remind_one ::
    "time \<Rightarrow> evidence_doc \<Rightarrow> reminder list \<times> reminder_state \<Rightarrow> reminder list \<times> reminder_state" where
  "remind_one cutoff d acc =
     (case ev_expiresAt d of
        None \<Rightarrow> acc
      | Some t \<Rightarrow>
          if ev_state d = ''archived'' \<or> cutoff < t then acc
          else let key = ''email:'' @ ev_id d in
            if key \<in> set (rs_seen (snd acc)) then acc
            else let n = \<lparr>rm_channel = ''email'', rm_ref = ev_id d,
                   rm_message = ''Document '' @ ev_id d @ '' expires on '' @ iso_datetime t\<rparr>
              in (fst acc @ [n], stub_send n ((snd acc)\<lparr>rs_seen := rs_seen (snd acc) @ [key]\<rparr>)))"

definition sendExpiryReminders ::
    "evidence_doc list \<Rightarrow> time \<Rightarrow> reminder_state \<Rightarrow> reminder list \<times> reminder_state" where
  "sendExpiryReminders docs cutoff st = fold (remind_one cutoff) docs ([], st)"

definition sendWhatsAppNudge ::
    "string \<Rightarrow> string \<Rightarrow> bool \<Rightarrow> reminder_state \<Rightarrow> reminder option \<times> reminder_state" where
  "sendWhatsAppNudge ref msg optedIn st =
     (let key = ''whatsapp:'' @ ref; n = \<lparr>rm_channel = ''whatsapp'', rm_ref = ref, rm_message = msg\<rparr> in
      if \<not> optedIn \<or> key \<in> set (rs_seen st) then (None, st)
      else (Some n, stub_send n (st\<lparr>rs_seen := rs_seen st @ [key]\<rparr>)))"

text \<open>\<open>injected\<close>: the consent ledger is there.\<close>

definition sendWhatsAppForSubject ::
    "bool \<Rightarrow> string \<Rightarrow> string \<Rightarrow> ident \<Rightarrow> string \<Rightarrow> reminder_state \<Rightarrow>
     (reminder option \<times> reminder_state) wact" where
  "sendWhatsAppForSubject injected ref msg org email st =
     bindA (throwIf (\<not> injected)
       (Plain ''ConsentLedgerService not injected -- wire RemindersService via DI'')) (\<lambda>_.
     bindA (hasActiveConsent org email whatsapp_purpose) (\<lambda>allowed.
     let key = ''whatsapp:'' @ ref; n = \<lparr>rm_channel = ''whatsapp'', rm_ref = ref, rm_message = msg\<rparr> in
     if \<not> allowed \<or> key \<in> set (rs_seen st) then ret (None, st)
     else ret (Some n, stub_send n (st\<lparr>rs_seen := rs_seen st @ [key]\<rparr>))))"

subsection \<open>Sent at most once\<close>

definition reminder_key :: "reminder \<Rightarrow> string" where
  "reminder_key n = rm_channel n @ '':'' @ rm_ref n"

definition reminders_ok :: "reminder_state \<Rightarrow> bool" where
  "reminders_ok st \<longleftrightarrow> map reminder_key (rs_sent st) = rs_seen st \<and> distinct (rs_seen st) \<and>
     list_all (\<lambda>n. rm_channel n \<in> {''email'', ''whatsapp''}) (rs_sent st)"

lemma reminders_ok_send:
  assumes "reminders_ok st" and "key \<notin> set (rs_seen st)" and "key = reminder_key n"
    and "rm_channel n \<in> {''email'', ''whatsapp''}"
  shows "reminders_ok (stub_send n (st\<lparr>rs_seen := rs_seen st @ [key]\<rparr>))"
  using assms by (simp add: reminders_ok_def stub_send_def)

lemma remind_one_ok: "reminders_ok (snd acc) \<Longrightarrow> reminders_ok (snd (remind_one cutoff d acc))"
  by (auto simp: remind_one_def Let_def reminder_key_def intro!: reminders_ok_send split: option.splits)

lemma sendExpiryReminders_ok: "reminders_ok st \<Longrightarrow> reminders_ok (snd (sendExpiryReminders docs cutoff st))"
proof -
  have "reminders_ok (snd acc) \<Longrightarrow> reminders_ok (snd (fold (remind_one cutoff) docs acc))" for acc
    by (induction docs arbitrary: acc) (simp_all add: remind_one_ok)
  then show "reminders_ok st \<Longrightarrow> ?thesis" by (simp add: sendExpiryReminders_def)
qed

lemma sendWhatsAppNudge_ok: "reminders_ok st \<Longrightarrow> reminders_ok (snd (sendWhatsAppNudge ref msg optedIn st))"
  by (auto simp: sendWhatsAppNudge_def Let_def reminder_key_def intro!: reminders_ok_send)

lemma sendWhatsAppForSubject_cases:
  "sendWhatsAppForSubject injected ref msg org email st w =
     (if \<not> injected then (Inl (Plain ''ConsentLedgerService not injected -- wire RemindersService via DI''), w)
      else (Inr (sendWhatsAppNudge ref msg
              (fst (hasActiveConsent org email whatsapp_purpose w) = Inr True) st), w))"
  by (auto simp add: sendWhatsAppForSubject_def sendWhatsAppNudge_def bindA_def throwIf_apply
      hasActiveConsent_apply Let_def)

text \<open>The states of a service instance.\<close>

inductive reminder_reachable :: "reminder_state \<Rightarrow> bool" where
  "reminder_reachable \<lparr>rs_seen = [], rs_sent = []\<rparr>"
| "reminder_reachable st \<Longrightarrow> reminder_reachable (snd (sendExpiryReminders docs cutoff st))"
| "reminder_reachable st \<Longrightarrow> reminder_reachable (snd (sendWhatsAppNudge ref msg optedIn st))"
| "reminder_reachable st \<Longrightarrow>
     sendWhatsAppForSubject injected ref msg org email st w = (Inr (n, st'), w') \<Longrightarrow>
     reminder_reachable st'"

lemma reminder_reachable_ok: "reminder_reachable st \<Longrightarrow> reminders_ok st"
proof (induction rule: reminder_reachable.induct)
  case 1
  then show ?case by (simp add: reminders_ok_def)
next
  case (4 st injected ref msg org email w n st' w')
  then show ?case
    using sendWhatsAppNudge_ok [of st ref msg]
    by (auto simp: sendWhatsAppForSubject_cases split: if_splits) (metis snd_conv)
qed (simp_all add: sendExpiryReminders_ok sendWhatsAppNudge_ok)

text \<open>
  C21: Over any sequence of calls a service instance sends each reminder at most once: no two
  sent messages have the same channel and reference.
\<close>

theorem reminders_sent_once:
  assumes "reminder_reachable st"
  shows "distinct (map (\<lambda>n. (rm_channel n, rm_ref n)) (rs_sent st))"
proof -
  have "distinct (map reminder_key (rs_sent st))"
    using reminder_reachable_ok [OF assms] by (simp add: reminders_ok_def)
  then show ?thesis
    by (auto simp: distinct_map inj_on_def reminder_key_def)
qed

definition reminder_demo_doc :: evidence_doc where
  "reminder_demo_doc = \<lparr>ev_id = ''d1'', ev_documentType = ''legal'', ev_state = ''active'',
     ev_expiresAt = Some 10\<rparr>"

theorem reminders_sent_once_witness:
  "distinct (map (\<lambda>n. (rm_channel n, rm_ref n)) (rs_sent (snd (sendWhatsAppNudge ''d1'' ''hi'' True
     (snd (sendExpiryReminders [reminder_demo_doc, reminder_demo_doc] 20
       \<lparr>rs_seen = [], rs_sent = []\<rparr>))))))"
  by (intro reminders_sent_once reminder_reachable.intros)


end
