(* ===== verification/Hex.thy ===== *)
theory Hex
  imports Desk_Prelude
begin

text \<open>
  Bytes and their texts, as the signature checks use them: a byte string is a list of
  characters, \<^verbatim>\<open>digest('hex')\<close> prints two digits a byte, \<^verbatim>\<open>Buffer.from(s, 'hex')\<close> stops at
  the first pair that is not hexadecimal, \<^verbatim>\<open>Buffer.from(s, 'utf8')\<close> takes two bytes for a code
  unit above 127, and \<^verbatim>\<open>timingSafeEqual\<close> is equality of buffers of equal length.
\<close>

definition hex_digit :: "nat \<Rightarrow> char" where
  "hex_digit n = char_of (if n < 10 then 48 + n else 87 + n)"

definition hex_val :: "char \<Rightarrow> nat option" where
  "hex_val c =
     (let n = of_char c :: nat in
      if 48 \<le> n \<and> n \<le> 57 then Some (n - 48)
      else if 97 \<le> n \<and> n \<le> 102 then Some (n - 87)
      else if 65 \<le> n \<and> n \<le> 70 then Some (n - 55) else None)"

definition to_hex :: "string \<Rightarrow> string" where
  "to_hex bs = concat (map (\<lambda>b. let n = of_char b :: nat in [hex_digit (n div 16), hex_digit (n mod 16)]) bs)"

fun from_hex :: "string \<Rightarrow> string" where
  "from_hex (a # b # s) =
     (case (hex_val a, hex_val b) of
        (Some x, Some y) \<Rightarrow> char_of (16 * x + y) # from_hex s
      | _ \<Rightarrow> [])"
| "from_hex _ = []"

definition utf8 :: "string \<Rightarrow> string" where
  "utf8 s = concat (map (\<lambda>c. let n = of_char c :: nat in
     if n < 128 then [c] else [char_of (192 + n div 64), char_of (128 + n mod 64)]) s)"

text \<open>Equal lengths first, then the constant-time comparison.\<close>

definition buffers_equal :: "string \<Rightarrow> string \<Rightarrow> bool" where
  "buffers_equal a b = (if length a \<noteq> length b then False else a = b)"

lemma buffers_equal_iff [simp]: "buffers_equal a b \<longleftrightarrow> a = b"
  by (auto simp: buffers_equal_def)

lemma hex_val_digit: "n < 16 \<Longrightarrow> hex_val (hex_digit n) = Some n"
  by (simp add: hex_val_def hex_digit_def Let_def)

lemma from_hex_to_hex [simp]: "from_hex (to_hex bs) = bs"
proof (induction bs)
  case (Cons b bs)
  have "(of_char b :: nat) div 16 < 16"
    by (rule less_mult_imp_div_less) simp
  then have "hex_val (hex_digit (of_char b div 16)) = Some (of_char b div 16 :: nat)"
    "hex_val (hex_digit (of_char b mod 16)) = Some (of_char b mod 16 :: nat)"
    by (simp_all add: hex_val_digit)
  then show ?case
    using Cons by (simp add: to_hex_def Let_def)
qed (simp add: to_hex_def)

lemma length_to_hex: "length (to_hex bs) = 2 * length bs"
  by (induction bs) (simp_all add: to_hex_def Let_def)

lemma char_of_inj: "m < 256 \<Longrightarrow> n < 256 \<Longrightarrow> (char_of m :: char) = char_of n \<longleftrightarrow> m = (n :: nat)"
  by (metis of_char_of mod_less)

definition utf8_char :: "char \<Rightarrow> string" where
  "utf8_char c = (let n = of_char c :: nat in
     if n < 128 then [c] else [char_of (192 + n div 64), char_of (128 + n mod 64)])"

lemma utf8_Cons: "utf8 (c # s) = utf8_char c @ utf8 s"
  by (simp add: utf8_def utf8_char_def)

lemma utf8_char_prefix:
  assumes "utf8_char c @ xs = utf8_char d @ ys"
  shows "c = d"
proof -
  let ?c = "of_char c :: nat" and ?d = "of_char d :: nat"
  have b: "?c < 256" "?d < 256" by simp_all
  have lead: "(of_char (char_of (192 + n div 64) :: char) :: nat) = 192 + n div 64" if "n < 256" for n :: nat
    using that by simp
  consider "?c < 128" "?d < 128" | "?c < 128" "?d \<ge> 128" | "?c \<ge> 128" "?d < 128" | "?c \<ge> 128" "?d \<ge> 128"
    by linarith
  then show ?thesis
  proof cases
    case 2
    then have "c = char_of (192 + ?d div 64)" using assms by (simp add: utf8_char_def Let_def)
    then have "?c = 192 + ?d div 64" using lead [OF b(2)] by metis
    then show ?thesis using 2 by simp
  next
    case 3
    then have "d = char_of (192 + ?c div 64)" using assms by (simp add: utf8_char_def Let_def)
    then have "?d = 192 + ?c div 64" using lead [OF b(1)] by metis
    then show ?thesis using 3 by simp
  next
    case 4
    then have "(char_of (192 + ?c div 64) :: char) = char_of (192 + ?d div 64)"
        "(char_of (128 + ?c mod 64) :: char) = char_of (128 + ?d mod 64)"
      using assms by (simp_all add: utf8_char_def Let_def)
    then have "192 + ?c div 64 = 192 + ?d div 64" "128 + ?c mod 64 = 128 + ?d mod 64"
      using b by (simp_all only: char_of_inj)
    then have "?c = ?d" by (metis add_left_cancel div_mult_mod_eq)
    then show ?thesis by (metis char_of_char)
  qed (use assms in \<open>simp add: utf8_char_def Let_def\<close>)
qed

lemma utf8_inj: "utf8 s = utf8 t \<longleftrightarrow> s = t"
proof
  show "utf8 s = utf8 t \<Longrightarrow> s = t"
  proof (induction s arbitrary: t)
    case Nil
    then show ?case by (cases t) (auto simp: utf8_def Let_def split: if_splits)
  next
    case (Cons c s)
    then obtain d t' where t: "t = d # t'"
      by (cases t) (auto simp: utf8_def Let_def split: if_splits)
    have "c = d" using Cons.prems by (auto simp: t utf8_Cons dest: utf8_char_prefix)
    then show ?case
      using Cons.prems Cons.IH [of t'] by (simp add: t utf8_Cons)
  qed
qed simp

end
