(* ===== verification/Export.thy ===== *)
theory Export
  imports Compliance Audit_Trail Hex
begin

text \<open>
  The submission pack (\<^verbatim>\<open>export/export.service.ts\<close>) and the endpoint that builds it
  (\<^verbatim>\<open>export/export.controller.ts\<close>): a CSV of the matrix and two JSON artifacts, behind the
  export gate. \<^verbatim>\<open>JSON.stringify\<close> is written out for what the artifacts hold: numbers are integers.
\<close>

subsection \<open>Text formats\<close>

definition quote :: char where
  "quote = CHR 0x22"

definition csvEscape :: "string \<Rightarrow> string" where
  "csvEscape v =
     (if quote \<in> set v \<or> CHR '','' \<in> set v \<or> CHR 0x0A \<in> set v
      then [quote] @ concat (map (\<lambda>c. if c = quote then [quote, quote] else [c]) v) @ [quote]
      else v)"

definition json_char :: "char \<Rightarrow> string" where
  "json_char c =
     (let n = of_char c :: nat in
      if c = quote \<or> c = CHR 0x5C then [CHR 0x5C, c]
      else if n = 8 then [CHR 0x5C, CHR ''b''] else if n = 9 then [CHR 0x5C, CHR ''t'']
      else if n = 10 then [CHR 0x5C, CHR ''n''] else if n = 12 then [CHR 0x5C, CHR ''f'']
      else if n = 13 then [CHR 0x5C, CHR ''r'']
      else if n < 32 then [CHR 0x5C, CHR ''u'', CHR ''0'', CHR ''0'', hex_digit (n div 16), hex_digit (n mod 16)]
      else [c])"

definition json_string :: "string \<Rightarrow> string" where
  "json_string s = [quote] @ concat (map json_char s) @ [quote]"

fun stringify :: "json \<Rightarrow> string"
  and stringify_elems :: "json list \<Rightarrow> string list"
  and stringify_members :: "(string \<times> json) list \<Rightarrow> string list" where
  "stringify JNull = ''null''"
| "stringify (JBool b) = (if b then ''true'' else ''false'')"
| "stringify (JNum r) = show_int \<lfloor>r\<rfloor>"
| "stringify (JStr s) = json_string s"
| "stringify (JDate t) = json_string (iso_datetime t)"
| "stringify (JArr xs) = ''['' @ join '','' (stringify_elems xs) @ '']''"
| "stringify (JObj ms) = ''{'' @ join '','' (stringify_members ms) @ ''}''"
| "stringify_elems [] = []"
| "stringify_elems (x # xs) = stringify x # stringify_elems xs"
| "stringify_members [] = []"
| "stringify_members ((k, v) # ms) = (json_string k @ '':'' @ stringify v) # stringify_members ms"

subsection \<open>The pack\<close>

record pack_artifact =
  pa_name :: string
  pa_contentType :: string
  pa_content :: string

record pack_manifest =
  pm_schemaVersion :: string
  pm_tenderId :: ident
  pm_matrixVersion :: int
  pm_generatedAt :: string
  pm_artifactNames :: "string list"
  pm_criticalGapsOverridden :: "string list"

record blocked_export =
  bx_reason :: string
  bx_blocking :: "string list"

text \<open>\<^verbatim>\<open>String(undefined)\<close> is \<^verbatim>\<open>"undefined"\<close>; an undefined member is left out of the JSON text.\<close>

definition item_cells :: "comp_item \<Rightarrow> string list" where
  "item_cells i = [it_requirementId i, it_category i, orElse (it_owner i) ''undefined'', it_risk i,
     it_status i, orElse (it_evidenceDocId i) []]"

definition csv_header :: string where
  "csv_header = ''requirementId,category,owner,risk,status,evidenceDocId''"

definition matrix_csv :: "comp_matrix \<Rightarrow> string" where
  "matrix_csv m =
     join [CHR 0x0A] (csv_header # map (\<lambda>i. join '','' (map csvEscape (item_cells i))) (mx_items m))"

definition task_json :: "task \<Rightarrow> json" where
  "task_json t = JObj ([(''title'', JStr (tk_title t))]
     @ (case tk_owner t of None \<Rightarrow> [] | Some s \<Rightarrow> [(''owner'', JStr s)])
     @ [(''dueDate'', jopt (tk_dueDate t)), (''severity'', JStr (tk_severity t)),
        (''requirementId'', JStr (tk_requirementId t))])"

definition artifacts_of :: "comp_matrix \<Rightarrow> pack_artifact list" where
  "artifacts_of m =
     [\<lparr>pa_name = ''compliance-matrix.csv'', pa_contentType = ''text/csv'', pa_content = matrix_csv m\<rparr>,
      \<lparr>pa_name = ''open-tasks.json'', pa_contentType = ''application/json'',
       pa_content = stringify (JArr (map task_json (deriveTasks m)))\<rparr>,
      \<lparr>pa_name = ''manifest.json'', pa_contentType = ''application/json'',
       pa_content = stringify (JObj [(''tenderId'', JStr (mx_tenderId m)),
         (''matrixVersion'', jint (mx_version m)), (''itemCount'', jint (int (length (mx_items m))))])\<rparr>]"

definition build_pack ::
    "comp_matrix \<Rightarrow> string list \<Rightarrow> time \<Rightarrow> blocked_export + (pack_manifest \<times> pack_artifact list)" where
  "build_pack m overridden now =
     (let gate = exportGate m overridden in
      if \<not> fst gate
      then Inl \<lparr>bx_reason = ''critical compliance gaps block readiness export'',
                bx_blocking = map it_requirementId (snd gate)\<rparr>
      else let artifacts = artifacts_of m in
        Inr (\<lparr>pm_schemaVersion = ''1'', pm_tenderId = mx_tenderId m, pm_matrixVersion = mx_version m,
              pm_generatedAt = iso_datetime now, pm_artifactNames = map pa_name artifacts,
              pm_criticalGapsOverridden = overridden\<rparr>, artifacts))"

definition to_evidence :: "client_document \<Rightarrow> evidence_doc" where
  "to_evidence d = \<lparr>ev_id = cd_id d, ev_documentType = cd_documentType d, ev_state = cd_state d,
     ev_expiresAt = cd_expiresAt d\<rparr>"

definition blocked_json :: "blocked_export \<Rightarrow> json" where
  "blocked_json b = JObj [(''blocked'', JBool True), (''reason'', JStr (bx_reason b)),
     (''blockingRequirementIds'', JArr (map JStr (bx_blocking b)))]"

definition export_pack ::
    "ident \<Rightarrow> comp_requirement list \<Rightarrow> string option \<Rightarrow> int option \<Rightarrow> string list \<Rightarrow> ident \<Rightarrow> ident \<Rightarrow>
     (pack_manifest \<times> pack_artifact list) wact" where
  "export_pack tender reqs dueDate previousVersion overridden org user =
     bindA (tender_get tender org) (\<lambda>_.
     bindA (document_list org) (\<lambda>docs.
     bindA nowA (\<lambda>t.
     let m = generateMatrix tender reqs (map to_evidence docs) t dueDate previousVersion in
     bindA nowA (\<lambda>t2.
     (case build_pack m overridden t2 of
        Inl b \<Rightarrow> throw (Conflict (blocked_json b))
      | Inr pack \<Rightarrow>
          bindA (audit_record \<lparr>cae_action = ''submission_pack_exported'', cae_entityType = ''Tender'',
            cae_entityId = tender, cae_userId = Some user, cae_org = org,
            cae_details = Some (JObj [(''matrixVersion'', jint (mx_version m)),
              (''artifacts'', JArr (map JStr (pm_artifactNames (fst pack))))])\<rparr>) (\<lambda>_.
          ret pack))))))"

subsection \<open>Reading the CSV back\<close>

text \<open>A reader of comma-separated values: quoted or not, the current cell, the cells of the row.\<close>

fun parse_csv :: "bool \<Rightarrow> string \<Rightarrow> string list \<Rightarrow> string \<Rightarrow> string list list" where
  "parse_csv q cell cells [] = [cells @ [cell]]"
| "parse_csv q cell cells (c # s) =
     (if q then
        (if c = quote then
           (case s of
              [] \<Rightarrow> [cells @ [cell]]
            | d # s' \<Rightarrow> if d = quote then parse_csv True (cell @ [quote]) cells s'
                       else parse_csv False cell cells s)
         else parse_csv True (cell @ [c]) cells s)
      else if c = quote \<and> cell = [] then parse_csv True [] cells s
      else if c = CHR '','' then parse_csv False [] (cells @ [cell]) s
      else if c = CHR 0x0A then (cells @ [cell]) # parse_csv False [] [] s
      else parse_csv False (cell @ [c]) cells s)"

definition cell_end :: "string \<Rightarrow> bool" where
  "cell_end s \<longleftrightarrow> s = [] \<or> hd s = CHR '','' \<or> hd s = CHR 0x0A"

lemma parse_quoted:
  "cell_end rest \<Longrightarrow>
     parse_csv True cell cells (concat (map (\<lambda>c. if c = quote then [quote, quote] else [c]) v) @ quote # rest)
     = parse_csv False (cell @ v) cells rest"
proof (induction v arbitrary: cell)
  case Nil
  then show ?case
    by (cases rest) (auto simp: cell_end_def quote_def)
qed auto

lemma parse_plain:
  "quote \<notin> set v \<Longrightarrow> CHR '','' \<notin> set v \<Longrightarrow> CHR 0x0A \<notin> set v \<Longrightarrow>
     parse_csv False cell cells (v @ rest) = parse_csv False (cell @ v) cells rest"
  by (induction v arbitrary: cell) auto

lemma parse_cell:
  assumes "cell_end rest"
  shows "parse_csv False [] cells (csvEscape v @ rest) = parse_csv False v cells rest"
proof (cases "quote \<in> set v \<or> CHR '','' \<in> set v \<or> CHR 0x0A \<in> set v")
  case True
  then show ?thesis
    using parse_quoted [OF assms, of "[]" cells v] by (simp add: csvEscape_def)
next
  case False
  then show ?thesis
    using parse_plain [of v "[]" cells rest] by (simp add: csvEscape_def)
qed

lemma parse_row:
  "vs \<noteq> [] \<Longrightarrow> rest = [] \<or> hd rest = CHR 0x0A \<Longrightarrow>
     parse_csv False [] cells (join '','' (map csvEscape vs) @ rest)
     = (cells @ vs) # (case rest of [] \<Rightarrow> [] | _ # s \<Rightarrow> parse_csv False [] [] s)"
proof (induction vs arbitrary: cells rule: list_nonempty_induct)
  case (single v)
  then show ?case
    using parse_cell [of rest cells v] by (cases rest) (auto simp: cell_end_def quote_def)
next
  case (cons v vs)
  then have "parse_csv False [] cells (join '','' (map csvEscape (v # vs)) @ rest)
      = parse_csv False [] cells (csvEscape v @ CHR '','' # join '','' (map csvEscape vs) @ rest)"
    by (cases vs) simp_all
  also have "\<dots> = parse_csv False [] (cells @ [v]) (join '','' (map csvEscape vs) @ rest)"
    by (subst parse_cell) (simp_all add: cell_end_def quote_def)
  finally show ?case
    using cons by simp
qed

lemma join_Cons: "xs \<noteq> [] \<Longrightarrow> join sep (x # xs) = x @ sep @ join sep xs"
  by (cases xs) simp_all

lemma parse_rows:
  "rows \<noteq> [] \<Longrightarrow> list_all (\<lambda>vs. vs \<noteq> []) rows \<Longrightarrow>
     parse_csv False [] [] (join [CHR 0x0A] (map (\<lambda>vs. join '','' (map csvEscape vs)) rows)) = rows"
proof (induction rows rule: list_nonempty_induct)
  case (single vs)
  then show ?case using parse_row [of vs "[]" "[]"] by simp
next
  case (cons vs rows)
  then show ?case
    using parse_row [of vs "CHR 0x0A # join [CHR 0x0A] (map (\<lambda>vs. join '','' (map csvEscape vs)) rows)" "[]"]
    by (simp add: join_Cons)
qed

definition header_cells :: "string list" where
  "header_cells = [''requirementId'', ''category'', ''owner'', ''risk'', ''status'', ''evidenceDocId'']"

lemma csv_header_cells: "csv_header = join '','' (map csvEscape header_cells)"
  by code_simp


subsection \<open>When a pack is issued\<close>

definition uncovered :: "comp_requirement \<Rightarrow> string list \<Rightarrow> time \<Rightarrow> client_document list \<Rightarrow> bool" where
  "uncovered r overridden now docs \<longleftrightarrow> rq_critical r \<and> rq_id r \<notin> set overridden \<and>
     \<not> (\<exists>d \<in> set docs. candidate (rq_category r) (to_evidence d) \<and>
          (usable now (to_evidence d) \<or> lapsed now (to_evidence d)))"

lemma gate_uncovered:
  "fst (exportGate (generateMatrix tender reqs (map to_evidence docs) now due prev) overridden)
     \<longleftrightarrow> \<not> (\<exists>r \<in> set reqs. uncovered r overridden now docs)"
  unfolding gate_allows_iff by (simp add: uncovered_def)

text \<open>
  The pack leaves the system exactly when the tender is the caller's and every critical
  requirement is overridden or covered by a document of the organisation; the export then leaves
  one audit row. A missing tender answers 404, an uncovered requirement 409, and neither writes
  the audit log.
\<close>

theorem pack_export_outcome:
  "let docs = rows_where (\<lambda>d. cd_org d = org) (w_documents w);
       blocked = (\<exists>r \<in> set reqs. uncovered r overridden (w_clock w (w_ticks w)) docs);
       (r, w') = export_pack tender reqs due prev overridden org user w
   in (case r of
         Inl e \<Rightarrow> w_audit w' = w_audit w \<and>
           (if tender_view tender org w = None then e = NotFound ''Tender not found''
            else blocked \<and> (\<exists>j. e = Conflict j))
       | Inr pack \<Rightarrow> tender_view tender org w \<noteq> None \<and> \<not> blocked \<and>
           snd pack = artifacts_of (generateMatrix tender reqs (map to_evidence docs)
             (w_clock w (w_ticks w)) due prev) \<and>
           (\<exists>row. w_audit w' = setT (w_uuid w (w_uuid_n w)) row (w_audit w) \<and>
              ae_action row = ''submission_pack_exported'' \<and> ae_org row = org \<and>
              ae_userId row = Some user \<and> ae_entityId row = tender))"
proof (cases "tender_view tender org w")
  case None
  then show ?thesis by (simp add: export_pack_def tender_get_apply Let_def)
next
  case (Some tn)
  let ?docs = "rows_where (\<lambda>d. cd_org d = org) (w_documents w)"
  let ?m = "generateMatrix tender reqs (map to_evidence ?docs) (w_clock w (w_ticks w)) due prev"
  show ?thesis
  proof (cases "fst (exportGate ?m overridden)")
    case True
    then show ?thesis
      using Some gate_uncovered [of tender reqs ?docs "w_clock w (w_ticks w)" due prev overridden]
      by (auto simp: export_pack_def tender_get_apply bindA_def document_list_def documents_findAll_def
          nowA_apply Let_def build_pack_def audit_record_apply)
  next
    case False
    then show ?thesis
      using Some gate_uncovered [of tender reqs ?docs "w_clock w (w_ticks w)" due prev overridden]
      by (auto simp: export_pack_def tender_get_apply bindA_def document_list_def documents_findAll_def
          nowA_apply Let_def build_pack_def)
  qed
qed

end
