(* ===== verification/Ingestion.thy ===== *)
theory Ingestion
  imports Repos_Ops DataSubject Notifications Hex
begin

text \<open>
  Work coming in: the job queue the workers poll (\<^verbatim>\<open>ingestion/ingestion.service.ts\<close>), the
  inbound e-mail transport (\<^verbatim>\<open>ingestion/inbound-email.service.ts\<close>) and the shared-token guard
  of the worker and webhook routes (\<^verbatim>\<open>ingestion/shared-token.guard.ts\<close>). The HMAC is a
  parameter \<open>hmac key message\<close> that answers the digest bytes; environment variables are
  arguments.
\<close>

subsection \<open>Jobs\<close>

definition no_job_change :: update_job where
  "no_job_change = \<lparr>uij_status = None, uij_result = None, uij_errorMessage = None,
     uij_claimedBy = None, uij_claimedAt = None, uij_completedAt = None, uij_attempts = None\<rparr>"

definition job_enqueue :: "create_job \<Rightarrow> ingestion_job wact" where
  "job_enqueue d =
     bindA (throwIf (cij_kind d = []) (BadRequest ''kind required'')) (\<lambda>_.
     bindA (jobs_create d) (\<lambda>job.
     bindA (audit_record \<lparr>cae_action = ''ingestion.enqueue'', cae_entityType = ''IngestionJob'',
       cae_entityId = ij_id job, cae_userId = cij_createdBy d, cae_org = cij_org d,
       cae_details = Some (JObj [(''kind'', JStr (cij_kind d))])\<rparr>) (\<lambda>_.
     ret job)))"

definition job_list :: "ident \<Rightarrow> string option \<Rightarrow> string option \<Rightarrow> ingestion_job list wact" where
  "job_list org status kind = jobs_findAll org status kind"

definition job_get :: "ident \<Rightarrow> ident \<Rightarrow> ingestion_job wact" where
  "job_get i org =
     bindA (jobs_findById i org) (\<lambda>j. orThrow j (NotFound ''IngestionJob not found''))"

definition claimNext :: "string \<Rightarrow> string option \<Rightarrow> ingestion_job option wact" where
  "claimNext worker kind = jobs_claimNext worker kind"

definition assertProcessing :: "ingestion_job \<Rightarrow> unit wact" where
  "assertProcessing j =
     throwIf (ij_status j \<noteq> ''processing'')
       (BadRequest (''job not in processing state (got '' @ ij_status j @ '')''))"

definition job_complete :: "ident \<Rightarrow> ident \<Rightarrow> json \<Rightarrow> ingestion_job wact" where
  "job_complete i org outcome =
     bindA (job_get i org) (\<lambda>j.
     bindA (assertProcessing j) (\<lambda>_.
     bindA nowA (\<lambda>t.
     jobs_update (no_job_change\<lparr>uij_status := Some ''completed'', uij_result := Some outcome,
       uij_completedAt := Some (Some t)\<rparr>) i org)))"

definition job_fail :: "ident \<Rightarrow> ident \<Rightarrow> string \<Rightarrow> ingestion_job wact" where
  "job_fail i org message =
     bindA (job_get i org) (\<lambda>j.
     bindA (assertProcessing j) (\<lambda>_.
     bindA nowA (\<lambda>t.
     jobs_update (no_job_change\<lparr>uij_status := Some ''failed'', uij_errorMessage := Some (Some message),
       uij_completedAt := Some (Some t)\<rparr>) i org)))"

subsection \<open>Shared tokens\<close>

definition constantTimeEquals :: "string \<Rightarrow> string \<Rightarrow> bool" where
  "constantTimeEquals a b = buffers_equal (utf8 a) (utf8 b)"

text \<open>
  The guard: the name of the environment variable the route is decorated with, the environment
  and the request headers (the first value of a repeated header).
\<close>

definition shared_token_guard ::
    "string option \<Rightarrow> (string \<Rightarrow> string option) \<Rightarrow> (string \<Rightarrow> string option) \<Rightarrow> api_error + bool" where
  "shared_token_guard env_name env headers =
     (case env_name of
        None \<Rightarrow> Inr True
      | Some name \<Rightarrow>
          if name = [] then Inr True
          else if \<not> truthyS (env name) then Inl (Unauthorized ''Unauthorized'')
          else let header = (if toLowerCase name = ''worker_api_token'' then ''x-worker-token''
                             else ''x-webhook-token'');
                   presented = headers header in
            if \<not> truthyS presented \<or> \<not> constantTimeEquals (the presented) (the (env name))
            then Inl (Unauthorized ''Unauthorized'') else Inr True)"

subsection \<open>Inbound e-mail\<close>

record email_payload =
  ep_timestamp :: string
  ep_token :: string
  ep_signature :: string
  ep_messageId :: string
  ep_from :: string
  ep_to :: string
  ep_subject :: "string option"
  ep_bodyPlain :: "string option"

record email_result =
  er_status :: string
  er_rowId :: ident
  er_messageId :: string
  er_routedAction :: "string option"
  er_routedEntityId :: "string option"
  er_rejectionReason :: "string option"

definition max_body :: nat where
  "max_body = 16 * 1024"

definition verifySignature ::
    "(string \<Rightarrow> string \<Rightarrow> string) \<Rightarrow> string \<Rightarrow> string \<Rightarrow> string \<Rightarrow> string \<Rightarrow> bool" where
  "verifySignature hmac timestamp token signature key =
     (if key = [] then False
      else buffers_equal (from_hex (to_hex (hmac key (timestamp @ token)))) (from_hex signature))"

text \<open>
  \<^verbatim>\<open>/<([^>]+)>/\<close>: the leftmost opening bracket that something other than \<^verbatim>\<open>>\<close> and then a
  closing bracket follows.
\<close>

fun angle_address :: "string \<Rightarrow> string option" where
  "angle_address [] = None"
| "angle_address (c # s) =
     (if c = CHR ''<'' \<and> takeWhile (\<lambda>x. x \<noteq> CHR ''>'') s \<noteq> [] \<and> dropWhile (\<lambda>x. x \<noteq> CHR ''>'') s \<noteq> []
      then Some (takeWhile (\<lambda>x. x \<noteq> CHR ''>'') s) else angle_address s)"

text \<open>\<^verbatim>\<open>^prefix\+([^@]+)@\<close> on the lower-cased address.\<close>

definition parseRecipient :: "string \<Rightarrow> string \<Rightarrow> string option" where
  "parseRecipient to_address prefix =
     (let addr = toLowerCase (trim (orElse (angle_address to_address) to_address));
          start = prefix @ ''+''; rest = drop (length start) addr;
          org = takeWhile (\<lambda>x. x \<noteq> CHR ''@'') rest
      in if starts_with addr start \<and> org \<noteq> [] \<and> dropWhile (\<lambda>x. x \<noteq> CHR ''@'') rest \<noteq> []
         then Some org else None)"

record routing =
  rt_status :: string
  rt_org :: "ident option"
  rt_action :: "string option"
  rt_entityType :: "string option"
  rt_entityId :: "string option"
  rt_reason :: "string option"

definition tryRoute :: "email_payload \<Rightarrow> string \<Rightarrow> routing wact" where
  "tryRoute p body =
     (case parseRecipient (ep_to p) ''dsr'' of
        None \<Rightarrow> ret \<lparr>rt_status = ''unrouted'', rt_org = None, rt_action = None, rt_entityType = None,
                     rt_entityId = None, rt_reason = None\<rparr>
      | Some org \<Rightarrow>
          tryA
            (bindA (createRequest org ''access'' (toLowerCase (ep_from p)) None
               (Some (''inbound email: '' @ orElse (ep_subject p) ''(no subject)'' @
                      '' -- body excerpt: '' @ take 280 body))) (\<lambda>req.
             ret \<lparr>rt_status = ''routed'', rt_org = Some org,
                  rt_action = Some ''data_subject.access.requested'',
                  rt_entityType = Some ''DataSubjectRequest'', rt_entityId = Some (ds_id req),
                  rt_reason = None\<rparr>))
            (\<lambda>e. ret \<lparr>rt_status = ''unrouted'', rt_org = Some org, rt_action = None,
                  rt_entityType = None, rt_entityId = None,
                  rt_reason = Some (''routing-failed: '' @ error_message e)\<rparr>))"

definition email_audit :: "email_payload \<Rightarrow> routing \<Rightarrow> inbound_email \<Rightarrow> unit wact" where
  "email_audit p routed row =
     (case rt_org routed of
        None \<Rightarrow> ret ()
      | Some org \<Rightarrow>
          if org = [] then ret ()
          else bindA (audit_record \<lparr>cae_action = ''inbound_email.received'',
            cae_entityType = ''InboundEmail'', cae_entityId = ie_id row, cae_userId = None,
            cae_org = org,
            cae_details = Some (JObj ([(''from'', JStr (ep_from p)), (''to'', JStr (ep_to p)),
              (''status'', JStr (rt_status routed))]
              @ (case rt_action routed of None \<Rightarrow> [] | Some a \<Rightarrow> [(''routedAction'', JStr a)])))\<rparr>)
            (\<lambda>_. ret ()))"

definition email_receive ::
    "(string \<Rightarrow> string \<Rightarrow> string) \<Rightarrow> email_payload \<Rightarrow> string \<Rightarrow> email_result wact" where
  "email_receive hmac p key =
     bindA (throwIf (\<not> verifySignature hmac (ep_timestamp p) (ep_token p) (ep_signature p) key)
       (Forbidden ''invalid signature'')) (\<lambda>_.
     bindA (throwIf (ep_messageId p = [] \<or> ep_from p = [] \<or> ep_to p = [])
       (BadRequest ''messageId, from, to are required'')) (\<lambda>_.
     bindA (emails_findByMessageId (ep_messageId p)) (\<lambda>existing.
     (case existing of
        Some row \<Rightarrow> ret \<lparr>er_status = ''duplicate'', er_rowId = ie_id row, er_messageId = ie_messageId row,
          er_routedAction = ie_routedAction row, er_routedEntityId = ie_routedEntityId row,
          er_rejectionReason = None\<rparr>
      | None \<Rightarrow>
          let body = take max_body (orElse (ep_bodyPlain p) []) in
          bindA (tryRoute p body) (\<lambda>routed.
          bindA (emails_create \<lparr>cie_messageId = ep_messageId p, cie_org = rt_org routed,
            cie_fromAddress = ep_from p, cie_toAddress = ep_to p, cie_subject = ep_subject p,
            cie_body = body, cie_status = rt_status routed, cie_routedAction = rt_action routed,
            cie_routedEntityType = rt_entityType routed, cie_routedEntityId = rt_entityId routed,
            cie_rejectionReason = rt_reason routed, cie_receivedAt = None\<rparr>) (\<lambda>row.
          bindA (email_audit p routed row) (\<lambda>_.
          ret \<lparr>er_status = rt_status routed, er_rowId = ie_id row, er_messageId = ie_messageId row,
            er_routedAction = rt_action routed, er_routedEntityId = rt_entityId routed,
            er_rejectionReason = rt_reason routed\<rparr>)))))))"

definition email_recent :: "ident \<Rightarrow> nat option \<Rightarrow> inbound_email list wact" where
  "email_recent org limit = emails_findRecent org (orElse limit 100)"

subsection \<open>The life of a job\<close>

inductive ij_move :: "ingestion_job \<Rightarrow> ingestion_job \<Rightarrow> bool" where
  ij_claim: "ij_status j = ''pending'' \<Longrightarrow>
     ij_move j (j\<lparr>ij_status := ''processing'', ij_claimedBy := Some worker, ij_claimedAt := Some t1,
       ij_attempts := ij_attempts j + 1, ij_updatedAt := t2\<rparr>)"
| ij_finish: "ij_status j = ''processing'' \<Longrightarrow> status = ''completed'' \<or> status = ''failed'' \<Longrightarrow>
     ij_move j (j\<lparr>ij_status := status, ij_result := outcome, ij_errorMessage := message,
       ij_completedAt := Some t1, ij_updatedAt := t2\<rparr>)"

definition ij_new :: "ingestion_job \<Rightarrow> bool" where
  "ij_new j \<longleftrightarrow> ij_status j = ''pending'' \<and> ij_attempts j = 0 \<and> ij_claimedBy j = None"

definition ij_ok :: "ingestion_job \<Rightarrow> bool" where
  "ij_ok j \<longleftrightarrow>
     (if ij_status j = ''pending'' then ij_attempts j = 0 \<and> ij_claimedBy j = None
      else ij_status j \<in> {''processing'', ''completed'', ''failed''} \<and> ij_attempts j = 1 \<and>
           ij_claimedBy j \<noteq> None)"

definition ij_final :: "ingestion_job \<Rightarrow> bool" where
  "ij_final j \<longleftrightarrow> ij_status j = ''completed'' \<or> ij_status j = ''failed''"

interpretation ij_machine: row_machine w_jobs ij_move ij_new ij_ok ij_final
proof
  show "ij_ok r'" if "ij_move r r'" "ij_ok r" for r r'
    using that by (induction rule: ij_move.induct) (auto simp: ij_ok_def)
  show "ij_ok r" if "ij_new r" for r
    using that by (simp add: ij_new_def ij_ok_def)
  show "\<not> ij_move r r'" if "ij_final r" for r r'
    using that by (auto simp: ij_final_def elim: ij_move.cases)
qed

lemma ij_move_id: "ij_move j j' \<Longrightarrow> ij_id j' = ij_id j \<and> ij_org j' = ij_org j"
  by (induction rule: ij_move.induct) simp_all

lemma job_enqueue_steps: "row_step w_jobs ij_move ij_new w (snd (job_enqueue d w))"
proof (cases "cij_kind d = []")
  case True
  then show ?thesis by (simp add: job_enqueue_def row_step_refl)
next
  case False
  let ?r = "\<lparr>ij_id = w_uuid w (w_uuid_n w), ij_org = cij_org d, ij_kind = cij_kind d,
    ij_status = ''pending'', ij_payload = cij_payload d, ij_result = JNull, ij_errorMessage = None,
    ij_attempts = 0, ij_claimedBy = None, ij_claimedAt = None, ij_completedAt = None,
    ij_createdBy = cij_createdBy d, ij_createdAt = w_clock w (w_ticks w),
    ij_updatedAt = w_clock w (w_ticks w)\<rparr>"
  show ?thesis
    by (rule row_added [of ij_new ?r])
       (use False in \<open>simp_all add: ij_new_def job_enqueue_def bindA_def jobs_create_def nowA_def
          uuidA_def insert_row_apply audit_record_apply Let_def\<close>)
qed

lemma enqueue_tbl_ok:
  "tbl_ok ij_id (w_jobs w) \<Longrightarrow> tbl_ok ij_id (w_jobs (snd (job_enqueue d w)))"
  by (cases "cij_kind d = []")
     (simp_all add: job_enqueue_def bindA_def jobs_create_def nowA_def uuidA_def insert_row_apply
        audit_record_apply Let_def tbl_ok_setT)

text \<open>A claim takes the first pending job in order of creation, if there is one.\<close>

lemma claimNext_none: "pending_jobs kind w = [] \<Longrightarrow> claimNext worker kind w = (Inr None, w)"
  by (simp add: claimNext_def jobs_claimNext_def)

lemma claimNext_some:
  assumes "pending_jobs kind w = j # js" and "tbl_ok ij_id (w_jobs w)"
  shows "\<exists>j' w'. claimNext worker kind w = (Inr (Some j'), w') \<and> ij_move j j' \<and>
    ij_claimedBy j' = Some worker \<and> ij_status j' = ''processing'' \<and> getT (w_jobs w) (ij_id j) = Some j \<and>
    w_jobs w' = setT (ij_id j) j' (w_jobs w) \<and> uuid_adv w w'"
proof -
  have "j \<in> set (pending_jobs kind w)" using assms(1) by simp
  then have j: "j \<in> set (rowsT (w_jobs w))" "ij_status j = ''pending''"
    by (simp_all add: pending_jobs_def claimable_def)
  let ?j' = "j\<lparr>ij_status := ''processing'', ij_claimedBy := Some worker,
    ij_claimedAt := Some (w_clock w (w_ticks w)), ij_attempts := ij_attempts j + 1,
    ij_updatedAt := w_clock w (Suc (w_ticks w))\<rparr>"
  have "claimNext worker kind w = (Inr (Some ?j'), w_jobs_update (setT (ij_id j) ?j')
      (w\<lparr>w_ticks := Suc (Suc (w_ticks w))\<rparr>))"
    using assms(1) by (simp add: claimNext_def jobs_claimNext_def nowA_def bindA_def Let_def)
  moreover have "ij_move j ?j'" using j(2) by (rule ij_claim)
  ultimately show ?thesis
    using tbl_ok_rowsT [OF assms(2) j(1)] by (auto simp: uuid_adv_def)
qed

lemma claim_steps:
  assumes "tbl_ok ij_id (w_jobs w)"
  shows "row_step w_jobs ij_move ij_new w (snd (claimNext worker kind w)) \<and>
    tbl_ok ij_id (w_jobs (snd (claimNext worker kind w)))"
proof (cases "pending_jobs kind w")
  case Nil
  then show ?thesis using assms by (simp add: claimNext_none row_step_refl)
next
  case (Cons j js)
  obtain j' w' where c: "claimNext worker kind w = (Inr (Some j'), w')" "ij_move j j'"
      "getT (w_jobs w) (ij_id j) = Some j" "w_jobs w' = setT (ij_id j) j' (w_jobs w)" "uuid_adv w w'"
    using claimNext_some [OF Cons assms, of worker] by blast
  have "row_step w_jobs ij_move ij_new w w'"
    by (rule row_moved [where get = w_jobs and move = ij_move and new = ij_new, OF c(3,2,4,5)])
  then show ?thesis
    using c(1,4) tbl_ok_setT [OF assms, of j' "ij_id j"] ij_move_id [OF c(2)] by simp
qed

text \<open>Both ways of finishing a job.\<close>

lemma finish_steps:
  assumes "tbl_ok ij_id (w_jobs w)"
    and run: "m = bindA (job_get i org) (\<lambda>j. bindA (assertProcessing j) (\<lambda>_. bindA nowA (\<lambda>t.
                jobs_update (no_job_change\<lparr>uij_status := Some status, uij_result := res,
                  uij_errorMessage := msg, uij_completedAt := Some (Some t)\<rparr>) i org)))"
    and status: "status = ''completed'' \<or> status = ''failed''"
  shows "row_step w_jobs ij_move ij_new w (snd (m w)) \<and> tbl_ok ij_id (w_jobs (snd (m w)))"
proof (cases "job_view i org w")
  case None
  then show ?thesis
    using assms(1) by (simp add: run job_get_def jobs_findById_def bindA_def row_step_refl)
next
  case (Some j)
  then have get: "getT (w_jobs w) i = Some j" and view: "scoped ij_org (w_jobs w) i org = Some j"
    by (simp_all add: job_view_def scoped_Some_iff)
  show ?thesis
  proof (cases "ij_status j = ''processing''")
    case False
    then show ?thesis
      using assms(1) Some
      by (simp add: run job_get_def jobs_findById_def bindA_def assertProcessing_def row_step_refl)
  next
    case True
    let ?p = "no_job_change\<lparr>uij_status := Some status, uij_result := res,
      uij_errorMessage := msg, uij_completedAt := Some (Some (w_clock w (w_ticks w)))\<rparr>"
    let ?j' = "ij_patch ?p (w_clock w (Suc (w_ticks w))) j"
    have j': "?j' = j\<lparr>ij_status := status, ij_result := orElse res (ij_result j),
        ij_errorMessage := orElse msg (ij_errorMessage j),
        ij_completedAt := Some (w_clock w (w_ticks w)), ij_updatedAt := w_clock w (Suc (w_ticks w))\<rparr>"
      by (cases res; cases msg) (simp_all add: ij_patch_def no_job_change_def)
    have move: "ij_move j ?j'"
      unfolding j' using True status by (rule ij_finish)
    let ?w1 = "w\<lparr>w_ticks := Suc (w_ticks w)\<rparr>"
    have "jobs_update ?p i org ?w1 = (Inr ?j', w_jobs_update (setT i ?j') (?w1\<lparr>w_ticks := Suc (Suc (w_ticks w))\<rparr>))"
      unfolding jobs_update_def by (subst scoped_update_Some [where r = j]) (simp_all add: view)
    then have "snd (m w) = w_jobs_update (setT i ?j') (?w1\<lparr>w_ticks := Suc (Suc (w_ticks w))\<rparr>)"
      using Some True
      by (simp add: run job_get_def jobs_findById_def bindA_def assertProcessing_def nowA_def)
    then have w': "w_jobs (snd (m w)) = setT i ?j' (w_jobs w)" "uuid_adv w (snd (m w))"
      by (simp_all add: uuid_adv_def)
    have "row_step w_jobs ij_move ij_new w (snd (m w))"
      by (rule row_moved [where get = w_jobs and move = ij_move and new = ij_new, OF get move w'])
    then show ?thesis
      using tbl_ok_setT [OF assms(1), of ?j' i] tbl_ok_getT [OF assms(1) get] ij_move_id [OF move]
      by (simp add: w'(1))
  qed
qed

inductive ij_step :: "world \<Rightarrow> world \<Rightarrow> bool" where
  ij_enqueued: "ij_step w (snd (job_enqueue d w))"
| ij_claimed: "ij_step w (snd (claimNext worker kind w))"
| ij_completed: "ij_step w (snd (job_complete i org outcome w))"
| ij_failed: "ij_step w (snd (job_fail i org message w))"
| ij_elsewhere: "frame w_jobs w w' \<Longrightarrow> ij_step w w'"

lemma ij_step_refines:
  "ij_step w w' \<Longrightarrow> tbl_ok ij_id (w_jobs w) \<Longrightarrow>
     row_step w_jobs ij_move ij_new w w' \<and> tbl_ok ij_id (w_jobs w')"
proof (induction rule: ij_step.induct)
  case (ij_completed w i org outcome)
  then show ?case
    by (rule finish_steps [where status = "''completed''" and res = "Some outcome" and msg = None])
       (simp_all add: job_complete_def no_job_change_def)
next
  case (ij_failed w i org message)
  then show ?case
    by (rule finish_steps [where status = "''failed''" and res = None and msg = "Some (Some message)"])
       (simp_all add: job_fail_def no_job_change_def)
next
  case (ij_elsewhere w w')
  then show ?case by (metis frame_def frame_row_step)
qed (simp_all add: job_enqueue_steps enqueue_tbl_ok claim_steps)

inductive ij_reachable :: "world \<Rightarrow> bool" where
  ij_start: "w_jobs w = [] \<Longrightarrow> uuid_ok w_jobs w \<Longrightarrow> ij_reachable w"
| ij_next: "ij_reachable w \<Longrightarrow> ij_step w w' \<Longrightarrow> ij_reachable w'"

lemma ij_reachable_inv:
  "ij_reachable w \<Longrightarrow>
     tbl_ok ij_id (w_jobs w) \<and> uuid_ok w_jobs w \<and> (\<forall>j \<in> set (rowsT (w_jobs w)). ij_ok j)"
proof (induction rule: ij_reachable.induct)
  case (ij_start w)
  then show ?case by (simp add: rowsT_def)
next
  case (ij_next w w')
  then have step: "row_step w_jobs ij_move ij_new w w'" "tbl_ok ij_id (w_jobs w')"
    using ij_step_refines by blast+
  show ?case
    using step(2) row_step_uuid_ok [OF step(1)] ij_machine.rows_ok [OF step(1)] ij_next.IH by blast
qed

text \<open>
  C12: In every reachable world a job is either pending and untouched or was claimed exactly
  once, by a recorded worker; whatever happens next it stays under its id in its organisation
  and only moves from pending to processing and from processing to completed or failed, and a
  completed or failed job never changes again.
\<close>

theorem job_lifecycle:
  assumes "ij_reachable w" and "ij_step w w'" and "job_view i org w = Some j"
  shows "(if ij_status j = ''pending'' then ij_attempts j = 0 \<and> ij_claimedBy j = None
          else ij_status j \<in> {''processing'', ''completed'', ''failed''} \<and> ij_attempts j = 1 \<and>
               ij_claimedBy j \<noteq> None) \<and>
         (\<exists>j'. job_view i org w' = Some j' \<and> ij_move\<^sup>*\<^sup>* j j' \<and>
            (if ij_status j \<in> {''completed'', ''failed''} then j' = j else True))"
proof -
  have inv: "tbl_ok ij_id (w_jobs w)" "uuid_ok w_jobs w" "\<forall>j \<in> set (rowsT (w_jobs w)). ij_ok j"
    using ij_reachable_inv [OF assms(1)] by blast+
  have get: "getT (w_jobs w) i = Some j" "ij_org j = org"
    using assms(3) by (simp_all add: job_view_def scoped_Some_iff)
  have step: "row_step w_jobs ij_move ij_new w w'"
    using ij_step_refines [OF assms(2) inv(1)] by blast
  obtain j' where j': "getT (w_jobs w') i = Some j'" "ij_move\<^sup>*\<^sup>* j j'"
    using row_step_moves [OF step inv(2) get(1)] by blast
  have "ij_org j' = ij_org j"
    using j'(2) by (induction rule: rtranclp_induct) (simp_all add: ij_move_id)
  moreover have "j' = j" if "ij_final j"
    using ij_machine.final_frozen [OF step inv(2) get(1) that] j'(1) by simp
  ultimately show ?thesis
    using inv(3) rowsT_getT [OF get(1)] j' get(2)
    by (auto simp: ij_ok_def ij_final_def job_view_def scoped_Some_iff)
qed

definition job_demo :: world where
  "job_demo = snd (job_enqueue \<lparr>cij_org = ''o1'', cij_kind = ''ocr'', cij_payload = JNull,
     cij_createdBy = None\<rparr> world0)"

lemma job_demo_reachable: "ij_reachable job_demo"
proof -
  have "uuid_ok w_jobs world0" "w_jobs world0 = []"
    using world0_uuid_inj by (simp_all add: uuid_ok_def world0_def keysT_def)
  then show ?thesis
    unfolding job_demo_def by (intro ij_next [OF ij_start ij_enqueued])
qed

theorem job_lifecycle_witness:
  "\<exists>j j'. job_view ''u'' ''o1'' job_demo = Some j \<and> ij_attempts j = 0 \<and>
     job_view ''u'' ''o1'' (snd (claimNext ''w1'' None job_demo)) = Some j' \<and> ij_move\<^sup>*\<^sup>* j j'"
proof -
  let ?j = "the (job_view ''u'' ''o1'' job_demo)"
  have "job_view ''u'' ''o1'' job_demo \<noteq> None" "ij_status ?j = ''pending''"
    by code_simp+
  then show ?thesis
    using job_lifecycle [OF job_demo_reachable ij_claimed, of "''u''" "''o1''" ?j] by auto
qed

text \<open>
  Claiming is first in, first out: in a reachable world a worker gets nothing exactly when
  no job of the kind is pending; otherwise it gets the pending job of the kind that was created
  first, now processing under its name, and no other job changes.
\<close>

theorem claim_takes_oldest:
  assumes "ij_reachable w"
  shows "case claimNext worker kind w of
      (Inr None, w') \<Rightarrow> w' = w \<and> \<not> (\<exists>x \<in> set (rowsT (w_jobs w)). claimable kind x)
    | (Inr (Some j'), w') \<Rightarrow>
        (\<exists>j \<in> set (rowsT (w_jobs w)). claimable kind j \<and> ij_id j' = ij_id j \<and>
           ij_status j' = ''processing'' \<and> ij_claimedBy j' = Some worker \<and>
           \<not> (\<exists>x \<in> set (rowsT (w_jobs w)). claimable kind x \<and> ij_createdAt x < ij_createdAt j) \<and>
           w_jobs w' = setT (ij_id j) j' (w_jobs w))
    | (Inl _, _) \<Rightarrow> False"
proof (cases "pending_jobs kind w")
  case Nil
  then have "rows_where (claimable kind) (w_jobs w) = []"
    by (metis pending_jobs_def set_empty set_sort_asc)
  then have "\<not> (\<exists>x \<in> set (rowsT (w_jobs w)). claimable kind x)"
    by (metis (mono_tags, lifting) empty_iff list.set(1) mem_Collect_eq set_rows_where)
  then show ?thesis using Nil by (simp add: claimNext_none)
next
  case (Cons j js)
  have "tbl_ok ij_id (w_jobs w)" using ij_reachable_inv [OF assms] by blast
  then obtain j' w' where c: "claimNext worker kind w = (Inr (Some j'), w')" "ij_move j j'"
      "ij_claimedBy j' = Some worker" "ij_status j' = ''processing''"
      "w_jobs w' = setT (ij_id j) j' (w_jobs w)"
    using claimNext_some [OF Cons, of worker] by blast
  have "j \<in> set (pending_jobs kind w)" using Cons by simp
  then have j: "j \<in> set (rowsT (w_jobs w))" "claimable kind j"
    by (simp_all add: pending_jobs_def)
  have "ij_createdAt j \<le> ij_createdAt x" if "x \<in> set (rowsT (w_jobs w))" "claimable kind x" for x
    by (rule sort_asc_hd_min [OF Cons [unfolded pending_jobs_def]]) (simp add: that)
  then show ?thesis
    using c j ij_move_id [OF c(2)] by (auto simp: not_less intro!: bexI [of _ j])
qed

theorem claim_takes_oldest_witness:
  "\<exists>j. fst (claimNext ''w1'' (Some ''ocr'') job_demo) = Inr (Some j) \<and> ij_claimedBy j = Some ''w1''"
proof -
  have "fst (claimNext ''w1'' (Some ''ocr'') job_demo) \<noteq> Inr None"
    by code_simp
  then show ?thesis
    using claim_takes_oldest [OF job_demo_reachable, where worker = "''w1''" and kind = "Some ''ocr''"]
    by (auto split: prod.splits sum.splits option.splits)
qed

subsection \<open>Inbound e-mail: authentic, and once\<close>

lemma find_snoc:
  "List.find P xs = None \<Longrightarrow> List.find P (xs @ [x]) = (if P x then Some x else None)"
  by (induction xs) (auto split: if_splits)

lemma frame_requests_create [runs_rules]:
  assumes "\<And>w n. get (w\<lparr>w_uuid_n := n\<rparr>) = get w" "\<And>w n. get (w\<lparr>w_ticks := n\<rparr>) = get w"
    and "\<And>w f. get (w_requests_update f w) = get w"
  shows "runs (frame get) (requests_create d)"
  using assms
  by (simp add: runs_def requests_create_def bindA_def uuidA_def nowA_def insert_row_apply
      frame_def uuid_adv_def)

lemma frame_tryRoute: "runs (frame w_emails) (tryRoute p body)"
  unfolding tryRoute_def createRequest_def
  by (intro runs_rules) simp_all

lemma frame_email_audit: "runs (frame w_emails) (email_audit p routed row)"
  unfolding email_audit_def
  by (intro runs_rules) simp_all

lemma email_audit_Inr: "\<exists>w'. email_audit p routed row w = (Inr (), w')"
  by (auto simp: email_audit_def bindA_def audit_record_apply Let_def split: option.splits)

lemma tryRoute_Inr: "\<exists>r w'. tryRoute p body w = (Inr r, w')"
proof (cases "parseRecipient (ep_to p) ''dsr''")
  case (Some org)
  then show ?thesis
    by (auto simp: tryRoute_def tryA_def split: prod.splits sum.splits)
qed (simp add: tryRoute_def)

lemma emails_create_fresh:
  assumes "email_by_message (cie_messageId d) w = None" and "uuid_ok w_emails w"
  shows "\<exists>row w'. emails_create d w = (Inr row, w') \<and> ie_messageId row = cie_messageId d \<and>
    rowsT (w_emails w') = rowsT (w_emails w) @ [row]"
  using assms rowsT_setT_fresh [OF uuid_ok_next [OF assms(2)]]
  by (cases "cie_receivedAt d")
     (simp_all add: emails_create_def emails_findByMessageId_def bindA_def uuidA_def nowA_def
       insert_row_apply)

text \<open>A delivery that is accepted leaves a row with its message id, the one it answers with.\<close>

lemma email_receive_row:
  assumes "uuid_ok w_emails w" and "email_receive hmac p key w = (Inr r, w')"
  shows "\<exists>row. email_by_message (ep_messageId p) w' = Some row \<and> ie_id row = er_rowId r"
proof -
  have ok: "verifySignature hmac (ep_timestamp p) (ep_token p) (ep_signature p) key"
      "\<not> (ep_messageId p = [] \<or> ep_from p = [] \<or> ep_to p = [])"
    using assms(2) by (auto simp: email_receive_def bindA_def throwIf_apply split: if_splits)
  show ?thesis
  proof (cases "email_by_message (ep_messageId p) w")
    case (Some row)
    then show ?thesis
      using assms(2) ok by (auto simp: email_receive_def bindA_def throwIf_apply emails_findByMessageId_def)
  next
    case None
    let ?body = "take max_body (orElse (ep_bodyPlain p) [])"
    obtain routed w1 where rt: "tryRoute p ?body w = (Inr routed, w1)"
      using tryRoute_Inr by blast
    have fr: "frame w_emails w w1" by (rule runsD_eq [OF frame_tryRoute rt])
    let ?d = "\<lparr>cie_messageId = ep_messageId p, cie_org = rt_org routed,
            cie_fromAddress = ep_from p, cie_toAddress = ep_to p, cie_subject = ep_subject p,
            cie_body = ?body, cie_status = rt_status routed, cie_routedAction = rt_action routed,
            cie_routedEntityType = rt_entityType routed, cie_routedEntityId = rt_entityId routed,
            cie_rejectionReason = rt_reason routed, cie_receivedAt = None\<rparr>"
    have none: "email_by_message (cie_messageId ?d) w1 = None"
      using None fr by (simp add: email_by_message_def frame_def)
    obtain row w2 where cr: "emails_create ?d w1 = (Inr row, w2)" "ie_messageId row = ep_messageId p"
        "rowsT (w_emails w2) = rowsT (w_emails w1) @ [row]"
      using emails_create_fresh [OF none frame_uuid_ok [OF fr assms(1)]] by auto
    obtain w3 where au: "email_audit p routed row w2 = (Inr (), w3)"
      using email_audit_Inr by blast
    have "w_emails w3 = w_emails w2"
      using runsD_eq [OF frame_email_audit au] by (simp add: frame_def)
    then have "email_by_message (ep_messageId p) w3 = Some row"
      using none cr(2,3) by (auto simp: email_by_message_def find_snoc)
    moreover have "er_rowId r = ie_id row" "w' = w3"
      using assms(2) ok None rt cr(1) au
      by (auto simp: email_receive_def bindA_def throwIf_apply emails_findByMessageId_def Let_def)
    ultimately show ?thesis by simp
  qed
qed


definition email_demo :: email_payload where
  "email_demo = \<lparr>ep_timestamp = ''1'', ep_token = ''t'', ep_signature = ''316b'', ep_messageId = ''m1'',
     ep_from = ''S@x'', ep_to = ''x'', ep_subject = None, ep_bodyPlain = None\<rparr>"

lemma email_demo_verified: "verifySignature (\<lambda>k m. ''1k'') ts tok ''316b'' ''k''"
  by code_simp

lemma email_demo_recipient: "parseRecipient ''x'' ''dsr'' = None"
  by code_simp


text \<open>
  Nothing happens without the signing key: unless the key is set and the signature spells,
  in hexadecimal, the digest of timestamp and token under it, the delivery is refused and the
  world is untouched.
\<close>

theorem inbound_email_authentic:
  "if key \<noteq> [] \<and> from_hex (ep_signature p) = hmac key (ep_timestamp p @ ep_token p)
   then verifySignature hmac (ep_timestamp p) (ep_token p) (ep_signature p) key
   else email_receive hmac p key w = (Inl (Forbidden ''invalid signature''), w)"
  by (auto simp: verifySignature_def email_receive_def)

end
