(* ===== verification/Webhooks.thy ===== *)
theory Webhooks
  imports Repos_Ops Notifications Hex Export "HOL-Library.List_Lexorder" "HOL-Library.Char_ord"
begin

text \<open>
  Outgoing webhooks: signing (\<^verbatim>\<open>webhooks/webhook-signing.ts\<close>), the subscriptions of a tenant
  (\<^verbatim>\<open>webhooks/webhook-subscription.service.ts\<close>) and delivery with retries
  (\<^verbatim>\<open>webhooks/webhook-dispatcher.service.ts\<close>). Parameters: the HMAC, the URL parser, the
  random secret, the HTTP request \<open>fetch url body headers\<close>, which answers a status or throws,
  and the waiting \<open>sleep\<close> between attempts.
\<close>

subsection \<open>Signing\<close>

definition signWebhookBody :: "(string \<Rightarrow> string \<Rightarrow> string) \<Rightarrow> string \<Rightarrow> string \<Rightarrow> int \<Rightarrow> string" where
  "signWebhookBody hmac secret body timestamp =
     ''sha256='' @ to_hex (hmac secret (show_int timestamp @ ''.'' @ body))"

record signature_headers =
  sh_timestamp :: string
  sh_signature :: string
  sh_event :: string
  sh_idempotencyKey :: string
  sh_contentType :: string

definition buildHeaders ::
    "(string \<Rightarrow> string \<Rightarrow> string) \<Rightarrow> string \<Rightarrow> string \<Rightarrow> string \<Rightarrow> string \<Rightarrow> time \<Rightarrow> signature_headers" where
  "buildHeaders hmac secret body eventType deliveryId date_now =
     (let ts = date_now div 1000
      in \<lparr>sh_timestamp = show_int ts, sh_signature = signWebhookBody hmac secret body ts,
          sh_event = eventType, sh_idempotencyKey = deliveryId,
          sh_contentType = ''application/json''\<rparr>)"

definition verifyWebhookSignature ::
    "(string \<Rightarrow> string \<Rightarrow> string) \<Rightarrow> string \<Rightarrow> string \<Rightarrow> int \<Rightarrow> string \<Rightarrow> bool" where
  "verifyWebhookSignature hmac secret body timestamp header =
     (if \<not> starts_with header ''sha256='' then False
      else buffers_equal (from_hex (drop (length ''sha256='') header))
             (from_hex (to_hex (hmac secret (show_int timestamp @ ''.'' @ body)))))"

subsection \<open>Subscriptions\<close>

record public_hook =
  ph_id :: ident
  ph_org :: ident
  ph_url :: string
  ph_eventTypes :: "string list"
  ph_active :: bool
  ph_description :: "string option"
  ph_createdBy :: ident
  ph_createdAt :: time
  ph_updatedAt :: time

definition strip :: "webhook_subscription \<Rightarrow> public_hook" where
  "strip r = \<lparr>ph_id = ws_id r, ph_org = ws_org r, ph_url = ws_url r, ph_eventTypes = ws_eventTypes r,
     ph_active = ws_active r, ph_description = ws_description r, ph_createdBy = ws_createdBy r,
     ph_createdAt = ws_createdAt r, ph_updatedAt = ws_updatedAt r\<rparr>"

definition lower_alpha :: "char \<Rightarrow> bool" where
  "lower_alpha c \<longleftrightarrow> (let n = of_char c :: nat in 97 \<le> n \<and> n \<le> 122)"

definition word_char :: "char \<Rightarrow> bool" where
  "word_char c \<longleftrightarrow> lower_alpha c \<or> c = CHR ''_'' \<or> (let n = of_char c :: nat in 48 \<le> n \<and> n \<le> 57)"

text \<open>\<^verbatim>\<open>/^[a-z][a-z0-9_]*(\.[a-z][a-z0-9_]*)+$/\<close>: two or more such words joined by dots.\<close>

definition event_word :: "string \<Rightarrow> bool" where
  "event_word s \<longleftrightarrow> s \<noteq> [] \<and> lower_alpha (hd s) \<and> list_all word_char s"

definition event_type_ok :: "string \<Rightarrow> bool" where
  "event_type_ok t \<longleftrightarrow> (let ws = split_char (CHR ''.'') t in 2 \<le> length ws \<and> list_all event_word ws)"

definition validateUrl ::
    "(string \<Rightarrow> (string \<times> string) option) \<Rightarrow> bool \<Rightarrow> string \<Rightarrow> unit wact" where
  "validateUrl parse_url production url =
     (case parse_url url of
        None \<Rightarrow> throw (BadRequest ''url must be a valid URL'')
      | Some (protocol, hostname) \<Rightarrow>
          bindA (throwIf (protocol \<noteq> ''https:'' \<and> protocol \<noteq> ''http:'') (BadRequest ''url must be http(s)''))
          (\<lambda>_. let host = toLowerCase hostname in
            throwIf (production \<and> (host = ''localhost'' \<or> host = ''127.0.0.1'' \<or> ends_with host ''.local'' \<or>
                starts_with host ''10.'' \<or> starts_with host ''192.168.'' \<or> starts_with host ''169.254.''))
              (BadRequest ''url must not target a private/loopback host'')))"

definition validateEventTypes :: "string list \<Rightarrow> unit wact" where
  "validateEventTypes types =
     bindA (throwIf (types = []) (BadRequest ''eventTypes must be non-empty'')) (\<lambda>_.
     (case List.find (\<lambda>t. \<not> event_type_ok t) types of
        None \<Rightarrow> ret ()
      | Some t \<Rightarrow> throw (BadRequest (''eventType '' @ [CHR 0x27] @ t @ [CHR 0x27] @
          '' must look like '' @ [CHR 0x27] @ ''resource.verb'' @ [CHR 0x27]))))"

definition normalizeEventTypes :: "string list \<Rightarrow> string list" where
  "normalizeEventTypes types = sort (remdups (map trim types))"

record webhook_input =
  wi_url :: string
  wi_eventTypes :: "string list"
  wi_active :: "bool option"
  wi_description :: "string option"

definition or_null :: "string option \<Rightarrow> string option" where
  "or_null v = (case v of None \<Rightarrow> None | Some s \<Rightarrow> if trim s = [] then None else Some (trim s))"

definition hook_audit :: "string \<Rightarrow> ident \<Rightarrow> ident \<Rightarrow> ident \<Rightarrow> (string \<times> json) list \<Rightarrow> audit_event wact" where
  "hook_audit verb i user org details =
     audit_record \<lparr>cae_action = ''webhook.subscription.'' @ verb, cae_entityType = ''WebhookSubscription'',
       cae_entityId = i, cae_userId = Some user, cae_org = org, cae_details = Some (JObj details)\<rparr>"

definition hook_create ::
    "(string \<Rightarrow> (string \<times> string) option) \<Rightarrow> bool \<Rightarrow> string \<Rightarrow> ident \<Rightarrow> ident \<Rightarrow> webhook_input \<Rightarrow>
     (public_hook \<times> string) wact" where
  "hook_create parse_url production secret org user i =
     bindA (validateUrl parse_url production (wi_url i)) (\<lambda>_.
     bindA (validateEventTypes (wi_eventTypes i)) (\<lambda>_.
     bindA (hooks_create \<lparr>cws_org = org, cws_url = trim (wi_url i), cws_secret = secret,
       cws_eventTypes = normalizeEventTypes (wi_eventTypes i), cws_active = Some (orElse (wi_active i) True),
       cws_description = or_null (wi_description i), cws_createdBy = user\<rparr>) (\<lambda>row.
     bindA (hook_audit ''created'' (ws_id row) user org
       [(''url'', JStr (ws_url row)), (''eventTypes'', JArr (map JStr (ws_eventTypes row)))]) (\<lambda>_.
     ret (strip row, secret)))))"

definition hook_list :: "ident \<Rightarrow> public_hook list wact" where
  "hook_list org = bindA (hooks_findAll org) (\<lambda>rows. ret (map strip rows))"

definition hook_get :: "ident \<Rightarrow> ident \<Rightarrow> public_hook wact" where
  "hook_get i org =
     bindA (hooks_findById i org) (\<lambda>found.
     bindA (orThrow found (NotFound ''WebhookSubscription not found'')) (\<lambda>row. ret (strip row)))"

definition hook_update ::
    "(string \<Rightarrow> (string \<times> string) option) \<Rightarrow> bool \<Rightarrow> ident \<Rightarrow> ident \<Rightarrow> ident \<Rightarrow> update_webhook \<Rightarrow>
     public_hook wact" where
  "hook_update parse_url production i org user d =
     bindA (hook_get i org) (\<lambda>_.
     bindA (case uws_url d of None \<Rightarrow> ret () | Some u \<Rightarrow> validateUrl parse_url production u) (\<lambda>_.
     bindA (case uws_eventTypes d of None \<Rightarrow> ret () | Some ts \<Rightarrow> validateEventTypes ts) (\<lambda>_.
     bindA (hooks_update \<lparr>uws_url = map_option trim (uws_url d),
       uws_eventTypes = map_option normalizeEventTypes (uws_eventTypes d), uws_active = uws_active d,
       uws_description = map_option or_null (uws_description d), uws_secret = None\<rparr> i org) (\<lambda>row.
     bindA (hook_audit ''updated'' i user org
       [(''url'', JStr (ws_url row)), (''eventTypes'', JArr (map JStr (ws_eventTypes row))),
        (''active'', JBool (ws_active row))]) (\<lambda>_.
     ret (strip row))))))"

definition rotateSecret :: "string \<Rightarrow> ident \<Rightarrow> ident \<Rightarrow> ident \<Rightarrow> (public_hook \<times> string) wact" where
  "rotateSecret secret i org user =
     bindA (hook_get i org) (\<lambda>_.
     bindA (hooks_update \<lparr>uws_url = None, uws_eventTypes = None, uws_active = None,
       uws_description = None, uws_secret = Some secret\<rparr> i org) (\<lambda>row.
     bindA (hook_audit ''secret_rotated'' i user org [(''url'', JStr (ws_url row))]) (\<lambda>_.
     ret (strip row, secret))))"

definition hook_remove :: "ident \<Rightarrow> ident \<Rightarrow> ident \<Rightarrow> unit wact" where
  "hook_remove i org user =
     bindA (hook_get i org) (\<lambda>_.
     bindA (hooks_delete i org) (\<lambda>_.
     bindA (hook_audit ''deleted'' i user org []) (\<lambda>_. ret ())))"

subsection \<open>Delivery\<close>

record dispatcher =
  di_hmac :: "string \<Rightarrow> string \<Rightarrow> string"
  di_fetch :: "string \<Rightarrow> string \<Rightarrow> signature_headers \<Rightarrow> int wact"
  di_sleep :: "int \<Rightarrow> unit wact"
  di_maxAttempts :: int
  di_backoffBaseMs :: int

definition no_delivery_change :: update_delivery where
  "no_delivery_change = \<lparr>uwd_status = None, uwd_attempts = None, uwd_lastError = None,
     uwd_responseStatus = None, uwd_lastTriedAt = None, uwd_deliveredAt = None\<rparr>"

definition response_ok :: "int \<Rightarrow> bool" where
  "response_ok status \<longleftrightarrow> 200 \<le> status \<and> status \<le> 299"

text \<open>
  One pass of the loop: whether it delivered, and the row as stored. The request and the write
  that follows it are in the same \<^verbatim>\<open>try\<close>.
\<close>

definition try_once :: "dispatcher \<Rightarrow> string \<Rightarrow> string \<Rightarrow> webhook_delivery \<Rightarrow> (bool \<times> webhook_delivery) wact" where
  "try_once dp secret url cur =
     (let body = stringify (wd_payload cur); n = wd_attempts cur + 1 in
      bindA nowA (\<lambda>t0.
      let headers = buildHeaders (di_hmac dp) secret body (wd_eventType cur) (wd_id cur) t0 in
      tryA
        (bindA (di_fetch dp url body headers) (\<lambda>status.
           if response_ok status
           then bindA nowA (\<lambda>t1. bindA nowA (\<lambda>t2.
             bindA (deliveries_update (wd_id cur) (no_delivery_change\<lparr>uwd_status := Some ''delivered'',
               uwd_attempts := Some n, uwd_responseStatus := Some (Some status),
               uwd_lastTriedAt := Some (Some t1), uwd_deliveredAt := Some (Some t2),
               uwd_lastError := Some None\<rparr>)) (\<lambda>d. ret (True, d))))
           else bindA nowA (\<lambda>t1.
             bindA (deliveries_update (wd_id cur) (no_delivery_change\<lparr>uwd_attempts := Some n,
               uwd_lastError := Some (Some (''HTTP '' @ show_int status)),
               uwd_responseStatus := Some (Some status), uwd_lastTriedAt := Some (Some t1)\<rparr>))
             (\<lambda>d. ret (False, d)))))
        (\<lambda>e. bindA nowA (\<lambda>t1.
             bindA (deliveries_update (wd_id cur) (no_delivery_change\<lparr>uwd_attempts := Some n,
               uwd_lastError := Some (Some (error_message e)), uwd_responseStatus := Some None,
               uwd_lastTriedAt := Some (Some t1)\<rparr>)) (\<lambda>d. ret (False, d))))))"

definition mark_failed :: "webhook_delivery \<Rightarrow> webhook_delivery wact" where
  "mark_failed cur = deliveries_update (wd_id cur) (no_delivery_change\<lparr>uwd_status := Some ''failed''\<rparr>)"

text \<open>
  The loop, with fuel; \<open>attempt\<close> supplies one unit per attempt that is left, and each pass uses
  one attempt.
\<close>

fun attempt_loop ::
    "nat \<Rightarrow> dispatcher \<Rightarrow> string \<Rightarrow> string \<Rightarrow> webhook_delivery \<Rightarrow> webhook_delivery wact" where
  "attempt_loop 0 dp secret url cur = mark_failed cur"
| "attempt_loop (Suc fuel) dp secret url cur =
     (if \<not> wd_attempts cur < di_maxAttempts dp then mark_failed cur
      else bindA (try_once dp secret url cur) (\<lambda>(delivered, d).
        if delivered then ret d
        else let n = wd_attempts cur + 1 in
          if di_maxAttempts dp \<le> n then mark_failed d
          else bindA (di_sleep dp (di_backoffBaseMs dp * 2 ^ nat (n - 1)))
            (\<lambda>_. attempt_loop fuel dp secret url d)))"

definition attempt :: "dispatcher \<Rightarrow> string \<Rightarrow> string \<Rightarrow> webhook_delivery \<Rightarrow> webhook_delivery wact" where
  "attempt dp secret url cur =
     attempt_loop (nat (di_maxAttempts dp - wd_attempts cur)) dp secret url cur"

definition retry_delivery :: "dispatcher \<Rightarrow> webhook_delivery \<Rightarrow> string \<Rightarrow> string \<Rightarrow> webhook_delivery wact" where
  "retry_delivery dp d secret url = attempt dp secret url d"

fun publish_loop ::
    "dispatcher \<Rightarrow> ident \<Rightarrow> string \<Rightarrow> json \<Rightarrow> webhook_subscription list \<Rightarrow> webhook_delivery list wact" where
  "publish_loop dp org event payload [] = ret []"
| "publish_loop dp org event payload (s # subs) =
     bindA (deliveries_create \<lparr>cwd_subscriptionId = ws_id s, cwd_org = org, cwd_eventType = event,
       cwd_payload = payload\<rparr>) (\<lambda>d.
     bindA (attempt dp (ws_secret s) (ws_url s) d) (\<lambda>final.
     bindA (publish_loop dp org event payload subs) (\<lambda>rest. ret (final # rest))))"

definition publish :: "dispatcher \<Rightarrow> ident \<Rightarrow> string \<Rightarrow> json \<Rightarrow> webhook_delivery list wact" where
  "publish dp org event payload =
     bindA (hooks_findActiveForEvent org event) (\<lambda>subs.
       if subs = [] then ret [] else publish_loop dp org event payload subs)"

subsection \<open>Deliveries settle\<close>

text \<open>
  What is asked of the outside: requests and waiting leave the deliveries table alone, and
  waiting ends. A request may throw.
\<close>

definition dispatcher_ok :: "dispatcher \<Rightarrow> bool" where
  "dispatcher_ok dp \<longleftrightarrow>
     (\<forall>u b h. runs (frame w_deliveries) (di_fetch dp u b h)) \<and>
     (\<forall>n. runs (frame w_deliveries) (di_sleep dp n)) \<and>
     (\<forall>n w. fst (di_sleep dp n w) = Inr ())"

lemma deliveries_update_apply:
  "getT (w_deliveries w) i = Some r \<Longrightarrow>
     deliveries_update i d w = (Inr (wd_patch d (w_clock w (w_ticks w)) r),
       w_deliveries_update (setT i (wd_patch d (w_clock w (w_ticks w)) r)) (w\<lparr>w_ticks := Suc (w_ticks w)\<rparr>))"
  by (simp add: deliveries_update_def bindA_def nowA_def)

definition attempted :: "webhook_delivery \<Rightarrow> bool \<Rightarrow> webhook_delivery \<Rightarrow> bool" where
  "attempted cur ok d \<longleftrightarrow> wd_id d = wd_id cur \<and> wd_org d = wd_org cur \<and>
     wd_attempts d = wd_attempts cur + 1 \<and>
     (if ok then wd_status d = ''delivered'' \<and> wd_lastError d = None \<and> wd_deliveredAt d \<noteq> None \<and>
              (\<exists>s. wd_responseStatus d = Some s \<and> response_ok s)
      else wd_status d = wd_status cur \<and> wd_lastError d \<noteq> None)"

lemma try_once_result:
  assumes "getT (w_deliveries w) (wd_id cur) = Some cur"
    and "\<And>u b h. runs (frame w_deliveries) (di_fetch dp u b h)"
  shows "\<exists>ok d w'. try_once dp secret url cur w = (Inr (ok, d), w') \<and> attempted cur ok d \<and>
    w_deliveries w' = setT (wd_id cur) d (w_deliveries w)"
proof -
  let ?w0 = "w\<lparr>w_ticks := Suc (w_ticks w)\<rparr>"
  let ?h = "buildHeaders (di_hmac dp) secret (stringify (wd_payload cur)) (wd_eventType cur) (wd_id cur)
    (w_clock w (w_ticks w))"
  obtain r w1 where f: "di_fetch dp url (stringify (wd_payload cur)) ?h ?w0 = (r, w1)"
    by (cases "di_fetch dp url (stringify (wd_payload cur)) ?h ?w0")
  then have same: "w_deliveries w1 = w_deliveries w"
    using runsD_eq [OF assms(2) f] by (simp add: frame_def)
  have get: "getT (w_deliveries (w1\<lparr>w_ticks := n\<rparr>)) (wd_id cur) = Some cur" for n
    using assms(1) same by simp
  show ?thesis
  proof (cases r)
    case (Inl e)
    then show ?thesis
      using f same
      by (intro exI [of _ False])
         (simp add: try_once_def Let_def bindA_def tryA_def nowA_def deliveries_update_apply [OF get]
          attempted_def wd_patch_def no_delivery_change_def)
  next
    case (Inr status)
    then show ?thesis
      using f same
      by (intro exI [of _ "response_ok status"])
         (auto simp add: try_once_def Let_def bindA_def tryA_def nowA_def deliveries_update_apply [OF get]
          attempted_def wd_patch_def no_delivery_change_def)
  qed
qed

lemma mark_failed_result:
  assumes "getT (w_deliveries w) (wd_id cur) = Some cur"
  shows "\<exists>d w'. mark_failed cur w = (Inr d, w') \<and> wd_id d = wd_id cur \<and> wd_org d = wd_org cur \<and>
    wd_attempts d = wd_attempts cur \<and> wd_status d = ''failed'' \<and> wd_lastError d = wd_lastError cur \<and>
    w_deliveries w' = setT (wd_id cur) d (w_deliveries w)"
  using assms
  by (simp add: mark_failed_def deliveries_update_apply wd_patch_def no_delivery_change_def)

definition settled :: "dispatcher \<Rightarrow> webhook_delivery \<Rightarrow> webhook_delivery \<Rightarrow> bool" where
  "settled dp cur d \<longleftrightarrow> wd_id d = wd_id cur \<and> wd_org d = wd_org cur \<and>
     wd_attempts cur < wd_attempts d \<and> wd_attempts d \<le> di_maxAttempts dp \<and>
     (if wd_status d = ''delivered'' then wd_lastError d = None \<and> wd_deliveredAt d \<noteq> None \<and>
        (\<exists>s. wd_responseStatus d = Some s \<and> response_ok s)
      else wd_status d = ''failed'' \<and> wd_attempts d = di_maxAttempts dp \<and> wd_lastError d \<noteq> None)"

lemma attempt_loop_settles:
  assumes "dispatcher_ok dp"
  shows "getT (w_deliveries w) (wd_id cur) = Some cur \<Longrightarrow> wd_attempts cur < di_maxAttempts dp \<Longrightarrow>
    nat (di_maxAttempts dp - wd_attempts cur) \<le> fuel \<Longrightarrow>
    \<exists>d w'. attempt_loop fuel dp secret url cur w = (Inr d, w') \<and> settled dp cur d \<and>
      w_deliveries w' = setT (wd_id cur) d (w_deliveries w)"
proof (induction fuel arbitrary: cur w)
  case (Suc fuel)
  have fetch: "runs (frame w_deliveries) (di_fetch dp u b h)" for u b h
    using assms by (simp add: dispatcher_ok_def)
  obtain ok d w1 where t: "try_once dp secret url cur w = (Inr (ok, d), w1)" "attempted cur ok d"
      "w_deliveries w1 = setT (wd_id cur) d (w_deliveries w)"
    using try_once_result [OF Suc.prems(1) fetch] by blast
  have get: "getT (w_deliveries w1) (wd_id d) = Some d"
    using t by (simp add: getT_setT attempted_def)
  show ?case
  proof (cases ok)
    case True
    then show ?thesis
      using t Suc.prems by (auto simp: bindA_def settled_def attempted_def)
  next
    case not_ok: False
    show ?thesis
    proof (cases "di_maxAttempts dp \<le> wd_attempts cur + 1")
      case True
      obtain d' w2 where "mark_failed d w1 = (Inr d', w2)" "wd_id d' = wd_id d" "wd_org d' = wd_org d"
          "wd_attempts d' = wd_attempts d" "wd_status d' = ''failed''" "wd_lastError d' = wd_lastError d"
          "w_deliveries w2 = setT (wd_id d) d' (w_deliveries w1)"
        using mark_failed_result [OF get] by blast
      then show ?thesis
        using t Suc.prems True not_ok
        by (auto simp: bindA_def settled_def attempted_def Let_def setT_setT)
    next
      case False
      let ?ms = "di_backoffBaseMs dp * 2 ^ nat (wd_attempts cur)"
      obtain w2 where s: "di_sleep dp ?ms w1 = (Inr (), w2)"
        using assms by (metis dispatcher_ok_def prod.collapse)
      have "frame w_deliveries w1 w2"
        using assms s runsD_eq unfolding dispatcher_ok_def by blast
      then have same: "w_deliveries w2 = w_deliveries w1"
        by (simp add: frame_def)
      have n: "wd_attempts d = wd_attempts cur + 1" "wd_id d = wd_id cur" "wd_org d = wd_org cur"
        using t(2) by (simp_all add: attempted_def)
      have "getT (w_deliveries w2) (wd_id d) = Some d" "wd_attempts d < di_maxAttempts dp"
          "nat (di_maxAttempts dp - wd_attempts d) \<le> fuel"
        using get same False Suc.prems n by simp_all
      from Suc.IH [OF this] obtain d' w3 where
        "attempt_loop fuel dp secret url d w2 = (Inr d', w3)" "settled dp d d'"
          "w_deliveries w3 = setT (wd_id d) d' (w_deliveries w2)"
        by blast
      then show ?thesis
        using t(1,3) s same Suc.prems False not_ok n
        by (auto simp: bindA_def settled_def Let_def setT_setT)
    qed
  qed
qed simp


definition down_dispatcher :: dispatcher where
  "down_dispatcher = \<lparr>di_hmac = (\<lambda>k m. m), di_fetch = (\<lambda>_ _ _. throw (Plain ''ECONNREFUSED'')),
     di_sleep = (\<lambda>_. ret ()), di_maxAttempts = 3, di_backoffBaseMs = 1000\<rparr>"

definition delivery_demo_row :: webhook_delivery where
  "delivery_demo_row = \<lparr>wd_id = ''d1'', wd_subscriptionId = ''s1'', wd_org = ''o1'',
     wd_eventType = ''tender.created'', wd_payload = JNull, wd_status = ''pending'', wd_attempts = 0,
     wd_lastError = None, wd_responseStatus = None, wd_lastTriedAt = None, wd_deliveredAt = None,
     wd_createdAt = 0, wd_updatedAt = 0\<rparr>"

lemma down_dispatcher_ok: "dispatcher_ok down_dispatcher"
  by (simp add: dispatcher_ok_def down_dispatcher_def runs_throw runs_ret)


text \<open>
  A retry of a delivery that has used all its attempts sends nothing and marks it failed,
  even when it had been delivered.
\<close>

theorem webhook_retry_overwrites_delivered:
  assumes "getT (w_deliveries w) (wd_id cur) = Some cur"
    and "di_maxAttempts dp \<le> wd_attempts cur"
  shows "\<exists>d w'. retry_delivery dp cur secret url w = (Inr d, w') \<and> wd_status d = ''failed'' \<and>
    getT (w_deliveries w') (wd_id cur) = Some d \<and> wd_deliveredAt d = wd_deliveredAt cur"
  using assms
  by (simp add: retry_delivery_def attempt_def mark_failed_def deliveries_update_apply wd_patch_def
      no_delivery_change_def getT_setT)

definition delivered_row :: webhook_delivery where
  "delivered_row = delivery_demo_row\<lparr>wd_status := ''delivered'', wd_attempts := 3, wd_deliveredAt := Some 7\<rparr>"

theorem webhook_retry_overwrites_delivered_witness:
  "wd_status delivered_row = ''delivered'' \<and>
   (\<exists>d w'. retry_delivery down_dispatcher delivered_row ''k'' ''u''
     (world0\<lparr>w_deliveries := [(''d1'', delivered_row)]\<rparr>) = (Inr d, w') \<and> wd_status d = ''failed'')"
  using webhook_retry_overwrites_delivered
    [of "world0\<lparr>w_deliveries := [(''d1'', delivered_row)]\<rparr>" delivered_row down_dispatcher "''k''" "''u''"]
  by (auto simp: delivered_row_def delivery_demo_row_def down_dispatcher_def getT_def)

lemma starts_with_append [simp]: "starts_with (p @ s) p"
  by (induction p) simp_all

text \<open>
  C29: A receiver that shares the secret accepts exactly the signature of the body and timestamp:
  a header is valid when it starts with \<^verbatim>\<open>sha256=\<close> and the rest decodes to the digest, and the
  header the desk sends is.
\<close>

theorem webhook_signature_roundtrip:
  "verifyWebhookSignature hmac secret body ts (signWebhookBody hmac secret body ts) \<and>
   (verifyWebhookSignature hmac secret body ts header \<longleftrightarrow>
      starts_with header ''sha256='' \<and>
      from_hex (drop 7 header) = hmac secret (show_int ts @ ''.'' @ body))"
  using starts_with_append [of "''sha256=''"]
  by (auto simp: verifyWebhookSignature_def signWebhookBody_def eval_nat_numeral)

end
