(* ===== verification/Billing.thy ===== *)
theory Billing
  imports Repos_Ops Audit_Trail Hex
begin

text \<open>
  Plans, subscriptions, usage and the Stripe webhook (\<^verbatim>\<open>billing/plan-catalog.ts\<close>,
  \<^verbatim>\<open>billing/subscription.service.ts\<close>, \<^verbatim>\<open>billing/usage-counter.service.ts\<close>,
  \<^verbatim>\<open>billing/stripe-signature.ts\<close>, \<^verbatim>\<open>billing/stripe-webhook.service.ts\<close>). Parameters: the HMAC,
  \<^verbatim>\<open>JSON.parse\<close>, and \<^verbatim>\<open>Number(text)\<close> on a timestamp (\<open>None\<close>: not a finite number; timestamps
  with a fraction are outside the model). The two Stripe price ids come from the environment.
\<close>

subsection \<open>The plan catalog\<close>

record plan_quota =
  pq_llm_requests :: "int option"
  pq_documents_created :: "int option"
  pq_webhook_events :: "int option"

record plan =
  pl_code :: string
  pl_name :: string
  pl_monthlyPriceUsd :: int
  pl_stripePriceId :: "string option"
  pl_quotas :: plan_quota
  pl_features :: "string list"

record price_env =
  pe_basic :: "string option"
  pe_pro :: "string option"

definition free_plan :: plan where
  "free_plan = \<lparr>pl_code = ''free'', pl_name = ''Free'', pl_monthlyPriceUsd = 0, pl_stripePriceId = None,
     pl_quotas = \<lparr>pq_llm_requests = Some 100, pq_documents_created = Some 50, pq_webhook_events = Some 100\<rparr>,
     pl_features = [''1 organization'', ''Up to 50 documents'', ''100 LLM calls / day'',
       ''PDPL audit log + DSR handling'']\<rparr>"

definition plan_catalog :: "price_env \<Rightarrow> plan list" where
  "plan_catalog env =
     [free_plan,
      \<lparr>pl_code = ''basic'', pl_name = ''Basic'', pl_monthlyPriceUsd = 29, pl_stripePriceId = pe_basic env,
       pl_quotas = \<lparr>pq_llm_requests = Some 1000, pq_documents_created = Some 500, pq_webhook_events = Some 1000\<rparr>,
       pl_features = [''Everything in Free'', ''Up to 500 documents'', ''1,000 LLM calls / day'',
         ''Email notification driver'']\<rparr>,
      \<lparr>pl_code = ''pro'', pl_name = ''Pro'', pl_monthlyPriceUsd = 99, pl_stripePriceId = pe_pro env,
       pl_quotas = \<lparr>pq_llm_requests = Some 10000, pq_documents_created = None, pq_webhook_events = Some 10000\<rparr>,
       pl_features = [''Everything in Basic'', ''Unlimited documents'', ''10,000 LLM calls / day'',
         ''Slack + WhatsApp + ntfy notification drivers'', ''Public webhook subscriptions'']\<rparr>]"

definition findPlan :: "price_env \<Rightarrow> string \<Rightarrow> plan option" where
  "findPlan env code = List.find (\<lambda>p. pl_code p = code) (plan_catalog env)"

definition findPlanByStripePriceId :: "price_env \<Rightarrow> string \<Rightarrow> plan option" where
  "findPlanByStripePriceId env price = List.find (\<lambda>p. pl_stripePriceId p = Some price) (plan_catalog env)"

subsection \<open>Subscriptions\<close>

text \<open>\<^verbatim>\<open>findPlan('free')!\<close> is the first entry of the catalog.\<close>

definition forOrg :: "price_env \<Rightarrow> ident \<Rightarrow> (subscription \<times> plan) wact" where
  "forOrg env org =
     bindA (subscriptions_findByOrg org) (\<lambda>existing.
     (case existing of
        Some s \<Rightarrow> ret (s, orElse (findPlan env (sb_planCode s)) free_plan)
      | None \<Rightarrow>
          bindA nowA (\<lambda>t.
          ret (\<lparr>sb_id = ''implicit-free'', sb_org = org, sb_planCode = ''free'', sb_status = ''active'',
                sb_stripeCustomerId = None, sb_stripeSubscriptionId = None, sb_periodStart = None,
                sb_periodEnd = None, sb_cancelAtPeriodEnd = False, sb_createdAt = t, sb_updatedAt = t\<rparr>,
               free_plan))))"

definition subscription_upsert :: "upsert_subscription \<Rightarrow> subscription wact" where
  "subscription_upsert d = subscriptions_upsert d"

definition findByStripeSubscriptionId :: "string \<Rightarrow> subscription option wact" where
  "findByStripeSubscriptionId s = subscriptions_findByStripeId s"

subsection \<open>Usage counters\<close>

definition startOfUtcDay :: "time \<Rightarrow> time" where
  "startOfUtcDay now = now - now mod day_ms"

definition usage_bump :: "ident \<Rightarrow> string \<Rightarrow> int \<Rightarrow> time \<Rightarrow> int wact" where
  "usage_bump org metric delta now = counters_bump org (startOfUtcDay now) metric delta"

text \<open>The object built from the rows: a later row with the same metric overrides.\<close>

definition usage_today :: "ident \<Rightarrow> time \<Rightarrow> (string \<times> (string \<times> int) list) wact" where
  "usage_today org now =
     (let day = startOfUtcDay now in
      bindA (counters_findDay org day) (\<lambda>rows.
      ret (iso_date day, fold (\<lambda>r out. AList.update (uc_metric r) (uc_count r) out) rows [])))"

definition usage_sumRange :: "ident \<Rightarrow> time \<Rightarrow> time \<Rightarrow> (string \<times> int) list wact" where
  "usage_sumRange org since until = counters_sumRange org since until"

subsection \<open>Stripe's signature\<close>

record parsed_header =
  sg_timestamp :: int
  sg_v1 :: "string list"

text \<open>\<^verbatim>\<open>const [k, v] = part.trim().split('=')\<close>; a missing \<^verbatim>\<open>v\<close> is falsy.\<close>

definition header_part :: "(string \<Rightarrow> int option) \<Rightarrow> string \<Rightarrow> parsed_header \<Rightarrow> parsed_header" where
  "header_part number part acc =
     (case split_char (CHR ''='') (trim part) of
        k # v # _ \<Rightarrow>
          if k = [] \<or> v = [] then acc
          else if k = ''t'' then (case number v of None \<Rightarrow> acc | Some ts \<Rightarrow> acc\<lparr>sg_timestamp := ts\<rparr>)
          else if k = ''v1'' then acc\<lparr>sg_v1 := sg_v1 acc @ [v]\<rparr> else acc
      | _ \<Rightarrow> acc)"

definition parseHeader :: "(string \<Rightarrow> int option) \<Rightarrow> string \<Rightarrow> parsed_header" where
  "parseHeader number header =
     (let empty = \<lparr>sg_timestamp = 0, sg_v1 = []\<rparr> in
      if header = [] then empty else fold (header_part number) (split_char (CHR '','') header) empty)"

definition verifyStripeSignature ::
    "(string \<Rightarrow> string \<Rightarrow> string) \<Rightarrow> (string \<Rightarrow> int option) \<Rightarrow> string \<Rightarrow> string \<Rightarrow> string \<Rightarrow>
     int \<Rightarrow> int \<Rightarrow> bool" where
  "verifyStripeSignature hmac number rawBody header secret tolerance now =
     (if secret = [] then False
      else let parsed = parseHeader number header in
        if sg_timestamp parsed = 0 \<or> sg_v1 parsed = [] then False
        else if \<bar>now - sg_timestamp parsed\<bar> > tolerance then False
        else let expected = from_hex (to_hex (hmac secret (show_int (sg_timestamp parsed) @ ''.'' @ rawBody)))
          in list_ex (\<lambda>candidate. buffers_equal (from_hex candidate) expected) (sg_v1 parsed))"

subsection \<open>Stripe events\<close>

text \<open>Members of parsed JSON, truthiness, and \<^verbatim>\<open>String(v)\<close>.\<close>

definition member :: "json option \<Rightarrow> string \<Rightarrow> json option" where
  "member j k = (case j of Some (JObj ms) \<Rightarrow> map_of ms k | _ \<Rightarrow> None)"

definition nullish :: "json option \<Rightarrow> bool" where
  "nullish j \<longleftrightarrow> j = None \<or> j = Some JNull"

definition js_truthy :: "json option \<Rightarrow> bool" where
  "js_truthy j = (case j of None \<Rightarrow> False | Some JNull \<Rightarrow> False | Some (JBool b) \<Rightarrow> b
     | Some (JNum r) \<Rightarrow> r \<noteq> 0 | Some (JStr s) \<Rightarrow> s \<noteq> [] | Some _ \<Rightarrow> True)"

fun js_String :: "json \<Rightarrow> string" and js_elems :: "json list \<Rightarrow> string list" where
  "js_String JNull = ''null''"
| "js_String (JBool b) = (if b then ''true'' else ''false'')"
| "js_String (JNum r) = show_int \<lfloor>r\<rfloor>"
| "js_String (JStr s) = s"
| "js_String (JDate t) = iso_datetime t"
| "js_String (JArr xs) = join '','' (js_elems xs)"
| "js_String (JObj ms) = ''[object Object]''"
| "js_elems [] = []"
| "js_elems (x # xs) = (if x = JNull then [] else js_String x) # js_elems xs"

definition string_of :: "json option \<Rightarrow> string" where
  "string_of j = (case j of None \<Rightarrow> ''undefined'' | Some v \<Rightarrow> js_String v)"

definition as_string :: "json option \<Rightarrow> string option" where
  "as_string j = (case j of Some (JStr s) \<Rightarrow> Some s | _ \<Rightarrow> None)"

definition mapStatus :: "string \<Rightarrow> string" where
  "mapStatus raw =
     (if raw = ''active'' \<or> raw = ''trialing'' then ''active''
      else if raw = ''past_due'' \<or> raw = ''unpaid'' then ''past_due''
      else if raw = ''canceled'' then ''canceled'' else ''incomplete'')"

definition tryOrgId :: "json \<Rightarrow> string option" where
  "tryOrgId obj =
     (case as_string (member (member (Some obj) ''metadata'') ''organization_id'') of
        Some s \<Rightarrow> if s = [] then None else Some s | None \<Rightarrow> None)"

definition requireOrgId :: "json \<Rightarrow> ident wact" where
  "requireOrgId obj = orThrow (tryOrgId obj) (BadRequest ''event metadata missing organization_id'')"

definition first_elem :: "json option \<Rightarrow> json option" where
  "first_elem j = (case j of Some (JArr (x # _)) \<Rightarrow> Some x | Some (JObj ms) \<Rightarrow> map_of ms ''0'' | _ \<Rightarrow> None)"

definition extractPriceId :: "json \<Rightarrow> json option" where
  "extractPriceId obj =
     (let p = member (member (first_elem (member (member (Some obj) ''items'') ''data'')) ''price'') ''id''
      in if nullish p then None else p)"

text \<open>\<^verbatim>\<open>new Date(v * 1000)\<close> truncates to a whole millisecond.\<close>

definition toDate :: "json option \<Rightarrow> time option" where
  "toDate v = (case v of Some (JNum r) \<Rightarrow>
     Some (if r < 0 then - \<lfloor>- r * 1000\<rfloor> else \<lfloor>r * 1000\<rfloor>) | _ \<Rightarrow> None)"

record stripe_result =
  sr_handled :: bool
  sr_type :: json
  sr_subscriptionId :: "ident option"

definition event_id_details :: "json \<Rightarrow> (string \<times> json) list" where
  "event_id_details event = (case member (Some event) ''id'' of None \<Rightarrow> [] | Some v \<Rightarrow> [(''eventId'', v)])"

definition onSubscriptionUpdate :: "price_env \<Rightarrow> json \<Rightarrow> string \<Rightarrow> json \<Rightarrow> stripe_result wact" where
  "onSubscriptionUpdate env event type obj =
     bindA (requireOrgId obj) (\<lambda>org.
     let o_id = string_of (member (Some obj) ''id'');
         customer = as_string (member (Some obj) ''customer'');
         st = member (Some obj) ''status'';
         status = mapStatus (if nullish st then ''incomplete'' else string_of st);
         price = extractPriceId obj;
         plan = (case price of Some (JStr s) \<Rightarrow> if s = [] then None else findPlanByStripePriceId env s
                 | _ \<Rightarrow> None) in
     bindA (orThrow plan (NotFound (''no plan registered for Stripe price '' @
       (case price of None \<Rightarrow> ''(none)'' | Some v \<Rightarrow> js_String v)))) (\<lambda>pl.
     bindA (subscription_upsert \<lparr>usb_org = org, usb_planCode = pl_code pl, usb_status = status,
       usb_stripeCustomerId = customer, usb_stripeSubscriptionId = Some o_id,
       usb_periodStart = toDate (member (Some obj) ''current_period_start''),
       usb_periodEnd = toDate (member (Some obj) ''current_period_end''),
       usb_cancelAtPeriodEnd = Some (js_truthy (member (Some obj) ''cancel_at_period_end''))\<rparr>) (\<lambda>sub.
     bindA (audit_record \<lparr>cae_action = ''subscription.'' @ last (split_char (CHR ''.'') type),
       cae_entityType = ''Subscription'', cae_entityId = sb_id sub, cae_userId = None, cae_org = org,
       cae_details = Some (JObj ([(''planCode'', JStr (sb_planCode sub)), (''status'', JStr (sb_status sub))]
         @ event_id_details event))\<rparr>) (\<lambda>_.
     ret \<lparr>sr_handled = True, sr_type = JStr type, sr_subscriptionId = Some (sb_id sub)\<rparr>))))"

definition onSubscriptionDeleted :: "json \<Rightarrow> string \<Rightarrow> json \<Rightarrow> stripe_result wact" where
  "onSubscriptionDeleted event type obj =
     bindA (requireOrgId obj) (\<lambda>org.
     bindA (subscription_upsert \<lparr>usb_org = org, usb_planCode = ''free'', usb_status = ''canceled'',
       usb_stripeCustomerId = as_string (member (Some obj) ''customer''),
       usb_stripeSubscriptionId = Some (string_of (member (Some obj) ''id'')),
       usb_periodStart = None, usb_periodEnd = None, usb_cancelAtPeriodEnd = Some False\<rparr>) (\<lambda>sub.
     bindA (audit_record \<lparr>cae_action = ''subscription.canceled'', cae_entityType = ''Subscription'',
       cae_entityId = sb_id sub, cae_userId = None, cae_org = org,
       cae_details = Some (JObj (event_id_details event))\<rparr>) (\<lambda>_.
     ret \<lparr>sr_handled = True, sr_type = JStr type, sr_subscriptionId = Some (sb_id sub)\<rparr>)))"

definition onCheckoutCompleted :: "json \<Rightarrow> string \<Rightarrow> json \<Rightarrow> stripe_result wact" where
  "onCheckoutCompleted event type obj =
     bindA (case tryOrgId obj of
              None \<Rightarrow> ret ()
            | Some org \<Rightarrow>
                bindA (audit_record \<lparr>cae_action = ''checkout.completed'', cae_entityType = ''Subscription'',
                  cae_entityId = orElse (as_string (member (Some obj) ''id'')) ''unknown'',
                  cae_userId = None, cae_org = org,
                  cae_details = Some (JObj (event_id_details event))\<rparr>) (\<lambda>_. ret ())) (\<lambda>_.
     ret \<lparr>sr_handled = True, sr_type = JStr type, sr_subscriptionId = None\<rparr>)"

definition dispatch_event :: "price_env \<Rightarrow> json \<Rightarrow> stripe_result wact" where
  "dispatch_event env event =
     (let type = member (Some event) ''type'';
          obj = member (member (Some event) ''data'') ''object'' in
      bindA (throwIf (\<not> js_truthy type \<or> \<not> js_truthy obj)
        (BadRequest ''event missing type or data.object'')) (\<lambda>_.
      if type = Some (JStr ''customer.subscription.created'') \<or> type = Some (JStr ''customer.subscription.updated'')
      then onSubscriptionUpdate env event (string_of type) (the obj)
      else if type = Some (JStr ''customer.subscription.deleted'')
      then onSubscriptionDeleted event (string_of type) (the obj)
      else if type = Some (JStr ''checkout.session.completed'')
      then onCheckoutCompleted event (string_of type) (the obj)
      else ret \<lparr>sr_handled = False, sr_type = the type, sr_subscriptionId = None\<rparr>))"

definition stripe_receive ::
    "(string \<Rightarrow> string \<Rightarrow> string) \<Rightarrow> (string \<Rightarrow> int option) \<Rightarrow> (string \<Rightarrow> json option) \<Rightarrow> price_env \<Rightarrow>
     string \<Rightarrow> string \<Rightarrow> string \<Rightarrow> stripe_result wact" where
  "stripe_receive hmac number parse_json env rawBody header secret =
     bindA nowA (\<lambda>t.
     bindA (throwIf (\<not> verifyStripeSignature hmac number rawBody header secret (5 * 60) (t div 1000))
       (Forbidden ''invalid Stripe signature'')) (\<lambda>_.
     bindA (orThrow (parse_json rawBody) (BadRequest ''body is not valid JSON'')) (\<lambda>event.
     dispatch_event env event)))"

subsection \<open>Only Stripe speaks\<close>

text \<open>
  C14: An event is acted on only when it carries, within five minutes of its timestamp, one
  signature that decodes to the digest of that timestamp and the exact body under the configured
  secret; anything else is refused and no table changes.
\<close>

theorem stripe_event_authentic:
  "let p = parseHeader number header; now = w_clock w (w_ticks w) div 1000;
       w1 = w\<lparr>w_ticks := Suc (w_ticks w)\<rparr>;
       digest = hmac secret (show_int (sg_timestamp p) @ ''.'' @ rawBody)
   in stripe_receive hmac number parse_json env rawBody header secret w =
        (if secret \<noteq> [] \<and> sg_timestamp p \<noteq> 0 \<and> \<bar>now - sg_timestamp p\<bar> \<le> 300 \<and>
            (\<exists>v \<in> set (sg_v1 p). from_hex v = digest)
         then (case parse_json rawBody of
                 None \<Rightarrow> (Inl (BadRequest ''body is not valid JSON''), w1)
               | Some event \<Rightarrow> dispatch_event env event w1)
         else (Inl (Forbidden ''invalid Stripe signature''), w1))"
  by (auto simp: stripe_receive_def verifyStripeSignature_def bindA_def nowA_def Let_def list_ex_iff
      throwIf_apply orThrow_def split: option.splits)

subsection \<open>The mirror of a subscription\<close>

lemma plan_codes: "map pl_code (plan_catalog env) = [''free'', ''basic'', ''pro'']"
  by (simp add: plan_catalog_def free_plan_def)

lemma find_distinct:
  "distinct (map f xs) \<Longrightarrow> x \<in> set xs \<Longrightarrow> List.find (\<lambda>y. f y = f x) xs = Some x"
  by (induction xs) (auto simp: image_iff)

lemma findPlan_catalog:
  assumes "pl \<in> set (plan_catalog env)"
  shows "findPlan env (pl_code pl) = Some pl"
proof -
  have "distinct (map pl_code (plan_catalog env))" by (simp add: plan_codes)
  then show ?thesis unfolding findPlan_def using assms by (rule find_distinct)
qed

lemma free_plan_code: "pl_code free_plan = ''free''"
  by (simp add: free_plan_def)

lemma free_plan_listed: "free_plan \<in> set (plan_catalog env)"
  by (simp add: plan_catalog_def)

lemma subscription_upsert_result:
  "\<exists>s w'. subscription_upsert d w = (Inr s, w') \<and> sb_org s = usb_org d \<and> sb_planCode s = usb_planCode d \<and>
     sb_status s = usb_status d \<and> sb_stripeSubscriptionId s = usb_stripeSubscriptionId d \<and>
     w_subscriptions w' = setT (usb_org d) s (w_subscriptions w)"
  by (cases "getT (w_subscriptions w) (usb_org d)")
     (simp_all add: subscription_upsert_def subscriptions_upsert_def bindA_def nowA_def uuidA_def insert_row_apply)

lemma forOrg_stored:
  "getT (w_subscriptions w) org = Some s \<Longrightarrow>
     forOrg env org w = (Inr (s, orElse (findPlan env (sb_planCode s)) free_plan), w)"
  by (simp add: forOrg_def subscriptions_findByOrg_def)

lemma audit_record_subscriptions [simp]:
  "w_subscriptions (snd (audit_record d w)) = w_subscriptions w"
  by (simp add: audit_record_apply Let_def)

lemma audit_then_ret: "bindA (audit_record d) (\<lambda>_. ret x) w = (Inr x, snd (audit_record d w))"
  by (simp add: bindA_def audit_record_apply Let_def)

text \<open>
  C30: After an update event is accepted, the organisation named in its metadata is on the plan
  whose configured price the event carries, with the mapped status and Stripe's subscription id;
  every other organisation's subscription is as before.
\<close>

theorem subscription_mirrors_stripe:
  assumes "dispatch_event env event w = (Inr r, w')"
    and "member (Some event) ''type'' = Some (JStr ''customer.subscription.updated'')"
    and "member (member (Some event) ''data'') ''object'' = Some obj"
  shows "\<exists>org price pl s. tryOrgId obj = Some org \<and> extractPriceId obj = Some (JStr price) \<and>
    findPlanByStripePriceId env price = Some pl \<and> fst (forOrg env org w') = Inr (s, pl) \<and>
    sb_stripeSubscriptionId s = Some (string_of (member (Some obj) ''id'')) \<and>
    sb_status s \<in> {''active'', ''past_due'', ''canceled'', ''incomplete''} \<and>
    (\<forall>x. x = org \<or> getT (w_subscriptions w') x = getT (w_subscriptions w) x)"
proof -
  let ?type = "''customer.subscription.updated''"
  have run: "onSubscriptionUpdate env event ?type obj w = (Inr r, w')"
    using assms by (auto simp: dispatch_event_def Let_def bindA_def throwIf_apply string_of_def js_truthy_def
        split: if_splits)
  obtain org where org: "tryOrgId obj = Some org"
    using run by (cases "tryOrgId obj") (simp_all add: onSubscriptionUpdate_def requireOrgId_def)
  obtain price pl where price: "extractPriceId obj = Some (JStr price)" "findPlanByStripePriceId env price = Some pl"
    using run org
    by (auto simp: onSubscriptionUpdate_def requireOrgId_def Let_def bindA_def orThrow_def
        split: option.splits json.splits if_splits)
  let ?st = "member (Some obj) ''status''"
  let ?d = "\<lparr>usb_org = org, usb_planCode = pl_code pl,
       usb_status = mapStatus (if nullish ?st then ''incomplete'' else string_of ?st),
       usb_stripeCustomerId = as_string (member (Some obj) ''customer''),
       usb_stripeSubscriptionId = Some (string_of (member (Some obj) ''id'')),
       usb_periodStart = toDate (member (Some obj) ''current_period_start''),
       usb_periodEnd = toDate (member (Some obj) ''current_period_end''),
       usb_cancelAtPeriodEnd = Some (js_truthy (member (Some obj) ''cancel_at_period_end''))\<rparr>"
  obtain s w1 where s: "subscription_upsert ?d w = (Inr s, w1)" "sb_planCode s = pl_code pl"
      "sb_status s = usb_status ?d" "sb_stripeSubscriptionId s = usb_stripeSubscriptionId ?d"
      "w_subscriptions w1 = setT org s (w_subscriptions w)"
    using subscription_upsert_result [of ?d w] by auto
  have "price \<noteq> []"
    using run org price(1)
    by (auto simp: onSubscriptionUpdate_def requireOrgId_def Let_def bindA_def orThrow_def)
  then have w': "w_subscriptions w' = w_subscriptions w1"
    using run org price s(1)
    by (auto simp: onSubscriptionUpdate_def requireOrgId_def Let_def audit_then_ret)
  have "findPlan env (sb_planCode s) = Some pl"
    using price(2) findPlan_catalog [of pl env] s(2)
    by (auto simp: findPlanByStripePriceId_def find_Some_iff)
  then have "fst (forOrg env org w') = Inr (s, pl)"
    using forOrg_stored [of w' org s env] by (simp add: w' s(5) getT_setT)
  moreover have "sb_status s \<in> {''active'', ''past_due'', ''canceled'', ''incomplete''}"
    using s(3) by (simp add: mapStatus_def)
  ultimately show ?thesis
    using org price s(4) by (auto simp: w' s(5) getT_setT)
qed

definition stripe_demo_env :: price_env where
  "stripe_demo_env = \<lparr>pe_basic = Some ''price_b'', pe_pro = None\<rparr>"

definition stripe_demo_object :: json where
  "stripe_demo_object = JObj [(''id'', JStr ''sub_1''), (''status'', JStr ''trialing''),
     (''metadata'', JObj [(''organization_id'', JStr ''o1'')]),
     (''items'', JObj [(''data'', JArr [JObj [(''price'', JObj [(''id'', JStr ''price_b'')])]])])]"

definition stripe_demo_event :: "string \<Rightarrow> json" where
  "stripe_demo_event type = JObj [(''id'', JStr ''evt_1''), (''type'', JStr type),
     (''data'', JObj [(''object'', stripe_demo_object)])]"

theorem subscription_mirrors_stripe_witness:
  "\<exists>r w' s pl. dispatch_event stripe_demo_env (stripe_demo_event ''customer.subscription.updated'') world0
       = (Inr r, w') \<and> fst (forOrg stripe_demo_env ''o1'' w') = Inr (s, pl) \<and> pl_code pl = ''basic''"
proof -
  let ?e = "stripe_demo_event ''customer.subscription.updated''"
  have "case fst (dispatch_event stripe_demo_env ?e world0) of Inl _ \<Rightarrow> False | Inr _ \<Rightarrow> True"
    by code_simp
  then obtain r w' where run: "dispatch_event stripe_demo_env ?e world0 = (Inr r, w')"
    by (cases "dispatch_event stripe_demo_env ?e world0") (auto split: sum.splits)
  have "member (Some ?e) ''type'' = Some (JStr ''customer.subscription.updated'')"
    "member (member (Some ?e) ''data'') ''object'' = Some stripe_demo_object"
    "tryOrgId stripe_demo_object = Some ''o1''" "extractPriceId stripe_demo_object = Some (JStr ''price_b'')"
    "map_option pl_code (findPlanByStripePriceId stripe_demo_env ''price_b'') = Some ''basic''"
    by code_simp+
  then show ?thesis
    using subscription_mirrors_stripe [OF run, of stripe_demo_object] run by auto
qed

text \<open>
  A deletion event cancels whatever subscription the organisation has: the event's own
  subscription id is not compared with the stored one, so the deletion of an old subscription
  ends the current plan.
\<close>

theorem stripe_deletion_cancels_any:
  assumes "getT (w_subscriptions w) org = Some current"
    and "sb_stripeSubscriptionId current \<noteq> Some (string_of (member (Some obj) ''id''))"
    and "tryOrgId obj = Some org"
  shows "\<exists>r w' s. onSubscriptionDeleted event type obj w = (Inr r, w') \<and>
    fst (forOrg env org w') = Inr (s, free_plan) \<and> sb_status s = ''canceled''"
proof -
  let ?d = "\<lparr>usb_org = org, usb_planCode = ''free'', usb_status = ''canceled'',
       usb_stripeCustomerId = as_string (member (Some obj) ''customer''),
       usb_stripeSubscriptionId = Some (string_of (member (Some obj) ''id'')),
       usb_periodStart = None, usb_periodEnd = None, usb_cancelAtPeriodEnd = Some False\<rparr>"
  obtain s w1 where s: "subscription_upsert ?d w = (Inr s, w1)" "sb_planCode s = ''free''"
      "sb_status s = ''canceled''" "w_subscriptions w1 = setT org s (w_subscriptions w)"
    using subscription_upsert_result [of ?d w] by auto
  let ?a = "\<lparr>cae_action = ''subscription.canceled'', cae_entityType = ''Subscription'',
    cae_entityId = sb_id s, cae_userId = None, cae_org = org,
    cae_details = Some (JObj (event_id_details event))\<rparr>"
  have "onSubscriptionDeleted event type obj w =
      (Inr \<lparr>sr_handled = True, sr_type = JStr type, sr_subscriptionId = Some (sb_id s)\<rparr>, snd (audit_record ?a w1))"
    using assms(3) s(1) by (simp add: onSubscriptionDeleted_def requireOrgId_def audit_then_ret)
  moreover have "findPlan env ''free'' = Some free_plan"
    using findPlan_catalog [of free_plan env] by (simp add: free_plan_listed free_plan_code)
  ultimately show ?thesis
    using forOrg_stored [of "snd (audit_record ?a w1)" org s env] s(2-4) by (simp add: getT_setT)
qed

theorem stripe_deletion_cancels_any_witness:
  "\<exists>r w' s. onSubscriptionDeleted (stripe_demo_event ''customer.subscription.deleted'')
       ''customer.subscription.deleted'' stripe_demo_object
       (snd (subscription_upsert \<lparr>usb_org = ''o1'', usb_planCode = ''pro'', usb_status = ''active'',
          usb_stripeCustomerId = None, usb_stripeSubscriptionId = Some ''sub_2'', usb_periodStart = None,
          usb_periodEnd = None, usb_cancelAtPeriodEnd = None\<rparr> world0)) = (Inr r, w') \<and>
     fst (forOrg stripe_demo_env ''o1'' w') = Inr (s, free_plan)"
proof -
  let ?w = "snd (subscription_upsert \<lparr>usb_org = ''o1'', usb_planCode = ''pro'', usb_status = ''active'',
          usb_stripeCustomerId = None, usb_stripeSubscriptionId = Some ''sub_2'', usb_periodStart = None,
          usb_periodEnd = None, usb_cancelAtPeriodEnd = None\<rparr> world0)"
  let ?c = "the (getT (w_subscriptions ?w) ''o1'')"
  have "getT (w_subscriptions ?w) ''o1'' \<noteq> None" "sb_stripeSubscriptionId ?c = Some ''sub_2''"
    "string_of (member (Some stripe_demo_object) ''id'') = ''sub_1''" "tryOrgId stripe_demo_object = Some ''o1''"
    by code_simp+
  then show ?thesis
    using stripe_deletion_cancels_any [of ?w "''o1''" ?c stripe_demo_object
        "stripe_demo_event ''customer.subscription.deleted''" "''customer.subscription.deleted''" stripe_demo_env]
    by auto
qed

subsection \<open>What a subscription row may hold\<close>

definition sub_ok :: "subscription \<Rightarrow> bool" where
  "sub_ok r \<longleftrightarrow> sb_planCode r \<in> {''free'', ''basic'', ''pro''} \<and>
     sb_status r \<in> {''active'', ''past_due'', ''canceled'', ''incomplete''}"

definition subs_ok :: "world \<Rightarrow> bool" where
  "subs_ok w \<longleftrightarrow> (\<forall>r \<in> set (rowsT (w_subscriptions w)). sub_ok r)"

lemma catalog_codes: "p \<in> set (plan_catalog env) \<Longrightarrow> pl_code p \<in> {''free'', ''basic'', ''pro''}"
  by (auto simp: plan_catalog_def free_plan_def)

lemma price_plan_code: "findPlanByStripePriceId env s = Some p \<Longrightarrow> pl_code p \<in> {''free'', ''basic'', ''pro''}"
  unfolding findPlanByStripePriceId_def by (rule catalog_codes [of p env]) (auto simp: find_Some_iff)

lemma mapStatus_range: "mapStatus s \<in> {''active'', ''past_due'', ''canceled'', ''incomplete''}"
  by (simp add: mapStatus_def)

lemma keeps_upsert:
  assumes "usb_planCode d \<in> {''free'', ''basic'', ''pro''}"
    and "usb_status d \<in> {''active'', ''past_due'', ''canceled'', ''incomplete''}"
  shows "keeps subs_ok (subscription_upsert d)"
proof -
  have "subs_ok (w_subscriptions_update (setT k r) w)" if "subs_ok w" "sub_ok r" for k r w
    using that set_rowsT_setT [of k r "w_subscriptions w"] by (auto simp: subs_ok_def)
  moreover have "subs_ok (w\<lparr>w_ticks := n\<rparr>)" "subs_ok (w\<lparr>w_uuid_n := n\<rparr>)" if "subs_ok w" for w n
    using that by (simp_all add: subs_ok_def)
  ultimately show ?thesis
    using assms
    by (auto simp: keeps_def subscription_upsert_def subscriptions_upsert_def bindA_def nowA_def uuidA_def
        insert_row_apply sub_ok_def split: option.splits)
qed

lemma keeps_audit_subs: "keeps subs_ok (audit_record d)"
  by (simp add: keeps_def subs_ok_def audit_record_apply Let_def)

lemma keeps_update_event: "keeps subs_ok (onSubscriptionUpdate env event type obj)"
  unfolding keeps_def
proof (intro allI impI)
  fix w assume "subs_ok w"
  have step: "keeps subs_ok (bindA (subscription_upsert \<lparr>usb_org = org, usb_planCode = pl_code pl,
      usb_status = mapStatus s, usb_stripeCustomerId = c, usb_stripeSubscriptionId = i, usb_periodStart = ps,
      usb_periodEnd = pe, usb_cancelAtPeriodEnd = b\<rparr>) (\<lambda>sub. bindA (audit_record (d sub)) (\<lambda>_. ret (f sub))))"
    if "pl_code pl \<in> {''free'', ''basic'', ''pro''}" for org pl s c i ps pe b and d :: "subscription \<Rightarrow> create_audit" and f
    using that mapStatus_range [of s] by (intro keeps_bindA keeps_upsert keeps_audit_subs keeps_ret) simp_all
  show "subs_ok (snd (onSubscriptionUpdate env event type obj w))"
    using \<open>subs_ok w\<close> price_plan_code
    by (auto simp: onSubscriptionUpdate_def Let_def requireOrgId_def orThrow_def bindA_def [of "orThrow _ _"]
        bindA_def [of "ret _"] bindA_def [of "throw _"] intro!: keepsD [OF step] split: option.splits json.splits)
qed

lemma keeps_deleted_event: "keeps subs_ok (onSubscriptionDeleted event type obj)"
  unfolding onSubscriptionDeleted_def requireOrgId_def
  by (intro keeps_bindA keeps_orThrow keeps_upsert keeps_audit_subs keeps_ret) simp_all

lemma keeps_checkout_event: "keeps subs_ok (onCheckoutCompleted event type obj)"
  unfolding onCheckoutCompleted_def
  by (cases "tryOrgId obj") (auto intro!: keeps_bindA keeps_audit_subs)

lemma keeps_stripe_receive: "keeps subs_ok (stripe_receive hmac number parse_json env rawBody header secret)"
proof -
  have now: "keeps subs_ok nowA"
    by (rule keeps_nowA) (simp add: subs_ok_def)
  show ?thesis
    unfolding stripe_receive_def dispatch_event_def Let_def
    by (intro keeps_bindA now keeps_throwIf keeps_orThrow keeps_if keeps_update_event keeps_deleted_event
        keeps_checkout_event keeps_ret)
qed



end
