(* ===== verification/Llm.thy ===== *)
theory Llm
  imports Billing Documents Notifications Export
begin

text \<open>
  Model calls: the daily budget (\<^verbatim>\<open>providers/llm/budget-guard.service.ts\<close>), the usage log
  (\<^verbatim>\<open>providers/llm/llm-usage.service.ts\<close>) and the sector classifier that spends it
  (\<^verbatim>\<open>sector/sector-classifier.service.ts\<close>). The model provider is a parameter whose answers
  already satisfy the response schema, as is the title hash; costs and confidences are exact
  rationals where the code has floating-point numbers; the fixed system prompt is part of the
  provider. A limit that \<^verbatim>\<open>Number\<close> cannot read is \<open>None\<close> (\<^verbatim>\<open>NaN\<close>: every comparison is
  false).
\<close>

subsection \<open>The budget\<close>

record budget_config =
  bg_maxRequests :: "rat option"
  bg_maxCost :: "rat option"

definition read_budget :: "(string \<Rightarrow> rat option) \<Rightarrow> string option \<Rightarrow> string option \<Rightarrow> budget_config" where
  "read_budget number requests cost =
     \<lparr>bg_maxRequests = number (orElse requests ''1000''), bg_maxCost = number (orElse cost ''10'')\<rparr>"

definition reaches :: "rat \<Rightarrow> rat option \<Rightarrow> bool" where
  "reaches v limit \<longleftrightarrow> (case limit of None \<Rightarrow> False | Some l \<Rightarrow> l \<le> v)"

definition budget_exceeded :: "string \<Rightarrow> rat option \<Rightarrow> rat \<Rightarrow> api_error" where
  "budget_exceeded reason limit current =
     TooManyRequests (JObj [(''statusCode'', JNum 429), (''error'', JStr ''BudgetExceeded''),
       (''reason'', JStr reason), (''limit'', case limit of None \<Rightarrow> JNull | Some l \<Rightarrow> JNum l),
       (''current'', JNum current)])"

definition assertCanSpend :: "budget_config \<Rightarrow> ident \<Rightarrow> unit wact" where
  "assertCanSpend cfg org =
     bindA nowA (\<lambda>t.
     bindA (llm_dailyTotals org (startOfUtcDay t)) (\<lambda>totals.
     bindA (throwIf (reaches (of_int (dy_requestCount totals)) (bg_maxRequests cfg))
       (budget_exceeded ''requests'' (bg_maxRequests cfg) (of_int (dy_requestCount totals)))) (\<lambda>_.
     throwIf (reaches (dy_totalCost totals) (bg_maxCost cfg))
       (budget_exceeded ''cost'' (bg_maxCost cfg) (dy_totalCost totals)))))"

subsection \<open>The usage log\<close>

record llm_usage =
  us_inputTokens :: "int option"
  us_outputTokens :: "int option"
  us_totalTokens :: "int option"

record classification =
  sc_sector :: string
  sc_category :: string
  sc_confidence :: rat

record llm_result =
  lr_output :: classification
  lr_model :: string
  lr_provider :: string
  lr_usage :: "llm_usage option"

record rate_env =
  re_proIn :: rat
  re_proOut :: rat
  re_flashIn :: rat
  re_flashOut :: rat

definition rateCard :: "rate_env \<Rightarrow> string \<Rightarrow> string \<Rightarrow> rat \<times> rat" where
  "rateCard env provider model =
     (if provider = ''mock'' \<or> provider = ''ollama'' then (0, 0)
      else if provider = ''deepseek'' then
        (if includes_str model ''pro'' then (re_proIn env, re_proOut env)
         else (re_flashIn env, re_flashOut env))
      else (0, 0))"

definition estimateCost ::
    "rate_env \<Rightarrow> string \<Rightarrow> string \<Rightarrow> int \<Rightarrow> int \<Rightarrow> rat option \<Rightarrow> rat option \<Rightarrow> rat option" where
  "estimateCost env provider model inputTokens outputTokens overrideIn overrideOut =
     (if inputTokens = 0 \<and> outputTokens = 0 then None
      else let rates = rateCard env provider model;
               inPer1k = orElse overrideIn (fst rates); outPer1k = orElse overrideOut (snd rates) in
        if inPer1k = 0 \<and> outPer1k = 0 then Some 0
        else Some (of_int inputTokens / 1000 * inPer1k + of_int outputTokens / 1000 * outPer1k))"

record usage_input =
  ri_org :: ident
  ri_tenderId :: "ident option"
  ri_jobType :: "string option"
  ri_promptVersion :: "string option"
  ri_result :: llm_result
  ri_costIn :: "rat option"
  ri_costOut :: "rat option"

definition quietly :: "usage_log wact \<Rightarrow> unit wact" where
  "quietly m = tryA (bindA m (\<lambda>_. ret ())) (\<lambda>_. ret ())"

definition usage_recordOk :: "rate_env \<Rightarrow> usage_input \<Rightarrow> unit wact" where
  "usage_recordOk env i =
     (let r = ri_result i;
          u = orElse (lr_usage r) \<lparr>us_inputTokens = None, us_outputTokens = None, us_totalTokens = None\<rparr>;
          cost = estimateCost env (lr_provider r) (lr_model r) (orElse (us_inputTokens u) 0)
                   (orElse (us_outputTokens u) 0) (ri_costIn i) (ri_costOut i)
      in quietly (llm_create \<lparr>clu_org = ri_org i, clu_tenderId = ri_tenderId i, clu_provider = lr_provider r,
           clu_model = lr_model r, clu_promptVersion = ri_promptVersion i, clu_jobType = ri_jobType i,
           clu_inputTokens = us_inputTokens u, clu_outputTokens = us_outputTokens u,
           clu_totalTokens = us_totalTokens u, clu_estimatedCost = cost, clu_status = Some ''ok'',
           clu_errorMessage = None\<rparr>))"

definition failed_usage :: "ident \<Rightarrow> string \<Rightarrow> string \<Rightarrow> string \<Rightarrow> string \<Rightarrow> create_usage" where
  "failed_usage org provider model status message =
     \<lparr>clu_org = org, clu_tenderId = None, clu_provider = provider, clu_model = model,
      clu_promptVersion = None, clu_jobType = None, clu_inputTokens = None, clu_outputTokens = None,
      clu_totalTokens = None, clu_estimatedCost = None, clu_status = Some status,
      clu_errorMessage = Some message\<rparr>"

definition usage_recordBlocked :: "ident \<Rightarrow> string \<Rightarrow> string \<Rightarrow> string \<Rightarrow> unit wact" where
  "usage_recordBlocked org provider model reason =
     quietly (llm_create (failed_usage org provider model ''budget_blocked'' reason))"

definition usage_recordError :: "ident \<Rightarrow> string \<Rightarrow> string \<Rightarrow> string \<Rightarrow> unit wact" where
  "usage_recordError org provider model message =
     quietly (llm_create (failed_usage org provider model ''error'' (take 500 message)))"

subsection \<open>Sectors\<close>

definition sectors :: "string list" where
  "sectors = [''construction'', ''it_software'', ''healthcare'', ''telecom'', ''transport_logistics'',
     ''energy_utilities'', ''oil_gas'', ''education'', ''defense_security'', ''manufacturing'',
     ''professional_services'', ''retail_consumer'', ''agriculture'', ''public_sector_admin'', ''other'']"

definition isSector :: "json \<Rightarrow> bool" where
  "isSector v = (case v of JStr s \<Rightarrow> s \<in> set sectors | _ \<Rightarrow> False)"

record llm_provider =
  lp_name :: string
  lp_generate :: "string \<Rightarrow> llm_result wact"

record classify_result =
  cr_tender :: tender
  cr_classification :: classification
  cr_cached :: bool
  cr_model :: string

record classifier =
  cf_hash :: "string \<Rightarrow> string"
  cf_llm :: llm_provider
  cf_budget :: budget_config
  cf_rates :: rate_env

definition hashInput :: "classifier \<Rightarrow> string \<Rightarrow> string" where
  "hashInput cf title = cf_hash cf (trim title)"

definition user_prompt :: "string \<Rightarrow> string" where
  "user_prompt title = stringify (JObj [(''title'', JStr title),
     (''output_schema'', JObj [(''sector'', JStr ''string (one of allowed values)''),
       (''category'', JStr ''string''), (''confidence'', JStr ''number 0..1'')])])"

definition bump_now :: "ident \<Rightarrow> string \<Rightarrow> int \<Rightarrow> int wact" where
  "bump_now org metric delta = bindA nowA (\<lambda>t. usage_bump org metric delta t)"

definition run_model :: "classifier \<Rightarrow> ident \<Rightarrow> tender \<Rightarrow> llm_result wact" where
  "run_model cf org t =
     tryA (lp_generate (cf_llm cf) (user_prompt (tn_title t)))
       (\<lambda>e. bindA (usage_recordError org (lp_name (cf_llm cf))
               (if lp_name (cf_llm cf) = ''mock'' then ''mock'' else ''unknown'') (error_message e)) (\<lambda>_.
             throw e))"

definition record_call :: "classifier \<Rightarrow> ident \<Rightarrow> tender \<Rightarrow> llm_result \<Rightarrow> unit wact" where
  "record_call cf org t r =
     bindA (usage_recordOk (cf_rates cf) \<lparr>ri_org = org, ri_tenderId = Some (tn_id t),
       ri_jobType = Some ''sector_classification'', ri_promptVersion = None, ri_result = r,
       ri_costIn = None, ri_costOut = None\<rparr>) (\<lambda>_.
     bindA (bump_now org ''llm_requests'' 1) (\<lambda>_.
     (case lr_usage r of
        None \<Rightarrow> ret ()
      | Some u \<Rightarrow>
          (case us_totalTokens u of
             None \<Rightarrow> ret ()
           | Some n \<Rightarrow> if n = 0 then ret () else bindA (bump_now org ''llm_tokens'' n) (\<lambda>_. ret ())))))"

definition is_cached :: "classifier \<Rightarrow> bool \<Rightarrow> tender \<Rightarrow> bool" where
  "is_cached cf force t \<longleftrightarrow>
     \<not> force \<and> tn_sector t \<noteq> None \<and> tn_sectorInputHash t = Some (hashInput cf (tn_title t))"

definition cached_result :: "tender \<Rightarrow> classify_result" where
  "cached_result t =
     \<lparr>cr_tender = t,
      cr_classification = \<lparr>sc_sector = the (tn_sector t), sc_category = orElse (tn_sectorCategory t) [],
        sc_confidence = orElse (tn_sectorConfidence t) 0\<rparr>,
      cr_cached = True, cr_model = orElse (tn_sectorModel t) ''(cached)''\<rparr>"

definition classify :: "classifier \<Rightarrow> ident \<Rightarrow> ident \<Rightarrow> ident \<Rightarrow> bool \<Rightarrow> classify_result wact" where
  "classify cf tender org user force =
     bindA (tender_get tender org) (\<lambda>t.
     if is_cached cf force t then ret (cached_result t)
     else
       bindA (assertCanSpend (cf_budget cf) org) (\<lambda>_.
       bindA (run_model cf org t) (\<lambda>r.
       bindA (record_call cf org t r) (\<lambda>_.
       bindA (persistSectorClassification (tn_id t) org \<lparr>sd_sector = sc_sector (lr_output r),
         sd_category = Some (sc_category (lr_output r)), sd_confidence = Some (sc_confidence (lr_output r)),
         sd_inputHash = Some (hashInput cf (tn_title t)), sd_model = Some (lr_model r)\<rparr>) (\<lambda>persisted.
       bindA (audit_record \<lparr>cae_action = ''tender.sector.classified'', cae_entityType = ''Tender'',
         cae_entityId = tn_id t, cae_userId = Some user, cae_org = org,
         cae_details = Some (JObj [(''sector'', JStr (sc_sector (lr_output r))),
           (''category'', JStr (sc_category (lr_output r))), (''confidence'', JNum (sc_confidence (lr_output r))),
           (''model'', JStr (lr_model r)), (''cached'', JBool False)])\<rparr>) (\<lambda>_.
       ret \<lparr>cr_tender = persisted, cr_classification = lr_output r, cr_cached = False,
            cr_model = lr_model r\<rparr>))))))"

definition override_sector ::
    "ident \<Rightarrow> ident \<Rightarrow> ident \<Rightarrow> string \<Rightarrow> string option \<Rightarrow> rat option \<Rightarrow> tender wact" where
  "override_sector tender org user sector category confidence =
     bindA (tender_get tender org) (\<lambda>t.
     bindA (persistSectorClassification (tn_id t) org \<lparr>sd_sector = sector, sd_category = category,
       sd_confidence = Some (orElse confidence 1), sd_inputHash = None,
       sd_model = Some ''human-override''\<rparr>) (\<lambda>updated.
     bindA (audit_record \<lparr>cae_action = ''tender.sector.override'', cae_entityType = ''Tender'',
       cae_entityId = tn_id t, cae_userId = Some user, cae_org = org,
       cae_details = Some (JObj [(''sector'', JStr sector), (''category'', jopt category),
         (''confidence'', JNum (orElse confidence 1))])\<rparr>) (\<lambda>_.
     ret updated)))"

subsection \<open>Fail closed\<close>

definition counted :: "ident \<Rightarrow> time \<Rightarrow> usage_log \<Rightarrow> bool" where
  "counted org since r \<longleftrightarrow> lu_org r = org \<and> lu_status r = ''ok'' \<and> since \<le> lu_createdAt r"

lemma totals_loop_sums:
  "totals_loop org since rs acc =
     \<lparr>dy_requestCount = dy_requestCount acc + int (length (filter (counted org since) rs)),
      dy_totalTokens = dy_totalTokens acc + (\<Sum>r\<leftarrow>filter (counted org since) rs. orElse (lu_totalTokens r) 0),
      dy_totalCost = dy_totalCost acc + (\<Sum>r\<leftarrow>filter (counted org since) rs. orElse (lu_estimatedCost r) 0)\<rparr>"
  by (induction rs arbitrary: acc) (simp_all add: counted_def not_less algebra_simps)

definition calls_today :: "ident \<Rightarrow> world \<Rightarrow> usage_log list" where
  "calls_today org w = filter (counted org (startOfUtcDay (w_clock w (w_ticks w)))) (w_llm w)"

lemma assertCanSpend_apply:
  "assertCanSpend cfg org w =
     (let n = of_int (int (length (calls_today org w)));
          cost = (\<Sum>r\<leftarrow>calls_today org w. orElse (lu_estimatedCost r) 0);
          w1 = w\<lparr>w_ticks := Suc (w_ticks w)\<rparr>
      in if reaches n (bg_maxRequests cfg) then (Inl (budget_exceeded ''requests'' (bg_maxRequests cfg) n), w1)
         else if reaches cost (bg_maxCost cfg) then (Inl (budget_exceeded ''cost'' (bg_maxCost cfg) cost), w1)
         else (Inr (), w1))"
  by (simp add: assertCanSpend_def bindA_def nowA_def llm_dailyTotals_def totals_loop_sums calls_today_def
      throwIf_apply Let_def)

text \<open>
  C13: The classifier fails closed: once the successful calls an organisation made since UTC
  midnight reach the request limit, or their cost the cost limit, a classification that is not
  cached ends with 429, whatever the provider, before any call is made: nothing is written.
\<close>

theorem classify_fails_closed:
  assumes "tender_view tender org w = Some t" and "\<not> is_cached cf force t"
    and "reaches (of_int (int (length (calls_today org w)))) (bg_maxRequests (cf_budget cf)) \<or>
         reaches (\<Sum>r\<leftarrow>calls_today org w. orElse (lu_estimatedCost r) 0) (bg_maxCost (cf_budget cf))"
  shows "\<exists>j. classify (cf\<lparr>cf_llm := llm\<rparr>) tender org user force w
    = (Inl (TooManyRequests j), w\<lparr>w_ticks := Suc (w_ticks w)\<rparr>)"
proof -
  have "\<not> is_cached (cf\<lparr>cf_llm := llm\<rparr>) force t"
    using assms(2) by (simp add: is_cached_def hashInput_def)
  then show ?thesis
    using assms(1,3)
    by (auto simp: classify_def tender_get_apply bindA_def assertCanSpend_apply Let_def budget_exceeded_def)
qed

definition quiet_llm :: "string \<Rightarrow> llm_provider" where
  "quiet_llm sector = \<lparr>lp_name = ''mock'', lp_generate = (\<lambda>_. ret
     \<lparr>lr_output = \<lparr>sc_sector = sector, sc_category = ''roads'', sc_confidence = 1 / 2\<rparr>,
      lr_model = ''mock-json'', lr_provider = ''mock'', lr_usage = None\<rparr>)\<rparr>"

definition classifier_demo :: "rat option \<Rightarrow> classifier" where
  "classifier_demo limit = \<lparr>cf_hash = (\<lambda>s. ''h:'' @ s), cf_llm = quiet_llm ''construction'',
     cf_budget = \<lparr>bg_maxRequests = limit, bg_maxCost = None\<rparr>,
     cf_rates = \<lparr>re_proIn = 0, re_proOut = 0, re_flashIn = 0, re_flashOut = 0\<rparr>\<rparr>"

definition classify_world :: world where
  "classify_world = snd (tender_intake ''Bridge'' ''c1'' ''o1'' None world0)"

lemma classify_world_facts:
  "\<exists>t. tender_view ''u'' ''o1'' classify_world = Some t \<and> \<not> is_cached (classifier_demo l) force t"
proof -
  have "tender_view ''u'' ''o1'' classify_world \<noteq> None"
    "tn_sector (the (tender_view ''u'' ''o1'' classify_world)) = None"
    by code_simp+
  then show ?thesis by (auto simp: is_cached_def)
qed

theorem classify_fails_closed_witness:
  "\<exists>j w'. classify ((classifier_demo (Some 0))\<lparr>cf_llm := quiet_llm ''telecom''\<rparr>) ''u'' ''o1'' ''alice'' False
     classify_world = (Inl (TooManyRequests j), w')"
proof -
  have "reaches (of_int (int (length (calls_today ''o1'' classify_world))))
      (bg_maxRequests (cf_budget (classifier_demo (Some 0))))"
    by (simp add: reaches_def classifier_demo_def)
  then show ?thesis
    using classify_world_facts [of "Some 0" False]
      classify_fails_closed [of "''u''" "''o1''" classify_world _ "classifier_demo (Some 0)" False
        "quiet_llm ''telecom''" "''alice''"]
    by blast
qed

subsection \<open>Classified once\<close>

lemma frame_quietly:
  "preorder_rel R \<Longrightarrow> runs R m \<Longrightarrow> runs R (quietly m)"
  unfolding quietly_def by (intro runs_rules) simp_all

lemma frame_llm_create: "runs (frame w_tenders) (llm_create d)"
  unfolding llm_create_def Let_def
  by (intro runs_rules runs_modA) (simp_all add: frame_def uuid_adv_def)

lemma frame_bump_now: "runs (frame w_tenders) (bump_now org metric delta)"
  unfolding bump_now_def usage_bump_def counters_bump_def Let_def
  by (intro runs_rules runs_modA) (simp_all add: frame_def uuid_adv_def)

lemma frame_record_call: "runs (frame w_tenders) (record_call cf org t r)"
  unfolding record_call_def usage_recordOk_def Let_def
  by (intro runs_rules frame_quietly frame_llm_create frame_bump_now) simp_all

lemma frame_assertCanSpend: "runs (frame w_tenders) (assertCanSpend cfg org)"
  by (simp add: runs_def assertCanSpend_apply Let_def frame_def uuid_adv_def)

lemma frame_run_model:
  assumes "\<And>p. runs (frame w_tenders) (lp_generate (cf_llm cf) p)"
  shows "runs (frame w_tenders) (run_model cf org t)"
  unfolding run_model_def usage_recordError_def
  by (intro runs_rules frame_quietly frame_llm_create assms) simp_all

lemma persistSector_result:
  assumes "tender_view i org w = Some t"
  shows "\<exists>p w'. persistSectorClassification i org d w = (Inr p, w') \<and> tn_title p = tn_title t \<and>
    tn_org p = org \<and> tn_sector p = Some (sd_sector d) \<and> tn_sectorCategory p = sd_category d \<and>
    tn_sectorConfidence p = sd_confidence d \<and> tn_sectorInputHash p = sd_inputHash d \<and>
    tn_sectorModel p = sd_model d \<and> w_tenders w' = setT i p (w_tenders w)"
  using assms persistSector_Some [OF assms refl, of d]
  by (simp add: sector_row_def tender_view_def scoped_Some_iff)

text \<open>
  A classification is paid for once: after a classification that returned, asking again
  (without forcing) answers the same sector, category, confidence and model from the row, for
  any provider, budget and caller, without touching the world. The provider is only assumed to
  leave the tenders table alone.
\<close>

theorem classify_once:
  assumes "classify cf tender org user force w = (Inr r, w1)"
    and "\<And>p. runs (frame w_tenders) (lp_generate (cf_llm cf) p)"
    and "tbl_ok tn_id (w_tenders w)"
  shows "\<exists>t. classify (cf\<lparr>cf_llm := llm, cf_budget := budget\<rparr>) tender org user' False w1
    = (Inr (r\<lparr>cr_tender := t, cr_cached := True\<rparr>), w1)"
proof -
  obtain t where t: "tender_view tender org w = Some t"
    using assms(1) by (cases "tender_view tender org w") (simp_all add: classify_def tender_get_apply)
  let ?cf = "cf\<lparr>cf_llm := llm, cf_budget := budget\<rparr>"
  have again: "classify ?cf tender org user' False w' = (Inr (cached_result p), w')"
    if "tender_view tender org w' = Some p" "is_cached cf False p" for p w'
    using that by (simp add: classify_def tender_get_apply is_cached_def hashInput_def)
  show ?thesis
  proof (cases "is_cached cf force t")
    case True
    then have "r = cached_result t" "w1 = w" "is_cached cf False t"
      using assms(1) t by (auto simp: classify_def tender_get_apply is_cached_def)
    then show ?thesis
      using again [OF t] by (auto simp: cached_result_def)
  next
    case False
    from assms(1) obtain w2 w3 m w4 where
      spend: "assertCanSpend (cf_budget cf) org w = (Inr (), w2)" and
      model: "run_model cf org t w2 = (Inr m, w3)" and
      logged: "record_call cf org t m w3 = (Inr (), w4)"
      using t False by (auto simp: classify_def tender_get_apply bindA_eq_Inr)
    have "frame w_tenders w w2" "frame w_tenders w2 w3" "frame w_tenders w3 w4"
      using runsD_eq [OF frame_assertCanSpend spend] runsD_eq [OF frame_run_model [OF assms(2)] model]
        runsD_eq [OF frame_record_call logged] by blast+
    then have "w_tenders w4 = w_tenders w" by (simp add: frame_def)
    then have view: "tender_view tender org w4 = Some t" and own: "tn_id t = tender"
      using t tbl_ok_getT [OF assms(3)] by (simp_all add: tender_view_def scoped_Some_iff)
    let ?d = "\<lparr>sd_sector = sc_sector (lr_output m), sd_category = Some (sc_category (lr_output m)),
      sd_confidence = Some (sc_confidence (lr_output m)),
      sd_inputHash = Some (hashInput cf (tn_title t)), sd_model = Some (lr_model m)\<rparr>"
    obtain p w5 where p: "persistSectorClassification tender org ?d w4 = (Inr p, w5)" "tn_title p = tn_title t"
        "tn_org p = org" "tn_sector p = Some (sd_sector ?d)" "tn_sectorCategory p = sd_category ?d"
        "tn_sectorConfidence p = sd_confidence ?d" "tn_sectorInputHash p = sd_inputHash ?d"
        "tn_sectorModel p = sd_model ?d" "w_tenders w5 = setT tender p (w_tenders w4)"
      using persistSector_result [OF view, of ?d] by blast
    have r: "r = \<lparr>cr_tender = p, cr_classification = lr_output m, cr_cached = False, cr_model = lr_model m\<rparr>"
      and w1: "w_tenders w1 = w_tenders w5"
      using assms(1) t False spend model logged p(1) own
      by (auto simp: classify_def tender_get_apply audit_then_ret audit_record_apply Let_def)
    have "tender_view tender org w1 = Some p" "is_cached cf False p"
      using p w1 by (simp_all add: tender_view_def scoped_Some_iff getT_setT is_cached_def)
    from again [OF this] show ?thesis
      using p(4-8) by (auto simp: r cached_result_def)
  qed
qed

lemma quietly_returns: "\<exists>w'. quietly m w = (Inr (), w')"
  by (cases "m w") (auto simp: quietly_def tryA_def bindA_def split: sum.splits)

lemma bump_now_returns: "\<exists>n w'. bump_now org metric delta w = (Inr n, w')"
  by (auto simp: bump_now_def usage_bump_def counters_bump_def bindA_def nowA_def modA_def askA_def uuidA_def ret_def
      Let_def split: option.splits)

lemma record_call_returns: "\<exists>w'. record_call cf org t r w = (Inr (), w')"
proof -
  have step: "\<exists>w'. bindA (bump_now org metric n) (\<lambda>_. ret ()) w = (Inr (), w')" for metric n w
    using bump_now_returns [of org metric n w] by (auto simp: bindA_def)
  obtain w1 where w1: "usage_recordOk (cf_rates cf) \<lparr>ri_org = org, ri_tenderId = Some (tn_id t),
      ri_jobType = Some ''sector_classification'', ri_promptVersion = None, ri_result = r,
      ri_costIn = None, ri_costOut = None\<rparr> w = (Inr (), w1)"
    unfolding usage_recordOk_def Let_def using quietly_returns by blast
  obtain n w2 where "bump_now org ''llm_requests'' 1 w1 = (Inr n, w2)"
    using bump_now_returns by blast
  then show ?thesis
    using step [of "''llm_tokens''" _ w2]
    by (auto simp: record_call_def bindA_def [of "usage_recordOk _ _"] bindA_def [of "bump_now org ''llm_requests'' 1"]
        w1 split: option.splits)
qed

lemma classify_runs:
  assumes "tender_view tender org w = Some t" and "\<not> is_cached cf force t"
    and "\<not> reaches (of_int (int (length (calls_today org w)))) (bg_maxRequests (cf_budget cf))"
    and "\<not> reaches (\<Sum>r\<leftarrow>calls_today org w. orElse (lu_estimatedCost r) 0) (bg_maxCost (cf_budget cf))"
    and "\<And>p. lp_generate (cf_llm cf) p = ret m" and "tbl_ok tn_id (w_tenders w)"
  shows "\<exists>r w1. classify cf tender org user force w = (Inr r, w1) \<and> cr_classification r = lr_output m"
proof -
  let ?w = "w\<lparr>w_ticks := Suc (w_ticks w)\<rparr>"
  obtain w2 where w2: "record_call cf org t m ?w = (Inr (), w2)"
    using record_call_returns by blast
  then have "w_tenders w2 = w_tenders w"
    using runsD_eq [OF frame_record_call w2] by (simp add: frame_def)
  then have view: "tender_view tender org w2 = Some t" and own: "tn_id t = tender"
    using assms(1) tbl_ok_getT [OF assms(6)] by (simp_all add: tender_view_def scoped_Some_iff)
  have "run_model cf org t ?w = (Inr m, ?w)"
    by (simp add: run_model_def assms(5) tryA_def ret_def)
  then show ?thesis
    using assms(1-4) own w2
      persistSector_result [OF view, of "\<lparr>sd_sector = sc_sector (lr_output m),
        sd_category = Some (sc_category (lr_output m)), sd_confidence = Some (sc_confidence (lr_output m)),
        sd_inputHash = Some (hashInput cf (tn_title t)), sd_model = Some (lr_model m)\<rparr>"]
    by (auto simp: classify_def tender_get_apply bindA_def assertCanSpend_apply Let_def audit_record_apply
        audit_then_ret)
qed

theorem classify_once_witness:
  "\<exists>r w1 t. classify (classifier_demo (Some 5)) ''u'' ''o1'' ''alice'' False classify_world = (Inr r, w1) \<and>
     sc_sector (cr_classification r) = ''construction'' \<and>
     classify ((classifier_demo (Some 5))\<lparr>cf_llm := quiet_llm ''telecom'',
       cf_budget := \<lparr>bg_maxRequests = Some 0, bg_maxCost = None\<rparr>\<rparr>) ''u'' ''o1'' ''bob'' False w1
     = (Inr (r\<lparr>cr_tender := t, cr_cached := True\<rparr>), w1)"
proof -
  let ?cf = "classifier_demo (Some 5)"
  obtain t where t: "tender_view ''u'' ''o1'' classify_world = Some t" "\<not> is_cached ?cf False t"
    using classify_world_facts by blast
  have calls: "calls_today ''o1'' classify_world = []" by code_simp
  have keyed: "tbl_ok tn_id (w_tenders classify_world)" by code_simp
  have "\<exists>r w1. classify ?cf ''u'' ''o1'' ''alice'' False classify_world = (Inr r, w1) \<and>
      cr_classification r = \<lparr>sc_sector = ''construction'', sc_category = ''roads'', sc_confidence = 1 / 2\<rparr>"
    using classify_runs [OF t, of "\<lparr>lr_output = \<lparr>sc_sector = ''construction'', sc_category = ''roads'',
        sc_confidence = 1 / 2\<rparr>, lr_model = ''mock-json'', lr_provider = ''mock'', lr_usage = None\<rparr>" "''alice''"]
      calls keyed by (simp add: classifier_demo_def quiet_llm_def reaches_def)
  then obtain r w1 where run: "classify ?cf ''u'' ''o1'' ''alice'' False classify_world = (Inr r, w1)"
      "sc_sector (cr_classification r) = ''construction''" by auto
  have "runs (frame w_tenders) (lp_generate (cf_llm ?cf) p)" for p
    by (simp add: classifier_demo_def quiet_llm_def runs_ret)
  with keyed show ?thesis
    using run classify_once [OF run(1), where llm = "quiet_llm ''telecom''" and user' = "''bob''"
      and budget = "\<lparr>bg_maxRequests = Some 0, bg_maxCost = None\<rparr>"] by blast
qed

end
