(* ===== verification/Portal.thy ===== *)
theory Portal
  imports Ingestion Compliance Documents Audit_Trail Repos_Compliance
begin

text \<open>
  The server-to-server ingestion entry point: the per-organisation keys
  (\<^verbatim>\<open>ingestion-portal/ingestion-api-key.service.ts\<close>), the guard that turns a bearer token into
  a tenant (\<^verbatim>\<open>ingestion-portal/ingestion-token.guard.ts\<close>) and the projection of an enriched
  tender into rows (\<^verbatim>\<open>ingestion-portal/ingestion-portal.service.ts\<close>). The random key and the
  bcrypt functions are parameters.
\<close>

subsection \<open>Keys\<close>

definition prefix_len :: nat where
  "prefix_len = 8"

record minted_key =
  mk_key :: api_key
  mk_rawKey :: string

definition mint :: "(string \<Rightarrow> string) \<Rightarrow> string \<Rightarrow> ident \<Rightarrow> ident \<Rightarrow> string \<Rightarrow> minted_key wact" where
  "mint hash raw org createdBy name =
     bindA (throwIf (trim name = []) (BadRequest ''name required'')) (\<lambda>_.
     bindA (keys_create \<lparr>cik_org = org, cik_name = trim name, cik_keyPrefix = take prefix_len raw,
       cik_keyHash = hash raw, cik_createdBy = createdBy\<rparr>) (\<lambda>row.
     ret \<lparr>mk_key = row, mk_rawKey = raw\<rparr>))"

text \<open>The time stamp of the last use is written on the side; its failure is only logged.\<close>

definition verify_key :: "(string \<Rightarrow> string \<Rightarrow> bool) \<Rightarrow> string \<Rightarrow> api_key option wact" where
  "verify_key cmp raw =
     (if raw = [] \<or> length raw < prefix_len then ret None
      else bindA (keys_findByPrefix (take prefix_len raw)) (\<lambda>candidate.
        (case candidate of
           None \<Rightarrow> ret None
         | Some k \<Rightarrow>
             if ik_revokedAt k \<noteq> None then ret None
             else if \<not> cmp raw (ik_keyHash k) then ret None
             else bindA (tryA (keys_markUsed (ik_id k)) (\<lambda>_. ret ())) (\<lambda>_. ret (Some k)))))"

definition key_list :: "ident \<Rightarrow> api_key list wact" where
  "key_list org = keys_findAllByOrg org"

definition key_revoke :: "ident \<Rightarrow> ident \<Rightarrow> api_key wact" where
  "key_revoke i org = keys_revoke i org"

subsection \<open>The guard\<close>

record portal_auth =
  pa_org :: ident
  pa_keyId :: "ident option"

text \<open>\<^verbatim>\<open>(authorization ?? '').replace(/^Bearer\s+/i, '')\<close>\<close>

definition strip_bearer :: "string \<Rightarrow> string" where
  "strip_bearer h =
     (if toLowerCase (take 6 h) = ''bearer'' \<and> drop 6 h \<noteq> [] \<and> js_space (hd (drop 6 h))
      then dropWhile js_space (drop 6 h) else h)"

definition portal_constantTimeEqual :: "string \<Rightarrow> string \<Rightarrow> bool" where
  "portal_constantTimeEqual a b =
     (if length (utf8 a) \<noteq> length (utf8 b) then False else buffers_equal (utf8 a) (utf8 b))"

definition ingestion_token_guard ::
    "(string \<Rightarrow> string \<Rightarrow> bool) \<Rightarrow> (string \<Rightarrow> string option) \<Rightarrow> string option \<Rightarrow> portal_auth wact" where
  "ingestion_token_guard cmp env authorization =
     (let raw = strip_bearer (orElse authorization []) in
     bindA (throwIf (raw = []) (Unauthorized ''missing bearer token'')) (\<lambda>_.
     bindA (verify_key cmp raw) (\<lambda>dbKey.
     (case dbKey of
        Some k \<Rightarrow> ret \<lparr>pa_org = ik_org k, pa_keyId = Some (ik_id k)\<rparr>
      | None \<Rightarrow>
          let expected = orElse (env ''INGESTION_API_KEY'') []; org = orElse (env ''INGESTION_TARGET_ORG_ID'') [] in
          if expected \<noteq> [] \<and> org \<noteq> [] \<and> portal_constantTimeEqual raw expected
          then ret \<lparr>pa_org = org, pa_keyId = None\<rparr>
          else throw (Unauthorized ''invalid ingestion api key'')))))"

subsection \<open>Ingesting a tender\<close>

record ingestion_requirement =
  ir_category :: string
  ir_text :: "string option"
  ir_mandatory :: "bool option"

record ingestion_tender =
  itn_externalId :: "string option"
  itn_sourceCode :: string
  itn_title :: string
  itn_buyerName :: "string option"
  itn_sectorCode :: "string option"
  itn_confidence :: rat
  itn_category :: "string option"
  itn_requirements :: "ingestion_requirement list option"

record ingestion_result =
  ig_tender :: tender
  ig_company :: client_company
  ig_requirementsCreated :: nat
  ig_requirements :: "tender_requirement list"

definition allowed_requirement_categories :: "string list" where
  "allowed_requirement_categories = [''administrative'', ''technical'', ''financial'', ''legal'',
     ''commercial'', ''experience'', ''certification'', ''insurance'', ''local_content'',
     ''submission_format'', ''other'']"

definition buyer_name :: "string option \<Rightarrow> string" where
  "buyer_name b = (let n = trim (orElse b ''Unknown Buyer'') in if n = [] then ''Unknown Buyer'' else n)"

definition upsertBuyerCompany :: "ident \<Rightarrow> string option \<Rightarrow> client_company wact" where
  "upsertBuyerCompany org buyer =
     (let name = buyer_name buyer; lower = toLowerCase name in
     bindA (company_list org) (\<lambda>all.
     (case List.find (\<lambda>c. trim (toLowerCase (cc_name c)) = lower) all of
        Some existing \<Rightarrow> ret existing
      | None \<Rightarrow>
          bindA (company_create name org) (\<lambda>created.
          bindA (audit_record \<lparr>cae_action = ''client_company.auto_created_from_ingestion'',
            cae_entityType = ''ClientCompany'', cae_entityId = cc_id created, cae_userId = None,
            cae_org = org, cae_details = Some (JObj [(''name'', JStr name)])\<rparr>) (\<lambda>_.
          ret created)))))"

definition accepted_requirements :: "ingestion_requirement list \<Rightarrow> ingestion_requirement list" where
  "accepted_requirements =
     filter (\<lambda>r. trim (orElse (ir_text r) []) \<noteq> [] \<and> ir_category r \<in> set allowed_requirement_categories)"

definition to_create_requirement :: "ident \<Rightarrow> ident \<Rightarrow> ingestion_requirement \<Rightarrow> create_requirement" where
  "to_create_requirement tender org r =
     \<lparr>ctr_tenderId = tender, ctr_org = org, ctr_category = ir_category r,
      ctr_text = trim (orElse (ir_text r) []),
      ctr_risk = Some (case ir_mandatory r of Some True \<Rightarrow> ''critical'' | _ \<Rightarrow> ''standard''),
      ctr_owner = None, ctr_source = Some ''ingestion''\<rparr>"

definition persistRequirements ::
    "ident \<Rightarrow> ident \<Rightarrow> ingestion_requirement list \<Rightarrow> tender_requirement list wact" where
  "persistRequirements tender org incoming =
     (if incoming = [] then ret []
      else if accepted_requirements incoming = [] then ret []
      else requirements_createMany (map (to_create_requirement tender org) (accepted_requirements incoming)))"

definition ingest :: "ident \<Rightarrow> ingestion_tender \<Rightarrow> ingestion_result wact" where
  "ingest org i =
     bindA (upsertBuyerCompany org (itn_buyerName i)) (\<lambda>company.
     bindA (tender_intake (trim (itn_title i)) (cc_id company) org (Some ''ingestion'')) (\<lambda>t.
     bindA (if truthyS (itn_sectorCode i)
        then bindA (persistSectorClassification (tn_id t) org \<lparr>sd_sector = the (itn_sectorCode i),
               sd_category = itn_category i, sd_confidence = Some (itn_confidence i), sd_inputHash = None,
               sd_model = Some ''upstream-ingestion''\<rparr>) (\<lambda>_. ret ())
        else ret ()) (\<lambda>_.
     bindA (persistRequirements (tn_id t) org (orElse (itn_requirements i) [])) (\<lambda>requirements.
     bindA (audit_record \<lparr>cae_action = ''tender.ingested_from_pipeline'', cae_entityType = ''Tender'',
       cae_entityId = tn_id t, cae_userId = None, cae_org = org,
       cae_details = Some (JObj [(''sourceCode'', JStr (itn_sourceCode i)), (''externalId'', jopt (itn_externalId i)),
         (''sectorCode'', jopt (itn_sectorCode i)), (''confidence'', JNum (itn_confidence i)),
         (''requirementsCreated'', jint (int (length requirements))),
         (''clientCompanyId'', JStr (cc_id company))])\<rparr>) (\<lambda>_.
     bindA (tender_get (tn_id t) org) (\<lambda>persisted.
     ret \<lparr>ig_tender = persisted, ig_company = company,
          ig_requirementsCreated = length requirements, ig_requirements = requirements\<rparr>))))))"

text \<open>
  The endpoint: the guard decides the tenant, the controller passes the body on and answers with
  the identifiers.
\<close>

definition post_tender ::
    "(string \<Rightarrow> string \<Rightarrow> bool) \<Rightarrow> (string \<Rightarrow> string option) \<Rightarrow> string option \<Rightarrow> ingestion_tender \<Rightarrow>
     (ident \<times> ident \<times> nat) wact" where
  "post_tender cmp env authorization body =
     bindA (ingestion_token_guard cmp env authorization) (\<lambda>a.
     bindA (ingest (pa_org a) body) (\<lambda>r.
     ret (tn_id (ig_tender r), cc_id (ig_company r), ig_requirementsCreated r)))"

subsection \<open>The life of a key\<close>

text \<open>What an operation may do to the keys there are: stamp their use, revoke them, add others.\<close>

definition key_kept :: "api_key \<Rightarrow> api_key \<Rightarrow> bool" where
  "key_kept k k' \<longleftrightarrow> ik_id k' = ik_id k \<and> ik_org k' = ik_org k \<and> ik_keyPrefix k' = ik_keyPrefix k \<and>
     ik_keyHash k' = ik_keyHash k \<and> (ik_revokedAt k \<noteq> None \<longrightarrow> ik_revokedAt k' \<noteq> None)"

definition keys_kept :: "world \<Rightarrow> world \<Rightarrow> bool" where
  "keys_kept w w' \<longleftrightarrow>
     (\<forall>i k. getT (w_keys w) i = Some k \<longrightarrow> (\<exists>k'. getT (w_keys w') i = Some k' \<and> key_kept k k'))"

definition key_inv :: "world \<Rightarrow> bool" where
  "key_inv w \<longleftrightarrow> tbl_ok ik_id (w_keys w) \<and> uuid_ok w_keys w \<and>
     (\<forall>i j k l. getT (w_keys w) i = Some k \<longrightarrow> getT (w_keys w) j = Some l \<longrightarrow>
        ik_keyPrefix k = ik_keyPrefix l \<longrightarrow> i = j)"

lemma key_kept_refl [simp]: "key_kept k k"
  by (simp add: key_kept_def)

lemma key_kept_trans: "key_kept a b \<Longrightarrow> key_kept b c \<Longrightarrow> key_kept a c"
  by (simp add: key_kept_def)

lemma keys_kept_refl: "keys_kept w w"
  by (auto simp: keys_kept_def)

lemma keys_kept_trans: "keys_kept a b \<Longrightarrow> keys_kept b c \<Longrightarrow> keys_kept a c"
  unfolding keys_kept_def by (meson key_kept_trans)

lemma key_by_prefix_None:
  "tbl_ok ik_id (w_keys w) \<Longrightarrow>
     key_by_prefix p w = None \<longleftrightarrow> (\<forall>i k. getT (w_keys w) i = Some k \<longrightarrow> ik_keyPrefix k \<noteq> p)"
  unfolding key_by_prefix_def find_None_iff
  by (metis rowsT_getT tbl_ok_rowsT)

lemma key_by_prefix_Some:
  assumes "key_inv w" and "getT (w_keys w) i = Some k" and "ik_keyPrefix k = p"
  shows "key_by_prefix p w = Some k"
proof -
  have ok: "tbl_ok ik_id (w_keys w)" using assms(1) by (simp add: key_inv_def)
  obtain l where l: "key_by_prefix p w = Some l"
    using assms(2,3) key_by_prefix_None [OF ok, of p] by (cases "key_by_prefix p w") auto
  then have "l \<in> set (rowsT (w_keys w))" "ik_keyPrefix l = p"
    using find_rowsT_in unfolding key_by_prefix_def by fastforce+
  then have "getT (w_keys w) (ik_id l) = Some l" "ik_keyPrefix l = ik_keyPrefix k"
    using tbl_ok_rowsT [OF ok] assms(3) by auto
  then have "ik_id l = i"
    using assms(1,2) unfolding key_inv_def by blast
  then show ?thesis
    using \<open>getT (w_keys w) (ik_id l) = Some l\<close> assms(2) l by simp
qed

text \<open>Writing a key that keeps what matters.\<close>

lemma key_rewrite:
  assumes "key_inv w" and "getT (w_keys w) i = Some k" and "key_kept k k'"
    and "w_keys w' = setT i k' (w_keys w)" and "uuid_adv w w'"
  shows "key_inv w' \<and> keys_kept w w'"
proof -
  have "ik_id k' = i"
    using assms(1-3) tbl_ok_getT [of ik_id "w_keys w" i k] by (simp add: key_inv_def key_kept_def)
  then have "tbl_ok ik_id (w_keys w')"
    using assms(1,4) by (simp add: key_inv_def tbl_ok_setT)
  moreover have "uuid_ok w_keys w'"
  proof (rule uuid_ok_mono)
    show "keysT (w_keys w') \<subseteq> keysT (w_keys w)"
      using assms(2,4) getT_None [of "w_keys w" i] by auto
  qed (use assms(1,5) in \<open>auto simp: key_inv_def uuid_adv_def\<close>)
  ultimately show ?thesis
    using assms(1-3) unfolding key_inv_def keys_kept_def assms(4)
    by (auto simp: getT_setT key_kept_def)
qed

inductive key_step :: "world \<Rightarrow> world \<Rightarrow> bool" where
  ks_mint: "key_step w (snd (mint hash raw org user name w))"
| ks_verify: "key_step w (snd (verify_key cmp raw w))"
| ks_revoke: "key_step w (snd (key_revoke i org w))"
| ks_elsewhere: "frame w_keys w w' \<Longrightarrow> key_step w w'"

inductive key_reachable :: "world \<Rightarrow> bool" where
  kr_start: "w_keys w = [] \<Longrightarrow> uuid_ok w_keys w \<Longrightarrow> key_reachable w"
| kr_next: "key_reachable w \<Longrightarrow> key_step w w' \<Longrightarrow> key_reachable w'"

lemma key_frame_inv:
  assumes "key_inv w" and "frame w_keys w w'"
  shows "key_inv w' \<and> keys_kept w w'"
  using assms frame_uuid_ok [OF assms(2)] by (auto simp: key_inv_def keys_kept_def frame_def)

lemma mint_outcome:
  "(\<exists>e. mint hash raw org user name w = (Inl e, w)) \<or>
   (\<exists>k w'. mint hash raw org user name w = (Inr \<lparr>mk_key = k, mk_rawKey = raw\<rparr>, w') \<and>
      key_by_prefix (take prefix_len raw) w = None \<and> w_keys w' = setT (w_uuid w (w_uuid_n w)) k (w_keys w) \<and>
      w_uuid w' = w_uuid w \<and> w_uuid_n w' = Suc (w_uuid_n w) \<and>
      ik_id k = w_uuid w (w_uuid_n w) \<and> ik_org k = org \<and> ik_keyPrefix k = take prefix_len raw \<and>
      ik_keyHash k = hash raw \<and> ik_revokedAt k = None)"
  by (simp add: mint_def keys_create_def keys_findByPrefix_def bindA_def throwIf_def uuidA_def nowA_def
      insert_row_apply)

lemma mint_inv:
  assumes "key_inv w"
  shows "key_inv (snd (mint hash raw org user name w)) \<and> keys_kept w (snd (mint hash raw org user name w))"
proof -
  consider e where "mint hash raw org user name w = (Inl e, w)"
    | k w' where "mint hash raw org user name w = (Inr \<lparr>mk_key = k, mk_rawKey = raw\<rparr>, w')"
      "key_by_prefix (take prefix_len raw) w = None" "w_keys w' = setT (w_uuid w (w_uuid_n w)) k (w_keys w)"
      "w_uuid w' = w_uuid w" "w_uuid_n w' = Suc (w_uuid_n w)" "ik_id k = w_uuid w (w_uuid_n w)"
      "ik_keyPrefix k = take prefix_len raw"
    using mint_outcome [of hash raw org user name w] by blast
  then show ?thesis
  proof cases
    case 1
    then show ?thesis using assms keys_kept_refl by simp
  next
    case (2 k w')
    have ok: "tbl_ok ik_id (w_keys w)" "uuid_ok w_keys w" using assms by (simp_all add: key_inv_def)
    have fresh: "w_uuid w (w_uuid_n w) \<notin> keysT (w_keys w)" by (rule uuid_ok_next [OF ok(2)])
    have other: "\<forall>i l. getT (w_keys w) i = Some l \<longrightarrow> ik_keyPrefix l \<noteq> ik_keyPrefix k"
      using key_by_prefix_None [OF ok(1)] 2(2,7) by simp
    have "uuid_ok w_keys w'" by (rule uuid_ok_setT [OF ok(2) 2(3-5)])
    moreover have "tbl_ok ik_id (w_keys w')" using ok(1) 2(3,6) by (simp add: tbl_ok_setT)
    moreover have "i = j" if "getT (w_keys w') i = Some l" "getT (w_keys w') j = Some m"
        "ik_keyPrefix l = ik_keyPrefix m" for i j l m
      using that assms other unfolding 2(3) key_inv_def by (auto simp: getT_setT split: if_splits)
    ultimately have "key_inv w'" unfolding key_inv_def by blast
    moreover have "keys_kept w w'"
      using fresh getT_None [of "w_keys w" "w_uuid w (w_uuid_n w)"]
      unfolding keys_kept_def 2(3) by (auto simp: getT_setT)
    ultimately show ?thesis using 2(1) by simp
  qed
qed

definition key_used :: "api_key \<Rightarrow> world \<Rightarrow> world" where
  "key_used k w =
     (case getT (w_keys w) (ik_id k) of
        None \<Rightarrow> w
      | Some r \<Rightarrow> w_keys_update (setT (ik_id k) (r\<lparr>ik_lastUsedAt := Some (w_clock w (w_ticks w))\<rparr>))
                 (w\<lparr>w_ticks := Suc (w_ticks w)\<rparr>))"

definition live_key :: "(string \<Rightarrow> string \<Rightarrow> bool) \<Rightarrow> string \<Rightarrow> world \<Rightarrow> api_key option" where
  "live_key cmp raw w =
     (if length raw < prefix_len then None
      else case key_by_prefix (take prefix_len raw) w of
          None \<Rightarrow> None
        | Some k \<Rightarrow> if ik_revokedAt k = None \<and> cmp raw (ik_keyHash k) then Some k else None)"

lemma keys_markUsed_apply: "keys_markUsed (ik_id k) w = (Inr (), key_used k w)"
  by (simp add: keys_markUsed_def bindA_def nowA_def key_used_def split: option.splits)

lemma verify_apply:
  "verify_key cmp raw w =
     (case live_key cmp raw w of None \<Rightarrow> (Inr None, w) | Some k \<Rightarrow> (Inr (Some k), key_used k w))"
proof (cases "key_by_prefix (take prefix_len raw) w")
  case None
  then show ?thesis
    by (auto simp: verify_key_def live_key_def keys_findByPrefix_def bindA_def prefix_len_def)
next
  case (Some k)
  then show ?thesis
    by (simp add: verify_key_def live_key_def keys_findByPrefix_def bindA_def tryA_def keys_markUsed_apply)
       (auto simp: prefix_len_def)
qed

lemma live_key_Some:
  "live_key cmp raw w = Some k \<Longrightarrow>
     key_by_prefix (take prefix_len raw) w = Some k \<and> ik_revokedAt k = None \<and> cmp raw (ik_keyHash k)"
  by (simp add: live_key_def split: option.splits if_splits)

lemma verify_inv:
  assumes "key_inv w"
  shows "key_inv (snd (verify_key cmp raw w)) \<and> keys_kept w (snd (verify_key cmp raw w))"
proof (cases "live_key cmp raw w")
  case None
  then show ?thesis using assms keys_kept_refl by (simp add: verify_apply)
next
  case (Some k)
  have ok: "tbl_ok ik_id (w_keys w)" using assms by (simp add: key_inv_def)
  have "List.find (\<lambda>l. ik_keyPrefix l = take prefix_len raw) (rowsT (w_keys w)) = Some k"
    using live_key_Some [OF Some] by (simp add: key_by_prefix_def)
  then have "k \<in> set (rowsT (w_keys w))"
    by (rule find_rowsT_in [THEN conjunct1])
  then have found: "getT (w_keys w) (ik_id k) = Some k" by (rule tbl_ok_rowsT [OF ok])
  have "key_inv (key_used k w) \<and> keys_kept w (key_used k w)"
    by (rule key_rewrite [OF assms found, of "k\<lparr>ik_lastUsedAt := Some (w_clock w (w_ticks w))\<rparr>"])
       (simp_all add: key_kept_def key_used_def found uuid_adv_def)
  then show ?thesis by (simp add: verify_apply Some)
qed

lemma revoke_outcome:
  "(\<exists>e. key_revoke i org w = (Inl e, w)) \<or>
   (\<exists>k t w'. key_revoke i org w = (Inr (k\<lparr>ik_revokedAt := Some t\<rparr>), w') \<and> getT (w_keys w) i = Some k \<and>
      ik_org k = org \<and> w_keys w' = setT i (k\<lparr>ik_revokedAt := Some t\<rparr>) (w_keys w) \<and> uuid_adv w w')"
  by (cases "getT (w_keys w) i")
     (auto simp: key_revoke_def keys_revoke_def bindA_def throwIf_def nowA_def uuid_adv_def)

lemma revoke_returns:
  assumes "key_revoke i org w = (Inr k, w')"
  shows "ik_revokedAt k \<noteq> None" "w_keys w' = setT i k (w_keys w)"
proof -
  have "ik_revokedAt k \<noteq> None \<and> w_keys w' = setT i k (w_keys w)"
    using assms by (cases "getT (w_keys w) i")
      (auto simp: key_revoke_def keys_revoke_def bindA_def throwIf_def nowA_def split: if_splits)
  then show "ik_revokedAt k \<noteq> None" "w_keys w' = setT i k (w_keys w)" by simp_all
qed

lemma revoke_inv:
  assumes "key_inv w"
  shows "key_inv (snd (key_revoke i org w)) \<and> keys_kept w (snd (key_revoke i org w))"
  using revoke_outcome [of i org w]
proof (elim disjE exE conjE)
  fix e assume "key_revoke i org w = (Inl e, w)"
  then show ?thesis using assms keys_kept_refl by simp
next
  fix k t w' assume run: "key_revoke i org w = (Inr (k\<lparr>ik_revokedAt := Some t\<rparr>), w')" "getT (w_keys w) i = Some k"
    "w_keys w' = setT i (k\<lparr>ik_revokedAt := Some t\<rparr>) (w_keys w)" "uuid_adv w w'"
  then show ?thesis
    using key_rewrite [OF assms run(2) _ run(3,4)] by (simp add: key_kept_def)
qed

lemma key_step_inv: "key_step w w' \<Longrightarrow> key_inv w \<Longrightarrow> key_inv w' \<and> keys_kept w w'"
  by (induction rule: key_step.induct) (simp_all add: mint_inv verify_inv revoke_inv key_frame_inv)

lemma key_steps_inv: "key_step\<^sup>*\<^sup>* w w' \<Longrightarrow> key_inv w \<Longrightarrow> key_inv w' \<and> keys_kept w w'"
proof (induction rule: rtranclp_induct)
  case base
  then show ?case using keys_kept_refl by simp
next
  case (step y z)
  then show ?case using key_step_inv keys_kept_trans by blast
qed

lemma key_reachable_inv: "key_reachable w \<Longrightarrow> key_inv w"
proof (induction rule: key_reachable.induct)
  case (kr_start w)
  then show ?case by (simp add: key_inv_def getT_def)
qed (use key_step_inv in blast)

text \<open>
  C33: A revoked key never authenticates again: after a successful revocation, and whatever keys
  are minted, used or revoked since, no token that starts with its prefix is accepted, whatever
  bcrypt says of it, and the attempt leaves no trace.
\<close>

theorem revoked_key_rejected:
  assumes "key_reachable w" and "key_revoke i org w = (Inr k, w1)" and "key_step\<^sup>*\<^sup>* w1 w2"
    and "take prefix_len raw = ik_keyPrefix k"
  shows "verify_key cmp raw w2 = (Inr None, w2)"
proof -
  note k = revoke_returns [OF assms(2)]
  have inv1: "key_inv w1"
    using revoke_inv [OF key_reachable_inv [OF assms(1)], of i org] assms(2) by simp
  note later = key_steps_inv [OF assms(3) inv1]
  have "getT (w_keys w1) i = Some k" by (simp add: k(2) getT_setT)
  then obtain k' where k': "getT (w_keys w2) i = Some k'" "key_kept k k'"
    using later unfolding keys_kept_def by blast
  then have "key_by_prefix (take prefix_len raw) w2 = Some k'" "ik_revokedAt k' \<noteq> None"
    using key_by_prefix_Some [of w2 i k'] later assms(4) k(1) by (auto simp: key_kept_def)
  then show ?thesis
    by (auto simp: verify_apply live_key_def)
qed

lemma strip_bearer_token:
  assumes "raw \<noteq> []" and "\<not> js_space (hd raw)"
  shows "strip_bearer (''Bearer '' @ raw) = raw"
proof -
  have "toLowerCase ''Bearer'' = ''bearer''" "js_space (CHR '' '')" by code_simp+
  moreover have "dropWhile js_space raw = raw" using assms by (cases raw) simp_all
  ultimately show ?thesis by (simp add: strip_bearer_def numeral_eq_Suc)
qed

text \<open>
  C34: A minted key authenticates as the organisation it was minted for, however much later, as
  long as its row is not revoked. Of bcrypt it is only used that it accepts the hash of the key.
\<close>

theorem minted_key_authenticates:
  assumes "key_reachable w" and "mint hash raw org user name w = (Inr m, w1)" and "key_step\<^sup>*\<^sup>* w1 w2"
    and "getT (w_keys w2) (ik_id (mk_key m)) = Some k" and "ik_revokedAt k = None"
    and "cmp raw (hash raw)" and "prefix_len \<le> length raw" and "\<not> js_space (hd raw)"
  shows "\<exists>w3. ingestion_token_guard cmp env (Some (''Bearer '' @ mk_rawKey m)) w2
    = (Inr \<lparr>pa_org = org, pa_keyId = Some (ik_id (mk_key m))\<rparr>, w3)"
proof -
  obtain k0 where k0: "m = \<lparr>mk_key = k0, mk_rawKey = raw\<rparr>" "w_keys w1 = setT (ik_id k0) k0 (w_keys w)"
      "ik_org k0 = org" "ik_keyPrefix k0 = take prefix_len raw" "ik_keyHash k0 = hash raw"
    using mint_outcome [of hash raw org user name w] assms(2) by auto
  have inv1: "key_inv w1"
    using mint_inv [OF key_reachable_inv [OF assms(1)], of hash raw org user name] assms(2) by simp
  note later = key_steps_inv [OF assms(3) inv1]
  have "getT (w_keys w1) (ik_id k0) = Some k0" by (simp add: k0(2) getT_setT)
  then have kept: "key_kept k0 k"
    using later assms(4) unfolding keys_kept_def k0(1) by fastforce
  then have found: "key_by_prefix (take prefix_len raw) w2 = Some k"
    using key_by_prefix_Some [of w2 _ k] later assms(4) k0(4) by (auto simp: key_kept_def)
  have "raw \<noteq> []" using assms(7) by (auto simp: prefix_len_def)
  have "live_key cmp raw w2 = Some k"
    using found kept assms(5-7) k0(5) by (simp add: live_key_def key_kept_def)
  moreover have "strip_bearer (''Bearer '' @ raw) = raw"
    using \<open>raw \<noteq> []\<close> assms(8) by (rule strip_bearer_token)
  ultimately show ?thesis
    using kept k0 \<open>raw \<noteq> []\<close>
    by (simp add: ingestion_token_guard_def bindA_def verify_apply key_kept_def)
qed

definition demo_hash :: "string \<Rightarrow> string" where
  "demo_hash s = CHR ''#'' # s"

definition key_demo :: world where
  "key_demo = snd (mint demo_hash ''abcdefghij'' ''o1'' ''alice'' ''pipeline'' world0)"

lemma world0_key_reachable: "key_reachable world0"
  by (rule kr_start) (simp_all add: world0_def uuid_ok_def keysT_def inj_def)

lemma key_demo_reachable: "key_reachable key_demo"
  unfolding key_demo_def by (rule kr_next [OF world0_key_reachable ks_mint])

theorem revoked_key_rejected_witness:
  "\<exists>k w1. key_revoke ''u'' ''o1'' key_demo = (Inr k, w1) \<and>
     verify_key (\<lambda>r h. h = demo_hash r) ''abcdefghij'' w1 = (Inr None, w1)"
proof -
  have "case fst (key_revoke ''u'' ''o1'' key_demo) of Inl _ \<Rightarrow> False | Inr k \<Rightarrow> ik_keyPrefix k = ''abcdefgh''"
    by code_simp
  then obtain k w1 where run: "key_revoke ''u'' ''o1'' key_demo = (Inr k, w1)" "ik_keyPrefix k = ''abcdefgh''"
    by (cases "key_revoke ''u'' ''o1'' key_demo") (auto split: sum.splits)
  have "take prefix_len ''abcdefghij'' = ik_keyPrefix k"
    by (simp add: run(2) prefix_len_def numeral_eq_Suc)
  from revoked_key_rejected [OF key_demo_reachable run(1) rtranclp.rtrancl_refl this] show ?thesis
    using run(1) by blast
qed

theorem minted_key_authenticates_witness:
  "\<exists>w3. ingestion_token_guard (\<lambda>r h. h = demo_hash r) (\<lambda>_. None) (Some (''Bearer '' @ ''abcdefghij'')) key_demo
     = (Inr \<lparr>pa_org = ''o1'', pa_keyId = Some ''u''\<rparr>, w3)"
proof -
  obtain k where run: "mint demo_hash ''abcdefghij'' ''o1'' ''alice'' ''pipeline'' world0
      = (Inr \<lparr>mk_key = k, mk_rawKey = ''abcdefghij''\<rparr>, key_demo)"
    and k: "ik_id k = ''u''" "ik_revokedAt k = None" "w_keys key_demo = setT ''u'' k (w_keys world0)"
  proof -
    assume *: "\<And>k. mint demo_hash ''abcdefghij'' ''o1'' ''alice'' ''pipeline'' world0
      = (Inr \<lparr>mk_key = k, mk_rawKey = ''abcdefghij''\<rparr>, key_demo) \<Longrightarrow> ik_id k = ''u'' \<Longrightarrow>
      ik_revokedAt k = None \<Longrightarrow> w_keys key_demo = setT ''u'' k (w_keys world0) \<Longrightarrow> thesis"
    have "case fst (mint demo_hash ''abcdefghij'' ''o1'' ''alice'' ''pipeline'' world0) of
        Inl _ \<Rightarrow> False | Inr _ \<Rightarrow> True" by code_simp
    then show thesis
      using mint_outcome [of demo_hash "''abcdefghij''" "''o1''" "''alice''" "''pipeline''" world0] *
      by (auto simp: key_demo_def world0_def)
  qed
  have "\<exists>w3. ingestion_token_guard (\<lambda>r h. h = demo_hash r) (\<lambda>_. None)
      (Some (''Bearer '' @ mk_rawKey \<lparr>mk_key = k, mk_rawKey = ''abcdefghij''\<rparr>)) key_demo
     = (Inr \<lparr>pa_org = ''o1'', pa_keyId = Some (ik_id (mk_key \<lparr>mk_key = k, mk_rawKey = ''abcdefghij''\<rparr>))\<rparr>, w3)"
    by (rule minted_key_authenticates [OF world0_key_reachable run rtranclp.rtrancl_refl, of k])
       (simp_all add: k getT_setT prefix_len_def js_space_def)
  then show ?thesis by (simp add: k)
qed

subsection \<open>What an ingested tender leaves behind\<close>

lemma js_space_lower: "js_space (lower_char c) = js_space c"
proof (cases "lower_char c = c")
  case False
  let ?n = "of_char c :: nat"
  have n: "(65 \<le> ?n \<and> ?n \<le> 90) \<or> (192 \<le> ?n \<and> ?n \<le> 222)" "lower_char c = char_of (?n + 32)"
    using False by (auto simp: lower_char_def Let_def split: if_splits)
  then have "(of_char (lower_char c) :: nat) = ?n + 32"
    by auto
  then show ?thesis
    using n(1) by (auto simp: js_space_def Let_def)
qed simp

lemma trim_lower: "trim (toLowerCase s) = toLowerCase (trim s)"
proof -
  have drop: "dropWhile js_space (map lower_char xs) = map lower_char (dropWhile js_space xs)" for xs
    by (induction xs) (simp_all add: js_space_lower)
  show ?thesis
    by (simp add: trim_def toLowerCase_def drop rev_map)
qed

lemma trim_trim: "trim (trim s) = trim s"
proof -
  have "dropWhile js_space (rev (dropWhile js_space (rev (dropWhile js_space s))))
      = rev (dropWhile js_space (rev (dropWhile js_space s)))"
  proof (cases "dropWhile js_space (rev (dropWhile js_space s))" rule: rev_cases)
    case (snoc ys y)
    have "dropWhile js_space s \<noteq> []"
    proof
      assume "dropWhile js_space s = []"
      then show False using snoc by (simp only: rev.simps dropWhile.simps) simp
    qed
    moreover have "last (dropWhile js_space (rev (dropWhile js_space s))) = last (rev (dropWhile js_space s))"
      by (metis append_is_Nil_conv last_append not_Cons_self2 snoc takeWhile_dropWhile_id)
    ultimately have "y = hd (dropWhile js_space s)" "\<not> js_space (hd (dropWhile js_space s))"
      using snoc hd_dropWhile [OF \<open>dropWhile js_space s \<noteq> []\<close>] by (simp_all add: last_rev)
    then show ?thesis by (simp add: snoc)
  qed (simp only: rev.simps dropWhile.simps)
  then show ?thesis by (simp add: trim_def dropWhile_idem)
qed

lemma buyer_name_trimmed: "trim (buyer_name b) = buyer_name b"
proof -
  have "trim ''Unknown Buyer'' = ''Unknown Buyer''" by code_simp
  then show ?thesis by (simp add: buyer_name_def Let_def trim_trim)
qed

text \<open>The company an upsert answers with.\<close>

definition same_buyer :: "ident \<Rightarrow> string option \<Rightarrow> client_company \<Rightarrow> bool" where
  "same_buyer org b c \<longleftrightarrow> cc_org c = org \<and> trim (toLowerCase (cc_name c)) = toLowerCase (buyer_name b)"

definition buyer_company :: "ident \<Rightarrow> string option \<Rightarrow> world \<Rightarrow> client_company option" where
  "buyer_company org b w = List.find (same_buyer org b) (rowsT (w_companies w))"

lemma find_rows_where: "List.find P (filter Q xs) = List.find (\<lambda>x. Q x \<and> P x) xs"
  by (induction xs) auto

lemma upsertBuyerCompany_apply:
  "upsertBuyerCompany org b w =
     (case buyer_company org b w of
        Some c \<Rightarrow> (Inr c, w)
      | None \<Rightarrow> bindA (company_create (buyer_name b) org) (\<lambda>created.
          bindA (audit_record \<lparr>cae_action = ''client_company.auto_created_from_ingestion'',
            cae_entityType = ''ClientCompany'', cae_entityId = cc_id created, cae_userId = None,
            cae_org = org, cae_details = Some (JObj [(''name'', JStr (buyer_name b))])\<rparr>) (\<lambda>_.
          ret created)) w)"
proof -
  have "List.find (\<lambda>c. trim (toLowerCase (cc_name c)) = toLowerCase (buyer_name b))
      (rows_where (\<lambda>c. cc_org c = org) (w_companies w)) = buyer_company org b w"
    unfolding rows_where_def find_rows_where buyer_company_def same_buyer_def [abs_def] ..
  then show ?thesis
    by (simp add: upsertBuyerCompany_def Let_def company_list_def companies_findAll_def bindA_def split: option.splits)
qed

text \<open>
  The upsert returns a company of the organisation under that name, and afterwards the same
  lookup finds it: only a missing one is added, under a fresh identifier.
\<close>

lemma upsertBuyerCompany_result:
  assumes "uuid_ok w_companies w"
  shows "\<exists>c w'. upsertBuyerCompany org b w = (Inr c, w') \<and> same_buyer org b c \<and>
    buyer_company org b w' = Some c \<and> frame w_tenders w w' \<and> frame w_requirements w w' \<and>
    (buyer_company org b w \<noteq> None \<longrightarrow> w' = w)"
proof (cases "buyer_company org b w")
  case (Some c)
  then show ?thesis
    using find_rowsT_in [of "same_buyer org b" "w_companies w" c]
    by (auto simp: upsertBuyerCompany_apply buyer_company_def frame_def uuid_adv_def)
next
  case None
  let ?i = "w_uuid w (w_uuid_n w)"
  have fresh: "?i \<notin> keysT (w_companies w)" by (rule uuid_ok_next [OF assms])
  have "same_buyer org b c" if "cc_name c = buyer_name b" "cc_org c = org" for c
    using that by (simp add: same_buyer_def trim_lower buyer_name_trimmed)
  moreover have "List.find P (xs @ [c]) = Some c" if "List.find P xs = None" "P c" for P xs and c :: client_company
    using that by (induction xs) (auto split: if_splits)
  ultimately show ?thesis
    using None fresh
    by (simp add: upsertBuyerCompany_apply company_create_def companies_create_def bindA_def uuidA_def nowA_def
        insert_row_apply audit_record_apply Let_def buyer_company_def rowsT_setT_fresh frame_def uuid_adv_def)
qed

lemma requirements_create_apply:
  "\<exists>r w'. requirements_create d w = (Inr r, w') \<and> tr_tenderId r = ctr_tenderId d \<and> tr_org r = ctr_org d \<and>
     tr_category r = ctr_category d \<and> tr_text r = ctr_text d \<and> tr_risk r = orElse (ctr_risk d) ''medium'' \<and>
     frame w_tenders w w' \<and> frame w_companies w w'"
  by (simp add: requirements_create_def bindA_def nowA_def uuidA_def insert_row_apply frame_def uuid_adv_def)

lemma createMany_result:
  "\<exists>rs w'. requirements_createMany ds w = (Inr rs, w') \<and> frame w_tenders w w' \<and> frame w_companies w w' \<and>
     map (\<lambda>r. (tr_tenderId r, tr_org r, tr_category r, tr_text r, tr_risk r)) rs
     = map (\<lambda>d. (ctr_tenderId d, ctr_org d, ctr_category d, ctr_text d, orElse (ctr_risk d) ''medium'')) ds"
proof (induction ds arbitrary: w)
  case Nil
  then show ?case by (simp add: frame_def uuid_adv_def)
next
  case (Cons d ds)
  obtain r w1 where r: "requirements_create d w = (Inr r, w1)" "tr_tenderId r = ctr_tenderId d"
      "tr_org r = ctr_org d" "tr_category r = ctr_category d" "tr_text r = ctr_text d"
      "tr_risk r = orElse (ctr_risk d) ''medium''" "frame w_tenders w w1" "frame w_companies w w1"
    using requirements_create_apply by blast
  obtain rs w2 where rs: "requirements_createMany ds w1 = (Inr rs, w2)" "frame w_tenders w1 w2"
      "frame w_companies w1 w2" "map (\<lambda>r. (tr_tenderId r, tr_org r, tr_category r, tr_text r, tr_risk r)) rs
        = map (\<lambda>d. (ctr_tenderId d, ctr_org d, ctr_category d, ctr_text d, orElse (ctr_risk d) ''medium'')) ds"
    using Cons.IH by blast
  have "frame w_tenders w w2" "frame w_companies w w2"
    using r(7,8) rs(2,3) by (auto simp: frame_def uuid_adv_def)
  then show ?case
    using r rs by (simp add: bindA_def)
qed

definition requirement_row :: "ident \<Rightarrow> ident \<Rightarrow> ingestion_requirement \<Rightarrow> ident \<times> ident \<times> string \<times> string \<times> string" where
  "requirement_row tender org r = (tender, org, ir_category r, trim (orElse (ir_text r) []),
     if ir_mandatory r = Some True then ''critical'' else ''standard'')"

lemma persistRequirements_result:
  "\<exists>rs w'. persistRequirements tender org rq w = (Inr rs, w') \<and> frame w_tenders w w' \<and> frame w_companies w w' \<and>
     map (\<lambda>r. (tr_tenderId r, tr_org r, tr_category r, tr_text r, tr_risk r)) rs
     = map (requirement_row tender org) (accepted_requirements rq)"
proof (cases "accepted_requirements rq = []")
  case True
  then show ?thesis by (simp add: persistRequirements_def frame_def uuid_adv_def)
next
  case False
  then have "rq \<noteq> []" by (auto simp: accepted_requirements_def)
  have row: "(\<lambda>d. (ctr_tenderId d, ctr_org d, ctr_category d, ctr_text d, orElse (ctr_risk d) ''medium''))
      (to_create_requirement tender org r) = requirement_row tender org r" for r
    by (simp add: to_create_requirement_def requirement_row_def split: option.splits bool.splits)
  show ?thesis
    using False \<open>rq \<noteq> []\<close> row createMany_result [of "map (to_create_requirement tender org) (accepted_requirements rq)" w]
    by (simp add: persistRequirements_def comp_def)
qed

lemma sector_step:
  assumes "tender_view j org w = Some t"
  shows "\<exists>p w'. (if truthyS (itn_sectorCode i)
      then bindA (persistSectorClassification j org \<lparr>sd_sector = the (itn_sectorCode i),
        sd_category = itn_category i, sd_confidence = Some (itn_confidence i), sd_inputHash = None,
        sd_model = Some ''upstream-ingestion''\<rparr>) (\<lambda>_. ret ())
      else ret ()) w = (Inr (), w') \<and> tender_view j org w' = Some p \<and> tn_id p = tn_id t \<and>
    tn_title p = tn_title t \<and> tn_source p = tn_source t \<and> tn_company p = tn_company t \<and>
    tn_sector p = (if truthyS (itn_sectorCode i) then itn_sectorCode i else tn_sector t)"
proof (cases "truthyS (itn_sectorCode i)")
  case False
  then show ?thesis using assms by simp
next
  case True
  then obtain s where s: "itn_sectorCode i = Some s" by (cases "itn_sectorCode i") simp_all
  have "tn_org t = org" using assms by (simp add: tender_view_def scoped_Some_iff)
  then show ?thesis
    using True persistSector_Some [OF assms refl]
    by (simp add: s bindA_def sector_row_def tender_view_def scoped_Some_iff getT_setT)
qed

text \<open>
  Ingesting a tender never fails and files exactly what was sent: one tender of the caller's
  organisation under the trimmed title, with the upstream sector when one was sent, the buyer's
  company of the same organisation, and one requirement row per accepted requirement, in order,
  critical exactly when mandatory. The answered tender is the stored one.
\<close>

theorem ingest_files_tender:
  assumes "tbl_ok tn_id (w_tenders w)" and "uuid_ok w_tenders w" and "uuid_ok w_companies w"
  shows "\<exists>r w'. ingest org i w = (Inr r, w') \<and>
    tender_view (tn_id (ig_tender r)) org w' = Some (ig_tender r) \<and>
    tender_view (tn_id (ig_tender r)) org w = None \<and>
    tn_title (ig_tender r) = trim (itn_title i) \<and> tn_source (ig_tender r) = ''ingestion'' \<and>
    tn_company (ig_tender r) = cc_id (ig_company r) \<and> same_buyer org (itn_buyerName i) (ig_company r) \<and>
    tn_sector (ig_tender r) = (if truthyS (itn_sectorCode i) then itn_sectorCode i else None) \<and>
    ig_requirementsCreated r = length (accepted_requirements (orElse (itn_requirements i) [])) \<and>
    map (\<lambda>q. (tr_tenderId q, tr_org q, tr_category q, tr_text q, tr_risk q)) (ig_requirements r)
    = map (requirement_row (tn_id (ig_tender r)) org) (accepted_requirements (orElse (itn_requirements i) []))"
proof -
  obtain c w1 where c: "upsertBuyerCompany org (itn_buyerName i) w = (Inr c, w1)"
      "same_buyer org (itn_buyerName i) c" "frame w_tenders w w1"
    using upsertBuyerCompany_result [OF assms(3)] by blast
  have u1: "uuid_ok w_tenders w1" by (rule frame_uuid_ok [OF c(3) assms(2)])
  let ?id = "w_uuid w1 (w_uuid_n w1)"
  have fresh: "?id \<notin> keysT (w_tenders w1)" by (rule uuid_ok_next [OF u1])
  obtain t w2 where t: "tender_intake (trim (itn_title i)) (cc_id c) org (Some ''ingestion'') w1 = (Inr t, w2)"
      "tn_id t = ?id" "tn_title t = trim (itn_title i)" "tn_source t = ''ingestion''" "tn_company t = cc_id c"
      "tn_org t = org" "tn_sector t = None" "w_tenders w2 = setT ?id t (w_tenders w1)"
    by (simp add: tender_intake_def tenders_create_def bindA_def uuidA_def nowA_def insert_row_apply)
  let ?sd = "\<lparr>sd_sector = the (itn_sectorCode i), sd_category = itn_category i,
    sd_confidence = Some (itn_confidence i), sd_inputHash = None, sd_model = Some ''upstream-ingestion''\<rparr>"
  let ?sector = "if truthyS (itn_sectorCode i)
    then bindA (persistSectorClassification (tn_id t) org ?sd) (\<lambda>_. ret ()) else ret ()"
  have view2: "tender_view ?id org w2 = Some t"
    using t(6,8) by (simp add: tender_view_def scoped_Some_iff getT_setT)
  obtain p w3 where p: "?sector w2 = (Inr (), w3)" "tender_view ?id org w3 = Some p" "tn_id p = ?id"
      "tn_title p = trim (itn_title i)" "tn_source p = ''ingestion''" "tn_company p = cc_id c"
      "tn_sector p = (if truthyS (itn_sectorCode i) then itn_sectorCode i else None)"
    using sector_step [OF view2, of i] unfolding t(2-5,7) by blast
  obtain rs w4 where rs: "persistRequirements (tn_id t) org (orElse (itn_requirements i) []) w3 = (Inr rs, w4)"
      "frame w_tenders w3 w4" "map (\<lambda>r. (tr_tenderId r, tr_org r, tr_category r, tr_text r, tr_risk r)) rs
        = map (requirement_row (tn_id t) org) (accepted_requirements (orElse (itn_requirements i) []))"
    using persistRequirements_result by blast
  have len: "length rs = length (accepted_requirements (orElse (itn_requirements i) []))"
    using arg_cong [OF rs(3), of length] by simp
  have view4: "tender_view ?id org w4 = Some p"
    using p(2) rs(2) by (simp add: tender_view_def frame_def)
  have gone: "tender_view ?id org w = None"
    using fresh c(3) getT_None [of "w_tenders w1" ?id] by (simp add: tender_view_def frame_def scoped_def)
  have audited: "tender_view ?id org (snd (audit_record d w4)) = Some p" for d
    using view4 by (simp add: audit_record_apply Let_def tender_view_def)
  obtain w5 where "ingest org i w = (Inr \<lparr>ig_tender = p, ig_company = c,
      ig_requirementsCreated = length rs, ig_requirements = rs\<rparr>, w5)" "tender_view ?id org w5 = Some p"
  proof -
    let ?d = "\<lparr>cae_action = ''tender.ingested_from_pipeline'', cae_entityType = ''Tender'',
       cae_entityId = tn_id t, cae_userId = None, cae_org = org,
       cae_details = Some (JObj [(''sourceCode'', JStr (itn_sourceCode i)), (''externalId'', jopt (itn_externalId i)),
         (''sectorCode'', jopt (itn_sectorCode i)), (''confidence'', JNum (itn_confidence i)),
         (''requirementsCreated'', jint (int (length rs))), (''clientCompanyId'', JStr (cc_id c))])\<rparr>"
    obtain a w5 where a: "audit_record ?d w4 = (Inr a, w5)" using audit_record_Inr by blast
    have view5: "tender_view ?id org w5 = Some p" using audited [of ?d] a by simp
    then have "tender_get (tn_id t) org w5 = (Inr p, w5)" by (simp add: tender_get_apply t(2))
    then have "ingest org i w = (Inr \<lparr>ig_tender = p, ig_company = c,
        ig_requirementsCreated = length rs, ig_requirements = rs\<rparr>, w5)"
      unfolding ingest_def using c(1) t(1) p(1) rs(1) a by simp
    then show thesis using view5 by (rule that)
  qed
  then show ?thesis
    using p c(2) gone len rs(3) t(2) by simp
qed

text \<open>
  A buyer gets one company: once a tender of a buyer was ingested, ingesting for the same name
  again, in any spelling of case or surrounding blanks, answers the company already there and adds
  none.
\<close>

theorem buyer_company_created_once:
  assumes "uuid_ok w_companies w" and "upsertBuyerCompany org b w = (Inr c, w1)"
    and "w_companies w2 = w_companies w1" and "toLowerCase (buyer_name b') = toLowerCase (buyer_name b)"
  shows "upsertBuyerCompany org b' w2 = (Inr c, w2)"
proof -
  have "buyer_company org b w1 = Some c"
    using upsertBuyerCompany_result [OF assms(1), of org b] assms(2) by auto
  then have "buyer_company org b' w2 = Some c"
    unfolding buyer_company_def same_buyer_def assms(3,4) .
  then show ?thesis by (simp add: upsertBuyerCompany_apply)
qed

definition ingest_demo :: ingestion_tender where
  "ingest_demo = \<lparr>itn_externalId = None, itn_sourceCode = ''etimad'', itn_title = '' Bridge '',
     itn_buyerName = Some ''NWC'', itn_sectorCode = Some ''construction'', itn_confidence = 1, itn_category = None,
     itn_requirements = Some [\<lparr>ir_category = ''legal'', ir_text = Some ''CR copy'', ir_mandatory = Some True\<rparr>,
       \<lparr>ir_category = ''misc'', ir_text = Some ''x'', ir_mandatory = None\<rparr>]\<rparr>"

lemma world0_uuid_ok: "get world0 = [] \<Longrightarrow> uuid_ok get world0"
  by (simp add: uuid_ok_def world0_uuid_inj keysT_def)

theorem ingest_files_tender_witness:
  "\<exists>r w'. ingest ''o1'' ingest_demo world0 = (Inr r, w') \<and> tn_title (ig_tender r) = ''Bridge'' \<and>
     tn_sector (ig_tender r) = Some ''construction'' \<and> ig_requirementsCreated r = 1"
proof -
  have empty: "w_tenders world0 = []" "w_companies world0 = []" by (simp_all add: world0_def)
  have "trim '' Bridge '' = ''Bridge''"
    "length (accepted_requirements (orElse (itn_requirements ingest_demo) [])) = 1" by code_simp+
  then show ?thesis
    using ingest_files_tender [of world0 "''o1''" ingest_demo] world0_uuid_ok [of w_tenders, OF empty(1)]
      world0_uuid_ok [of w_companies, OF empty(2)] empty(1)
    by (auto simp: ingest_demo_def)
qed

theorem buyer_company_created_once_witness:
  "\<exists>c w1. upsertBuyerCompany ''o1'' (Some ''NWC'') world0 = (Inr c, w1) \<and>
     upsertBuyerCompany ''o1'' (Some '' nwc'') w1 = (Inr c, w1)"
proof -
  have ok: "uuid_ok w_companies world0" by (rule world0_uuid_ok) (simp add: world0_def)
  obtain c w1 where run: "upsertBuyerCompany ''o1'' (Some ''NWC'') world0 = (Inr c, w1)"
    using upsertBuyerCompany_result [OF ok] by blast
  have "toLowerCase (buyer_name (Some '' nwc'')) = toLowerCase (buyer_name (Some ''NWC''))" by code_simp
  from buyer_company_created_once [OF ok run refl this] run show ?thesis by blast
qed

end
