(* ===== verification/Auth.thy ===== *)
theory Auth
  imports DataSubject Documents Audit_Trail Hex
begin

text \<open>
  Who a caller is: password login with its audit trail (\<^verbatim>\<open>auth/auth.service.ts\<close>), the session
  cookie and the token payload (\<^verbatim>\<open>auth/auth.controller.ts\<close>, \<^verbatim>\<open>auth/jwt.strategy.ts\<close>,
  \<^verbatim>\<open>common/jwt-secret.ts\<close>), the role guard (\<^verbatim>\<open>auth/roles.guard.ts\<close>) and the guard of the
  scheduler (\<^verbatim>\<open>pdpl/scheduler-oidc.guard.ts\<close>). bcrypt, the signing of a token and Google's
  verification of one are parameters. A write of the audit trail that fails is only logged.
\<close>

subsection \<open>Passwords\<close>

definition validateUser :: "(string \<Rightarrow> string \<Rightarrow> bool) \<Rightarrow> string \<Rightarrow> string \<Rightarrow> user option wact" where
  "validateUser cmp email password =
     bindA (users_findByEmail email) (\<lambda>found.
     (case found of
        None \<Rightarrow> ret None
      | Some u \<Rightarrow>
          if truthyS (us_password u) \<and> cmp password (the (us_password u)) then ret (Some u) else ret None))"

record jwt_payload =
  jp_sub :: ident
  jp_org :: ident
  jp_role :: user_role

definition recordLoginSuccess :: "user \<Rightarrow> unit wact" where
  "recordLoginSuccess u =
     tryA (bindA (audit_record \<lparr>cae_action = ''auth.login.success'', cae_entityType = ''User'',
       cae_entityId = us_id u, cae_userId = Some (us_id u), cae_org = us_org u, cae_details = None\<rparr>)
       (\<lambda>_. ret ())) (\<lambda>_. ret ())"

definition recordLoginFailure :: "string \<Rightarrow> unit wact" where
  "recordLoginFailure email =
     tryA (bindA (users_findByEmail email) (\<lambda>found.
       (case found of
          None \<Rightarrow> ret ()
        | Some u \<Rightarrow>
            bindA (audit_record \<lparr>cae_action = ''auth.login.failure'', cae_entityType = ''User'',
              cae_entityId = us_id u, cae_userId = None, cae_org = us_org u,
              cae_details = Some (JObj [(''reason'', JStr ''invalid_password'')])\<rparr>) (\<lambda>_. ret ()))))
       (\<lambda>_. ret ())"

text \<open>\<open>sign\<close> is \<^verbatim>\<open>jwt.signAsync\<close>: it may reject.\<close>

definition login ::
    "(string \<Rightarrow> string \<Rightarrow> bool) \<Rightarrow> (jwt_payload \<Rightarrow> api_error + string) \<Rightarrow> string \<Rightarrow> string \<Rightarrow>
     (string \<times> public_user) wact" where
  "login cmp sign email password =
     bindA (validateUser cmp email password) (\<lambda>user.
     (case user of
        None \<Rightarrow> bindA (recordLoginFailure email) (\<lambda>_. throw (Unauthorized ''Invalid credentials''))
      | Some u \<Rightarrow>
          (case sign \<lparr>jp_sub = us_id u, jp_org = us_org u, jp_role = us_role u\<rparr> of
             Inl e \<Rightarrow> throw e
           | Inr tok \<Rightarrow> bindA (recordLoginSuccess u) (\<lambda>_. ret (tok, toPublic u)))))"

definition logoutAudit :: "ident \<Rightarrow> ident \<Rightarrow> unit wact" where
  "logoutAudit user org =
     tryA (bindA (audit_record \<lparr>cae_action = ''auth.logout'', cae_entityType = ''User'', cae_entityId = user,
       cae_userId = Some user, cae_org = org, cae_details = None\<rparr>) (\<lambda>_. ret ())) (\<lambda>_. ret ())"

definition me :: "ident \<Rightarrow> ident \<Rightarrow> public_user option wact" where
  "me user org = bindA (users_findById user org) (\<lambda>u. ret (map_option toPublic u))"

subsection \<open>Session cookie and endpoints\<close>

record cookie =
  ck_name :: string
  ck_value :: string
  ck_httpOnly :: bool
  ck_secure :: bool
  ck_sameSite :: string
  ck_path :: string
  ck_maxAge :: int

definition session_cookie_name :: string where
  "session_cookie_name = ''bidready_session''"

definition cookieOptions :: "string option \<Rightarrow> string \<Rightarrow> cookie" where
  "cookieOptions node_env v = \<lparr>ck_name = session_cookie_name, ck_value = v, ck_httpOnly = True,
     ck_secure = (node_env = Some ''production''), ck_sameSite = ''lax'', ck_path = ''/'',
     ck_maxAge = 60 * 60 * 1000\<rparr>"

definition login_endpoint ::
    "(string \<Rightarrow> string \<Rightarrow> bool) \<Rightarrow> (jwt_payload \<Rightarrow> api_error + string) \<Rightarrow> string option \<Rightarrow> string \<Rightarrow>
     string \<Rightarrow> (cookie \<times> public_user) wact" where
  "login_endpoint cmp sign node_env email password =
     bindA (login cmp sign email password) (\<lambda>(tok, u). ret (cookieOptions node_env tok, u))"

text \<open>The principal is what a guard left on the request; this endpoint has none.\<close>

definition logout_endpoint :: "string option \<Rightarrow> (ident \<times> ident) option \<Rightarrow> cookie wact" where
  "logout_endpoint node_env caller =
     bindA (case caller of None \<Rightarrow> ret () | Some (user, org) \<Rightarrow> logoutAudit user org) (\<lambda>_.
     ret ((cookieOptions node_env [])\<lparr>ck_maxAge := 0\<rparr>))"

definition me_endpoint :: "(ident \<times> ident) option \<Rightarrow> public_user wact" where
  "me_endpoint caller =
     (case caller of
        None \<Rightarrow> throw (NotFound ''No active session'')
      | Some (user, org) \<Rightarrow> bindA (me user org) (\<lambda>u. orThrow u (NotFound ''User not found'')))"

text \<open>The value of the session cookie of a request, when it is a non-empty string.\<close>

definition cookieExtractor :: "(string \<times> json) list option \<Rightarrow> string option" where
  "cookieExtractor cookies =
     (case cookies of
        None \<Rightarrow> None
      | Some cs \<Rightarrow>
          (case map_of cs session_cookie_name of
             Some (JStr raw) \<Rightarrow> if raw \<noteq> [] then Some raw else None
           | _ \<Rightarrow> None))"

record session_principal =
  sp_userId :: ident
  sp_org :: ident
  sp_role :: user_role

definition jwt_validate :: "jwt_payload \<Rightarrow> session_principal" where
  "jwt_validate p = \<lparr>sp_userId = jp_sub p, sp_org = jp_org p, sp_role = jp_role p\<rparr>"

definition requireJwtSecret :: "string option \<Rightarrow> api_error + string" where
  "requireJwtSecret v =
     (case v of
        None \<Rightarrow> Inl (Plain ''JWT_SECRET is required. Set it in the environment (Secret Manager in production).'')
      | Some s \<Rightarrow>
          if s = [] \<or> length (trim s) = 0
          then Inl (Plain ''JWT_SECRET is required. Set it in the environment (Secret Manager in production).'')
          else if length s < 32
          then Inl (Plain (''JWT_SECRET must be at least 32 characters (got '' @ show_nat (length s) @ '').''))
          else Inr s)"

subsection \<open>Roles and the scheduler\<close>

definition roles_guard :: "user_role list option \<Rightarrow> session_principal option \<Rightarrow> bool" where
  "roles_guard required user =
     (case required of
        None \<Rightarrow> True
      | Some [] \<Rightarrow> True
      | Some rs \<Rightarrow> (case user of None \<Rightarrow> False | Some p \<Rightarrow> sp_role p \<in> set rs))"

record token_payload =
  tp_iss :: "string option"
  tp_email :: "string option"
  tp_emailVerified :: "bool option"

text \<open>
  \<open>verify token audience\<close> is \<^verbatim>\<open>verifyIdToken(...).getPayload()\<close>: \<open>None\<close> when it throws, an
  absent payload otherwise possible.
\<close>

definition scheduler_guard ::
    "(string \<Rightarrow> string \<Rightarrow> token_payload option option) \<Rightarrow> (string \<Rightarrow> string option) \<Rightarrow>
     string option \<Rightarrow> api_error + bool" where
  "scheduler_guard verify env header =
     (let audience = env ''SCHEDULER_OIDC_AUDIENCE''; expectedEmail = env ''SCHEDULER_SA_EMAIL'';
          refuse = Inl (Unauthorized ''Unauthorized'') in
      if \<not> truthyS audience \<or> \<not> truthyS expectedEmail then refuse
      else if \<not> truthyS header \<or> \<not> starts_with (toLowerCase (the header)) ''bearer '' then refuse
      else
        (case verify (trim (drop 7 (the header))) (the audience) of
           None \<Rightarrow> refuse
         | Some None \<Rightarrow> refuse
         | Some (Some p) \<Rightarrow>
             if tp_iss p \<noteq> Some ''https://accounts.google.com'' \<and> tp_iss p \<noteq> Some ''accounts.google.com'' then refuse
             else if tp_email p \<noteq> expectedEmail then refuse
             else if tp_emailVerified p = Some False then refuse
             else Inr True))"

subsection \<open>Outcome of a login\<close>

definition accepts :: "(string \<Rightarrow> string \<Rightarrow> bool) \<Rightarrow> string \<Rightarrow> user \<Rightarrow> bool" where
  "accepts cmp password u \<longleftrightarrow> (\<exists>h. us_password u = Some h \<and> h \<noteq> [] \<and> cmp password h)"

lemma validateUser_apply:
  "validateUser cmp email password w =
     (Inr (case user_by_email email w of Some u \<Rightarrow> if accepts cmp password u then Some u else None | None \<Rightarrow> None), w)"
  by (auto simp: validateUser_def users_findByEmail_def bindA_def accepts_def truthyS_def split: option.splits)

definition login_event :: "user \<Rightarrow> bool \<Rightarrow> create_audit" where
  "login_event u ok =
     \<lparr>cae_action = (if ok then ''auth.login.success'' else ''auth.login.failure''), cae_entityType = ''User'',
      cae_entityId = us_id u, cae_userId = (if ok then Some (us_id u) else None), cae_org = us_org u,
      cae_details = (if ok then None else Some (JObj [(''reason'', JStr ''invalid_password'')]))\<rparr>"

lemma quiet_audit: "tryA (bindA (audit_record d) (\<lambda>_. ret ())) (\<lambda>_. ret ()) w = (Inr (), snd (audit_record d w))"
  by (simp add: tryA_def bindA_def audit_record_apply Let_def)

lemma login_apply:
  "login cmp sign email password w =
     (case user_by_email email w of
        None \<Rightarrow> (Inl (Unauthorized ''Invalid credentials''), w)
      | Some u \<Rightarrow>
          if accepts cmp password u then
            (case sign \<lparr>jp_sub = us_id u, jp_org = us_org u, jp_role = us_role u\<rparr> of
               Inl e \<Rightarrow> (Inl e, w)
             | Inr tok \<Rightarrow> (Inr (tok, toPublic u), snd (audit_record (login_event u True) w)))
          else (Inl (Unauthorized ''Invalid credentials''), snd (audit_record (login_event u False) w)))"
  by (simp add: login_def bindA_def [of "validateUser cmp email password"] validateUser_apply recordLoginFailure_def
      users_findByEmail_def recordLoginSuccess_def quiet_audit login_event_def split: option.splits sum.splits)
     (simp add: bindA_def tryA_def audit_record_apply Let_def)

text \<open>
  A login succeeds exactly when the account of the e-mail address has a password that bcrypt
  accepts and the token can be signed; the token then names that account, its organisation and
  its role. Every attempt on an existing account that is decided by its password leaves one audit
  event in the account's own organisation, without a user when it failed; an unknown address
  leaves no trace and answers as a wrong password does.
\<close>

theorem login_outcome:
  "(case login cmp sign email password w of
      (Inr (tok, p), w') \<Rightarrow> \<exists>u. user_by_email email w = Some u \<and> accepts cmp password u \<and> p = toPublic u \<and>
         sign \<lparr>jp_sub = us_id u, jp_org = us_org u, jp_role = us_role u\<rparr> = Inr tok \<and>
         w' = snd (audit_record (login_event u True) w)
    | (Inl e, w') \<Rightarrow>
        (user_by_email email w = None \<and> e = Unauthorized ''Invalid credentials'' \<and> w' = w) \<or>
        (\<exists>u. user_by_email email w = Some u \<and>
           (if accepts cmp password u
            then sign \<lparr>jp_sub = us_id u, jp_org = us_org u, jp_role = us_role u\<rparr> = Inl e \<and> w' = w
            else e = Unauthorized ''Invalid credentials'' \<and> w' = snd (audit_record (login_event u False) w))))"
proof (cases "user_by_email email w")
  case None
  then show ?thesis by (simp add: login_apply)
next
  case (Some u)
  then show ?thesis
    by (cases "sign \<lparr>jp_sub = us_id u, jp_org = us_org u, jp_role = us_role u\<rparr>") (simp_all add: login_apply)
qed

subsection \<open>An erased account stays out\<close>

inductive user_step :: "world \<Rightarrow> world \<Rightarrow> bool" where
  us_created: "user_step w (snd (users_create d w))"
| us_updated: "user_step w (snd (users_update p i org w))"
| us_erased: "user_step w (snd (users_anonymise ps i org w))"
| us_deleted: "user_step w (snd (users_delete i org w))"
| us_elsewhere: "frame w_users w w' \<Longrightarrow> user_step w w'"

text \<open>The identifier is taken for good, and whatever row sits under it has no password.\<close>

definition locked :: "ident \<Rightarrow> world \<Rightarrow> bool" where
  "locked j w \<longleftrightarrow> tbl_ok us_id (w_users w) \<and> (\<forall>n \<ge> w_uuid_n w. w_uuid w n \<noteq> j) \<and>
     (\<forall>u. getT (w_users w) j = Some u \<longrightarrow> us_password u = None)"

lemma us_patch_password [simp]: "us_password (us_patch d t r) = us_password r"
  by (simp add: us_patch_def setIf_keep [where f = us_password])

lemma scoped_update_locked:
  assumes "locked j w" and "\<And>t r. us_id (f t r) = us_id r"
    and "\<And>t r. us_password r = None \<Longrightarrow> us_password (f t r) = None"
  shows "locked j (snd (scoped_update w_users w_users_update us_org err f i org w))"
proof (cases "scoped us_org (w_users w) i org")
  case None
  then show ?thesis using assms(1) by (simp add: scoped_update_None)
next
  case (Some r)
  then have "getT (w_users w) i = Some r" "us_id r = i"
    using assms(1) tbl_ok_getT by (fastforce simp: scoped_Some_iff locked_def)+
  then show ?thesis
    using assms Some by (auto simp: scoped_update_Some locked_def getT_setT tbl_ok_setT)
qed

lemma user_step_locked: "user_step w w' \<Longrightarrow> locked j w \<Longrightarrow> locked j w'"
proof (induction rule: user_step.induct)
  case (us_created w d)
  then show ?case
    by (auto simp: users_create_def bindA_def uuidA_def nowA_def insert_row_apply locked_def getT_setT tbl_ok_setT)
next
  case (us_updated w p i org)
  then show ?case unfolding users_update_def by (rule scoped_update_locked) simp_all
next
  case (us_erased w ps i org)
  then show ?case unfolding users_anonymise_def by (rule scoped_update_locked) (simp_all add: us_erase_def)
next
  case (us_deleted w i org)
  then show ?case
    by (cases "scoped us_org (w_users w) i org")
       (auto simp: users_delete_def scoped_delete_None scoped_delete_Some locked_def getT_delT tbl_ok_delT)
next
  case (us_elsewhere w w')
  then show ?case by (auto simp: locked_def frame_def uuid_adv_def)
qed

lemma user_steps_locked: "user_step\<^sup>*\<^sup>* w w' \<Longrightarrow> locked j w \<Longrightarrow> locked j w'"
  by (induction rule: rtranclp_induct) (simp, blast intro: user_step_locked)

lemma locked_login:
  assumes "locked j w" and "login cmp sign email password w = (Inr (tok, p), w')"
  shows "pu_id p \<noteq> j"
proof -
  obtain u where u: "user_by_email email w = Some u" "accepts cmp password u" "p = toPublic u"
    using login_outcome [where cmp = cmp and sign = sign and email = email and password = password and w = w]
    assms(2) by auto
  then have "u \<in> set (rowsT (w_users w))"
    unfolding user_by_email_def by (auto dest: find_rowsT_in)
  then have "getT (w_users w) (us_id u) = Some u"
    using assms(1) by (auto simp: locked_def intro: tbl_ok_rowsT)
  then show ?thesis
    using assms(1) u(2,3) by (auto simp: locked_def accepts_def toPublic_def)
qed

lemma execute_erasure_users:
  assumes "request_view i org w = Some r" and "ds_status r = ''approved''" and "ds_type r = ''erasure''"
    and "\<not> self_decided r d" and "user_by_email (ds_subjectEmail r) w = Some u" and "us_org u = org"
    and "tbl_ok us_id (w_users w)"
  shows "w_users (snd (execute_request i org d w))
    = setT (us_id u) (us_erase (pseudonym (w_uuid w (w_uuid_n w))) (w_clock w (w_ticks w)) u) (w_users w)"
proof -
  have exec: "execute_request i org d w = execute_erasure r i org d w"
    using execute_apply [OF assms(1,2,4)] assms(3) by (simp add: execute_body_def)
  have here: "user_view (us_id u) org w = Some u"
    using user_by_email_view [OF assms(7,5)] assms(6) by simp
  obtain res w1 where w1: "executeErasure (ds_subjectEmail r) org w = (Inr res, w1)" "w_requests w1 = w_requests w"
    "w_users w1 = setT (us_id u) (us_erase (pseudonym (w_uuid w (w_uuid_n w))) (w_clock w (w_ticks w)) u) (w_users w)"
    using executeErasure_user [OF assms(5) here] by fastforce
  obtain x w2 where "execute_erasure r i org d w = (Inr x, w2)" "w_users w2 = w_users w1"
    using execute_erasure_after [OF w1(1) assms(1) w1(2), of d] by blast
  then show ?thesis by (simp add: exec w1(3))
qed

lemma execute_erases_account:
  assumes "request_view i org w = Some r" and "ds_status r = ''approved''" and "ds_type r = ''erasure''"
    and "\<not> self_decided r d" and "user_by_email (ds_subjectEmail r) w = Some u" and "us_org u = org"
    and "tbl_ok us_id (w_users w)" and "uuid_ok w_users w"
  shows "locked (us_id u) (snd (execute_request i org d w))"
proof -
  let ?w = "snd (execute_request i org d w)"
  have "uuid_adv w ?w" by (rule runsD [OF uuid_adv_execute])
  moreover have "us_id u \<in> keysT (w_users w)"
    using user_by_email_view [OF assms(7,5), of org] assms(6) getT_None [of "w_users w" "us_id u"]
    by (simp add: user_view_def scoped_Some_iff)
  ultimately have "w_uuid ?w n \<noteq> us_id u" if "w_uuid_n ?w \<le> n" for n
    using that assms(8) unfolding uuid_ok_def uuid_adv_def by (metis order_trans)
  then show ?thesis
    using assms(7) by (simp add: execute_erasure_users [OF assms(1-7)] locked_def getT_setT tbl_ok_setT us_erase_def)
qed

text \<open>
  C9: Once an erasure request was executed, the subject's account can never log in again: whatever
  users are created, updated, erased or deleted since, no login with any address and password
  returns it, whatever bcrypt accepts.
\<close>

theorem erased_account_cannot_log_in:
  assumes "request_view i org w = Some r" and "ds_status r = ''approved''" and "ds_type r = ''erasure''"
    and "\<not> self_decided r d" and "user_by_email (ds_subjectEmail r) w = Some u" and "us_org u = org"
    and "tbl_ok us_id (w_users w)" and "uuid_ok w_users w"
    and "user_step\<^sup>*\<^sup>* (snd (execute_request i org d w)) w2"
    and "login cmp sign email password w2 = (Inr (tok, p), w3)"
  shows "pu_id p \<noteq> us_id u"
  by (rule locked_login [OF user_steps_locked [OF assms(9) execute_erases_account [OF assms(1-8)]] assms(10)])

lemma find_setT_new: "List.find P (rowsT t) = None \<Longrightarrow> P r \<Longrightarrow> List.find P (rowsT (setT k r t)) = Some r"
  by (induction t) (auto simp: rowsT_def setT_def split: if_splits)

lemma created_user_found:
  "user_by_email (cus_email d) w = None \<Longrightarrow>
     \<exists>v. user_by_email (cus_email d) (snd (users_create d w)) = Some v \<and> us_password v = cus_password d"
  by (simp add: user_by_email_def users_create_def bindA_def uuidA_def nowA_def insert_row_apply find_setT_new)

lemma login_ok:
  "user_by_email email w = Some u \<Longrightarrow> accepts cmp password u \<Longrightarrow>
     \<exists>w'. login cmp (\<lambda>_. Inr tok) email password w = (Inr (tok, toPublic u), w')"
  by (simp add: login_apply)

definition back_user :: create_user where
  "back_user = \<lparr>cus_email = ''s@x'', cus_name = ''Sam'', cus_role = Presales, cus_org = ''org'',
     cus_password = Some ''h''\<rparr>"

theorem erased_account_cannot_log_in_witness:
  "\<exists>p w2 w3. w2 = snd (users_create back_user (snd (execute_request ''uuu'' ''org'' ''carol'' erasure_demo))) \<and>
     login (\<lambda>_ _. True) (\<lambda>_. Inr ''tok'') ''s@x'' ''pw'' w2 = (Inr (''tok'', p), w3) \<and> pu_id p \<noteq> ''u''"
proof -
  let ?w1 = "snd (execute_request ''uuu'' ''org'' ''carol'' erasure_demo)"
  let ?w2 = "snd (users_create back_user ?w1)"
  obtain u where u: "user_by_email (ds_subjectEmail erasure_demo_row) erasure_demo = Some u" "us_id u = ''u''"
  proof -
    have "map_option us_id (user_by_email (ds_subjectEmail erasure_demo_row) erasure_demo) = Some ''u''"
      by code_simp
    then show thesis using that by auto
  qed
  have org: "us_org u = ''org''" using erasure_demo_user [OF u(1)] by simp
  have fresh: "uuid_ok w_users erasure_demo"
  proof -
    have stream: "w_uuid erasure_demo = w_uuid world0" by (rule ext) code_simp
    have facts: "0 < w_uuid_n erasure_demo" "keysT (w_users erasure_demo) = {''u''}" by code_simp+
    have "w_uuid world0 n \<noteq> ''u''" if "0 < n" for n
      using that by (simp add: world0_def)
    then show ?thesis
      unfolding uuid_ok_def stream facts(2) using world0_uuid_inj facts(1) by fastforce
  qed
  have users: "w_users ?w1 = setT ''u'' (us_erase (pseudonym (w_uuid erasure_demo (w_uuid_n erasure_demo)))
      (w_clock erasure_demo (w_ticks erasure_demo)) u) (w_users erasure_demo)"
    using execute_erasure_users [OF erasure_demo_facts(1-4) u(1) org erasure_demo_facts(5)] u(2) by simp
  have "map fst (w_users erasure_demo) = [''u'']" by code_simp
  then obtain x where "w_users erasure_demo = [(''u'', x)]" by auto
  then have "user_by_email ''s@x'' ?w1 = None"
    using erasure_demo_facts(8) by (simp add: user_by_email_def users rowsT_def setT_def us_erase_def erasure_demo_facts(7))
  then have "\<exists>v. user_by_email ''s@x'' ?w2 = Some v \<and> us_password v = Some ''h''"
    using created_user_found [of back_user ?w1] unfolding back_user_def create_user.simps by blast
  then obtain v where "user_by_email ''s@x'' ?w2 = Some v" "us_password v = Some ''h''"
    by blast
  note v = this
  have "accepts (\<lambda>_ _. True) ''pw'' v" by (simp add: accepts_def v(2))
  from login_ok [OF v(1) this, of "''tok''"]
  obtain p w3 where run: "login (\<lambda>_ _. True) (\<lambda>_. Inr ''tok'') ''s@x'' ''pw'' ?w2 = (Inr (''tok'', p), w3)"
    by (elim exE) (rule that)
  have step: "user_step\<^sup>*\<^sup>* ?w1 ?w2" by (rule r_into_rtranclp) (rule us_created)
  have "pu_id p \<noteq> ''u''"
    using erased_account_cannot_log_in [OF erasure_demo_facts(1-4) u(1) org erasure_demo_facts(5) fresh step run]
    unfolding u(2) .
  with run show ?thesis
    by (intro exI conjI) (rule refl)
qed

end
