(* ===== verification/Fit.thy ===== *)
theory Fit
  imports Desk_Prelude
begin

text \<open>
  Fit scoring (\<^verbatim>\<open>fit-scoring/fit-scoring.service.ts\<close>): four clamped signals, weighted by the
  pack of the sector, rounded to whole points and added up. Numbers are exact rationals where
  the code has floating-point numbers, \<open>None\<close> is \<^verbatim>\<open>NaN\<close>. A sector that names a member every
  object inherits finds that member instead of a pack; its weights are \<^verbatim>\<open>undefined\<close>, and
  every product with them is \<^verbatim>\<open>NaN\<close>.
\<close>

type_synonym number = "rat option"

record fit_signals =
  fs_capability :: number
  fs_days :: rat
  fs_evidence :: number
  fs_risk :: string
  fs_sector :: "string option"

record factor =
  fc_name :: string
  fc_weight :: number
  fc_raw :: number
  fc_contribution :: number

record fit_score =
  ft_computed :: number
  ft_factors :: "factor list"
  ft_recommendation :: string
  ft_overridden :: bool
  ft_final :: number
  ft_reason :: "string option"
  ft_sector :: string

record weights =
  wt_capability :: rat
  wt_timeline :: rat
  wt_evidence :: rat
  wt_risk :: rat

definition default_weights :: weights where
  "default_weights = \<lparr>wt_capability = 35/100, wt_timeline = 2/10, wt_evidence = 3/10, wt_risk = 15/100\<rparr>"

definition sector_packs :: "(string \<times> weights) list" where
  "sector_packs =
     [(''default'', default_weights),
      (''construction'', \<lparr>wt_capability = 3/10, wt_timeline = 15/100, wt_evidence = 35/100, wt_risk = 2/10\<rparr>),
      (''technology'', \<lparr>wt_capability = 45/100, wt_timeline = 2/10, wt_evidence = 2/10, wt_risk = 15/100\<rparr>),
      (''medical_supply'', \<lparr>wt_capability = 3/10, wt_timeline = 15/100, wt_evidence = 4/10, wt_risk = 15/100\<rparr>)]"

text \<open>\<^verbatim>\<open>RISK_RAW[riskLevel] ?? RISK_RAW.high\<close>\<close>

definition risk_raw :: "string \<Rightarrow> number" where
  "risk_raw level =
     (if level = ''low'' then Some 1 else if level = ''medium'' then Some (6/10)
      else if level = ''high'' then Some (25/100)
      else if level \<in> set proto_keys then None else Some (25/100))"

definition clamp01 :: "number \<Rightarrow> rat" where
  "clamp01 v = (case v of None \<Rightarrow> 0 | Some x \<Rightarrow> max 0 (min 1 x))"

text \<open>\<^verbatim>\<open>Number(x.toFixed(4))\<close> and \<^verbatim>\<open>Math.round\<close>\<close>

definition to_fixed4 :: "rat \<Rightarrow> rat" where
  "to_fixed4 x = of_int \<lfloor>x * 10000 + 1/2\<rfloor> / 10000"

definition js_round :: "rat \<Rightarrow> int" where
  "js_round x = \<lfloor>x + 1/2\<rfloor>"

definition timelineRaw :: "rat \<Rightarrow> rat" where
  "timelineRaw days =
     (if 21 \<le> days then 1 else if days \<le> 3 then 1/10
      else to_fixed4 (1/10 + (days - 3) / 18 * (9/10)))"

text \<open>\<^verbatim>\<open>SECTOR_PACKS[sector] ?? SECTOR_PACKS.default\<close>: \<open>None\<close> is an inherited member.\<close>

definition pack_of :: "string \<Rightarrow> weights option" where
  "pack_of sector =
     (case map_of sector_packs sector of
        Some w \<Rightarrow> Some w
      | None \<Rightarrow> if sector \<in> set proto_keys then None else Some default_weights)"

definition points :: "number \<Rightarrow> number \<Rightarrow> number" where
  "points weight raw =
     (case (weight, raw) of (Some w, Some r) \<Rightarrow> Some (of_int (js_round (w * r * 100))) | _ \<Rightarrow> None)"

definition make_factor :: "string \<Rightarrow> number \<Rightarrow> number \<Rightarrow> factor" where
  "make_factor name weight raw =
     \<lparr>fc_name = name, fc_weight = weight, fc_raw = raw, fc_contribution = points weight raw\<rparr>"

fun sum_points :: "factor list \<Rightarrow> number \<Rightarrow> number" where
  "sum_points [] s = s"
| "sum_points (f # fs) s =
     sum_points fs (case (s, fc_contribution f) of (Some a, Some b) \<Rightarrow> Some (a + b) | _ \<Rightarrow> None)"

text \<open>Comparisons with \<^verbatim>\<open>NaN\<close> are false.\<close>

definition at_least :: "number \<Rightarrow> rat \<Rightarrow> bool" where
  "at_least v b \<longleftrightarrow> (case v of None \<Rightarrow> False | Some x \<Rightarrow> b \<le> x)"

definition recommend :: "number \<Rightarrow> string" where
  "recommend s = (if at_least s 70 then ''bid'' else if at_least s 40 then ''review'' else ''no_bid'')"

definition fit_factors :: "fit_signals \<Rightarrow> factor list" where
  "fit_factors s =
     (let w = pack_of (toLowerCase (orElse (fs_sector s) ''default'')) in
      [make_factor ''capability'' (map_option wt_capability w) (Some (clamp01 (fs_capability s))),
       make_factor ''timeline'' (map_option wt_timeline w) (Some (timelineRaw (fs_days s))),
       make_factor ''evidence'' (map_option wt_evidence w) (Some (clamp01 (fs_evidence s))),
       make_factor ''risk'' (map_option wt_risk w) (risk_raw (fs_risk s))])"

definition score :: "fit_signals \<Rightarrow> fit_score" where
  "score s =
     (let sector = toLowerCase (orElse (fs_sector s) ''default'');
          factors = fit_factors s;
          computed = sum_points factors (Some 0)
      in \<lparr>ft_computed = computed, ft_factors = factors, ft_recommendation = recommend computed,
          ft_overridden = False, ft_final = computed, ft_reason = None,
          ft_sector = (if map_of sector_packs sector \<noteq> None \<or> sector \<in> set proto_keys then sector
                       else ''default'')\<rparr>)"

definition override_score :: "fit_signals \<Rightarrow> number \<Rightarrow> string \<Rightarrow> api_error + fit_score" where
  "override_score s v reason =
     (if trim reason = [] then Inl (Plain ''override requires a reason'')
      else if (case v of None \<Rightarrow> False | Some x \<Rightarrow> x < 0 \<or> 100 < x)
      then Inl (Plain ''override score must be between 0 and 100'')
      else Inr ((score s)\<lparr>ft_overridden := True, ft_final := v, ft_reason := Some (trim reason),
                          ft_recommendation := recommend v\<rparr>))"

subsection \<open>Range and direction of the score\<close>

lemma js_round_mono: "x \<le> y \<Longrightarrow> js_round x \<le> js_round y"
  unfolding js_round_def by (intro floor_mono) simp

lemma js_round_of_int [simp]: "js_round (of_int i) = i"
  unfolding js_round_def by (intro floor_unique) simp_all

lemma to_fixed4_mono: "x \<le> y \<Longrightarrow> to_fixed4 x \<le> to_fixed4 y"
  unfolding to_fixed4_def by (simp add: divide_right_mono floor_mono)

lemma to_fixed4_ends: "to_fixed4 (1/10) = 1/10" "to_fixed4 1 = 1"
proof -
  have "\<lfloor>(1/10) * 10000 + 1/2 :: rat\<rfloor> = 1000" "\<lfloor>1 * 10000 + 1/2 :: rat\<rfloor> = 10000"
    by (rule floor_unique; simp)+
  then show "to_fixed4 (1/10) = 1/10" "to_fixed4 1 = 1" unfolding to_fixed4_def by simp_all
qed

lemma clamp01_mono: "v \<le> u \<Longrightarrow> clamp01 (Some v) \<le> clamp01 (Some u)"
  by (simp add: clamp01_def)

lemma clamp01_range: "0 \<le> clamp01 v" "clamp01 v \<le> 1"
  by (simp_all add: clamp01_def split: option.splits)

lemma timelineRaw_mono:
  assumes "d \<le> e"
  shows "timelineRaw d \<le> timelineRaw e"
proof -
  have low: "1/10 \<le> to_fixed4 (1/10 + (x - 3) / 18 * (9/10))" if "3 \<le> x" for x :: rat
    using to_fixed4_mono [of "1/10" "1/10 + (x - 3) / 18 * (9/10)"] that by (simp add: to_fixed4_ends)
  have high: "to_fixed4 (1/10 + (x - 3) / 18 * (9/10)) \<le> 1" if "x \<le> 21" for x :: rat
    using to_fixed4_mono [of "1/10 + (x - 3) / 18 * (9/10)" 1] that by (simp add: to_fixed4_ends field_simps)
  have mid: "to_fixed4 (1/10 + (d - 3) / 18 * (9/10)) \<le> to_fixed4 (1/10 + (e - 3) / 18 * (9/10))"
    using assms by (intro to_fixed4_mono) (simp add: divide_right_mono)
  show ?thesis
    using assms low [of e] high [of d] mid by (auto simp: timelineRaw_def)
qed

lemma timelineRaw_range: "1/10 \<le> timelineRaw d" "timelineRaw d \<le> 1"
proof -
  have ends: "timelineRaw 3 = 1/10" "timelineRaw 21 = 1" by (simp_all add: timelineRaw_def)
  show "1/10 \<le> timelineRaw d"
    using timelineRaw_mono [of 3 d] ends by (cases "3 \<le> d") (auto simp: timelineRaw_def)
  show "timelineRaw d \<le> 1"
    using timelineRaw_mono [of d 21] ends by (cases "d \<le> 21") (auto simp: timelineRaw_def)
qed

text \<open>Every pack weighs in whole percents that add up to a hundred.\<close>

definition percents :: "weights \<Rightarrow> int \<Rightarrow> int \<Rightarrow> int \<Rightarrow> int \<Rightarrow> bool" where
  "percents w a b c d \<longleftrightarrow> wt_capability w * 100 = of_int a \<and> wt_timeline w * 100 = of_int b \<and>
     wt_evidence w * 100 = of_int c \<and> wt_risk w * 100 = of_int d \<and>
     0 \<le> a \<and> 0 \<le> b \<and> 0 \<le> c \<and> 0 \<le> d \<and> a + b + c + d = 100"

lemma packs_percents:
  assumes "(n, w) \<in> set sector_packs"
  shows "\<exists>a b c d. percents w a b c d"
proof -
  have "percents default_weights 35 20 30 15"
    "percents \<lparr>wt_capability = 3/10, wt_timeline = 15/100, wt_evidence = 35/100, wt_risk = 2/10\<rparr> 30 15 35 20"
    "percents \<lparr>wt_capability = 45/100, wt_timeline = 2/10, wt_evidence = 2/10, wt_risk = 15/100\<rparr> 45 20 20 15"
    "percents \<lparr>wt_capability = 3/10, wt_timeline = 15/100, wt_evidence = 4/10, wt_risk = 15/100\<rparr> 30 15 40 15"
    by (simp_all add: percents_def default_weights_def)
  moreover have "w \<in> snd ` set sector_packs" using assms by force
  ultimately show ?thesis
    unfolding sector_packs_def by simp (elim disjE; hypsubst; blast)
qed

lemma pack_percents:
  assumes "pack_of s = Some w"
  shows "\<exists>a b c d. percents w a b c d"
proof -
  have "w = default_weights \<or> (s, w) \<in> set sector_packs"
    using assms by (auto simp: pack_of_def split: option.splits if_splits dest: map_of_SomeD)
  moreover have "(''default'', default_weights) \<in> set sector_packs"
    by (simp add: sector_packs_def)
  ultimately show ?thesis
    using packs_percents by auto
qed

lemma weighted_range:
  assumes "w * 100 = of_int p" and "0 \<le> p" and "0 \<le> r" and "r \<le> 1"
  shows "0 \<le> js_round (w * r * 100)" "js_round (w * r * 100) \<le> p"
proof -
  have *: "w * r * 100 = of_int p * r" using assms(1) by (metis mult.assoc mult.commute)
  show "0 \<le> js_round (w * r * 100)"
    using js_round_mono [of 0 "w * r * 100"] assms(2,3) js_round_of_int [of 0] by (simp add: *)
  show "js_round (w * r * 100) \<le> p"
    using js_round_mono [of "w * r * 100" "of_int p"] assms(2-4) by (simp add: * mult_left_le)
qed

definition ranked_risk :: "string \<Rightarrow> bool" where
  "ranked_risk r \<longleftrightarrow> risk_raw r \<noteq> None"

lemma risk_raw_range: "risk_raw r = Some x \<Longrightarrow> 0 \<le> x \<and> x \<le> 1"
  by (auto simp: risk_raw_def split: if_splits)

lemma score_sum:
  assumes "pack_of (toLowerCase (orElse (fs_sector s) ''default'')) = Some w" and "risk_raw (fs_risk s) = Some r"
  shows "ft_computed (score s) = Some (of_int
    (js_round (wt_capability w * clamp01 (fs_capability s) * 100) +
     js_round (wt_timeline w * timelineRaw (fs_days s) * 100) +
     js_round (wt_evidence w * clamp01 (fs_evidence s) * 100) + js_round (wt_risk w * r * 100)))"
  by (simp add: score_def fit_factors_def Let_def assms make_factor_def points_def)

text \<open>
  The computed score is a whole number from 0 to 100, whatever the signals, for every sector
  and risk level that is not the name of an inherited member; each factor contributes between
  nothing and its weight.
\<close>

theorem fit_score_in_range:
  assumes "toLowerCase (orElse (fs_sector s) ''default'') \<notin> set proto_keys"
    and "fs_risk s \<notin> set proto_keys"
  shows "\<exists>n :: int. ft_computed (score s) = Some (of_int n) \<and> 0 \<le> n \<and> n \<le> 100 \<and>
    (\<forall>f \<in> set (ft_factors (score s)). \<exists>w c. fc_weight f = Some w \<and> fc_contribution f = Some c \<and>
       0 \<le> c \<and> c \<le> w * 100)"
proof -
  obtain w where w: "pack_of (toLowerCase (orElse (fs_sector s) ''default'')) = Some w"
    using assms(1) by (cases "map_of sector_packs (toLowerCase (orElse (fs_sector s) ''default''))")
      (auto simp: pack_of_def)
  obtain r where r: "risk_raw (fs_risk s) = Some r"
    using assms(2) by (cases "risk_raw (fs_risk s)") (auto simp: risk_raw_def split: if_splits)
  obtain a b c d where p: "percents w a b c d" using pack_percents [OF w] by blast
  note range = weighted_range [of "wt_capability w" a "clamp01 (fs_capability s)"]
    weighted_range [of "wt_timeline w" b "timelineRaw (fs_days s)"]
    weighted_range [of "wt_evidence w" c "clamp01 (fs_evidence s)"]
    weighted_range [of "wt_risk w" d r]
  have "0 \<le> timelineRaw (fs_days s)"
    using timelineRaw_range(1) [of "fs_days s"] by linarith
  then have bounds: "0 \<le> js_round (wt_capability w * clamp01 (fs_capability s) * 100)"
      "js_round (wt_capability w * clamp01 (fs_capability s) * 100) \<le> a"
      "0 \<le> js_round (wt_timeline w * timelineRaw (fs_days s) * 100)"
      "js_round (wt_timeline w * timelineRaw (fs_days s) * 100) \<le> b"
      "0 \<le> js_round (wt_evidence w * clamp01 (fs_evidence s) * 100)"
      "js_round (wt_evidence w * clamp01 (fs_evidence s) * 100) \<le> c"
      "0 \<le> js_round (wt_risk w * r * 100)" "js_round (wt_risk w * r * 100) \<le> d"
    using p range timelineRaw_range(2) clamp01_range risk_raw_range [OF r] by (auto simp: percents_def)
  have "\<forall>f \<in> set (ft_factors (score s)). \<exists>w c. fc_weight f = Some w \<and> fc_contribution f = Some c \<and>
       0 \<le> c \<and> c \<le> w * 100"
    using bounds p by (simp add: score_def fit_factors_def Let_def w r make_factor_def points_def percents_def)
  then show ?thesis
    using bounds p score_sum [OF w r] by (intro exI conjI) (assumption | simp add: percents_def)+
qed

theorem fit_score_in_range_witness:
  "\<exists>n :: int. ft_computed (score \<lparr>fs_capability = Some (7/2), fs_days = 10, fs_evidence = None,
      fs_risk = ''low'', fs_sector = Some ''Construction''\<rparr>) = Some (of_int n) \<and> 0 \<le> n \<and> n \<le> 100"
proof -
  have "toLowerCase ''Construction'' \<notin> set proto_keys" "''low'' \<notin> set proto_keys" by code_simp+
  then show ?thesis
    using fit_score_in_range [of "\<lparr>fs_capability = Some (7/2), fs_days = 10, fs_evidence = None,
      fs_risk = ''low'', fs_sector = Some ''Construction''\<rparr>"] by auto
qed

text \<open>
  Better signals never lower the score: with the same sector, more capability, more days,
  more evidence and a risk level of at least the same value give at least the same score, so the
  recommendation can only improve.
\<close>

theorem fit_score_monotone:
  assumes "pack_of (toLowerCase (orElse (fs_sector s) ''default'')) = Some w"
    and "fs_sector s' = fs_sector s"
    and "fs_capability s = Some x" and "fs_capability s' = Some x'" and "x \<le> x'"
    and "fs_evidence s = Some y" and "fs_evidence s' = Some y'" and "y \<le> y'"
    and "fs_days s \<le> fs_days s'"
    and "risk_raw (fs_risk s) = Some r" and "risk_raw (fs_risk s') = Some r'" and "r \<le> r'"
  shows "\<exists>a b. ft_computed (score s) = Some a \<and> ft_computed (score s') = Some b \<and> a \<le> b \<and>
    (ft_recommendation (score s) = ''bid'' \<longrightarrow> ft_recommendation (score s') = ''bid'')"
proof -
  have pos: "0 \<le> wt_capability w" "0 \<le> wt_timeline w" "0 \<le> wt_evidence w" "0 \<le> wt_risk w"
  proof -
    obtain a b c d where "percents w a b c d" using pack_percents [OF assms(1)] by blast
    then have "0 \<le> wt_capability w * 100" "0 \<le> wt_timeline w * 100" "0 \<le> wt_evidence w * 100"
      "0 \<le> wt_risk w * 100" by (simp_all add: percents_def)
    then show "0 \<le> wt_capability w" "0 \<le> wt_timeline w" "0 \<le> wt_evidence w" "0 \<le> wt_risk w"
      by simp_all
  qed
  have step: "js_round (k * u * 100) \<le> js_round (k * v * 100)" if "0 \<le> k" "u \<le> v" for k u v :: rat
    using that by (intro js_round_mono) (simp add: mult_left_mono)
  have "js_round (wt_capability w * clamp01 (Some x) * 100) + js_round (wt_timeline w * timelineRaw (fs_days s) * 100) +
      js_round (wt_evidence w * clamp01 (Some y) * 100) + js_round (wt_risk w * r * 100)
    \<le> js_round (wt_capability w * clamp01 (Some x') * 100) + js_round (wt_timeline w * timelineRaw (fs_days s') * 100) +
      js_round (wt_evidence w * clamp01 (Some y') * 100) + js_round (wt_risk w * r' * 100)"
    (is "?a \<le> ?b")
    by (intro add_mono step pos clamp01_mono timelineRaw_mono assms)
  moreover have sums: "ft_computed (score s) = Some (of_int ?a)" "ft_computed (score s') = Some (of_int ?b)"
    using score_sum [of s w r] score_sum [of s' w r'] assms by simp_all
  moreover have "ft_recommendation (score t) = recommend (ft_computed (score t))" for t
    by (simp add: score_def Let_def)
  ultimately show ?thesis
    by (auto simp: recommend_def at_least_def)
qed

theorem fit_score_monotone_witness:
  "\<exists>a b. ft_computed (score \<lparr>fs_capability = Some (1/2), fs_days = 4, fs_evidence = Some (1/3),
      fs_risk = ''high'', fs_sector = None\<rparr>) = Some a \<and>
    ft_computed (score \<lparr>fs_capability = Some (3/4), fs_days = 12, fs_evidence = Some 1,
      fs_risk = ''medium'', fs_sector = None\<rparr>) = Some b \<and> a \<le> b"
proof -
  have "pack_of (toLowerCase ''default'') = Some default_weights" by code_simp
  then show ?thesis
    using fit_score_monotone [of "\<lparr>fs_capability = Some (1/2), fs_days = 4, fs_evidence = Some (1/3),
        fs_risk = ''high'', fs_sector = None\<rparr>" default_weights
      "\<lparr>fs_capability = Some (3/4), fs_days = 12, fs_evidence = Some 1,
        fs_risk = ''medium'', fs_sector = None\<rparr>" "1/2" "3/4" "1/3" 1 "25/100" "6/10"]
    by (auto simp: risk_raw_def)
qed

text \<open>A sector named after an inherited member has no score at all.\<close>

lemma fit_score_of_inherited_member:
  "ft_computed (score (s\<lparr>fs_sector := Some ''constructor''\<rparr>)) = None"
proof -
  have "toLowerCase ''constructor'' = ''constructor''" "pack_of ''constructor'' = None" by code_simp+
  then show ?thesis
    by (simp add: score_def fit_factors_def Let_def make_factor_def points_def)
qed

end
