(* ===== verification/Job_Queue.thy ===== *)
theory Job_Queue
  imports Desk_Prelude
begin

text \<open>
  The in-process job queue (\<^verbatim>\<open>providers/queue/in-memory.queue.provider.ts\<close>): handlers, the
  dedupe keys seen, and the timers that will run a job. Timers may fire in any order: a step
  fires one of them. A handler is a parameter that resolves (\<open>True\<close>) or throws for the job it is
  given; the calls it received are recorded in the state, which the code does not do.
\<close>

record queue_job =
  qj_id :: ident
  qj_name :: string
  qj_payload :: json
  qj_attemptsMade :: int
  qj_enqueuedAt :: time

record enqueue_opts =
  eo_delayMs :: "int option"
  eo_maxAttempts :: "int option"
  eo_backoffMs :: "int option"
  eo_dedupeKey :: "string option"

record timer =
  tm_queue :: string
  tm_job :: queue_job
  tm_opts :: enqueue_opts
  tm_wait :: int

record queue_state =
  qs_handlers :: "(string \<times> (queue_job \<Rightarrow> bool)) list"
  qs_seen :: "(string \<times> string list) list"
  qs_closed :: bool
  qs_timers :: "timer list"
  qs_calls :: "(queue_job \<times> enqueue_opts) list"

definition queue_init :: queue_state where
  "queue_init = \<lparr>qs_handlers = [], qs_seen = [], qs_closed = False, qs_timers = [], qs_calls = []\<rparr>"

definition schedule :: "string \<Rightarrow> queue_job \<Rightarrow> enqueue_opts \<Rightarrow> int \<Rightarrow> queue_state \<Rightarrow> queue_state" where
  "schedule q j opts wait st =
     st\<lparr>qs_timers := qs_timers st @ [\<lparr>tm_queue = q, tm_job = j, tm_opts = opts, tm_wait = wait\<rparr>]\<rparr>"

definition seen_keys :: "queue_state \<Rightarrow> string \<Rightarrow> string list" where
  "seen_keys st q = orElse (map_of (qs_seen st) q) []"

text \<open>The identifier and the clock reading of the new job are arguments.\<close>

definition enqueue ::
    "ident \<Rightarrow> time \<Rightarrow> string \<Rightarrow> string \<Rightarrow> json \<Rightarrow> enqueue_opts \<Rightarrow> queue_state \<Rightarrow>
     (api_error + string) \<times> queue_state" where
  "enqueue i now q jobName payload opts st =
     (if qs_closed st then (Inl (Plain ''queue provider closed''), st)
      else if truthyS (eo_dedupeKey opts) \<and> the (eo_dedupeKey opts) \<in> set (seen_keys st q)
      then (Inr (the (eo_dedupeKey opts)), st)
      else
        let st1 = (if truthyS (eo_dedupeKey opts)
                   then st\<lparr>qs_seen := AList.update q (seen_keys st q @ [the (eo_dedupeKey opts)]) (qs_seen st)\<rparr>
                   else st);
            j = \<lparr>qj_id = i, qj_name = jobName, qj_payload = payload, qj_attemptsMade = 0, qj_enqueuedAt = now\<rparr>
        in (Inr i, schedule q j opts (if 0 < orElse (eo_delayMs opts) 0 then orElse (eo_delayMs opts) 0 else 0) st1))"

definition process :: "string \<Rightarrow> (queue_job \<Rightarrow> bool) \<Rightarrow> queue_state \<Rightarrow> queue_state" where
  "process q h st = st\<lparr>qs_handlers := AList.update q h (qs_handlers st)\<rparr>"

definition close_queue :: "queue_state \<Rightarrow> queue_state" where
  "close_queue st = st\<lparr>qs_closed := True, qs_handlers := [], qs_seen := []\<rparr>"

definition run_job :: "string \<Rightarrow> queue_job \<Rightarrow> enqueue_opts \<Rightarrow> queue_state \<Rightarrow> queue_state" where
  "run_job q j opts st =
     (if qs_closed st then st
      else (case map_of (qs_handlers st) q of
          None \<Rightarrow> st
        | Some h \<Rightarrow>
            let j' = j\<lparr>qj_attemptsMade := qj_attemptsMade j + 1\<rparr>;
                st' = st\<lparr>qs_calls := qs_calls st @ [(j', opts)]\<rparr>
            in if h j' then st'
               else if qj_attemptsMade j' < orElse (eo_maxAttempts opts) 1
               then schedule q j' opts (orElse (eo_backoffMs opts) 1000) st'
               else st'))"

text \<open>A timer that fires is gone, and runs its job.\<close>

definition fire :: "nat \<Rightarrow> queue_state \<Rightarrow> queue_state" where
  "fire n st =
     (let t = qs_timers st ! n in
      run_job (tm_queue t) (tm_job t) (tm_opts t)
        (st\<lparr>qs_timers := take n (qs_timers st) @ drop (Suc n) (qs_timers st)\<rparr>))"

subsection \<open>Runs of the queue\<close>

definition job_ids :: "queue_state \<Rightarrow> ident set" where
  "job_ids st = qj_id ` tm_job ` set (qs_timers st) \<union> qj_id ` fst ` set (qs_calls st)"

inductive queue_step :: "queue_state \<Rightarrow> queue_state \<Rightarrow> bool" where
  qs_enqueue: "i \<notin> job_ids st \<Longrightarrow> queue_step st (snd (enqueue i now q jobName payload opts st))"
| qs_process: "queue_step st (process q h st)"
| qs_close: "queue_step st (close_queue st)"
| qs_fire: "n < length (qs_timers st) \<Longrightarrow> queue_step st (fire n st)"

inductive queue_reachable :: "queue_state \<Rightarrow> bool" where
  qr_init: "queue_reachable queue_init"
| qr_step: "queue_reachable st \<Longrightarrow> queue_step st st' \<Longrightarrow> queue_reachable st'"

text \<open>At most this many handler calls per job.\<close>

definition max_calls :: "enqueue_opts \<Rightarrow> int" where
  "max_calls opts = max 1 (orElse (eo_maxAttempts opts) 1)"

definition attempts_of :: "ident \<Rightarrow> queue_state \<Rightarrow> int list" where
  "attempts_of i st = map (qj_attemptsMade \<circ> fst) (filter (\<lambda>c. qj_id (fst c) = i) (qs_calls st))"

text \<open>
  The invariant: a pending job has been called once per attempt it counts, and is due fewer
  than its maximum; every call was within the maximum; the calls of a job are numbered.
\<close>

definition queue_inv :: "queue_state \<Rightarrow> bool" where
  "queue_inv st \<longleftrightarrow>
     distinct (map (qj_id \<circ> tm_job) (qs_timers st)) \<and>
     (\<forall>t \<in> set (qs_timers st). 0 \<le> qj_attemptsMade (tm_job t) \<and>
        qj_attemptsMade (tm_job t) < max_calls (tm_opts t) \<and>
        attempts_of (qj_id (tm_job t)) st = [1..qj_attemptsMade (tm_job t)]) \<and>
     (\<forall>(j, opts) \<in> set (qs_calls st). qj_attemptsMade j \<le> max_calls opts) \<and>
     (\<forall>i. \<exists>n. 0 \<le> n \<and> attempts_of i st = [1..n])"

lemma attempts_of_simps [simp]:
  "attempts_of i (st\<lparr>qs_timers := ts\<rparr>) = attempts_of i st"
  "attempts_of i (st\<lparr>qs_seen := s\<rparr>) = attempts_of i st"
  "attempts_of i (st\<lparr>qs_handlers := hs\<rparr>) = attempts_of i st"
  "attempts_of i (st\<lparr>qs_closed := b\<rparr>) = attempts_of i st"
  "attempts_of i (st\<lparr>qs_calls := qs_calls st @ [c]\<rparr>)
     = (if qj_id (fst c) = i then attempts_of i st @ [qj_attemptsMade (fst c)] else attempts_of i st)"
  by (simp_all add: attempts_of_def)

lemma max_calls_pos: "1 \<le> max_calls opts"
  by (simp add: max_calls_def)

lemma upto_snoc: "0 \<le> n \<Longrightarrow> [1..n] @ [n + 1] = [1..n + 1 :: int]"
  by (simp add: upto_rec2)

lemma queue_inv_init: "queue_inv queue_init"
  by (auto simp: queue_inv_def queue_init_def attempts_of_def intro: exI [of _ 0])

text \<open>What the invariant says of the pending and the past calls is kept by dropping timers.\<close>

lemma queue_inv_subset:
  assumes "queue_inv st" and "set ts \<subseteq> set (qs_timers st)" and "distinct (map (qj_id \<circ> tm_job) ts)"
  shows "queue_inv (st\<lparr>qs_timers := ts\<rparr>)"
  using assms unfolding queue_inv_def by auto

lemma queue_inv_schedule:
  assumes "queue_inv st" and "qj_id j \<notin> qj_id ` tm_job ` set (qs_timers st)"
    and "0 \<le> qj_attemptsMade j" and "qj_attemptsMade j < max_calls opts"
    and "attempts_of (qj_id j) st = [1..qj_attemptsMade j]"
  shows "queue_inv (schedule q j opts wait st)"
  using assms unfolding queue_inv_def schedule_def by (auto simp: image_iff)

lemma queue_inv_call:
  assumes "queue_inv st" and "qj_id j \<notin> qj_id ` tm_job ` set (qs_timers st)"
    and "0 \<le> qj_attemptsMade j" and "qj_attemptsMade j < max_calls opts"
    and "attempts_of (qj_id j) st = [1..qj_attemptsMade j]"
  shows "queue_inv (st\<lparr>qs_calls := qs_calls st @ [(j\<lparr>qj_attemptsMade := qj_attemptsMade j + 1\<rparr>, opts)]\<rparr>)"
    (is "queue_inv ?st")
proof -
  have attempts: "attempts_of i ?st = (if i = qj_id j then [1..qj_attemptsMade j + 1] else attempts_of i st)" for i
    using assms(3,5) by (simp add: upto_snoc)
  have "\<exists>n. 0 \<le> n \<and> attempts_of i ?st = [1..n]" for i
    using assms(1,3) unfolding attempts by (auto simp: queue_inv_def intro: exI [of _ "qj_attemptsMade j + 1"])
  moreover have "\<forall>t \<in> set (qs_timers st). qj_id (tm_job t) \<noteq> qj_id j"
    using assms(2) by (metis imageI)
  ultimately show ?thesis
    using assms(1,4) unfolding queue_inv_def attempts by (auto simp: queue_inv_def)
qed

lemma queue_inv_run:
  assumes "queue_inv st" and "qj_id j \<notin> qj_id ` tm_job ` set (qs_timers st)"
    and "0 \<le> qj_attemptsMade j" and "qj_attemptsMade j < max_calls opts"
    and "attempts_of (qj_id j) st = [1..qj_attemptsMade j]"
  shows "queue_inv (run_job q j opts st)"
proof (cases "qs_closed st \<or> map_of (qs_handlers st) q = None")
  case True
  then show ?thesis using assms(1) by (auto simp: run_job_def)
next
  case False
  then obtain h where h: "\<not> qs_closed st" "map_of (qs_handlers st) q = Some h" by auto
  let ?j = "j\<lparr>qj_attemptsMade := qj_attemptsMade j + 1\<rparr>"
  let ?st = "st\<lparr>qs_calls := qs_calls st @ [(?j, opts)]\<rparr>"
  note called = queue_inv_call [OF assms]
  have "queue_inv (schedule q ?j opts wait ?st)" if "qj_attemptsMade j + 1 < orElse (eo_maxAttempts opts) 1" for wait
    using that assms(2,3,5) upto_snoc [OF assms(3)]
    by (intro queue_inv_schedule called) (simp_all add: max_calls_def)
  then show ?thesis
    using called h by (simp add: run_job_def Let_def)
qed

lemma queue_inv_fire:
  assumes "queue_inv st" and "n < length (qs_timers st)"
  shows "queue_inv (fire n st)"
proof -
  let ?t = "qs_timers st ! n" and ?ts = "take n (qs_timers st) @ drop (Suc n) (qs_timers st)"
  have split: "qs_timers st = take n (qs_timers st) @ ?t # drop (Suc n) (qs_timers st)"
    by (rule id_take_nth_drop [OF assms(2)])
  then have "distinct (map (qj_id \<circ> tm_job) (take n (qs_timers st) @ ?t # drop (Suc n) (qs_timers st)))"
    using assms(1) by (simp add: queue_inv_def)
  then have rest: "distinct (map (qj_id \<circ> tm_job) ?ts)" "qj_id (tm_job ?t) \<notin> qj_id ` tm_job ` set ?ts"
    by (auto simp: image_iff image_comp)
  have "set ?ts \<subseteq> set (qs_timers st)"
    by (auto dest: in_set_takeD in_set_dropD)
  then have inv: "queue_inv (st\<lparr>qs_timers := ?ts\<rparr>)"
    using assms(1) rest(1) by (intro queue_inv_subset)
  have "0 \<le> qj_attemptsMade (tm_job ?t)" "qj_attemptsMade (tm_job ?t) < max_calls (tm_opts ?t)"
    "attempts_of (qj_id (tm_job ?t)) st = [1..qj_attemptsMade (tm_job ?t)]"
    using assms nth_mem [OF assms(2)] by (simp_all add: queue_inv_def)
  then show ?thesis
    unfolding fire_def Let_def by (intro queue_inv_run inv) (use rest in simp_all)
qed

lemma enqueue_inv:
  assumes "queue_inv st" and "i \<notin> job_ids st"
  shows "queue_inv (snd (enqueue i now q jobName payload opts st))"
proof -
  have new: "queue_inv (schedule q \<lparr>qj_id = i, qj_name = jobName, qj_payload = payload, qj_attemptsMade = 0,
      qj_enqueuedAt = now\<rparr> opts wait st')"
    if "queue_inv st'" "qs_timers st' = qs_timers st" "qs_calls st' = qs_calls st" for st' wait
  proof (intro queue_inv_schedule that(1))
    show "qj_id \<lparr>qj_id = i, qj_name = jobName, qj_payload = payload, qj_attemptsMade = 0,
        qj_enqueuedAt = now\<rparr> \<notin> qj_id ` tm_job ` set (qs_timers st')"
      using assms(2) that(2) by (simp add: job_ids_def)
    have "filter (\<lambda>c. qj_id (fst c) = i) (qs_calls st') = []"
      using assms(2) that(3) by (auto simp: job_ids_def filter_empty_conv)
    then show "attempts_of (qj_id \<lparr>qj_id = i, qj_name = jobName, qj_payload = payload, qj_attemptsMade = 0,
        qj_enqueuedAt = now\<rparr>) st' = [1..qj_attemptsMade \<lparr>qj_id = i, qj_name = jobName, qj_payload = payload,
        qj_attemptsMade = 0, qj_enqueuedAt = now\<rparr>]"
      by (simp add: attempts_of_def)
  qed (use max_calls_pos [of opts] in simp_all)
  have seen: "queue_inv (st\<lparr>qs_seen := s\<rparr>)" for s
    using assms(1) by (simp add: queue_inv_def)
  show ?thesis
    using assms(1) new seen by (simp add: enqueue_def Let_def)
qed

lemma queue_step_inv: "queue_step st st' \<Longrightarrow> queue_inv st \<Longrightarrow> queue_inv st'"
proof (induction rule: queue_step.induct)
  case (qs_process st q h)
  then show ?case by (simp add: queue_inv_def process_def)
next
  case (qs_close st)
  then show ?case by (simp add: queue_inv_def close_queue_def)
qed (simp_all add: enqueue_inv queue_inv_fire)

lemma queue_reachable_inv: "queue_reachable st \<Longrightarrow> queue_inv st"
  by (induction rule: queue_reachable.induct) (blast intro: queue_inv_init queue_step_inv)+

text \<open>
  C32: In every reachable queue the handler calls of a job are numbered one after the other from
  one, so none is repeated, and no call is numbered past the job's \<open>maxAttempts\<close> (one when it
  asks for less).
\<close>

theorem queue_attempts_bounded:
  assumes "queue_reachable st" and "(j, opts) \<in> set (qs_calls st)"
  shows "qj_attemptsMade j \<le> max 1 (orElse (eo_maxAttempts opts) 1) \<and>
    (\<exists>n. map (qj_attemptsMade \<circ> fst) (filter (\<lambda>c. qj_id (fst c) = qj_id j) (qs_calls st)) = [1..n])"
  using queue_reachable_inv [OF assms(1)] assms(2)
  unfolding queue_inv_def max_calls_def attempts_of_def by fastforce

definition queue_demo :: queue_state where
  "queue_demo = fire 0 (fire 0 (snd (enqueue ''j1'' 0 ''mail'' ''send'' JNull
     \<lparr>eo_delayMs = None, eo_maxAttempts = Some 2, eo_backoffMs = None, eo_dedupeKey = Some ''k''\<rparr>
     (process ''mail'' (\<lambda>_. False) queue_init))))"

lemma queue_demo_calls:
  "map (qj_attemptsMade \<circ> fst) (qs_calls queue_demo) = [1, 2]" "qs_timers queue_demo = []"
  by code_simp+

lemma queue_demo_reachable: "queue_reachable queue_demo"
proof -
  let ?opts = "\<lparr>eo_delayMs = None, eo_maxAttempts = Some 2, eo_backoffMs = None, eo_dedupeKey = Some ''k''\<rparr>"
  let ?s1 = "process ''mail'' (\<lambda>_. False) queue_init"
  let ?s2 = "snd (enqueue ''j1'' 0 ''mail'' ''send'' JNull ?opts ?s1)"
  have "queue_reachable ?s1" by (rule qr_step [OF qr_init qs_process])
  moreover have "''j1'' \<notin> job_ids ?s1" by (simp add: job_ids_def process_def queue_init_def)
  ultimately have "queue_reachable ?s2" by (blast intro: qr_step qs_enqueue)
  moreover have "0 < length (qs_timers ?s2)" "0 < length (qs_timers (fire 0 ?s2))" by code_simp+
  ultimately show ?thesis unfolding queue_demo_def by (blast intro: qr_step qs_fire)
qed

theorem queue_attempts_bounded_witness:
  "\<exists>j opts. (j, opts) \<in> set (qs_calls queue_demo) \<and> qj_attemptsMade j = 2 \<and>
     qj_attemptsMade j \<le> max 1 (orElse (eo_maxAttempts opts) 1)"
proof -
  have "\<exists>c \<in> set (qs_calls queue_demo). qj_attemptsMade (fst c) = 2"
  proof -
    have "(2 :: int) \<in> set (map (qj_attemptsMade \<circ> fst) (qs_calls queue_demo))"
      unfolding queue_demo_calls by simp
    then show ?thesis by force
  qed
  then obtain j opts where "(j, opts) \<in> set (qs_calls queue_demo)" "qj_attemptsMade j = 2" by auto
  then show ?thesis
    using queue_attempts_bounded [OF queue_demo_reachable] by blast
qed

subsection \<open>The queue drains\<close>

definition timer_work :: "timer \<Rightarrow> nat" where
  "timer_work t = nat (max_calls (tm_opts t) - qj_attemptsMade (tm_job t))"

definition work :: "queue_state \<Rightarrow> nat" where
  "work st = sum_list (map timer_work (qs_timers st))"

lemma fire_work:
  assumes "queue_inv st" and "n < length (qs_timers st)"
  shows "work (fire n st) < work st"
proof -
  let ?t = "qs_timers st ! n"
  let ?ts = "take n (qs_timers st) @ drop (Suc n) (qs_timers st)"
  have "sum_list (map timer_work (qs_timers st))
      = sum_list (map timer_work (take n (qs_timers st) @ ?t # drop (Suc n) (qs_timers st)))"
    by (rule arg_cong [OF id_take_nth_drop [OF assms(2)]])
  also have "\<dots> = timer_work ?t + sum_list (map timer_work ?ts)"
    by (simp only: map_append list.map sum_list.append sum_list.Cons add.left_commute)
  finally have sum: "work st = timer_work ?t + sum_list (map timer_work ?ts)"
    unfolding work_def .
  have pos: "qj_attemptsMade (tm_job ?t) < max_calls (tm_opts ?t)"
    using assms nth_mem [OF assms(2)] by (simp add: queue_inv_def)
  have "work (run_job (tm_queue ?t) (tm_job ?t) (tm_opts ?t) (st\<lparr>qs_timers := ?ts\<rparr>))
      < timer_work ?t + sum_list (map timer_work ?ts)"
    using pos by (auto simp: run_job_def work_def schedule_def timer_work_def Let_def split: option.splits)
  then show ?thesis by (simp add: fire_def Let_def sum)
qed

inductive fires :: "nat \<Rightarrow> queue_state \<Rightarrow> queue_state \<Rightarrow> bool" where
  fires_none: "fires 0 st st"
| fires_one: "n < length (qs_timers st) \<Longrightarrow> fires k (fire n st) st' \<Longrightarrow> fires (Suc k) st st'"

lemma fires_work: "fires k st st' \<Longrightarrow> queue_inv st \<Longrightarrow> k \<le> work st"
proof (induction rule: fires.induct)
  case (fires_one n st k st')
  then show ?case
    using fire_work [of st n] queue_inv_fire [of st n] by fastforce
qed simp

lemma fires_drain: "queue_inv st \<Longrightarrow> \<exists>k st'. fires k st st' \<and> qs_timers st' = []"
proof (induction "work st" arbitrary: st rule: less_induct)
  case less
  show ?case
  proof (cases "qs_timers st")
    case Nil
    then show ?thesis using fires_none by blast
  next
    case (Cons t ts)
    then have pending: "0 < length (qs_timers st)" by simp
    from less.hyps [OF fire_work [OF less.prems pending] queue_inv_fire [OF less.prems pending]]
    obtain k st' where "fires k (fire 0 st) st'" "qs_timers st' = []"
      by (elim exE conjE)
    then have "fires (Suc k) st st' \<and> qs_timers st' = []"
      using fires_one [OF pending] by simp
    then show ?thesis by (intro exI)
  qed
qed

text \<open>
  The retry schedule ends: from any reachable queue, whatever the handlers do and in
  whatever order the timers fire, at most as many timers fire as the pending jobs have attempts
  left, and the queue can run until no timer is pending.
\<close>

theorem queue_drains:
  assumes "queue_reachable st"
  shows "(\<forall>k st'. fires k st st' \<longrightarrow>
      k \<le> (\<Sum>t\<leftarrow>qs_timers st. nat (max 1 (orElse (eo_maxAttempts (tm_opts t)) 1) - qj_attemptsMade (tm_job t)))) \<and>
    (\<exists>k st'. fires k st st' \<and> qs_timers st' = [])"
  using queue_reachable_inv [OF assms] fires_work fires_drain
  unfolding work_def timer_work_def max_calls_def by blast

theorem queue_drains_witness: "\<exists>k st'. fires k queue_demo st' \<and> qs_timers st' = []"
  using queue_drains [OF queue_demo_reachable] by blast

subsection \<open>Dedupe keys and closing\<close>

lemma run_job_seen [simp]: "seen_keys (run_job q j opts st) p = seen_keys st p"
  by (simp add: run_job_def seen_keys_def schedule_def Let_def split: option.splits)

lemma run_job_closed [simp]: "qs_closed (run_job q j opts st) = qs_closed st"
  by (simp add: run_job_def schedule_def Let_def split: option.splits)

lemma queue_step_keeps:
  "queue_step st st' \<Longrightarrow>
     (qs_closed st \<longrightarrow> qs_closed st' \<and> qs_calls st' = qs_calls st) \<and>
     (qs_closed st' \<or> set (seen_keys st q) \<subseteq> set (seen_keys st' q))"
proof (induction rule: queue_step.induct)
  case (qs_enqueue i st now p jobName payload opts)
  then show ?case
    by (auto simp: enqueue_def Let_def schedule_def seen_keys_def update_conv')
next
  case (qs_fire n st)
  have "seen_keys (fire n st) q = seen_keys st q" "qs_closed (fire n st) = qs_closed st"
    "qs_closed st \<Longrightarrow> qs_calls (fire n st) = qs_calls st"
    by (simp_all add: fire_def Let_def) (simp_all add: seen_keys_def run_job_def)
  then show ?case by simp
qed (simp_all add: process_def close_queue_def seen_keys_def)

lemma queue_steps_keep:
  "queue_step\<^sup>*\<^sup>* st st' \<Longrightarrow>
     (qs_closed st \<longrightarrow> qs_closed st' \<and> qs_calls st' = qs_calls st) \<and>
     (qs_closed st' \<or> set (seen_keys st q) \<subseteq> set (seen_keys st' q))"
proof (induction rule: rtranclp_induct)
  case (step y z)
  then show ?case using queue_step_keeps [OF step(2), of q] by auto
qed simp

text \<open>
  A dedupe key is accepted once per queue: as long as the queue is open, every later enqueue
  with the key answers the key and schedules nothing, even when the first job has long failed.
\<close>

theorem dedupe_key_accepted_once:
  assumes "enqueue i now q jobName payload opts st = (Inr r, st1)"
    and "eo_dedupeKey opts = Some k" and "k \<noteq> []"
    and "queue_step\<^sup>*\<^sup>* st1 st2" and "\<not> qs_closed st2" and "eo_dedupeKey opts' = Some k"
  shows "enqueue i' now' q jobName' payload' opts' st2 = (Inr k, st2)"
proof -
  have "k \<in> set (seen_keys st1 q)"
    using assms(1-3) by (auto simp: enqueue_def Let_def schedule_def seen_keys_def update_conv' split: if_splits)
  then have "k \<in> set (seen_keys st2 q)"
    using queue_steps_keep [OF assms(4), of q] assms(5) by blast
  then show ?thesis
    using assms(3,5,6) by (simp add: enqueue_def)
qed

theorem dedupe_key_accepted_once_witness:
  "enqueue ''j2'' 5 ''mail'' ''send'' JNull \<lparr>eo_delayMs = None, eo_maxAttempts = None, eo_backoffMs = None,
     eo_dedupeKey = Some ''k''\<rparr> queue_demo = (Inr ''k'', queue_demo)"
proof -
  let ?opts = "\<lparr>eo_delayMs = None, eo_maxAttempts = Some 2, eo_backoffMs = None, eo_dedupeKey = Some ''k''\<rparr>"
  let ?s1 = "process ''mail'' (\<lambda>_. False) queue_init"
  let ?s2 = "snd (enqueue ''j1'' 0 ''mail'' ''send'' JNull ?opts ?s1)"
  have first: "enqueue ''j1'' 0 ''mail'' ''send'' JNull ?opts ?s1 = (Inr ''j1'', ?s2)"
    by (simp add: enqueue_def Let_def process_def queue_init_def seen_keys_def)
  have "0 < length (qs_timers ?s2)" "0 < length (qs_timers (fire 0 ?s2))" by code_simp+
  then have "queue_step\<^sup>*\<^sup>* ?s2 queue_demo"
    unfolding queue_demo_def by (blast intro: qs_fire rtranclp.rtrancl_into_rtrancl rtranclp.rtrancl_refl)
  moreover have "\<not> qs_closed queue_demo" by code_simp
  ultimately show ?thesis
    by (intro dedupe_key_accepted_once [OF first]) simp_all
qed

text \<open>After \<^verbatim>\<open>close\<close> no handler is called again.\<close>

lemma closed_queue_is_silent:
  "queue_step\<^sup>*\<^sup>* (close_queue st) st' \<Longrightarrow> qs_calls st' = qs_calls st"
  using queue_steps_keep [of "close_queue st" st'] by (simp add: close_queue_def)

end
