(* ===== verification/Boundary.thy ===== *)
theory Boundary
  imports Notifications Export
begin

text \<open>
  The edge of the process: the answer to an exception (\<^verbatim>\<open>common/all-exceptions.filter.ts\<close>), the
  structured log with its masking (\<^verbatim>\<open>observability/logger.ts\<close>), the tenancy inspector of the
  database client (\<^verbatim>\<open>common/tenancy.ts\<close>) and the proxy to the ingestion service
  (\<^verbatim>\<open>ingestion-proxy/ingestion-proxy.service.ts\<close>), whose \<^verbatim>\<open>fetch\<close> is a parameter.
\<close>

subsection \<open>The exception filter\<close>

text \<open>What the filter reads of an \<^verbatim>\<open>HttpException\<close>: \<open>None\<close> for any other error.\<close>

record http_exception =
  he_status :: int
  he_response :: json
  he_name :: string
  he_message :: string

definition nest_body :: "string \<Rightarrow> string \<Rightarrow> int \<Rightarrow> json" where
  "nest_body message description status =
     JObj [(''message'', JStr message), (''error'', JStr description), (''statusCode'', jint status)]"

definition http_of :: "api_error \<Rightarrow> http_exception option" where
  "http_of e = (case e of
     BadRequest m \<Rightarrow> Some \<lparr>he_status = 400, he_response = nest_body m ''Bad Request'' 400,
       he_name = ''BadRequestException'', he_message = m\<rparr>
   | Unauthorized m \<Rightarrow> Some \<lparr>he_status = 401,
       he_response = (if m = ''Unauthorized'' then JObj [(''message'', JStr m), (''statusCode'', jint 401)]
                      else nest_body m ''Unauthorized'' 401),
       he_name = ''UnauthorizedException'', he_message = m\<rparr>
   | Forbidden m \<Rightarrow> Some \<lparr>he_status = 403, he_response = nest_body m ''Forbidden'' 403,
       he_name = ''ForbiddenException'', he_message = m\<rparr>
   | NotFound m \<Rightarrow> Some \<lparr>he_status = 404, he_response = nest_body m ''Not Found'' 404,
       he_name = ''NotFoundException'', he_message = m\<rparr>
   | ServiceUnavailable m \<Rightarrow> Some \<lparr>he_status = 503, he_response = nest_body m ''Service Unavailable'' 503,
       he_name = ''ServiceUnavailableException'', he_message = m\<rparr>
   | Conflict body \<Rightarrow> Some \<lparr>he_status = 409, he_response = body, he_name = ''HttpException'',
       he_message = error_message e\<rparr>
   | TooManyRequests body \<Rightarrow> Some \<lparr>he_status = 429, he_response = body,
       he_name = ''BudgetExceededException'', he_message = error_message e\<rparr>
   | Plain _ \<Rightarrow> None)"

definition field :: "json \<Rightarrow> string \<Rightarrow> json option" where
  "field v k = (case v of JObj kvs \<Rightarrow> map_of kvs k | _ \<Rightarrow> None)"

text \<open>\<^verbatim>\<open>res.k ?? d\<close> on a response object, as a JSON value\<close>

definition field_or :: "json \<Rightarrow> string \<Rightarrow> string \<Rightarrow> json" where
  "field_or v k d = (case field v k of None \<Rightarrow> JStr d | Some JNull \<Rightarrow> JStr d | Some x \<Rightarrow> x)"

definition string_items :: "json list \<Rightarrow> string list" where
  "string_items xs = map (\<lambda>x. case x of JStr s \<Rightarrow> s | _ \<Rightarrow> stringify x) xs"

record normalised =
  no_status :: int
  no_message :: json
  no_error :: json

definition normalise :: "http_exception option \<Rightarrow> normalised" where
  "normalise exc = (case exc of
     Some e \<Rightarrow>
       let res = he_response e;
           message = (case res of JStr s \<Rightarrow> JStr s | _ \<Rightarrow> field_or res ''message'' (he_message e));
           err = (case res of JObj _ \<Rightarrow> field_or res ''error'' (he_name e) | _ \<Rightarrow> JStr (he_name e))
       in \<lparr>no_status = he_status e,
           no_message = (case message of JArr xs \<Rightarrow> JStr (join ''; '' (string_items xs)) | m \<Rightarrow> m),
           no_error = err\<rparr>
   | None \<Rightarrow> \<lparr>no_status = 500, no_message = JStr ''Internal server error'',
              no_error = JStr ''InternalServerError''\<rparr>)"

definition error_body :: "api_error \<Rightarrow> string \<Rightarrow> time \<Rightarrow> int \<times> json" where
  "error_body e path now =
     (let n = normalise (http_of e) in
      (no_status n, JObj [(''statusCode'', jint (no_status n)), (''error'', no_error n),
         (''message'', no_message n), (''path'', JStr path), (''timestamp'', JStr (iso_datetime now))]))"

subsection \<open>The log\<close>

text \<open>
  \<^verbatim>\<open>redact\<close> rebuilds every object from its entries: an array becomes an object with its
  indices as keys, a date an object without any.
\<close>

fun redact :: "json \<Rightarrow> json"
  and redact_fields :: "(string \<times> json) list \<Rightarrow> (string \<times> json) list"
  and redact_items :: "nat \<Rightarrow> json list \<Rightarrow> (string \<times> json) list" where
  "redact (JObj kvs) = JObj (redact_fields kvs)"
| "redact (JArr xs) = JObj (redact_items 0 xs)"
| "redact (JDate t) = JObj []"
| "redact JNull = JNull"
| "redact (JBool b) = JBool b"
| "redact (JNum r) = JNum r"
| "redact (JStr s) = JStr s"
| "redact_fields [] = []"
| "redact_fields ((k, v) # kvs) =
     (k, if secret_key k then JStr ''[redacted]'' else redact v) # redact_fields kvs"
| "redact_items n [] = []"
| "redact_items n (x # xs) =
     (show_nat n, if secret_key (show_nat n) then JStr ''[redacted]'' else redact x) # redact_items (Suc n) xs"

definition log_object :: "string \<Rightarrow> string \<Rightarrow> (string \<times> json) list \<Rightarrow> time \<Rightarrow> (string \<times> json) list" where
  "log_object level message context now =
     fold (\<lambda>(k, v). AList.update k v) (redact_fields context)
       [(''ts'', JStr (iso_datetime now)), (''level'', JStr level), (''message'', JStr message)]"

definition log_line :: "string \<Rightarrow> string \<Rightarrow> (string \<times> json) list \<Rightarrow> time \<Rightarrow> string" where
  "log_line level message context now = stringify (JObj (log_object level message context now))"

subsection \<open>The tenancy inspector\<close>

text \<open>A query argument as JavaScript has it, \<^verbatim>\<open>undefined\<close> fields included.\<close>

datatype qval = QUndef | QNull | QPrim json | QArr "qval list" | QObj "(string \<times> qval) list"

datatype tenancy_reason =
    HasOrganizationId | HasSafeBypassKey | NoEnforcementNeeded | WhereMissing | OrganizationIdMissing

definition tenant_scoped_models :: "string list" where
  "tenant_scoped_models = [''User'', ''ClientCompany'', ''Tender'', ''ClientDocument'', ''AuditEvent'',
     ''ComplianceMatrix'', ''ComplianceItem'', ''TenderRequirement'', ''EvidenceLink'', ''Task'',
     ''SubmissionPack'', ''ConsentEvent'', ''DataSubjectRequest'', ''TenderAccess'', ''DpoContact'',
     ''IngestionJob'', ''RetentionAction'', ''LlmUsageLog'', ''DpoTrainingRecord'', ''InboundEmail'',
     ''WebhookSubscription'', ''WebhookDelivery'']"

definition safe_bypass_keys :: "string list" where
  "safe_bypass_keys = [''email'', ''messageId'']"

definition enforced_operations :: "string list" where
  "enforced_operations = [''findFirst'', ''findFirstOrThrow'', ''findMany'', ''findUnique'',
     ''findUniqueOrThrow'', ''count'', ''update'', ''updateMany'', ''delete'', ''deleteMany'',
     ''aggregate'', ''groupBy'']"

definition has_key :: "qval \<Rightarrow> string \<Rightarrow> bool" where
  "has_key v k = (case v of QObj kvs \<Rightarrow> k \<in> fst ` set kvs | _ \<Rightarrow> False)"

definition get_key :: "qval \<Rightarrow> string \<Rightarrow> qval" where
  "get_key v k = (case v of QObj kvs \<Rightarrow> orElse (map_of kvs k) QUndef | _ \<Rightarrow> QUndef)"

definition is_object :: "qval \<Rightarrow> bool" where
  "is_object v = (case v of QObj _ \<Rightarrow> True | QArr _ \<Rightarrow> True | _ \<Rightarrow> False)"

definition inspectTenancy :: "string \<Rightarrow> string \<Rightarrow> qval \<Rightarrow> bool \<times> tenancy_reason" where
  "inspectTenancy model operation args =
     (if model \<notin> set tenant_scoped_models then (True, NoEnforcementNeeded)
      else if operation \<notin> set enforced_operations then (True, NoEnforcementNeeded)
      else let wher = get_key args ''where'' in
        if \<not> is_object wher then (False, WhereMissing)
        else if has_key wher ''organizationId'' \<and> get_key wher ''organizationId'' \<noteq> QUndef
        then (True, HasOrganizationId)
        else if (case get_key wher ''AND'' of
                   QArr cs \<Rightarrow> list_ex (\<lambda>c. is_object c \<and> has_key c ''organizationId'') cs | _ \<Rightarrow> False)
        then (True, HasOrganizationId)
        else if list_ex (has_key wher) safe_bypass_keys then (True, HasSafeBypassKey)
        else (False, OrganizationIdMissing))"

definition assertTenancy :: "string \<Rightarrow> string \<Rightarrow> qval \<Rightarrow> bool \<Rightarrow> api_error + unit" where
  "assertTenancy model operation args strict =
     (if fst (inspectTenancy model operation args) then Inr ()
      else if strict
      then Inl (Plain (''tenancy violation: '' @ operation @ '' on '' @ model @ '' without organizationId in where''))
      else Inr ())"

definition isStrictTenancyMode :: "string option \<Rightarrow> bool" where
  "isStrictTenancyMode v \<longleftrightarrow> v = Some ''true''"

subsection \<open>The ingestion proxy\<close>

text \<open>
  \<open>fetch\<close> answers with an error message (the request failed) or a response, whose body may fail to
  parse, and whose text is read only for an error message.
\<close>

record http_response =
  hr_status :: int
  hr_json :: "string + json"
  hr_text :: "string option"

type_synonym fetch = "string \<Rightarrow> string \<Rightarrow> (string \<times> string) list \<Rightarrow> string option \<Rightarrow> string + http_response"

record proxy_env =
  px_url :: "string option"
  px_token :: "string option"

definition baseUrl :: "proxy_env \<Rightarrow> string" where
  "baseUrl env = (let u = orElse (px_url env) ''http://localhost:8081'' in
     if ends_with u ''/'' then butlast u else u)"

definition proxy_headers :: "proxy_env \<Rightarrow> api_error + (string \<times> string) list" where
  "proxy_headers env =
     (if orElse (px_token env) [] = []
      then Inl (ServiceUnavailable ''INGESTION_TRIGGER_TOKEN not configured on the admin portal'')
      else Inr [(''authorization'', ''Bearer '' @ the (px_token env)), (''content-type'', ''application/json'')])"

definition http_ok :: "http_response \<Rightarrow> bool" where
  "http_ok r \<longleftrightarrow> 200 \<le> hr_status r \<and> hr_status r \<le> 299"

definition unreachable :: "string \<Rightarrow> api_error" where
  "unreachable m = ServiceUnavailable (''ingestion service unreachable: '' @ m)"

definition runs_of :: "json \<Rightarrow> string + json" where
  "runs_of v = (case v of
     JNull \<Rightarrow> Inl (''Cannot read properties of null (reading '' @ [CHR 0x27] @ ''runs'' @ [CHR 0x27] @ '')'')
   | JObj kvs \<Rightarrow> Inr (case map_of kvs ''runs'' of None \<Rightarrow> JArr [] | Some JNull \<Rightarrow> JArr [] | Some r \<Rightarrow> r)
   | _ \<Rightarrow> Inr (JArr []))"

definition listRecent :: "fetch \<Rightarrow> proxy_env \<Rightarrow> nat \<Rightarrow> api_error + json" where
  "listRecent fetch env limit =
     (case proxy_headers env of
        Inl e \<Rightarrow> Inl e
      | Inr headers \<Rightarrow>
          (case fetch (baseUrl env @ ''/ingestion-runs?limit='' @ show_nat limit) ''GET'' headers None of
             Inl m \<Rightarrow> Inl (unreachable m)
           | Inr res \<Rightarrow>
               if \<not> http_ok res
               then Inl (ServiceUnavailable (''ingestion service returned '' @ show_int (hr_status res)))
               else (case hr_json res of
                       Inl m \<Rightarrow> Inl (unreachable m)
                     | Inr v \<Rightarrow> (case runs_of v of Inl m \<Rightarrow> Inl (unreachable m) | Inr r \<Rightarrow> Inr r))))"

definition trigger_run :: "fetch \<Rightarrow> proxy_env \<Rightarrow> json \<Rightarrow> api_error + json" where
  "trigger_run fetch env input =
     (case proxy_headers env of
        Inl e \<Rightarrow> Inl e
      | Inr headers \<Rightarrow>
          (case fetch (baseUrl env @ ''/ingestion-runs'') ''POST'' headers (Some (stringify input)) of
             Inl m \<Rightarrow> Inl (unreachable m)
           | Inr res \<Rightarrow>
               if \<not> http_ok res
               then Inl (ServiceUnavailable (''ingestion service returned '' @ show_int (hr_status res) @ '': '' @
                      take 200 (orElse (hr_text res) [])))
               else (case hr_json res of Inl m \<Rightarrow> Inl (unreachable m) | Inr v \<Rightarrow> Inr v)))"

subsection \<open>What leaves the process\<close>

text \<open>A field under a secret-looking key, at any depth, with anything but the mask in it.\<close>

fun leaks :: "json \<Rightarrow> bool"
  and leaks_fields :: "(string \<times> json) list \<Rightarrow> bool"
  and leaks_items :: "json list \<Rightarrow> bool" where
  "leaks (JObj kvs) = leaks_fields kvs"
| "leaks (JArr xs) = leaks_items xs"
| "leaks (JDate t) = False"
| "leaks JNull = False"
| "leaks (JBool b) = False"
| "leaks (JNum r) = False"
| "leaks (JStr s) = False"
| "leaks_fields [] = False"
| "leaks_fields ((k, v) # kvs) =
     ((secret_key k \<and> v \<noteq> JStr ''[redacted]'') \<or> leaks v \<or> leaks_fields kvs)"
| "leaks_items [] = False"
| "leaks_items (x # xs) = (leaks x \<or> leaks_items xs)"

lemma redact_masks:
  "\<not> leaks (redact v)" "\<not> leaks_fields (redact_fields kvs)" "\<not> leaks_fields (redact_items n xs)"
  by (induction v and kvs and n xs rule: redact_redact_fields_redact_items.induct) auto

lemma leaks_fields_iff: "leaks_fields kvs \<longleftrightarrow> (\<exists>(k, v) \<in> set kvs. (secret_key k \<and> v \<noteq> JStr ''[redacted]'') \<or> leaks v)"
  by (induction kvs) auto

lemma leaks_fields_update:
  "\<not> leaks_fields kvs \<Longrightarrow> \<not> leaks v \<Longrightarrow> (secret_key k \<longrightarrow> v = JStr ''[redacted]'') \<Longrightarrow>
     \<not> leaks_fields (AList.update k v kvs)"
  by (induction kvs) auto

lemma leaks_fields_spread:
  "\<not> leaks_fields kvs \<Longrightarrow> \<not> leaks_fields out \<Longrightarrow> \<not> leaks_fields (fold (\<lambda>(k, v). AList.update k v) kvs out)"
  by (induction kvs arbitrary: out) (auto simp: leaks_fields_update)

text \<open>
  C35: No log line carries a secret: whatever context is logged, at any depth of it, a field whose
  key looks like a password, token, API key, secret or authorization holds the mask.
\<close>

theorem log_never_leaks: "\<not> leaks (JObj (log_object level message context now))"
proof -
  have "\<not> secret_key ''ts''" "\<not> secret_key ''level''" "\<not> secret_key ''message''" by code_simp+
  then have "\<not> leaks_fields [(''ts'', JStr (iso_datetime now)), (''level'', JStr level), (''message'', JStr message)]"
    by simp
  then show ?thesis
    unfolding log_object_def leaks.simps by (rule leaks_fields_spread [OF redact_masks(2)])
qed

text \<open>
  Whatever goes wrong behind the proxy, the operator sees 503: a missing trigger token, an
  unreachable service, an error status, a body that does not parse or is null; and without the
  token the service is not even asked.
\<close>

theorem proxy_failures_are_503:
  "(case listRecent fetch env limit of
      Inr _ \<Rightarrow> orElse (px_token env) [] \<noteq> [] | Inl e \<Rightarrow> fst (error_body e path now) = 503)
   \<and> (case trigger_run fetch env input of
        Inr _ \<Rightarrow> orElse (px_token env) [] \<noteq> [] | Inl e \<Rightarrow> fst (error_body e path now) = 503)"
  unfolding listRecent_def trigger_run_def proxy_headers_def unreachable_def
  by (simp add: error_body_def http_of_def normalise_def Let_def split: sum.splits)

text \<open>
  Nothing internal leaves the process: the answer to an error that is no HTTP exception is
  500 with a fixed text, the same for every error; and every answer has the five fields of the
  contract and no other.
\<close>

theorem internal_errors_hidden:
  "error_body (Plain m) path now = error_body (Plain m') path now \<and> fst (error_body (Plain m) path now) = 500 \<and>
   (\<exists>kvs. snd (error_body e path now) = JObj kvs \<and>
      map fst kvs = [''statusCode'', ''error'', ''message'', ''path'', ''timestamp''])"
  by (simp add: error_body_def http_of_def normalise_def Let_def)

text \<open>
  The reverse side: the body of a blocked export (its reason and the blocking requirements) and
  the limits of an exceeded budget do not reach the client either.
\<close>

lemma blocked_export_details_dropped:
  "error_body (Conflict (blocked_json b)) path now = error_body (Conflict (blocked_json b')) path now"
  by (simp add: error_body_def http_of_def normalise_def blocked_json_def field_or_def field_def error_message_def)

text \<open>
  In strict mode a query of a tenant-scoped model with a flat filter runs only with an
  organisation or one of the two lookup keys in it.
\<close>

lemma strict_tenancy_flat:
  assumes "model \<in> set tenant_scoped_models" and "operation \<in> set enforced_operations"
    and "get_key args ''where'' = QObj kvs" and "map_of kvs ''AND'' = None"
  shows "assertTenancy model operation args True = Inr () \<longleftrightarrow>
    (\<exists>v. map_of kvs ''organizationId'' = Some v \<and> v \<noteq> QUndef) \<or> ''email'' \<in> fst ` set kvs \<or>
    ''messageId'' \<in> fst ` set kvs"
proof -
  have "''organizationId'' \<in> fst ` set kvs \<longleftrightarrow> map_of kvs ''organizationId'' \<noteq> None"
    by (simp add: map_of_eq_None_iff)
  then show ?thesis
    using assms
    by (cases "map_of kvs ''organizationId''")
       (auto simp: assertTenancy_def inspectTenancy_def Let_def is_object_def has_key_def get_key_def safe_bypass_keys_def)
qed

text \<open>An undefined organisation inside \<^verbatim>\<open>AND\<close> passes, although the database client ignores it.\<close>

lemma undefined_organisation_passes:
  "assertTenancy ''Tender'' ''findMany''
     (QObj [(''where'', QObj [(''AND'', QArr [QObj [(''organizationId'', QUndef)]])])]) True = Inr ()"
  by code_simp

end
