(* ===== verification/Validation.thy ===== *)
theory Validation
  imports Llm
begin

text \<open>
  Request bodies and query objects: the \<^verbatim>\<open>class-validator\<close> decorators of the DTO classes
  of every controller, as data, and the global \<^verbatim>\<open>ValidationPipe\<close> of \<^verbatim>\<open>main.ts\<close>
  (\<^verbatim>\<open>whitelist\<close> and \<^verbatim>\<open>forbidNonWhitelisted\<close>) that interprets them. A parsed body
  is the list of its members; a member that is absent is \<^verbatim>\<open>undefined\<close>. What an e-mail
  address, a URL and a date string are is decided by the \<^verbatim>\<open>validator\<close> package: a
  parameter. The texts of the package's messages are left out.
\<close>

subsection \<open>Rules\<close>

datatype rule =
    IsOptional | IsString | IsEmail | IsUrl | IsDateString | IsBoolean | IsObject | IsArray
  | IsNumber | IsInt | IsIn "string list" | MaxLength nat | MinLength nat | MinValue rat
  | MaxValue rat | ArrayMinSize nat | EachString
  | ValidateNested "(string \<times> rule list) list"

type_synonym dto = "(string \<times> rule list) list"

record validators =
  va_isEmail :: "string \<Rightarrow> bool"
  va_isUrl :: "string \<Rightarrow> bool"
  va_isDateString :: "string \<Rightarrow> bool"

definition on_string :: "(string \<Rightarrow> bool) \<Rightarrow> json option \<Rightarrow> bool" where
  "on_string P v = (case v of Some (JStr s) \<Rightarrow> P s | _ \<Rightarrow> False)"

definition on_number :: "(rat \<Rightarrow> bool) \<Rightarrow> json option \<Rightarrow> bool" where
  "on_number P v = (case v of Some (JNum n) \<Rightarrow> P n | _ \<Rightarrow> False)"

definition nullish :: "json option \<Rightarrow> bool" where
  "nullish v \<longleftrightarrow> v = None \<or> v = Some JNull"

text \<open>
  One decorator on one value. A nested object, or every element of a nested array, is checked
  with the fields of its class, and its members must all be declared.
\<close>

fun check :: "validators \<Rightarrow> rule \<Rightarrow> json option \<Rightarrow> bool" where
  "check va IsOptional v = True"
| "check va IsString v = on_string (\<lambda>_. True) v"
| "check va IsEmail v = on_string (va_isEmail va) v"
| "check va IsUrl v = on_string (va_isUrl va) v"
| "check va IsDateString v = on_string (va_isDateString va) v"
| "check va IsBoolean v = (case v of Some (JBool _) \<Rightarrow> True | _ \<Rightarrow> False)"
| "check va IsObject v = (case v of Some (JObj _) \<Rightarrow> True | _ \<Rightarrow> False)"
| "check va IsArray v = (case v of Some (JArr _) \<Rightarrow> True | _ \<Rightarrow> False)"
| "check va IsNumber v = on_number (\<lambda>_. True) v"
| "check va IsInt v = on_number (\<lambda>n. n \<in> \<int>) v"
| "check va (IsIn xs) v = on_string (\<lambda>s. s \<in> set xs) v"
| "check va (MaxLength n) v = on_string (\<lambda>s. length s \<le> n) v"
| "check va (MinLength n) v = on_string (\<lambda>s. n \<le> length s) v"
| "check va (MinValue b) v = on_number (\<lambda>n. b \<le> n) v"
| "check va (MaxValue b) v = on_number (\<lambda>n. n \<le> b) v"
| "check va (ArrayMinSize n) v = (case v of Some (JArr xs) \<Rightarrow> n \<le> length xs | _ \<Rightarrow> False)"
| "check va EachString v =
     (case v of Some (JArr xs) \<Rightarrow> list_all (\<lambda>x. on_string (\<lambda>_. True) (Some x)) xs
      | _ \<Rightarrow> on_string (\<lambda>_. True) v)"
| "check va (ValidateNested fs) v =
     list_all (\<lambda>x. case x of
        JObj kvs \<Rightarrow>
          list_all (\<lambda>(k, _). k \<in> fst ` set fs) kvs \<and>
          list_all (\<lambda>(k, rs). (IsOptional \<in> set rs \<and> nullish (map_of kvs k)) \<or>
                             list_all (\<lambda>r. check va r (map_of kvs k)) rs) fs
      | _ \<Rightarrow> False)
       (case v of Some (JArr xs) \<Rightarrow> xs | Some x \<Rightarrow> [x] | None \<Rightarrow> [JNull])"

text \<open>
  The pipe: a member without a decorator is refused, every declared one is checked unless it is
  optional and missing.
\<close>

definition field_ok :: "validators \<Rightarrow> (string \<times> json) list \<Rightarrow> string \<times> rule list \<Rightarrow> bool" where
  "field_ok va body f \<longleftrightarrow>
     (IsOptional \<in> set (snd f) \<and> nullish (map_of body (fst f))) \<or>
     list_all (\<lambda>r. check va r (map_of body (fst f))) (snd f)"

definition dto_ok :: "validators \<Rightarrow> dto \<Rightarrow> (string \<times> json) list \<Rightarrow> bool" where
  "dto_ok va d body \<longleftrightarrow>
     list_all (\<lambda>(k, _). k \<in> fst ` set d) body \<and> list_all (field_ok va body) d"

definition validated :: "validators \<Rightarrow> dto \<Rightarrow> (string \<times> json) list \<Rightarrow> ('w, unit) act" where
  "validated va d body = throwIf (\<not> dto_ok va d body) (BadRequest ''Bad Request Exception'')"

subsection \<open>The classes\<close>

text \<open>\<^verbatim>\<open>auth/dto/login.dto.ts\<close>\<close>

definition LoginDto :: dto where
  "LoginDto =
     [(''email'', [IsEmail, MaxLength 254]),
      (''password'', [IsString, MinLength 8, MaxLength 256])]"

text \<open>\<^verbatim>\<open>pdpl/data-subject.controller.ts\<close>\<close>

definition CreateDataSubjectRequestBody :: dto where
  "CreateDataSubjectRequestBody =
     [(''type'', [IsIn [''access'', ''erasure'', ''rectification'']]),
      (''subjectEmail'', [IsEmail, MaxLength 254]),
      (''notes'', [IsOptional, IsString, MaxLength 2000])]"

definition DenyRequestBody :: dto where
  "DenyRequestBody =
     [(''notes'', [IsOptional, IsString, MaxLength 2000])]"

text \<open>\<^verbatim>\<open>pdpl/retention-action.controller.ts\<close>\<close>

definition RequestRetentionBody :: dto where
  "RequestRetentionBody =
     [(''documentId'', [IsString]),
      (''action'', [IsIn [''destroy'', ''archive'']]),
      (''reason'', [IsString, MaxLength 1000])]"

text \<open>\<^verbatim>\<open>pdpl/consent-ledger.controller.ts\<close>\<close>

definition RecordConsentBody :: dto where
  "RecordConsentBody =
     [(''subjectEmail'', [IsEmail, MaxLength 254]),
      (''purpose'', [IsString, MaxLength 120]),
      (''state'', [IsIn [''granted'', ''withdrawn'']]),
      (''source'', [IsOptional, IsString, MaxLength 40]),
      (''details'', [IsOptional, IsObject])]"

text \<open>\<^verbatim>\<open>pdpl/tender-access.controller.ts\<close>\<close>

definition GrantBody :: dto where
  "GrantBody =
     [(''userId'', [IsString]),
      (''role'', [IsIn [''Owner'', ''Editor'', ''Reviewer'', ''Viewer'']])]"

text \<open>\<^verbatim>\<open>pdpl/dpo-contact.controller.ts\<close>\<close>

definition UpsertDpoContactBody :: dto where
  "UpsertDpoContactBody =
     [(''name'', [IsString, MaxLength 120]),
      (''email'', [IsEmail, MaxLength 254]),
      (''phone'', [IsOptional, IsString, MaxLength 40]),
      (''authorityEmail'', [IsEmail, MaxLength 254]),
      (''retentionPolicyDays'', [IsOptional, IsInt, MinValue 30, MaxValue 36500])]"

text \<open>\<^verbatim>\<open>pdpl/dpo-training.controller.ts\<close>\<close>

definition TrainingListQuery :: dto where
  "TrainingListQuery =
     [(''status'', [IsOptional, IsIn [''all'', ''no-expiry'', ''active'', ''expiring'', ''expired'']])]"

definition CreateTrainingRecordBody :: dto where
  "CreateTrainingRecordBody =
     [(''userId'', [IsOptional, IsString, MaxLength 120]),
      (''subjectName'', [IsString, MaxLength 200]),
      (''subjectEmail'', [IsEmail, MaxLength 254]),
      (''topic'', [IsString, MaxLength 200]),
      (''provider'', [IsOptional, IsString, MaxLength 120]),
      (''completedAt'', [IsDateString]),
      (''validUntil'', [IsOptional, IsDateString]),
      (''evidenceRef'', [IsOptional, IsString, MaxLength 500]),
      (''evidenceDocumentId'', [IsOptional, IsString, MaxLength 120]),
      (''notes'', [IsOptional, IsString, MaxLength 2000])]"

definition UpdateTrainingRecordBody :: dto where
  "UpdateTrainingRecordBody =
     [(''subjectName'', [IsOptional, IsString, MaxLength 200]),
      (''subjectEmail'', [IsOptional, IsEmail, MaxLength 254]),
      (''topic'', [IsOptional, IsString, MaxLength 200]),
      (''provider'', [IsOptional, IsString, MaxLength 120]),
      (''completedAt'', [IsOptional, IsDateString]),
      (''validUntil'', [IsOptional, IsDateString]),
      (''evidenceRef'', [IsOptional, IsString, MaxLength 500]),
      (''evidenceDocumentId'', [IsOptional, IsString, MaxLength 120]),
      (''notes'', [IsOptional, IsString, MaxLength 2000])]"

text \<open>\<^verbatim>\<open>ingestion/ingestion.controller.ts\<close>\<close>

definition EnqueueIngestionBody :: dto where
  "EnqueueIngestionBody =
     [(''kind'', [IsIn [''etimad'', ''upload'', ''email'', ''link'']]),
      (''payload'', [IsObject])]"

definition WebhookEmailBody :: dto where
  "WebhookEmailBody =
     [(''from'', [IsString, MaxLength 254]),
      (''subject'', [IsString, MaxLength 500]),
      (''body'', [IsString, MaxLength 200000]),
      (''organizationId'', [IsString])]"

definition CompleteJobBody :: dto where
  "CompleteJobBody =
     [(''result'', [IsObject])]"

definition FailJobBody :: dto where
  "FailJobBody =
     [(''errorMessage'', [IsString, MaxLength 2000])]"

text \<open>\<^verbatim>\<open>webhooks/webhook-subscription.controller.ts\<close>\<close>

definition CreateWebhookBody :: dto where
  "CreateWebhookBody =
     [(''url'', [IsUrl, MaxLength 2048]),
      (''eventTypes'', [IsArray, ArrayMinSize 1, EachString]),
      (''active'', [IsOptional, IsBoolean]),
      (''description'', [IsOptional, IsString, MaxLength 500])]"

definition UpdateWebhookBody :: dto where
  "UpdateWebhookBody =
     [(''url'', [IsOptional, IsUrl, MaxLength 2048]),
      (''eventTypes'', [IsOptional, IsArray, ArrayMinSize 1, EachString]),
      (''active'', [IsOptional, IsBoolean]),
      (''description'', [IsOptional, IsString, MaxLength 500])]"

text \<open>\<^verbatim>\<open>compliance/compliance-item.controller.ts\<close>\<close>

definition UpdateComplianceItemBody :: dto where
  "UpdateComplianceItemBody =
     [(''owner'', [IsOptional, IsString, MaxLength 120]),
      (''status'', [IsOptional, IsIn [''missing'', ''partial'', ''satisfied'', ''overridden'']]),
      (''risk'', [IsOptional, IsIn [''low'', ''medium'', ''high'', ''critical'']]),
      (''dueDate'', [IsOptional, IsDateString])]"

definition CreateEvidenceLinkBody :: dto where
  "CreateEvidenceLinkBody =
     [(''documentId'', [IsString]),
      (''note'', [IsOptional, IsString, MaxLength 500])]"

text \<open>\<^verbatim>\<open>compliance/tender-requirement.controller.ts\<close>\<close>

definition RequirementInput :: dto where
  "RequirementInput =
     [(''category'', [IsString, MaxLength 120]),
      (''text'', [IsString, MaxLength 1000]),
      (''risk'', [IsOptional, IsIn [''low'', ''medium'', ''high'', ''critical'']]),
      (''owner'', [IsOptional, IsString, MaxLength 120]),
      (''source'', [IsOptional, IsString, MaxLength 60])]"

definition CreateRequirementsBody :: dto where
  "CreateRequirementsBody =
     [(''requirements'', [IsArray, ValidateNested RequirementInput])]"

text \<open>\<^verbatim>\<open>sector/sector-classifier.controller.ts\<close>\<close>

definition ClassifyBody :: dto where
  "ClassifyBody =
     [(''forceRerun'', [IsOptional])]"

definition OverrideBody :: dto where
  "OverrideBody =
     [(''sector'', [IsIn sectors]),
      (''category'', [IsOptional, IsString, MaxLength 200]),
      (''confidence'', [IsOptional, IsNumber, MinValue 0, MaxValue 1])]"

text \<open>\<^verbatim>\<open>ingestion-portal/ingestion-api-key.controller.ts\<close>\<close>

definition MintBody :: dto where
  "MintBody =
     [(''name'', [IsString, MaxLength 80])]"

text \<open>\<^verbatim>\<open>ingestion-portal/ingestion-portal.controller.ts\<close>\<close>

definition IngestionRequirementBody :: dto where
  "IngestionRequirementBody =
     [(''category'', [IsString, MaxLength 40]),
      (''text'', [IsString, MaxLength 4000]),
      (''mandatory'', [IsOptional, IsBoolean]),
      (''confidence'', [IsOptional, IsNumber, MinValue 0, MaxValue 1]),
      (''source_page'', [IsOptional, IsNumber, MinValue 0, MaxValue 10000]),
      (''source_text'', [IsOptional, IsString, MaxLength 2000])]"

definition IngestionEnrichmentBody :: dto where
  "IngestionEnrichmentBody =
     [(''summary'', [IsOptional, IsObject]),
      (''sector'', [IsOptional, IsString]),
      (''category'', [IsOptional, IsString]),
      (''buyer'', [IsOptional, IsObject]),
      (''deadlines'', [IsOptional, IsArray]),
      (''requirements'', [IsOptional, IsArray, ValidateNested IngestionRequirementBody]),
      (''red_flags'', [IsOptional, IsArray]),
      (''extraction_confidence'', [IsOptional, IsNumber, MinValue 0, MaxValue 1])]"

definition IngestionTenderBody :: dto where
  "IngestionTenderBody =
     [(''externalId'', [IsOptional, IsString, MaxLength 200]),
      (''sourceCode'', [IsString, MaxLength 80]),
      (''title'', [IsString, MaxLength 1000]),
      (''buyerName'', [IsOptional, IsString, MaxLength 400]),
      (''publishedAt'', [IsOptional, IsDateString]),
      (''submissionDeadline'', [IsOptional, IsDateString]),
      (''sectorCode'', [IsOptional, IsString, MaxLength 80]),
      (''confidence'', [IsNumber, MinValue 0, MaxValue 1]),
      (''rawText'', [IsString]),
      (''enrichment'', [ValidateNested IngestionEnrichmentBody])]"

text \<open>\<^verbatim>\<open>ingestion-proxy/ingestion-proxy.controller.ts\<close>\<close>

definition ListQuery :: dto where
  "ListQuery =
     [(''limit'', [IsOptional, IsInt, MinValue 1, MaxValue 200])]"

definition TriggerBody :: dto where
  "TriggerBody =
     [(''sourceCode'', [IsString, MaxLength 100]),
      (''maxPages'', [IsOptional, IsInt, MinValue 1, MaxValue 50]),
      (''maxItems'', [IsOptional, IsInt, MinValue 1, MaxValue 500]),
      (''syncToAdmin'', [IsOptional, IsBoolean])]"

text \<open>\<^verbatim>\<open>ingestion/inbound-email.controller.ts\<close>\<close>

definition InboundEmailBody :: dto where
  "InboundEmailBody =
     [(''timestamp'', [IsString]),
      (''token'', [IsString]),
      (''signature'', [IsString]),
      (''messageId'', [IsString]),
      (''from'', [IsString]),
      (''to'', [IsString]),
      (''subject'', [IsOptional, IsString]),
      (''bodyPlain'', [IsString])]"

end
