(* ===== verification/Controllers.thy ===== *)
theory Controllers
  imports Validation Audit_Trail DataSubject Retention Consent Access_Control Incident Training
    Documents Compliance Export Ingestion Webhooks Billing Llm Portal Auth Fit Boundary
begin

text \<open>
  The handlers of every controller under \<^verbatim>\<open>src/apps/api/src\<close>: what each route takes from
  the path, the query, the body and the session, and the service it calls. A handler returns what
  the code returns, as a value of \<open>answer\<close>; its JSON text is left out. A body whose class has
  decorators goes through the validation pipe first; where the code declares an interface nothing
  is checked, and the model takes the members to have the declared types (a member that is missing
  or of another type is read as absent). The pipe lets \<^verbatim>\<open>null\<close> pass for every optional
  member, also where the declared type has none; there such a \<^verbatim>\<open>null\<close> is read as absent,
  apart from the training patch, which spells out what the code does with it. A date string that
  a handler passes on unconverted becomes the date of its column.
\<close>

subsection \<open>Requests, answers, services\<close>

record http_in =
  hi_verb :: string
  hi_path :: "string list"
  hi_url :: string
  hi_query :: "(string \<times> string) list"
  hi_body :: "(string \<times> json) list"
  hi_raw :: "string option"
  hi_headers :: "string \<Rightarrow> string option"
  hi_cookies :: "(string \<times> json) list option"
  hi_file :: "upload_file option"
  hi_params :: "(string \<times> string) list"

text \<open>What the services are built with, code outside the repository included.\<close>

record services =
  sv_validators :: validators
  sv_date :: "string \<Rightarrow> time"
  sv_number :: "string \<Rightarrow> rat option"
  sv_env :: "string \<Rightarrow> string option"
  sv_put :: "string \<Rightarrow> string \<Rightarrow> string \<Rightarrow> unit wact"
  sv_presign :: "string \<Rightarrow> string wact"
  sv_errorText :: "api_error \<Rightarrow> string"
  sv_parseUrl :: "string \<Rightarrow> (string \<times> string) option"
  sv_hookSecret :: string
  sv_keyHash :: "string \<Rightarrow> string"
  sv_compare :: "string \<Rightarrow> string \<Rightarrow> bool"
  sv_rawKey :: string
  sv_drivers :: "driver list"
  sv_incidents :: register
  sv_classifier :: classifier
  sv_hmac :: "string \<Rightarrow> string \<Rightarrow> string"
  sv_int :: "string \<Rightarrow> int option"
  sv_parseJson :: "string \<Rightarrow> json option"
  sv_prices :: price_env
  sv_fetch :: fetch
  sv_sign :: "jwt_payload \<Rightarrow> api_error + string"
  sv_bearer :: "string \<Rightarrow> string option"
  sv_verifyJwt :: "string \<Rightarrow> jwt_payload option"
  sv_verifyOidc :: "string \<Rightarrow> string \<Rightarrow> token_payload option option"

text \<open>What the list of ingestion keys shows: everything but the hash and the organisation.\<close>

record key_summary =
  ks_id :: ident
  ks_name :: string
  ks_keyPrefix :: string
  ks_createdBy :: ident
  ks_createdAt :: time
  ks_lastUsedAt :: "time option"
  ks_revokedAt :: "time option"

datatype (plugins del: quickcheck_random quickcheck_exhaustive quickcheck_full_exhaustive quickcheck_narrowing) answer =
    Unit
  | Flag bool
  | Text_fields "(string \<times> string) list"
  | Tender tender | Tenders "tender list"
  | Company client_company | Companies "client_company list"
  | Users "public_user list" | Me public_user
  | Document client_document | Documents "client_document list"
  | Download string string
  | Link evidence_link | Links "evidence_link list"
  | Request subject_request | Requests "subject_request list" | Executed execute_result
  | Action retention_action | Actions "retention_action list" | Swept sweep_result
  | Consent consent_event | Consents "consent_event list" | Consent_state string string "string option"
  | Access tender_access | Accesses "tender_access list"
  | Contact "dpo_contact option"
  | Training training_with_status | Trainings "training_with_status list" | Summary training_summary
  | Notice authority_result
  | Inventory | Residency residency_config
  | Job ingestion_job | Jobs "ingestion_job list" | Claimed "ingestion_job option"
  | Email email_result
  | Hook public_hook | Hooks "public_hook list" | Hook_secret public_hook string
  | Item compliance_item
  | Generated ident comp_matrix "task list" "bool \<times> comp_item list"
  | Matrices "compliance_matrix list" | Matrix compliance_matrix "compliance_item list"
  | Requirements "tender_requirement list"
  | Classified classify_result
  | Keys "key_summary list" | Minted ident string string time string | Revoked ident "time option"
  | Plans "plan list" | Subscription subscription plan | Usage "string \<times> (string \<times> int) list"
  | Stripe stripe_result
  | Events "audit_event list"
  | Score fit_score
  | Pack pack_manifest "pack_artifact list"
  | Proxied json
  | Ingested ident ident nat
  | Session_cookie cookie "public_user option"

subsection \<open>Reading a request\<close>

definition str_of :: "(string \<times> json) list \<Rightarrow> string \<Rightarrow> string" where
  "str_of kvs k = (case map_of kvs k of Some (JStr s) \<Rightarrow> s | _ \<Rightarrow> [])"

definition opt_str :: "(string \<times> json) list \<Rightarrow> string \<Rightarrow> string option" where
  "opt_str kvs k = (case map_of kvs k of Some (JStr s) \<Rightarrow> Some s | _ \<Rightarrow> None)"

definition opt_num :: "(string \<times> json) list \<Rightarrow> string \<Rightarrow> rat option" where
  "opt_num kvs k = (case map_of kvs k of Some (JNum n) \<Rightarrow> Some n | _ \<Rightarrow> None)"

definition opt_bool :: "(string \<times> json) list \<Rightarrow> string \<Rightarrow> bool option" where
  "opt_bool kvs k = (case map_of kvs k of Some (JBool b) \<Rightarrow> Some b | _ \<Rightarrow> None)"

text \<open>A member of a patch whose type allows \<^verbatim>\<open>null\<close>: absent, null, or a string.\<close>

definition patch_str :: "(string \<times> json) list \<Rightarrow> string \<Rightarrow> string option option" where
  "patch_str kvs k = (case map_of kvs k of
     Some JNull \<Rightarrow> Some None | Some (JStr s) \<Rightarrow> Some (Some s) | _ \<Rightarrow> None)"

definition strings_of :: "(string \<times> json) list \<Rightarrow> string \<Rightarrow> string list" where
  "strings_of kvs k = (case map_of kvs k of
     Some (JArr xs) \<Rightarrow> concat (map (\<lambda>x. case x of JStr s \<Rightarrow> [s] | _ \<Rightarrow> []) xs) | _ \<Rightarrow> [])"

definition objects_of :: "(string \<times> json) list \<Rightarrow> string \<Rightarrow> (string \<times> json) list list" where
  "objects_of kvs k = (case map_of kvs k of
     Some (JArr xs) \<Rightarrow> map (\<lambda>x. case x of JObj o' \<Rightarrow> o' | _ \<Rightarrow> []) xs | _ \<Rightarrow> [])"

definition present :: "(string \<times> json) list \<Rightarrow> string \<Rightarrow> bool" where
  "present kvs k \<longleftrightarrow> (case map_of kvs k of None \<Rightarrow> False | Some JNull \<Rightarrow> False | _ \<Rightarrow> True)"

text \<open>\<^verbatim>\<open>Boolean(v)\<close>\<close>

definition truthy_json :: "json option \<Rightarrow> bool" where
  "truthy_json v = (case v of
     None \<Rightarrow> False | Some JNull \<Rightarrow> False | Some (JBool b) \<Rightarrow> b | Some (JNum n) \<Rightarrow> n \<noteq> 0
   | Some (JStr s) \<Rightarrow> s \<noteq> [] | _ \<Rightarrow> True)"

definition param :: "http_in \<Rightarrow> string \<Rightarrow> string" where
  "param r k = orElse (map_of (hi_params r) k) []"

definition query :: "http_in \<Rightarrow> string \<Rightarrow> string option" where
  "query r k = map_of (hi_query r) k"

definition body_ok :: "services \<Rightarrow> dto \<Rightarrow> http_in \<Rightarrow> unit wact" where
  "body_ok sv d r = validated (sv_validators sv) d (hi_body r)"

definition date_or_null :: "services \<Rightarrow> string option \<Rightarrow> time option" where
  "date_or_null sv v = (case v of None \<Rightarrow> None | Some s \<Rightarrow> if s = [] then None else Some (sv_date sv s))"

text \<open>\<^verbatim>\<open>ParseIntPipe\<close>: an optional sign and digits.\<close>

definition digits_only :: "string \<Rightarrow> bool" where
  "digits_only s \<longleftrightarrow> s \<noteq> [] \<and> list_all (\<lambda>c. let n = of_char c :: nat in 48 \<le> n \<and> n \<le> 57) s"

definition digits_value :: "string \<Rightarrow> int" where
  "digits_value s = fold (\<lambda>c a. 10 * a + (of_char c - 48)) s 0"

definition parseInt :: "string \<Rightarrow> int option" where
  "parseInt s =
     (case s of
        c # t \<Rightarrow> if c = CHR ''-'' then (if digits_only t then Some (- digits_value t) else None)
                else if digits_only s then Some (digits_value s) else None
      | [] \<Rightarrow> None)"

definition parse_int_pipe :: "string \<Rightarrow> int wact" where
  "parse_int_pipe s =
     orThrow (parseInt s) (BadRequest ''Validation failed (numeric string is expected)'')"

subsection \<open>Tenders, companies, users\<close>

definition TenderController_intake :: "services \<Rightarrow> session_principal \<Rightarrow> http_in \<Rightarrow> answer wact" where
  "TenderController_intake sv p r =
     bindA (tender_intake (str_of (hi_body r) ''title'') (str_of (hi_body r) ''clientCompanyId'') (sp_org p)
       (Some (orElse (opt_str (hi_body r) ''source'') ''manual''))) (\<lambda>t. ret (Tender t))"

definition TenderController_list :: "services \<Rightarrow> session_principal \<Rightarrow> http_in \<Rightarrow> answer wact" where
  "TenderController_list sv p r = bindA (tender_list (sp_org p)) (\<lambda>ts. ret (Tenders ts))"

definition TenderController_get :: "services \<Rightarrow> session_principal \<Rightarrow> http_in \<Rightarrow> answer wact" where
  "TenderController_get sv p r = bindA (tender_get (param r ''id'') (sp_org p)) (\<lambda>t. ret (Tender t))"

definition TenderController_updateStatus :: "services \<Rightarrow> session_principal \<Rightarrow> http_in \<Rightarrow> answer wact" where
  "TenderController_updateStatus sv p r =
     bindA (tender_updateStatus (param r ''id'') (sp_org p) (str_of (hi_body r) ''status''))
       (\<lambda>t. ret (Tender t))"

definition TenderController_remove :: "services \<Rightarrow> session_principal \<Rightarrow> http_in \<Rightarrow> answer wact" where
  "TenderController_remove sv p r = bindA (tender_remove (param r ''id'') (sp_org p)) (\<lambda>b. ret (Flag b))"

definition ClientCompanyController_list :: "services \<Rightarrow> session_principal \<Rightarrow> http_in \<Rightarrow> answer wact" where
  "ClientCompanyController_list sv p r = bindA (company_list (sp_org p)) (\<lambda>cs. ret (Companies cs))"

definition ClientCompanyController_get :: "services \<Rightarrow> session_principal \<Rightarrow> http_in \<Rightarrow> answer wact" where
  "ClientCompanyController_get sv p r =
     bindA (company_get (param r ''id'') (sp_org p)) (\<lambda>c. ret (Company c))"

definition ClientCompanyController_create :: "services \<Rightarrow> session_principal \<Rightarrow> http_in \<Rightarrow> answer wact" where
  "ClientCompanyController_create sv p r =
     bindA (company_create (str_of (hi_body r) ''name'') (sp_org p)) (\<lambda>c. ret (Company c))"

definition ClientCompanyController_update :: "services \<Rightarrow> session_principal \<Rightarrow> http_in \<Rightarrow> answer wact" where
  "ClientCompanyController_update sv p r =
     bindA (company_update (param r ''id'') (sp_org p) (str_of (hi_body r) ''name'')) (\<lambda>c. ret (Company c))"

definition ClientCompanyController_remove :: "services \<Rightarrow> session_principal \<Rightarrow> http_in \<Rightarrow> answer wact" where
  "ClientCompanyController_remove sv p r =
     bindA (company_remove (param r ''id'') (sp_org p)) (\<lambda>b. ret (Flag b))"

definition UsersController_list :: "services \<Rightarrow> session_principal \<Rightarrow> http_in \<Rightarrow> answer wact" where
  "UsersController_list sv p r = bindA (user_list (sp_org p)) (\<lambda>us. ret (Users us))"

definition AuditController_recent :: "services \<Rightarrow> session_principal \<Rightarrow> http_in \<Rightarrow> answer wact" where
  "AuditController_recent sv p r =
     bindA (parse_int_pipe (orElse (query r ''limit'') ''100'')) (\<lambda>limit.
     bindA (audit_recent (sp_org p) (Some limit)) (\<lambda>es. ret (Events es)))"

subsection \<open>The document vault\<close>

definition DocumentVaultController_register ::
    "services \<Rightarrow> session_principal \<Rightarrow> http_in \<Rightarrow> answer wact" where
  "DocumentVaultController_register sv p r =
     bindA (register_document \<lparr>rd_filename = str_of (hi_body r) ''filename'',
       rd_company = str_of (hi_body r) ''clientCompanyId'', rd_documentType = opt_str (hi_body r) ''documentType'',
       rd_sensitivity = opt_str (hi_body r) ''sensitivity'',
       rd_expiresAt = map_option (sv_date sv) (opt_str (hi_body r) ''expiresAt'')\<rparr> (sp_org p)) (\<lambda>d.
     ret (Document d))"

definition DocumentVaultController_list :: "services \<Rightarrow> session_principal \<Rightarrow> http_in \<Rightarrow> answer wact" where
  "DocumentVaultController_list sv p r = bindA (document_list (sp_org p)) (\<lambda>ds. ret (Documents ds))"

definition DocumentVaultController_expiring ::
    "services \<Rightarrow> session_principal \<Rightarrow> http_in \<Rightarrow> answer wact" where
  "DocumentVaultController_expiring sv p r =
     bindA (case date_or_null sv (query r ''before'') of Some t \<Rightarrow> ret t | None \<Rightarrow> nowA) (\<lambda>cutoff.
     bindA (listExpiring (sp_org p) cutoff) (\<lambda>ds. ret (Documents ds)))"

definition DocumentVaultController_get :: "services \<Rightarrow> session_principal \<Rightarrow> http_in \<Rightarrow> answer wact" where
  "DocumentVaultController_get sv p r =
     bindA (document_get (param r ''id'') (sp_org p) (Some (sp_role p))) (\<lambda>d. ret (Document d))"

definition DocumentVaultController_evidenceLinks ::
    "services \<Rightarrow> session_principal \<Rightarrow> http_in \<Rightarrow> answer wact" where
  "DocumentVaultController_evidenceLinks sv p r =
     bindA (links_listForDocument (param r ''id'') (sp_org p)) (\<lambda>ls. ret (Links ls))"

definition DocumentVaultController_setState ::
    "services \<Rightarrow> session_principal \<Rightarrow> http_in \<Rightarrow> answer wact" where
  "DocumentVaultController_setState sv p r =
     bindA (document_setState (param r ''id'') (sp_org p) (str_of (hi_body r) ''state'')) (\<lambda>d.
     ret (Document d))"

definition DocumentUploadController_upload ::
    "services \<Rightarrow> session_principal \<Rightarrow> http_in \<Rightarrow> answer wact" where
  "DocumentUploadController_upload sv p r =
     bindA (upload_document (sv_put sv) (sv_errorText sv) (hi_file r)
       \<lparr>ub_company = str_of (hi_body r) ''clientCompanyId'',
        ub_documentType = opt_str (hi_body r) ''documentType'',
        ub_sensitivity = opt_str (hi_body r) ''sensitivity'',
        ub_expiresAt = date_or_null sv (opt_str (hi_body r) ''expiresAt'')\<rparr> (sp_org p)) (\<lambda>d.
     ret (Document d))"

definition DocumentUploadController_download ::
    "services \<Rightarrow> session_principal \<Rightarrow> http_in \<Rightarrow> answer wact" where
  "DocumentUploadController_download sv p r =
     bindA (download_document (sv_presign sv) (param r ''id'') (sp_org p) (Some (sp_role p)))
       (\<lambda>(url, name). ret (Download url name))"

subsection \<open>Data protection\<close>

definition PdplController_inventory :: "services \<Rightarrow> session_principal \<Rightarrow> http_in \<Rightarrow> answer wact" where
  "PdplController_inventory sv p r = ret Inventory"

definition PdplController_residency :: "services \<Rightarrow> session_principal \<Rightarrow> http_in \<Rightarrow> answer wact" where
  "PdplController_residency sv p r =
     ret (Residency (readResidencyMode (sv_env sv ''MUNAFASAH_RESIDENCY'') (sv_env sv ''MUNAFASAH_CROSS_BORDER_SAFEGUARDS'')))"

definition DataSubjectController_create :: "services \<Rightarrow> session_principal \<Rightarrow> http_in \<Rightarrow> answer wact" where
  "DataSubjectController_create sv p r =
     bindA (body_ok sv CreateDataSubjectRequestBody r) (\<lambda>_.
     bindA (createRequest (sp_org p) (str_of (hi_body r) ''type'') (str_of (hi_body r) ''subjectEmail'')
       (Some (sp_userId p)) (opt_str (hi_body r) ''notes'')) (\<lambda>q. ret (Request q)))"

definition DataSubjectController_list :: "services \<Rightarrow> session_principal \<Rightarrow> http_in \<Rightarrow> answer wact" where
  "DataSubjectController_list sv p r =
     bindA (list_requests (sp_org p) (query r ''status'')) (\<lambda>qs. ret (Requests qs))"

definition DataSubjectController_get :: "services \<Rightarrow> session_principal \<Rightarrow> http_in \<Rightarrow> answer wact" where
  "DataSubjectController_get sv p r =
     bindA (get_request (param r ''id'') (sp_org p)) (\<lambda>q. ret (Request q))"

definition DataSubjectController_approve :: "services \<Rightarrow> session_principal \<Rightarrow> http_in \<Rightarrow> answer wact" where
  "DataSubjectController_approve sv p r =
     bindA (approve_request (param r ''id'') (sp_org p) (sp_userId p)) (\<lambda>q. ret (Request q))"

definition DataSubjectController_deny :: "services \<Rightarrow> session_principal \<Rightarrow> http_in \<Rightarrow> answer wact" where
  "DataSubjectController_deny sv p r =
     bindA (body_ok sv DenyRequestBody r) (\<lambda>_.
     bindA (deny_request (param r ''id'') (sp_org p) (sp_userId p) (opt_str (hi_body r) ''notes'')) (\<lambda>q.
     ret (Request q)))"

definition DataSubjectController_execute :: "services \<Rightarrow> session_principal \<Rightarrow> http_in \<Rightarrow> answer wact" where
  "DataSubjectController_execute sv p r =
     bindA (execute_request (param r ''id'') (sp_org p) (sp_userId p)) (\<lambda>x. ret (Executed x))"

definition RetentionActionController_list ::
    "services \<Rightarrow> session_principal \<Rightarrow> http_in \<Rightarrow> answer wact" where
  "RetentionActionController_list sv p r =
     bindA (list_actions (sp_org p) (query r ''status'')) (\<lambda>xs. ret (Actions xs))"

definition RetentionActionController_get ::
    "services \<Rightarrow> session_principal \<Rightarrow> http_in \<Rightarrow> answer wact" where
  "RetentionActionController_get sv p r =
     bindA (get_action (param r ''id'') (sp_org p)) (\<lambda>x. ret (Action x))"

definition RetentionActionController_request ::
    "services \<Rightarrow> session_principal \<Rightarrow> http_in \<Rightarrow> answer wact" where
  "RetentionActionController_request sv p r =
     bindA (body_ok sv RequestRetentionBody r) (\<lambda>_.
     bindA (request_action (sp_org p) (str_of (hi_body r) ''documentId'') (str_of (hi_body r) ''action'')
       (str_of (hi_body r) ''reason'') (sp_userId p)) (\<lambda>x. ret (Action x)))"

definition RetentionActionController_approve ::
    "services \<Rightarrow> session_principal \<Rightarrow> http_in \<Rightarrow> answer wact" where
  "RetentionActionController_approve sv p r =
     bindA (approve_action (param r ''id'') (sp_org p) (sp_userId p)) (\<lambda>x. ret (Action x))"

definition RetentionActionController_deny ::
    "services \<Rightarrow> session_principal \<Rightarrow> http_in \<Rightarrow> answer wact" where
  "RetentionActionController_deny sv p r =
     bindA (deny_action (param r ''id'') (sp_org p) (sp_userId p)) (\<lambda>x. ret (Action x))"

definition RetentionActionController_sweep ::
    "services \<Rightarrow> session_principal \<Rightarrow> http_in \<Rightarrow> answer wact" where
  "RetentionActionController_sweep sv p r =
     bindA (sweep (sp_org p) (sp_userId p) None) (\<lambda>x. ret (Swept x))"

text \<open>The scheduler's route has no session: the organisation comes from the body.\<close>

definition RetentionScheduledController_sweepScheduled :: "services \<Rightarrow> http_in \<Rightarrow> answer wact" where
  "RetentionScheduledController_sweepScheduled sv r =
     (if str_of (hi_body r) ''organizationId'' = []
      then ret (Text_fields [(''skipped'', ''organizationId required in body'')])
      else bindA (sweep (str_of (hi_body r) ''organizationId'') ''system:cloud-scheduler'' None) (\<lambda>x.
           ret (Swept x)))"

definition ConsentLedgerController_create ::
    "services \<Rightarrow> session_principal \<Rightarrow> http_in \<Rightarrow> answer wact" where
  "ConsentLedgerController_create sv p r =
     bindA (body_ok sv RecordConsentBody r) (\<lambda>_.
     bindA (record_consent (sp_org p)
       \<lparr>rc_subjectEmail = str_of (hi_body r) ''subjectEmail'', rc_subjectUserId = None,
        rc_purpose = str_of (hi_body r) ''purpose'', rc_state = str_of (hi_body r) ''state'',
        rc_source = opt_str (hi_body r) ''source'', rc_recordedBy = Some (sp_userId p),
        rc_details = (if present (hi_body r) ''details'' then map_of (hi_body r) ''details'' else None)\<rparr>) (\<lambda>e.
     ret (Consent e)))"

definition ConsentLedgerController_list :: "services \<Rightarrow> session_principal \<Rightarrow> http_in \<Rightarrow> answer wact" where
  "ConsentLedgerController_list sv p r =
     bindA (listForSubject (sp_org p) (orElse (query r ''subjectEmail'') [])) (\<lambda>es. ret (Consents es))"

definition ConsentLedgerController_check ::
    "services \<Rightarrow> session_principal \<Rightarrow> http_in \<Rightarrow> answer wact" where
  "ConsentLedgerController_check sv p r =
     (let email = orElse (query r ''subjectEmail'') []; purpose = orElse (query r ''purpose'') [] in
      bindA (currentState (sp_org p) email purpose) (\<lambda>s. ret (Consent_state email purpose s)))"

definition TenderAccessController_list :: "services \<Rightarrow> session_principal \<Rightarrow> http_in \<Rightarrow> answer wact" where
  "TenderAccessController_list sv p r =
     bindA (listForTender (sp_org p) (param r ''tenderId'')) (\<lambda>xs. ret (Accesses xs))"

definition TenderAccessController_grant :: "services \<Rightarrow> session_principal \<Rightarrow> http_in \<Rightarrow> answer wact" where
  "TenderAccessController_grant sv p r =
     bindA (body_ok sv GrantBody r) (\<lambda>_.
     bindA (grant_access (sp_org p) (str_of (hi_body r) ''userId'') (param r ''tenderId'')
       (str_of (hi_body r) ''role'') (sp_userId p)) (\<lambda>a. ret (Access a)))"

definition TenderAccessController_revoke :: "services \<Rightarrow> session_principal \<Rightarrow> http_in \<Rightarrow> answer wact" where
  "TenderAccessController_revoke sv p r =
     bindA (revoke_access (sp_org p) (param r ''userId'') (param r ''tenderId'') (sp_userId p)) (\<lambda>b.
     ret (Flag b))"

definition DpoContactController_get :: "services \<Rightarrow> session_principal \<Rightarrow> http_in \<Rightarrow> answer wact" where
  "DpoContactController_get sv p r = bindA (get_contact (sp_org p)) (\<lambda>c. ret (Contact c))"

definition DpoContactController_upsert :: "services \<Rightarrow> session_principal \<Rightarrow> http_in \<Rightarrow> answer wact" where
  "DpoContactController_upsert sv p r =
     bindA (body_ok sv UpsertDpoContactBody r) (\<lambda>_.
     bindA (upsert_contact (sp_org p)
       \<lparr>di_name = str_of (hi_body r) ''name'', di_email = str_of (hi_body r) ''email'',
        di_phone = opt_str (hi_body r) ''phone'', di_authorityEmail = str_of (hi_body r) ''authorityEmail'',
        di_retentionPolicyDays = map_option floor (opt_num (hi_body r) ''retentionPolicyDays'')\<rparr>
       (sp_userId p)) (\<lambda>c. ret (Contact (Some c))))"

definition AuthorityNotificationController_trigger ::
    "services \<Rightarrow> session_principal \<Rightarrow> http_in \<Rightarrow> answer wact" where
  "AuthorityNotificationController_trigger sv p r =
     bindA (notifyForIncident (sv_drivers sv) (sv_incidents sv) (sp_org p) (param r ''id'') (sp_userId p))
       (\<lambda>x. ret (Notice x))"

subsection \<open>Training records\<close>

definition status_filter :: "string option \<Rightarrow> expiry_status option" where
  "status_filter s =
     (if s = Some ''no-expiry'' then Some NoExpiry else if s = Some ''active'' then Some Active
      else if s = Some ''expiring'' then Some Expiring else if s = Some ''expired'' then Some Expired
      else None)"

definition DpoTrainingController_list :: "services \<Rightarrow> session_principal \<Rightarrow> http_in \<Rightarrow> answer wact" where
  "DpoTrainingController_list sv p r =
     bindA (validated (sv_validators sv) TrainingListQuery (map (\<lambda>(k, v). (k, JStr v)) (hi_query r))) (\<lambda>_.
     bindA (training_list (sp_org p) (status_filter (query r ''status'')) None) (\<lambda>xs. ret (Trainings xs)))"

definition DpoTrainingController_summary ::
    "services \<Rightarrow> session_principal \<Rightarrow> http_in \<Rightarrow> answer wact" where
  "DpoTrainingController_summary sv p r =
     bindA (training_summarize (sp_org p) None) (\<lambda>s. ret (Summary s))"

definition DpoTrainingController_get :: "services \<Rightarrow> session_principal \<Rightarrow> http_in \<Rightarrow> answer wact" where
  "DpoTrainingController_get sv p r =
     bindA (training_get (param r ''id'') (sp_org p) None) (\<lambda>x. ret (Training x))"

definition DpoTrainingController_create ::
    "services \<Rightarrow> session_principal \<Rightarrow> http_in \<Rightarrow> answer wact" where
  "DpoTrainingController_create sv p r =
     bindA (body_ok sv CreateTrainingRecordBody r) (\<lambda>_.
     bindA (training_service_create (sp_org p) (sp_userId p)
       \<lparr>ti_userId = opt_str (hi_body r) ''userId'', ti_subjectName = str_of (hi_body r) ''subjectName'',
        ti_subjectEmail = str_of (hi_body r) ''subjectEmail'', ti_topic = str_of (hi_body r) ''topic'',
        ti_provider = opt_str (hi_body r) ''provider'',
        ti_completedAt = sv_date sv (str_of (hi_body r) ''completedAt''),
        ti_validUntil = date_or_null sv (opt_str (hi_body r) ''validUntil''),
        ti_evidenceRef = opt_str (hi_body r) ''evidenceRef'',
        ti_evidenceDocumentId = opt_str (hi_body r) ''evidenceDocumentId'',
        ti_notes = opt_str (hi_body r) ''notes''\<rparr>) (\<lambda>x. ret (Training x)))"

text \<open>
  \<^verbatim>\<open>...(body.x !== undefined && {x: ...})\<close>: \<^verbatim>\<open>new Date(null)\<close> is the epoch, and the
  service reads a property of a \<^verbatim>\<open>null\<close> name, e-mail or topic before it stores anything.
\<close>

definition training_patch :: "services \<Rightarrow> (string \<times> json) list \<Rightarrow> update_training" where
  "training_patch sv b =
     \<lparr>udt_subjectName = opt_str b ''subjectName'', udt_subjectEmail = opt_str b ''subjectEmail'',
      udt_topic = opt_str b ''topic'', udt_provider = patch_str b ''provider'',
      udt_completedAt = (case map_of b ''completedAt'' of Some JNull \<Rightarrow> Some 0
        | Some (JStr s) \<Rightarrow> Some (sv_date sv s) | _ \<Rightarrow> None),
      udt_validUntil = map_option (date_or_null sv) (patch_str b ''validUntil''),
      udt_evidenceRef = patch_str b ''evidenceRef'',
      udt_evidenceDocumentId = patch_str b ''evidenceDocumentId'', udt_notes = patch_str b ''notes''\<rparr>"

definition is_null :: "(string \<times> json) list \<Rightarrow> string \<Rightarrow> bool" where
  "is_null b k \<longleftrightarrow> map_of b k = Some JNull"

definition null_property :: "string \<Rightarrow> api_error" where
  "null_property k = Plain (''Cannot read properties of null (reading '' @ [CHR 0x27] @ k @ [CHR 0x27] @ '')'')"

definition null_training_member :: "(string \<times> json) list \<Rightarrow> unit wact" where
  "null_training_member b =
     bindA (throwIf (is_null b ''subjectName'') (null_property ''trim'')) (\<lambda>_.
     bindA (throwIf (blank_patch (opt_str b ''subjectName'')) (BadRequest ''subjectName cannot be blank'')) (\<lambda>_.
     bindA (throwIf (is_null b ''subjectEmail'') (null_property ''includes'')) (\<lambda>_.
     bindA (throwIf (case opt_str b ''subjectEmail'' of None \<Rightarrow> False
                     | Some e \<Rightarrow> \<not> includes_char e (CHR ''@''))
       (BadRequest ''subjectEmail must be a valid email'')) (\<lambda>_.
     throwIf (is_null b ''topic'') (null_property ''trim'')))))"

definition DpoTrainingController_update ::
    "services \<Rightarrow> session_principal \<Rightarrow> http_in \<Rightarrow> answer wact" where
  "DpoTrainingController_update sv p r =
     bindA (body_ok sv UpdateTrainingRecordBody r) (\<lambda>_.
     bindA (if is_null (hi_body r) ''subjectName'' \<or> is_null (hi_body r) ''subjectEmail'' \<or> is_null (hi_body r) ''topic''
            then bindA (training_get (param r ''id'') (sp_org p) None) (\<lambda>_. null_training_member (hi_body r))
            else ret ()) (\<lambda>_.
     bindA (training_service_update (param r ''id'') (sp_org p) (training_patch sv (hi_body r))) (\<lambda>x.
     ret (Training x))))"

definition DpoTrainingController_remove ::
    "services \<Rightarrow> session_principal \<Rightarrow> http_in \<Rightarrow> answer wact" where
  "DpoTrainingController_remove sv p r =
     bindA (training_service_remove (param r ''id'') (sp_org p)) (\<lambda>_. ret Unit)"

subsection \<open>Ingestion\<close>

definition IngestionController_enqueue :: "services \<Rightarrow> session_principal \<Rightarrow> http_in \<Rightarrow> answer wact" where
  "IngestionController_enqueue sv p r =
     bindA (body_ok sv EnqueueIngestionBody r) (\<lambda>_.
     bindA (job_enqueue \<lparr>cij_org = sp_org p, cij_kind = str_of (hi_body r) ''kind'',
       cij_payload = orElse (map_of (hi_body r) ''payload'') JNull, cij_createdBy = Some (sp_userId p)\<rparr>) (\<lambda>j.
     ret (Job j)))"

definition IngestionController_list :: "services \<Rightarrow> session_principal \<Rightarrow> http_in \<Rightarrow> answer wact" where
  "IngestionController_list sv p r =
     bindA (job_list (sp_org p) (query r ''status'') (query r ''kind'')) (\<lambda>js. ret (Jobs js))"

definition IngestionController_get :: "services \<Rightarrow> session_principal \<Rightarrow> http_in \<Rightarrow> answer wact" where
  "IngestionController_get sv p r = bindA (job_get (param r ''id'') (sp_org p)) (\<lambda>j. ret (Job j))"

definition IngestionController_claimNext :: "services \<Rightarrow> http_in \<Rightarrow> answer wact" where
  "IngestionController_claimNext sv r =
     bindA (claimNext (orElse (hi_headers r ''x-worker-id'') ''worker-unknown'') (query r ''kind'')) (\<lambda>j.
     ret (Claimed j))"

definition IngestionController_complete :: "services \<Rightarrow> http_in \<Rightarrow> answer wact" where
  "IngestionController_complete sv r =
     bindA (body_ok sv CompleteJobBody r) (\<lambda>_.
     bindA (throwIf (\<not> truthyS (query r ''organizationId''))
       (BadRequest ''organizationId query param required'')) (\<lambda>_.
     bindA (job_complete (param r ''id'') (the (query r ''organizationId''))
       (orElse (map_of (hi_body r) ''result'') JNull)) (\<lambda>j. ret (Job j))))"

definition IngestionController_fail :: "services \<Rightarrow> http_in \<Rightarrow> answer wact" where
  "IngestionController_fail sv r =
     bindA (body_ok sv FailJobBody r) (\<lambda>_.
     bindA (throwIf (\<not> truthyS (query r ''organizationId''))
       (BadRequest ''organizationId query param required'')) (\<lambda>_.
     bindA (job_fail (param r ''id'') (the (query r ''organizationId'')) (str_of (hi_body r) ''errorMessage'')) (\<lambda>j.
     ret (Job j))))"

definition WebhookController_inboundEmail :: "services \<Rightarrow> http_in \<Rightarrow> answer wact" where
  "WebhookController_inboundEmail sv r =
     bindA (body_ok sv WebhookEmailBody r) (\<lambda>_.
     bindA (job_enqueue \<lparr>cij_org = str_of (hi_body r) ''organizationId'', cij_kind = ''email'',
       cij_payload = JObj [(''from'', JStr (str_of (hi_body r) ''from'')),
         (''subject'', JStr (str_of (hi_body r) ''subject'')), (''body'', JStr (str_of (hi_body r) ''body''))],
       cij_createdBy = None\<rparr>) (\<lambda>j. ret (Job j)))"

definition InboundEmailController_receive :: "services \<Rightarrow> http_in \<Rightarrow> answer wact" where
  "InboundEmailController_receive sv r =
     bindA (body_ok sv InboundEmailBody r) (\<lambda>_.
     bindA (email_receive (sv_hmac sv)
       \<lparr>ep_timestamp = str_of (hi_body r) ''timestamp'', ep_token = str_of (hi_body r) ''token'',
        ep_signature = str_of (hi_body r) ''signature'', ep_messageId = str_of (hi_body r) ''messageId'',
        ep_from = str_of (hi_body r) ''from'', ep_to = str_of (hi_body r) ''to'',
        ep_subject = opt_str (hi_body r) ''subject'', ep_bodyPlain = opt_str (hi_body r) ''bodyPlain''\<rparr>
       (orElse (sv_env sv ''EMAIL_INBOUND_SIGNING_KEY'') [])) (\<lambda>x. ret (Email x)))"

definition IngestionProxyController_list ::
    "services \<Rightarrow> session_principal \<Rightarrow> http_in \<Rightarrow> answer wact" where
  "IngestionProxyController_list sv p r =
     (let q = map (\<lambda>(k, v). (k, if k = ''limit'' then (case sv_number sv v of Some n \<Rightarrow> JNum n | None \<Rightarrow> JStr v)
                                else JStr v)) (hi_query r) in
      bindA (validated (sv_validators sv) ListQuery q) (\<lambda>_.
      (case listRecent (sv_fetch sv) \<lparr>px_url = sv_env sv ''INGESTION_SERVICE_URL'',
              px_token = sv_env sv ''INGESTION_TRIGGER_TOKEN''\<rparr> (nat (floor (orElse (opt_num q ''limit'') 20))) of
         Inl e \<Rightarrow> throw e | Inr v \<Rightarrow> ret (Proxied v))))"

definition IngestionProxyController_trigger ::
    "services \<Rightarrow> session_principal \<Rightarrow> http_in \<Rightarrow> answer wact" where
  "IngestionProxyController_trigger sv p r =
     bindA (body_ok sv TriggerBody r) (\<lambda>_.
     (case trigger_run (sv_fetch sv) \<lparr>px_url = sv_env sv ''INGESTION_SERVICE_URL'',
             px_token = sv_env sv ''INGESTION_TRIGGER_TOKEN''\<rparr> (JObj (hi_body r)) of
        Inl e \<Rightarrow> throw e | Inr v \<Rightarrow> ret (Proxied v)))"

definition ingestion_body :: "(string \<times> json) list \<Rightarrow> ingestion_tender" where
  "ingestion_body b =
     (let e = (case map_of b ''enrichment'' of Some (JObj kvs) \<Rightarrow> kvs | _ \<Rightarrow> []) in
      \<lparr>itn_externalId = opt_str b ''externalId'', itn_sourceCode = str_of b ''sourceCode'',
       itn_title = str_of b ''title'', itn_buyerName = opt_str b ''buyerName'',
       itn_sectorCode = opt_str b ''sectorCode'', itn_confidence = orElse (opt_num b ''confidence'') 0,
       itn_category = opt_str e ''category'',
       itn_requirements = (if present e ''requirements'' then
          Some (map (\<lambda>q. \<lparr>ir_category = str_of q ''category'', ir_text = opt_str q ''text'',
                          ir_mandatory = opt_bool q ''mandatory''\<rparr>) (objects_of e ''requirements''))
          else None)\<rparr>)"

definition IngestionPortalController_create :: "services \<Rightarrow> portal_auth \<Rightarrow> http_in \<Rightarrow> answer wact" where
  "IngestionPortalController_create sv a r =
     bindA (body_ok sv IngestionTenderBody r) (\<lambda>_.
     bindA (ingest (pa_org a) (ingestion_body (hi_body r))) (\<lambda>x.
     ret (Ingested (tn_id (ig_tender x)) (cc_id (ig_company x)) (ig_requirementsCreated x))))"

definition IngestionApiKeyController_list ::
    "services \<Rightarrow> session_principal \<Rightarrow> http_in \<Rightarrow> answer wact" where
  "IngestionApiKeyController_list sv p r =
     bindA (key_list (sp_org p)) (\<lambda>rows.
     ret (Keys (map (\<lambda>k. \<lparr>ks_id = ik_id k, ks_name = ik_name k, ks_keyPrefix = ik_keyPrefix k,
       ks_createdBy = ik_createdBy k, ks_createdAt = ik_createdAt k, ks_lastUsedAt = ik_lastUsedAt k,
       ks_revokedAt = ik_revokedAt k\<rparr>) rows)))"

definition IngestionApiKeyController_mint ::
    "services \<Rightarrow> session_principal \<Rightarrow> http_in \<Rightarrow> answer wact" where
  "IngestionApiKeyController_mint sv p r =
     bindA (body_ok sv MintBody r) (\<lambda>_.
     bindA (mint (sv_keyHash sv) (sv_rawKey sv) (sp_org p) (sp_userId p) (str_of (hi_body r) ''name'')) (\<lambda>m.
     ret (Minted (ik_id (mk_key m)) (ik_name (mk_key m)) (ik_keyPrefix (mk_key m))
            (ik_createdAt (mk_key m)) (mk_rawKey m))))"

definition IngestionApiKeyController_revoke ::
    "services \<Rightarrow> session_principal \<Rightarrow> http_in \<Rightarrow> answer wact" where
  "IngestionApiKeyController_revoke sv p r =
     bindA (key_revoke (param r ''id'') (sp_org p)) (\<lambda>k. ret (Revoked (ik_id k) (ik_revokedAt k)))"

subsection \<open>Webhook subscriptions\<close>

definition production :: "services \<Rightarrow> bool" where
  "production sv \<longleftrightarrow> sv_env sv ''NODE_ENV'' = Some ''production''"

definition WebhookSubscriptionController_list ::
    "services \<Rightarrow> session_principal \<Rightarrow> http_in \<Rightarrow> answer wact" where
  "WebhookSubscriptionController_list sv p r = bindA (hook_list (sp_org p)) (\<lambda>hs. ret (Hooks hs))"

definition WebhookSubscriptionController_get ::
    "services \<Rightarrow> session_principal \<Rightarrow> http_in \<Rightarrow> answer wact" where
  "WebhookSubscriptionController_get sv p r =
     bindA (hook_get (param r ''id'') (sp_org p)) (\<lambda>h. ret (Hook h))"

definition WebhookSubscriptionController_create ::
    "services \<Rightarrow> session_principal \<Rightarrow> http_in \<Rightarrow> answer wact" where
  "WebhookSubscriptionController_create sv p r =
     bindA (body_ok sv CreateWebhookBody r) (\<lambda>_.
     bindA (hook_create (sv_parseUrl sv) (production sv) (sv_hookSecret sv) (sp_org p) (sp_userId p)
       \<lparr>wi_url = str_of (hi_body r) ''url'', wi_eventTypes = strings_of (hi_body r) ''eventTypes'',
        wi_active = opt_bool (hi_body r) ''active'', wi_description = opt_str (hi_body r) ''description''\<rparr>)
       (\<lambda>(h, secret). ret (Hook_secret h secret)))"

definition WebhookSubscriptionController_update ::
    "services \<Rightarrow> session_principal \<Rightarrow> http_in \<Rightarrow> answer wact" where
  "WebhookSubscriptionController_update sv p r =
     bindA (body_ok sv UpdateWebhookBody r) (\<lambda>_.
     bindA (hook_update (sv_parseUrl sv) (production sv) (param r ''id'') (sp_org p) (sp_userId p)
       \<lparr>uws_url = opt_str (hi_body r) ''url'',
        uws_eventTypes = (if present (hi_body r) ''eventTypes''
                          then Some (strings_of (hi_body r) ''eventTypes'') else None),
        uws_active = opt_bool (hi_body r) ''active'',
        uws_description = patch_str (hi_body r) ''description'', uws_secret = None\<rparr>) (\<lambda>h. ret (Hook h)))"

definition WebhookSubscriptionController_rotate ::
    "services \<Rightarrow> session_principal \<Rightarrow> http_in \<Rightarrow> answer wact" where
  "WebhookSubscriptionController_rotate sv p r =
     bindA (rotateSecret (sv_hookSecret sv) (param r ''id'') (sp_org p) (sp_userId p))
       (\<lambda>(h, secret). ret (Hook_secret h secret))"

definition WebhookSubscriptionController_remove ::
    "services \<Rightarrow> session_principal \<Rightarrow> http_in \<Rightarrow> answer wact" where
  "WebhookSubscriptionController_remove sv p r =
     bindA (hook_remove (param r ''id'') (sp_org p) (sp_userId p)) (\<lambda>_. ret Unit)"

subsection \<open>Compliance\<close>

definition ComplianceItemController_update ::
    "services \<Rightarrow> session_principal \<Rightarrow> http_in \<Rightarrow> answer wact" where
  "ComplianceItemController_update sv p r =
     bindA (body_ok sv UpdateComplianceItemBody r) (\<lambda>_.
     bindA (updateItem (param r ''id'') (sp_org p)
       \<lparr>uci_owner = opt_str (hi_body r) ''owner'', uci_status = opt_str (hi_body r) ''status'',
        uci_risk = opt_str (hi_body r) ''risk'',
        uci_dueDate = map_option (map_option (sv_date sv)) (patch_str (hi_body r) ''dueDate'')\<rparr>) (\<lambda>i.
     ret (Item i)))"

definition ComplianceItemController_list ::
    "services \<Rightarrow> session_principal \<Rightarrow> http_in \<Rightarrow> answer wact" where
  "ComplianceItemController_list sv p r =
     bindA (links_listForItem (param r ''id'') (sp_org p)) (\<lambda>ls. ret (Links ls))"

definition ComplianceItemController_link ::
    "services \<Rightarrow> session_principal \<Rightarrow> http_in \<Rightarrow> answer wact" where
  "ComplianceItemController_link sv p r =
     bindA (body_ok sv CreateEvidenceLinkBody r) (\<lambda>_.
     bindA (link_evidence (param r ''id'') (str_of (hi_body r) ''documentId'') (sp_org p)
       (opt_str (hi_body r) ''note'')) (\<lambda>l. ret (Link l)))"

definition ComplianceItemController_unlink ::
    "services \<Rightarrow> session_principal \<Rightarrow> http_in \<Rightarrow> answer wact" where
  "ComplianceItemController_unlink sv p r =
     bindA (unlink_evidence (param r ''id'') (param r ''documentId'') (sp_org p)) (\<lambda>b. ret (Flag b))"

definition body_requirements :: "(string \<times> json) list \<Rightarrow> comp_requirement list" where
  "body_requirements b =
     map (\<lambda>q. \<lparr>rq_id = str_of q ''id'', rq_text = str_of q ''text'', rq_category = str_of q ''category'',
              rq_critical = truthy_json (map_of q ''critical'')\<rparr>) (objects_of b ''requirements'')"

text \<open>The stored rows in the shape of a computed matrix; the evidence is not stored.\<close>

definition computed_shape :: "ident \<Rightarrow> compliance_matrix \<Rightarrow> compliance_item list \<Rightarrow> comp_matrix" where
  "computed_shape tender m items =
     \<lparr>mx_tenderId = tender, mx_version = cm_version m, mx_generatedAt = cm_generatedAt m,
      mx_items = map (\<lambda>i. \<lparr>it_requirementId = ci_requirementId i, it_requirementText = ci_requirementText i,
        it_category = ci_category i, it_evidenceDocId = None, it_owner = ci_owner i,
        it_dueDate = map_option iso_date (ci_dueDate i), it_risk = ci_risk i, it_status = ci_status i\<rparr>) items\<rparr>"

definition ComplianceController_generate ::
    "services \<Rightarrow> session_principal \<Rightarrow> http_in \<Rightarrow> answer wact" where
  "ComplianceController_generate sv p r =
     bindA (document_list (sp_org p)) (\<lambda>docs.
     bindA (generateAndPersist (sv_date sv) (param r ''id'') (sp_org p) (body_requirements (hi_body r))
       (map to_evidence docs) None (opt_str (hi_body r) ''dueDate'')) (\<lambda>(m, items).
     let shape = computed_shape (param r ''id'') m items in
     ret (Generated (cm_id m) shape (deriveTasks shape)
       (exportGate shape (strings_of (hi_body r) ''overriddenRequirementIds'')))))"

definition ComplianceController_list ::
    "services \<Rightarrow> session_principal \<Rightarrow> http_in \<Rightarrow> answer wact" where
  "ComplianceController_list sv p r =
     bindA (matrices_listForTender (param r ''id'') (sp_org p)) (\<lambda>ms. ret (Matrices ms))"

definition ComplianceController_getByVersion ::
    "services \<Rightarrow> session_principal \<Rightarrow> http_in \<Rightarrow> answer wact" where
  "ComplianceController_getByVersion sv p r =
     bindA (parse_int_pipe (param r ''version'')) (\<lambda>v.
     bindA (getByVersion (param r ''id'') v (sp_org p)) (\<lambda>(m, items). ret (Matrix m items)))"

definition TenderRequirementController_list ::
    "services \<Rightarrow> session_principal \<Rightarrow> http_in \<Rightarrow> answer wact" where
  "TenderRequirementController_list sv p r =
     bindA (tender_get (param r ''id'') (sp_org p)) (\<lambda>_.
     bindA (requirements_findAllForTender (param r ''id'') (sp_org p)) (\<lambda>qs. ret (Requirements qs)))"

definition TenderRequirementController_createBulk ::
    "services \<Rightarrow> session_principal \<Rightarrow> http_in \<Rightarrow> answer wact" where
  "TenderRequirementController_createBulk sv p r =
     bindA (body_ok sv CreateRequirementsBody r) (\<lambda>_.
     bindA (tender_get (param r ''id'') (sp_org p)) (\<lambda>_.
     bindA (requirements_createMany (map (\<lambda>q.
         \<lparr>ctr_tenderId = param r ''id'', ctr_org = sp_org p, ctr_category = str_of q ''category'',
          ctr_text = str_of q ''text'', ctr_risk = Some (orElse (opt_str q ''risk'') ''medium''),
          ctr_owner = opt_str q ''owner'', ctr_source = Some (orElse (opt_str q ''source'') ''manual'')\<rparr>)
       (objects_of (hi_body r) ''requirements''))) (\<lambda>qs. ret (Requirements qs))))"

definition ExportController_build :: "services \<Rightarrow> session_principal \<Rightarrow> http_in \<Rightarrow> answer wact" where
  "ExportController_build sv p r =
     bindA (export_pack (param r ''id'') (body_requirements (hi_body r)) (opt_str (hi_body r) ''dueDate'')
       (map_option floor (opt_num (hi_body r) ''previousVersion''))
       (strings_of (hi_body r) ''overriddenRequirementIds'') (sp_org p) (sp_userId p)) (\<lambda>(m, arts).
     ret (Pack m arts))"

subsection \<open>Scoring and sectors\<close>

definition body_signals :: "(string \<times> json) list \<Rightarrow> fit_signals" where
  "body_signals b =
     \<lparr>fs_capability = opt_num b ''capability'', fs_days = orElse (opt_num b ''daysToDeadline'') 0,
      fs_evidence = opt_num b ''evidenceReadiness'', fs_risk = str_of b ''riskLevel'',
      fs_sector = opt_str b ''sector''\<rparr>"

definition FitScoringController_compute ::
    "services \<Rightarrow> session_principal \<Rightarrow> http_in \<Rightarrow> answer wact" where
  "FitScoringController_compute sv p r =
     bindA (tender_get (param r ''id'') (sp_org p)) (\<lambda>_. ret (Score (score (body_signals (hi_body r)))))"

definition FitScoringController_override ::
    "services \<Rightarrow> session_principal \<Rightarrow> http_in \<Rightarrow> answer wact" where
  "FitScoringController_override sv p r =
     bindA (tender_get (param r ''id'') (sp_org p)) (\<lambda>_.
     (case override_score (body_signals (hi_body r)) (opt_num (hi_body r) ''overrideScore'')
             (str_of (hi_body r) ''reason'') of
        Inl e \<Rightarrow> throw e | Inr s \<Rightarrow> ret (Score s)))"

definition SectorClassifierController_classify ::
    "services \<Rightarrow> session_principal \<Rightarrow> http_in \<Rightarrow> answer wact" where
  "SectorClassifierController_classify sv p r =
     bindA (body_ok sv ClassifyBody r) (\<lambda>_.
     bindA (classify (sv_classifier sv) (param r ''id'') (sp_org p) (sp_userId p)
       (truthy_json (map_of (hi_body r) ''forceRerun''))) (\<lambda>x. ret (Classified x)))"

definition SectorClassifierController_override ::
    "services \<Rightarrow> session_principal \<Rightarrow> http_in \<Rightarrow> answer wact" where
  "SectorClassifierController_override sv p r =
     bindA (body_ok sv OverrideBody r) (\<lambda>_.
     bindA (override_sector (param r ''id'') (sp_org p) (sp_userId p) (str_of (hi_body r) ''sector'')
       (opt_str (hi_body r) ''category'') (opt_num (hi_body r) ''confidence'')) (\<lambda>t. ret (Tender t)))"

subsection \<open>Billing, sessions, health\<close>

definition BillingController_plans :: "services \<Rightarrow> session_principal \<Rightarrow> http_in \<Rightarrow> answer wact" where
  "BillingController_plans sv p r = ret (Plans (plan_catalog (sv_prices sv)))"

definition BillingController_mySubscription ::
    "services \<Rightarrow> session_principal \<Rightarrow> http_in \<Rightarrow> answer wact" where
  "BillingController_mySubscription sv p r =
     bindA (forOrg (sv_prices sv) (sp_org p)) (\<lambda>(s, pl). ret (Subscription s pl))"

definition BillingController_todayUsage ::
    "services \<Rightarrow> session_principal \<Rightarrow> http_in \<Rightarrow> answer wact" where
  "BillingController_todayUsage sv p r =
     bindA nowA (\<lambda>t. bindA (usage_today (sp_org p) t) (\<lambda>u. ret (Usage u)))"

definition BillingController_stripeReceive :: "services \<Rightarrow> http_in \<Rightarrow> answer wact" where
  "BillingController_stripeReceive sv r =
     bindA (stripe_receive (sv_hmac sv) (sv_int sv) (sv_parseJson sv) (sv_prices sv)
       (orElse (hi_raw r) (stringify (JObj (hi_body r)))) (orElse (hi_headers r ''stripe-signature'') [])
       (orElse (sv_env sv ''STRIPE_WEBHOOK_SECRET'') [])) (\<lambda>x. ret (Stripe x))"

definition AuthController_login :: "services \<Rightarrow> http_in \<Rightarrow> answer wact" where
  "AuthController_login sv r =
     bindA (body_ok sv LoginDto r) (\<lambda>_.
     bindA (login_endpoint (sv_compare sv) (sv_sign sv) (sv_env sv ''NODE_ENV'')
       (str_of (hi_body r) ''email'') (str_of (hi_body r) ''password'')) (\<lambda>(c, u).
     ret (Session_cookie c (Some u))))"

text \<open>No guard runs before the logout, so the request carries no principal.\<close>

definition AuthController_logout :: "services \<Rightarrow> http_in \<Rightarrow> answer wact" where
  "AuthController_logout sv r =
     bindA (logout_endpoint (sv_env sv ''NODE_ENV'') None) (\<lambda>c. ret (Session_cookie c None))"

definition AuthController_me :: "services \<Rightarrow> session_principal \<Rightarrow> http_in \<Rightarrow> answer wact" where
  "AuthController_me sv p r = bindA (me_endpoint (Some (sp_userId p, sp_org p))) (\<lambda>u. ret (Me u))"

definition HealthController_check :: "services \<Rightarrow> http_in \<Rightarrow> answer wact" where
  "HealthController_check sv r = ret (Text_fields [(''status'', ''ok''), (''service'', ''bidready-api'')])"

end
