(* ===== verification/Routes.thy ===== *)
theory Routes
  imports Controllers
begin

text \<open>
  The HTTP interface: one table of routes per controller, with the guards, the roles, the
  scheduler or worker token, the audit metadata and the status code its decorators give each
  handler; how a request finds its route (express, first match in registration order); and how
  the guards, the audit interceptor, the handler and the exception filter act on it one after the
  other. The order of the controllers is that of the imports of \<^verbatim>\<open>app.module.ts\<close>. A path is
  the list of its decoded segments. The rate limiter, which runs before every guard, is left out.
\<close>

subsection \<open>Routes\<close>

datatype seg = Lit string | Par string

datatype guard = Jwt_guard | Roles_guard | Shared_token_guard | Scheduler_guard | Ingestion_guard

text \<open>What the guards left on the request: nothing, \<^verbatim>\<open>req.user\<close> or \<^verbatim>\<open>req.ingestionAuth\<close>.\<close>

datatype caller = Nobody | Signed_in session_principal | Key_holder portal_auth

record route =
  rt_verb :: string
  rt_path :: "seg list"
  rt_guards :: "guard list"
  rt_roles :: "user_role list option"
  rt_shared :: "string option"
  rt_audit :: "audit_meta option"
  rt_code :: int
  rt_name :: string
  rt_run :: "services \<Rightarrow> caller \<Rightarrow> http_in \<Rightarrow> answer wact"

text \<open>A handler that needs the principal fails on the missing property without one.\<close>

definition missing_property :: "string \<Rightarrow> api_error" where
  "missing_property k =
     Plain (''Cannot read properties of undefined (reading '' @ [CHR 0x27] @ k @ [CHR 0x27] @ '')'')"

definition with_session ::
    "(services \<Rightarrow> session_principal \<Rightarrow> http_in \<Rightarrow> answer wact) \<Rightarrow>
     services \<Rightarrow> caller \<Rightarrow> http_in \<Rightarrow> answer wact" where
  "with_session h sv c r =
     (case c of Signed_in p \<Rightarrow> h sv p r | _ \<Rightarrow> throw (missing_property ''organizationId''))"

definition without_session ::
    "(services \<Rightarrow> http_in \<Rightarrow> answer wact) \<Rightarrow> services \<Rightarrow> caller \<Rightarrow> http_in \<Rightarrow> answer wact" where
  "without_session h sv c r = h sv r"

definition with_key ::
    "(services \<Rightarrow> portal_auth \<Rightarrow> http_in \<Rightarrow> answer wact) \<Rightarrow>
     services \<Rightarrow> caller \<Rightarrow> http_in \<Rightarrow> answer wact" where
  "with_key h sv c r =
     (case c of Key_holder a \<Rightarrow> h sv a r | _ \<Rightarrow> throw (missing_property ''organizationId''))"

text \<open>\<^verbatim>\<open>health/health.controller.ts\<close>\<close>

definition health_routes :: "route list" where
  "health_routes =
     [\<lparr>rt_verb = ''GET'', rt_path = [Lit ''health''],
        rt_guards = [], rt_roles = None,
        rt_shared = None, rt_audit = None,
        rt_code = 200, rt_name = ''HealthController.check'', rt_run = without_session HealthController_check\<rparr>]"

text \<open>\<^verbatim>\<open>auth/auth.controller.ts\<close>\<close>

definition auth_routes :: "route list" where
  "auth_routes =
     [\<lparr>rt_verb = ''POST'', rt_path = [Lit ''auth'', Lit ''login''],
        rt_guards = [], rt_roles = None,
        rt_shared = None, rt_audit = None,
        rt_code = 200, rt_name = ''AuthController.login'', rt_run = without_session AuthController_login\<rparr>,
      \<lparr>rt_verb = ''POST'', rt_path = [Lit ''auth'', Lit ''logout''],
        rt_guards = [], rt_roles = None,
        rt_shared = None, rt_audit = None,
        rt_code = 204, rt_name = ''AuthController.logout'', rt_run = without_session AuthController_logout\<rparr>,
      \<lparr>rt_verb = ''GET'', rt_path = [Lit ''auth'', Lit ''me''],
        rt_guards = [Jwt_guard], rt_roles = None,
        rt_shared = None, rt_audit = None,
        rt_code = 200, rt_name = ''AuthController.me'', rt_run = with_session AuthController_me\<rparr>]"

text \<open>\<^verbatim>\<open>audit/audit.controller.ts\<close>\<close>

definition audit_routes :: "route list" where
  "audit_routes =
     [\<lparr>rt_verb = ''GET'', rt_path = [Lit ''audit-events''],
        rt_guards = [Jwt_guard, Roles_guard], rt_roles = Some [Owner],
        rt_shared = None, rt_audit = None,
        rt_code = 200, rt_name = ''AuditController.recent'', rt_run = with_session AuditController_recent\<rparr>]"

text \<open>\<^verbatim>\<open>client-company/client-company.controller.ts\<close>\<close>

definition clientCompany_routes :: "route list" where
  "clientCompany_routes =
     [\<lparr>rt_verb = ''GET'', rt_path = [Lit ''client-companies''],
        rt_guards = [Jwt_guard], rt_roles = None,
        rt_shared = None, rt_audit = None,
        rt_code = 200, rt_name = ''ClientCompanyController.list'', rt_run = with_session ClientCompanyController_list\<rparr>,
      \<lparr>rt_verb = ''GET'', rt_path = [Lit ''client-companies'', Par ''id''],
        rt_guards = [Jwt_guard], rt_roles = None,
        rt_shared = None, rt_audit = None,
        rt_code = 200, rt_name = ''ClientCompanyController.get'', rt_run = with_session ClientCompanyController_get\<rparr>,
      \<lparr>rt_verb = ''POST'', rt_path = [Lit ''client-companies''],
        rt_guards = [Jwt_guard], rt_roles = None,
        rt_shared = None, rt_audit = None,
        rt_code = 201, rt_name = ''ClientCompanyController.create'', rt_run = with_session ClientCompanyController_create\<rparr>,
      \<lparr>rt_verb = ''PATCH'', rt_path = [Lit ''client-companies'', Par ''id''],
        rt_guards = [Jwt_guard], rt_roles = None,
        rt_shared = None, rt_audit = None,
        rt_code = 200, rt_name = ''ClientCompanyController.update'', rt_run = with_session ClientCompanyController_update\<rparr>,
      \<lparr>rt_verb = ''DELETE'', rt_path = [Lit ''client-companies'', Par ''id''],
        rt_guards = [Jwt_guard], rt_roles = None,
        rt_shared = None, rt_audit = None,
        rt_code = 200, rt_name = ''ClientCompanyController.remove'', rt_run = with_session ClientCompanyController_remove\<rparr>]"

text \<open>\<^verbatim>\<open>tender/tender.controller.ts\<close>\<close>

definition tender_routes :: "route list" where
  "tender_routes =
     [\<lparr>rt_verb = ''POST'', rt_path = [Lit ''tenders''],
        rt_guards = [Jwt_guard], rt_roles = None,
        rt_shared = None, rt_audit = None,
        rt_code = 201, rt_name = ''TenderController.intake'', rt_run = with_session TenderController_intake\<rparr>,
      \<lparr>rt_verb = ''GET'', rt_path = [Lit ''tenders''],
        rt_guards = [Jwt_guard], rt_roles = None,
        rt_shared = None, rt_audit = None,
        rt_code = 200, rt_name = ''TenderController.list'', rt_run = with_session TenderController_list\<rparr>,
      \<lparr>rt_verb = ''GET'', rt_path = [Lit ''tenders'', Par ''id''],
        rt_guards = [Jwt_guard], rt_roles = None,
        rt_shared = None, rt_audit = None,
        rt_code = 200, rt_name = ''TenderController.get'', rt_run = with_session TenderController_get\<rparr>,
      \<lparr>rt_verb = ''PATCH'', rt_path = [Lit ''tenders'', Par ''id'', Lit ''status''],
        rt_guards = [Jwt_guard], rt_roles = None,
        rt_shared = None, rt_audit = Some \<lparr>am_action = ''tender.update_status'', am_entityType = ''Tender'',
        am_entityIdFrom = Some ''param'', am_entityIdKey = Some ''id'',
        am_detailsFrom = Some [''status'']\<rparr>,
        rt_code = 200, rt_name = ''TenderController.updateStatus'', rt_run = with_session TenderController_updateStatus\<rparr>,
      \<lparr>rt_verb = ''DELETE'', rt_path = [Lit ''tenders'', Par ''id''],
        rt_guards = [Jwt_guard], rt_roles = None,
        rt_shared = None, rt_audit = Some \<lparr>am_action = ''tender.delete'', am_entityType = ''Tender'',
        am_entityIdFrom = Some ''param'', am_entityIdKey = Some ''id'',
        am_detailsFrom = None\<rparr>,
        rt_code = 200, rt_name = ''TenderController.remove'', rt_run = with_session TenderController_remove\<rparr>]"

text \<open>\<^verbatim>\<open>document-vault/document-vault.controller.ts\<close>\<close>

definition documentVault_routes :: "route list" where
  "documentVault_routes =
     [\<lparr>rt_verb = ''POST'', rt_path = [Lit ''documents''],
        rt_guards = [Jwt_guard], rt_roles = None,
        rt_shared = None, rt_audit = None,
        rt_code = 201, rt_name = ''DocumentVaultController.register'', rt_run = with_session DocumentVaultController_register\<rparr>,
      \<lparr>rt_verb = ''GET'', rt_path = [Lit ''documents''],
        rt_guards = [Jwt_guard], rt_roles = None,
        rt_shared = None, rt_audit = None,
        rt_code = 200, rt_name = ''DocumentVaultController.list'', rt_run = with_session DocumentVaultController_list\<rparr>,
      \<lparr>rt_verb = ''GET'', rt_path = [Lit ''documents'', Lit ''expiring''],
        rt_guards = [Jwt_guard], rt_roles = None,
        rt_shared = None, rt_audit = None,
        rt_code = 200, rt_name = ''DocumentVaultController.expiring'', rt_run = with_session DocumentVaultController_expiring\<rparr>,
      \<lparr>rt_verb = ''GET'', rt_path = [Lit ''documents'', Par ''id''],
        rt_guards = [Jwt_guard], rt_roles = None,
        rt_shared = None, rt_audit = None,
        rt_code = 200, rt_name = ''DocumentVaultController.get'', rt_run = with_session DocumentVaultController_get\<rparr>,
      \<lparr>rt_verb = ''GET'', rt_path = [Lit ''documents'', Par ''id'', Lit ''evidence-links''],
        rt_guards = [Jwt_guard], rt_roles = None,
        rt_shared = None, rt_audit = None,
        rt_code = 200, rt_name = ''DocumentVaultController.evidenceLinks'', rt_run = with_session DocumentVaultController_evidenceLinks\<rparr>,
      \<lparr>rt_verb = ''PATCH'', rt_path = [Lit ''documents'', Par ''id'', Lit ''state''],
        rt_guards = [Jwt_guard], rt_roles = None,
        rt_shared = None, rt_audit = Some \<lparr>am_action = ''document.set_state'', am_entityType = ''ClientDocument'',
        am_entityIdFrom = Some ''param'', am_entityIdKey = Some ''id'',
        am_detailsFrom = Some [''state'']\<rparr>,
        rt_code = 200, rt_name = ''DocumentVaultController.setState'', rt_run = with_session DocumentVaultController_setState\<rparr>]"

text \<open>\<^verbatim>\<open>document-vault/document-upload.controller.ts\<close>\<close>

definition documentUpload_routes :: "route list" where
  "documentUpload_routes =
     [\<lparr>rt_verb = ''POST'', rt_path = [Lit ''documents'', Lit ''upload''],
        rt_guards = [Jwt_guard], rt_roles = None,
        rt_shared = None, rt_audit = Some \<lparr>am_action = ''document.upload'', am_entityType = ''ClientDocument'',
        am_entityIdFrom = Some ''response'', am_entityIdKey = Some ''id'',
        am_detailsFrom = Some [''clientCompanyId'', ''documentType'', ''sensitivity'']\<rparr>,
        rt_code = 201, rt_name = ''DocumentUploadController.upload'', rt_run = with_session DocumentUploadController_upload\<rparr>,
      \<lparr>rt_verb = ''GET'', rt_path = [Lit ''documents'', Par ''id'', Lit ''download''],
        rt_guards = [Jwt_guard], rt_roles = None,
        rt_shared = None, rt_audit = None,
        rt_code = 200, rt_name = ''DocumentUploadController.download'', rt_run = with_session DocumentUploadController_download\<rparr>]"

text \<open>\<^verbatim>\<open>fit-scoring/fit-scoring.controller.ts\<close>\<close>

definition fitScoring_routes :: "route list" where
  "fitScoring_routes =
     [\<lparr>rt_verb = ''POST'', rt_path = [Lit ''tenders'', Par ''id'', Lit ''fit-score''],
        rt_guards = [Jwt_guard], rt_roles = None,
        rt_shared = None, rt_audit = None,
        rt_code = 201, rt_name = ''FitScoringController.compute'', rt_run = with_session FitScoringController_compute\<rparr>,
      \<lparr>rt_verb = ''POST'', rt_path = [Lit ''tenders'', Par ''id'', Lit ''fit-score'', Lit ''override''],
        rt_guards = [Jwt_guard], rt_roles = None,
        rt_shared = None, rt_audit = None,
        rt_code = 201, rt_name = ''FitScoringController.override'', rt_run = with_session FitScoringController_override\<rparr>]"

text \<open>\<^verbatim>\<open>compliance/compliance.controller.ts\<close>\<close>

definition compliance_routes :: "route list" where
  "compliance_routes =
     [\<lparr>rt_verb = ''POST'', rt_path = [Lit ''tenders'', Par ''id'', Lit ''compliance-matrices''],
        rt_guards = [Jwt_guard], rt_roles = None,
        rt_shared = None, rt_audit = Some \<lparr>am_action = ''compliance_matrix.generate'', am_entityType = ''Tender'',
        am_entityIdFrom = Some ''param'', am_entityIdKey = Some ''id'',
        am_detailsFrom = Some [''overriddenRequirementIds'']\<rparr>,
        rt_code = 201, rt_name = ''ComplianceController.generate'', rt_run = with_session ComplianceController_generate\<rparr>,
      \<lparr>rt_verb = ''GET'', rt_path = [Lit ''tenders'', Par ''id'', Lit ''compliance-matrices''],
        rt_guards = [Jwt_guard], rt_roles = None,
        rt_shared = None, rt_audit = None,
        rt_code = 200, rt_name = ''ComplianceController.list'', rt_run = with_session ComplianceController_list\<rparr>,
      \<lparr>rt_verb = ''GET'', rt_path = [Lit ''tenders'', Par ''id'', Lit ''compliance-matrices'', Par ''version''],
        rt_guards = [Jwt_guard], rt_roles = None,
        rt_shared = None, rt_audit = None,
        rt_code = 200, rt_name = ''ComplianceController.getByVersion'', rt_run = with_session ComplianceController_getByVersion\<rparr>]"

text \<open>\<^verbatim>\<open>compliance/compliance-item.controller.ts\<close>\<close>

definition complianceItem_routes :: "route list" where
  "complianceItem_routes =
     [\<lparr>rt_verb = ''PATCH'', rt_path = [Lit ''compliance-items'', Par ''id''],
        rt_guards = [Jwt_guard], rt_roles = None,
        rt_shared = None, rt_audit = Some \<lparr>am_action = ''compliance_item.update'', am_entityType = ''ComplianceItem'',
        am_entityIdFrom = Some ''param'', am_entityIdKey = Some ''id'',
        am_detailsFrom = Some [''status'', ''owner'', ''risk'', ''dueDate'']\<rparr>,
        rt_code = 200, rt_name = ''ComplianceItemController.update'', rt_run = with_session ComplianceItemController_update\<rparr>,
      \<lparr>rt_verb = ''GET'', rt_path = [Lit ''compliance-items'', Par ''id'', Lit ''evidence-links''],
        rt_guards = [Jwt_guard], rt_roles = None,
        rt_shared = None, rt_audit = None,
        rt_code = 200, rt_name = ''ComplianceItemController.list'', rt_run = with_session ComplianceItemController_list\<rparr>,
      \<lparr>rt_verb = ''POST'', rt_path = [Lit ''compliance-items'', Par ''id'', Lit ''evidence-links''],
        rt_guards = [Jwt_guard], rt_roles = None,
        rt_shared = None, rt_audit = Some \<lparr>am_action = ''evidence_link.create'', am_entityType = ''ComplianceItem'',
        am_entityIdFrom = Some ''param'', am_entityIdKey = Some ''id'',
        am_detailsFrom = Some [''documentId'']\<rparr>,
        rt_code = 201, rt_name = ''ComplianceItemController.link'', rt_run = with_session ComplianceItemController_link\<rparr>,
      \<lparr>rt_verb = ''DELETE'', rt_path = [Lit ''compliance-items'', Par ''id'', Lit ''evidence-links'', Par ''documentId''],
        rt_guards = [Jwt_guard], rt_roles = None,
        rt_shared = None, rt_audit = Some \<lparr>am_action = ''evidence_link.delete'', am_entityType = ''ComplianceItem'',
        am_entityIdFrom = Some ''param'', am_entityIdKey = Some ''id'',
        am_detailsFrom = None\<rparr>,
        rt_code = 200, rt_name = ''ComplianceItemController.unlink'', rt_run = with_session ComplianceItemController_unlink\<rparr>]"

text \<open>\<^verbatim>\<open>compliance/tender-requirement.controller.ts\<close>\<close>

definition tenderRequirement_routes :: "route list" where
  "tenderRequirement_routes =
     [\<lparr>rt_verb = ''GET'', rt_path = [Lit ''tenders'', Par ''id'', Lit ''requirements''],
        rt_guards = [Jwt_guard], rt_roles = None,
        rt_shared = None, rt_audit = None,
        rt_code = 200, rt_name = ''TenderRequirementController.list'', rt_run = with_session TenderRequirementController_list\<rparr>,
      \<lparr>rt_verb = ''POST'', rt_path = [Lit ''tenders'', Par ''id'', Lit ''requirements''],
        rt_guards = [Jwt_guard], rt_roles = None,
        rt_shared = None, rt_audit = Some \<lparr>am_action = ''tender_requirement.create_bulk'', am_entityType = ''Tender'',
        am_entityIdFrom = Some ''param'', am_entityIdKey = Some ''id'',
        am_detailsFrom = None\<rparr>,
        rt_code = 201, rt_name = ''TenderRequirementController.createBulk'', rt_run = with_session TenderRequirementController_createBulk\<rparr>]"

text \<open>\<^verbatim>\<open>export/export.controller.ts\<close>\<close>

definition export_routes :: "route list" where
  "export_routes =
     [\<lparr>rt_verb = ''POST'', rt_path = [Lit ''tenders'', Par ''id'', Lit ''submission-pack''],
        rt_guards = [Jwt_guard], rt_roles = None,
        rt_shared = None, rt_audit = None,
        rt_code = 201, rt_name = ''ExportController.build'', rt_run = with_session ExportController_build\<rparr>]"

text \<open>\<^verbatim>\<open>pdpl/pdpl.controller.ts\<close>\<close>

definition pdpl_routes :: "route list" where
  "pdpl_routes =
     [\<lparr>rt_verb = ''GET'', rt_path = [Lit ''pdpl'', Lit ''processing-inventory''],
        rt_guards = [Jwt_guard, Roles_guard], rt_roles = Some [Owner, DocController],
        rt_shared = None, rt_audit = None,
        rt_code = 200, rt_name = ''PdplController.inventory'', rt_run = with_session PdplController_inventory\<rparr>,
      \<lparr>rt_verb = ''GET'', rt_path = [Lit ''pdpl'', Lit ''residency''],
        rt_guards = [Jwt_guard, Roles_guard], rt_roles = Some [Owner, DocController],
        rt_shared = None, rt_audit = None,
        rt_code = 200, rt_name = ''PdplController.residency'', rt_run = with_session PdplController_residency\<rparr>]"

text \<open>\<^verbatim>\<open>pdpl/data-subject.controller.ts\<close>\<close>

definition dataSubject_routes :: "route list" where
  "dataSubject_routes =
     [\<lparr>rt_verb = ''POST'', rt_path = [Lit ''data-subject-requests''],
        rt_guards = [Jwt_guard, Roles_guard], rt_roles = None,
        rt_shared = None, rt_audit = None,
        rt_code = 201, rt_name = ''DataSubjectController.create'', rt_run = with_session DataSubjectController_create\<rparr>,
      \<lparr>rt_verb = ''GET'', rt_path = [Lit ''data-subject-requests''],
        rt_guards = [Jwt_guard, Roles_guard], rt_roles = None,
        rt_shared = None, rt_audit = None,
        rt_code = 200, rt_name = ''DataSubjectController.list'', rt_run = with_session DataSubjectController_list\<rparr>,
      \<lparr>rt_verb = ''GET'', rt_path = [Lit ''data-subject-requests'', Par ''id''],
        rt_guards = [Jwt_guard, Roles_guard], rt_roles = None,
        rt_shared = None, rt_audit = None,
        rt_code = 200, rt_name = ''DataSubjectController.get'', rt_run = with_session DataSubjectController_get\<rparr>,
      \<lparr>rt_verb = ''POST'', rt_path = [Lit ''data-subject-requests'', Par ''id'', Lit ''approve''],
        rt_guards = [Jwt_guard, Roles_guard], rt_roles = Some [Owner],
        rt_shared = None, rt_audit = None,
        rt_code = 201, rt_name = ''DataSubjectController.approve'', rt_run = with_session DataSubjectController_approve\<rparr>,
      \<lparr>rt_verb = ''POST'', rt_path = [Lit ''data-subject-requests'', Par ''id'', Lit ''deny''],
        rt_guards = [Jwt_guard, Roles_guard], rt_roles = Some [Owner],
        rt_shared = None, rt_audit = None,
        rt_code = 201, rt_name = ''DataSubjectController.deny'', rt_run = with_session DataSubjectController_deny\<rparr>,
      \<lparr>rt_verb = ''POST'', rt_path = [Lit ''data-subject-requests'', Par ''id'', Lit ''execute''],
        rt_guards = [Jwt_guard, Roles_guard], rt_roles = Some [Owner],
        rt_shared = None, rt_audit = None,
        rt_code = 201, rt_name = ''DataSubjectController.execute'', rt_run = with_session DataSubjectController_execute\<rparr>]"

text \<open>\<^verbatim>\<open>pdpl/consent-ledger.controller.ts\<close>\<close>

definition consentLedger_routes :: "route list" where
  "consentLedger_routes =
     [\<lparr>rt_verb = ''POST'', rt_path = [Lit ''consent-events''],
        rt_guards = [Jwt_guard], rt_roles = None,
        rt_shared = None, rt_audit = None,
        rt_code = 201, rt_name = ''ConsentLedgerController.create'', rt_run = with_session ConsentLedgerController_create\<rparr>,
      \<lparr>rt_verb = ''GET'', rt_path = [Lit ''consent-events''],
        rt_guards = [Jwt_guard], rt_roles = None,
        rt_shared = None, rt_audit = None,
        rt_code = 200, rt_name = ''ConsentLedgerController.list'', rt_run = with_session ConsentLedgerController_list\<rparr>,
      \<lparr>rt_verb = ''GET'', rt_path = [Lit ''consent-events'', Lit ''check''],
        rt_guards = [Jwt_guard], rt_roles = None,
        rt_shared = None, rt_audit = None,
        rt_code = 200, rt_name = ''ConsentLedgerController.check'', rt_run = with_session ConsentLedgerController_check\<rparr>]"

text \<open>\<^verbatim>\<open>pdpl/tender-access.controller.ts\<close>\<close>

definition tenderAccess_routes :: "route list" where
  "tenderAccess_routes =
     [\<lparr>rt_verb = ''GET'', rt_path = [Lit ''tenders'', Par ''tenderId'', Lit ''access''],
        rt_guards = [Jwt_guard, Roles_guard], rt_roles = None,
        rt_shared = None, rt_audit = None,
        rt_code = 200, rt_name = ''TenderAccessController.list'', rt_run = with_session TenderAccessController_list\<rparr>,
      \<lparr>rt_verb = ''POST'', rt_path = [Lit ''tenders'', Par ''tenderId'', Lit ''access''],
        rt_guards = [Jwt_guard, Roles_guard], rt_roles = Some [Owner],
        rt_shared = None, rt_audit = None,
        rt_code = 201, rt_name = ''TenderAccessController.grant'', rt_run = with_session TenderAccessController_grant\<rparr>,
      \<lparr>rt_verb = ''DELETE'', rt_path = [Lit ''tenders'', Par ''tenderId'', Lit ''access'', Par ''userId''],
        rt_guards = [Jwt_guard, Roles_guard], rt_roles = Some [Owner],
        rt_shared = None, rt_audit = None,
        rt_code = 200, rt_name = ''TenderAccessController.revoke'', rt_run = with_session TenderAccessController_revoke\<rparr>]"

text \<open>\<^verbatim>\<open>pdpl/retention-action.controller.ts\<close>\<close>

definition retentionAction_routes :: "route list" where
  "retentionAction_routes =
     [\<lparr>rt_verb = ''GET'', rt_path = [Lit ''retention-actions''],
        rt_guards = [Jwt_guard, Roles_guard], rt_roles = None,
        rt_shared = None, rt_audit = None,
        rt_code = 200, rt_name = ''RetentionActionController.list'', rt_run = with_session RetentionActionController_list\<rparr>,
      \<lparr>rt_verb = ''GET'', rt_path = [Lit ''retention-actions'', Par ''id''],
        rt_guards = [Jwt_guard, Roles_guard], rt_roles = None,
        rt_shared = None, rt_audit = None,
        rt_code = 200, rt_name = ''RetentionActionController.get'', rt_run = with_session RetentionActionController_get\<rparr>,
      \<lparr>rt_verb = ''POST'', rt_path = [Lit ''retention-actions''],
        rt_guards = [Jwt_guard, Roles_guard], rt_roles = None,
        rt_shared = None, rt_audit = Some \<lparr>am_action = ''retention.request'', am_entityType = ''RetentionAction'',
        am_entityIdFrom = Some ''response'', am_entityIdKey = Some ''id'',
        am_detailsFrom = Some [''documentId'', ''action'']\<rparr>,
        rt_code = 201, rt_name = ''RetentionActionController.request'', rt_run = with_session RetentionActionController_request\<rparr>,
      \<lparr>rt_verb = ''POST'', rt_path = [Lit ''retention-actions'', Par ''id'', Lit ''approve''],
        rt_guards = [Jwt_guard, Roles_guard], rt_roles = Some [Owner, DocController],
        rt_shared = None, rt_audit = None,
        rt_code = 201, rt_name = ''RetentionActionController.approve'', rt_run = with_session RetentionActionController_approve\<rparr>,
      \<lparr>rt_verb = ''POST'', rt_path = [Lit ''retention-actions'', Par ''id'', Lit ''deny''],
        rt_guards = [Jwt_guard, Roles_guard], rt_roles = Some [Owner, DocController],
        rt_shared = None, rt_audit = None,
        rt_code = 201, rt_name = ''RetentionActionController.deny'', rt_run = with_session RetentionActionController_deny\<rparr>,
      \<lparr>rt_verb = ''POST'', rt_path = [Lit ''retention-actions'', Lit ''sweep''],
        rt_guards = [Jwt_guard, Roles_guard], rt_roles = Some [Owner],
        rt_shared = None, rt_audit = Some \<lparr>am_action = ''retention.sweep.manual'', am_entityType = ''Organization'',
        am_entityIdFrom = Some ''principal'', am_entityIdKey = None,
        am_detailsFrom = None\<rparr>,
        rt_code = 201, rt_name = ''RetentionActionController.sweep'', rt_run = with_session RetentionActionController_sweep\<rparr>]"

text \<open>\<^verbatim>\<open>pdpl/retention-action.controller.ts\<close>\<close>

definition retentionScheduled_routes :: "route list" where
  "retentionScheduled_routes =
     [\<lparr>rt_verb = ''POST'', rt_path = [Lit ''retention-actions'', Lit ''sweep-scheduled''],
        rt_guards = [Scheduler_guard], rt_roles = None,
        rt_shared = None, rt_audit = None,
        rt_code = 201, rt_name = ''RetentionScheduledController.sweepScheduled'', rt_run = without_session RetentionScheduledController_sweepScheduled\<rparr>]"

text \<open>\<^verbatim>\<open>pdpl/dpo-contact.controller.ts\<close>\<close>

definition dpoContact_routes :: "route list" where
  "dpoContact_routes =
     [\<lparr>rt_verb = ''GET'', rt_path = [Lit ''dpo-contact''],
        rt_guards = [Jwt_guard, Roles_guard], rt_roles = None,
        rt_shared = None, rt_audit = None,
        rt_code = 200, rt_name = ''DpoContactController.get'', rt_run = with_session DpoContactController_get\<rparr>,
      \<lparr>rt_verb = ''PUT'', rt_path = [Lit ''dpo-contact''],
        rt_guards = [Jwt_guard, Roles_guard], rt_roles = Some [Owner],
        rt_shared = None, rt_audit = Some \<lparr>am_action = ''dpo_contact.upsert'', am_entityType = ''DpoContact'',
        am_entityIdFrom = Some ''response'', am_entityIdKey = Some ''id'',
        am_detailsFrom = Some [''name'', ''email'', ''authorityEmail'', ''retentionPolicyDays'']\<rparr>,
        rt_code = 200, rt_name = ''DpoContactController.upsert'', rt_run = with_session DpoContactController_upsert\<rparr>]"

text \<open>\<^verbatim>\<open>pdpl/dpo-training.controller.ts\<close>\<close>

definition dpoTraining_routes :: "route list" where
  "dpoTraining_routes =
     [\<lparr>rt_verb = ''GET'', rt_path = [Lit ''training-records''],
        rt_guards = [Jwt_guard, Roles_guard], rt_roles = Some [Owner],
        rt_shared = None, rt_audit = None,
        rt_code = 200, rt_name = ''DpoTrainingController.list'', rt_run = with_session DpoTrainingController_list\<rparr>,
      \<lparr>rt_verb = ''GET'', rt_path = [Lit ''training-records'', Lit ''summary''],
        rt_guards = [Jwt_guard, Roles_guard], rt_roles = Some [Owner],
        rt_shared = None, rt_audit = None,
        rt_code = 200, rt_name = ''DpoTrainingController.summary'', rt_run = with_session DpoTrainingController_summary\<rparr>,
      \<lparr>rt_verb = ''GET'', rt_path = [Lit ''training-records'', Par ''id''],
        rt_guards = [Jwt_guard, Roles_guard], rt_roles = Some [Owner],
        rt_shared = None, rt_audit = None,
        rt_code = 200, rt_name = ''DpoTrainingController.get'', rt_run = with_session DpoTrainingController_get\<rparr>,
      \<lparr>rt_verb = ''POST'', rt_path = [Lit ''training-records''],
        rt_guards = [Jwt_guard, Roles_guard], rt_roles = Some [Owner],
        rt_shared = None, rt_audit = Some \<lparr>am_action = ''dpo_training.create'', am_entityType = ''DpoTrainingRecord'',
        am_entityIdFrom = Some ''response'', am_entityIdKey = Some ''id'',
        am_detailsFrom = Some [''subjectEmail'', ''topic'', ''provider'']\<rparr>,
        rt_code = 201, rt_name = ''DpoTrainingController.create'', rt_run = with_session DpoTrainingController_create\<rparr>,
      \<lparr>rt_verb = ''PATCH'', rt_path = [Lit ''training-records'', Par ''id''],
        rt_guards = [Jwt_guard, Roles_guard], rt_roles = Some [Owner],
        rt_shared = None, rt_audit = Some \<lparr>am_action = ''dpo_training.update'', am_entityType = ''DpoTrainingRecord'',
        am_entityIdFrom = Some ''param'', am_entityIdKey = Some ''id'',
        am_detailsFrom = Some [''topic'', ''validUntil'', ''provider'']\<rparr>,
        rt_code = 200, rt_name = ''DpoTrainingController.update'', rt_run = with_session DpoTrainingController_update\<rparr>,
      \<lparr>rt_verb = ''DELETE'', rt_path = [Lit ''training-records'', Par ''id''],
        rt_guards = [Jwt_guard, Roles_guard], rt_roles = Some [Owner],
        rt_shared = None, rt_audit = Some \<lparr>am_action = ''dpo_training.delete'', am_entityType = ''DpoTrainingRecord'',
        am_entityIdFrom = Some ''param'', am_entityIdKey = Some ''id'',
        am_detailsFrom = None\<rparr>,
        rt_code = 204, rt_name = ''DpoTrainingController.remove'', rt_run = with_session DpoTrainingController_remove\<rparr>]"

text \<open>\<^verbatim>\<open>pdpl/authority-notification.controller.ts\<close>\<close>

definition authorityNotification_routes :: "route list" where
  "authorityNotification_routes =
     [\<lparr>rt_verb = ''POST'', rt_path = [Lit ''authority-notifications'', Lit ''incidents'', Par ''id''],
        rt_guards = [Jwt_guard, Roles_guard], rt_roles = Some [Owner],
        rt_shared = None, rt_audit = Some \<lparr>am_action = ''authority_notification.manual_trigger'', am_entityType = ''Incident'',
        am_entityIdFrom = Some ''param'', am_entityIdKey = Some ''id'',
        am_detailsFrom = Some [''delivered'', ''driver'']\<rparr>,
        rt_code = 201, rt_name = ''AuthorityNotificationController.trigger'', rt_run = with_session AuthorityNotificationController_trigger\<rparr>]"

text \<open>\<^verbatim>\<open>ingestion/ingestion.controller.ts\<close>\<close>

definition ingestion_routes :: "route list" where
  "ingestion_routes =
     [\<lparr>rt_verb = ''POST'', rt_path = [Lit ''ingestions''],
        rt_guards = [Jwt_guard], rt_roles = None,
        rt_shared = None, rt_audit = Some \<lparr>am_action = ''ingestion.enqueue.user'', am_entityType = ''IngestionJob'',
        am_entityIdFrom = None, am_entityIdKey = None,
        am_detailsFrom = Some [''kind'']\<rparr>,
        rt_code = 201, rt_name = ''IngestionController.enqueue'', rt_run = with_session IngestionController_enqueue\<rparr>,
      \<lparr>rt_verb = ''GET'', rt_path = [Lit ''ingestions''],
        rt_guards = [Jwt_guard], rt_roles = None,
        rt_shared = None, rt_audit = None,
        rt_code = 200, rt_name = ''IngestionController.list'', rt_run = with_session IngestionController_list\<rparr>,
      \<lparr>rt_verb = ''GET'', rt_path = [Lit ''ingestions'', Par ''id''],
        rt_guards = [Jwt_guard], rt_roles = None,
        rt_shared = None, rt_audit = None,
        rt_code = 200, rt_name = ''IngestionController.get'', rt_run = with_session IngestionController_get\<rparr>,
      \<lparr>rt_verb = ''GET'', rt_path = [Lit ''ingestions'', Lit ''next-job''],
        rt_guards = [Shared_token_guard], rt_roles = None,
        rt_shared = Some ''WORKER_API_TOKEN'', rt_audit = None,
        rt_code = 200, rt_name = ''IngestionController.claimNext'', rt_run = without_session IngestionController_claimNext\<rparr>,
      \<lparr>rt_verb = ''POST'', rt_path = [Lit ''ingestions'', Par ''id'', Lit ''complete''],
        rt_guards = [Shared_token_guard], rt_roles = None,
        rt_shared = Some ''WORKER_API_TOKEN'', rt_audit = None,
        rt_code = 201, rt_name = ''IngestionController.complete'', rt_run = without_session IngestionController_complete\<rparr>,
      \<lparr>rt_verb = ''POST'', rt_path = [Lit ''ingestions'', Par ''id'', Lit ''fail''],
        rt_guards = [Shared_token_guard], rt_roles = None,
        rt_shared = Some ''WORKER_API_TOKEN'', rt_audit = None,
        rt_code = 201, rt_name = ''IngestionController.fail'', rt_run = without_session IngestionController_fail\<rparr>]"

text \<open>\<^verbatim>\<open>ingestion/ingestion.controller.ts\<close>\<close>

definition webhook_routes :: "route list" where
  "webhook_routes =
     [\<lparr>rt_verb = ''POST'', rt_path = [Lit ''webhooks'', Lit ''inbound'', Lit ''email''],
        rt_guards = [Shared_token_guard], rt_roles = None,
        rt_shared = Some ''WEBHOOK_INBOUND_EMAIL_TOKEN'', rt_audit = None,
        rt_code = 201, rt_name = ''WebhookController.inboundEmail'', rt_run = without_session WebhookController_inboundEmail\<rparr>]"

text \<open>\<^verbatim>\<open>ingestion/inbound-email.controller.ts\<close>\<close>

definition inboundEmail_routes :: "route list" where
  "inboundEmail_routes =
     [\<lparr>rt_verb = ''POST'', rt_path = [Lit ''webhooks'', Lit ''inbound-email''],
        rt_guards = [], rt_roles = None,
        rt_shared = None, rt_audit = None,
        rt_code = 201, rt_name = ''InboundEmailController.receive'', rt_run = without_session InboundEmailController_receive\<rparr>]"

text \<open>\<^verbatim>\<open>users/users.controller.ts\<close>\<close>

definition users_routes :: "route list" where
  "users_routes =
     [\<lparr>rt_verb = ''GET'', rt_path = [Lit ''users''],
        rt_guards = [Jwt_guard, Roles_guard], rt_roles = Some [Owner],
        rt_shared = None, rt_audit = None,
        rt_code = 200, rt_name = ''UsersController.list'', rt_run = with_session UsersController_list\<rparr>]"

text \<open>\<^verbatim>\<open>webhooks/webhook-subscription.controller.ts\<close>\<close>

definition webhookSubscription_routes :: "route list" where
  "webhookSubscription_routes =
     [\<lparr>rt_verb = ''GET'', rt_path = [Lit ''webhook-subscriptions''],
        rt_guards = [Jwt_guard, Roles_guard], rt_roles = Some [Owner],
        rt_shared = None, rt_audit = None,
        rt_code = 200, rt_name = ''WebhookSubscriptionController.list'', rt_run = with_session WebhookSubscriptionController_list\<rparr>,
      \<lparr>rt_verb = ''GET'', rt_path = [Lit ''webhook-subscriptions'', Par ''id''],
        rt_guards = [Jwt_guard, Roles_guard], rt_roles = Some [Owner],
        rt_shared = None, rt_audit = None,
        rt_code = 200, rt_name = ''WebhookSubscriptionController.get'', rt_run = with_session WebhookSubscriptionController_get\<rparr>,
      \<lparr>rt_verb = ''POST'', rt_path = [Lit ''webhook-subscriptions''],
        rt_guards = [Jwt_guard, Roles_guard], rt_roles = Some [Owner],
        rt_shared = None, rt_audit = Some \<lparr>am_action = ''webhook.subscription.created'', am_entityType = ''WebhookSubscription'',
        am_entityIdFrom = Some ''response'', am_entityIdKey = Some ''id'',
        am_detailsFrom = Some [''url'', ''eventTypes'', ''active'']\<rparr>,
        rt_code = 201, rt_name = ''WebhookSubscriptionController.create'', rt_run = with_session WebhookSubscriptionController_create\<rparr>,
      \<lparr>rt_verb = ''PATCH'', rt_path = [Lit ''webhook-subscriptions'', Par ''id''],
        rt_guards = [Jwt_guard, Roles_guard], rt_roles = Some [Owner],
        rt_shared = None, rt_audit = Some \<lparr>am_action = ''webhook.subscription.updated'', am_entityType = ''WebhookSubscription'',
        am_entityIdFrom = Some ''param'', am_entityIdKey = Some ''id'',
        am_detailsFrom = Some [''url'', ''eventTypes'', ''active'']\<rparr>,
        rt_code = 200, rt_name = ''WebhookSubscriptionController.update'', rt_run = with_session WebhookSubscriptionController_update\<rparr>,
      \<lparr>rt_verb = ''POST'', rt_path = [Lit ''webhook-subscriptions'', Par ''id'', Lit ''rotate-secret''],
        rt_guards = [Jwt_guard, Roles_guard], rt_roles = Some [Owner],
        rt_shared = None, rt_audit = Some \<lparr>am_action = ''webhook.subscription.secret_rotated'', am_entityType = ''WebhookSubscription'',
        am_entityIdFrom = Some ''param'', am_entityIdKey = Some ''id'',
        am_detailsFrom = None\<rparr>,
        rt_code = 201, rt_name = ''WebhookSubscriptionController.rotate'', rt_run = with_session WebhookSubscriptionController_rotate\<rparr>,
      \<lparr>rt_verb = ''DELETE'', rt_path = [Lit ''webhook-subscriptions'', Par ''id''],
        rt_guards = [Jwt_guard, Roles_guard], rt_roles = Some [Owner],
        rt_shared = None, rt_audit = Some \<lparr>am_action = ''webhook.subscription.deleted'', am_entityType = ''WebhookSubscription'',
        am_entityIdFrom = Some ''param'', am_entityIdKey = Some ''id'',
        am_detailsFrom = None\<rparr>,
        rt_code = 204, rt_name = ''WebhookSubscriptionController.remove'', rt_run = with_session WebhookSubscriptionController_remove\<rparr>]"

text \<open>\<^verbatim>\<open>billing/billing.controller.ts\<close>\<close>

definition billing_routes :: "route list" where
  "billing_routes =
     [\<lparr>rt_verb = ''GET'', rt_path = [Lit ''plans''],
        rt_guards = [Jwt_guard], rt_roles = None,
        rt_shared = None, rt_audit = None,
        rt_code = 200, rt_name = ''BillingController.plans'', rt_run = with_session BillingController_plans\<rparr>,
      \<lparr>rt_verb = ''GET'', rt_path = [Lit ''subscription''],
        rt_guards = [Jwt_guard, Roles_guard], rt_roles = Some [Owner],
        rt_shared = None, rt_audit = None,
        rt_code = 200, rt_name = ''BillingController.mySubscription'', rt_run = with_session BillingController_mySubscription\<rparr>,
      \<lparr>rt_verb = ''GET'', rt_path = [Lit ''usage'', Lit ''today''],
        rt_guards = [Jwt_guard, Roles_guard], rt_roles = Some [Owner],
        rt_shared = None, rt_audit = None,
        rt_code = 200, rt_name = ''BillingController.todayUsage'', rt_run = with_session BillingController_todayUsage\<rparr>,
      \<lparr>rt_verb = ''POST'', rt_path = [Lit ''webhooks'', Lit ''stripe''],
        rt_guards = [], rt_roles = None,
        rt_shared = None, rt_audit = None,
        rt_code = 201, rt_name = ''BillingController.stripeReceive'', rt_run = without_session BillingController_stripeReceive\<rparr>]"

text \<open>\<^verbatim>\<open>sector/sector-classifier.controller.ts\<close>\<close>

definition sectorClassifier_routes :: "route list" where
  "sectorClassifier_routes =
     [\<lparr>rt_verb = ''POST'', rt_path = [Lit ''tenders'', Par ''id'', Lit ''sector'', Lit ''classify''],
        rt_guards = [Jwt_guard, Roles_guard], rt_roles = Some [Owner],
        rt_shared = None, rt_audit = Some \<lparr>am_action = ''tender.sector.classified'', am_entityType = ''Tender'',
        am_entityIdFrom = Some ''param'', am_entityIdKey = Some ''id'',
        am_detailsFrom = None\<rparr>,
        rt_code = 201, rt_name = ''SectorClassifierController.classify'', rt_run = with_session SectorClassifierController_classify\<rparr>,
      \<lparr>rt_verb = ''PATCH'', rt_path = [Lit ''tenders'', Par ''id'', Lit ''sector''],
        rt_guards = [Jwt_guard, Roles_guard], rt_roles = Some [Owner],
        rt_shared = None, rt_audit = Some \<lparr>am_action = ''tender.sector.override'', am_entityType = ''Tender'',
        am_entityIdFrom = Some ''param'', am_entityIdKey = Some ''id'',
        am_detailsFrom = Some [''sector'', ''category'', ''confidence'']\<rparr>,
        rt_code = 200, rt_name = ''SectorClassifierController.override'', rt_run = with_session SectorClassifierController_override\<rparr>]"

text \<open>\<^verbatim>\<open>ingestion-portal/ingestion-portal.controller.ts\<close>\<close>

definition ingestionPortal_routes :: "route list" where
  "ingestionPortal_routes =
     [\<lparr>rt_verb = ''POST'', rt_path = [Lit ''ingestion'', Lit ''tenders''],
        rt_guards = [Ingestion_guard], rt_roles = None,
        rt_shared = None, rt_audit = None,
        rt_code = 201, rt_name = ''IngestionPortalController.create'', rt_run = with_key IngestionPortalController_create\<rparr>]"

text \<open>\<^verbatim>\<open>ingestion-portal/ingestion-api-key.controller.ts\<close>\<close>

definition ingestionApiKey_routes :: "route list" where
  "ingestionApiKey_routes =
     [\<lparr>rt_verb = ''GET'', rt_path = [Lit ''admin'', Lit ''ingestion-keys''],
        rt_guards = [Jwt_guard, Roles_guard], rt_roles = Some [Owner],
        rt_shared = None, rt_audit = None,
        rt_code = 200, rt_name = ''IngestionApiKeyController.list'', rt_run = with_session IngestionApiKeyController_list\<rparr>,
      \<lparr>rt_verb = ''POST'', rt_path = [Lit ''admin'', Lit ''ingestion-keys''],
        rt_guards = [Jwt_guard, Roles_guard], rt_roles = Some [Owner],
        rt_shared = None, rt_audit = Some \<lparr>am_action = ''ingestion_api_key.minted'', am_entityType = ''IngestionApiKey'',
        am_entityIdFrom = Some ''response'', am_entityIdKey = Some ''id'',
        am_detailsFrom = Some [''name'', ''keyPrefix'']\<rparr>,
        rt_code = 201, rt_name = ''IngestionApiKeyController.mint'', rt_run = with_session IngestionApiKeyController_mint\<rparr>,
      \<lparr>rt_verb = ''DELETE'', rt_path = [Lit ''admin'', Lit ''ingestion-keys'', Par ''id''],
        rt_guards = [Jwt_guard, Roles_guard], rt_roles = Some [Owner],
        rt_shared = None, rt_audit = Some \<lparr>am_action = ''ingestion_api_key.revoked'', am_entityType = ''IngestionApiKey'',
        am_entityIdFrom = Some ''param'', am_entityIdKey = Some ''id'',
        am_detailsFrom = None\<rparr>,
        rt_code = 200, rt_name = ''IngestionApiKeyController.revoke'', rt_run = with_session IngestionApiKeyController_revoke\<rparr>]"

text \<open>\<^verbatim>\<open>ingestion-proxy/ingestion-proxy.controller.ts\<close>\<close>

definition ingestionProxy_routes :: "route list" where
  "ingestionProxy_routes =
     [\<lparr>rt_verb = ''GET'', rt_path = [Lit ''admin'', Lit ''ingestion'', Lit ''runs''],
        rt_guards = [Jwt_guard, Roles_guard], rt_roles = Some [Owner],
        rt_shared = None, rt_audit = None,
        rt_code = 200, rt_name = ''IngestionProxyController.list'', rt_run = with_session IngestionProxyController_list\<rparr>,
      \<lparr>rt_verb = ''POST'', rt_path = [Lit ''admin'', Lit ''ingestion'', Lit ''runs''],
        rt_guards = [Jwt_guard, Roles_guard], rt_roles = Some [Owner],
        rt_shared = None, rt_audit = Some \<lparr>am_action = ''ingestion.run_triggered'', am_entityType = ''IngestionRun'',
        am_entityIdFrom = Some ''response'', am_entityIdKey = Some ''runId'',
        am_detailsFrom = Some [''sourceCode'', ''maxPages'', ''maxItems'', ''syncToAdmin'']\<rparr>,
        rt_code = 201, rt_name = ''IngestionProxyController.trigger'', rt_run = with_session IngestionProxyController_trigger\<rparr>]"

definition all_routes :: "route list" where
  "all_routes =
     health_routes @
     auth_routes @
     audit_routes @
     clientCompany_routes @
     tender_routes @
     documentVault_routes @
     documentUpload_routes @
     fitScoring_routes @
     compliance_routes @
     complianceItem_routes @
     tenderRequirement_routes @
     export_routes @
     pdpl_routes @
     dataSubject_routes @
     consentLedger_routes @
     tenderAccess_routes @
     retentionAction_routes @
     retentionScheduled_routes @
     dpoContact_routes @
     dpoTraining_routes @
     authorityNotification_routes @
     ingestion_routes @
     webhook_routes @
     inboundEmail_routes @
     users_routes @
     webhookSubscription_routes @
     billing_routes @
     sectorClassifier_routes @
     ingestionPortal_routes @
     ingestionApiKey_routes @
     ingestionProxy_routes"

subsection \<open>From a request to its route\<close>

text \<open>
  The router of express is a parameter: it selects one of the registered routes and names the
  values of its path parameters. \<open>find_route\<close> is the router as its documentation describes
  it: the first registered route of the verb whose path matches, where literal segments are
  compared without case and a parameter takes any non-empty segment.
\<close>

type_synonym router =
  "route list \<Rightarrow> string \<Rightarrow> string list \<Rightarrow> (route \<times> (string \<times> string) list) option"

definition selects_registered :: "router \<Rightarrow> bool" where
  "selects_registered router \<longleftrightarrow>
     (\<forall>rts verb path rt ps. router rts verb path = Some (rt, ps) \<longrightarrow> rt \<in> set rts)"

fun match_path :: "seg list \<Rightarrow> string list \<Rightarrow> (string \<times> string) list option" where
  "match_path [] [] = Some []"
| "match_path (Lit l # ps) (s # ss) = (if toLowerCase s = toLowerCase l then match_path ps ss else None)"
| "match_path (Par k # ps) (s # ss) = (if s = [] then None else map_option ((#) (k, s)) (match_path ps ss))"
| "match_path ps ss = None"

fun find_route :: "route list \<Rightarrow> string \<Rightarrow> string list \<Rightarrow> (route \<times> (string \<times> string) list) option" where
  "find_route [] verb path = None"
| "find_route (rt # rts) verb path =
     (if rt_verb rt = verb
      then (case match_path (rt_path rt) path of
              Some ps \<Rightarrow> Some (rt, ps) | None \<Rightarrow> find_route rts verb path)
      else find_route rts verb path)"

subsection \<open>Guards\<close>

text \<open>\<^verbatim>\<open>ExtractJwt.fromExtractors\<close>: the cookie first, then the bearer header.\<close>

definition session_token :: "services \<Rightarrow> http_in \<Rightarrow> string option" where
  "session_token sv r =
     (case cookieExtractor (hi_cookies r) of
        Some t \<Rightarrow> Some t
      | None \<Rightarrow> (case hi_headers r ''authorization'' of None \<Rightarrow> None | Some h \<Rightarrow> sv_bearer sv h))"

definition session_of :: "services \<Rightarrow> http_in \<Rightarrow> session_principal option" where
  "session_of sv r =
     (case session_token sv r of
        None \<Rightarrow> None
      | Some t \<Rightarrow> map_option jwt_validate (sv_verifyJwt sv t))"

definition user_of :: "caller \<Rightarrow> session_principal option" where
  "user_of c = (case c of Signed_in p \<Rightarrow> Some p | _ \<Rightarrow> None)"

definition liftE :: "api_error + 'a \<Rightarrow> 'a wact" where
  "liftE v = (case v of Inl e \<Rightarrow> throw e | Inr a \<Rightarrow> ret a)"

definition run_guard :: "services \<Rightarrow> route \<Rightarrow> http_in \<Rightarrow> guard \<Rightarrow> caller \<Rightarrow> caller wact" where
  "run_guard sv rt r g c =
     (case g of
        Jwt_guard \<Rightarrow>
          (case session_of sv r of
             None \<Rightarrow> throw (Unauthorized ''Unauthorized'') | Some p \<Rightarrow> ret (Signed_in p))
      | Roles_guard \<Rightarrow>
          bindA (throwIf (\<not> roles_guard (rt_roles rt) (user_of c)) (Forbidden ''Forbidden resource''))
            (\<lambda>_. ret c)
      | Shared_token_guard \<Rightarrow>
          bindA (liftE (shared_token_guard (rt_shared rt) (sv_env sv) (hi_headers r))) (\<lambda>_. ret c)
      | Scheduler_guard \<Rightarrow>
          bindA (liftE (scheduler_guard (sv_verifyOidc sv) (sv_env sv) (hi_headers r ''authorization'')))
            (\<lambda>_. ret c)
      | Ingestion_guard \<Rightarrow>
          bindA (ingestion_token_guard (sv_compare sv) (sv_env sv) (hi_headers r ''authorization''))
            (\<lambda>a. ret (Key_holder a)))"

definition run_guards :: "services \<Rightarrow> route \<Rightarrow> http_in \<Rightarrow> caller wact" where
  "run_guards sv rt r = foldA (run_guard sv rt r) (rt_guards rt) Nobody"

subsection \<open>Handling a request\<close>

definition audit_principal :: "session_principal \<Rightarrow> principal" where
  "audit_principal p = \<lparr>pr_userId = sp_userId p, pr_org = sp_org p, pr_role = role_name (sp_role p)\<rparr>"

definition audit_request :: "http_in \<Rightarrow> caller \<Rightarrow> http_request" where
  "audit_request r c =
     \<lparr>hr_method = hi_verb r, hr_originalUrl = Some (hi_url r), hr_url = hi_url r,
      hr_params = map (\<lambda>(k, v). (k, JStr v)) (hi_params r), hr_body = Some (hi_body r),
      hr_user = map_option audit_principal (user_of c)\<rparr>"

text \<open>The members of an answer that an audit event may name.\<close>

definition answer_json :: "answer \<Rightarrow> json" where
  "answer_json a = (case a of
     Document d \<Rightarrow> JObj [(''id'', JStr (cd_id d))]
   | Action x \<Rightarrow> JObj [(''id'', JStr (ra_id x))]
   | Contact (Some c) \<Rightarrow> JObj [(''id'', JStr (dc_id c))]
   | Training x \<Rightarrow> JObj [(''id'', JStr (dt_id (ts_row x)))]
   | Job j \<Rightarrow> JObj [(''id'', JStr (ij_id j))]
   | Hook_secret h s \<Rightarrow> JObj [(''id'', JStr (ph_id h))]
   | Minted i n p t k \<Rightarrow> JObj [(''id'', JStr i)]
   | Proxied v \<Rightarrow> v
   | _ \<Rightarrow> JNull)"

definition audited :: "route \<Rightarrow> caller \<Rightarrow> http_in \<Rightarrow> answer wact \<Rightarrow> answer wact" where
  "audited rt c r handler =
     (case rt_audit rt of
        None \<Rightarrow> handler
      | Some m \<Rightarrow> bindA handler (\<lambda>a.
          bindA (audit_tap m (audit_request r c) (answer_json a)) (\<lambda>_. ret a)))"

definition handle :: "services \<Rightarrow> route \<Rightarrow> http_in \<Rightarrow> answer wact" where
  "handle sv rt r = bindA (run_guards sv rt r) (\<lambda>c. audited rt c r (rt_run rt sv c r))"

definition serve :: "router \<Rightarrow> services \<Rightarrow> http_in \<Rightarrow> answer wact" where
  "serve router sv r =
     (case router all_routes (hi_verb r) (hi_path r) of
        None \<Rightarrow> throw (NotFound (''Cannot '' @ hi_verb r @ '' '' @ hi_url r))
      | Some (rt, ps) \<Rightarrow> handle sv rt (r\<lparr>hi_params := ps\<rparr>))"

text \<open>The status and the body of an error, or the status and the value of an answer.\<close>

definition respond :: "router \<Rightarrow> services \<Rightarrow> http_in \<Rightarrow> world \<Rightarrow> (int \<times> (json + answer)) \<times> world" where
  "respond router sv r w =
     (case serve router sv r w of
        (Inl e, w') \<Rightarrow>
          (case error_body e (hi_url r) (w_clock w' (w_ticks w')) of
             (status, b) \<Rightarrow> ((status, Inl b), w'\<lparr>w_ticks := Suc (w_ticks w')\<rparr>))
      | (Inr a, w') \<Rightarrow>
          (case router all_routes (hi_verb r) (hi_path r) of
             Some (rt, _) \<Rightarrow> ((rt_code rt, Inr a), w')
           | None \<Rightarrow> ((404, Inr a), w')))"

end
