(* ===== verification/Http.thy ===== *)
theory Http
  imports Routes
begin

text \<open>
  What the table of routes and the guards give together: which requests get past the guards and as
  whom, and which routes a request can reach at all.
\<close>

subsection \<open>The table\<close>

text \<open>The routes without a session guard, by the names of their handlers.\<close>

definition open_routes :: "string list" where
  "open_routes = [''HealthController.check'', ''AuthController.login'', ''AuthController.logout'',
     ''RetentionScheduledController.sweepScheduled'', ''IngestionController.claimNext'',
     ''IngestionController.complete'', ''IngestionController.fail'', ''WebhookController.inboundEmail'',
     ''InboundEmailController.receive'', ''BillingController.stripeReceive'',
     ''IngestionPortalController.create'']"

definition well_guarded :: "route \<Rightarrow> bool" where
  "well_guarded rt \<longleftrightarrow>
     (if rt_name rt \<in> set open_routes then rt_roles rt = None \<and> Jwt_guard \<notin> set (rt_guards rt)
      else rt_guards rt = [Jwt_guard] \<and> rt_roles rt = None \<or> rt_guards rt = [Jwt_guard, Roles_guard])"

lemma list_all_routes:
  "list_all P all_routes \<longleftrightarrow> list_all P health_routes \<and>
     list_all P auth_routes \<and>
     list_all P audit_routes \<and>
     list_all P clientCompany_routes \<and>
     list_all P tender_routes \<and>
     list_all P documentVault_routes \<and>
     list_all P documentUpload_routes \<and>
     list_all P fitScoring_routes \<and>
     list_all P compliance_routes \<and>
     list_all P complianceItem_routes \<and>
     list_all P tenderRequirement_routes \<and>
     list_all P export_routes \<and>
     list_all P pdpl_routes \<and>
     list_all P dataSubject_routes \<and>
     list_all P consentLedger_routes \<and>
     list_all P tenderAccess_routes \<and>
     list_all P retentionAction_routes \<and>
     list_all P retentionScheduled_routes \<and>
     list_all P dpoContact_routes \<and>
     list_all P dpoTraining_routes \<and>
     list_all P authorityNotification_routes \<and>
     list_all P ingestion_routes \<and>
     list_all P webhook_routes \<and>
     list_all P inboundEmail_routes \<and>
     list_all P users_routes \<and>
     list_all P webhookSubscription_routes \<and>
     list_all P billing_routes \<and>
     list_all P sectorClassifier_routes \<and>
     list_all P ingestionPortal_routes \<and>
     list_all P ingestionApiKey_routes \<and>
     list_all P ingestionProxy_routes"
  unfolding all_routes_def list_all_append ..

lemma tables_well_guarded:
  "list_all well_guarded health_routes"
  "list_all well_guarded auth_routes"
  "list_all well_guarded audit_routes"
  "list_all well_guarded clientCompany_routes"
  "list_all well_guarded tender_routes"
  "list_all well_guarded documentVault_routes"
  "list_all well_guarded documentUpload_routes"
  "list_all well_guarded fitScoring_routes"
  "list_all well_guarded compliance_routes"
  "list_all well_guarded complianceItem_routes"
  "list_all well_guarded tenderRequirement_routes"
  "list_all well_guarded export_routes"
  "list_all well_guarded pdpl_routes"
  "list_all well_guarded dataSubject_routes"
  "list_all well_guarded consentLedger_routes"
  "list_all well_guarded tenderAccess_routes"
  "list_all well_guarded retentionAction_routes"
  "list_all well_guarded retentionScheduled_routes"
  "list_all well_guarded dpoContact_routes"
  "list_all well_guarded dpoTraining_routes"
  "list_all well_guarded authorityNotification_routes"
  "list_all well_guarded ingestion_routes"
  "list_all well_guarded webhook_routes"
  "list_all well_guarded inboundEmail_routes"
  "list_all well_guarded users_routes"
  "list_all well_guarded webhookSubscription_routes"
  "list_all well_guarded billing_routes"
  "list_all well_guarded sectorClassifier_routes"
  "list_all well_guarded ingestionPortal_routes"
  "list_all well_guarded ingestionApiKey_routes"
  "list_all well_guarded ingestionProxy_routes"
  by (simp_all add: health_routes_def auth_routes_def audit_routes_def clientCompany_routes_def
       tender_routes_def documentVault_routes_def documentUpload_routes_def fitScoring_routes_def
       compliance_routes_def complianceItem_routes_def tenderRequirement_routes_def
       export_routes_def pdpl_routes_def dataSubject_routes_def consentLedger_routes_def
       tenderAccess_routes_def retentionAction_routes_def retentionScheduled_routes_def
       dpoContact_routes_def dpoTraining_routes_def authorityNotification_routes_def
       ingestion_routes_def webhook_routes_def inboundEmail_routes_def users_routes_def
       webhookSubscription_routes_def billing_routes_def sectorClassifier_routes_def
       ingestionPortal_routes_def ingestionApiKey_routes_def ingestionProxy_routes_def
       well_guarded_def open_routes_def)

lemma routes_well_guarded: "list_all well_guarded all_routes"
  unfolding list_all_routes by (intro conjI tables_well_guarded)

subsection \<open>Getting past the guards\<close>

lemma find_route_in: "find_route rts verb path = Some (rt, ps) \<Longrightarrow>
    rt \<in> set rts \<and> rt_verb rt = verb \<and> match_path (rt_path rt) path = Some ps"
  by (induction rts) (auto split: if_splits option.splits)

lemma router_selects:
  "selects_registered router \<Longrightarrow> router rts verb path = Some (rt, ps) \<Longrightarrow> rt \<in> set rts"
  unfolding selects_registered_def by blast

lemma find_route_append:
  "find_route (rts @ rts') verb path =
     (case find_route rts verb path of None \<Rightarrow> find_route rts' verb path | Some x \<Rightarrow> Some x)"
  by (induction rts) (auto split: option.splits)

lemma find_route_selects: "selects_registered find_route"
  unfolding selects_registered_def using find_route_in by blast

lemma jwt_guards:
  "rt_guards rt = [Jwt_guard] \<Longrightarrow>
     run_guards sv rt r w = (case session_of sv r of
        None \<Rightarrow> (Inl (Unauthorized ''Unauthorized''), w) | Some p \<Rightarrow> (Inr (Signed_in p), w))"
  "rt_guards rt = [Jwt_guard, Roles_guard] \<Longrightarrow>
     run_guards sv rt r w = (case session_of sv r of
        None \<Rightarrow> (Inl (Unauthorized ''Unauthorized''), w)
      | Some p \<Rightarrow> if roles_guard (rt_roles rt) (Some p) then (Inr (Signed_in p), w)
                  else (Inl (Forbidden ''Forbidden resource''), w))"
  by (auto simp: run_guards_def run_guard_def user_of_def bindA_def throwIf_def split: option.splits)

lemma session_of_params [simp]: "session_of sv (r\<lparr>hi_params := ps\<rparr>) = session_of sv r"
  by (simp add: session_of_def session_token_def cong: option.case_cong)

lemma registered_guards:
  assumes "rt \<in> set all_routes"
  obtains "rt_name rt \<in> set open_routes" | "rt_guards rt = [Jwt_guard]" "rt_roles rt = None"
    | "rt_guards rt = [Jwt_guard, Roles_guard]"
  using routes_well_guarded assms by (auto simp: list_all_iff well_guarded_def split: if_splits)

text \<open>
  C2: Only the eleven open routes are served without a session. On every other route a request
  without a valid session token is answered with 401, one whose role is not among the roles of the
  route with 403, and both leave the state exactly as it was; a path no route matches is answered
  with 404. Only then does the handler run, with the principal of the verified token.
\<close>

theorem serve_guarded:
  assumes "selects_registered router"
  shows "case router all_routes (hi_verb r) (hi_path r) of
     None \<Rightarrow> serve router sv r w = (Inl (NotFound (''Cannot '' @ hi_verb r @ '' '' @ hi_url r)), w)
   | Some (rt, ps) \<Rightarrow>
       rt_name rt \<in> set open_routes \<or>
       serve router sv r w =
         (case session_of sv r of
            None \<Rightarrow> (Inl (Unauthorized ''Unauthorized''), w)
          | Some p \<Rightarrow>
              if (case rt_roles rt of None \<Rightarrow> True | Some rs \<Rightarrow> rs = [] \<or> sp_role p \<in> set rs)
              then audited rt (Signed_in p) (r\<lparr>hi_params := ps\<rparr>)
                     (rt_run rt sv (Signed_in p) (r\<lparr>hi_params := ps\<rparr>)) w
              else (Inl (Forbidden ''Forbidden resource''), w))"
proof (cases "router all_routes (hi_verb r) (hi_path r)")
  case (Some x)
  obtain rt ps where x: "x = (rt, ps)" by fastforce
  have "rt \<in> set all_routes"
    using router_selects [OF assms] Some x by simp
  then show ?thesis
    using Some x
    by (cases rule: registered_guards)
       (auto simp: serve_def handle_def bindA_def jwt_guards roles_guard_def split: option.splits list.splits)
qed (simp add: serve_def)

text \<open>A request for the audit log without any session.\<close>

definition anonymous :: http_in where
  "anonymous = \<lparr>hi_verb = ''GET'', hi_path = [''audit-events''], hi_url = ''/audit-events'', hi_query = [],
     hi_body = [], hi_raw = None, hi_headers = (\<lambda>_. None), hi_cookies = None, hi_file = None, hi_params = []\<rparr>"

lemma find_audit_events:
  "find_route all_routes ''GET'' [''audit-events''] = Some (hd audit_routes, [])"
proof -
  have "toLowerCase ''audit-events'' \<noteq> toLowerCase ''health''" "toLowerCase ''audit-events'' \<noteq> toLowerCase ''auth''"
    by code_simp+
  then show ?thesis
    by (simp add: all_routes_def find_route_append health_routes_def auth_routes_def audit_routes_def)
qed

lemma serve_guarded_witness:
  "\<forall>sv w. serve find_route sv anonymous w = (Inl (Unauthorized ''Unauthorized''), w)"
proof (intro allI)
  fix sv w
  have "session_of sv anonymous = None"
    by (simp add: session_of_def session_token_def cookieExtractor_def anonymous_def)
  moreover have "rt_name (hd audit_routes) \<notin> set open_routes"
    by code_simp
  ultimately show "serve find_route sv anonymous w = (Inl (Unauthorized ''Unauthorized''), w)"
    using serve_guarded [where r = anonymous and sv = sv and w = w, OF find_route_selects]
    by (simp add: find_audit_events anonymous_def)
qed

end
