(* ===== verification/Tenancy.thy ===== *)
theory Tenancy
  imports Isolation Controllers
begin

text \<open>
  Tenant isolation of the services and the handlers: \<open>stays_home\<close> of \<open>Isolation\<close>, which says it
  of one repository write, passes through the steps of a method. There is one fact per service
  method and one per handler of a signed-in user: run for an organisation, it keeps the rows of
  every other one, whatever the request asks for.
\<close>

subsection \<open>The relation\<close>

definition at_home :: "ident \<Rightarrow> world \<Rightarrow> world \<Rightarrow> bool" where
  "at_home g w w' \<longleftrightarrow>
     (store_ok w \<longrightarrow> store_ok w' \<and> (\<forall>h. h \<noteq> g \<longrightarrow> tenant_data h w' = tenant_data h w))"

lemma stays_home_runs: "stays_home g m \<longleftrightarrow> runs (at_home g) m"
  by (simp add: stays_home_def runs_def at_home_def)

lemma at_home_preorder [simp, intro]: "preorder_rel (at_home g)"
  by (auto simp: preorder_rel_def at_home_def)

named_theorems home_rules \<open>methods that keep the rows of every other organisation\<close>

text \<open>The clock, the supply of ids, and the tables that are not edited in place.\<close>

lemma at_home_ids [simp]: "at_home g w (w\<lparr>w_uuid_n := Suc (w_uuid_n w)\<rparr>)" "at_home g w (w\<lparr>w_ticks := n\<rparr>)"
  by (auto simp: at_home_def store_ok_def tenant_data_def elim!: table_ok_mono)

lemma at_home_tables [simp]:
  "at_home g w (w_orgs_update fo w)" "at_home g w (w_audit_update fa w)" "at_home g w (w_consents_update fc w)"
  "at_home g w (w_dpo_update fd w)" "at_home g w (w_emails_update fe w)" "at_home g w (w_keys_update fk w)"
  "at_home g w (w_llm_update fl w)" "at_home g w (w_subscriptions_update fs w)"
  "at_home g w (w_counters_update fu w)" "at_home g w (w_deliveries_update fv w)"
  by (simp_all add: at_home_def store_ok_def tenant_data_def)

lemma home_steps [home_rules]:
  "runs (at_home g) uuidA" "runs (at_home g) nowA"
  "(\<And>w. at_home g w (f w)) \<Longrightarrow> runs (at_home g) (modA f)"
  "(\<And>w. at_home g w (put (setT i r) w)) \<Longrightarrow> runs (at_home g) (insert_row put i r)"
  by (simp_all add: runs_def uuidA_def nowA_def insert_row_apply)

lemma home_nowOr [home_rules]: "runs (at_home g) (nowOr t)"
  by (cases t) (simp_all add: nowOr_def runs_ret home_steps)

lemma home_case_sum [home_rules]:
  "(\<And>e. runs R (f e)) \<Longrightarrow> (\<And>a. runs R (h a)) \<Longrightarrow> runs R (case v of Inl e \<Rightarrow> f e | Inr a \<Rightarrow> h a)"
  by (cases v) simp_all

text \<open>A call of code outside the process cannot touch the tables.\<close>

definition quiet :: "'a wact \<Rightarrow> bool" where
  "quiet m \<longleftrightarrow> (\<forall>w. snd (m w) = w)"

lemma home_quiet: "quiet m \<Longrightarrow> runs (at_home g) m"
  by (simp add: quiet_def runs_def at_home_def)

subsection \<open>Repositories\<close>

text \<open>The writes of \<open>Isolation\<close>, with the organisation of a new row as a side condition.\<close>

lemma home_creates [home_rules]:
  "cus_org du = g \<Longrightarrow> runs (at_home g) (users_create du)"
  "ccc_org dc = g \<Longrightarrow> runs (at_home g) (companies_create dc)"
  "ctn_org dt = g \<Longrightarrow> runs (at_home g) (tenders_create dt)"
  "ccd_org dd = g \<Longrightarrow> runs (at_home g) (documents_create dd)"
  "ccm_org dm = g \<Longrightarrow> runs (at_home g) (matrices_create dm)"
  "cci_org di = g \<Longrightarrow> runs (at_home g) (items_create di)"
  "ctr_org dr = g \<Longrightarrow> runs (at_home g) (requirements_create dr)"
  "cel_org dl = g \<Longrightarrow> runs (at_home g) (links_create dl)"
  "cds_org ds = g \<Longrightarrow> runs (at_home g) (requests_create ds)"
  "cta_org da = g \<Longrightarrow> runs (at_home g) (access_create da)"
  "cra_org de = g \<Longrightarrow> runs (at_home g) (retention_create de)"
  "cdt_org dg = g \<Longrightarrow> runs (at_home g) (training_create dg)"
  "cij_org dj = g \<Longrightarrow> runs (at_home g) (jobs_create dj)"
  "cws_org dh = g \<Longrightarrow> runs (at_home g) (hooks_create dh)"
  using home_users [OF own_users_create [of g du]] home_companies [OF own_companies_create [of g dc]]
    home_tenders [OF own_tenders_create [of g dt]] home_documents [OF own_documents_create [of g dd]]
    home_matrices [OF own_matrices_create [of g dm]] home_items [OF own_items_create [of g di]]
    home_requirements [OF own_requirements_create [of g dr]] home_links [OF own_links_create [of g dl]]
    home_requests [OF own_requests_create [of g ds]] home_access [OF own_access_create [of g da]]
    home_retention [OF own_retention_create [of g de]] home_training [OF own_training_create [of g dg]]
    home_jobs [OF own_jobs_create [of g dj]] home_hooks [OF own_hooks_create [of g dh]]
  by (auto simp: stays_home_runs)

lemma home_edits [home_rules]:
  "runs (at_home g) (users_update pu i g)" "runs (at_home g) (users_anonymise ps i g)"
  "runs (at_home g) (users_delete i g)"
  "runs (at_home g) (companies_update pc i g)" "runs (at_home g) (companies_delete i g)"
  "runs (at_home g) (tenders_update pt i g)" "runs (at_home g) (tenders_delete i g)"
  "runs (at_home g) (documents_update pd i g)" "runs (at_home g) (documents_delete i g)"
  "runs (at_home g) (matrices_update pm i g)" "runs (at_home g) (items_update pj i g)"
  "runs (at_home g) (requirements_update pw i g)" "runs (at_home g) (links_unlink i j g)"
  "runs (at_home g) (requests_update pq i g)" "runs (at_home g) (access_update pa i g)"
  "runs (at_home g) (access_revoke i j g)" "runs (at_home g) (retention_update pe i g)"
  "runs (at_home g) (training_update pg i g)" "runs (at_home g) (training_delete i g)"
  "runs (at_home g) (jobs_update pk i g)" "runs (at_home g) (hooks_update ph i g)"
  "runs (at_home g) (hooks_delete i g)"
  unfolding stays_home_runs [symmetric]
  by (rule home_users own_users_update own_users_anonymise own_users_delete
      home_companies own_companies_update own_companies_delete home_tenders own_tenders_update own_tenders_delete
      home_documents own_documents_update own_documents_delete home_matrices own_matrices_update
      home_items own_items_update home_requirements own_requirements_update home_links own_links_unlink
      home_requests own_requests_update home_access own_access_update own_access_revoke
      home_retention own_retention_update home_training own_training_update own_training_delete
      home_jobs own_jobs_update home_hooks own_hooks_update own_hooks_delete)+

lemma home_requirements_createMany [home_rules]:
  "(\<And>d. d \<in> set ds \<Longrightarrow> ctr_org d = g) \<Longrightarrow> runs (at_home g) (requirements_createMany ds)"
  by (induction ds) (auto intro!: runs_rules home_rules)

lemma home_items_createMany [home_rules]:
  "(\<And>d. d \<in> set ds \<Longrightarrow> cci_org d = g) \<Longrightarrow> runs (at_home g) (items_createMany ds)"
  by (induction ds) (auto intro!: runs_rules home_rules)

lemmas read_defs =
  matrices_findAllForTender_def matrices_findById_def matrices_findByVersion_def
  matrices_latestForTender_def items_findAllForMatrix_def items_findById_def
  requirements_findAllForTender_def requirements_findById_def links_findAllForItem_def
  links_findAllForDocument_def links_findById_def orgs_findAll_def orgs_findById_def
  users_findAll_def users_findById_def users_findByEmail_def companies_findAll_def
  companies_findById_def tenders_findAll_def tenders_findById_def documents_findAll_def
  documents_findById_def audit_findForUser_def audit_findRecent_def jobs_findById_def
  jobs_findAll_def emails_findByMessageId_def emails_findRecent_def keys_findByPrefix_def
  keys_findAllByOrg_def llm_dailyTotals_def subscriptions_findByOrg_def
  subscriptions_findByStripeId_def counters_findDay_def counters_sumRange_def hooks_findById_def
  hooks_findAll_def hooks_findActiveForEvent_def deliveries_findById_def
  deliveries_findRecent_def consents_findAllForSubject_def consents_findById_def
  consents_findCurrent_def requests_findById_def requests_findAll_def requests_findForSubject_def
  access_findByUserAndTender_def access_findById_def access_findAllForTender_def
  access_findAllForUser_def retention_findById_def retention_findAll_def
  retention_findForDocument_def dpo_findByOrg_def training_findById_def training_findAll_def
  training_findExpiringBefore_def

lemma home_other_tables [home_rules]:
  "runs (at_home g) (audit_create d1)"
  "runs (at_home g) (audit_anonymiseUser u g)"
  "runs (at_home g) (consents_create d2)"
  "runs (at_home g) (consents_anonymiseSubject e g ps)"
  "runs (at_home g) (dpo_upsert d3)"
  "runs (at_home g) (keys_create d4)"
  "runs (at_home g) (keys_revoke i g)"
  "runs (at_home g) (llm_create d5)"
  "runs (at_home g) (counters_bump g t m n)"
  unfolding audit_create_def audit_anonymiseUser_def consents_create_def consents_anonymiseSubject_def
    dpo_upsert_def keys_create_def keys_revoke_def llm_create_def counters_bump_def read_defs
    Let_def
  by ((intro runs_rules home_rules; (simp; fail)?)+)

lemma home_audit_record [home_rules]: "runs (at_home g) (audit_record d)"
  unfolding audit_record_def by (rule home_rules)

lemma home_core [home_rules]:
  "runs (at_home g) (tender_intake t c g sr)"
  "runs (at_home g) (tender_list g)"
  "runs (at_home g) (tender_get i g)"
  "runs (at_home g) (tender_updateStatus i g st)"
  "runs (at_home g) (tender_remove i g)"
  "runs (at_home g) (persistSectorClassification i g sd)"
  "runs (at_home g) (company_list g)"
  "runs (at_home g) (company_get i g)"
  "runs (at_home g) (company_create n g)"
  "runs (at_home g) (company_update i g n)"
  "runs (at_home g) (company_remove i g)"
  "runs (at_home g) (user_list g)"
  "runs (at_home g) (audit_recent g l)"
  unfolding tender_intake_def tender_list_def tender_get_def tender_updateStatus_def tender_remove_def
    persistSectorClassification_def company_list_def company_get_def company_create_def
    company_update_def company_remove_def user_list_def audit_recent_def read_defs Let_def
  by ((intro runs_rules home_rules; (simp; fail)?)+)

lemma home_documents_service [home_rules]:
  "runs (at_home g) (register_document ri g)"
  "runs (at_home g) (document_list g)"
  "runs (at_home g) (document_get i g ro)"
  "runs (at_home g) (document_setState i g st)"
  "runs (at_home g) (listExpiring g t)"
  "runs (at_home g) (attachBlob i g k ct n)"
  "runs (at_home g) (document_delete i g)"
  "runs (at_home g) (links_listForDocument i g)"
  unfolding register_document_def document_list_def document_get_def document_setState_def
    listExpiring_def attachBlob_def document_delete_def links_listForDocument_def read_defs
    Let_def
  by ((intro runs_rules home_rules; (simp; fail)?)+)

lemma home_data_subject [home_rules]:
  "runs (at_home g) (createRequest g ty e ub n)"
  "runs (at_home g) (list_requests g st)"
  "runs (at_home g) (get_request i g)"
  "runs (at_home g) (approve_request i g u)"
  "runs (at_home g) (deny_request i g u n)"
  "runs (at_home g) (buildAccessSnapshot e g)"
  "runs (at_home g) (executeErasure e g)"
  "runs (at_home g) (execute_request i g u)"
  unfolding createRequest_def list_requests_def get_request_def approve_request_def deny_request_def
    decision_audit_def assertPending_def assertApproverDiffersFromRequestor_def
    buildAccessSnapshot_def executeErasure_def complete_request_def execution_audit_def
    execute_access_def execute_erasure_def execute_rectification_def execute_request_def
    read_defs Let_def
  by ((intro runs_rules home_rules; (simp; fail)?)+)

lemma home_retention_service [home_rules]:
  "runs (at_home g) (request_action g d a rs u)"
  "runs (at_home g) (get_action i g)"
  "runs (at_home g) (list_actions g st)"
  "runs (at_home g) (approve_action i g u)"
  "runs (at_home g) (deny_action i g u)"
  unfolding request_action_def get_action_def list_actions_def approve_action_def deny_action_def
    assertActionPending_def assertActionApprover_def decide_action_def action_audit_def read_defs
    Let_def
  by ((intro runs_rules home_rules; (simp; fail)?)+)

lemma home_sweep [home_rules]:
  "runs (at_home g) (sweep_one g u t doc n)"
  "runs (at_home g) (sweep g u tm)"
  unfolding sweep_def sweep_one_def read_defs Let_def
  by ((intro runs_rules home_rules; (simp; fail)?)+)

lemma home_consent_access [home_rules]:
  "runs (at_home g) (record_consent g ci)"
  "runs (at_home g) (listForSubject g e)"
  "runs (at_home g) (currentState g e pu)"
  "runs (at_home g) (listForTender g i)"
  "runs (at_home g) (grant_access g u i ro gb)"
  "runs (at_home g) (revoke_access g u i rb)"
  "runs (at_home g) (get_contact g)"
  "runs (at_home g) (require_contact g)"
  "runs (at_home g) (upsert_contact g di u)"
  unfolding record_consent_def listForSubject_def currentState_def listForTender_def grant_access_def
    revoke_access_def get_contact_def require_contact_def upsert_contact_def read_defs Let_def
  by ((intro runs_rules home_rules; (simp; fail)?)+)

lemma home_authority [home_rules]:
  "runs (at_home g) (notifyAuthority g inc u)"
  "runs (at_home g) (outcome_audit a inc g u d)"
  unfolding notifyAuthority_def outcome_audit_def read_defs Let_def
  by ((intro runs_rules home_rules; (simp; fail)?)+)

lemma home_training_service [home_rules]:
  "runs (at_home g) (training_list g es t)"
  "runs (at_home g) (training_summarize g t)"
  "runs (at_home g) (training_get i g t)"
  "runs (at_home g) (training_service_create g u ti)"
  "runs (at_home g) (training_service_update i g tp)"
  "runs (at_home g) (training_service_remove i g)"
  unfolding training_list_def training_summarize_def training_get_def training_service_create_def
    training_service_update_def training_service_remove_def validate_training_def
    validate_training_patch_def read_defs Let_def
  by ((intro runs_rules home_rules; (simp; fail)?)+)

lemma home_ingestion [home_rules]:
  "runs (at_home g) (job_list g st k)"
  "runs (at_home g) (job_get i g)"
  "runs (at_home g) (key_list g)"
  "runs (at_home g) (mint hs raw g u n)"
  "runs (at_home g) (key_revoke i g)"
  unfolding job_list_def job_get_def key_list_def mint_def key_revoke_def read_defs Let_def
  by ((intro runs_rules home_rules; (simp; fail)?)+)

lemma home_job_enqueue [home_rules]: "cij_org d = g \<Longrightarrow> runs (at_home g) (job_enqueue d)"
  unfolding job_enqueue_def by ((intro runs_rules home_rules; (simp; fail)?)+)

lemma home_webhooks [home_rules]:
  "runs (at_home g) (hook_list g)"
  "runs (at_home g) (hook_get i g)"
  "runs (at_home g) (hook_create pu pr sc g u wi)"
  "runs (at_home g) (hook_update pu pr i g u wu)"
  "runs (at_home g) (rotateSecret sc i g u)"
  "runs (at_home g) (hook_remove i g u)"
  unfolding hook_list_def hook_get_def hook_create_def hook_update_def rotateSecret_def hook_remove_def
    hook_audit_def validateUrl_def validateEventTypes_def read_defs Let_def
  by ((intro runs_rules home_rules; (simp; fail)?)+)

lemma home_compliance_service [home_rules]:
  "runs (at_home g) (updateItem i g ui)"
  "runs (at_home g) (links_listForItem i g)"
  "runs (at_home g) (link_evidence i d g n)"
  "runs (at_home g) (unlink_evidence i d g)"
  "runs (at_home g) (matrices_listForTender i g)"
  "runs (at_home g) (getByVersion i v g)"
  "runs (at_home g) (effective_requirements i g rqs)"
  unfolding updateItem_def links_listForItem_def link_evidence_def unlink_evidence_def
    matrices_listForTender_def getByVersion_def effective_requirements_def read_defs Let_def
  by ((intro runs_rules home_rules; (simp; fail)?)+)

lemma home_generateAndPersist [home_rules]:
  "runs (at_home g) (generateAndPersist pd i g rqs ev t dd)"
  unfolding generateAndPersist_def read_defs Let_def
  by ((intro runs_rules home_rules; (simp; fail)?)+) (auto simp: to_create_item_def)

lemma home_billing_export [home_rules]:
  "runs (at_home g) (export_pack i rqs dd v ov g u)"
  "runs (at_home g) (forOrg pe g)"
  "runs (at_home g) (usage_today g t)"
  "runs (at_home g) (me_endpoint (Some (u, g)))"
  unfolding export_pack_def forOrg_def usage_today_def me_endpoint_def me_def read_defs Let_def
  by ((intro runs_rules home_rules; (simp; fail)?)+)

lemma home_document_endpoints [home_rules]:
  "(\<And>k b t. quiet (put k b t)) \<Longrightarrow> runs (at_home g) (upload_document put et f ub g)"
  "(\<And>k. quiet (presign k)) \<Longrightarrow> runs (at_home g) (download_document presign i g ro)"
  unfolding upload_document_def download_document_def Let_def
  by ((intro runs_rules home_rules home_quiet; (simp; fail)?)+)

lemma home_dispatch [home_rules]:
  assumes "\<And>d m. d \<in> set drivers \<Longrightarrow> quiet (dv_send d m)"
  shows "runs (at_home g) (dispatch_send drivers c m)"
proof (cases "map_of (byChannel drivers) c")
  case (Some d)
  have "snd ` set (fold (\<lambda>d m. AList.update (dv_channel d) d m) ds acc) \<subseteq> set ds \<union> snd ` set acc" for ds acc
  proof (induction ds arbitrary: acc)
    case (Cons x ds)
    have "snd ` set (AList.update (dv_channel x) x acc) \<subseteq> insert x (snd ` set acc)"
      by (induction acc) auto
    with Cons [of "AList.update (dv_channel x) x acc"] show ?case
      by (simp only: fold_simps list.set) blast
  qed simp
  from this [of drivers "[]"] have "d \<in> set drivers"
    using map_of_SomeD [OF Some] by (force simp: byChannel_def)
  then show ?thesis
    using Some assms by (simp add: dispatch_send_def home_quiet)
qed (simp add: dispatch_send_def runs_throw)

lemma home_notifyForIncident [home_rules]:
  "(\<And>d m. d \<in> set drivers \<Longrightarrow> quiet (dv_send d m)) \<Longrightarrow>
     runs (at_home g) (notifyForIncident drivers reg g i u)"
  unfolding notifyForIncident_def by ((intro runs_rules home_rules; (simp; fail)?)+)

lemma home_llm [home_rules]:
  "runs (at_home g) (assertCanSpend bc g)"
  "ri_org ri = g \<Longrightarrow> runs (at_home g) (usage_recordOk re ri)"
  "runs (at_home g) (usage_recordError g a b c)" "runs (at_home g) (bump_now g k n)"
  unfolding assertCanSpend_def usage_recordOk_def usage_recordError_def bump_now_def quietly_def usage_bump_def read_defs Let_def
  by ((intro runs_rules home_rules; (simp; fail)?)+)

lemma home_record_call [home_rules]: "runs (at_home g) (record_call cf g t lr)"
  unfolding record_call_def by ((intro runs_rules home_rules; (simp; fail)?)+)

lemma home_run_model [home_rules]:
  "(\<And>pr. quiet (lp_generate (cf_llm cf) pr)) \<Longrightarrow> runs (at_home g) (run_model cf g t)"
  unfolding run_model_def
  by (rule runs_tryA [OF at_home_preorder home_quiet]) (simp, (intro runs_rules home_rules at_home_preorder)+)

lemma home_sector [home_rules]:
  "(\<And>pr. quiet (lp_generate (cf_llm cf) pr)) \<Longrightarrow> runs (at_home g) (classify cf i g u f)"
  "runs (at_home g) (override_sector i g u se ca co)"
  unfolding classify_def override_sector_def
  by ((intro runs_rules home_rules; (simp; fail)?)+)

subsection \<open>Handlers\<close>

text \<open>
  The object store, the notification drivers and the language model are outside the process: a
  call of one of them leaves the tables alone.
\<close>

definition quiet_services :: "services \<Rightarrow> bool" where
  "quiet_services sv \<longleftrightarrow>
     (\<forall>k b t. quiet (sv_put sv k b t)) \<and> (\<forall>k. quiet (sv_presign sv k)) \<and>
     (\<forall>d \<in> set (sv_drivers sv). \<forall>m. quiet (dv_send d m)) \<and>
     (\<forall>q. quiet (lp_generate (cf_llm (sv_classifier sv)) q))"

lemma home_requests_read [home_rules]:
  "runs (at_home g) (body_ok sv d r)" "runs (at_home g) (validated va d kvs)" "runs (at_home g) (parse_int_pipe s)"
  "runs (at_home g) (null_training_member kvs)"
  unfolding body_ok_def validated_def parse_int_pipe_def null_training_member_def
  by ((intro runs_rules home_rules; (simp; fail)?)+)

lemma home_auth_handlers:
  assumes "quiet_services sv"
  shows "runs (at_home (sp_org p)) (AuthController_me sv p r)"
  using assms unfolding quiet_services_def AuthController_me_def read_defs Let_def
  by ((intro runs_rules home_rules; (auto; fail)?)+)

lemma home_audit_handlers:
  assumes "quiet_services sv"
  shows "runs (at_home (sp_org p)) (AuditController_recent sv p r)"
  using assms unfolding quiet_services_def AuditController_recent_def read_defs Let_def
  by ((intro runs_rules home_rules; (auto; fail)?)+)

lemma home_clientCompany_handlers:
  assumes "quiet_services sv"
  shows "runs (at_home (sp_org p)) (ClientCompanyController_list sv p r)"
    "runs (at_home (sp_org p)) (ClientCompanyController_get sv p r)"
    "runs (at_home (sp_org p)) (ClientCompanyController_create sv p r)"
    "runs (at_home (sp_org p)) (ClientCompanyController_update sv p r)"
    "runs (at_home (sp_org p)) (ClientCompanyController_remove sv p r)"
  using assms unfolding quiet_services_def ClientCompanyController_list_def ClientCompanyController_get_def
    ClientCompanyController_create_def ClientCompanyController_update_def
    ClientCompanyController_remove_def read_defs Let_def
  by ((intro runs_rules home_rules; (auto; fail)?)+)

lemma home_tender_handlers:
  assumes "quiet_services sv"
  shows "runs (at_home (sp_org p)) (TenderController_intake sv p r)"
    "runs (at_home (sp_org p)) (TenderController_list sv p r)"
    "runs (at_home (sp_org p)) (TenderController_get sv p r)"
    "runs (at_home (sp_org p)) (TenderController_updateStatus sv p r)"
    "runs (at_home (sp_org p)) (TenderController_remove sv p r)"
  using assms unfolding quiet_services_def TenderController_intake_def TenderController_list_def TenderController_get_def
    TenderController_updateStatus_def TenderController_remove_def read_defs Let_def
  by ((intro runs_rules home_rules; (auto; fail)?)+)

lemma home_documentVault_handlers:
  assumes "quiet_services sv"
  shows "runs (at_home (sp_org p)) (DocumentVaultController_register sv p r)"
    "runs (at_home (sp_org p)) (DocumentVaultController_list sv p r)"
    "runs (at_home (sp_org p)) (DocumentVaultController_expiring sv p r)"
    "runs (at_home (sp_org p)) (DocumentVaultController_get sv p r)"
    "runs (at_home (sp_org p)) (DocumentVaultController_evidenceLinks sv p r)"
    "runs (at_home (sp_org p)) (DocumentVaultController_setState sv p r)"
  using assms unfolding quiet_services_def DocumentVaultController_register_def DocumentVaultController_list_def
    DocumentVaultController_expiring_def DocumentVaultController_get_def
    DocumentVaultController_evidenceLinks_def DocumentVaultController_setState_def read_defs
    Let_def
  by ((intro runs_rules home_rules; (auto; fail)?)+)

lemma home_documentUpload_handlers:
  assumes "quiet_services sv"
  shows "runs (at_home (sp_org p)) (DocumentUploadController_upload sv p r)"
    "runs (at_home (sp_org p)) (DocumentUploadController_download sv p r)"
  using assms unfolding quiet_services_def DocumentUploadController_upload_def DocumentUploadController_download_def read_defs Let_def
  by ((intro runs_rules home_rules; (auto; fail)?)+)

lemma home_fitScoring_handlers:
  assumes "quiet_services sv"
  shows "runs (at_home (sp_org p)) (FitScoringController_compute sv p r)"
    "runs (at_home (sp_org p)) (FitScoringController_override sv p r)"
  using assms unfolding quiet_services_def FitScoringController_compute_def FitScoringController_override_def read_defs Let_def
  by ((intro runs_rules home_rules; (auto; fail)?)+)

lemma home_compliance_handlers:
  assumes "quiet_services sv"
  shows "runs (at_home (sp_org p)) (ComplianceController_generate sv p r)"
    "runs (at_home (sp_org p)) (ComplianceController_list sv p r)"
    "runs (at_home (sp_org p)) (ComplianceController_getByVersion sv p r)"
  using assms unfolding quiet_services_def ComplianceController_generate_def ComplianceController_list_def
    ComplianceController_getByVersion_def read_defs Let_def
  by ((intro runs_rules home_rules; (auto; fail)?)+)

lemma home_complianceItem_handlers:
  assumes "quiet_services sv"
  shows "runs (at_home (sp_org p)) (ComplianceItemController_update sv p r)"
    "runs (at_home (sp_org p)) (ComplianceItemController_list sv p r)"
    "runs (at_home (sp_org p)) (ComplianceItemController_link sv p r)"
    "runs (at_home (sp_org p)) (ComplianceItemController_unlink sv p r)"
  using assms unfolding quiet_services_def ComplianceItemController_update_def ComplianceItemController_list_def
    ComplianceItemController_link_def ComplianceItemController_unlink_def read_defs Let_def
  by ((intro runs_rules home_rules; (auto; fail)?)+)

lemma home_tenderRequirement_handlers:
  assumes "quiet_services sv"
  shows "runs (at_home (sp_org p)) (TenderRequirementController_list sv p r)"
    "runs (at_home (sp_org p)) (TenderRequirementController_createBulk sv p r)"
  using assms unfolding quiet_services_def TenderRequirementController_list_def TenderRequirementController_createBulk_def read_defs
    Let_def
  by ((intro runs_rules home_rules; (auto; fail)?)+)

lemma home_export_handlers:
  assumes "quiet_services sv"
  shows "runs (at_home (sp_org p)) (ExportController_build sv p r)"
  using assms unfolding quiet_services_def ExportController_build_def read_defs Let_def
  by ((intro runs_rules home_rules; (auto; fail)?)+)

lemma home_pdpl_handlers:
  assumes "quiet_services sv"
  shows "runs (at_home (sp_org p)) (PdplController_inventory sv p r)"
    "runs (at_home (sp_org p)) (PdplController_residency sv p r)"
  using assms unfolding quiet_services_def PdplController_inventory_def PdplController_residency_def read_defs Let_def
  by ((intro runs_rules home_rules; (auto; fail)?)+)

lemma home_dataSubject_handlers:
  assumes "quiet_services sv"
  shows "runs (at_home (sp_org p)) (DataSubjectController_create sv p r)"
    "runs (at_home (sp_org p)) (DataSubjectController_list sv p r)"
    "runs (at_home (sp_org p)) (DataSubjectController_get sv p r)"
    "runs (at_home (sp_org p)) (DataSubjectController_approve sv p r)"
    "runs (at_home (sp_org p)) (DataSubjectController_deny sv p r)"
    "runs (at_home (sp_org p)) (DataSubjectController_execute sv p r)"
  using assms unfolding quiet_services_def DataSubjectController_create_def DataSubjectController_list_def DataSubjectController_get_def
    DataSubjectController_approve_def DataSubjectController_deny_def
    DataSubjectController_execute_def read_defs Let_def
  by ((intro runs_rules home_rules; (auto; fail)?)+)

lemma home_consentLedger_handlers:
  assumes "quiet_services sv"
  shows "runs (at_home (sp_org p)) (ConsentLedgerController_create sv p r)"
    "runs (at_home (sp_org p)) (ConsentLedgerController_list sv p r)"
    "runs (at_home (sp_org p)) (ConsentLedgerController_check sv p r)"
  using assms unfolding quiet_services_def ConsentLedgerController_create_def ConsentLedgerController_list_def
    ConsentLedgerController_check_def read_defs Let_def
  by ((intro runs_rules home_rules; (auto; fail)?)+)

lemma home_tenderAccess_handlers:
  assumes "quiet_services sv"
  shows "runs (at_home (sp_org p)) (TenderAccessController_list sv p r)"
    "runs (at_home (sp_org p)) (TenderAccessController_grant sv p r)"
    "runs (at_home (sp_org p)) (TenderAccessController_revoke sv p r)"
  using assms unfolding quiet_services_def TenderAccessController_list_def TenderAccessController_grant_def
    TenderAccessController_revoke_def read_defs Let_def
  by ((intro runs_rules home_rules; (auto; fail)?)+)

lemma home_retentionAction_handlers:
  assumes "quiet_services sv"
  shows "runs (at_home (sp_org p)) (RetentionActionController_list sv p r)"
    "runs (at_home (sp_org p)) (RetentionActionController_get sv p r)"
    "runs (at_home (sp_org p)) (RetentionActionController_request sv p r)"
    "runs (at_home (sp_org p)) (RetentionActionController_approve sv p r)"
    "runs (at_home (sp_org p)) (RetentionActionController_deny sv p r)"
    "runs (at_home (sp_org p)) (RetentionActionController_sweep sv p r)"
  using assms unfolding quiet_services_def RetentionActionController_list_def RetentionActionController_get_def
    RetentionActionController_request_def RetentionActionController_approve_def
    RetentionActionController_deny_def RetentionActionController_sweep_def read_defs Let_def
  by ((intro runs_rules home_rules; (auto; fail)?)+)

lemma home_dpoContact_handlers:
  assumes "quiet_services sv"
  shows "runs (at_home (sp_org p)) (DpoContactController_get sv p r)"
    "runs (at_home (sp_org p)) (DpoContactController_upsert sv p r)"
  using assms unfolding quiet_services_def DpoContactController_get_def DpoContactController_upsert_def read_defs Let_def
  by ((intro runs_rules home_rules; (auto; fail)?)+)

lemma home_dpoTraining_handlers:
  assumes "quiet_services sv"
  shows "runs (at_home (sp_org p)) (DpoTrainingController_list sv p r)"
    "runs (at_home (sp_org p)) (DpoTrainingController_summary sv p r)"
    "runs (at_home (sp_org p)) (DpoTrainingController_get sv p r)"
    "runs (at_home (sp_org p)) (DpoTrainingController_create sv p r)"
    "runs (at_home (sp_org p)) (DpoTrainingController_update sv p r)"
    "runs (at_home (sp_org p)) (DpoTrainingController_remove sv p r)"
  using assms unfolding quiet_services_def DpoTrainingController_list_def DpoTrainingController_summary_def
    DpoTrainingController_get_def DpoTrainingController_create_def
    DpoTrainingController_update_def DpoTrainingController_remove_def read_defs Let_def
  by ((intro runs_rules home_rules; (auto; fail)?)+)

lemma home_authorityNotification_handlers:
  assumes "quiet_services sv"
  shows "runs (at_home (sp_org p)) (AuthorityNotificationController_trigger sv p r)"
  using assms unfolding quiet_services_def AuthorityNotificationController_trigger_def read_defs Let_def
  by ((intro runs_rules home_rules; (auto; fail)?)+)

lemma home_ingestion_handlers:
  assumes "quiet_services sv"
  shows "runs (at_home (sp_org p)) (IngestionController_enqueue sv p r)"
    "runs (at_home (sp_org p)) (IngestionController_list sv p r)"
    "runs (at_home (sp_org p)) (IngestionController_get sv p r)"
  using assms unfolding quiet_services_def IngestionController_enqueue_def IngestionController_list_def IngestionController_get_def
    read_defs Let_def
  by ((intro runs_rules home_rules; (auto; fail)?)+)

lemma home_users_handlers:
  assumes "quiet_services sv"
  shows "runs (at_home (sp_org p)) (UsersController_list sv p r)"
  using assms unfolding quiet_services_def UsersController_list_def read_defs Let_def
  by ((intro runs_rules home_rules; (auto; fail)?)+)

lemma home_webhookSubscription_handlers:
  assumes "quiet_services sv"
  shows "runs (at_home (sp_org p)) (WebhookSubscriptionController_list sv p r)"
    "runs (at_home (sp_org p)) (WebhookSubscriptionController_get sv p r)"
    "runs (at_home (sp_org p)) (WebhookSubscriptionController_create sv p r)"
    "runs (at_home (sp_org p)) (WebhookSubscriptionController_update sv p r)"
    "runs (at_home (sp_org p)) (WebhookSubscriptionController_rotate sv p r)"
    "runs (at_home (sp_org p)) (WebhookSubscriptionController_remove sv p r)"
  using assms unfolding quiet_services_def WebhookSubscriptionController_list_def WebhookSubscriptionController_get_def
    WebhookSubscriptionController_create_def WebhookSubscriptionController_update_def
    WebhookSubscriptionController_rotate_def WebhookSubscriptionController_remove_def read_defs
    Let_def
  by ((intro runs_rules home_rules; (auto; fail)?)+)

lemma home_billing_handlers:
  assumes "quiet_services sv"
  shows "runs (at_home (sp_org p)) (BillingController_plans sv p r)"
    "runs (at_home (sp_org p)) (BillingController_mySubscription sv p r)"
    "runs (at_home (sp_org p)) (BillingController_todayUsage sv p r)"
  using assms unfolding quiet_services_def BillingController_plans_def BillingController_mySubscription_def
    BillingController_todayUsage_def read_defs Let_def
  by ((intro runs_rules home_rules; (auto; fail)?)+)

lemma home_sectorClassifier_handlers:
  assumes "quiet_services sv"
  shows "runs (at_home (sp_org p)) (SectorClassifierController_classify sv p r)"
    "runs (at_home (sp_org p)) (SectorClassifierController_override sv p r)"
  using assms unfolding quiet_services_def SectorClassifierController_classify_def SectorClassifierController_override_def read_defs
    Let_def
  by ((intro runs_rules home_rules; (auto; fail)?)+)

lemma home_ingestionApiKey_handlers:
  assumes "quiet_services sv"
  shows "runs (at_home (sp_org p)) (IngestionApiKeyController_list sv p r)"
    "runs (at_home (sp_org p)) (IngestionApiKeyController_mint sv p r)"
    "runs (at_home (sp_org p)) (IngestionApiKeyController_revoke sv p r)"
  using assms unfolding quiet_services_def IngestionApiKeyController_list_def IngestionApiKeyController_mint_def
    IngestionApiKeyController_revoke_def read_defs Let_def
  by ((intro runs_rules home_rules; (auto; fail)?)+)

lemma home_ingestionProxy_handlers:
  assumes "quiet_services sv"
  shows "runs (at_home (sp_org p)) (IngestionProxyController_list sv p r)"
    "runs (at_home (sp_org p)) (IngestionProxyController_trigger sv p r)"
  using assms unfolding quiet_services_def IngestionProxyController_list_def IngestionProxyController_trigger_def read_defs Let_def
  by ((intro runs_rules home_rules; (auto; fail)?)+)

lemmas home_handlers =
  home_auth_handlers home_audit_handlers home_clientCompany_handlers home_tender_handlers
  home_documentVault_handlers home_documentUpload_handlers home_fitScoring_handlers
  home_compliance_handlers home_complianceItem_handlers home_tenderRequirement_handlers
  home_export_handlers home_pdpl_handlers home_dataSubject_handlers home_consentLedger_handlers
  home_tenderAccess_handlers home_retentionAction_handlers home_dpoContact_handlers
  home_dpoTraining_handlers home_authorityNotification_handlers home_ingestion_handlers
  home_users_handlers home_webhookSubscription_handlers home_billing_handlers
  home_sectorClassifier_handlers home_ingestionApiKey_handlers home_ingestionProxy_handlers


end
