(* ===== verification/Http_Tenancy.thy ===== *)
theory Http_Tenancy
  imports Http Tenancy
begin

text \<open>
  Tenant isolation at the HTTP interface: whatever the signed-in users of other organisations send,
  the rows of an organisation stay as they are. Every handler keeps to its organisation
  (\<open>Tenancy\<close>), the guards hand it the organisation of the verified token (\<open>Http\<close>), and the audit
  interceptor and the exception filter write no tenant table.
\<close>

subsection \<open>Every route\<close>

definition route_home :: "services \<Rightarrow> route \<Rightarrow> bool" where
  "route_home sv rt \<longleftrightarrow> rt_name rt \<in> set open_routes \<or>
     (\<forall>p r. runs (at_home (sp_org p)) (rt_run rt sv (Signed_in p) r))"

lemma tables_home:
  assumes "quiet_services sv"
  shows
    "list_all (route_home sv) health_routes"
    "list_all (route_home sv) auth_routes"
    "list_all (route_home sv) audit_routes"
    "list_all (route_home sv) clientCompany_routes"
    "list_all (route_home sv) tender_routes"
    "list_all (route_home sv) documentVault_routes"
    "list_all (route_home sv) documentUpload_routes"
    "list_all (route_home sv) fitScoring_routes"
    "list_all (route_home sv) compliance_routes"
    "list_all (route_home sv) complianceItem_routes"
    "list_all (route_home sv) tenderRequirement_routes"
    "list_all (route_home sv) export_routes"
    "list_all (route_home sv) pdpl_routes"
    "list_all (route_home sv) dataSubject_routes"
    "list_all (route_home sv) consentLedger_routes"
    "list_all (route_home sv) tenderAccess_routes"
    "list_all (route_home sv) retentionAction_routes"
    "list_all (route_home sv) retentionScheduled_routes"
    "list_all (route_home sv) dpoContact_routes"
    "list_all (route_home sv) dpoTraining_routes"
    "list_all (route_home sv) authorityNotification_routes"
    "list_all (route_home sv) ingestion_routes"
    "list_all (route_home sv) webhook_routes"
    "list_all (route_home sv) inboundEmail_routes"
    "list_all (route_home sv) users_routes"
    "list_all (route_home sv) webhookSubscription_routes"
    "list_all (route_home sv) billing_routes"
    "list_all (route_home sv) sectorClassifier_routes"
    "list_all (route_home sv) ingestionPortal_routes"
    "list_all (route_home sv) ingestionApiKey_routes"
    "list_all (route_home sv) ingestionProxy_routes"
  by (simp_all add: route_home_def with_session_def home_handlers [OF assms] open_routes_def
      health_routes_def auth_routes_def audit_routes_def clientCompany_routes_def
      tender_routes_def documentVault_routes_def documentUpload_routes_def fitScoring_routes_def
      compliance_routes_def complianceItem_routes_def tenderRequirement_routes_def
      export_routes_def pdpl_routes_def dataSubject_routes_def consentLedger_routes_def
      tenderAccess_routes_def retentionAction_routes_def retentionScheduled_routes_def
      dpoContact_routes_def dpoTraining_routes_def authorityNotification_routes_def
      ingestion_routes_def webhook_routes_def inboundEmail_routes_def users_routes_def
      webhookSubscription_routes_def billing_routes_def sectorClassifier_routes_def
      ingestionPortal_routes_def ingestionApiKey_routes_def ingestionProxy_routes_def)

lemma routes_home:
  assumes "quiet_services sv" and "rt \<in> set all_routes"
  shows "route_home sv rt"
proof -
  have "list_all (route_home sv) all_routes"
    unfolding list_all_routes by (intro conjI tables_home [OF assms(1)])
  then show ?thesis
    using assms(2) by (simp add: list_all_iff)
qed

subsection \<open>Whole requests\<close>

lemma home_audit_tap: "runs (at_home g) (audit_tap m req v)"
  unfolding audit_tap_def by (intro runs_rules home_rules at_home_preorder)

lemma home_audited: "runs (at_home g) m \<Longrightarrow> runs (at_home g) (audited rt c r m)"
  unfolding audited_def by (intro runs_rules home_audit_tap at_home_preorder)

text \<open>A request of a signed-in user of another organisation than \<open>h\<close>, or of nobody, to a guarded route.\<close>

definition foreign :: "router \<Rightarrow> services \<Rightarrow> ident \<Rightarrow> http_in \<Rightarrow> bool" where
  "foreign router sv h r \<longleftrightarrow>
     (case session_of sv r of None \<Rightarrow> True | Some p \<Rightarrow> sp_org p \<noteq> h) \<and>
     (case router all_routes (hi_verb r) (hi_path r) of
        None \<Rightarrow> True | Some (rt, ps) \<Rightarrow> rt_name rt \<notin> set open_routes)"

definition spares :: "ident \<Rightarrow> world \<Rightarrow> world \<Rightarrow> bool" where
  "spares h w w' \<longleftrightarrow> (store_ok w \<longrightarrow> store_ok w' \<and> tenant_data h w' = tenant_data h w)"

lemma at_home_spares: "at_home g w w' \<Longrightarrow> g \<noteq> h \<Longrightarrow> spares h w w'"
  by (simp add: at_home_def spares_def)

lemma spares_refl [simp]: "spares h w w"
  by (simp add: spares_def)

lemma spares_tick: "spares h w w' \<Longrightarrow> spares h w (w'\<lparr>w_ticks := n\<rparr>)"
  by (simp add: spares_def store_ok_def tenant_data_def)

lemma serve_spares:
  assumes "selects_registered router" and "quiet_services sv" and "foreign router sv h r"
  shows "spares h w (snd (serve router sv r w))"
proof (cases "router all_routes (hi_verb r) (hi_path r)")
  case None
  then show ?thesis by (simp add: serve_def)
next
  case (Some x)
  obtain rt ps where x: "x = (rt, ps)" by fastforce
  have closed: "rt_name rt \<notin> set open_routes"
    using assms(3) Some x by (simp add: foreign_def)
  have "rt \<in> set all_routes"
    using router_selects [OF assms(1)] Some x by simp
  then have "runs (at_home (sp_org p)) (rt_run rt sv (Signed_in p) r')" for p r'
    using routes_home [OF assms(2), of rt] closed by (simp add: route_home_def)
  then have home: "runs (at_home (sp_org p)) (audited rt c r' (rt_run rt sv (Signed_in p) r'))" for p c r'
    by (rule home_audited)
  show ?thesis
    using serve_guarded [where r = r and sv = sv and w = w, OF assms(1)] Some x closed assms(3) at_home_spares [OF runsD [OF home]]
    by (auto simp: foreign_def split: option.splits if_splits)
qed

lemma respond_spares:
  assumes "selects_registered router" and "quiet_services sv" and "foreign router sv h r"
  shows "spares h w (snd (respond router sv r w))"
proof -
  obtain v w' where v: "serve router sv r w = (v, w')" by fastforce
  have "spares h w w'"
    using serve_spares [OF assms, of w] v by simp
  then show ?thesis
    by (auto simp: respond_def v spares_tick split: sum.splits prod.splits option.splits)
qed


text \<open>Somebody of organisation \<open>g\<close> sends two requests, with a token in the session cookie.\<close>

definition demo_services :: services where
  "demo_services = \<lparr>sv_validators = \<lparr>va_isEmail = (\<lambda>_. True), va_isUrl = (\<lambda>_. True), va_isDateString = (\<lambda>_. True)\<rparr>,
     sv_date = (\<lambda>_. 0), sv_number = (\<lambda>_. None), sv_env = (\<lambda>_. None), sv_put = (\<lambda>_ _ _. ret ()),
     sv_presign = ret, sv_errorText = (\<lambda>_. []), sv_parseUrl = (\<lambda>_. None), sv_hookSecret = ''s'',
     sv_keyHash = (\<lambda>s. s), sv_compare = (=), sv_rawKey = ''k'', sv_drivers = [],
     sv_incidents = \<lparr>rg_counter = 0, rg_events = []\<rparr>,
     sv_classifier = \<lparr>cf_hash = (\<lambda>s. s), cf_llm = \<lparr>lp_name = ''mock'', lp_generate = (\<lambda>_. throw (Plain ''off''))\<rparr>,
       cf_budget = \<lparr>bg_maxRequests = None, bg_maxCost = None\<rparr>, cf_rates = \<lparr>re_proIn = 0, re_proOut = 0, re_flashIn = 0, re_flashOut = 0\<rparr>\<rparr>,
     sv_hmac = (\<lambda>k s. s), sv_int = (\<lambda>_. None), sv_parseJson = (\<lambda>_. None), sv_prices = \<lparr>pe_basic = None, pe_pro = None\<rparr>,
     sv_fetch = (\<lambda>_ _ _ _. Inl ''off''), sv_sign = (\<lambda>_. Inr ''t''), sv_bearer = (\<lambda>_. None),
     sv_verifyJwt = (\<lambda>t. Some \<lparr>jp_sub = ''u1'', jp_org = t, jp_role = Owner\<rparr>), sv_verifyOidc = (\<lambda>_ _. None)\<rparr>"

definition demo_request :: "string \<Rightarrow> string list \<Rightarrow> (string \<times> json) list \<Rightarrow> http_in" where
  "demo_request verb path body = \<lparr>hi_verb = verb, hi_path = path, hi_url = ''/client-companies'', hi_query = [],
     hi_body = body, hi_raw = None, hi_headers = (\<lambda>_. None),
     hi_cookies = Some [(''bidready_session'', JStr ''g'')], hi_file = None, hi_params = []\<rparr>"

definition demo_requests :: "http_in list" where
  "demo_requests =
     [demo_request ''POST'' [''client-companies''] [(''name'', JStr ''x'')],
      demo_request ''DELETE'' [''client-companies'', ''u''] []]"

lemma demo_find:
  "find_route all_routes ''POST'' [''client-companies''] = Some (clientCompany_routes ! 2, [])"
  "find_route all_routes ''DELETE'' [''client-companies'', ''u''] = Some (clientCompany_routes ! 4, [(''id'', ''u'')])"
proof -
  have "toLowerCase ''client-companies'' \<noteq> toLowerCase ''auth''"
    by code_simp
  then show "find_route all_routes ''POST'' [''client-companies''] = Some (clientCompany_routes ! 2, [])"
    "find_route all_routes ''DELETE'' [''client-companies'', ''u''] = Some (clientCompany_routes ! 4, [(''id'', ''u'')])"
    by (simp_all add: all_routes_def find_route_append health_routes_def auth_routes_def audit_routes_def
        clientCompany_routes_def)
qed

lemma demo_quiet: "quiet_services demo_services"
  by (simp add: quiet_services_def demo_services_def quiet_def)

lemma demo_foreign: "\<forall>r \<in> set demo_requests. foreign find_route demo_services ''h'' r"
proof -
  have "session_of demo_services (demo_request verb path b) = Some \<lparr>sp_userId = ''u1'', sp_org = ''g'', sp_role = Owner\<rparr>"
    for verb path b
    by (simp add: session_of_def session_token_def cookieExtractor_def session_cookie_name_def demo_request_def
        demo_services_def jwt_validate_def)
  moreover have "rt_name (clientCompany_routes ! 2) \<notin> set open_routes" "rt_name (clientCompany_routes ! 4) \<notin> set open_routes"
    by code_simp+
  ultimately show ?thesis
    by (simp add: demo_requests_def foreign_def) (simp add: demo_request_def demo_find)
qed


end
