(* ===== verification/Prisma_Repos.thy ===== *)
theory Prisma_Repos
  imports Boundary Rows
begin

text \<open>
  The repositories that run in production, \<^verbatim>\<open>repositories/prisma\<close>, and the guard that
  \<^verbatim>\<open>prisma.service.ts\<close> installs in front of the database client. The client itself is
  generated code and a parameter: it takes a query (model, action, arguments) and answers with
  rows or a count. A repository method is the queries it sends, in order, and what it makes of
  the answers.
\<close>

subsection \<open>The client\<close>

record query =
  qy_model :: string
  qy_action :: string
  qy_args :: qval

text \<open>An answer: one row or none, rows, the count of a batch edit, or the figures of an aggregate.\<close>

datatype 'r dbres =
    One "'r option" | All "'r list" | Affected nat
  | Totals int "int option" "rat option" | Groups "(string \<times> int option) list"

record 'r prisma =
  pc_query :: "query \<Rightarrow> 'r dbres wact"
  pc_batch :: "query list \<Rightarrow> 'r dbres list wact"
  pc_raw :: "string \<Rightarrow> string list \<Rightarrow> ident list wact"
  pc_transaction :: "'r dbres wact \<Rightarrow> 'r dbres wact"

definition affected :: "'r dbres \<Rightarrow> nat" where
  "affected a = (case a of Affected n \<Rightarrow> n | _ \<Rightarrow> 0)"

subsection \<open>Arguments as JavaScript objects\<close>

definition qs :: "string \<Rightarrow> qval" where "qs s = QPrim (JStr s)"
definition qi :: "int \<Rightarrow> qval" where "qi n = QPrim (jint n)"
definition qd :: "time \<Rightarrow> qval" where "qd t = QPrim (JDate t)"
definition qb :: "bool \<Rightarrow> qval" where "qb b = QPrim (JBool b)"
definition qr :: "rat \<Rightarrow> qval" where "qr x = QPrim (JNum x)"

text \<open>\<open>nul f v\<close> is \<^verbatim>\<open>v ?? null\<close>, \<open>und f v\<close> a member that may be \<^verbatim>\<open>undefined\<close>, \<open>mem k f v\<close> the
  spread \<^verbatim>\<open>...(v !== undefined ? {k: v} : {})\<close>.\<close>

definition nul :: "('a \<Rightarrow> qval) \<Rightarrow> 'a option \<Rightarrow> qval" where
  "nul f v = (case v of None \<Rightarrow> QNull | Some x \<Rightarrow> f x)"

definition und :: "('a \<Rightarrow> qval) \<Rightarrow> 'a option \<Rightarrow> qval" where
  "und f v = (case v of None \<Rightarrow> QUndef | Some x \<Rightarrow> f x)"

definition mem :: "string \<Rightarrow> ('a \<Rightarrow> qval) \<Rightarrow> 'a option \<Rightarrow> (string \<times> qval) list" where
  "mem k f v = (case v of None \<Rightarrow> [] | Some x \<Rightarrow> [(k, f x)])"

definition connect :: "string \<Rightarrow> ident \<Rightarrow> string \<times> qval" where
  "connect rel i = (rel, QObj [(''connect'', QObj [(''id'', qs i)])])"

definition qry :: "string \<Rightarrow> string \<Rightarrow> (string \<times> qval) list \<Rightarrow> query" where
  "qry model action args = \<lparr>qy_model = model, qy_action = action, qy_args = QObj args\<rparr>"

definition filt :: "(string \<times> qval) list \<Rightarrow> string \<times> qval" where
  "filt kvs = (''where'', QObj kvs)"

definition order_by :: "string \<Rightarrow> string \<Rightarrow> string \<times> qval" where
  "order_by k d = (''orderBy'', QObj [(k, qs d)])"

definition set_data :: "(string \<times> qval) list \<Rightarrow> string \<times> qval" where
  "set_data kvs = (''data'', QObj kvs)"

text \<open>
  The two-step update of most repositories: edit the rows with this id in this organisation, fail
  when there were none, and read the row back.
\<close>

definition update_query :: "string \<Rightarrow> ident \<Rightarrow> ident \<Rightarrow> (string \<times> qval) list \<Rightarrow> query" where
  "update_query model i org d =
     qry model ''updateMany'' [filt [(''id'', qs i), (''organizationId'', qs org)], set_data d]"

definition update_then_fetch ::
    "'r prisma \<Rightarrow> string \<Rightarrow> string \<Rightarrow> ident \<Rightarrow> ident \<Rightarrow> (string \<times> qval) list \<Rightarrow> 'r dbres wact" where
  "update_then_fetch c model err i org d =
     bindA (pc_query c (update_query model i org d)) (\<lambda>result.
     bindA (throwIf (affected result = 0) (Plain err)) (\<lambda>_.
     pc_query c (qry model ''findUniqueOrThrow'' [filt [(''id'', qs i)]])))"

definition delete_scoped :: "'r prisma \<Rightarrow> string \<Rightarrow> (string \<times> qval) list \<Rightarrow> bool wact" where
  "delete_scoped c model wh =
     bindA (pc_query c (qry model ''deleteMany'' [filt wh])) (\<lambda>result. ret (affected result > 0))"

subsection \<open>Organisations\<close>

definition porgs_findAll :: "'r prisma \<Rightarrow> 'r dbres wact" where
  "porgs_findAll c =
     pc_query c (qry ''Organization'' ''findMany'' [])"

definition porgs_findById :: "'r prisma \<Rightarrow> ident \<Rightarrow> 'r dbres wact" where
  "porgs_findById c i =
     pc_query c (qry ''Organization'' ''findUnique'' [filt [(''id'', qs i)]])"

definition porgs_create :: "'r prisma \<Rightarrow> string \<Rightarrow> 'r dbres wact" where
  "porgs_create c name =
     pc_query c (qry ''Organization'' ''create'' [set_data [(''name'', qs name)]])"

definition porgs_update :: "'r prisma \<Rightarrow> ident \<Rightarrow> update_organization \<Rightarrow> 'r dbres wact" where
  "porgs_update c i d =
     bindA (pc_query c (qry ''Organization'' ''update'' [filt [(''id'', qs i)],
       set_data [(''name'', und qs (uog_name d))]])) (\<lambda>_.
     pc_query c (qry ''Organization'' ''findUniqueOrThrow'' [filt [(''id'', qs i)]]))"

definition porgs_delete :: "'r prisma \<Rightarrow> ident \<Rightarrow> bool wact" where
  "porgs_delete c i =
     bindA (pc_query c (qry ''Organization'' ''delete'' [filt [(''id'', qs i)]])) (\<lambda>_. ret True)"

subsection \<open>Users\<close>

definition pusers_findAll :: "'r prisma \<Rightarrow> ident \<Rightarrow> 'r dbres wact" where
  "pusers_findAll c org =
     pc_query c (qry ''User'' ''findMany'' [filt [(''organizationId'', qs org)]])"

definition pusers_findById :: "'r prisma \<Rightarrow> ident \<Rightarrow> ident \<Rightarrow> 'r dbres wact" where
  "pusers_findById c i org =
     pc_query c (qry ''User'' ''findFirst'' [filt [(''id'', qs i), (''organizationId'',
       qs org)]])"

definition pusers_findByEmail :: "'r prisma \<Rightarrow> string \<Rightarrow> 'r dbres wact" where
  "pusers_findByEmail c email =
     pc_query c (qry ''User'' ''findFirst'' [filt [(''email'', qs email)]])"

definition pusers_create :: "'r prisma \<Rightarrow> create_user \<Rightarrow> 'r dbres wact" where
  "pusers_create c d =
     pc_query c (qry ''User'' ''create'' [set_data ([(''email'', qs (cus_email d)), (''name'',
       qs (cus_name d)), (''role'', qs (role_name (cus_role d))), (''password'',
       nul qs (cus_password d)), connect ''organization'' (cus_org d)])])"

definition pusers_update :: "'r prisma \<Rightarrow> ident \<Rightarrow> ident \<Rightarrow> update_user \<Rightarrow> 'r dbres wact" where
  "pusers_update c i org d =
     update_then_fetch c ''User'' ''User not found or not in organization'' i org ([(''email'',
       und qs (uus_email d)), (''name'', und qs (uus_name d)), (''role'',
       und (\<lambda>r. qs (role_name r)) (uus_role d))])"

definition pusers_anonymise :: "'r prisma \<Rightarrow> ident \<Rightarrow> ident \<Rightarrow> string \<Rightarrow> 'r dbres wact" where
  "pusers_anonymise c i org pseudonym =
     update_then_fetch c ''User'' ''User not found or not in organization'' i org [(''email'',
       qs pseudonym), (''name'', qs ''[erased]''), (''password'', QNull)]"

definition pusers_delete :: "'r prisma \<Rightarrow> ident \<Rightarrow> ident \<Rightarrow> bool wact" where
  "pusers_delete c i org =
     delete_scoped c ''User'' [(''id'', qs i), (''organizationId'', qs org)]"

subsection \<open>Client companies\<close>

definition pcompanies_findAll :: "'r prisma \<Rightarrow> ident \<Rightarrow> 'r dbres wact" where
  "pcompanies_findAll c org =
     pc_query c (qry ''ClientCompany'' ''findMany'' [filt [(''organizationId'', qs org)]])"

definition pcompanies_findById :: "'r prisma \<Rightarrow> ident \<Rightarrow> ident \<Rightarrow> 'r dbres wact" where
  "pcompanies_findById c i org =
     pc_query c (qry ''ClientCompany'' ''findFirst'' [filt [(''id'', qs i),
       (''organizationId'', qs org)]])"

definition pcompanies_create :: "'r prisma \<Rightarrow> create_company \<Rightarrow> 'r dbres wact" where
  "pcompanies_create c d =
     pc_query c (qry ''ClientCompany'' ''create'' [set_data ([(''name'', qs (ccc_name d)),
       connect ''organization'' (ccc_org d)])])"

definition pcompanies_update :: "'r prisma \<Rightarrow> ident \<Rightarrow> ident \<Rightarrow> update_company \<Rightarrow> 'r dbres wact" where
  "pcompanies_update c i org d =
     update_then_fetch c ''ClientCompany'' ''ClientCompany not found or not in organization'' i org ([(''name'',
       und qs (ucc_name d))])"

definition pcompanies_delete :: "'r prisma \<Rightarrow> ident \<Rightarrow> ident \<Rightarrow> bool wact" where
  "pcompanies_delete c i org =
     delete_scoped c ''ClientCompany'' [(''id'', qs i), (''organizationId'', qs org)]"

subsection \<open>Tenders\<close>

definition ptenders_findAll :: "'r prisma \<Rightarrow> ident \<Rightarrow> 'r dbres wact" where
  "ptenders_findAll c org =
     pc_query c (qry ''Tender'' ''findMany'' [filt [(''organizationId'', qs org)]])"

definition ptenders_findById :: "'r prisma \<Rightarrow> ident \<Rightarrow> ident \<Rightarrow> 'r dbres wact" where
  "ptenders_findById c i org =
     pc_query c (qry ''Tender'' ''findFirst'' [filt [(''id'', qs i), (''organizationId'',
       qs org)]])"

definition ptenders_create :: "'r prisma \<Rightarrow> create_tender \<Rightarrow> 'r dbres wact" where
  "ptenders_create c d =
     pc_query c (qry ''Tender'' ''create'' [set_data ([(''title'', qs (ctn_title d)),
       (''source'', qs (orElse (ctn_source d) ''manual'')), (''status'',
       qs (orElse (ctn_status d) ''intake'')), connect ''organization'' (ctn_org d),
       connect ''clientCompany'' (ctn_company d)])])"

definition ptenders_update :: "'r prisma \<Rightarrow> ident \<Rightarrow> ident \<Rightarrow> update_tender \<Rightarrow> 'r dbres wact" where
  "ptenders_update c i org d =
     update_then_fetch c ''Tender'' ''Tender not found or not in organization'' i org ([(''title'',
       und qs (utn_title d)), (''status'', und qs (utn_status d)), (''source'',
       und qs (utn_source d)), (''sector'', und (nul qs) (utn_sector d)), (''sectorCategory'',
       und (nul qs) (utn_sectorCategory d)), (''sectorConfidence'',
       und (nul qr) (utn_sectorConfidence d)), (''sectorClassifiedAt'',
       und (nul qd) (utn_sectorClassifiedAt d)), (''sectorInputHash'',
       und (nul qs) (utn_sectorInputHash d)), (''sectorModel'',
       und (nul qs) (utn_sectorModel d))])"

definition ptenders_delete :: "'r prisma \<Rightarrow> ident \<Rightarrow> ident \<Rightarrow> bool wact" where
  "ptenders_delete c i org =
     delete_scoped c ''Tender'' [(''id'', qs i), (''organizationId'', qs org)]"

subsection \<open>Documents\<close>

definition pdocuments_findAll :: "'r prisma \<Rightarrow> ident \<Rightarrow> 'r dbres wact" where
  "pdocuments_findAll c org =
     pc_query c (qry ''ClientDocument'' ''findMany'' [filt [(''organizationId'', qs org)]])"

definition pdocuments_findById :: "'r prisma \<Rightarrow> ident \<Rightarrow> ident \<Rightarrow> 'r dbres wact" where
  "pdocuments_findById c i org =
     pc_query c (qry ''ClientDocument'' ''findFirst'' [filt [(''id'', qs i),
       (''organizationId'', qs org)]])"

definition pdocuments_create :: "'r prisma \<Rightarrow> create_document \<Rightarrow> 'r dbres wact" where
  "pdocuments_create c d =
     pc_query c (qry ''ClientDocument'' ''create'' [set_data ([(''filename'',
       qs (ccd_filename d)), (''documentType'', qs (orElse (ccd_documentType d) ''other'')),
       (''sensitivity'', qs (orElse (ccd_sensitivity d) ''low'')), (''state'',
       qs (orElse (ccd_state d) ''active'')), (''expiresAt'', nul qd (ccd_expiresAt d)),
       (''storageKey'', nul qs (ccd_storageKey d)), (''contentType'',
       nul qs (ccd_contentType d)), (''sizeBytes'', nul qi (ccd_sizeBytes d)),
       connect ''clientCompany'' (ccd_company d), connect ''organization'' (ccd_org d)])])"

definition pdocuments_update :: "'r prisma \<Rightarrow> ident \<Rightarrow> ident \<Rightarrow> update_document \<Rightarrow> 'r dbres wact" where
  "pdocuments_update c i org d =
     update_then_fetch c ''ClientDocument'' ''ClientDocument not found or not in organization'' i org ([(''filename'',
       und qs (ucd_filename d)), (''documentType'', und qs (ucd_documentType d)),
       (''sensitivity'', und qs (ucd_sensitivity d)), (''state'', und qs (ucd_state d)),
       (''expiresAt'', und (nul qd) (ucd_expiresAt d)), (''storageKey'',
       und (nul qs) (ucd_storageKey d)), (''contentType'', und (nul qs) (ucd_contentType d)),
       (''sizeBytes'', und (nul qi) (ucd_sizeBytes d))])"

definition pdocuments_delete :: "'r prisma \<Rightarrow> ident \<Rightarrow> ident \<Rightarrow> bool wact" where
  "pdocuments_delete c i org =
     delete_scoped c ''ClientDocument'' [(''id'', qs i), (''organizationId'', qs org)]"

subsection \<open>Audit events\<close>

definition paudit_create :: "'r prisma \<Rightarrow> create_audit \<Rightarrow> 'r dbres wact" where
  "paudit_create c d =
     pc_query c (qry ''AuditEvent'' ''create'' [set_data ([(''action'', qs (cae_action d)),
       (''entityType'', qs (cae_entityType d)), (''entityId'',
       qs (cae_entityId d))] @ (case cae_userId d of None \<Rightarrow> [] | Some u \<Rightarrow> [connect ''user'' u]) @ [connect ''organization'' (cae_org d)] @ mem ''details'' QPrim (cae_details d))])"

definition paudit_findForUser :: "'r prisma \<Rightarrow> ident \<Rightarrow> ident \<Rightarrow> 'r dbres wact" where
  "paudit_findForUser c user org =
     pc_query c (qry ''AuditEvent'' ''findMany'' [filt [(''userId'', qs user),
       (''organizationId'', qs org)], order_by ''timestamp'' ''asc''])"

definition paudit_findRecent :: "'r prisma \<Rightarrow> ident \<Rightarrow> int \<Rightarrow> 'r dbres wact" where
  "paudit_findRecent c org limit =
     pc_query c (qry ''AuditEvent'' ''findMany'' [filt [(''organizationId'', qs org)],
       order_by ''timestamp'' ''desc'', (''take'', qi (max 0 (min limit 500)))])"

definition paudit_anonymiseUser :: "'r prisma \<Rightarrow> ident \<Rightarrow> ident \<Rightarrow> nat wact" where
  "paudit_anonymiseUser c user org =
     bindA (pc_query c (qry ''AuditEvent'' ''updateMany''
       [filt [(''userId'', qs user), (''organizationId'', qs org)], set_data [(''userId'', QNull)]])) (\<lambda>result.
     ret (affected result))"

subsection \<open>Compliance matrices\<close>

definition pmatrices_findAllForTender :: "'r prisma \<Rightarrow> ident \<Rightarrow> ident \<Rightarrow> 'r dbres wact" where
  "pmatrices_findAllForTender c tender org =
     pc_query c (qry ''ComplianceMatrix'' ''findMany'' [filt [(''tenderId'', qs tender),
       (''organizationId'', qs org)], order_by ''version'' ''desc''])"

definition pmatrices_findById :: "'r prisma \<Rightarrow> ident \<Rightarrow> ident \<Rightarrow> 'r dbres wact" where
  "pmatrices_findById c i org =
     pc_query c (qry ''ComplianceMatrix'' ''findFirst'' [filt [(''id'', qs i),
       (''organizationId'', qs org)]])"

definition pmatrices_findByVersion :: "'r prisma \<Rightarrow> ident \<Rightarrow> int \<Rightarrow> ident \<Rightarrow> 'r dbres wact" where
  "pmatrices_findByVersion c tender version org =
     pc_query c (qry ''ComplianceMatrix'' ''findFirst'' [filt [(''tenderId'', qs tender),
       (''version'', qi version), (''organizationId'', qs org)]])"

definition pmatrices_latestForTender :: "'r prisma \<Rightarrow> ident \<Rightarrow> ident \<Rightarrow> 'r dbres wact" where
  "pmatrices_latestForTender c tender org =
     pc_query c (qry ''ComplianceMatrix'' ''findFirst'' [filt [(''tenderId'', qs tender),
       (''organizationId'', qs org)], order_by ''version'' ''desc''])"

definition pmatrices_create :: "'r prisma \<Rightarrow> create_matrix \<Rightarrow> 'r dbres wact" where
  "pmatrices_create c d =
     bindA (nowOr (ccm_generatedAt d)) (\<lambda>t.
     pc_query c (qry ''ComplianceMatrix'' ''create'' [set_data [(''tenderId'', qs (ccm_tenderId d)),
       (''organizationId'', qs (ccm_org d)), (''version'', qi (ccm_version d)),
       (''status'', qs (orElse (ccm_status d) ''draft'')), (''generatedAt'', qd t)]]))"

definition pmatrices_update :: "'r prisma \<Rightarrow> ident \<Rightarrow> ident \<Rightarrow> update_matrix \<Rightarrow> 'r dbres wact" where
  "pmatrices_update c i org d =
     update_then_fetch c ''ComplianceMatrix'' ''ComplianceMatrix not found or not in organization'' i org ([(''status'',
       und qs (ucm_status d))])"

definition pmatrices_delete :: "'r prisma \<Rightarrow> ident \<Rightarrow> ident \<Rightarrow> bool wact" where
  "pmatrices_delete c i org =
     delete_scoped c ''ComplianceMatrix'' [(''id'', qs i), (''organizationId'', qs org)]"

subsection \<open>Compliance items\<close>

definition pitems_findAllForMatrix :: "'r prisma \<Rightarrow> ident \<Rightarrow> ident \<Rightarrow> 'r dbres wact" where
  "pitems_findAllForMatrix c matrix org =
     pc_query c (qry ''ComplianceItem'' ''findMany'' [filt [(''matrixId'', qs matrix),
       (''organizationId'', qs org)]])"

definition pitems_findById :: "'r prisma \<Rightarrow> ident \<Rightarrow> ident \<Rightarrow> 'r dbres wact" where
  "pitems_findById c i org =
     pc_query c (qry ''ComplianceItem'' ''findFirst'' [filt [(''id'', qs i),
       (''organizationId'', qs org)]])"

definition pitem_query :: "create_item \<Rightarrow> query" where
  "pitem_query d =
     qry ''ComplianceItem'' ''create'' [set_data ([connect ''matrix'' (cci_matrixId d),
       connect ''organization'' (cci_org d), (''requirementId'', qs (cci_requirementId d)),
       (''requirementText'', qs (cci_requirementText d)), (''category'', qs (cci_category d)),
       (''owner'', nul qs (cci_owner d)), (''risk'', qs (cci_risk d)), (''status'',
       qs (cci_status d)), (''dueDate'', nul qd (cci_dueDate d))])]"

definition pitems_create :: "'r prisma \<Rightarrow> create_item \<Rightarrow> 'r dbres wact" where
  "pitems_create c d =
     pc_query c (pitem_query d)"

definition pitems_createMany :: "'r prisma \<Rightarrow> create_item list \<Rightarrow> 'r dbres list wact" where
  "pitems_createMany c ds =
     pc_batch c (map pitem_query ds)"

definition pitems_update :: "'r prisma \<Rightarrow> ident \<Rightarrow> ident \<Rightarrow> update_item \<Rightarrow> 'r dbres wact" where
  "pitems_update c i org d =
     update_then_fetch c ''ComplianceItem'' ''ComplianceItem not found or not in organization'' i org ([(''owner'',
       und qs (uci_owner d)), (''status'', und qs (uci_status d)), (''risk'',
       und qs (uci_risk d)), (''dueDate'', und (nul qd) (uci_dueDate d))])"

definition pitems_delete :: "'r prisma \<Rightarrow> ident \<Rightarrow> ident \<Rightarrow> bool wact" where
  "pitems_delete c i org =
     delete_scoped c ''ComplianceItem'' [(''id'', qs i), (''organizationId'', qs org)]"

subsection \<open>Tender requirements\<close>

definition prequirements_findAllForTender :: "'r prisma \<Rightarrow> ident \<Rightarrow> ident \<Rightarrow> 'r dbres wact" where
  "prequirements_findAllForTender c tender org =
     pc_query c (qry ''TenderRequirement'' ''findMany'' [filt [(''tenderId'', qs tender),
       (''organizationId'', qs org)]])"

definition prequirements_findById :: "'r prisma \<Rightarrow> ident \<Rightarrow> ident \<Rightarrow> 'r dbres wact" where
  "prequirements_findById c i org =
     pc_query c (qry ''TenderRequirement'' ''findFirst'' [filt [(''id'', qs i),
       (''organizationId'', qs org)]])"

definition prequirement_query :: "create_requirement \<Rightarrow> query" where
  "prequirement_query d =
     qry ''TenderRequirement'' ''create'' [set_data ([connect ''tender'' (ctr_tenderId d),
       connect ''organization'' (ctr_org d), (''category'', qs (ctr_category d)), (''text'',
       qs (ctr_text d)), (''risk'', qs (orElse (ctr_risk d) ''medium'')), (''owner'',
       nul qs (ctr_owner d)), (''source'', qs (orElse (ctr_source d) ''manual''))])]"

definition prequirements_create :: "'r prisma \<Rightarrow> create_requirement \<Rightarrow> 'r dbres wact" where
  "prequirements_create c d =
     pc_query c (prequirement_query d)"

definition prequirements_createMany :: "'r prisma \<Rightarrow> create_requirement list \<Rightarrow> 'r dbres list wact" where
  "prequirements_createMany c ds =
     pc_batch c (map prequirement_query ds)"

definition prequirements_update :: "'r prisma \<Rightarrow> ident \<Rightarrow> ident \<Rightarrow> update_requirement \<Rightarrow> 'r dbres wact" where
  "prequirements_update c i org d =
     update_then_fetch c ''TenderRequirement'' ''TenderRequirement not found or not in organization'' i org ([(''category'',
       und qs (utr_category d)), (''text'', und qs (utr_text d)), (''risk'',
       und qs (utr_risk d)), (''owner'', und (nul qs) (utr_owner d))])"

definition prequirements_delete :: "'r prisma \<Rightarrow> ident \<Rightarrow> ident \<Rightarrow> bool wact" where
  "prequirements_delete c i org =
     delete_scoped c ''TenderRequirement'' [(''id'', qs i), (''organizationId'', qs org)]"

subsection \<open>Evidence links\<close>

definition plinks_findAllForItem :: "'r prisma \<Rightarrow> ident \<Rightarrow> ident \<Rightarrow> 'r dbres wact" where
  "plinks_findAllForItem c item org =
     pc_query c (qry ''EvidenceLink'' ''findMany'' [filt [(''complianceItemId'', qs item),
       (''organizationId'', qs org)]])"

definition plinks_findAllForDocument :: "'r prisma \<Rightarrow> ident \<Rightarrow> ident \<Rightarrow> 'r dbres wact" where
  "plinks_findAllForDocument c doc org =
     pc_query c (qry ''EvidenceLink'' ''findMany'' [filt [(''documentId'', qs doc),
       (''organizationId'', qs org)]])"

definition plinks_findById :: "'r prisma \<Rightarrow> ident \<Rightarrow> ident \<Rightarrow> 'r dbres wact" where
  "plinks_findById c i org =
     pc_query c (qry ''EvidenceLink'' ''findFirst'' [filt [(''id'', qs i), (''organizationId'',
       qs org)]])"

definition plinks_create :: "'r prisma \<Rightarrow> create_evidence \<Rightarrow> 'r dbres wact" where
  "plinks_create c d =
     pc_query c (qry ''EvidenceLink'' ''create'' [set_data ([connect ''organization'' (cel_org d),
       connect ''complianceItem'' (cel_itemId d), connect ''document'' (cel_documentId d),
       (''note'', nul qs (cel_note d))])])"

definition plinks_update :: "'r prisma \<Rightarrow> ident \<Rightarrow> ident \<Rightarrow> update_evidence \<Rightarrow> 'r dbres wact" where
  "plinks_update c i org d =
     update_then_fetch c ''EvidenceLink'' ''EvidenceLink not found or not in organization'' i org ([(''note'',
       und (nul qs) (uel_note d))])"

definition plinks_delete :: "'r prisma \<Rightarrow> ident \<Rightarrow> ident \<Rightarrow> bool wact" where
  "plinks_delete c i org =
     delete_scoped c ''EvidenceLink'' [(''id'', qs i), (''organizationId'', qs org)]"

definition plinks_unlink :: "'r prisma \<Rightarrow> ident \<Rightarrow> ident \<Rightarrow> ident \<Rightarrow> bool wact" where
  "plinks_unlink c item doc org =
     delete_scoped c ''EvidenceLink''
       [(''complianceItemId'', qs item), (''documentId'', qs doc), (''organizationId'', qs org)]"

subsection \<open>Consent events\<close>

definition pconsents_create :: "'r prisma \<Rightarrow> create_consent \<Rightarrow> 'r dbres wact" where
  "pconsents_create c d =
     pc_query c (qry ''ConsentEvent'' ''create'' [set_data ([connect ''organization'' (cce_org d),
       (''subjectEmail'', qs (cce_subjectEmail d)), (''subjectUserId'',
       nul qs (cce_subjectUserId d)), (''purpose'', qs (cce_purpose d)), (''state'',
       qs (cce_state d)), (''source'', qs (orElse (cce_source d) ''api'')), (''recordedBy'',
       nul qs (cce_recordedBy d))] @ mem ''details'' QPrim (cce_details d))])"

definition pconsents_findAllForSubject :: "'r prisma \<Rightarrow> string \<Rightarrow> ident \<Rightarrow> 'r dbres wact" where
  "pconsents_findAllForSubject c email org =
     pc_query c (qry ''ConsentEvent'' ''findMany'' [filt [(''subjectEmail'', qs email),
       (''organizationId'', qs org)], order_by ''recordedAt'' ''desc''])"

definition pconsents_findById :: "'r prisma \<Rightarrow> ident \<Rightarrow> ident \<Rightarrow> 'r dbres wact" where
  "pconsents_findById c i org =
     pc_query c (qry ''ConsentEvent'' ''findFirst'' [filt [(''id'', qs i), (''organizationId'',
       qs org)]])"

definition pconsents_findCurrent :: "'r prisma \<Rightarrow> string \<Rightarrow> string \<Rightarrow> ident \<Rightarrow> 'r dbres wact" where
  "pconsents_findCurrent c email purpose org =
     pc_query c (qry ''ConsentEvent'' ''findFirst'' [filt [(''subjectEmail'', qs email),
       (''purpose'', qs purpose), (''organizationId'', qs org)],
       order_by ''recordedAt'' ''desc''])"

definition pconsents_anonymiseSubject :: "'r prisma \<Rightarrow> string \<Rightarrow> ident \<Rightarrow> string \<Rightarrow> nat wact" where
  "pconsents_anonymiseSubject c email org pseudonym =
     bindA (pc_query c (qry ''ConsentEvent'' ''updateMany''
       [filt [(''subjectEmail'', qs email), (''organizationId'', qs org)],
        set_data [(''subjectEmail'', qs pseudonym), (''subjectUserId'', QNull)]])) (\<lambda>result.
     ret (affected result))"

subsection \<open>Data-subject requests\<close>

definition prequests_create :: "'r prisma \<Rightarrow> create_request \<Rightarrow> 'r dbres wact" where
  "prequests_create c d =
     pc_query c (qry ''DataSubjectRequest'' ''create'' [set_data ([connect ''organization'' (cds_org d),
       (''type'', qs (cds_type d)), (''subjectEmail'', qs (cds_subjectEmail d)),
       (''requestedBy'', nul qs (cds_requestedBy d)), (''notes'', nul qs (cds_notes d))])])"

definition prequests_findById :: "'r prisma \<Rightarrow> ident \<Rightarrow> ident \<Rightarrow> 'r dbres wact" where
  "prequests_findById c i org =
     pc_query c (qry ''DataSubjectRequest'' ''findFirst'' [filt [(''id'', qs i),
       (''organizationId'', qs org)]])"

definition prequests_findAll :: "'r prisma \<Rightarrow> ident \<Rightarrow> string option \<Rightarrow> 'r dbres wact" where
  "prequests_findAll c org status =
     pc_query c (qry ''DataSubjectRequest'' ''findMany'' [filt ((''organizationId'',
       qs org) # mem ''status'' qs status), order_by ''requestedAt'' ''desc''])"

definition prequests_findForSubject :: "'r prisma \<Rightarrow> string \<Rightarrow> ident \<Rightarrow> 'r dbres wact" where
  "prequests_findForSubject c email org =
     pc_query c (qry ''DataSubjectRequest'' ''findMany'' [filt [(''subjectEmail'', qs email),
       (''organizationId'', qs org)], order_by ''requestedAt'' ''desc''])"

definition prequests_update :: "'r prisma \<Rightarrow> ident \<Rightarrow> ident \<Rightarrow> update_request \<Rightarrow> 'r dbres wact" where
  "prequests_update c i org d =
     update_then_fetch c ''DataSubjectRequest'' ''DataSubjectRequest not found or not in organization'' i org (mem ''status'' qs (uds_status d) @ mem ''decidedBy'' (nul qs) (uds_decidedBy d) @
        mem ''decidedAt'' (nul qd) (uds_decidedAt d) @ mem ''completedAt'' (nul qd) (uds_completedAt d) @
        mem ''notes'' (nul qs) (uds_notes d) @ mem ''payload'' QPrim (uds_payload d))"

subsection \<open>Tender access\<close>

definition paccess_create :: "'r prisma \<Rightarrow> create_access \<Rightarrow> 'r dbres wact" where
  "paccess_create c d =
     pc_query c (qry ''TenderAccess'' ''create'' [set_data ([connect ''organization'' (cta_org d),
       connect ''user'' (cta_userId d), connect ''tender'' (cta_tenderId d), (''role'',
       qs (cta_role d)), (''grantedBy'', nul qs (cta_grantedBy d))])])"

definition paccess_findById :: "'r prisma \<Rightarrow> ident \<Rightarrow> ident \<Rightarrow> 'r dbres wact" where
  "paccess_findById c i org =
     pc_query c (qry ''TenderAccess'' ''findFirst'' [filt [(''id'', qs i), (''organizationId'',
       qs org)]])"

definition paccess_findAllForTender :: "'r prisma \<Rightarrow> ident \<Rightarrow> ident \<Rightarrow> 'r dbres wact" where
  "paccess_findAllForTender c tender org =
     pc_query c (qry ''TenderAccess'' ''findMany'' [filt [(''tenderId'', qs tender),
       (''organizationId'', qs org)]])"

definition paccess_findAllForUser :: "'r prisma \<Rightarrow> ident \<Rightarrow> ident \<Rightarrow> 'r dbres wact" where
  "paccess_findAllForUser c user org =
     pc_query c (qry ''TenderAccess'' ''findMany'' [filt [(''userId'', qs user),
       (''organizationId'', qs org)]])"

definition paccess_findByUserAndTender :: "'r prisma \<Rightarrow> ident \<Rightarrow> ident \<Rightarrow> ident \<Rightarrow> 'r dbres wact" where
  "paccess_findByUserAndTender c user tender org =
     pc_query c (qry ''TenderAccess'' ''findFirst'' [filt [(''userId'', qs user),
       (''tenderId'', qs tender), (''organizationId'', qs org)]])"

definition paccess_update :: "'r prisma \<Rightarrow> ident \<Rightarrow> ident \<Rightarrow> update_access \<Rightarrow> 'r dbres wact" where
  "paccess_update c i org d =
     update_then_fetch c ''TenderAccess'' ''TenderAccess not found or not in organization'' i org ([(''role'',
       und qs (uta_role d))])"

definition paccess_delete :: "'r prisma \<Rightarrow> ident \<Rightarrow> ident \<Rightarrow> bool wact" where
  "paccess_delete c i org =
     delete_scoped c ''TenderAccess'' [(''id'', qs i), (''organizationId'', qs org)]"

definition paccess_revoke :: "'r prisma \<Rightarrow> ident \<Rightarrow> ident \<Rightarrow> ident \<Rightarrow> bool wact" where
  "paccess_revoke c user tender org =
     delete_scoped c ''TenderAccess''
       [(''userId'', qs user), (''tenderId'', qs tender), (''organizationId'', qs org)]"

subsection \<open>Retention actions\<close>

definition pretention_create :: "'r prisma \<Rightarrow> create_retention \<Rightarrow> 'r dbres wact" where
  "pretention_create c d =
     pc_query c (qry ''RetentionAction'' ''create'' [set_data ([connect ''organization'' (cra_org d),
       (''documentId'', qs (cra_documentId d)), (''action'', qs (cra_action d)), (''reason'',
       qs (cra_reason d)), (''requestedBy'', qs (cra_requestedBy d))])])"

definition pretention_findById :: "'r prisma \<Rightarrow> ident \<Rightarrow> ident \<Rightarrow> 'r dbres wact" where
  "pretention_findById c i org =
     pc_query c (qry ''RetentionAction'' ''findFirst'' [filt [(''id'', qs i),
       (''organizationId'', qs org)]])"

definition pretention_findAll :: "'r prisma \<Rightarrow> ident \<Rightarrow> string option \<Rightarrow> 'r dbres wact" where
  "pretention_findAll c org status =
     pc_query c (qry ''RetentionAction'' ''findMany'' [filt ((''organizationId'',
       qs org) # mem ''status'' qs status), order_by ''requestedAt'' ''desc''])"

definition pretention_findForDocument :: "'r prisma \<Rightarrow> ident \<Rightarrow> ident \<Rightarrow> 'r dbres wact" where
  "pretention_findForDocument c doc org =
     pc_query c (qry ''RetentionAction'' ''findMany'' [filt [(''documentId'', qs doc),
       (''organizationId'', qs org)], order_by ''requestedAt'' ''desc''])"

definition pretention_update :: "'r prisma \<Rightarrow> ident \<Rightarrow> ident \<Rightarrow> update_retention \<Rightarrow> 'r dbres wact" where
  "pretention_update c i org d =
     update_then_fetch c ''RetentionAction'' ''RetentionAction not found or not in organization'' i org ([(''status'',
       und qs (ura_status d)), (''decidedBy'', und (nul qs) (ura_decidedBy d)), (''decidedAt'',
       und (nul qd) (ura_decidedAt d)), (''executedAt'', und (nul qd) (ura_executedAt d))])"

subsection \<open>DPO contacts\<close>

definition pdpo_columns :: "upsert_dpo \<Rightarrow> (string \<times> qval) list" where
  "pdpo_columns d =
     [(''name'', qs (udc_name d)), (''email'', qs (udc_email d)), (''phone'',
       nul qs (udc_phone d)), (''authorityEmail'', qs (udc_authorityEmail d)),
       (''retentionPolicyDays'', qi (orElse (udc_retentionPolicyDays d) 2555)), (''updatedBy'',
       nul qs (udc_updatedBy d))]"

definition pdpo_upsert :: "'r prisma \<Rightarrow> upsert_dpo \<Rightarrow> 'r dbres wact" where
  "pdpo_upsert c d =
     pc_query c (qry ''DpoContact'' ''upsert'' [filt [(''organizationId'', qs (udc_org d))],
       (''create'', QObj (connect ''organization'' (udc_org d) # pdpo_columns d)),
       (''update'', QObj (pdpo_columns d))])"

definition pdpo_findByOrg :: "'r prisma \<Rightarrow> ident \<Rightarrow> 'r dbres wact" where
  "pdpo_findByOrg c org =
     pc_query c (qry ''DpoContact'' ''findUnique'' [filt [(''organizationId'', qs org)]])"

subsection \<open>Training records\<close>

definition ptraining_create :: "'r prisma \<Rightarrow> create_training \<Rightarrow> 'r dbres wact" where
  "ptraining_create c d =
     pc_query c (qry ''DpoTrainingRecord'' ''create'' [set_data ([connect ''organization'' (cdt_org d),
       (''userId'', nul qs (cdt_userId d)), (''subjectName'', qs (cdt_subjectName d)),
       (''subjectEmail'', qs (cdt_subjectEmail d)), (''topic'', qs (cdt_topic d)), (''provider'',
       nul qs (cdt_provider d)), (''completedAt'', qd (cdt_completedAt d)), (''validUntil'',
       nul qd (cdt_validUntil d)), (''evidenceRef'', nul qs (cdt_evidenceRef d)),
       (''evidenceDocumentId'', nul qs (cdt_evidenceDocumentId d)), (''notes'',
       nul qs (cdt_notes d)), (''recordedBy'', qs (cdt_recordedBy d))])])"

definition ptraining_findById :: "'r prisma \<Rightarrow> ident \<Rightarrow> ident \<Rightarrow> 'r dbres wact" where
  "ptraining_findById c i org =
     pc_query c (qry ''DpoTrainingRecord'' ''findFirst'' [filt [(''id'', qs i),
       (''organizationId'', qs org)]])"

definition ptraining_findAll :: "'r prisma \<Rightarrow> ident \<Rightarrow> 'r dbres wact" where
  "ptraining_findAll c org =
     pc_query c (qry ''DpoTrainingRecord'' ''findMany'' [filt [(''organizationId'', qs org)],
       order_by ''completedAt'' ''desc''])"

definition ptraining_findExpiringBefore :: "'r prisma \<Rightarrow> ident \<Rightarrow> time \<Rightarrow> 'r dbres wact" where
  "ptraining_findExpiringBefore c org cutoff =
     pc_query c (qry ''DpoTrainingRecord'' ''findMany'' [filt [(''organizationId'', qs org),
       (''validUntil'', QObj [(''not'', QNull), (''lte'', qd cutoff)])],
       order_by ''validUntil'' ''asc''])"

definition ptraining_update :: "'r prisma \<Rightarrow> ident \<Rightarrow> ident \<Rightarrow> update_training \<Rightarrow> 'r dbres wact" where
  "ptraining_update c i org d =
     bindA (pc_query c (update_query ''DpoTrainingRecord'' i org
       [(''subjectName'', und qs (udt_subjectName d)), (''subjectEmail'', und qs (udt_subjectEmail d)),
        (''topic'', und qs (udt_topic d)), (''provider'', und (nul qs) (udt_provider d)),
        (''completedAt'', und qd (udt_completedAt d)), (''validUntil'', und (nul qd) (udt_validUntil d)),
        (''evidenceRef'', und (nul qs) (udt_evidenceRef d)),
        (''evidenceDocumentId'', und (nul qs) (udt_evidenceDocumentId d)),
        (''notes'', und (nul qs) (udt_notes d))])) (\<lambda>_.
     pc_query c (qry ''DpoTrainingRecord'' ''findFirstOrThrow''
       [filt [(''id'', qs i), (''organizationId'', qs org)]]))"

definition ptraining_delete :: "'r prisma \<Rightarrow> ident \<Rightarrow> ident \<Rightarrow> unit wact" where
  "ptraining_delete c i org =
     bindA (pc_query c (qry ''DpoTrainingRecord'' ''deleteMany''
       [filt [(''id'', qs i), (''organizationId'', qs org)]])) (\<lambda>_. ret ())"

subsection \<open>Ingestion jobs\<close>

definition pjobs_create :: "'r prisma \<Rightarrow> create_job \<Rightarrow> 'r dbres wact" where
  "pjobs_create c d =
     pc_query c (qry ''IngestionJob'' ''create'' [set_data ([connect ''organization'' (cij_org d),
       (''kind'', qs (cij_kind d)), (''payload'', QPrim (cij_payload d)), (''createdBy'',
       nul qs (cij_createdBy d))])])"

definition pjobs_findById :: "'r prisma \<Rightarrow> ident \<Rightarrow> ident \<Rightarrow> 'r dbres wact" where
  "pjobs_findById c i org =
     pc_query c (qry ''IngestionJob'' ''findFirst'' [filt [(''id'', qs i), (''organizationId'',
       qs org)]])"

definition pjobs_findAll :: "'r prisma \<Rightarrow> ident \<Rightarrow> string option \<Rightarrow> string option \<Rightarrow> 'r dbres wact" where
  "pjobs_findAll c org status kind =
     pc_query c (qry ''IngestionJob'' ''findMany'' [filt ((''organizationId'',
       qs org) # mem ''status'' qs status @ mem ''kind'' qs kind),
       order_by ''createdAt'' ''asc''])"

definition pjob_claim_sql :: "string option \<Rightarrow> string" where
  "pjob_claim_sql kind =
     ''SELECT id FROM \"IngestionJob\" WHERE status = '' @ [CHR 0x27] @ ''pending'' @ [CHR 0x27] @
     (if truthyS kind then '' AND kind = $1'' else []) @
     '' ORDER BY \"createdAt\" ASC FOR UPDATE SKIP LOCKED LIMIT 1''"

definition pjob_claim_query :: "ident \<Rightarrow> string \<Rightarrow> time \<Rightarrow> query" where
  "pjob_claim_query i worker t =
     qry ''IngestionJob'' ''update'' [filt [(''id'', qs i)], set_data [(''status'', qs ''processing''),
       (''claimedBy'', qs worker), (''claimedAt'', qd t), (''attempts'', QObj [(''increment'', qi 1)])]]"

definition pjobs_claimNext :: "'r prisma \<Rightarrow> string \<Rightarrow> string option \<Rightarrow> 'r dbres wact" where
  "pjobs_claimNext c worker kind =
     pc_transaction c
       (bindA (pc_raw c (pjob_claim_sql kind) (case kind of Some k \<Rightarrow> if k = [] then [] else [k] | None \<Rightarrow> [])) (\<lambda>rows.
        (case rows of
           [] \<Rightarrow> ret (One None)
         | i # _ \<Rightarrow> bindA nowA (\<lambda>t. pc_query c (pjob_claim_query i worker t)))))"

definition pjobs_update :: "'r prisma \<Rightarrow> ident \<Rightarrow> ident \<Rightarrow> update_job \<Rightarrow> 'r dbres wact" where
  "pjobs_update c i org d =
     update_then_fetch c ''IngestionJob'' ''IngestionJob not found or not in organization'' i org (mem ''status'' qs (uij_status d) @ mem ''result'' QPrim (uij_result d) @
        mem ''errorMessage'' (nul qs) (uij_errorMessage d) @ mem ''claimedBy'' (nul qs) (uij_claimedBy d) @
        mem ''claimedAt'' (nul qd) (uij_claimedAt d) @ mem ''completedAt'' (nul qd) (uij_completedAt d) @
        mem ''attempts'' qi (uij_attempts d))"

subsection \<open>Inbound e-mail\<close>

definition pemails_findByMessageId :: "'r prisma \<Rightarrow> string \<Rightarrow> 'r dbres wact" where
  "pemails_findByMessageId c mid =
     pc_query c (qry ''InboundEmail'' ''findUnique'' [filt [(''messageId'', qs mid)]])"

definition pemails_create :: "'r prisma \<Rightarrow> create_email \<Rightarrow> 'r dbres wact" where
  "pemails_create c d =
     pc_query c (qry ''InboundEmail'' ''create'' [set_data ([(''messageId'',
       qs (cie_messageId d)), (''organizationId'', nul qs (cie_org d)), (''fromAddress'',
       qs (cie_fromAddress d)), (''toAddress'', qs (cie_toAddress d)), (''subject'',
       nul qs (cie_subject d)), (''body'', qs (cie_body d)), (''status'', qs (cie_status d)),
       (''routedAction'', nul qs (cie_routedAction d)), (''routedEntityType'',
       nul qs (cie_routedEntityType d)), (''routedEntityId'', nul qs (cie_routedEntityId d)),
       (''rejectionReason'',
       nul qs (cie_rejectionReason d))] @ mem ''receivedAt'' qd (cie_receivedAt d))])"

definition pemails_findRecent :: "'r prisma \<Rightarrow> ident \<Rightarrow> int option \<Rightarrow> 'r dbres wact" where
  "pemails_findRecent c org limit =
     pc_query c (qry ''InboundEmail'' ''findMany'' [filt [(''organizationId'', qs org)],
       order_by ''receivedAt'' ''desc'', (''take'', qi (orElse limit 100))])"

subsection \<open>Ingestion keys\<close>

definition pkeys_create :: "'r prisma \<Rightarrow> create_api_key \<Rightarrow> 'r dbres wact" where
  "pkeys_create c d =
     pc_query c (qry ''IngestionApiKey'' ''create'' [set_data ([connect ''organization'' (cik_org d),
       (''name'', qs (cik_name d)), (''keyPrefix'', qs (cik_keyPrefix d)), (''keyHash'',
       qs (cik_keyHash d)), (''createdBy'', qs (cik_createdBy d))])])"

definition pkeys_findByPrefix :: "'r prisma \<Rightarrow> string \<Rightarrow> 'r dbres wact" where
  "pkeys_findByPrefix c pre =
     pc_query c (qry ''IngestionApiKey'' ''findUnique'' [filt [(''keyPrefix'', qs pre)]])"

definition pkeys_findAllByOrg :: "'r prisma \<Rightarrow> ident \<Rightarrow> 'r dbres wact" where
  "pkeys_findAllByOrg c org =
     pc_query c (qry ''IngestionApiKey'' ''findMany'' [filt [(''organizationId'', qs org)],
       order_by ''createdAt'' ''desc''])"

definition pkeys_markUsed :: "'r prisma \<Rightarrow> ident \<Rightarrow> unit wact" where
  "pkeys_markUsed c i =
     bindA nowA (\<lambda>t.
     bindA (pc_query c (qry ''IngestionApiKey'' ''update'' [filt [(''id'', qs i)], set_data [(''lastUsedAt'', qd t)]]))
       (\<lambda>_. ret ()))"

definition pkeys_revoke :: "'r prisma \<Rightarrow> ident \<Rightarrow> ident \<Rightarrow> 'r dbres wact" where
  "pkeys_revoke c i org =
     bindA nowA (\<lambda>t.
     bindA (pc_query c (qry ''IngestionApiKey'' ''updateMany''
       [filt [(''id'', qs i), (''organizationId'', qs org), (''revokedAt'', QNull)],
        set_data [(''revokedAt'', qd t)]])) (\<lambda>result.
     bindA (throwIf (affected result = 0) (NotFound ''IngestionApiKey not found or already revoked'')) (\<lambda>_.
     pc_query c (qry ''IngestionApiKey'' ''findFirstOrThrow''
       [filt [(''id'', qs i), (''organizationId'', qs org)]]))))"

subsection \<open>Usage log of the model\<close>

definition pllm_create :: "'r prisma \<Rightarrow> create_usage \<Rightarrow> 'r dbres wact" where
  "pllm_create c d =
     pc_query c (qry ''LlmUsageLog'' ''create'' [set_data ([connect ''organization'' (clu_org d),
       (''tenderId'', nul qs (clu_tenderId d)), (''provider'', qs (clu_provider d)), (''model'',
       qs (clu_model d)), (''promptVersion'', nul qs (clu_promptVersion d)), (''jobType'',
       nul qs (clu_jobType d)), (''inputTokens'', nul qi (clu_inputTokens d)), (''outputTokens'',
       nul qi (clu_outputTokens d)), (''totalTokens'', nul qi (clu_totalTokens d)),
       (''estimatedCost'', nul qr (clu_estimatedCost d)), (''status'',
       qs (orElse (clu_status d) ''ok'')), (''errorMessage'', nul qs (clu_errorMessage d))])])"

definition pllm_dailyTotals :: "'r prisma \<Rightarrow> ident \<Rightarrow> time \<Rightarrow> daily_totals wact" where
  "pllm_dailyTotals c org since =
     bindA (pc_query c (qry ''LlmUsageLog'' ''aggregate''
       [filt [(''organizationId'', qs org), (''createdAt'', QObj [(''gte'', qd since)]), (''status'', qs ''ok'')],
        (''_count'', QObj [(''_all'', qb True)]),
        (''_sum'', QObj [(''totalTokens'', qb True), (''estimatedCost'', qb True)])])) (\<lambda>agg.
     (case agg of
        Totals n tokens cost \<Rightarrow>
          ret \<lparr>dy_requestCount = n, dy_totalTokens = orElse tokens 0, dy_totalCost = orElse cost 0\<rparr>
      | _ \<Rightarrow> throw (Plain ''not an aggregate'')))"

subsection \<open>Subscriptions\<close>

definition psubscriptions_findByOrg :: "'r prisma \<Rightarrow> ident \<Rightarrow> 'r dbres wact" where
  "psubscriptions_findByOrg c org =
     pc_query c (qry ''Subscription'' ''findUnique'' [filt [(''organizationId'', qs org)]])"

definition psubscriptions_findByStripeId :: "'r prisma \<Rightarrow> string \<Rightarrow> 'r dbres wact" where
  "psubscriptions_findByStripeId c sid =
     pc_query c (qry ''Subscription'' ''findUnique'' [filt [(''stripeSubscriptionId'',
       qs sid)]])"

definition psubscription_columns :: "upsert_subscription \<Rightarrow> (string \<times> qval) list" where
  "psubscription_columns d =
     [(''planCode'', qs (usb_planCode d)), (''status'', qs (usb_status d)),
       (''stripeCustomerId'', nul qs (usb_stripeCustomerId d)), (''stripeSubscriptionId'',
       nul qs (usb_stripeSubscriptionId d)), (''currentPeriodStart'',
       nul qd (usb_periodStart d)), (''currentPeriodEnd'', nul qd (usb_periodEnd d)),
       (''cancelAtPeriodEnd'', qb (orElse (usb_cancelAtPeriodEnd d) False))]"

definition psubscriptions_upsert :: "'r prisma \<Rightarrow> upsert_subscription \<Rightarrow> 'r dbres wact" where
  "psubscriptions_upsert c d =
     pc_query c (qry ''Subscription'' ''upsert'' [filt [(''organizationId'', qs (usb_org d))],
       (''create'', QObj (connect ''organization'' (usb_org d) # psubscription_columns d)),
       (''update'', QObj (psubscription_columns d))])"

subsection \<open>Usage counters\<close>

definition pcounters_bump :: "'r prisma \<Rightarrow> ('r \<Rightarrow> int) \<Rightarrow> ident \<Rightarrow> time \<Rightarrow> string \<Rightarrow> int \<Rightarrow> int wact" where
  "pcounters_bump c cnt org date metric delta =
     bindA (pc_query c (qry ''UsageCounter'' ''upsert''
       [filt [(''organizationId_date_metric'',
          QObj [(''organizationId'', qs org), (''date'', qd date), (''metric'', qs metric)])],
        (''create'', QObj [connect ''organization'' org, (''date'', qd date), (''metric'', qs metric), (''count'', qi delta)]),
        (''update'', QObj [(''count'', QObj [(''increment'', qi delta)])])])) (\<lambda>row.
     (case row of One (Some r) \<Rightarrow> ret (cnt r) | _ \<Rightarrow> throw (Plain ''not a row'')))"

definition pcounters_findDay :: "'r prisma \<Rightarrow> ident \<Rightarrow> time \<Rightarrow> 'r dbres wact" where
  "pcounters_findDay c org date =
     pc_query c (qry ''UsageCounter'' ''findMany'' [filt [(''organizationId'', qs org),
       (''date'', qd date)]])"

definition pcounters_sumRange :: "'r prisma \<Rightarrow> ident \<Rightarrow> time \<Rightarrow> time \<Rightarrow> (string \<times> int) list wact" where
  "pcounters_sumRange c org since until =
     bindA (pc_query c (qry ''UsageCounter'' ''groupBy''
       [(''by'', QArr [qs ''metric'']), filt [(''organizationId'', qs org), (''date'', QObj [(''gte'', qd since), (''lt'', qd until)])],
        (''_sum'', QObj [(''count'', qb True)])])) (\<lambda>rows.
     (case rows of
        Groups gs \<Rightarrow> ret (fold (\<lambda>(k, n). AList.update k (orElse n 0)) gs [])
      | _ \<Rightarrow> throw (Plain ''not groups'')))"

subsection \<open>Webhook subscriptions\<close>

definition phooks_create :: "'r prisma \<Rightarrow> create_webhook \<Rightarrow> 'r dbres wact" where
  "phooks_create c d =
     pc_query c (qry ''WebhookSubscription'' ''create'' [set_data ([connect ''organization'' (cws_org d),
       (''url'', qs (cws_url d)), (''secret'', qs (cws_secret d)), (''eventTypes'',
       QArr (map qs (cws_eventTypes d))), (''active'', qb (orElse (cws_active d) True)),
       (''description'', nul qs (cws_description d)), (''createdBy'', qs (cws_createdBy d))])])"

definition phooks_findById :: "'r prisma \<Rightarrow> ident \<Rightarrow> ident \<Rightarrow> 'r dbres wact" where
  "phooks_findById c i org =
     pc_query c (qry ''WebhookSubscription'' ''findFirst'' [filt [(''id'', qs i),
       (''organizationId'', qs org)]])"

definition phooks_findAll :: "'r prisma \<Rightarrow> ident \<Rightarrow> 'r dbres wact" where
  "phooks_findAll c org =
     pc_query c (qry ''WebhookSubscription'' ''findMany'' [filt [(''organizationId'', qs org)],
       order_by ''createdAt'' ''desc''])"

definition phooks_findActiveForEvent :: "'r prisma \<Rightarrow> ident \<Rightarrow> string \<Rightarrow> 'r dbres wact" where
  "phooks_findActiveForEvent c org ev =
     pc_query c (qry ''WebhookSubscription'' ''findMany'' [filt [(''organizationId'', qs org),
       (''active'', qb True), (''eventTypes'', QObj [(''has'', qs ev)])]])"

definition phooks_update :: "'r prisma \<Rightarrow> ident \<Rightarrow> ident \<Rightarrow> update_webhook \<Rightarrow> 'r dbres wact" where
  "phooks_update c i org d =
     bindA (pc_query c (update_query ''WebhookSubscription'' i org
       [(''url'', und qs (uws_url d)), (''eventTypes'', und (\<lambda>ts. QArr (map qs ts)) (uws_eventTypes d)),
        (''active'', und qb (uws_active d)), (''description'', und (nul qs) (uws_description d)),
        (''secret'', und qs (uws_secret d))])) (\<lambda>_.
     pc_query c (qry ''WebhookSubscription'' ''findFirstOrThrow''
       [filt [(''id'', qs i), (''organizationId'', qs org)]]))"

definition phooks_delete :: "'r prisma \<Rightarrow> ident \<Rightarrow> ident \<Rightarrow> unit wact" where
  "phooks_delete c i org =
     bindA (pc_query c (qry ''WebhookSubscription'' ''deleteMany''
       [filt [(''id'', qs i), (''organizationId'', qs org)]])) (\<lambda>_. ret ())"

subsection \<open>Webhook deliveries\<close>

definition pdeliveries_create :: "'r prisma \<Rightarrow> create_delivery \<Rightarrow> 'r dbres wact" where
  "pdeliveries_create c d =
     pc_query c (qry ''WebhookDelivery'' ''create'' [set_data ([connect ''subscription'' (cwd_subscriptionId d),
       connect ''organization'' (cwd_org d), (''eventType'', qs (cwd_eventType d)), (''payload'',
       QPrim (cwd_payload d))])])"

definition pdeliveries_findById :: "'r prisma \<Rightarrow> ident \<Rightarrow> ident \<Rightarrow> 'r dbres wact" where
  "pdeliveries_findById c i org =
     pc_query c (qry ''WebhookDelivery'' ''findFirst'' [filt [(''id'', qs i),
       (''organizationId'', qs org)]])"

definition pdeliveries_findRecent :: "'r prisma \<Rightarrow> ident \<Rightarrow> int option \<Rightarrow> 'r dbres wact" where
  "pdeliveries_findRecent c org limit =
     pc_query c (qry ''WebhookDelivery'' ''findMany'' [filt [(''organizationId'', qs org)],
       order_by ''createdAt'' ''desc'', (''take'', qi (orElse limit 100))])"

definition pdeliveries_update :: "'r prisma \<Rightarrow> ident \<Rightarrow> update_delivery \<Rightarrow> 'r dbres wact" where
  "pdeliveries_update c i d =
     pc_query c (qry ''WebhookDelivery'' ''update'' [filt [(''id'', qs i)],
       set_data [(''status'', und qs (uwd_status d)), (''attempts'', und qi (uwd_attempts d)),
         (''lastError'', und (nul qs) (uwd_lastError d)), (''responseStatus'', und (nul qi) (uwd_responseStatus d)),
         (''lastTriedAt'', und (nul qd) (uwd_lastTriedAt d)), (''deliveredAt'', und (nul qd) (uwd_deliveredAt d))]])"

subsection \<open>The guard in front of the client\<close>

text \<open>
  The middleware inspects every query of a tenant-scoped model before it runs. Raw statements carry
  no model; the queries of a batch are checked one by one, and a refused one ends the batch.
\<close>

definition inspect_query :: "bool \<Rightarrow> query \<Rightarrow> unit wact" where
  "inspect_query strict q =
     (if qy_model q \<in> set tenant_scoped_models
      then (case assertTenancy (qy_model q) (qy_action q) (qy_args q) strict of
              Inl e \<Rightarrow> throw e | Inr _ \<Rightarrow> ret ())
      else ret ())"

definition installTenancyGuard :: "bool \<Rightarrow> 'r prisma \<Rightarrow> 'r prisma" where
  "installTenancyGuard strict c = c\<lparr>
     pc_query := (\<lambda>q. bindA (inspect_query strict q) (\<lambda>_. pc_query c q)),
     pc_batch := (\<lambda>qs'. bindA (foldA (\<lambda>q _. inspect_query strict q) qs' ()) (\<lambda>_. pc_batch c qs'))\<rparr>"

subsection \<open>What the guard lets through\<close>

text \<open>A query the guard lets through unseen, and one whose filter names the organisation.\<close>

definition let_through :: "query \<Rightarrow> bool" where
  "let_through q \<longleftrightarrow> fst (inspectTenancy (qy_model q) (qy_action q) (qy_args q))"

lemma inspect_let_through: "let_through q \<Longrightarrow> inspect_query strict q = ret ()"
  by (simp add: let_through_def inspect_query_def assertTenancy_def)

lemma inspect_lax: "inspect_query False q = ret ()"
  by (simp add: inspect_query_def assertTenancy_def)

lemma ret_bindA: "bindA (ret a) f = f a"
  by (simp add: fun_eq_iff bindA_def ret_def)

lemma guarded_query:
  "let_through q \<Longrightarrow> pc_query (installTenancyGuard strict c) q = pc_query c q"
  by (simp add: installTenancyGuard_def inspect_let_through ret_bindA)

lemma guarded_batch:
  assumes "\<And>q. q \<in> set qs' \<Longrightarrow> let_through q"
  shows "pc_batch (installTenancyGuard strict c) qs' = pc_batch c qs'"
proof -
  have "foldA (\<lambda>q _. inspect_query strict q) qs' () = ret ()"
    using assms by (induction qs') (simp_all add: inspect_let_through ret_bindA fun_eq_iff)
  then show ?thesis by (simp add: installTenancyGuard_def ret_bindA)
qed

lemma guarded_others [simp]:
  "pc_raw (installTenancyGuard strict c) = pc_raw c"
  "pc_transaction (installTenancyGuard strict c) = pc_transaction c"
  by (simp_all add: installTenancyGuard_def)

lemma let_through_free:
  "a \<notin> set enforced_operations \<Longrightarrow> let_through (qry m a args)"
  by (simp add: let_through_def inspectTenancy_def qry_def)

lemma let_through_unscoped:
  "m \<notin> set tenant_scoped_models \<Longrightarrow> let_through (qry m a args)"
  by (simp add: let_through_def inspectTenancy_def qry_def)

lemma let_through_org:
  assumes "map_of kvs ''organizationId'' = Some v" and "v \<noteq> QUndef"
  shows "let_through (qry m a (filt kvs # rest))"
  using assms
  by (auto simp: let_through_def inspectTenancy_def qry_def filt_def get_key_def has_key_def is_object_def
      Let_def dest: map_of_SomeD intro!: image_eqI split: option.splits)

lemma let_through_order:
  "let_through (qry m a (x # filt kvs # rest)) \<longleftrightarrow> let_through (qry m a (filt kvs # rest))"
  if "fst x \<noteq> ''where''"
  using that
  by (auto simp: let_through_def inspectTenancy_def qry_def filt_def get_key_def has_key_def
      is_object_def Let_def)

lemma qs_not_undef [simp]: "qs s \<noteq> QUndef" "QUndef \<noteq> qs s"
  by (simp_all add: qs_def)

text \<open>What the guard sees of a two-step update: the edit passes, the read by id alone does not.\<close>

lemma let_through_update: "let_through (update_query m i org d)"
  by (simp add: update_query_def let_through_org)

definition refused :: "string \<Rightarrow> string \<Rightarrow> api_error" where
  "refused model a =
     Plain (''tenancy violation: '' @ a @ '' on '' @ model @ '' without organizationId in where'')"

lemma refused_by_id:
  assumes "m \<in> set tenant_scoped_models" and "a \<in> set enforced_operations"
  shows "pc_query (installTenancyGuard True c) (qry m a (filt [(''id'', qs i)] # rest)) = throw (refused m a)"
  using assms
  by (simp add: installTenancyGuard_def inspect_query_def assertTenancy_def inspectTenancy_def qry_def filt_def
      get_key_def has_key_def is_object_def Let_def safe_bypass_keys_def refused_def fun_eq_iff
      bindA_def throw_def)

lemma free_actions [simp]: "''create'' \<notin> set enforced_operations" "''upsert'' \<notin> set enforced_operations"
  by (simp_all add: enforced_operations_def)

lemma free_models [simp]:
  "''Organization'' \<notin> set tenant_scoped_models" "''Subscription'' \<notin> set tenant_scoped_models"
  "''UsageCounter'' \<notin> set tenant_scoped_models" "''IngestionApiKey'' \<notin> set tenant_scoped_models"
  by (simp_all add: tenant_scoped_models_def)

lemma let_through_email: "let_through (qry m a (filt [(''email'', v)] # rest))"
  by (simp add: let_through_def inspectTenancy_def qry_def filt_def get_key_def has_key_def
      is_object_def Let_def
      safe_bypass_keys_def)

lemma let_through_message: "let_through (qry m a (filt [(''messageId'', v)] # rest))"
  by (simp add: let_through_def inspectTenancy_def qry_def filt_def get_key_def has_key_def
      is_object_def Let_def
      safe_bypass_keys_def)

lemma let_through_item: "let_through (pitem_query d)"
  by (simp add: pitem_query_def let_through_free)

lemma let_through_requirement: "let_through (prequirement_query d)"
  by (simp add: prequirement_query_def let_through_free)

lemma guarded_batch_map:
  "(\<And>d. let_through (f d)) \<Longrightarrow> pc_batch (installTenancyGuard strict c) (map f ds) = pc_batch c (map f ds)"
  by (rule guarded_batch) auto

lemmas guarded = guarded_query guarded_batch_map delete_scoped_def let_through_org let_through_free
      let_through_unscoped
  let_through_update let_through_email let_through_message let_through_item let_through_requirement fun_eq_iff

lemma guarded_porgs:
  "porgs_findAll (installTenancyGuard strict c) = porgs_findAll c"
  "porgs_findById (installTenancyGuard strict c) = porgs_findById c"
  "porgs_create (installTenancyGuard strict c) = porgs_create c"
  "porgs_update (installTenancyGuard strict c) = porgs_update c"
  "porgs_delete (installTenancyGuard strict c) = porgs_delete c"
  by (simp_all add: guarded porgs_findAll_def porgs_findById_def porgs_create_def porgs_update_def
      porgs_delete_def)

lemma guarded_pusers:
  "pusers_findAll (installTenancyGuard strict c) = pusers_findAll c"
  "pusers_findById (installTenancyGuard strict c) = pusers_findById c"
  "pusers_findByEmail (installTenancyGuard strict c) = pusers_findByEmail c"
  "pusers_create (installTenancyGuard strict c) = pusers_create c"
  "pusers_delete (installTenancyGuard strict c) = pusers_delete c"
  by (simp_all add: guarded pusers_findAll_def pusers_findById_def pusers_findByEmail_def
      pusers_create_def pusers_delete_def)

lemma guarded_pcompanies:
  "pcompanies_findAll (installTenancyGuard strict c) = pcompanies_findAll c"
  "pcompanies_findById (installTenancyGuard strict c) = pcompanies_findById c"
  "pcompanies_create (installTenancyGuard strict c) = pcompanies_create c"
  "pcompanies_delete (installTenancyGuard strict c) = pcompanies_delete c"
  by (simp_all add: guarded pcompanies_findAll_def pcompanies_findById_def pcompanies_create_def
      pcompanies_delete_def)

lemma guarded_ptenders:
  "ptenders_findAll (installTenancyGuard strict c) = ptenders_findAll c"
  "ptenders_findById (installTenancyGuard strict c) = ptenders_findById c"
  "ptenders_create (installTenancyGuard strict c) = ptenders_create c"
  "ptenders_delete (installTenancyGuard strict c) = ptenders_delete c"
  by (simp_all add: guarded ptenders_findAll_def ptenders_findById_def ptenders_create_def ptenders_delete_def)

lemma guarded_pdocuments:
  "pdocuments_findAll (installTenancyGuard strict c) = pdocuments_findAll c"
  "pdocuments_findById (installTenancyGuard strict c) = pdocuments_findById c"
  "pdocuments_create (installTenancyGuard strict c) = pdocuments_create c"
  "pdocuments_delete (installTenancyGuard strict c) = pdocuments_delete c"
  by (simp_all add: guarded pdocuments_findAll_def pdocuments_findById_def pdocuments_create_def
      pdocuments_delete_def)

lemma guarded_paudit:
  "paudit_create (installTenancyGuard strict c) = paudit_create c"
  "paudit_findForUser (installTenancyGuard strict c) = paudit_findForUser c"
  "paudit_findRecent (installTenancyGuard strict c) = paudit_findRecent c"
  "paudit_anonymiseUser (installTenancyGuard strict c) = paudit_anonymiseUser c"
  by (simp_all add: guarded paudit_create_def paudit_findForUser_def paudit_findRecent_def
      paudit_anonymiseUser_def)

lemma guarded_pmatrices:
  "pmatrices_findAllForTender (installTenancyGuard strict c) = pmatrices_findAllForTender c"
  "pmatrices_findById (installTenancyGuard strict c) = pmatrices_findById c"
  "pmatrices_findByVersion (installTenancyGuard strict c) = pmatrices_findByVersion c"
  "pmatrices_latestForTender (installTenancyGuard strict c) = pmatrices_latestForTender c"
  "pmatrices_create (installTenancyGuard strict c) = pmatrices_create c"
  "pmatrices_delete (installTenancyGuard strict c) = pmatrices_delete c"
  by (simp_all add: guarded pmatrices_findAllForTender_def pmatrices_findById_def
      pmatrices_findByVersion_def pmatrices_latestForTender_def pmatrices_create_def
      pmatrices_delete_def)

lemma guarded_pitems:
  "pitems_findAllForMatrix (installTenancyGuard strict c) = pitems_findAllForMatrix c"
  "pitems_findById (installTenancyGuard strict c) = pitems_findById c"
  "pitems_create (installTenancyGuard strict c) = pitems_create c"
  "pitems_createMany (installTenancyGuard strict c) = pitems_createMany c"
  "pitems_delete (installTenancyGuard strict c) = pitems_delete c"
  by (simp_all add: guarded pitems_findAllForMatrix_def pitems_findById_def pitems_create_def
      pitems_createMany_def pitems_delete_def)

lemma guarded_prequirements:
  "prequirements_findAllForTender (installTenancyGuard strict c) = prequirements_findAllForTender c"
  "prequirements_findById (installTenancyGuard strict c) = prequirements_findById c"
  "prequirements_create (installTenancyGuard strict c) = prequirements_create c"
  "prequirements_createMany (installTenancyGuard strict c) = prequirements_createMany c"
  "prequirements_delete (installTenancyGuard strict c) = prequirements_delete c"
  by (simp_all add: guarded prequirements_findAllForTender_def prequirements_findById_def
      prequirements_create_def prequirements_createMany_def prequirements_delete_def)

lemma guarded_plinks:
  "plinks_findAllForItem (installTenancyGuard strict c) = plinks_findAllForItem c"
  "plinks_findAllForDocument (installTenancyGuard strict c) = plinks_findAllForDocument c"
  "plinks_findById (installTenancyGuard strict c) = plinks_findById c"
  "plinks_create (installTenancyGuard strict c) = plinks_create c"
  "plinks_delete (installTenancyGuard strict c) = plinks_delete c"
  "plinks_unlink (installTenancyGuard strict c) = plinks_unlink c"
  by (simp_all add: guarded plinks_findAllForItem_def plinks_findAllForDocument_def
      plinks_findById_def plinks_create_def plinks_delete_def plinks_unlink_def)

lemma guarded_pconsents:
  "pconsents_create (installTenancyGuard strict c) = pconsents_create c"
  "pconsents_findAllForSubject (installTenancyGuard strict c) = pconsents_findAllForSubject c"
  "pconsents_findById (installTenancyGuard strict c) = pconsents_findById c"
  "pconsents_findCurrent (installTenancyGuard strict c) = pconsents_findCurrent c"
  "pconsents_anonymiseSubject (installTenancyGuard strict c) = pconsents_anonymiseSubject c"
  by (simp_all add: guarded pconsents_create_def pconsents_findAllForSubject_def
      pconsents_findById_def pconsents_findCurrent_def pconsents_anonymiseSubject_def)

lemma guarded_prequests:
  "prequests_create (installTenancyGuard strict c) = prequests_create c"
  "prequests_findById (installTenancyGuard strict c) = prequests_findById c"
  "prequests_findAll (installTenancyGuard strict c) = prequests_findAll c"
  "prequests_findForSubject (installTenancyGuard strict c) = prequests_findForSubject c"
  by (simp_all add: guarded prequests_create_def prequests_findById_def prequests_findAll_def
      prequests_findForSubject_def)

lemma guarded_paccess:
  "paccess_create (installTenancyGuard strict c) = paccess_create c"
  "paccess_findById (installTenancyGuard strict c) = paccess_findById c"
  "paccess_findAllForTender (installTenancyGuard strict c) = paccess_findAllForTender c"
  "paccess_findAllForUser (installTenancyGuard strict c) = paccess_findAllForUser c"
  "paccess_findByUserAndTender (installTenancyGuard strict c) = paccess_findByUserAndTender c"
  "paccess_delete (installTenancyGuard strict c) = paccess_delete c"
  "paccess_revoke (installTenancyGuard strict c) = paccess_revoke c"
  by (simp_all add: guarded paccess_create_def paccess_findById_def paccess_findAllForTender_def
      paccess_findAllForUser_def paccess_findByUserAndTender_def paccess_delete_def
      paccess_revoke_def)

lemma guarded_pretention:
  "pretention_create (installTenancyGuard strict c) = pretention_create c"
  "pretention_findById (installTenancyGuard strict c) = pretention_findById c"
  "pretention_findAll (installTenancyGuard strict c) = pretention_findAll c"
  "pretention_findForDocument (installTenancyGuard strict c) = pretention_findForDocument c"
  by (simp_all add: guarded pretention_create_def pretention_findById_def pretention_findAll_def
      pretention_findForDocument_def)

lemma guarded_pdpo:
  "pdpo_upsert (installTenancyGuard strict c) = pdpo_upsert c"
  "pdpo_findByOrg (installTenancyGuard strict c) = pdpo_findByOrg c"
  by (simp_all add: guarded pdpo_upsert_def pdpo_findByOrg_def)

lemma guarded_ptraining:
  "ptraining_create (installTenancyGuard strict c) = ptraining_create c"
  "ptraining_findById (installTenancyGuard strict c) = ptraining_findById c"
  "ptraining_findAll (installTenancyGuard strict c) = ptraining_findAll c"
  "ptraining_findExpiringBefore (installTenancyGuard strict c) = ptraining_findExpiringBefore c"
  "ptraining_update (installTenancyGuard strict c) = ptraining_update c"
  "ptraining_delete (installTenancyGuard strict c) = ptraining_delete c"
  by (simp_all add: guarded ptraining_create_def ptraining_findById_def ptraining_findAll_def
      ptraining_findExpiringBefore_def ptraining_update_def ptraining_delete_def)

lemma guarded_pjobs:
  "pjobs_create (installTenancyGuard strict c) = pjobs_create c"
  "pjobs_findById (installTenancyGuard strict c) = pjobs_findById c"
  "pjobs_findAll (installTenancyGuard strict c) = pjobs_findAll c"
  by (simp_all add: guarded pjobs_create_def pjobs_findById_def pjobs_findAll_def)

lemma guarded_pemails:
  "pemails_findByMessageId (installTenancyGuard strict c) = pemails_findByMessageId c"
  "pemails_create (installTenancyGuard strict c) = pemails_create c"
  "pemails_findRecent (installTenancyGuard strict c) = pemails_findRecent c"
  by (simp_all add: guarded pemails_findByMessageId_def pemails_create_def pemails_findRecent_def)

lemma guarded_pkeys:
  "pkeys_create (installTenancyGuard strict c) = pkeys_create c"
  "pkeys_findByPrefix (installTenancyGuard strict c) = pkeys_findByPrefix c"
  "pkeys_findAllByOrg (installTenancyGuard strict c) = pkeys_findAllByOrg c"
  "pkeys_markUsed (installTenancyGuard strict c) = pkeys_markUsed c"
  "pkeys_revoke (installTenancyGuard strict c) = pkeys_revoke c"
  by (simp_all add: guarded pkeys_create_def pkeys_findByPrefix_def pkeys_findAllByOrg_def
      pkeys_markUsed_def pkeys_revoke_def)

lemma guarded_pllm:
  "pllm_create (installTenancyGuard strict c) = pllm_create c"
  "pllm_dailyTotals (installTenancyGuard strict c) = pllm_dailyTotals c"
  by (simp_all add: guarded pllm_create_def pllm_dailyTotals_def)

lemma guarded_psubscriptions:
  "psubscriptions_findByOrg (installTenancyGuard strict c) = psubscriptions_findByOrg c"
  "psubscriptions_findByStripeId (installTenancyGuard strict c) = psubscriptions_findByStripeId c"
  "psubscriptions_upsert (installTenancyGuard strict c) = psubscriptions_upsert c"
  by (simp_all add: guarded psubscriptions_findByOrg_def psubscriptions_findByStripeId_def psubscriptions_upsert_def)

lemma guarded_pcounters:
  "pcounters_bump (installTenancyGuard strict c) = pcounters_bump c"
  "pcounters_findDay (installTenancyGuard strict c) = pcounters_findDay c"
  "pcounters_sumRange (installTenancyGuard strict c) = pcounters_sumRange c"
  by (simp_all add: guarded pcounters_bump_def pcounters_findDay_def pcounters_sumRange_def)

lemma guarded_phooks:
  "phooks_create (installTenancyGuard strict c) = phooks_create c"
  "phooks_findById (installTenancyGuard strict c) = phooks_findById c"
  "phooks_findAll (installTenancyGuard strict c) = phooks_findAll c"
  "phooks_findActiveForEvent (installTenancyGuard strict c) = phooks_findActiveForEvent c"
  "phooks_update (installTenancyGuard strict c) = phooks_update c"
  "phooks_delete (installTenancyGuard strict c) = phooks_delete c"
  by (simp_all add: guarded phooks_create_def phooks_findById_def phooks_findAll_def
      phooks_findActiveForEvent_def phooks_update_def phooks_delete_def)

lemma guarded_pdeliveries:
  "pdeliveries_create (installTenancyGuard strict c) = pdeliveries_create c"
  "pdeliveries_findById (installTenancyGuard strict c) = pdeliveries_findById c"
  "pdeliveries_findRecent (installTenancyGuard strict c) = pdeliveries_findRecent c"
  by (simp_all add: guarded pdeliveries_create_def pdeliveries_findById_def pdeliveries_findRecent_def)

text \<open>
  C37: Every repository method but the updates that read back by id, the claim of a job and the edit of a delivery
  answers under the tenancy guard exactly as it does without it, in the strict mode as in the
  lax one: the strict mode refuses none of their queries.
\<close>
theorem strict_mode_transparent:
  fixes c :: "'r prisma"
  shows

  "porgs_findAll (installTenancyGuard strict c) = porgs_findAll c \<and>
   porgs_findById (installTenancyGuard strict c) = porgs_findById c \<and>
   porgs_create (installTenancyGuard strict c) = porgs_create c \<and>
   porgs_update (installTenancyGuard strict c) = porgs_update c \<and>
   porgs_delete (installTenancyGuard strict c) = porgs_delete c \<and>
   pusers_findAll (installTenancyGuard strict c) = pusers_findAll c \<and>
   pusers_findById (installTenancyGuard strict c) = pusers_findById c \<and>
   pusers_findByEmail (installTenancyGuard strict c) = pusers_findByEmail c \<and>
   pusers_create (installTenancyGuard strict c) = pusers_create c \<and>
   pusers_delete (installTenancyGuard strict c) = pusers_delete c \<and>
   pcompanies_findAll (installTenancyGuard strict c) = pcompanies_findAll c \<and>
   pcompanies_findById (installTenancyGuard strict c) = pcompanies_findById c \<and>
   pcompanies_create (installTenancyGuard strict c) = pcompanies_create c \<and>
   pcompanies_delete (installTenancyGuard strict c) = pcompanies_delete c \<and>
   ptenders_findAll (installTenancyGuard strict c) = ptenders_findAll c \<and>
   ptenders_findById (installTenancyGuard strict c) = ptenders_findById c \<and>
   ptenders_create (installTenancyGuard strict c) = ptenders_create c \<and>
   ptenders_delete (installTenancyGuard strict c) = ptenders_delete c \<and>
   pdocuments_findAll (installTenancyGuard strict c) = pdocuments_findAll c \<and>
   pdocuments_findById (installTenancyGuard strict c) = pdocuments_findById c \<and>
   pdocuments_create (installTenancyGuard strict c) = pdocuments_create c \<and>
   pdocuments_delete (installTenancyGuard strict c) = pdocuments_delete c \<and>
   paudit_create (installTenancyGuard strict c) = paudit_create c \<and>
   paudit_findForUser (installTenancyGuard strict c) = paudit_findForUser c \<and>
   paudit_findRecent (installTenancyGuard strict c) = paudit_findRecent c \<and>
   paudit_anonymiseUser (installTenancyGuard strict c) = paudit_anonymiseUser c \<and>
   pmatrices_findAllForTender (installTenancyGuard strict c) = pmatrices_findAllForTender c \<and>
   pmatrices_findById (installTenancyGuard strict c) = pmatrices_findById c \<and>
   pmatrices_findByVersion (installTenancyGuard strict c) = pmatrices_findByVersion c \<and>
   pmatrices_latestForTender (installTenancyGuard strict c) = pmatrices_latestForTender c \<and>
   pmatrices_create (installTenancyGuard strict c) = pmatrices_create c \<and>
   pmatrices_delete (installTenancyGuard strict c) = pmatrices_delete c \<and>
   pitems_findAllForMatrix (installTenancyGuard strict c) = pitems_findAllForMatrix c \<and>
   pitems_findById (installTenancyGuard strict c) = pitems_findById c \<and>
   pitems_create (installTenancyGuard strict c) = pitems_create c \<and>
   pitems_createMany (installTenancyGuard strict c) = pitems_createMany c \<and>
   pitems_delete (installTenancyGuard strict c) = pitems_delete c \<and>
   prequirements_findAllForTender (installTenancyGuard strict c) = prequirements_findAllForTender c \<and>
   prequirements_findById (installTenancyGuard strict c) = prequirements_findById c \<and>
   prequirements_create (installTenancyGuard strict c) = prequirements_create c \<and>
   prequirements_createMany (installTenancyGuard strict c) = prequirements_createMany c \<and>
   prequirements_delete (installTenancyGuard strict c) = prequirements_delete c \<and>
   plinks_findAllForItem (installTenancyGuard strict c) = plinks_findAllForItem c \<and>
   plinks_findAllForDocument (installTenancyGuard strict c) = plinks_findAllForDocument c \<and>
   plinks_findById (installTenancyGuard strict c) = plinks_findById c \<and>
   plinks_create (installTenancyGuard strict c) = plinks_create c \<and>
   plinks_delete (installTenancyGuard strict c) = plinks_delete c \<and>
   plinks_unlink (installTenancyGuard strict c) = plinks_unlink c \<and>
   pconsents_create (installTenancyGuard strict c) = pconsents_create c \<and>
   pconsents_findAllForSubject (installTenancyGuard strict c) = pconsents_findAllForSubject c \<and>
   pconsents_findById (installTenancyGuard strict c) = pconsents_findById c \<and>
   pconsents_findCurrent (installTenancyGuard strict c) = pconsents_findCurrent c \<and>
   pconsents_anonymiseSubject (installTenancyGuard strict c) = pconsents_anonymiseSubject c \<and>
   prequests_create (installTenancyGuard strict c) = prequests_create c \<and>
   prequests_findById (installTenancyGuard strict c) = prequests_findById c \<and>
   prequests_findAll (installTenancyGuard strict c) = prequests_findAll c \<and>
   prequests_findForSubject (installTenancyGuard strict c) = prequests_findForSubject c \<and>
   paccess_create (installTenancyGuard strict c) = paccess_create c \<and>
   paccess_findById (installTenancyGuard strict c) = paccess_findById c \<and>
   paccess_findAllForTender (installTenancyGuard strict c) = paccess_findAllForTender c \<and>
   paccess_findAllForUser (installTenancyGuard strict c) = paccess_findAllForUser c \<and>
   paccess_findByUserAndTender (installTenancyGuard strict c) = paccess_findByUserAndTender c \<and>
   paccess_delete (installTenancyGuard strict c) = paccess_delete c \<and>
   paccess_revoke (installTenancyGuard strict c) = paccess_revoke c \<and>
   pretention_create (installTenancyGuard strict c) = pretention_create c \<and>
   pretention_findById (installTenancyGuard strict c) = pretention_findById c \<and>
   pretention_findAll (installTenancyGuard strict c) = pretention_findAll c \<and>
   pretention_findForDocument (installTenancyGuard strict c) = pretention_findForDocument c \<and>
   pdpo_upsert (installTenancyGuard strict c) = pdpo_upsert c \<and>
   pdpo_findByOrg (installTenancyGuard strict c) = pdpo_findByOrg c \<and>
   ptraining_create (installTenancyGuard strict c) = ptraining_create c \<and>
   ptraining_findById (installTenancyGuard strict c) = ptraining_findById c \<and>
   ptraining_findAll (installTenancyGuard strict c) = ptraining_findAll c \<and>
   ptraining_findExpiringBefore (installTenancyGuard strict c) = ptraining_findExpiringBefore c \<and>
   ptraining_update (installTenancyGuard strict c) = ptraining_update c \<and>
   ptraining_delete (installTenancyGuard strict c) = ptraining_delete c \<and>
   pjobs_create (installTenancyGuard strict c) = pjobs_create c \<and>
   pjobs_findById (installTenancyGuard strict c) = pjobs_findById c \<and>
   pjobs_findAll (installTenancyGuard strict c) = pjobs_findAll c \<and>
   pemails_findByMessageId (installTenancyGuard strict c) = pemails_findByMessageId c \<and>
   pemails_create (installTenancyGuard strict c) = pemails_create c \<and>
   pemails_findRecent (installTenancyGuard strict c) = pemails_findRecent c \<and>
   pkeys_create (installTenancyGuard strict c) = pkeys_create c \<and>
   pkeys_findByPrefix (installTenancyGuard strict c) = pkeys_findByPrefix c \<and>
   pkeys_findAllByOrg (installTenancyGuard strict c) = pkeys_findAllByOrg c \<and>
   pkeys_markUsed (installTenancyGuard strict c) = pkeys_markUsed c \<and>
   pkeys_revoke (installTenancyGuard strict c) = pkeys_revoke c \<and>
   pllm_create (installTenancyGuard strict c) = pllm_create c \<and>
   pllm_dailyTotals (installTenancyGuard strict c) = pllm_dailyTotals c \<and>
   psubscriptions_findByOrg (installTenancyGuard strict c) = psubscriptions_findByOrg c \<and>
   psubscriptions_findByStripeId (installTenancyGuard strict c) = psubscriptions_findByStripeId c \<and>
   psubscriptions_upsert (installTenancyGuard strict c) = psubscriptions_upsert c \<and>
   pcounters_bump (installTenancyGuard strict c) = pcounters_bump c \<and>
   pcounters_findDay (installTenancyGuard strict c) = pcounters_findDay c \<and>
   pcounters_sumRange (installTenancyGuard strict c) = pcounters_sumRange c \<and>
   phooks_create (installTenancyGuard strict c) = phooks_create c \<and>
   phooks_findById (installTenancyGuard strict c) = phooks_findById c \<and>
   phooks_findAll (installTenancyGuard strict c) = phooks_findAll c \<and>
   phooks_findActiveForEvent (installTenancyGuard strict c) = phooks_findActiveForEvent c \<and>
   phooks_update (installTenancyGuard strict c) = phooks_update c \<and>
   phooks_delete (installTenancyGuard strict c) = phooks_delete c \<and>
   pdeliveries_create (installTenancyGuard strict c) = pdeliveries_create c \<and>
   pdeliveries_findById (installTenancyGuard strict c) = pdeliveries_findById c \<and>
   pdeliveries_findRecent (installTenancyGuard strict c) = pdeliveries_findRecent c"
  by (simp add: guarded_porgs guarded_pusers guarded_pcompanies guarded_ptenders guarded_pdocuments
      guarded_paudit guarded_pmatrices guarded_pitems guarded_prequirements guarded_plinks
      guarded_pconsents guarded_prequests guarded_paccess guarded_pretention guarded_pdpo
      guarded_ptraining guarded_pjobs guarded_pemails guarded_pkeys guarded_pllm
      guarded_psubscriptions guarded_pcounters guarded_phooks guarded_pdeliveries)

subsection \<open>What the strict mode refuses\<close>

lemma strict_update_fails:
  assumes "m \<in> set tenant_scoped_models"
  shows "isl (fst (update_then_fetch (installTenancyGuard True c) m err i org d w))"
proof -
  have "pc_query (installTenancyGuard True c) (qry m ''findUniqueOrThrow'' [filt [(''id'', qs i)]]) =
      throw (refused m ''findUniqueOrThrow'')"
    using assms by (intro refused_by_id) (simp_all add: enforced_operations_def)
  then show ?thesis
    by (auto simp: update_then_fetch_def guarded_query let_through_update bindA_def throw_def
      throwIf_def ret_def
        split: prod.splits sum.splits)
qed

lemma strict_update_writes:
  assumes "m \<in> set tenant_scoped_models" and "pc_query c (update_query m i org d) w = (Inr a, w')" and "affected a > 0"
  shows "update_then_fetch (installTenancyGuard True c) m err i org d w = (Inl (refused m ''findUniqueOrThrow''), w')"
proof -
  have "pc_query (installTenancyGuard True c) (qry m ''findUniqueOrThrow'' [filt [(''id'', qs i)]]) =
      throw (refused m ''findUniqueOrThrow'')"
    using assms(1) by (intro refused_by_id) (simp_all add: enforced_operations_def)
  then show ?thesis
    using assms(2,3) by (simp add: update_then_fetch_def guarded_query let_through_update bindA_def
      throw_def throwIf_def ret_def)
qed


text \<open>
  The strict mode reports a failed update of a tender although the edit was made: when the
  database edited the row, the caller gets the tenancy violation and the world is the one after the
  edit.
\<close>
theorem strict_mode_update_lands:
  assumes "pc_query c (update_query ''Tender'' i org
      [(''title'', und qs (utn_title d)), (''status'', und qs (utn_status d)), (''source'', und qs (utn_source d)),
       (''sector'', und (nul qs) (utn_sector d)), (''sectorCategory'', und (nul qs) (utn_sectorCategory d)),
       (''sectorConfidence'', und (nul qr) (utn_sectorConfidence d)),
       (''sectorClassifiedAt'', und (nul qd) (utn_sectorClassifiedAt d)),
       (''sectorInputHash'', und (nul qs) (utn_sectorInputHash d)),
       (''sectorModel'', und (nul qs) (utn_sectorModel d))]) w = (Inr (Affected n), w')" and "n > 0"
  shows "ptenders_update (installTenancyGuard True c) i org d w =
    (Inl (Plain ''tenancy violation: findUniqueOrThrow on Tender without organizationId in where''), w')"
  using assms
  by (simp add: ptenders_update_def strict_update_writes tenant_scoped_models_def affected_def refused_def)

text \<open>
  In the strict mode no pending job can be claimed: when the raw statement finds one, the edit
  that claims it is refused, and the transaction, which passes errors on, fails.
\<close>
theorem strict_mode_stops_workers:
  assumes passes: "\<And>m w e w'. m w = (Inl e, w') \<Longrightarrow> fst (pc_transaction c m w) = Inl e"
    and pending: "pc_raw c (pjob_claim_sql kind) (case kind of Some k \<Rightarrow> if k = [] then [] else [k] | None \<Rightarrow> []) w =
      (Inr (j # js), w')"
  shows "fst (pjobs_claimNext (installTenancyGuard True c) worker kind w) = Inl (refused ''IngestionJob'' ''update'')"
proof -
  have "pc_query (installTenancyGuard True c) (pjob_claim_query j worker t) = throw (refused ''IngestionJob'' ''update'')" for t
    unfolding pjob_claim_query_def
    by (rule refused_by_id) (simp_all add: enforced_operations_def tenant_scoped_models_def)
  then show ?thesis
    unfolding pjobs_claimNext_def guarded_others
    by (intro passes[of _ _ _ "snd (nowA w')"])
      (simp add: pending bindA_def nowA_def throw_def split: prod.splits)
qed

subsection \<open>Reads stay in the organisation\<close>

text \<open>
  What the client documents about a read: every row it answers with has, in the columns the filter
  compares with a value, that value. \<open>col\<close> reads a column of a row.
\<close>

definition rows_of :: "'r dbres \<Rightarrow> 'r list" where
  "rows_of a = (case a of One (Some r) \<Rightarrow> [r] | All rs \<Rightarrow> rs | _ \<Rightarrow> [])"

definition reads :: "string list" where
  "reads = [''findFirst'', ''findFirstOrThrow'', ''findMany'', ''findUnique'', ''findUniqueOrThrow'']"

definition honest_reads :: "('r \<Rightarrow> string \<Rightarrow> qval) \<Rightarrow> 'r prisma \<Rightarrow> bool" where
  "honest_reads col c \<longleftrightarrow>
     (\<forall>m a kvs rest w ans w' r k v.
        a \<in> set reads \<longrightarrow> pc_query c (qry m a (filt kvs # rest)) w = (Inr ans, w') \<longrightarrow>
        r \<in> set (rows_of ans) \<longrightarrow> (k, QPrim v) \<in> set kvs \<longrightarrow> col r k = QPrim v)"

definition home_rows :: "('r \<Rightarrow> string \<Rightarrow> qval) \<Rightarrow> ident \<Rightarrow> 'r dbres wact \<Rightarrow> bool" where
  "home_rows col org m \<longleftrightarrow>
     (\<forall>w ans w' r. m w = (Inr ans, w') \<longrightarrow> r \<in> set (rows_of ans) \<longrightarrow> col r ''organizationId'' = qs org)"

lemma home_rows_query:
  assumes "honest_reads col c" and "(''organizationId'', qs org) \<in> set kvs" and "a \<in> set reads"
  shows "home_rows col org (pc_query c (qry m a (filt kvs # rest)))"
  using assms unfolding home_rows_def honest_reads_def qs_def by blast

lemma home_rows_bindA: "(\<And>x. home_rows col org (f x)) \<Longrightarrow> home_rows col org (bindA m f)"
  by (auto simp: home_rows_def bindA_def split: prod.splits sum.splits)

lemma reads_actions [simp]:
  "''findFirst'' \<in> set reads" "''findMany'' \<in> set reads" "''findFirstOrThrow'' \<in> set reads" "''findUnique'' \<in> set reads"
  by (simp_all add: reads_def)

text \<open>
  C4: Every read of the production repositories that takes an organisation, and the reading half of the edits
  that read back by id and organisation, answers only with rows of that organisation, whatever ids
  and filters the caller chose.
\<close>
theorem prisma_reads_stay_home:
  assumes "honest_reads col c"
  shows 
  "home_rows col org (pusers_findAll c org) \<and>
   home_rows col org (pusers_findById c i org) \<and>
   home_rows col org (pcompanies_findAll c org) \<and>
   home_rows col org (pcompanies_findById c i org) \<and>
   home_rows col org (ptenders_findAll c org) \<and>
   home_rows col org (ptenders_findById c i org) \<and>
   home_rows col org (pdocuments_findAll c org) \<and>
   home_rows col org (pdocuments_findById c i org) \<and>
   home_rows col org (paudit_findForUser c user org) \<and>
   home_rows col org (paudit_findRecent c org limit) \<and>
   home_rows col org (pmatrices_findAllForTender c tender org) \<and>
   home_rows col org (pmatrices_findById c i org) \<and>
   home_rows col org (pmatrices_findByVersion c tender version org) \<and>
   home_rows col org (pmatrices_latestForTender c tender org) \<and>
   home_rows col org (pitems_findAllForMatrix c matrix org) \<and>
   home_rows col org (pitems_findById c i org) \<and>
   home_rows col org (prequirements_findAllForTender c tender org) \<and>
   home_rows col org (prequirements_findById c i org) \<and>
   home_rows col org (plinks_findAllForItem c item org) \<and>
   home_rows col org (plinks_findAllForDocument c doc org) \<and>
   home_rows col org (plinks_findById c i org) \<and>
   home_rows col org (pconsents_findAllForSubject c email org) \<and>
   home_rows col org (pconsents_findById c i org) \<and>
   home_rows col org (pconsents_findCurrent c email purpose org) \<and>
   home_rows col org (prequests_findById c i org) \<and>
   home_rows col org (prequests_findAll c org status) \<and>
   home_rows col org (prequests_findForSubject c email org) \<and>
   home_rows col org (paccess_findById c i org) \<and>
   home_rows col org (paccess_findAllForTender c tender org) \<and>
   home_rows col org (paccess_findAllForUser c user org) \<and>
   home_rows col org (paccess_findByUserAndTender c user tender org) \<and>
   home_rows col org (pretention_findById c i org) \<and>
   home_rows col org (pretention_findAll c org status) \<and>
   home_rows col org (pretention_findForDocument c doc org) \<and>
   home_rows col org (pdpo_findByOrg c org) \<and>
   home_rows col org (ptraining_findById c i org) \<and>
   home_rows col org (ptraining_findAll c org) \<and>
   home_rows col org (ptraining_findExpiringBefore c org cutoff) \<and>
   home_rows col org (ptraining_update c i org d) \<and>
   home_rows col org (pjobs_findById c i org) \<and>
   home_rows col org (pjobs_findAll c org status kind) \<and>
   home_rows col org (pemails_findRecent c org limit') \<and>
   home_rows col org (pkeys_findAllByOrg c org) \<and>
   home_rows col org (pkeys_revoke c i org) \<and>
   home_rows col org (psubscriptions_findByOrg c org) \<and>
   home_rows col org (pcounters_findDay c org date) \<and>
   home_rows col org (phooks_findById c i org) \<and>
   home_rows col org (phooks_findAll c org) \<and>
   home_rows col org (phooks_findActiveForEvent c org ev) \<and>
   home_rows col org (phooks_update c i org d') \<and>
   home_rows col org (pdeliveries_findById c i org) \<and>
   home_rows col org (pdeliveries_findRecent c org limit')"
  using assms
  by (simp add: home_rows_query home_rows_bindA
      pusers_findAll_def pusers_findById_def pcompanies_findAll_def pcompanies_findById_def
      ptenders_findAll_def ptenders_findById_def pdocuments_findAll_def pdocuments_findById_def
      paudit_findForUser_def paudit_findRecent_def pmatrices_findAllForTender_def
      pmatrices_findById_def pmatrices_findByVersion_def pmatrices_latestForTender_def
      pitems_findAllForMatrix_def pitems_findById_def prequirements_findAllForTender_def
      prequirements_findById_def plinks_findAllForItem_def plinks_findAllForDocument_def
      plinks_findById_def pconsents_findAllForSubject_def pconsents_findById_def
      pconsents_findCurrent_def prequests_findById_def prequests_findAll_def
      prequests_findForSubject_def paccess_findById_def paccess_findAllForTender_def
      paccess_findAllForUser_def paccess_findByUserAndTender_def pretention_findById_def
      pretention_findAll_def pretention_findForDocument_def pdpo_findByOrg_def
      ptraining_findById_def ptraining_findAll_def ptraining_findExpiringBefore_def
      ptraining_update_def pjobs_findById_def pjobs_findAll_def pemails_findRecent_def
      pkeys_findAllByOrg_def pkeys_revoke_def psubscriptions_findByOrg_def pcounters_findDay_def
      phooks_findById_def phooks_findAll_def phooks_findActiveForEvent_def phooks_update_def
      pdeliveries_findById_def pdeliveries_findRecent_def)

text \<open>A client over a few rows, which reads, counts the edited rows and writes nothing.\<close>

type_synonym demo_row = "(string \<times> qval) list"

definition demo_col :: "demo_row \<Rightarrow> string \<Rightarrow> qval" where
  "demo_col r k = get_key (QObj r) k"

definition demo_matches :: "(string \<times> qval) list \<Rightarrow> demo_row \<Rightarrow> bool" where
  "demo_matches kvs r = list_all (\<lambda>(k, v). case v of QPrim _ \<Rightarrow> demo_col r k = v | _ \<Rightarrow> True) kvs"

definition demo_rows :: "string \<Rightarrow> demo_row list" where
  "demo_rows model =
     (if model = ''Tender'' then
        [[(''id'', qs ''t1''), (''organizationId'', qs ''o1'')], [(''id'', qs ''t2''), (''organizationId'', qs ''o2'')]]
      else [])"

definition demo_where :: "query \<Rightarrow> (string \<times> qval) list" where
  "demo_where q = (case get_key (qy_args q) ''where'' of QObj kvs \<Rightarrow> kvs | _ \<Rightarrow> [])"

definition demo_answer :: "query \<Rightarrow> demo_row dbres" where
  "demo_answer q =
     (let hits = filter (demo_matches (demo_where q)) (demo_rows (qy_model q)) in
      if qy_action q = ''findMany'' then All hits
      else if qy_action q \<in> set reads then One (case hits of [] \<Rightarrow> None | r # _ \<Rightarrow> Some r)
      else Affected (length hits))"

definition demo_client :: "demo_row prisma" where
  "demo_client = \<lparr>pc_query = (\<lambda>q. ret (demo_answer q)), pc_batch = (\<lambda>qs'. ret (map demo_answer qs')),
     pc_raw = (\<lambda>_ _. ret [''j1'']), pc_transaction = (\<lambda>m. m)\<rparr>"

lemma demo_where_qry [simp]: "demo_where (qry m a (filt kvs # rest)) = kvs"
  by (simp add: demo_where_def qry_def filt_def get_key_def)

lemma demo_matches_col: "demo_matches kvs r \<Longrightarrow> (k, QPrim v) \<in> set kvs \<Longrightarrow> demo_col r k = QPrim v"
  by (auto simp: demo_matches_def list_all_iff)

lemma demo_answer_rows:
  "r \<in> set (rows_of (demo_answer q)) \<Longrightarrow> demo_matches (demo_where q) r"
proof -
  assume r: "r \<in> set (rows_of (demo_answer q))"
  let ?h = "filter (demo_matches (demo_where q)) (demo_rows (qy_model q))"
  have "r \<in> set ?h"
    using r by (cases ?h) (auto simp: demo_answer_def Let_def rows_of_def split: if_splits)
  then show ?thesis by simp
qed

lemma demo_client_honest: "honest_reads demo_col demo_client"
  unfolding honest_reads_def
proof (intro allI impI)
  fix m a kvs rest w ans w' r k v
  assume "pc_query demo_client (qry m a (filt kvs # rest)) w = (Inr ans, w')"
    and "r \<in> set (rows_of ans)" and "(k, QPrim v) \<in> set kvs"
  then show "demo_col r k = QPrim v"
    using demo_answer_rows[of r "qry m a (filt kvs # rest)"]
    by (auto simp: demo_client_def ret_def intro: demo_matches_col)
qed

theorem prisma_reads_stay_home_witness:
  "home_rows demo_col ''o1'' (ptenders_findAll demo_client ''o1'') \<and>
   fst (ptenders_findAll demo_client ''o1'' world0) = Inr (All [[(''id'', qs ''t1''), (''organizationId'', qs ''o1'')]])"
proof
  show "home_rows demo_col ''o1'' (ptenders_findAll demo_client ''o1'')"
    using prisma_reads_stay_home[OF demo_client_honest, where org = "''o1''"] by simp
  show "fst (ptenders_findAll demo_client ''o1'' world0) = Inr (All [[(''id'', qs ''t1''), (''organizationId'', qs ''o1'')]])"
    by code_simp
qed

end
