(* ===== verification/Uri.thy ===== *)
theory Uri
  imports Hex
begin

text \<open>
  Percent encoding as the language defines it: \<^verbatim>\<open>encodeURIComponent\<close>, its inverse, and the form
  encoding of \<^verbatim>\<open>URLSearchParams\<close>, for texts of code units below 256.
\<close>

subsection \<open>Percent encoding\<close>

definition alnum :: "char \<Rightarrow> bool" where
  "alnum c = (let n = of_char c :: nat in
     (65 \<le> n \<and> n \<le> 90) \<or> (97 \<le> n \<and> n \<le> 122) \<or> (48 \<le> n \<and> n \<le> 57))"

definition uri_plain :: "char \<Rightarrow> bool" where
  "uri_plain c = (alnum c \<or> c \<in> set (''-_.!~*()'' @ [CHR 0x27]))"

definition upper_hex :: "nat \<Rightarrow> char" where
  "upper_hex n = char_of (if n < 10 then 48 + n else 55 + n)"

definition percent :: "char \<Rightarrow> string" where
  "percent c = (let n = of_char c :: nat in [CHR ''%'', upper_hex (n div 16), upper_hex (n mod 16)])"

text \<open>The UTF-8 bytes of the text, each kept or written in hexadecimal.\<close>

definition encodeURIComponent :: "string \<Rightarrow> string" where
  "encodeURIComponent s = concat (map (\<lambda>b. if uri_plain b then [b] else percent b) (utf8 s))"

text \<open>The encoding of \<^verbatim>\<open>URLSearchParams\<close>.\<close>

definition form_encode :: "string \<Rightarrow> string" where
  "form_encode s = concat (map (\<lambda>b. if alnum b \<or> b \<in> set ''*-._'' then [b]
     else if b = CHR '' '' then ''+'' else percent b) (utf8 s))"

fun percent_decode :: "string \<Rightarrow> string option" where
  "percent_decode [] = Some []"
| "percent_decode (c # s) =
     (if c = CHR ''%''
      then (case s of
              a # b # s' \<Rightarrow> (case (hex_val a, hex_val b) of
                 (Some x, Some y) \<Rightarrow> map_option ((#) (char_of (16 * x + y))) (percent_decode s')
               | _ \<Rightarrow> None)
            | _ \<Rightarrow> None)
      else map_option ((#) c) (percent_decode s))"

fun from_utf8 :: "string \<Rightarrow> string option" where
  "from_utf8 [] = Some []"
| "from_utf8 (b # bs) =
     (let n = of_char b :: nat in
      if n < 128 then map_option ((#) b) (from_utf8 bs)
      else (case bs of
              [] \<Rightarrow> None
            | b' # bs' \<Rightarrow>
                let m = of_char b' :: nat in
                if (n = 194 \<or> n = 195) \<and> 128 \<le> m \<and> m < 192
                then map_option ((#) (char_of (64 * (n - 192) + (m - 128)))) (from_utf8 bs')
                else None))"

definition decodeURIComponent :: "string \<Rightarrow> string option" where
  "decodeURIComponent s = Option.bind (percent_decode s) from_utf8"

subsection \<open>Encoding and decoding\<close>

lemma uri_plain_char: "uri_plain c \<Longrightarrow> c \<noteq> CHR ''%'' \<and> c \<noteq> CHR ''/'' \<and> c \<noteq> CHR ''?'' \<and> c \<noteq> CHR ''#''"
  by (auto simp: uri_plain_def alnum_def Let_def)

lemma hex_val_upper: "n < 16 \<Longrightarrow> hex_val (upper_hex n) = Some n"
  by (simp add: hex_val_def upper_hex_def Let_def)

lemma byte_halves: "(of_char b :: nat) div 16 < 16" "(of_char b :: nat) mod 16 < 16"
  by (simp_all add: less_mult_imp_div_less)

lemma percent_decode_bytes:
  "percent_decode (concat (map (\<lambda>b. if uri_plain b then [b] else percent b) bs)) = Some bs"
proof (induction bs)
  case (Cons b bs)
  show ?case
  proof (cases "uri_plain b")
    case True
    then show ?thesis
      using Cons uri_plain_char [of b] by simp
  next
    case False
    have "16 * (of_char b div 16) + of_char b mod 16 = (of_char b :: nat)"
      by simp
    then show ?thesis
      using Cons False by (simp add: percent_def Let_def hex_val_upper byte_halves)
  qed
qed simp

lemma from_utf8_pair:
  assumes "from_utf8 s = Some s'" and d: "(of_char c :: nat) div 64 = 2 \<or> (of_char c :: nat) div 64 = 3"
    and m: "(of_char c :: nat) mod 64 < 64"
  shows "from_utf8 (char_of (192 + (of_char c :: nat) div 64) # char_of (128 + (of_char c :: nat) mod 64) # s) =
    Some (c # s')"
proof -
  have e: "64 * ((of_char c :: nat) div 64) + (of_char c :: nat) mod 64 = of_char c"
    by simp
  have "(of_char (char_of (128 + (of_char c :: nat) mod 64)) :: nat) = 128 + of_char c mod 64"
    using m by simp
  moreover have "(of_char (char_of (192 + (of_char c :: nat) div 64)) :: nat) = 192 + of_char c div 64"
    using d by auto
  ultimately show ?thesis
    using assms(1) d m e by (simp add: Let_def)
qed

lemma from_utf8_utf8: "from_utf8 (utf8 s) = Some s"
proof (induction s)
  case (Cons c s)
  let ?n = "of_char c :: nat"
  have n: "?n < 256" by simp
  show ?case
  proof (cases "?n < 128")
    case True
    then show ?thesis using Cons by (simp add: utf8_def Let_def)
  next
    case False
    then have "2 \<le> ?n div 64" by simp
    moreover have "?n div 64 < 4" using n by (intro less_mult_imp_div_less) simp
    ultimately have d: "?n div 64 = 2 \<or> ?n div 64 = 3" by linarith
    have m: "?n mod 64 < 64" by simp
    have "from_utf8 (char_of (192 + ?n div 64) # char_of (128 + ?n mod 64) # utf8 s) = Some (c # s)"
      using Cons d m by (rule from_utf8_pair)
    moreover have "utf8 (c # s) = char_of (192 + ?n div 64) # char_of (128 + ?n mod 64) # utf8 s"
      using False by (simp add: utf8_def Let_def)
    ultimately show ?thesis by simp
  qed
qed (simp add: utf8_def)

lemma decode_encode [simp]: "decodeURIComponent (encodeURIComponent s) = Some s"
  by (simp add: decodeURIComponent_def encodeURIComponent_def percent_decode_bytes from_utf8_utf8)

text \<open>A text of plain characters is its own encoding.\<close>

definition plain_text :: "string \<Rightarrow> bool" where
  "plain_text s = list_all uri_plain s"

lemma uri_plain_ascii: "uri_plain c \<Longrightarrow> (of_char c :: nat) < 128"
  by (auto simp: uri_plain_def alnum_def Let_def)

lemma utf8_plain: "plain_text s \<Longrightarrow> utf8 s = s"
  by (induction s) (simp_all add: plain_text_def utf8_def Let_def uri_plain_ascii)

lemma encode_plain: "plain_text s \<Longrightarrow> encodeURIComponent s = s"
proof -
  assume p: "plain_text s"
  have "concat (map (\<lambda>b. if uri_plain b then [b] else percent b) s) = s"
    using p by (induction s) (simp_all add: plain_text_def)
  then show ?thesis using p by (simp add: encodeURIComponent_def utf8_plain)
qed

lemma decode_plain: "plain_text s \<Longrightarrow> decodeURIComponent s = Some s"
  using decode_encode [of s] by (simp add: encode_plain)

lemma uri_plain_hex: "n < 16 \<Longrightarrow> uri_plain (upper_hex n)"
  by (auto simp: uri_plain_def alnum_def upper_hex_def Let_def)

lemma encode_chars: "c \<in> set (encodeURIComponent s) \<Longrightarrow> c = CHR ''%'' \<or> uri_plain c"
  by (auto simp: encodeURIComponent_def percent_def Let_def uri_plain_hex byte_halves split: if_splits)

lemma encode_eq_plain: "plain_text t \<Longrightarrow> encodeURIComponent s = t \<Longrightarrow> s = t"
  using decode_encode [of s] by (simp add: decode_plain)

end
