(* ===== verification/Web_Client.thy ===== *)
theory Web_Client
  imports Routes Uri
begin

text \<open>
  The typed client of the API that the web application uses, \<^verbatim>\<open>apps/web/lib/api.ts\<close>: what a call
  sends, from the server and from the browser, and what it makes of the answer. \<^verbatim>\<open>fetch\<close> is a
  parameter. A client function is the call it makes; \<open>apiFetch\<close> performs a call.
\<close>

subsection \<open>Performing a call\<close>

text \<open>Where the client runs: on the server it reads the session cookie of the page request.\<close>

record web_request =
  wq_method :: string
  wq_url :: string
  wq_headers :: "(string \<times> string) list"
  wq_body :: "string option"
  wq_credentials :: "string option"
  wq_cache :: string

record web_env =
  we_server :: bool
  we_session :: "string option"
  we_base :: "string option"
  we_fetch :: "web_request \<Rightarrow> string + http_response"

record api_call =
  ac_path :: string
  ac_method :: string
  ac_headers :: "(string \<times> string) list"
  ac_body :: "json option"

text \<open>\<open>Failed\<close> is the exception of a request that failed or of a body that does not parse.\<close>

datatype web_error = ApiError int json | Failed string

definition apiBaseUrl :: "web_env \<Rightarrow> string" where
  "apiBaseUrl env = orElse (we_base env) ''http://localhost:8080''"

definition SESSION_COOKIE :: string where "SESSION_COOKIE = ''bidready_session''"

definition serverCookieHeader :: "web_env \<Rightarrow> string option" where
  "serverCookieHeader env =
     (if \<not> we_server env then None
      else map_option (\<lambda>v. SESSION_COOKIE @ ''='' @ v) (we_session env))"

definition call_headers :: "web_env \<Rightarrow> api_call \<Rightarrow> (string \<times> string) list" where
  "call_headers env c =
     (let h = ac_headers c;
          h = (if ac_body c \<noteq> None \<and> map_of h ''content-type'' = None
               then AList.update ''content-type'' ''application/json'' h else h)
      in case serverCookieHeader env of
           Some ck \<Rightarrow> if ck = [] then h else AList.update ''cookie'' ck h
         | None \<Rightarrow> h)"

definition call_request :: "web_env \<Rightarrow> api_call \<Rightarrow> web_request" where
  "call_request env c = \<lparr>wq_method = ac_method c, wq_url = apiBaseUrl env @ ac_path c,
     wq_headers = call_headers env c,
     wq_body = (case ac_body c of None \<Rightarrow> None | Some (JStr s) \<Rightarrow> Some s | Some v \<Rightarrow> Some (stringify v)),
     wq_credentials = (if we_server env then None else Some ''include''), wq_cache = ''no-store''\<rparr>"

text \<open>The answer: nothing for 204, the body otherwise.\<close>

definition api_answer :: "http_response \<Rightarrow> web_error + json option" where
  "api_answer res =
     (if \<not> http_ok res
      then Inl (ApiError (hr_status res) (case hr_json res of Inl _ \<Rightarrow> JNull | Inr b \<Rightarrow> b))
      else if hr_status res = 204 then Inr None
      else (case hr_json res of Inl m \<Rightarrow> Inl (Failed m) | Inr b \<Rightarrow> Inr (Some b)))"

definition apiFetch :: "web_env \<Rightarrow> api_call \<Rightarrow> web_error + json option" where
  "apiFetch env c =
     (case we_fetch env (call_request env c) of Inl m \<Rightarrow> Inl (Failed m) | Inr res \<Rightarrow> api_answer res)"

text \<open>The parts of the form and the file are written by the platform; \<open>encode\<close> stands for it.\<close>

definition apiUpload :: "web_env \<Rightarrow> string \<Rightarrow> string \<Rightarrow> web_error + json option" where
  "apiUpload env path form =
     (case we_fetch env \<lparr>wq_method = ''POST'', wq_url = apiBaseUrl env @ path, wq_headers = [],
        wq_body = Some form, wq_credentials = Some ''include'', wq_cache = ''no-store''\<rparr> of
        Inl m \<Rightarrow> Inl (Failed m) | Inr res \<Rightarrow> api_answer res)"

subsection \<open>The calls\<close>

definition path_of :: "string list \<Rightarrow> string" where
  "path_of segs = concat (map (\<lambda>s. ''/'' @ s) segs)"

definition call :: "string \<Rightarrow> string \<Rightarrow> json option \<Rightarrow> api_call" where
  "call method path body = \<lparr>ac_path = path, ac_method = method, ac_headers = [], ac_body = body\<rparr>"

definition load_me :: api_call where "load_me = call ''GET'' (path_of [''auth'', ''me'']) None"

definition loadCurrentUser :: "web_env \<Rightarrow> web_error + json option" where
  "loadCurrentUser env =
     (case apiFetch env load_me of
        Inl (ApiError s b) \<Rightarrow> if s = 401 \<or> s = 404 then Inr (Some JNull) else Inl (ApiError s b)
      | r \<Rightarrow> r)"

text \<open>\<^verbatim>\<open>tenderApi\<close>\<close>

definition web_listClients :: "api_call" where
  "web_listClients =
     call ''GET'' (path_of [''client-companies'']) None"

definition web_createClient :: "string \<Rightarrow> api_call" where
  "web_createClient name =
     call ''POST'' (path_of [''client-companies'']) (Some (JObj [(''name'', JStr name)]))"

definition web_listTenders :: "api_call" where
  "web_listTenders =
     call ''GET'' (path_of [''tenders'']) None"

definition web_createTender :: "json \<Rightarrow> api_call" where
  "web_createTender input =
     call ''POST'' (path_of [''tenders'']) (Some input)"

definition web_getTender :: "string \<Rightarrow> api_call" where
  "web_getTender i =
     call ''GET'' (path_of [''tenders'', encodeURIComponent i]) None"

definition web_setTenderStatus :: "string \<Rightarrow> string \<Rightarrow> api_call" where
  "web_setTenderStatus i status =
     call ''PATCH'' (path_of [''tenders'', encodeURIComponent i, ''status'']) (Some (JObj [(''status'', JStr status)]))"

definition web_deleteTender :: "string \<Rightarrow> api_call" where
  "web_deleteTender i =
     call ''DELETE'' (path_of [''tenders'', encodeURIComponent i]) None"

definition web_reclassifySector :: "string \<Rightarrow> bool \<Rightarrow> api_call" where
  "web_reclassifySector i forceRerun =
     call ''POST'' (path_of [''tenders'', encodeURIComponent i, ''sector'', ''classify'']) (Some (JObj [(''forceRerun'', JBool forceRerun)]))"

definition web_listRequirements :: "string \<Rightarrow> api_call" where
  "web_listRequirements t =
     call ''GET'' (path_of [''tenders'', encodeURIComponent t, ''requirements'']) None"

definition web_bulkAddRequirements :: "string \<Rightarrow> json list \<Rightarrow> api_call" where
  "web_bulkAddRequirements t rs =
     call ''POST'' (path_of [''tenders'', encodeURIComponent t, ''requirements'']) (Some (JObj [(''requirements'', JArr rs)]))"

definition web_listMatrices :: "string \<Rightarrow> api_call" where
  "web_listMatrices t =
     call ''GET'' (path_of [''tenders'', encodeURIComponent t, ''compliance-matrices'']) None"

definition web_getMatrix :: "string \<Rightarrow> nat \<Rightarrow> api_call" where
  "web_getMatrix t version =
     call ''GET'' (path_of [''tenders'', encodeURIComponent t, ''compliance-matrices'', show_nat version]) None"

definition web_generateMatrix :: "string \<Rightarrow> api_call" where
  "web_generateMatrix t =
     call ''POST'' (path_of [''tenders'', encodeURIComponent t, ''compliance-matrices'']) (Some (JObj [(''requirements'', JArr [])]))"

definition web_listAccess :: "string \<Rightarrow> api_call" where
  "web_listAccess t =
     call ''GET'' (path_of [''tenders'', encodeURIComponent t, ''access'']) None"

definition web_grantAccess :: "string \<Rightarrow> json \<Rightarrow> api_call" where
  "web_grantAccess t input =
     call ''POST'' (path_of [''tenders'', encodeURIComponent t, ''access'']) (Some input)"

definition web_revokeAccess :: "string \<Rightarrow> string \<Rightarrow> api_call" where
  "web_revokeAccess t u =
     call ''DELETE'' (path_of [''tenders'', encodeURIComponent t, ''access'', encodeURIComponent u]) None"

definition web_listUsers :: "api_call" where
  "web_listUsers =
     call ''GET'' (path_of [''users'']) None"

definition web_listDocuments :: "api_call" where
  "web_listDocuments =
     call ''GET'' (path_of [''documents'']) None"

definition web_getDocument :: "string \<Rightarrow> api_call" where
  "web_getDocument i =
     call ''GET'' (path_of [''documents'', encodeURIComponent i]) None"

definition web_listDocumentEvidence :: "string \<Rightarrow> api_call" where
  "web_listDocumentEvidence i =
     call ''GET'' (path_of [''documents'', encodeURIComponent i, ''evidence-links'']) None"

definition web_registerDocument :: "json \<Rightarrow> api_call" where
  "web_registerDocument input =
     call ''POST'' (path_of [''documents'']) (Some input)"

definition web_setDocumentState :: "string \<Rightarrow> string \<Rightarrow> api_call" where
  "web_setDocumentState i state =
     call ''PATCH'' (path_of [''documents'', encodeURIComponent i, ''state'']) (Some (JObj [(''state'', JStr state)]))"

text \<open>The fields of the upload form after the file: those given and not empty.\<close>

definition upload_fields ::
    "string \<Rightarrow> string option \<Rightarrow> string option \<Rightarrow> string option \<Rightarrow> (string \<times> string) list" where
  "upload_fields company type sens expires =
     [(''clientCompanyId'', company)] @
     (if truthyS type then [(''documentType'', the type)] else []) @
     (if truthyS sens then [(''sensitivity'', the sens)] else []) @
     (if truthyS expires then [(''expiresAt'', the expires)] else [])"

definition web_uploadDocument ::
    "web_env \<Rightarrow> ('f \<Rightarrow> (string \<times> string) list \<Rightarrow> string) \<Rightarrow> 'f \<Rightarrow> string \<Rightarrow> string option \<Rightarrow> string option \<Rightarrow>
     string option \<Rightarrow> web_error + json option" where
  "web_uploadDocument env encode file company type sens expires =
     apiUpload env (path_of [''documents'', ''upload'']) (encode file (upload_fields company type sens expires))"

definition web_documentDownloadUrl :: "string \<Rightarrow> api_call" where
  "web_documentDownloadUrl i =
     call ''GET'' (path_of [''documents'', encodeURIComponent i, ''download'']) None"

text \<open>\<^verbatim>\<open>adminApi\<close>\<close>

definition web_dpoContact :: "api_call" where
  "web_dpoContact =
     call ''GET'' (path_of [''dpo-contact'']) None"

definition getDpoContact :: "web_env \<Rightarrow> web_error + json option" where
  "getDpoContact env =
     (case apiFetch env web_dpoContact of
        Inl (ApiError s b) \<Rightarrow> if s = 404 then Inr (Some JNull) else Inl (ApiError s b)
      | r \<Rightarrow> r)"

definition web_upsertDpoContact :: "json \<Rightarrow> api_call" where
  "web_upsertDpoContact input =
     call ''PUT'' (path_of [''dpo-contact'']) (Some input)"

text \<open>A filter in the query, left out when it is missing or empty.\<close>

definition status_query :: "string option \<Rightarrow> string" where
  "status_query st = (if truthyS st then ''?status='' @ the st else [])"

definition web_listDataSubjectRequests :: "string option \<Rightarrow> api_call" where
  "web_listDataSubjectRequests st =
     call ''GET'' (path_of [''data-subject-requests''] @ status_query st) None"

definition web_createDataSubjectRequest :: "json \<Rightarrow> api_call" where
  "web_createDataSubjectRequest input =
     call ''POST'' (path_of [''data-subject-requests'']) (Some input)"

definition web_approveDataSubjectRequest :: "string \<Rightarrow> api_call" where
  "web_approveDataSubjectRequest i =
     call ''POST'' (path_of [''data-subject-requests'', i, ''approve'']) None"

definition web_denyDataSubjectRequest :: "string \<Rightarrow> string option \<Rightarrow> api_call" where
  "web_denyDataSubjectRequest i notes =
     call ''POST'' (path_of [''data-subject-requests'', i, ''deny'']) (Some (JObj (if truthyS notes then [(''notes'', JStr (the notes))] else [])))"

definition web_executeDataSubjectRequest :: "string \<Rightarrow> api_call" where
  "web_executeDataSubjectRequest i =
     call ''POST'' (path_of [''data-subject-requests'', i, ''execute'']) None"

definition web_listRetentionActions :: "string option \<Rightarrow> api_call" where
  "web_listRetentionActions st =
     call ''GET'' (path_of [''retention-actions''] @ status_query st) None"

definition web_approveRetention :: "string \<Rightarrow> api_call" where
  "web_approveRetention i =
     call ''POST'' (path_of [''retention-actions'', i, ''approve'']) None"

definition web_denyRetention :: "string \<Rightarrow> api_call" where
  "web_denyRetention i =
     call ''POST'' (path_of [''retention-actions'', i, ''deny'']) None"

definition web_manualSweep :: "api_call" where
  "web_manualSweep =
     call ''POST'' (path_of [''retention-actions'', ''sweep'']) None"

definition web_listConsentForSubject :: "string \<Rightarrow> api_call" where
  "web_listConsentForSubject email =
     call ''GET'' (path_of [''consent-events''] @ ''?subjectEmail='' @ encodeURIComponent email) None"

definition web_checkConsent :: "string \<Rightarrow> string \<Rightarrow> api_call" where
  "web_checkConsent email purpose =
     call ''GET'' (path_of [''consent-events'', ''check''] @
       ''?subjectEmail='' @ encodeURIComponent email @ ''&purpose='' @ encodeURIComponent purpose) None"

definition web_recordConsent :: "json \<Rightarrow> api_call" where
  "web_recordConsent input =
     call ''POST'' (path_of [''consent-events'']) (Some input)"

definition search_params :: "(string \<times> string) list \<Rightarrow> string" where
  "search_params kvs = join ''&'' (map (\<lambda>(k, v). form_encode k @ ''='' @ form_encode v) kvs)"

definition ingestions_query :: "string option \<Rightarrow> string option \<Rightarrow> string" where
  "ingestions_query st kind =
     (let q = search_params ((if truthyS st then [(''status'', the st)] else []) @
                (if truthyS kind then [(''kind'', the kind)] else []))
      in if q \<noteq> [] then ''?'' @ q else [])"

definition web_listIngestions :: "string option \<Rightarrow> string option \<Rightarrow> api_call" where
  "web_listIngestions st kind =
     call ''GET'' (path_of [''ingestions''] @ ingestions_query st kind) None"

definition web_enqueueIngestion :: "json \<Rightarrow> api_call" where
  "web_enqueueIngestion input =
     call ''POST'' (path_of [''ingestions'']) (Some input)"

definition web_listIngestionRuns :: "nat \<Rightarrow> api_call" where
  "web_listIngestionRuns limit =
     call ''GET'' (path_of [''admin'', ''ingestion'', ''runs''] @ ''?limit='' @ show_nat limit) None"

definition web_triggerIngestionRun :: "json \<Rightarrow> api_call" where
  "web_triggerIngestionRun input =
     call ''POST'' (path_of [''admin'', ''ingestion'', ''runs'']) (Some input)"

definition training_query :: "string option \<Rightarrow> string" where
  "training_query st = (if truthyS st \<and> st \<noteq> Some ''all'' then ''?status='' @ the st else [])"

definition web_listTrainingRecords :: "string option \<Rightarrow> api_call" where
  "web_listTrainingRecords st =
     call ''GET'' (path_of [''training-records''] @ training_query st) None"

definition web_trainingRecordsSummary :: "api_call" where
  "web_trainingRecordsSummary =
     call ''GET'' (path_of [''training-records'', ''summary'']) None"

definition web_getTrainingRecord :: "string \<Rightarrow> api_call" where
  "web_getTrainingRecord i =
     call ''GET'' (path_of [''training-records'', encodeURIComponent i]) None"

definition web_createTrainingRecord :: "json \<Rightarrow> api_call" where
  "web_createTrainingRecord input =
     call ''POST'' (path_of [''training-records'']) (Some input)"

definition web_updateTrainingRecord :: "string \<Rightarrow> json \<Rightarrow> api_call" where
  "web_updateTrainingRecord i input =
     call ''PATCH'' (path_of [''training-records'', encodeURIComponent i]) (Some input)"

definition web_removeTrainingRecord :: "string \<Rightarrow> api_call" where
  "web_removeTrainingRecord i =
     call ''DELETE'' (path_of [''training-records'', encodeURIComponent i]) None"

subsection \<open>The path a request arrives with\<close>

text \<open>
  The platform cuts the query and the fragment off, splits the path, drops the segment \<^verbatim>\<open>.\<close>
  and lets \<^verbatim>\<open>..\<close> take its predecessor away; the router decodes what is left.
\<close>

definition dot_step :: "string list \<Rightarrow> string \<Rightarrow> string list" where
  "dot_step acc s = (if s = ''.'' then acc else if s = ''..'' then butlast acc else acc @ [s])"

definition request_path :: "string \<Rightarrow> string list option" where
  "request_path url =
     those (map decodeURIComponent (foldl dot_step []
       (tl (split_char (CHR ''/'') (takeWhile (\<lambda>c. c \<noteq> CHR ''?'' \<and> c \<noteq> CHR ''#'') url)))))"

text \<open>The handler and the parameters a call arrives with.\<close>

definition arrives_at :: "api_call \<Rightarrow> string \<Rightarrow> (string \<times> string) list \<Rightarrow> bool" where
  "arrives_at c handler ps \<longleftrightarrow>
     (\<exists>p rt. request_path (ac_path c) = Some p \<and> find_route all_routes (ac_method c) p = Some (rt, ps) \<and>
        rt_name rt = handler)"

definition clean :: "string \<Rightarrow> bool" where
  "clean s \<longleftrightarrow> s \<noteq> [] \<and> s \<noteq> ''.'' \<and> s \<noteq> ''..'' \<and>
     CHR ''/'' \<notin> set s \<and> CHR ''?'' \<notin> set s \<and> CHR ''#'' \<notin> set s"

lemma split_char_no: "c \<notin> set s \<Longrightarrow> split_char c s = [s]"
  by (induction s) auto

lemma split_char_append: "c \<notin> set s \<Longrightarrow> split_char c (s @ c # t) = s # split_char c t"
  by (induction s) auto

lemma split_path_of:
  "\<forall>s \<in> set segs. clean s \<Longrightarrow> tl (split_char (CHR ''/'') (path_of segs)) = segs"
proof (induction segs)
  case (Cons s segs)
  have s: "CHR ''/'' \<notin> set s" using Cons.prems by (simp add: clean_def)
  show ?case
  proof (cases segs)
    case Nil
    then show ?thesis using s by (simp add: path_of_def split_char_no)
  next
    case (Cons s' segs')
    then have "path_of segs = CHR ''/'' # (s' @ path_of segs')" by (simp add: path_of_def)
    then have "path_of (s # segs) = CHR ''/'' # (s @ CHR ''/'' # (s' @ path_of segs'))"
      and "tl (split_char (CHR ''/'') (path_of segs)) = split_char (CHR ''/'') (s' @ path_of segs')"
      by (simp_all add: path_of_def)
    then show ?thesis using s Cons.IH Cons.prems by (simp add: split_char_append)
  qed
qed (simp add: path_of_def)

lemma take_path_of:
  "\<forall>s \<in> set segs. clean s \<Longrightarrow> q = [] \<or> hd q = CHR ''?'' \<Longrightarrow>
    takeWhile (\<lambda>c. c \<noteq> CHR ''?'' \<and> c \<noteq> CHR ''#'') (path_of segs @ q) = path_of segs"
proof -
  assume segs: "\<forall>s \<in> set segs. clean s" and q: "q = [] \<or> hd q = CHR ''?''"
  have "\<forall>c \<in> set (path_of segs). c \<noteq> CHR ''?'' \<and> c \<noteq> CHR ''#''"
    using segs by (induction segs) (auto simp: path_of_def clean_def)
  then have "takeWhile (\<lambda>c. c \<noteq> CHR ''?'' \<and> c \<noteq> CHR ''#'') (path_of segs @ q) =
      path_of segs @ takeWhile (\<lambda>c. c \<noteq> CHR ''?'' \<and> c \<noteq> CHR ''#'') q"
    by (simp add: takeWhile_append2)
  then show ?thesis using q by (cases q) simp_all
qed

lemma foldl_dot: "\<forall>s \<in> set segs. clean s \<Longrightarrow> foldl dot_step acc segs = acc @ segs"
  by (induction segs arbitrary: acc) (auto simp: dot_step_def clean_def)

lemma request_path_of:
  "\<forall>s \<in> set segs. clean s \<Longrightarrow> q = [] \<or> hd q = CHR ''?'' \<Longrightarrow>
    request_path (path_of segs @ q) = those (map decodeURIComponent segs)"
  by (simp add: request_path_def take_path_of split_path_of foldl_dot)

lemma clean_plain: "plain_text s \<Longrightarrow> s \<noteq> [] \<Longrightarrow> s \<noteq> ''.'' \<Longrightarrow> s \<noteq> ''..'' \<Longrightarrow> clean s"
  by (auto simp: clean_def plain_text_def list_all_iff dest: uri_plain_char)

text \<open>An id that a path segment can carry.\<close>

definition id_ok :: "string \<Rightarrow> bool" where
  "id_ok s \<longleftrightarrow> s \<noteq> [] \<and> s \<noteq> ''.'' \<and> s \<noteq> ''..''"

lemma plain_dots: "plain_text ''.''" "plain_text ''..''" "plain_text []"
  by code_simp+

lemma clean_encode: "id_ok s \<Longrightarrow> clean (encodeURIComponent s)"
  unfolding clean_def id_ok_def
  using encode_eq_plain [OF plain_dots(1), of s] encode_eq_plain [OF plain_dots(2), of s]
    encode_eq_plain [OF plain_dots(3), of s]
  by (auto dest: encode_chars uri_plain_char)

lemma digit_plain: "n < 10 \<Longrightarrow> uri_plain (digit n)"
  by (simp add: uri_plain_def alnum_def Let_def)

subsection \<open>The routes by name\<close>

fun find_named :: "(string \<times> seg list \<times> string) list \<Rightarrow> string \<Rightarrow> string list \<Rightarrow> (string \<times> (string \<times> string) list) option" where
  "find_named [] verb path = None"
| "find_named ((v, segs, n) # rts) verb path =
     (if v = verb then (case match_path segs path of Some ps \<Rightarrow> Some (n, ps) | None \<Rightarrow> find_named rts verb path)
      else find_named rts verb path)"

definition names :: "route list \<Rightarrow> (string \<times> seg list \<times> string) list" where
  "names rts = map (\<lambda>rt. (rt_verb rt, rt_path rt, rt_name rt)) rts"

lemma names_append: "names (a @ b) = names a @ names b"
  by (simp add: names_def)

lemma find_named_route:
  "find_named (names rts) verb path = Some (n, ps) \<longleftrightarrow>
    (\<exists>rt. find_route rts verb path = Some (rt, ps) \<and> rt_name rt = n)"
  by (induction rts) (auto simp: names_def split: option.splits)

text \<open>
  Every route begins with a literal in small letters, so only the routes of the verb that begin
  with the first segment of the path matter.
\<close>

definition small_head :: "string \<times> seg list \<times> string \<Rightarrow> bool" where
  "small_head r = (case r of (_, Lit l # _, _) \<Rightarrow> toLowerCase l = l | _ \<Rightarrow> False)"

definition heads :: "string \<Rightarrow> string \<Rightarrow> string \<times> seg list \<times> string \<Rightarrow> bool" where
  "heads verb s r = (case r of (v, segs, _) \<Rightarrow> v = verb \<and> (case segs of Lit l # _ \<Rightarrow> l = s | _ \<Rightarrow> False))"

lemma find_named_filter:
  assumes "toLowerCase s = s" and "list_all small_head rts"
  shows "find_named rts verb (s # path) = find_named (filter (heads verb s) rts) verb (s # path)"
  using assms(2)
proof (induction rts)
  case (Cons r rts)
  obtain v l segs n where r: "r = (v, Lit l # segs, n)" and l: "toLowerCase l = l"
    using Cons.prems by (cases r) (auto simp: small_head_def split: list.splits seg.splits)
  have "toLowerCase s = toLowerCase l \<longleftrightarrow> s = l" using assms(1) l by simp
  then show ?case
    using Cons r by (auto simp: heads_def split: option.splits)
qed simp

lemma names_tables:
  "names health_routes = [(''GET'', [Lit ''health''], ''HealthController.check'')]"
  "names auth_routes = [(''POST'', [Lit ''auth'', Lit ''login''], ''AuthController.login''),
     (''POST'', [Lit ''auth'', Lit ''logout''], ''AuthController.logout''),
     (''GET'', [Lit ''auth'', Lit ''me''], ''AuthController.me'')]"
  "names audit_routes = [(''GET'', [Lit ''audit-events''], ''AuditController.recent'')]"
  "names clientCompany_routes = [(''GET'', [Lit ''client-companies''], ''ClientCompanyController.list''),
     (''GET'', [Lit ''client-companies'', Par ''id''], ''ClientCompanyController.get''),
     (''POST'', [Lit ''client-companies''], ''ClientCompanyController.create''),
     (''PATCH'', [Lit ''client-companies'', Par ''id''], ''ClientCompanyController.update''),
     (''DELETE'', [Lit ''client-companies'', Par ''id''], ''ClientCompanyController.remove'')]"
  "names tender_routes = [(''POST'', [Lit ''tenders''], ''TenderController.intake''),
     (''GET'', [Lit ''tenders''], ''TenderController.list''),
     (''GET'', [Lit ''tenders'', Par ''id''], ''TenderController.get''),
     (''PATCH'', [Lit ''tenders'', Par ''id'', Lit ''status''], ''TenderController.updateStatus''),
     (''DELETE'', [Lit ''tenders'', Par ''id''], ''TenderController.remove'')]"
  "names documentVault_routes = [(''POST'', [Lit ''documents''], ''DocumentVaultController.register''),
     (''GET'', [Lit ''documents''], ''DocumentVaultController.list''),
     (''GET'', [Lit ''documents'', Lit ''expiring''], ''DocumentVaultController.expiring''),
     (''GET'', [Lit ''documents'', Par ''id''], ''DocumentVaultController.get''),
     (''GET'', [Lit ''documents'', Par ''id'', Lit ''evidence-links''], ''DocumentVaultController.evidenceLinks''),
     (''PATCH'', [Lit ''documents'', Par ''id'', Lit ''state''], ''DocumentVaultController.setState'')]"
  "names documentUpload_routes = [(''POST'', [Lit ''documents'', Lit ''upload''], ''DocumentUploadController.upload''),
     (''GET'', [Lit ''documents'', Par ''id'', Lit ''download''], ''DocumentUploadController.download'')]"
  "names fitScoring_routes = [(''POST'', [Lit ''tenders'', Par ''id'', Lit ''fit-score''], ''FitScoringController.compute''),
     (''POST'', [Lit ''tenders'', Par ''id'', Lit ''fit-score'', Lit ''override''], ''FitScoringController.override'')]"
  "names compliance_routes = [(''POST'', [Lit ''tenders'', Par ''id'', Lit ''compliance-matrices''], ''ComplianceController.generate''),
     (''GET'', [Lit ''tenders'', Par ''id'', Lit ''compliance-matrices''], ''ComplianceController.list''),
     (''GET'', [Lit ''tenders'', Par ''id'', Lit ''compliance-matrices'', Par ''version''], ''ComplianceController.getByVersion'')]"
  "names complianceItem_routes = [(''PATCH'', [Lit ''compliance-items'', Par ''id''], ''ComplianceItemController.update''),
     (''GET'', [Lit ''compliance-items'', Par ''id'', Lit ''evidence-links''], ''ComplianceItemController.list''),
     (''POST'', [Lit ''compliance-items'', Par ''id'', Lit ''evidence-links''], ''ComplianceItemController.link''),
     (''DELETE'', [Lit ''compliance-items'', Par ''id'', Lit ''evidence-links'', Par ''documentId''], ''ComplianceItemController.unlink'')]"
  "names tenderRequirement_routes = [(''GET'', [Lit ''tenders'', Par ''id'', Lit ''requirements''], ''TenderRequirementController.list''),
     (''POST'', [Lit ''tenders'', Par ''id'', Lit ''requirements''], ''TenderRequirementController.createBulk'')]"
  "names export_routes = [(''POST'', [Lit ''tenders'', Par ''id'', Lit ''submission-pack''], ''ExportController.build'')]"
  "names pdpl_routes = [(''GET'', [Lit ''pdpl'', Lit ''processing-inventory''], ''PdplController.inventory''),
     (''GET'', [Lit ''pdpl'', Lit ''residency''], ''PdplController.residency'')]"
  "names dataSubject_routes = [(''POST'', [Lit ''data-subject-requests''], ''DataSubjectController.create''),
     (''GET'', [Lit ''data-subject-requests''], ''DataSubjectController.list''),
     (''GET'', [Lit ''data-subject-requests'', Par ''id''], ''DataSubjectController.get''),
     (''POST'', [Lit ''data-subject-requests'', Par ''id'', Lit ''approve''], ''DataSubjectController.approve''),
     (''POST'', [Lit ''data-subject-requests'', Par ''id'', Lit ''deny''], ''DataSubjectController.deny''),
     (''POST'', [Lit ''data-subject-requests'', Par ''id'', Lit ''execute''], ''DataSubjectController.execute'')]"
  "names consentLedger_routes = [(''POST'', [Lit ''consent-events''], ''ConsentLedgerController.create''),
     (''GET'', [Lit ''consent-events''], ''ConsentLedgerController.list''),
     (''GET'', [Lit ''consent-events'', Lit ''check''], ''ConsentLedgerController.check'')]"
  "names tenderAccess_routes = [(''GET'', [Lit ''tenders'', Par ''tenderId'', Lit ''access''], ''TenderAccessController.list''),
     (''POST'', [Lit ''tenders'', Par ''tenderId'', Lit ''access''], ''TenderAccessController.grant''),
     (''DELETE'', [Lit ''tenders'', Par ''tenderId'', Lit ''access'', Par ''userId''], ''TenderAccessController.revoke'')]"
  "names retentionAction_routes = [(''GET'', [Lit ''retention-actions''], ''RetentionActionController.list''),
     (''GET'', [Lit ''retention-actions'', Par ''id''], ''RetentionActionController.get''),
     (''POST'', [Lit ''retention-actions''], ''RetentionActionController.request''),
     (''POST'', [Lit ''retention-actions'', Par ''id'', Lit ''approve''], ''RetentionActionController.approve''),
     (''POST'', [Lit ''retention-actions'', Par ''id'', Lit ''deny''], ''RetentionActionController.deny''),
     (''POST'', [Lit ''retention-actions'', Lit ''sweep''], ''RetentionActionController.sweep'')]"
  "names retentionScheduled_routes = [(''POST'', [Lit ''retention-actions'', Lit ''sweep-scheduled''], ''RetentionScheduledController.sweepScheduled'')]"
  "names dpoContact_routes = [(''GET'', [Lit ''dpo-contact''], ''DpoContactController.get''),
     (''PUT'', [Lit ''dpo-contact''], ''DpoContactController.upsert'')]"
  "names dpoTraining_routes = [(''GET'', [Lit ''training-records''], ''DpoTrainingController.list''),
     (''GET'', [Lit ''training-records'', Lit ''summary''], ''DpoTrainingController.summary''),
     (''GET'', [Lit ''training-records'', Par ''id''], ''DpoTrainingController.get''),
     (''POST'', [Lit ''training-records''], ''DpoTrainingController.create''),
     (''PATCH'', [Lit ''training-records'', Par ''id''], ''DpoTrainingController.update''),
     (''DELETE'', [Lit ''training-records'', Par ''id''], ''DpoTrainingController.remove'')]"
  "names authorityNotification_routes = [(''POST'', [Lit ''authority-notifications'', Lit ''incidents'', Par ''id''], ''AuthorityNotificationController.trigger'')]"
  "names ingestion_routes = [(''POST'', [Lit ''ingestions''], ''IngestionController.enqueue''),
     (''GET'', [Lit ''ingestions''], ''IngestionController.list''),
     (''GET'', [Lit ''ingestions'', Par ''id''], ''IngestionController.get''),
     (''GET'', [Lit ''ingestions'', Lit ''next-job''], ''IngestionController.claimNext''),
     (''POST'', [Lit ''ingestions'', Par ''id'', Lit ''complete''], ''IngestionController.complete''),
     (''POST'', [Lit ''ingestions'', Par ''id'', Lit ''fail''], ''IngestionController.fail'')]"
  "names webhook_routes = [(''POST'', [Lit ''webhooks'', Lit ''inbound'', Lit ''email''], ''WebhookController.inboundEmail'')]"
  "names inboundEmail_routes = [(''POST'', [Lit ''webhooks'', Lit ''inbound-email''], ''InboundEmailController.receive'')]"
  "names users_routes = [(''GET'', [Lit ''users''], ''UsersController.list'')]"
  "names webhookSubscription_routes = [(''GET'', [Lit ''webhook-subscriptions''], ''WebhookSubscriptionController.list''),
     (''GET'', [Lit ''webhook-subscriptions'', Par ''id''], ''WebhookSubscriptionController.get''),
     (''POST'', [Lit ''webhook-subscriptions''], ''WebhookSubscriptionController.create''),
     (''PATCH'', [Lit ''webhook-subscriptions'', Par ''id''], ''WebhookSubscriptionController.update''),
     (''POST'', [Lit ''webhook-subscriptions'', Par ''id'', Lit ''rotate-secret''], ''WebhookSubscriptionController.rotate''),
     (''DELETE'', [Lit ''webhook-subscriptions'', Par ''id''], ''WebhookSubscriptionController.remove'')]"
  "names billing_routes = [(''GET'', [Lit ''plans''], ''BillingController.plans''),
     (''GET'', [Lit ''subscription''], ''BillingController.mySubscription''),
     (''GET'', [Lit ''usage'', Lit ''today''], ''BillingController.todayUsage''),
     (''POST'', [Lit ''webhooks'', Lit ''stripe''], ''BillingController.stripeReceive'')]"
  "names sectorClassifier_routes = [(''POST'', [Lit ''tenders'', Par ''id'', Lit ''sector'', Lit ''classify''], ''SectorClassifierController.classify''),
     (''PATCH'', [Lit ''tenders'', Par ''id'', Lit ''sector''], ''SectorClassifierController.override'')]"
  "names ingestionPortal_routes = [(''POST'', [Lit ''ingestion'', Lit ''tenders''], ''IngestionPortalController.create'')]"
  "names ingestionApiKey_routes = [(''GET'', [Lit ''admin'', Lit ''ingestion-keys''], ''IngestionApiKeyController.list''),
     (''POST'', [Lit ''admin'', Lit ''ingestion-keys''], ''IngestionApiKeyController.mint''),
     (''DELETE'', [Lit ''admin'', Lit ''ingestion-keys'', Par ''id''], ''IngestionApiKeyController.revoke'')]"
  "names ingestionProxy_routes = [(''GET'', [Lit ''admin'', Lit ''ingestion'', Lit ''runs''], ''IngestionProxyController.list''),
     (''POST'', [Lit ''admin'', Lit ''ingestion'', Lit ''runs''], ''IngestionProxyController.trigger'')]"
  by (simp_all add: names_def health_routes_def auth_routes_def audit_routes_def clientCompany_routes_def tender_routes_def documentVault_routes_def documentUpload_routes_def fitScoring_routes_def compliance_routes_def complianceItem_routes_def tenderRequirement_routes_def export_routes_def pdpl_routes_def dataSubject_routes_def consentLedger_routes_def tenderAccess_routes_def retentionAction_routes_def retentionScheduled_routes_def dpoContact_routes_def dpoTraining_routes_def authorityNotification_routes_def ingestion_routes_def webhook_routes_def inboundEmail_routes_def users_routes_def webhookSubscription_routes_def billing_routes_def sectorClassifier_routes_def ingestionPortal_routes_def ingestionApiKey_routes_def ingestionProxy_routes_def)

lemma small_words:
  "toLowerCase ''health'' = ''health''"
  "toLowerCase ''auth'' = ''auth''"
  "toLowerCase ''login'' = ''login''"
  "toLowerCase ''logout'' = ''logout''"
  "toLowerCase ''me'' = ''me''"
  "toLowerCase ''audit-events'' = ''audit-events''"
  "toLowerCase ''client-companies'' = ''client-companies''"
  "toLowerCase ''tenders'' = ''tenders''"
  "toLowerCase ''status'' = ''status''"
  "toLowerCase ''documents'' = ''documents''"
  "toLowerCase ''expiring'' = ''expiring''"
  "toLowerCase ''evidence-links'' = ''evidence-links''"
  "toLowerCase ''state'' = ''state''"
  "toLowerCase ''upload'' = ''upload''"
  "toLowerCase ''download'' = ''download''"
  "toLowerCase ''fit-score'' = ''fit-score''"
  "toLowerCase ''override'' = ''override''"
  "toLowerCase ''compliance-matrices'' = ''compliance-matrices''"
  "toLowerCase ''compliance-items'' = ''compliance-items''"
  "toLowerCase ''requirements'' = ''requirements''"
  "toLowerCase ''submission-pack'' = ''submission-pack''"
  "toLowerCase ''pdpl'' = ''pdpl''"
  "toLowerCase ''processing-inventory'' = ''processing-inventory''"
  "toLowerCase ''residency'' = ''residency''"
  "toLowerCase ''data-subject-requests'' = ''data-subject-requests''"
  "toLowerCase ''approve'' = ''approve''"
  "toLowerCase ''deny'' = ''deny''"
  "toLowerCase ''execute'' = ''execute''"
  "toLowerCase ''consent-events'' = ''consent-events''"
  "toLowerCase ''check'' = ''check''"
  "toLowerCase ''access'' = ''access''"
  "toLowerCase ''retention-actions'' = ''retention-actions''"
  "toLowerCase ''sweep'' = ''sweep''"
  "toLowerCase ''sweep-scheduled'' = ''sweep-scheduled''"
  "toLowerCase ''dpo-contact'' = ''dpo-contact''"
  "toLowerCase ''training-records'' = ''training-records''"
  "toLowerCase ''summary'' = ''summary''"
  "toLowerCase ''authority-notifications'' = ''authority-notifications''"
  "toLowerCase ''incidents'' = ''incidents''"
  "toLowerCase ''ingestions'' = ''ingestions''"
  "toLowerCase ''next-job'' = ''next-job''"
  "toLowerCase ''complete'' = ''complete''"
  "toLowerCase ''fail'' = ''fail''"
  "toLowerCase ''webhooks'' = ''webhooks''"
  "toLowerCase ''inbound'' = ''inbound''"
  "toLowerCase ''email'' = ''email''"
  "toLowerCase ''inbound-email'' = ''inbound-email''"
  "toLowerCase ''users'' = ''users''"
  "toLowerCase ''webhook-subscriptions'' = ''webhook-subscriptions''"
  "toLowerCase ''rotate-secret'' = ''rotate-secret''"
  "toLowerCase ''plans'' = ''plans''"
  "toLowerCase ''subscription'' = ''subscription''"
  "toLowerCase ''usage'' = ''usage''"
  "toLowerCase ''today'' = ''today''"
  "toLowerCase ''stripe'' = ''stripe''"
  "toLowerCase ''sector'' = ''sector''"
  "toLowerCase ''classify'' = ''classify''"
  "toLowerCase ''ingestion'' = ''ingestion''"
  "toLowerCase ''admin'' = ''admin''"
  "toLowerCase ''ingestion-keys'' = ''ingestion-keys''"
  "toLowerCase ''runs'' = ''runs''"
  by (simp_all add: toLowerCase_def lower_char_def)

lemma all_small_heads: "list_all small_head (names all_routes)"
  by (simp add: all_routes_def names_append names_tables small_head_def small_words)

lemmas all_names = all_routes_def names_append names_tables

lemma from_GET_client_companies:
  "filter (heads ''GET'' ''client-companies'') (names all_routes) =
     [(''GET'', [Lit ''client-companies''], ''ClientCompanyController.list''),
      (''GET'', [Lit ''client-companies'', Par ''id''], ''ClientCompanyController.get'')]"
  by (simp add: all_names heads_def)

lemma from_POST_client_companies:
  "filter (heads ''POST'' ''client-companies'') (names all_routes) =
     [(''POST'', [Lit ''client-companies''], ''ClientCompanyController.create'')]"
  by (simp add: all_names heads_def)

lemma from_GET_tenders:
  "filter (heads ''GET'' ''tenders'') (names all_routes) =
     [(''GET'', [Lit ''tenders''], ''TenderController.list''),
      (''GET'', [Lit ''tenders'', Par ''id''], ''TenderController.get''),
      (''GET'', [Lit ''tenders'', Par ''id'', Lit ''compliance-matrices''], ''ComplianceController.list''),
      (''GET'', [Lit ''tenders'', Par ''id'', Lit ''compliance-matrices'', Par ''version''], ''ComplianceController.getByVersion''),
      (''GET'', [Lit ''tenders'', Par ''id'', Lit ''requirements''], ''TenderRequirementController.list''),
      (''GET'', [Lit ''tenders'', Par ''tenderId'', Lit ''access''], ''TenderAccessController.list'')]"
  by (simp add: all_names heads_def)

lemma from_POST_tenders:
  "filter (heads ''POST'' ''tenders'') (names all_routes) =
     [(''POST'', [Lit ''tenders''], ''TenderController.intake''),
      (''POST'', [Lit ''tenders'', Par ''id'', Lit ''fit-score''], ''FitScoringController.compute''),
      (''POST'', [Lit ''tenders'', Par ''id'', Lit ''fit-score'', Lit ''override''], ''FitScoringController.override''),
      (''POST'', [Lit ''tenders'', Par ''id'', Lit ''compliance-matrices''], ''ComplianceController.generate''),
      (''POST'', [Lit ''tenders'', Par ''id'', Lit ''requirements''], ''TenderRequirementController.createBulk''),
      (''POST'', [Lit ''tenders'', Par ''id'', Lit ''submission-pack''], ''ExportController.build''),
      (''POST'', [Lit ''tenders'', Par ''tenderId'', Lit ''access''], ''TenderAccessController.grant''),
      (''POST'', [Lit ''tenders'', Par ''id'', Lit ''sector'', Lit ''classify''], ''SectorClassifierController.classify'')]"
  by (simp add: all_names heads_def)

lemma from_PATCH_tenders:
  "filter (heads ''PATCH'' ''tenders'') (names all_routes) =
     [(''PATCH'', [Lit ''tenders'', Par ''id'', Lit ''status''], ''TenderController.updateStatus''),
      (''PATCH'', [Lit ''tenders'', Par ''id'', Lit ''sector''], ''SectorClassifierController.override'')]"
  by (simp add: all_names heads_def)

lemma from_DELETE_tenders:
  "filter (heads ''DELETE'' ''tenders'') (names all_routes) =
     [(''DELETE'', [Lit ''tenders'', Par ''id''], ''TenderController.remove''),
      (''DELETE'', [Lit ''tenders'', Par ''tenderId'', Lit ''access'', Par ''userId''], ''TenderAccessController.revoke'')]"
  by (simp add: all_names heads_def)

lemma from_GET_users:
  "filter (heads ''GET'' ''users'') (names all_routes) =
     [(''GET'', [Lit ''users''], ''UsersController.list'')]"
  by (simp add: all_names heads_def)

lemma from_GET_documents:
  "filter (heads ''GET'' ''documents'') (names all_routes) =
     [(''GET'', [Lit ''documents''], ''DocumentVaultController.list''),
      (''GET'', [Lit ''documents'', Lit ''expiring''], ''DocumentVaultController.expiring''),
      (''GET'', [Lit ''documents'', Par ''id''], ''DocumentVaultController.get''),
      (''GET'', [Lit ''documents'', Par ''id'', Lit ''evidence-links''], ''DocumentVaultController.evidenceLinks''),
      (''GET'', [Lit ''documents'', Par ''id'', Lit ''download''], ''DocumentUploadController.download'')]"
  by (simp add: all_names heads_def)

lemma from_POST_documents:
  "filter (heads ''POST'' ''documents'') (names all_routes) =
     [(''POST'', [Lit ''documents''], ''DocumentVaultController.register''),
      (''POST'', [Lit ''documents'', Lit ''upload''], ''DocumentUploadController.upload'')]"
  by (simp add: all_names heads_def)

lemma from_PATCH_documents:
  "filter (heads ''PATCH'' ''documents'') (names all_routes) =
     [(''PATCH'', [Lit ''documents'', Par ''id'', Lit ''state''], ''DocumentVaultController.setState'')]"
  by (simp add: all_names heads_def)

lemma from_GET_dpo_contact:
  "filter (heads ''GET'' ''dpo-contact'') (names all_routes) =
     [(''GET'', [Lit ''dpo-contact''], ''DpoContactController.get'')]"
  by (simp add: all_names heads_def)

lemma from_PUT_dpo_contact:
  "filter (heads ''PUT'' ''dpo-contact'') (names all_routes) =
     [(''PUT'', [Lit ''dpo-contact''], ''DpoContactController.upsert'')]"
  by (simp add: all_names heads_def)

lemma from_GET_data_subject_requests:
  "filter (heads ''GET'' ''data-subject-requests'') (names all_routes) =
     [(''GET'', [Lit ''data-subject-requests''], ''DataSubjectController.list''),
      (''GET'', [Lit ''data-subject-requests'', Par ''id''], ''DataSubjectController.get'')]"
  by (simp add: all_names heads_def)

lemma from_POST_data_subject_requests:
  "filter (heads ''POST'' ''data-subject-requests'') (names all_routes) =
     [(''POST'', [Lit ''data-subject-requests''], ''DataSubjectController.create''),
      (''POST'', [Lit ''data-subject-requests'', Par ''id'', Lit ''approve''], ''DataSubjectController.approve''),
      (''POST'', [Lit ''data-subject-requests'', Par ''id'', Lit ''deny''], ''DataSubjectController.deny''),
      (''POST'', [Lit ''data-subject-requests'', Par ''id'', Lit ''execute''], ''DataSubjectController.execute'')]"
  by (simp add: all_names heads_def)

lemma from_GET_retention_actions:
  "filter (heads ''GET'' ''retention-actions'') (names all_routes) =
     [(''GET'', [Lit ''retention-actions''], ''RetentionActionController.list''),
      (''GET'', [Lit ''retention-actions'', Par ''id''], ''RetentionActionController.get'')]"
  by (simp add: all_names heads_def)

lemma from_POST_retention_actions:
  "filter (heads ''POST'' ''retention-actions'') (names all_routes) =
     [(''POST'', [Lit ''retention-actions''], ''RetentionActionController.request''),
      (''POST'', [Lit ''retention-actions'', Par ''id'', Lit ''approve''], ''RetentionActionController.approve''),
      (''POST'', [Lit ''retention-actions'', Par ''id'', Lit ''deny''], ''RetentionActionController.deny''),
      (''POST'', [Lit ''retention-actions'', Lit ''sweep''], ''RetentionActionController.sweep''),
      (''POST'', [Lit ''retention-actions'', Lit ''sweep-scheduled''], ''RetentionScheduledController.sweepScheduled'')]"
  by (simp add: all_names heads_def)

lemma from_GET_consent_events:
  "filter (heads ''GET'' ''consent-events'') (names all_routes) =
     [(''GET'', [Lit ''consent-events''], ''ConsentLedgerController.list''),
      (''GET'', [Lit ''consent-events'', Lit ''check''], ''ConsentLedgerController.check'')]"
  by (simp add: all_names heads_def)

lemma from_POST_consent_events:
  "filter (heads ''POST'' ''consent-events'') (names all_routes) =
     [(''POST'', [Lit ''consent-events''], ''ConsentLedgerController.create'')]"
  by (simp add: all_names heads_def)

lemma from_GET_ingestions:
  "filter (heads ''GET'' ''ingestions'') (names all_routes) =
     [(''GET'', [Lit ''ingestions''], ''IngestionController.list''),
      (''GET'', [Lit ''ingestions'', Par ''id''], ''IngestionController.get''),
      (''GET'', [Lit ''ingestions'', Lit ''next-job''], ''IngestionController.claimNext'')]"
  by (simp add: all_names heads_def)

lemma from_POST_ingestions:
  "filter (heads ''POST'' ''ingestions'') (names all_routes) =
     [(''POST'', [Lit ''ingestions''], ''IngestionController.enqueue''),
      (''POST'', [Lit ''ingestions'', Par ''id'', Lit ''complete''], ''IngestionController.complete''),
      (''POST'', [Lit ''ingestions'', Par ''id'', Lit ''fail''], ''IngestionController.fail'')]"
  by (simp add: all_names heads_def)

lemma from_GET_admin:
  "filter (heads ''GET'' ''admin'') (names all_routes) =
     [(''GET'', [Lit ''admin'', Lit ''ingestion-keys''], ''IngestionApiKeyController.list''),
      (''GET'', [Lit ''admin'', Lit ''ingestion'', Lit ''runs''], ''IngestionProxyController.list'')]"
  by (simp add: all_names heads_def)

lemma from_POST_admin:
  "filter (heads ''POST'' ''admin'') (names all_routes) =
     [(''POST'', [Lit ''admin'', Lit ''ingestion-keys''], ''IngestionApiKeyController.mint''),
      (''POST'', [Lit ''admin'', Lit ''ingestion'', Lit ''runs''], ''IngestionProxyController.trigger'')]"
  by (simp add: all_names heads_def)

lemma from_GET_training_records:
  "filter (heads ''GET'' ''training-records'') (names all_routes) =
     [(''GET'', [Lit ''training-records''], ''DpoTrainingController.list''),
      (''GET'', [Lit ''training-records'', Lit ''summary''], ''DpoTrainingController.summary''),
      (''GET'', [Lit ''training-records'', Par ''id''], ''DpoTrainingController.get'')]"
  by (simp add: all_names heads_def)

lemma from_POST_training_records:
  "filter (heads ''POST'' ''training-records'') (names all_routes) =
     [(''POST'', [Lit ''training-records''], ''DpoTrainingController.create'')]"
  by (simp add: all_names heads_def)

lemma from_PATCH_training_records:
  "filter (heads ''PATCH'' ''training-records'') (names all_routes) =
     [(''PATCH'', [Lit ''training-records'', Par ''id''], ''DpoTrainingController.update'')]"
  by (simp add: all_names heads_def)

lemma from_DELETE_training_records:
  "filter (heads ''DELETE'' ''training-records'') (names all_routes) =
     [(''DELETE'', [Lit ''training-records'', Par ''id''], ''DpoTrainingController.remove'')]"
  by (simp add: all_names heads_def)

lemma from_POST_auth:
  "filter (heads ''POST'' ''auth'') (names all_routes) =
     [(''POST'', [Lit ''auth'', Lit ''login''], ''AuthController.login''),
      (''POST'', [Lit ''auth'', Lit ''logout''], ''AuthController.logout'')]"
  by (simp add: all_names heads_def)

lemma from_GET_auth:
  "filter (heads ''GET'' ''auth'') (names all_routes) =
     [(''GET'', [Lit ''auth'', Lit ''me''], ''AuthController.me'')]"
  by (simp add: all_names heads_def)

subsection \<open>Every call arrives at its handler\<close>

lemma plain_words:
  "plain_text ''client-companies''"
  "plain_text ''tenders''"
  "plain_text ''status''"
  "plain_text ''sector''"
  "plain_text ''classify''"
  "plain_text ''requirements''"
  "plain_text ''compliance-matrices''"
  "plain_text ''access''"
  "plain_text ''users''"
  "plain_text ''documents''"
  "plain_text ''evidence-links''"
  "plain_text ''state''"
  "plain_text ''download''"
  "plain_text ''dpo-contact''"
  "plain_text ''data-subject-requests''"
  "plain_text ''approve''"
  "plain_text ''deny''"
  "plain_text ''execute''"
  "plain_text ''retention-actions''"
  "plain_text ''sweep''"
  "plain_text ''consent-events''"
  "plain_text ''check''"
  "plain_text ''ingestions''"
  "plain_text ''admin''"
  "plain_text ''ingestion''"
  "plain_text ''runs''"
  "plain_text ''training-records''"
  "plain_text ''summary''"
  "plain_text ''auth''"
  "plain_text ''me''"
  "plain_text ''upload''"
  "plain_text ''login''"
  "plain_text ''logout''"
  by (simp_all add: plain_text_def uri_plain_def alnum_def)

lemma plain_show_nat: "plain_text (show_nat n)"
proof (induction n rule: show_nat.induct)
  case (1 n)
  then show ?case
    by (subst show_nat.simps) (simp add: plain_text_def digit_plain del: digit.simps)
qed

lemma digit_no_dot: "n < 10 \<Longrightarrow> digit n \<noteq> CHR ''.''"
  by (auto dest: arg_cong [of _ _ "of_char :: char \<Rightarrow> nat"])

lemma show_nat_segment: "clean (show_nat n)" "decodeURIComponent (show_nat n) = Some (show_nat n)" "show_nat n \<noteq> []"
proof -
  show e: "show_nat n \<noteq> []" by (subst show_nat.simps) simp
  have "CHR ''.'' \<notin> set (show_nat n)"
  proof (induction n rule: show_nat.induct)
    case (1 n)
    have "digit (n mod 10) \<noteq> CHR ''.''" by (rule digit_no_dot) simp
    then show ?case using 1 by (subst show_nat.simps) auto
  qed
  then show "clean (show_nat n)"
    using e plain_show_nat [of n] by (auto intro!: clean_plain)
  show "decodeURIComponent (show_nat n) = Some (show_nat n)"
    using plain_show_nat by (rule decode_plain)
qed

definition raw_ok :: "string \<Rightarrow> bool" where
  "raw_ok s \<longleftrightarrow> id_ok s \<and> plain_text s"

lemma raw_segment: "raw_ok s \<Longrightarrow> clean s \<and> decodeURIComponent s = Some s \<and> s \<noteq> []"
  by (auto simp: raw_ok_def id_ok_def intro: clean_plain decode_plain)

lemma id_ok_nonempty: "id_ok s \<Longrightarrow> s \<noteq> []"
  by (simp add: id_ok_def)

lemma word_segment: "plain_text s \<Longrightarrow> s \<noteq> [] \<Longrightarrow> s \<noteq> ''.'' \<Longrightarrow> s \<noteq> ''..'' \<Longrightarrow>
    clean s \<and> decodeURIComponent s = Some s"
  using clean_plain decode_plain by blast

lemma queries [simp]:
  "status_query st = [] \<or> hd (status_query st) = CHR ''?''"
  "training_query st = [] \<or> hd (training_query st) = CHR ''?''"
  "ingestions_query st kind = [] \<or> hd (ingestions_query st kind) = CHR ''?''"
  by (simp_all add: status_query_def training_query_def ingestions_query_def Let_def)

lemma arrivesI:
  assumes "\<forall>s \<in> set segs. clean s" and "q = [] \<or> hd q = CHR ''?''"
    and "those (map decodeURIComponent segs) = Some (s # p)" and "toLowerCase s = s"
    and "find_named (filter (heads verb s) (names all_routes)) verb (s # p) = Some (n, ps)"
  shows "arrives_at (call verb (path_of segs @ q) b) n ps"
proof -
  have "find_named (names all_routes) verb (s # p) = Some (n, ps)"
    using assms(4,5) find_named_filter [OF _ all_small_heads] by simp
  then show ?thesis
    using request_path_of [OF assms(1,2)] assms(3) by (auto simp: arrives_at_def call_def find_named_route)
qed

lemmas arrivesI0 = arrivesI [where q = "[]", simplified]

lemma words:
  "clean ''client-companies''" "decodeURIComponent ''client-companies'' = Some ''client-companies''"
  "clean ''tenders''" "decodeURIComponent ''tenders'' = Some ''tenders''"
  "clean ''status''" "decodeURIComponent ''status'' = Some ''status''"
  "clean ''sector''" "decodeURIComponent ''sector'' = Some ''sector''"
  "clean ''classify''" "decodeURIComponent ''classify'' = Some ''classify''"
  "clean ''requirements''" "decodeURIComponent ''requirements'' = Some ''requirements''"
  "clean ''compliance-matrices''" "decodeURIComponent ''compliance-matrices'' = Some ''compliance-matrices''"
  "clean ''access''" "decodeURIComponent ''access'' = Some ''access''"
  "clean ''users''" "decodeURIComponent ''users'' = Some ''users''"
  "clean ''documents''" "decodeURIComponent ''documents'' = Some ''documents''"
  "clean ''evidence-links''" "decodeURIComponent ''evidence-links'' = Some ''evidence-links''"
  "clean ''state''" "decodeURIComponent ''state'' = Some ''state''"
  "clean ''download''" "decodeURIComponent ''download'' = Some ''download''"
  "clean ''dpo-contact''" "decodeURIComponent ''dpo-contact'' = Some ''dpo-contact''"
  "clean ''data-subject-requests''" "decodeURIComponent ''data-subject-requests'' = Some ''data-subject-requests''"
  "clean ''approve''" "decodeURIComponent ''approve'' = Some ''approve''"
  "clean ''deny''" "decodeURIComponent ''deny'' = Some ''deny''"
  "clean ''execute''" "decodeURIComponent ''execute'' = Some ''execute''"
  "clean ''retention-actions''" "decodeURIComponent ''retention-actions'' = Some ''retention-actions''"
  "clean ''sweep''" "decodeURIComponent ''sweep'' = Some ''sweep''"
  "clean ''consent-events''" "decodeURIComponent ''consent-events'' = Some ''consent-events''"
  "clean ''check''" "decodeURIComponent ''check'' = Some ''check''"
  "clean ''ingestions''" "decodeURIComponent ''ingestions'' = Some ''ingestions''"
  "clean ''admin''" "decodeURIComponent ''admin'' = Some ''admin''"
  "clean ''ingestion''" "decodeURIComponent ''ingestion'' = Some ''ingestion''"
  "clean ''runs''" "decodeURIComponent ''runs'' = Some ''runs''"
  "clean ''training-records''" "decodeURIComponent ''training-records'' = Some ''training-records''"
  "clean ''summary''" "decodeURIComponent ''summary'' = Some ''summary''"
  "clean ''auth''" "decodeURIComponent ''auth'' = Some ''auth''"
  "clean ''me''" "decodeURIComponent ''me'' = Some ''me''"
  "clean ''upload''" "decodeURIComponent ''upload'' = Some ''upload''"
  "clean ''login''" "decodeURIComponent ''login'' = Some ''login''"
  "clean ''logout''" "decodeURIComponent ''logout'' = Some ''logout''"
  by (simp_all add: word_segment plain_words)

lemma arrives_listClients:
  shows "arrives_at web_listClients ''ClientCompanyController.list'' []"
  unfolding web_listClients_def
  by (rule arrivesI0 [where s = "''client-companies''" and p = "[]"])
    (simp_all add: words small_words from_GET_client_companies clean_encode id_ok_nonempty raw_segment show_nat_segment)

lemma arrives_createClient:
  shows "arrives_at (web_createClient name) ''ClientCompanyController.create'' []"
  unfolding web_createClient_def
  by (rule arrivesI0 [where s = "''client-companies''" and p = "[]"])
    (simp_all add: words small_words from_POST_client_companies clean_encode id_ok_nonempty raw_segment show_nat_segment)

lemma arrives_listTenders:
  shows "arrives_at web_listTenders ''TenderController.list'' []"
  unfolding web_listTenders_def
  by (rule arrivesI0 [where s = "''tenders''" and p = "[]"])
    (simp_all add: words small_words from_GET_tenders clean_encode id_ok_nonempty raw_segment show_nat_segment)

lemma arrives_createTender:
  shows "arrives_at (web_createTender input) ''TenderController.intake'' []"
  unfolding web_createTender_def
  by (rule arrivesI0 [where s = "''tenders''" and p = "[]"])
    (simp_all add: words small_words from_POST_tenders clean_encode id_ok_nonempty raw_segment show_nat_segment)

lemma arrives_getTender:
  assumes "id_ok i"
  shows "arrives_at (web_getTender i) ''TenderController.get'' [(''id'', i)]"
  unfolding web_getTender_def
  by (rule arrivesI0 [where s = "''tenders''" and p = "[i]"])
    (insert assms, simp_all add: words small_words from_GET_tenders clean_encode id_ok_nonempty raw_segment show_nat_segment)

lemma arrives_setTenderStatus:
  assumes "id_ok i"
  shows "arrives_at (web_setTenderStatus i status) ''TenderController.updateStatus'' [(''id'', i)]"
  unfolding web_setTenderStatus_def
  by (rule arrivesI0 [where s = "''tenders''" and p = "[i, ''status'']"])
    (insert assms, simp_all add: words small_words from_PATCH_tenders clean_encode id_ok_nonempty raw_segment show_nat_segment)

lemma arrives_deleteTender:
  assumes "id_ok i"
  shows "arrives_at (web_deleteTender i) ''TenderController.remove'' [(''id'', i)]"
  unfolding web_deleteTender_def
  by (rule arrivesI0 [where s = "''tenders''" and p = "[i]"])
    (insert assms, simp_all add: words small_words from_DELETE_tenders clean_encode id_ok_nonempty raw_segment show_nat_segment)

lemma arrives_reclassifySector:
  assumes "id_ok i"
  shows "arrives_at (web_reclassifySector i forceRerun) ''SectorClassifierController.classify'' [(''id'', i)]"
  unfolding web_reclassifySector_def
  by (rule arrivesI0 [where s = "''tenders''" and p = "[i, ''sector'', ''classify'']"])
    (insert assms, simp_all add: words small_words from_POST_tenders clean_encode id_ok_nonempty raw_segment show_nat_segment)

lemma arrives_listRequirements:
  assumes "id_ok t"
  shows "arrives_at (web_listRequirements t) ''TenderRequirementController.list'' [(''id'', t)]"
  unfolding web_listRequirements_def
  by (rule arrivesI0 [where s = "''tenders''" and p = "[t, ''requirements'']"])
    (insert assms, simp_all add: words small_words from_GET_tenders clean_encode id_ok_nonempty raw_segment show_nat_segment)

lemma arrives_bulkAddRequirements:
  assumes "id_ok t"
  shows "arrives_at (web_bulkAddRequirements t rs) ''TenderRequirementController.createBulk'' [(''id'', t)]"
  unfolding web_bulkAddRequirements_def
  by (rule arrivesI0 [where s = "''tenders''" and p = "[t, ''requirements'']"])
    (insert assms, simp_all add: words small_words from_POST_tenders clean_encode id_ok_nonempty raw_segment show_nat_segment)

lemma arrives_listMatrices:
  assumes "id_ok t"
  shows "arrives_at (web_listMatrices t) ''ComplianceController.list'' [(''id'', t)]"
  unfolding web_listMatrices_def
  by (rule arrivesI0 [where s = "''tenders''" and p = "[t, ''compliance-matrices'']"])
    (insert assms, simp_all add: words small_words from_GET_tenders clean_encode id_ok_nonempty raw_segment show_nat_segment)

lemma arrives_getMatrix:
  assumes "id_ok t"
  shows "arrives_at (web_getMatrix t version) ''ComplianceController.getByVersion'' [(''id'', t), (''version'', show_nat version)]"
  unfolding web_getMatrix_def
  by (rule arrivesI0 [where s = "''tenders''" and p = "[t, ''compliance-matrices'', show_nat version]"])
    (insert assms, simp_all add: words small_words from_GET_tenders clean_encode id_ok_nonempty raw_segment show_nat_segment)

lemma arrives_generateMatrix:
  assumes "id_ok t"
  shows "arrives_at (web_generateMatrix t) ''ComplianceController.generate'' [(''id'', t)]"
  unfolding web_generateMatrix_def
  by (rule arrivesI0 [where s = "''tenders''" and p = "[t, ''compliance-matrices'']"])
    (insert assms, simp_all add: words small_words from_POST_tenders clean_encode id_ok_nonempty raw_segment show_nat_segment)

lemma arrives_listAccess:
  assumes "id_ok t"
  shows "arrives_at (web_listAccess t) ''TenderAccessController.list'' [(''tenderId'', t)]"
  unfolding web_listAccess_def
  by (rule arrivesI0 [where s = "''tenders''" and p = "[t, ''access'']"])
    (insert assms, simp_all add: words small_words from_GET_tenders clean_encode id_ok_nonempty raw_segment show_nat_segment)

lemma arrives_grantAccess:
  assumes "id_ok t"
  shows "arrives_at (web_grantAccess t input) ''TenderAccessController.grant'' [(''tenderId'', t)]"
  unfolding web_grantAccess_def
  by (rule arrivesI0 [where s = "''tenders''" and p = "[t, ''access'']"])
    (insert assms, simp_all add: words small_words from_POST_tenders clean_encode id_ok_nonempty raw_segment show_nat_segment)

lemma arrives_revokeAccess:
  assumes "id_ok t" and "id_ok u"
  shows "arrives_at (web_revokeAccess t u) ''TenderAccessController.revoke'' [(''tenderId'', t), (''userId'', u)]"
  unfolding web_revokeAccess_def
  by (rule arrivesI0 [where s = "''tenders''" and p = "[t, ''access'', u]"])
    (insert assms, simp_all add: words small_words from_DELETE_tenders clean_encode id_ok_nonempty raw_segment show_nat_segment)

lemma arrives_listUsers:
  shows "arrives_at web_listUsers ''UsersController.list'' []"
  unfolding web_listUsers_def
  by (rule arrivesI0 [where s = "''users''" and p = "[]"])
    (simp_all add: words small_words from_GET_users clean_encode id_ok_nonempty raw_segment show_nat_segment)

lemma arrives_listDocuments:
  shows "arrives_at web_listDocuments ''DocumentVaultController.list'' []"
  unfolding web_listDocuments_def
  by (rule arrivesI0 [where s = "''documents''" and p = "[]"])
    (simp_all add: words small_words from_GET_documents clean_encode id_ok_nonempty raw_segment show_nat_segment)

lemma arrives_getDocument:
  assumes "id_ok i" and "toLowerCase i \<noteq> ''expiring''"
  shows "arrives_at (web_getDocument i) ''DocumentVaultController.get'' [(''id'', i)]"
  unfolding web_getDocument_def
  by (rule arrivesI0 [where s = "''documents''" and p = "[i]"])
    (insert assms, simp_all add: words small_words from_GET_documents clean_encode id_ok_nonempty raw_segment show_nat_segment)

lemma arrives_listDocumentEvidence:
  assumes "id_ok i"
  shows "arrives_at (web_listDocumentEvidence i) ''DocumentVaultController.evidenceLinks'' [(''id'', i)]"
  unfolding web_listDocumentEvidence_def
  by (rule arrivesI0 [where s = "''documents''" and p = "[i, ''evidence-links'']"])
    (insert assms, simp_all add: words small_words from_GET_documents clean_encode id_ok_nonempty raw_segment show_nat_segment)

lemma arrives_registerDocument:
  shows "arrives_at (web_registerDocument input) ''DocumentVaultController.register'' []"
  unfolding web_registerDocument_def
  by (rule arrivesI0 [where s = "''documents''" and p = "[]"])
    (simp_all add: words small_words from_POST_documents clean_encode id_ok_nonempty raw_segment show_nat_segment)

lemma arrives_setDocumentState:
  assumes "id_ok i"
  shows "arrives_at (web_setDocumentState i state) ''DocumentVaultController.setState'' [(''id'', i)]"
  unfolding web_setDocumentState_def
  by (rule arrivesI0 [where s = "''documents''" and p = "[i, ''state'']"])
    (insert assms, simp_all add: words small_words from_PATCH_documents clean_encode id_ok_nonempty raw_segment show_nat_segment)

lemma arrives_documentDownloadUrl:
  assumes "id_ok i"
  shows "arrives_at (web_documentDownloadUrl i) ''DocumentUploadController.download'' [(''id'', i)]"
  unfolding web_documentDownloadUrl_def
  by (rule arrivesI0 [where s = "''documents''" and p = "[i, ''download'']"])
    (insert assms, simp_all add: words small_words from_GET_documents clean_encode id_ok_nonempty raw_segment show_nat_segment)

lemma arrives_dpoContact:
  shows "arrives_at web_dpoContact ''DpoContactController.get'' []"
  unfolding web_dpoContact_def
  by (rule arrivesI0 [where s = "''dpo-contact''" and p = "[]"])
    (simp_all add: words small_words from_GET_dpo_contact clean_encode id_ok_nonempty raw_segment show_nat_segment)

lemma arrives_upsertDpoContact:
  shows "arrives_at (web_upsertDpoContact input) ''DpoContactController.upsert'' []"
  unfolding web_upsertDpoContact_def
  by (rule arrivesI0 [where s = "''dpo-contact''" and p = "[]"])
    (simp_all add: words small_words from_PUT_dpo_contact clean_encode id_ok_nonempty raw_segment show_nat_segment)

lemma arrives_listDataSubjectRequests:
  shows "arrives_at (web_listDataSubjectRequests st) ''DataSubjectController.list'' []"
  unfolding web_listDataSubjectRequests_def
  by (rule arrivesI [where s = "''data-subject-requests''" and p = "[]"])
    (simp_all add: words small_words from_GET_data_subject_requests clean_encode id_ok_nonempty raw_segment show_nat_segment)

lemma arrives_createDataSubjectRequest:
  shows "arrives_at (web_createDataSubjectRequest input) ''DataSubjectController.create'' []"
  unfolding web_createDataSubjectRequest_def
  by (rule arrivesI0 [where s = "''data-subject-requests''" and p = "[]"])
    (simp_all add: words small_words from_POST_data_subject_requests clean_encode id_ok_nonempty raw_segment show_nat_segment)

lemma arrives_approveDataSubjectRequest:
  assumes "raw_ok i"
  shows "arrives_at (web_approveDataSubjectRequest i) ''DataSubjectController.approve'' [(''id'', i)]"
  unfolding web_approveDataSubjectRequest_def
  by (rule arrivesI0 [where s = "''data-subject-requests''" and p = "[i, ''approve'']"])
    (insert assms, simp_all add: words small_words from_POST_data_subject_requests clean_encode id_ok_nonempty raw_segment show_nat_segment)

lemma arrives_denyDataSubjectRequest:
  assumes "raw_ok i"
  shows "arrives_at (web_denyDataSubjectRequest i notes) ''DataSubjectController.deny'' [(''id'', i)]"
  unfolding web_denyDataSubjectRequest_def
  by (rule arrivesI0 [where s = "''data-subject-requests''" and p = "[i, ''deny'']"])
    (insert assms, simp_all add: words small_words from_POST_data_subject_requests clean_encode id_ok_nonempty raw_segment show_nat_segment)

lemma arrives_executeDataSubjectRequest:
  assumes "raw_ok i"
  shows "arrives_at (web_executeDataSubjectRequest i) ''DataSubjectController.execute'' [(''id'', i)]"
  unfolding web_executeDataSubjectRequest_def
  by (rule arrivesI0 [where s = "''data-subject-requests''" and p = "[i, ''execute'']"])
    (insert assms, simp_all add: words small_words from_POST_data_subject_requests clean_encode id_ok_nonempty raw_segment show_nat_segment)

lemma arrives_listRetentionActions:
  shows "arrives_at (web_listRetentionActions st) ''RetentionActionController.list'' []"
  unfolding web_listRetentionActions_def
  by (rule arrivesI [where s = "''retention-actions''" and p = "[]"])
    (simp_all add: words small_words from_GET_retention_actions clean_encode id_ok_nonempty raw_segment show_nat_segment)

lemma arrives_approveRetention:
  assumes "raw_ok i"
  shows "arrives_at (web_approveRetention i) ''RetentionActionController.approve'' [(''id'', i)]"
  unfolding web_approveRetention_def
  by (rule arrivesI0 [where s = "''retention-actions''" and p = "[i, ''approve'']"])
    (insert assms, simp_all add: words small_words from_POST_retention_actions clean_encode id_ok_nonempty raw_segment show_nat_segment)

lemma arrives_denyRetention:
  assumes "raw_ok i"
  shows "arrives_at (web_denyRetention i) ''RetentionActionController.deny'' [(''id'', i)]"
  unfolding web_denyRetention_def
  by (rule arrivesI0 [where s = "''retention-actions''" and p = "[i, ''deny'']"])
    (insert assms, simp_all add: words small_words from_POST_retention_actions clean_encode id_ok_nonempty raw_segment show_nat_segment)

lemma arrives_manualSweep:
  shows "arrives_at web_manualSweep ''RetentionActionController.sweep'' []"
  unfolding web_manualSweep_def
  by (rule arrivesI0 [where s = "''retention-actions''" and p = "[''sweep'']"])
    (simp_all add: words small_words from_POST_retention_actions clean_encode id_ok_nonempty raw_segment show_nat_segment)

lemma arrives_listConsentForSubject:
  shows "arrives_at (web_listConsentForSubject email) ''ConsentLedgerController.list'' []"
  unfolding web_listConsentForSubject_def
  by (rule arrivesI [where s = "''consent-events''" and p = "[]"])
    (simp_all add: words small_words from_GET_consent_events clean_encode id_ok_nonempty raw_segment show_nat_segment)

lemma arrives_checkConsent:
  shows "arrives_at (web_checkConsent email purpose) ''ConsentLedgerController.check'' []"
  unfolding web_checkConsent_def
  by (rule arrivesI [where s = "''consent-events''" and p = "[''check'']"])
    (simp_all add: words small_words from_GET_consent_events clean_encode id_ok_nonempty raw_segment show_nat_segment)

lemma arrives_recordConsent:
  shows "arrives_at (web_recordConsent input) ''ConsentLedgerController.create'' []"
  unfolding web_recordConsent_def
  by (rule arrivesI0 [where s = "''consent-events''" and p = "[]"])
    (simp_all add: words small_words from_POST_consent_events clean_encode id_ok_nonempty raw_segment show_nat_segment)

lemma arrives_listIngestions:
  shows "arrives_at (web_listIngestions st kind) ''IngestionController.list'' []"
  unfolding web_listIngestions_def
  by (rule arrivesI [where s = "''ingestions''" and p = "[]"])
    (simp_all add: words small_words from_GET_ingestions clean_encode id_ok_nonempty raw_segment show_nat_segment)

lemma arrives_enqueueIngestion:
  shows "arrives_at (web_enqueueIngestion input) ''IngestionController.enqueue'' []"
  unfolding web_enqueueIngestion_def
  by (rule arrivesI0 [where s = "''ingestions''" and p = "[]"])
    (simp_all add: words small_words from_POST_ingestions clean_encode id_ok_nonempty raw_segment show_nat_segment)

lemma arrives_listIngestionRuns:
  shows "arrives_at (web_listIngestionRuns limit) ''IngestionProxyController.list'' []"
  unfolding web_listIngestionRuns_def
  by (rule arrivesI [where s = "''admin''" and p = "[''ingestion'', ''runs'']"])
    (simp_all add: words small_words from_GET_admin clean_encode id_ok_nonempty raw_segment show_nat_segment)

lemma arrives_triggerIngestionRun:
  shows "arrives_at (web_triggerIngestionRun input) ''IngestionProxyController.trigger'' []"
  unfolding web_triggerIngestionRun_def
  by (rule arrivesI0 [where s = "''admin''" and p = "[''ingestion'', ''runs'']"])
    (simp_all add: words small_words from_POST_admin clean_encode id_ok_nonempty raw_segment show_nat_segment)

lemma arrives_listTrainingRecords:
  shows "arrives_at (web_listTrainingRecords st) ''DpoTrainingController.list'' []"
  unfolding web_listTrainingRecords_def
  by (rule arrivesI [where s = "''training-records''" and p = "[]"])
    (simp_all add: words small_words from_GET_training_records clean_encode id_ok_nonempty raw_segment show_nat_segment)

lemma arrives_trainingRecordsSummary:
  shows "arrives_at web_trainingRecordsSummary ''DpoTrainingController.summary'' []"
  unfolding web_trainingRecordsSummary_def
  by (rule arrivesI0 [where s = "''training-records''" and p = "[''summary'']"])
    (simp_all add: words small_words from_GET_training_records clean_encode id_ok_nonempty raw_segment show_nat_segment)

lemma arrives_getTrainingRecord:
  assumes "id_ok i" and "toLowerCase i \<noteq> ''summary''"
  shows "arrives_at (web_getTrainingRecord i) ''DpoTrainingController.get'' [(''id'', i)]"
  unfolding web_getTrainingRecord_def
  by (rule arrivesI0 [where s = "''training-records''" and p = "[i]"])
    (insert assms, simp_all add: words small_words from_GET_training_records clean_encode id_ok_nonempty raw_segment show_nat_segment)

lemma arrives_createTrainingRecord:
  shows "arrives_at (web_createTrainingRecord input) ''DpoTrainingController.create'' []"
  unfolding web_createTrainingRecord_def
  by (rule arrivesI0 [where s = "''training-records''" and p = "[]"])
    (simp_all add: words small_words from_POST_training_records clean_encode id_ok_nonempty raw_segment show_nat_segment)

lemma arrives_updateTrainingRecord:
  assumes "id_ok i"
  shows "arrives_at (web_updateTrainingRecord i input) ''DpoTrainingController.update'' [(''id'', i)]"
  unfolding web_updateTrainingRecord_def
  by (rule arrivesI0 [where s = "''training-records''" and p = "[i]"])
    (insert assms, simp_all add: words small_words from_PATCH_training_records clean_encode id_ok_nonempty raw_segment show_nat_segment)

lemma arrives_removeTrainingRecord:
  assumes "id_ok i"
  shows "arrives_at (web_removeTrainingRecord i) ''DpoTrainingController.remove'' [(''id'', i)]"
  unfolding web_removeTrainingRecord_def
  by (rule arrivesI0 [where s = "''training-records''" and p = "[i]"])
    (insert assms, simp_all add: words small_words from_DELETE_training_records clean_encode id_ok_nonempty raw_segment show_nat_segment)

lemma arrives_uploadDocument:
  "arrives_at (call ''POST'' (path_of [''documents'', ''upload'']) None) ''DocumentUploadController.upload'' []"
  by (rule arrivesI0 [where s = "''documents''" and p = "[''upload'']"])
    (simp_all add: words small_words from_POST_documents)

lemma arrives_load_me: "arrives_at load_me ''AuthController.me'' []"
  unfolding load_me_def
  by (rule arrivesI0 [where s = "''auth''" and p = "[''me'']"]) (simp_all add: words small_words from_GET_auth)

lemmas arrivals =
  arrives_listClients arrives_createClient arrives_listTenders arrives_createTender
  arrives_getTender arrives_setTenderStatus arrives_deleteTender arrives_reclassifySector
  arrives_listRequirements arrives_bulkAddRequirements arrives_listMatrices arrives_getMatrix
  arrives_generateMatrix arrives_listAccess arrives_grantAccess arrives_revokeAccess
  arrives_listUsers arrives_listDocuments arrives_getDocument arrives_listDocumentEvidence
  arrives_registerDocument arrives_setDocumentState arrives_documentDownloadUrl arrives_dpoContact
  arrives_upsertDpoContact arrives_listDataSubjectRequests arrives_createDataSubjectRequest
  arrives_approveDataSubjectRequest arrives_denyDataSubjectRequest
  arrives_executeDataSubjectRequest arrives_listRetentionActions arrives_approveRetention
  arrives_denyRetention arrives_manualSweep arrives_listConsentForSubject arrives_checkConsent
  arrives_recordConsent arrives_listIngestions arrives_enqueueIngestion arrives_listIngestionRuns
  arrives_triggerIngestionRun arrives_listTrainingRecords arrives_trainingRecordsSummary
  arrives_getTrainingRecord arrives_createTrainingRecord arrives_updateTrainingRecord
  arrives_removeTrainingRecord



text \<open>The documented meaning of an unescaped id: one that names another segment never arrives.\<close>

lemma raw_id_goes_astray:
  "\<not> arrives_at (web_approveDataSubjectRequest ''a/b'') ''DataSubjectController.approve'' [(''id'', ''a/b'')]"
proof -
  have p: "request_path (ac_path (web_approveDataSubjectRequest ''a/b'')) =
      Some [''data-subject-requests'', ''a'', ''b'', ''approve'']"
    by code_simp
  have "find_named (names all_routes) ''POST'' [''data-subject-requests'', ''a'', ''b'', ''approve''] = None"
    using find_named_filter [OF _ all_small_heads, of "''data-subject-requests''" "''POST''"]
    by (simp add: small_words from_POST_data_subject_requests)
  then show ?thesis
    using p find_named_route [of all_routes "''POST''" "[''data-subject-requests'', ''a'', ''b'', ''approve'']"]
    by (auto simp: arrives_at_def web_approveDataSubjectRequest_def call_def)
qed

subsection \<open>The session of a call\<close>

text \<open>On the server a call carries the session cookie of the page request, in the browser it leaves it to the platform.\<close>

lemma session_travels:
  "we_server env \<Longrightarrow> we_session env = Some v \<Longrightarrow>
    map_of (wq_headers (call_request env c)) ''cookie'' = Some (SESSION_COOKIE @ ''='' @ v)"
  "\<not> we_server env \<Longrightarrow> wq_credentials (call_request env c) = Some ''include''"
  by (simp_all add: call_request_def call_headers_def serverCookieHeader_def SESSION_COOKIE_def Let_def update_conv)

text \<open>Without a session the user is nobody; every other failure is passed on.\<close>

lemma loadCurrentUser_nobody:
  assumes "we_fetch env (call_request env load_me) = Inr res" and "hr_status res = 401 \<or> hr_status res = 404"
  shows "loadCurrentUser env = Inr (Some JNull)"
  using assms by (auto simp: loadCurrentUser_def apiFetch_def api_answer_def http_ok_def)

text \<open>
  The handler answers an organisation without a contact with nothing, which the framework sends
  as an empty body: the call that reads it fails, since only a 404 counts as no contact.
\<close>

lemma getDpoContact_empty_body_fails:
  assumes "we_fetch env (call_request env web_dpoContact) = Inr \<lparr>hr_status = 200, hr_json = Inl m, hr_text = Some []\<rparr>"
  shows "getDpoContact env = Inl (Failed m)"
  using assms by (simp add: getDpoContact_def apiFetch_def api_answer_def http_ok_def)

end
