(* ===== verification/Net.thy ===== *)
theory Net
  imports Boundary
begin

text \<open>
  What the providers share to talk to a service: a request (method, address, headers, body) that
  may fail with an exception or is answered, and reading a parsed answer with optional chaining. A
  request body is the value that \<^verbatim>\<open>JSON.stringify\<close> prints, a bare text where the code sends one.
\<close>

type_synonym net = "string \<Rightarrow> string \<Rightarrow> (string \<times> string) list \<Rightarrow> json \<Rightarrow> http_response wact"

subsection \<open>Reading an answer\<close>

text \<open>\<open>member_of v k\<close> is \<^verbatim>\<open>v?.k\<close> and \<open>item0 v\<close> is \<^verbatim>\<open>v?.[0]\<close>; \<open>None\<close> is \<^verbatim>\<open>undefined\<close>.\<close>

definition member_of :: "json option \<Rightarrow> string \<Rightarrow> json option" where
  "member_of v k = (case v of Some (JObj kvs) \<Rightarrow> map_of kvs k | _ \<Rightarrow> None)"

definition item0 :: "json option \<Rightarrow> json option" where
  "item0 v = (case v of
     Some (JArr (x # _)) \<Rightarrow> Some x
   | Some (JStr (c # _)) \<Rightarrow> Some (JStr [c])
   | Some (JObj kvs) \<Rightarrow> map_of kvs ''0''
   | _ \<Rightarrow> None)"

definition or_empty :: "json option \<Rightarrow> json" where
  "or_empty v = (case v of None \<Rightarrow> JStr [] | Some JNull \<Rightarrow> JStr [] | Some x \<Rightarrow> x)"

definition falsy :: "json \<Rightarrow> bool" where
  "falsy v \<longleftrightarrow> v = JNull \<or> v = JBool False \<or> v = JNum 0 \<or> v = JStr []"

text \<open>\<^verbatim>\<open>json.k\<close> without the question mark fails on \<^verbatim>\<open>null\<close>.\<close>

definition not_null :: "string \<Rightarrow> json \<Rightarrow> unit wact" where
  "not_null k v = throwIf (v = JNull)
     (Plain (''Cannot read properties of null (reading '' @ [CHR 0x27] @ k @ [CHR 0x27] @ '')''))"

definition body_json :: "http_response \<Rightarrow> json wact" where
  "body_json res = (case hr_json res of Inl m \<Rightarrow> throw (Plain m) | Inr v \<Rightarrow> ret v)"

definition strip_slash :: "string \<Rightarrow> string" where
  "strip_slash u = (if ends_with u ''/'' then butlast u else u)"

lemma body_json_eq: "body_json res w = (Inr v, w') \<longleftrightarrow> hr_json res = Inr v \<and> w' = w"
  by (auto simp: body_json_def throw_def ret_def split: sum.splits)

lemma not_null_eq: "not_null k v w = (Inr u, w') \<longleftrightarrow> v \<noteq> JNull \<and> w' = w"
  by (auto simp: not_null_def throwIf_eq_Inr)

end
