(* ===== verification/Web_Pages.thy ===== *)
theory Web_Pages
  imports Web_Client Net
begin

text \<open>
  What the pages of the web application compute (\<^verbatim>\<open>apps/web\<close>): the gate in front of every page, the
  sign-in, the loaders that turn a failed call into an empty list or an error flag, the figures of
  the dashboard and the reports, the filters of the document list, the bulk paste of requirements
  and the texts of errors. What React renders from them is left out. Two calls awaited together
  report the failure of the one that fails first: an argument says whether that is the second.
\<close>

subsection \<open>The gate in front of the pages\<close>

datatype gate = Go_on | Redirect string "(string \<times> string) list"

fun params_set :: "string \<Rightarrow> string \<Rightarrow> (string \<times> string) list \<Rightarrow> (string \<times> string) list" where
  "params_set k v [] = [(k, v)]"
| "params_set k v ((k', v') # q) =
     (if k' = k then (k, v) # filter (\<lambda>(x, _). x \<noteq> k) q else (k', v') # params_set k v q)"

text \<open>The matcher leaves out the internals, the icon, the robots file and the API routes.\<close>

definition page_matched :: "string \<Rightarrow> bool" where
  "page_matched pathname \<longleftrightarrow>
     (case pathname of
        c # p \<Rightarrow> c = CHR ''/'' \<and>
          \<not> list_ex (starts_with p) [''_next'', ''favicon.ico'', ''robots.txt'', ''api/'']
      | [] \<Rightarrow> False)"

definition middleware :: "string \<Rightarrow> (string \<times> string) list \<Rightarrow> string option \<Rightarrow> gate" where
  "middleware pathname q session =
     (if pathname = ''/login'' then Go_on
      else if \<not> truthyS session
      then Redirect ''/login'' (if pathname \<noteq> ''/'' then params_set ''redirect'' pathname q else q)
      else Go_on)"

definition login_target :: "(string \<times> string) list \<Rightarrow> string" where
  "login_target params = orElse (map_of params ''redirect'') ''/''"

lemma map_of_params_set: "map_of (params_set k v q) k' = (if k' = k then Some v else map_of q k')"
proof (induction q)
  case (Cons p q)
  have "map_of (filter (\<lambda>(x, _). x \<noteq> k) q) k' = map_of q k'" if "k' \<noteq> k"
    using that by (induction q) auto
  then show ?case using Cons by (cases p) auto
qed simp

text \<open>
  Whoever is sent to the sign-in comes back to the page they asked for; from the front page they
  go where its own query said, which anybody may have written.
\<close>

theorem sign_in_returns:
  "middleware path q session = Redirect p q' \<Longrightarrow>
    p = ''/login'' \<and> path \<noteq> ''/login'' \<and> \<not> truthyS session \<and>
    login_target q' = (if path \<noteq> ''/'' then path else login_target q)"
  by (auto simp: middleware_def login_target_def map_of_params_set split: if_splits)

subsection \<open>Signing in and out\<close>

text \<open>\<^verbatim>\<open>null\<close> and \<^verbatim>\<open>undefined\<close> users are both \<open>JNull\<close>.\<close>

record auth_state =
  au_user :: json
  au_pending :: bool
  au_error :: "string option"

definition auth_initial :: "json \<Rightarrow> auth_state" where
  "auth_initial user = \<lparr>au_user = user, au_pending = False, au_error = None\<rparr>"

definition login_call :: "string \<Rightarrow> string \<Rightarrow> api_call" where
  "login_call email password = call ''POST'' (path_of [''auth'', ''login''])
     (Some (JObj [(''email'', JStr email), (''password'', JStr password)]))"

definition logout_call :: api_call where
  "logout_call = call ''POST'' (path_of [''auth'', ''logout'']) None"

text \<open>The text of the exception, \<^verbatim>\<open>API 401\<close> for an answer that is an error.\<close>

definition web_message :: "web_error \<Rightarrow> string" where
  "web_message e = (case e of ApiError s _ \<Rightarrow> ''API '' @ show_int s | Failed m \<Rightarrow> m)"

definition login_user :: "json option \<Rightarrow> web_error + json" where
  "login_user v =
     (case v of
        None \<Rightarrow> Inl (Failed ''Cannot read properties of undefined'')
      | Some JNull \<Rightarrow> Inl (Failed ''Cannot read properties of null'')
      | Some x \<Rightarrow> Inr (orElse (member_of (Some x) ''user'') JNull))"

definition auth_login :: "web_env \<Rightarrow> string \<Rightarrow> string \<Rightarrow> auth_state \<Rightarrow> auth_state \<times> web_error option" where
  "auth_login env email password st =
     (let st = st\<lparr>au_pending := True, au_error := None\<rparr>;
          failed = (\<lambda>e. (st\<lparr>au_pending := False,
            au_error := Some (if web_message e \<noteq> [] then ''Invalid credentials'' else ''Sign-in failed'')\<rparr>, Some e))
      in case apiFetch env (login_call email password) of
           Inl e \<Rightarrow> failed e
         | Inr v \<Rightarrow> (case login_user v of
               Inl e \<Rightarrow> failed e
             | Inr u \<Rightarrow> (st\<lparr>au_user := u, au_pending := False\<rparr>, None)))"

definition auth_logout :: "web_env \<Rightarrow> auth_state \<Rightarrow> auth_state" where
  "auth_logout env st = (case apiFetch env logout_call of _ \<Rightarrow> st\<lparr>au_user := JNull\<rparr>)"

definition auth_reset :: "auth_state \<Rightarrow> auth_state" where
  "auth_reset st = st\<lparr>au_error := None\<rparr>"

text \<open>A failed sign-in keeps the user as it was, and any API error reads as wrong credentials.\<close>

lemma failed_login:
  assumes "we_fetch env (call_request env (login_call email password)) = Inr res" and "\<not> http_ok res"
  shows "auth_login env email password st =
    (st\<lparr>au_pending := False, au_error := Some ''Invalid credentials''\<rparr>,
     Some (ApiError (hr_status res) (case hr_json res of Inl _ \<Rightarrow> JNull | Inr b \<Rightarrow> b)))"
  using assms by (simp add: auth_login_def apiFetch_def api_answer_def web_message_def Let_def)

lemma arrives_login: "arrives_at (login_call e p) ''AuthController.login'' []"
  unfolding login_call_def
  by (rule arrivesI0 [where s = "''auth''" and p = "[''login'']"]) (simp_all add: words small_words from_POST_auth)

lemma arrives_logout: "arrives_at logout_call ''AuthController.logout'' []"
  unfolding logout_call_def
  by (rule arrivesI0 [where s = "''auth''" and p = "[''logout'']"]) (simp_all add: words small_words from_POST_auth)

subsection \<open>Loading a page\<close>

text \<open>\<^verbatim>\<open>safeList...\<close>: any failure is an empty list.\<close>

definition safe_list :: "web_env \<Rightarrow> api_call \<Rightarrow> json option" where
  "safe_list env c = (case apiFetch env c of Inl _ \<Rightarrow> Some (JArr []) | Inr v \<Rightarrow> v)"

definition safeListReqs :: "web_env \<Rightarrow> string \<Rightarrow> json option" where
  "safeListReqs env t = safe_list env (web_listRequirements t)"

definition safeListMatrices :: "web_env \<Rightarrow> string \<Rightarrow> json option" where
  "safeListMatrices env t = safe_list env (web_listMatrices t)"

definition safeListAccess :: "web_env \<Rightarrow> string \<Rightarrow> json option" where
  "safeListAccess env t = safe_list env (web_listAccess t)"

definition safeListTenders :: "web_env \<Rightarrow> json option" where
  "safeListTenders env = safe_list env web_listTenders"

definition safeListDocs :: "web_env \<Rightarrow> json option" where
  "safeListDocs env = safe_list env web_listDocuments"

definition safeEvidence :: "web_env \<Rightarrow> string \<Rightarrow> json option" where
  "safeEvidence env i = safe_list env (web_listDocumentEvidence i)"

definition safeClients :: "web_env \<Rightarrow> json option" where
  "safeClients env = safe_list env web_listClients"

text \<open>A 404 is nothing to show, any other failure is passed on.\<close>

definition null_on_404 :: "web_env \<Rightarrow> api_call \<Rightarrow> web_error + json option" where
  "null_on_404 env c =
     (case apiFetch env c of
        Inl (ApiError s b) \<Rightarrow> if s = 404 then Inr (Some JNull) else Inl (ApiError s b)
      | r \<Rightarrow> r)"

definition loadTender :: "web_env \<Rightarrow> string \<Rightarrow> web_error + json option" where
  "loadTender env i = null_on_404 env (web_getTender i)"

definition loadDoc :: "web_env \<Rightarrow> string \<Rightarrow> web_error + json option" where
  "loadDoc env i = null_on_404 env (web_getDocument i)"

definition audit_call :: api_call where
  "audit_call = call ''GET'' (path_of [''audit-events''] @ ''?limit=100'') None"

definition safeListAudit :: "web_env \<Rightarrow> json option \<times> bool" where
  "safeListAudit env =
     (case apiFetch env audit_call of
        Inr v \<Rightarrow> (v, False)
      | Inl (ApiError s _) \<Rightarrow> (Some (JArr []), s = 403)
      | Inl _ \<Rightarrow> (Some (JArr []), False))"

definition both :: "bool \<Rightarrow> web_error + 'a \<Rightarrow> web_error + 'b \<Rightarrow> web_error + 'a \<times> 'b" where
  "both second_first a b =
     (case (a, b) of
        (Inr x, Inr y) \<Rightarrow> Inr (x, y)
      | (Inl e, Inr _) \<Rightarrow> Inl e
      | (Inr _, Inl e) \<Rightarrow> Inl e
      | (Inl e, Inl e') \<Rightarrow> Inl (if second_first then e' else e))"

definition expiring_call :: api_call where
  "expiring_call = call ''GET'' (path_of [''documents'', ''expiring'']) None"

definition loadDashboard :: "bool \<Rightarrow> web_env \<Rightarrow> json option \<times> json option \<times> bool" where
  "loadDashboard second_first env =
     (case both second_first (apiFetch env web_listTenders) (apiFetch env expiring_call) of
        Inr (tenders, expiring) \<Rightarrow> (tenders, expiring, False)
      | Inl (ApiError s _) \<Rightarrow> (Some (JArr []), Some (JArr []), \<not> (s = 401 \<or> s = 404))
      | Inl _ \<Rightarrow> (Some (JArr []), Some (JArr []), True))"

text \<open>The list pages: a 401 shows an empty page, any other failure the error.\<close>

definition list_page_error :: "web_error \<Rightarrow> bool" where
  "list_page_error e = (case e of ApiError s _ \<Rightarrow> s \<noteq> 401 | Failed _ \<Rightarrow> True)"

subsection \<open>The dashboard\<close>

record kpis =
  kp_openTenders :: nat
  kp_bidReady :: nat
  kp_criticalGaps :: nat
  kp_expiringDocs :: nat

text \<open>The risks of the critical tasks the dashboard shows: those of the fixture, in production too.\<close>

definition fixture_risks :: "string list" where
  "fixture_risks = [''critical'', ''critical'']"

definition dashboard_kpis :: "tender list \<Rightarrow> client_document list \<Rightarrow> kpis" where
  "dashboard_kpis tenders expiring =
     \<lparr>kp_openTenders = length tenders,
      kp_bidReady = length (filter (\<lambda>t. tn_status t = ''ready'') tenders),
      kp_criticalGaps = length (filter (\<lambda>r. r = ''critical'') fixture_risks),
      kp_expiringDocs = length expiring\<rparr>"

lemma kpis_bounds:
  "kp_bidReady (dashboard_kpis ts es) \<le> kp_openTenders (dashboard_kpis ts es)"
  "kp_criticalGaps (dashboard_kpis ts es) = 2"
  by (simp_all add: dashboard_kpis_def fixture_risks_def)

subsection \<open>The reports\<close>

text \<open>\<^verbatim>\<open>acc[k] = (acc[k] ?? 0) + 1\<close> over the rows; the keys are not inherited members.\<close>

definition tally :: "('r \<Rightarrow> string) \<Rightarrow> 'r list \<Rightarrow> (string \<times> nat) list" where
  "tally f rows = fold (\<lambda>r acc. AList.update (f r) (orElse (map_of acc (f r)) 0 + 1) acc) rows []"

definition daysUntil :: "time \<Rightarrow> time \<Rightarrow> int" where
  "daysUntil t now = \<lceil>rat_of_int (t - now) / of_int (24 * 60 * 60 * 1000)\<rceil>"

definition within_days :: "int \<Rightarrow> time \<Rightarrow> client_document list \<Rightarrow> nat" where
  "within_days n now docs = length (filter (\<lambda>d.
     case cd_expiresAt d of None \<Rightarrow> False | Some t \<Rightarrow> daysUntil t now \<le> n \<and> cd_state d \<noteq> ''archived'') docs)"

definition top_actions :: "string list \<Rightarrow> (string \<times> nat) list" where
  "top_actions actions = take 10 (sort_desc (\<lambda>(_, n). int n) (tally (\<lambda>a. a) actions))"

definition js_round :: "rat \<Rightarrow> int" where
  "js_round x = \<lfloor>x + 1 / 2\<rfloor>"

definition stat_table :: "(string \<times> nat) list \<Rightarrow> nat \<Rightarrow> (string \<times> nat \<times> int) list" where
  "stat_table entries whole =
     map (\<lambda>(k, n). (k, n, if whole \<noteq> 0 then js_round (of_nat n / of_nat whole * 100) else 0))
       (sort_desc (\<lambda>(_, n). int n) entries)"

definition matrix_coverage :: "nat list \<Rightarrow> int" where
  "matrix_coverage counts =
     (if counts = [] then 0
      else js_round (of_nat (length (filter (\<lambda>n. n > 0) counts)) / of_nat (length counts) * 100))"

lemma tally_counts:
  "map_of (tally f rows) k =
     (let n = length (filter (\<lambda>r. f r = k) rows) in if n = 0 then None else Some n)"
proof (induction rows rule: rev_induct)
  case (snoc r rows)
  have "tally f (rows @ [r]) = AList.update (f r) (orElse (map_of (tally f rows) (f r)) 0 + 1) (tally f rows)"
    by (simp add: tally_def)
  then show ?case
    using snoc by (auto simp: update_conv' Let_def orElse_def split: option.splits if_splits)
qed (simp add: tally_def)

text \<open>Expired documents count in every window, and the windows grow.\<close>

lemma within_days_mono: "m \<le> n \<Longrightarrow> within_days m now docs \<le> within_days n now docs"
  unfolding within_days_def
  by (induction docs) (auto split: option.splits)

lemma expired_counts_as_due_soon:
  assumes "cd_expiresAt d = Some t" and "t < now" and "cd_state d \<noteq> ''archived''" and "0 \<le> n"
  shows "within_days n now [d] = 1"
proof -
  have "rat_of_int (t - now) / of_int (24 * 60 * 60 * 1000) \<le> 0"
    using assms(2) by (simp add: divide_le_0_iff)
  then have "daysUntil t now \<le> 0" by (simp add: daysUntil_def ceiling_le_iff)
  then show ?thesis using assms by (simp add: within_days_def)
qed

lemma js_round_percent:
  assumes "a \<le> b" and "b \<noteq> 0"
  shows "0 \<le> js_round (of_nat a / of_nat b * 100) \<and> js_round (of_nat a / of_nat b * 100) \<le> 100"
proof -
  have "0 \<le> (of_nat a / of_nat b * 100 :: rat)" by simp
  moreover have "of_nat a / of_nat b \<le> (1 :: rat)"
    using assms by (simp add: divide_le_eq)
  ultimately show ?thesis
    by (simp add: js_round_def floor_le_iff le_floor_iff)
qed

lemma matrix_coverage_percent: "0 \<le> matrix_coverage counts \<and> matrix_coverage counts \<le> 100"
  using js_round_percent [of "length (filter (\<lambda>n. n > 0) counts)" "length counts"]
  by (simp add: matrix_coverage_def)

subsection \<open>The document list\<close>

record doc_filter =
  df_state :: "string option"
  df_sensitivity :: "string option"
  df_type :: "string option"

text \<open>An unknown or missing value of the query is no filter; the type is free text.\<close>

definition known_filter :: "string list \<Rightarrow> string option \<Rightarrow> string option" where
  "known_filter known v = (case v of Some s \<Rightarrow> if s \<in> set known then Some s else None | None \<Rightarrow> None)"

definition doc_filter_of :: "string option \<Rightarrow> string option \<Rightarrow> string option \<Rightarrow> doc_filter" where
  "doc_filter_of state sens type = \<lparr>
     df_state = known_filter ['''', ''active'', ''expiring'', ''restricted'', ''archived''] state,
     df_sensitivity = known_filter ['''', ''low'', ''medium'', ''high''] sens,
     df_type = (case type of None \<Rightarrow> None | Some s \<Rightarrow> if trim s = [] then None else Some (trim s))\<rparr>"

definition filter_docs :: "doc_filter \<Rightarrow> client_document list \<Rightarrow> client_document list" where
  "filter_docs f docs = filter (\<lambda>d.
     (\<not> truthyS (df_state f) \<or> cd_state d = the (df_state f)) \<and>
     (\<not> truthyS (df_sensitivity f) \<or> cd_sensitivity d = the (df_sensitivity f)) \<and>
     (\<not> truthyS (df_type f) \<or> cd_documentType d = the (df_type f))) docs"

text \<open>The address a filter chip leads to: the other filters and its own value, if any.\<close>

definition filter_href :: "(string \<times> string) list \<Rightarrow> string \<Rightarrow> string \<Rightarrow> string" where
  "filter_href extra key v =
     (let q = search_params (if v \<noteq> [] then params_set key v extra else extra)
      in if q \<noteq> [] then ''/documents?'' @ q else ''/documents'')"

definition next_state :: "string \<Rightarrow> string" where
  "next_state s =
     (if s = ''active'' then ''expiring'' else if s = ''expiring'' then ''restricted''
      else if s = ''restricted'' then ''archived'' else ''active'')"

lemma next_state_cycle:
  "s \<in> {''active'', ''expiring'', ''restricted'', ''archived''} \<Longrightarrow> (next_state ^^ 4) s = s"
  by (auto simp: next_state_def eval_nat_numeral)

subsection \<open>The bulk paste of requirements\<close>

text \<open>One requirement a line, \<^verbatim>\<open>category: text\<close>, or text of the category \<^verbatim>\<open>other\<close>.\<close>

definition parse_line :: "string \<Rightarrow> string \<times> string" where
  "parse_line line =
     (if CHR '':'' \<notin> set line then (''other'', line)
      else let category = toLowerCase (trim (takeWhile (\<lambda>c. c \<noteq> CHR '':'') line));
               rest = trim (tl (dropWhile (\<lambda>c. c \<noteq> CHR '':'') line))
           in (if category = [] then ''other'' else category, if rest = [] then line else rest))"

definition parseBulkText :: "string \<Rightarrow> (string \<times> string) list" where
  "parseBulkText text =
     filter (\<lambda>(_, t). t \<noteq> [])
       (map parse_line (filter (\<lambda>l. l \<noteq> []) (map trim (split_char (CHR 0x0A) text))))"

lemma parsed_lines_complete:
  assumes "(c, t) \<in> set (parseBulkText text)"
  shows "c \<noteq> [] \<and> t \<noteq> []"
  using assms by (auto simp: parseBulkText_def parse_line_def Let_def split: if_splits)

lemma parsed_at_most_lines: "length (parseBulkText text) \<le> length (split_char (CHR 0x0A) text)"
  unfolding parseBulkText_def
  by (rule order_trans [OF length_filter_le]) (simp add: order_trans [OF length_filter_le])

text \<open>A row that the paste can say: a trimmed category in small letters, a trimmed text, one line each.\<close>

definition bulk_row :: "string \<times> string \<Rightarrow> bool" where
  "bulk_row r = (case r of (c, t) \<Rightarrow>
     c \<noteq> [] \<and> trim c = c \<and> toLowerCase c = c \<and> CHR '':'' \<notin> set c \<and> CHR 0x0A \<notin> set c \<and>
     t \<noteq> [] \<and> trim t = t \<and> CHR 0x0A \<notin> set t)"

definition bulk_line :: "string \<times> string \<Rightarrow> string" where
  "bulk_line r = fst r @ '': '' @ snd r"

lemma dropWhile_shorter: "s \<noteq> [] \<Longrightarrow> P (hd s) \<Longrightarrow> length (dropWhile P s) < length s"
  by (cases s) (auto simp: less_Suc_eq_le length_dropWhile_le)

lemma trim_fixed: "trim s = s \<Longrightarrow> s \<noteq> [] \<Longrightarrow> \<not> js_space (hd s) \<and> \<not> js_space (last s)"
proof -
  assume t: "trim s = s" and ne: "s \<noteq> []"
  let ?d = "dropWhile js_space s"
  have r: "rev (dropWhile js_space (rev ?d)) = s" using t by (simp add: trim_def)
  have "length (dropWhile js_space (rev ?d)) \<le> length ?d"
    using length_dropWhile_le [of js_space "rev ?d"] by simp
  then have le: "length s \<le> length ?d" using arg_cong [OF r, of length] by simp
  have h: "\<not> js_space (hd s)"
    using dropWhile_shorter [OF ne, of js_space] le by auto
  then have d: "?d = s" using ne by (cases s) auto
  have "length (dropWhile js_space (rev s)) = length s"
    using arg_cong [OF r, of length] d by simp
  then have "\<not> js_space (hd (rev s))"
    using dropWhile_shorter [of "rev s" js_space] ne by auto
  then show ?thesis using h by (simp add: hd_rev)
qed

lemma trim_unchanged: "s \<noteq> [] \<Longrightarrow> \<not> js_space (hd s) \<Longrightarrow> \<not> js_space (last s) \<Longrightarrow> trim s = s"
proof -
  assume ne: "s \<noteq> []" and h: "\<not> js_space (hd s)" and l: "\<not> js_space (last s)"
  have "dropWhile js_space s = s" using ne h by (cases s) auto
  moreover have "dropWhile js_space (rev s) = rev s" using ne l by (cases s rule: rev_cases) auto
  ultimately show ?thesis by (simp add: trim_def)
qed

lemma trim_space: "trim (CHR '' '' # s) = trim s"
  by (simp add: trim_def js_space_def)

lemma split_join:
  "ls \<noteq> [] \<Longrightarrow> \<forall>l \<in> set ls. c \<notin> set l \<Longrightarrow> split_char c (join [c] ls) = ls"
proof (induction ls)
  case (Cons l ls)
  then show ?case
    by (cases ls) (simp_all add: split_char_no split_char_append)
qed simp

lemma bulk_line_row:
  assumes "bulk_row r"
  shows "trim (bulk_line r) = bulk_line r" and "CHR 0x0A \<notin> set (bulk_line r)"
    and "bulk_line r \<noteq> []" and "parse_line (bulk_line r) = r"
proof -
  obtain c t where r: "r = (c, t)" by (cases r)
  have c: "c \<noteq> []" "trim c = c" "toLowerCase c = c" "CHR '':'' \<notin> set c" "CHR 0x0A \<notin> set c"
    and t: "t \<noteq> []" "trim t = t" "CHR 0x0A \<notin> set t"
    using assms by (simp_all add: r bulk_row_def)
  have l: "bulk_line r = c @ CHR '':'' # CHR '' '' # t" by (simp add: bulk_line_def r)
  show "bulk_line r \<noteq> []" by (simp add: l)
  show "CHR 0x0A \<notin> set (bulk_line r)" using c(5) t(3) by (simp add: l)
  show "trim (bulk_line r) = bulk_line r"
    unfolding l
  proof (rule trim_unchanged)
    show "\<not> js_space (hd (c @ CHR '':'' # CHR '' '' # t))" using trim_fixed [OF c(2,1)] c(1) by simp
    show "\<not> js_space (last (c @ CHR '':'' # CHR '' '' # t))" using trim_fixed [OF t(2,1)] t(1) by simp
  qed simp
  have "takeWhile (\<lambda>x. x \<noteq> CHR '':'') (c @ CHR '':'' # CHR '' '' # t) = c"
    "dropWhile (\<lambda>x. x \<noteq> CHR '':'') (c @ CHR '':'' # CHR '' '' # t) = CHR '':'' # CHR '' '' # t"
    using c(4) by (induction c) auto
  then show "parse_line (bulk_line r) = r"
    using c t by (simp add: parse_line_def l [unfolded r] r Let_def trim_space)
qed

text \<open>
  Pasting what the list shows gives the list back: rows written one a line as \<^verbatim>\<open>category: text\<close> are
  read as exactly those rows, in order.
\<close>

theorem bulk_paste_roundtrip:
  assumes "\<forall>r \<in> set rows. bulk_row r"
  shows "parseBulkText (join [CHR 0x0A] (map bulk_line rows)) = rows"
proof (cases "rows = []")
  case True
  then show ?thesis by (simp add: parseBulkText_def trim_def)
next
  case False
  have "split_char (CHR 0x0A) (join [CHR 0x0A] (map bulk_line rows)) = map bulk_line rows"
    using False assms bulk_line_row(2) by (intro split_join) auto
  moreover have "map trim (map bulk_line rows) = map bulk_line rows"
    using assms bulk_line_row(1) by simp
  moreover have "filter (\<lambda>l. l \<noteq> []) (map bulk_line rows) = map bulk_line rows"
    using assms bulk_line_row(3) by (simp add: filter_id_conv)
  moreover have "map parse_line (map bulk_line rows) = rows"
    using assms bulk_line_row(4) by (simp add: map_idI)
  moreover have "filter (\<lambda>(_, t). t \<noteq> []) rows = rows"
    using assms by (auto simp: filter_id_conv bulk_row_def)
  ultimately show ?thesis by (simp only: parseBulkText_def)
qed

subsection \<open>The training register\<close>

definition parseStatus :: "string option \<Rightarrow> string" where
  "parseStatus v = (if v \<in> Some ` set [''active'', ''expiring'', ''expired'', ''no-expiry''] then the v else ''all'')"

definition isoToDateInput :: "string option \<Rightarrow> string" where
  "isoToDateInput v = (if truthyS v then take 10 (the v) else [])"

definition some_or_null :: "string \<Rightarrow> json" where
  "some_or_null s = (if trim s = [] then JNull else JStr (trim s))"

record training_form =
  tf_subjectName :: string
  tf_subjectEmail :: string
  tf_topic :: string
  tf_provider :: string
  tf_completedAt :: string
  tf_validUntil :: string
  tf_evidenceRef :: string
  tf_notes :: string

text \<open>\<open>to_iso\<close> is \<^verbatim>\<open>new Date(s).toISOString()\<close>, \<open>None\<close> where it throws.\<close>

definition training_dates :: "(string \<Rightarrow> string option) \<Rightarrow> string \<Rightarrow> string \<Rightarrow> (string \<times> json) list option" where
  "training_dates to_iso completed valid =
     (case to_iso completed of
        None \<Rightarrow> None
      | Some c \<Rightarrow>
          if valid = [] then Some [(''completedAt'', JStr c), (''validUntil'', JNull)]
          else map_option (\<lambda>v. [(''completedAt'', JStr c), (''validUntil'', JStr v)]) (to_iso valid))"

definition training_create_body :: "(string \<Rightarrow> string option) \<Rightarrow> training_form \<Rightarrow> json option" where
  "training_create_body to_iso f =
     map_option (\<lambda>dates. JObj
       ([(''subjectName'', JStr (trim (tf_subjectName f))), (''subjectEmail'', JStr (trim (tf_subjectEmail f))),
         (''topic'', JStr (trim (tf_topic f))), (''provider'', some_or_null (tf_provider f))] @ dates @
        [(''evidenceRef'', some_or_null (tf_evidenceRef f)), (''notes'', some_or_null (tf_notes f))]))
       (training_dates to_iso (tf_completedAt f) (tf_validUntil f))"

definition training_update_body :: "(string \<Rightarrow> string option) \<Rightarrow> training_form \<Rightarrow> json option" where
  "training_update_body to_iso f =
     map_option (\<lambda>dates. JObj
       ([(''topic'', JStr (trim (tf_topic f))), (''provider'', some_or_null (tf_provider f))] @ dates @
        [(''evidenceRef'', some_or_null (tf_evidenceRef f)), (''notes'', some_or_null (tf_notes f))]))
       (training_dates to_iso (tf_completedAt f) (tf_validUntil f))"

text \<open>What the register shows of a failed call.\<close>

definition string_items :: "json list \<Rightarrow> string list" where
  "string_items xs = map (\<lambda>x. case x of JStr s \<Rightarrow> s | _ \<Rightarrow> []) xs"

definition extractError :: "web_error \<Rightarrow> string" where
  "extractError e =
     (case e of
        Failed _ \<Rightarrow> ''Failed''
      | ApiError _ b \<Rightarrow>
          (case member_of (Some b) ''message'' of
             Some (JArr xs) \<Rightarrow> join '', '' (string_items xs)
           | Some (JStr s) \<Rightarrow> s
           | _ \<Rightarrow> (case member_of (Some b) ''error'' of Some (JStr s) \<Rightarrow> s | _ \<Rightarrow> ''Failed'')))"

subsection \<open>Who can still be granted access\<close>

definition grantable :: "tender_access list \<Rightarrow> public_user list \<Rightarrow> public_user list" where
  "grantable granted users = filter (\<lambda>u. pu_id u \<notin> ta_userId ` set granted) users"

end
