(* ===== verification/Llm_Providers.thy ===== *)
theory Llm_Providers
  imports Llm Net
begin

text \<open>
  The model providers behind the classifier (\<^verbatim>\<open>providers/llm\<close>): DeepSeek, Ollama and the mock, and
  the factory that picks one from the environment. The network, \<^verbatim>\<open>JSON.parse\<close> and the schema of
  \<^verbatim>\<open>zod\<close> are parameters: a request may fail with an exception, a body may fail to parse, and a
  schema answers with a message or the validated value. A request body is the value that
  \<^verbatim>\<open>JSON.stringify\<close> prints. A number the environment gives is \<open>None\<close> when it is \<^verbatim>\<open>NaN\<close>, which
  \<^verbatim>\<open>JSON.stringify\<close> prints as \<^verbatim>\<open>null\<close>; a token count in an answer is a number when it is present.
\<close>

type_synonym 'a schema = "json \<Rightarrow> string + 'a"

record llm_input =
  li_systemPrompt :: string
  li_userPrompt :: string
  li_model :: "string option"
  li_temperature :: "rat option"
  li_maxTokens :: "rat option"

record token_usage =
  tk_input :: "rat option"
  tk_output :: "rat option"
  tk_total :: "rat option"

record 'a llm_answer =
  la_output :: 'a
  la_model :: string
  la_provider :: string
  la_usage :: "token_usage option"

subsection \<open>Counts and numbers\<close>

definition token_count :: "json option \<Rightarrow> rat option" where
  "token_count v = (case v of Some (JNum n) \<Rightarrow> Some n | _ \<Rightarrow> None)"

definition jnum :: "rat option \<Rightarrow> json" where
  "jnum v = (case v of None \<Rightarrow> JNull | Some n \<Rightarrow> JNum n)"

definition given_or :: "rat option \<Rightarrow> rat option \<Rightarrow> json" where
  "given_or v d = (case v of None \<Rightarrow> jnum d | Some n \<Rightarrow> JNum n)"

definition chat_messages :: "llm_input \<Rightarrow> json" where
  "chat_messages i = JArr
     [JObj [(''role'', JStr ''system''), (''content'', JStr (li_systemPrompt i))],
      JObj [(''role'', JStr ''user''), (''content'', JStr (li_userPrompt i))]]"

subsection \<open>DeepSeek\<close>

record deepseek_config =
  ds_apiKey :: string
  ds_baseUrl :: string
  ds_defaultModel :: string
  ds_highQualityModel :: "string option"
  ds_defaultTemperature :: "rat option"
  ds_defaultMaxTokens :: "rat option"

definition deepseek_body :: "deepseek_config \<Rightarrow> llm_input \<Rightarrow> bool \<Rightarrow> json" where
  "deepseek_body cfg i jsonMode = JObj
     ([(''model'', JStr (orElse (li_model i) (ds_defaultModel cfg))),
       (''messages'', chat_messages i),
       (''temperature'', given_or (li_temperature i) (ds_defaultTemperature cfg)),
       (''max_tokens'', given_or (li_maxTokens i) (ds_defaultMaxTokens cfg)),
       (''stream'', JBool False)] @
      (if jsonMode then [(''response_format'', JObj [(''type'', JStr ''json_object'')])] else []))"

definition deepseek_usage :: "json \<Rightarrow> token_usage option" where
  "deepseek_usage v =
     (case member_of (Some v) ''usage'' of
        None \<Rightarrow> None
      | Some u \<Rightarrow>
          if falsy u then None
          else Some \<lparr>tk_input = token_count (member_of (Some u) ''prompt_tokens''),
                 tk_output = token_count (member_of (Some u) ''completion_tokens''),
                 tk_total = token_count (member_of (Some u) ''total_tokens'')\<rparr>)"

definition deepseek_callChat ::
    "net \<Rightarrow> deepseek_config \<Rightarrow> llm_input \<Rightarrow> bool \<Rightarrow> (json \<times> string \<times> token_usage option) wact" where
  "deepseek_callChat net cfg i jsonMode =
     bindA (net ''POST'' (strip_slash (ds_baseUrl cfg) @ ''/chat/completions'')
       [(''content-type'', ''application/json''), (''authorization'', ''Bearer '' @ ds_apiKey cfg)]
       (deepseek_body cfg i jsonMode)) (\<lambda>res.
     bindA (throwIf (\<not> http_ok res) (Plain (''DeepSeek HTTP '' @ show_int (hr_status res) @ '': '' @
       take 500 (orElse (hr_text res) [])))) (\<lambda>_.
     bindA (body_json res) (\<lambda>v.
     bindA (not_null ''choices'' v) (\<lambda>_.
     let content = or_empty (member_of (member_of (item0 (member_of (Some v) ''choices'')) ''message'') ''content'') in
     bindA (throwIf (falsy content) (Plain ''DeepSeek returned empty content'')) (\<lambda>_.
     ret (content, orElse (li_model i) (ds_defaultModel cfg), deepseek_usage v))))))"

definition deepseek_generateJson ::
    "net \<Rightarrow> (json \<Rightarrow> string + json) \<Rightarrow> deepseek_config \<Rightarrow> llm_input \<Rightarrow> 'a schema \<Rightarrow> 'a llm_answer wact" where
  "deepseek_generateJson net parse cfg i schema =
     bindA (deepseek_callChat net cfg i True) (\<lambda>(content, model, usage).
     case parse content of
       Inl m \<Rightarrow> throw (Plain (''DeepSeek JSON parse failed: '' @ m))
     | Inr v \<Rightarrow>
         (case schema v of
            Inl m \<Rightarrow> throw (Plain m)
          | Inr out \<Rightarrow> ret \<lparr>la_output = out, la_model = model, la_provider = ''deepseek'', la_usage = usage\<rparr>))"

definition deepseek_generateText :: "net \<Rightarrow> deepseek_config \<Rightarrow> llm_input \<Rightarrow> json llm_answer wact" where
  "deepseek_generateText net cfg i =
     bindA (deepseek_callChat net cfg i False) (\<lambda>(content, model, usage).
     ret \<lparr>la_output = content, la_model = model, la_provider = ''deepseek'', la_usage = usage\<rparr>)"

subsection \<open>Ollama\<close>

record ollama_config =
  ol_baseUrl :: string
  ol_defaultModel :: string
  ol_defaultTemperature :: "rat option"
  ol_defaultMaxTokens :: "rat option"

definition ollama_body :: "ollama_config \<Rightarrow> llm_input \<Rightarrow> bool \<Rightarrow> json" where
  "ollama_body cfg i jsonMode = JObj
     ([(''model'', JStr (orElse (li_model i) (ol_defaultModel cfg))),
       (''messages'', chat_messages i),
       (''stream'', JBool False),
       (''options'', JObj
          [(''temperature'', given_or (li_temperature i) (ol_defaultTemperature cfg)),
           (''num_predict'', given_or (li_maxTokens i) (ol_defaultMaxTokens cfg))])] @
      (if jsonMode then [(''format'', JStr ''json'')] else []))"

text \<open>A sum of zero counts as no total.\<close>

definition ollama_usage :: "json \<Rightarrow> token_usage" where
  "ollama_usage v =
     (let a = token_count (member_of (Some v) ''prompt_eval_count'');
          b = token_count (member_of (Some v) ''eval_count'');
          total = orElse a 0 + orElse b 0
      in \<lparr>tk_input = a, tk_output = b, tk_total = (if total = 0 then None else Some total)\<rparr>)"

definition ollama_callChat ::
    "net \<Rightarrow> ollama_config \<Rightarrow> llm_input \<Rightarrow> bool \<Rightarrow> (json \<times> string \<times> token_usage) wact" where
  "ollama_callChat net cfg i jsonMode =
     bindA (net ''POST'' (strip_slash (ol_baseUrl cfg) @ ''/api/chat'')
       [(''content-type'', ''application/json'')] (ollama_body cfg i jsonMode)) (\<lambda>res.
     bindA (throwIf (\<not> http_ok res) (Plain (''Ollama HTTP '' @ show_int (hr_status res) @ '': '' @
       take 500 (orElse (hr_text res) [])))) (\<lambda>_.
     bindA (body_json res) (\<lambda>v.
     bindA (not_null ''message'' v) (\<lambda>_.
     let content = or_empty (member_of (member_of (Some v) ''message'') ''content'') in
     bindA (throwIf (falsy content) (Plain ''Ollama returned empty content'')) (\<lambda>_.
     ret (content, orElse (li_model i) (ol_defaultModel cfg), ollama_usage v))))))"

definition ollama_generateJson ::
    "net \<Rightarrow> (json \<Rightarrow> string + json) \<Rightarrow> ollama_config \<Rightarrow> llm_input \<Rightarrow> 'a schema \<Rightarrow> 'a llm_answer wact" where
  "ollama_generateJson net parse cfg i schema =
     bindA (ollama_callChat net cfg i True) (\<lambda>(content, model, usage).
     case parse content of
       Inl m \<Rightarrow> throw (Plain (''Ollama JSON parse failed: '' @ m))
     | Inr v \<Rightarrow>
         (case schema v of
            Inl m \<Rightarrow> throw (Plain m)
          | Inr out \<Rightarrow> ret \<lparr>la_output = out, la_model = model, la_provider = ''ollama'', la_usage = Some usage\<rparr>))"

definition ollama_generateText :: "net \<Rightarrow> ollama_config \<Rightarrow> llm_input \<Rightarrow> json llm_answer wact" where
  "ollama_generateText net cfg i =
     bindA (ollama_callChat net cfg i False) (\<lambda>(content, model, usage).
     ret \<lparr>la_output = content, la_model = model, la_provider = ''ollama'', la_usage = Some usage\<rparr>)"

subsection \<open>The mock\<close>

record mock_config =
  mk_jsonResponse :: "json option"
  mk_textResponse :: "string option"
  mk_model :: "string option"

text \<open>The calls the mock remembers: the kind and the input.\<close>

type_synonym mock_calls = "(string \<times> llm_input) list"

definition no_tokens :: token_usage where
  "no_tokens = \<lparr>tk_input = Some 0, tk_output = Some 0, tk_total = Some 0\<rparr>"

definition mock_value :: "mock_config \<Rightarrow> json" where
  "mock_value cfg = (case mk_jsonResponse cfg of None \<Rightarrow> JObj [] | Some JNull \<Rightarrow> JObj [] | Some v \<Rightarrow> v)"

definition mock_generateJson ::
    "mock_config \<Rightarrow> llm_input \<Rightarrow> 'a schema \<Rightarrow> mock_calls \<Rightarrow> (api_error + 'a llm_answer) \<times> mock_calls" where
  "mock_generateJson cfg i schema calls =
     (case schema (mock_value cfg) of
        Inl m \<Rightarrow> (Inl (Plain m), calls @ [(''json'', i)])
      | Inr out \<Rightarrow> (Inr \<lparr>la_output = out, la_model = orElse (mk_model cfg) ''mock-json'',
          la_provider = ''mock'', la_usage = Some no_tokens\<rparr>, calls @ [(''json'', i)]))"

definition mock_generateText ::
    "mock_config \<Rightarrow> llm_input \<Rightarrow> mock_calls \<Rightarrow> (api_error + string llm_answer) \<times> mock_calls" where
  "mock_generateText cfg i calls =
     (Inr \<lparr>la_output = orElse (mk_textResponse cfg) [], la_model = orElse (mk_model cfg) ''mock-text'',
        la_provider = ''mock'', la_usage = Some no_tokens\<rparr>, calls @ [(''text'', i)])"

subsection \<open>The factory\<close>

datatype llm_choice = Deepseek deepseek_config | Ollama ollama_config | Mock mock_config

definition createLlmProvider ::
    "(string \<Rightarrow> rat option) \<Rightarrow> (string \<Rightarrow> string option) \<Rightarrow> api_error + llm_choice" where
  "createLlmProvider number env =
     (let requested = toLowerCase (orElse (env ''LLM_PROVIDER'') []);
          provider = (if requested \<noteq> [] then requested
                      else if truthyS (env ''DEEPSEEK_API_KEY'') then ''deepseek'' else ''mock'')
      in if provider = ''deepseek'' then
           (if \<not> truthyS (env ''DEEPSEEK_API_KEY'')
            then Inr (Mock \<lparr>mk_jsonResponse = None, mk_textResponse = None, mk_model = None\<rparr>)
            else Inr (Deepseek \<lparr>ds_apiKey = the (env ''DEEPSEEK_API_KEY''),
              ds_baseUrl = orElse (env ''DEEPSEEK_BASE_URL'') ''https://api.deepseek.com'',
              ds_defaultModel = orElse (env ''DEEPSEEK_MODEL'') ''deepseek-v4-flash'',
              ds_highQualityModel = Some (orElse (env ''DEEPSEEK_HIGH_QUALITY_MODEL'') ''deepseek-v4-pro''),
              ds_defaultTemperature = number (orElse (env ''DEEPSEEK_TEMPERATURE'') ''0.1''),
              ds_defaultMaxTokens = number (orElse (env ''DEEPSEEK_MAX_TOKENS'') ''8000'')\<rparr>))
         else if provider = ''ollama'' then
           Inr (Ollama \<lparr>ol_baseUrl = orElse (env ''OLLAMA_BASE_URL'') ''http://localhost:11434'',
             ol_defaultModel = orElse (env ''OLLAMA_CHAT_MODEL'') ''qwen2.5:7b-instruct'',
             ol_defaultTemperature = number (orElse (env ''OLLAMA_TEMPERATURE'') ''0.2''),
             ol_defaultMaxTokens = number (orElse (env ''OLLAMA_MAX_TOKENS'') ''8000'')\<rparr>)
         else if provider = ''mock'' then
           Inr (Mock \<lparr>mk_jsonResponse = None, mk_textResponse = None, mk_model = None\<rparr>)
         else Inl (Plain (''Unsupported LLM_PROVIDER: '' @ requested)))"

subsection \<open>What a provider answers\<close>

lemma deepseek_chat:
  "deepseek_callChat net cfg i jsonMode w = (Inr (content, model, usage), w') \<longleftrightarrow>
    (\<exists>res v. net ''POST'' (strip_slash (ds_baseUrl cfg) @ ''/chat/completions'') 
          [(''content-type'', ''application/json''), (''authorization'', ''Bearer '' @ ds_apiKey cfg)]
          (deepseek_body cfg i jsonMode) w = (Inr res, w') \<and> http_ok res \<and> hr_json res = Inr v \<and> v \<noteq> JNull \<and>
        content = or_empty (member_of (member_of (item0 (member_of (Some v) ''choices'')) ''message'') ''content'') \<and> \<not> falsy content \<and>
        model = orElse (li_model i) (ds_defaultModel cfg) \<and> usage = deepseek_usage v)"
  by (auto simp: deepseek_callChat_def act_elims body_json_eq not_null_eq Let_def)

lemma deepseek_json:
  "deepseek_generateJson net parse cfg i schema w = (Inr a, w') \<longleftrightarrow>
    (\<exists>content model usage p. deepseek_callChat net cfg i True w = (Inr (content, model, usage), w') \<and>
       parse content = Inr p \<and> schema p = Inr (la_output a) \<and> la_model a = model \<and>
       la_provider a = ''deepseek'' \<and> la_usage a =  usage)"
proof (cases "deepseek_callChat net cfg i True w")
  case (Pair r w1)
  show ?thesis
  proof (cases r)
    case (Inl e)
    then show ?thesis using Pair by (simp add: deepseek_generateJson_def bindA_def)
  next
    case (Inr t)
    obtain c m u where t: "t = (c, m, u)" by (cases t)
    show ?thesis
      using Pair Inr t
      by (cases a; cases "parse c"; cases "schema (projr (parse c))")
        (auto simp: deepseek_generateJson_def bindA_def ret_def throw_def)
  qed
qed

lemma ollama_chat:
  "ollama_callChat net cfg i jsonMode w = (Inr (content, model, usage), w') \<longleftrightarrow>
    (\<exists>res v. net ''POST'' (strip_slash (ol_baseUrl cfg) @ ''/api/chat'') [(''content-type'', ''application/json'')]
          (ollama_body cfg i jsonMode) w = (Inr res, w') \<and> http_ok res \<and> hr_json res = Inr v \<and> v \<noteq> JNull \<and>
        content = or_empty (member_of (member_of (Some v) ''message'') ''content'') \<and> \<not> falsy content \<and>
        model = orElse (li_model i) (ol_defaultModel cfg) \<and> usage = ollama_usage v)"
  by (auto simp: ollama_callChat_def act_elims body_json_eq not_null_eq Let_def)

lemma ollama_json:
  "ollama_generateJson net parse cfg i schema w = (Inr a, w') \<longleftrightarrow>
    (\<exists>content model usage p. ollama_callChat net cfg i True w = (Inr (content, model, usage), w') \<and>
       parse content = Inr p \<and> schema p = Inr (la_output a) \<and> la_model a = model \<and>
       la_provider a = ''ollama'' \<and> la_usage a = Some usage)"
proof (cases "ollama_callChat net cfg i True w")
  case (Pair r w1)
  show ?thesis
  proof (cases r)
    case (Inl e)
    then show ?thesis using Pair by (simp add: ollama_generateJson_def bindA_def)
  next
    case (Inr t)
    obtain c m u where t: "t = (c, m, u)" by (cases t)
    show ?thesis
      using Pair Inr t
      by (cases a; cases "parse c"; cases "schema (projr (parse c))")
        (auto simp: ollama_generateJson_def bindA_def ret_def throw_def)
  qed
qed

text \<open>
  A structured answer is always the validated one: it comes back exactly when the service took the
  one request that was sent, with a body that parses to an object with content, and the content
  parses to a value the schema accepts; the model named is the one asked for.
\<close>

theorem deepseek_answer_validated:
  "deepseek_generateJson net parse cfg i schema w = (Inr a, w') \<longleftrightarrow>
    (\<exists>res v p. net ''POST'' (strip_slash (ds_baseUrl cfg) @ ''/chat/completions'')
          [(''content-type'', ''application/json''), (''authorization'', ''Bearer '' @ ds_apiKey cfg)]
          (deepseek_body cfg i True) w = (Inr res, w') \<and> http_ok res \<and> hr_json res = Inr v \<and> v \<noteq> JNull \<and>
        \<not> falsy (or_empty (member_of (member_of (item0 (member_of (Some v) ''choices'')) ''message'') ''content'')) \<and>
        parse (or_empty (member_of (member_of (item0 (member_of (Some v) ''choices'')) ''message'') ''content'')) = Inr p \<and>
        schema p = Inr (la_output a) \<and> la_model a = orElse (li_model i) (ds_defaultModel cfg) \<and>
        la_provider a = ''deepseek'' \<and> la_usage a = deepseek_usage v)"
  by (auto simp: deepseek_json deepseek_chat)

theorem ollama_answer_validated:
  "ollama_generateJson net parse cfg i schema w = (Inr a, w') \<longleftrightarrow>
    (\<exists>res v p. net ''POST'' (strip_slash (ol_baseUrl cfg) @ ''/api/chat'')
          [(''content-type'', ''application/json'')] (ollama_body cfg i True) w = (Inr res, w') \<and>
        http_ok res \<and> hr_json res = Inr v \<and> v \<noteq> JNull \<and>
        \<not> falsy (or_empty (member_of (member_of (Some v) ''message'') ''content'')) \<and>
        parse (or_empty (member_of (member_of (Some v) ''message'') ''content'')) = Inr p \<and>
        schema p = Inr (la_output a) \<and> la_model a = orElse (li_model i) (ol_defaultModel cfg) \<and>
        la_provider a = ''ollama'' \<and> la_usage a = Some (ollama_usage v))"
  by (auto simp: ollama_json ollama_chat)

text \<open>
  The factory fails exactly on an unknown name, and it hands out DeepSeek exactly when it is asked
  for, by name or by default, and there is a key: a request without a key gets the mock.
\<close>

theorem createLlmProvider_choice:
  fixes env number
  defines "requested \<equiv> toLowerCase (orElse (env ''LLM_PROVIDER'') [])"
  shows "isl (createLlmProvider number env) \<longleftrightarrow> requested \<notin> {[], ''deepseek'', ''ollama'', ''mock''}"
    and "(\<exists>c. createLlmProvider number env = Inr (Deepseek c)) \<longleftrightarrow>
      requested \<in> {[], ''deepseek''} \<and> truthyS (env ''DEEPSEEK_API_KEY'')"
    and "createLlmProvider number env = Inr (Deepseek c) \<Longrightarrow> env ''DEEPSEEK_API_KEY'' = Some (ds_apiKey c)"
  by (auto simp: createLlmProvider_def requested_def Let_def truthyS_def split: option.splits if_splits)

text \<open>The local providers cost nothing, whatever they report.\<close>

lemma local_providers_free:
  "p = ''ollama'' \<or> p = ''mock'' \<Longrightarrow>
    estimateCost env p model a b None None = (if a = 0 \<and> b = 0 then None else Some 0)"
  by (auto simp: estimateCost_def rateCard_def orElse_def)

end
