(* ===== verification/Drivers.thy ===== *)
theory Drivers
  imports Net Uri Notifications
begin

text \<open>
  The notification drivers (\<^verbatim>\<open>providers/notifications\<close>): console, SMTP, Slack, WhatsApp and ntfy,
  and \<^verbatim>\<open>buildDrivers\<close>, which registers those the environment enables. The network, the mail
  transport and the origin of a URL are parameters. The log lines are left out; the ellipsis of a
  masked address is written as three dots.
\<close>

subsection \<open>The drivers\<close>

text \<open>The console driver keeps what it sent.\<close>

definition console_send :: "message \<Rightarrow> sent list \<Rightarrow> (sent \<times> sent list) wact" where
  "console_send m kept =
     bindA nowA (\<lambda>t.
     let r = \<lparr>st_channel = ''console'', st_to = ms_to m, st_externalId = None, st_sentAt = t\<rparr>
     in ret (r, kept @ [r]))"

definition console_driver :: "sent list \<Rightarrow> driver" where
  "console_driver kept = \<lparr>dv_name = ''console'', dv_channel = ''console'',
     dv_send = (\<lambda>m. bindA (console_send m kept) (\<lambda>r. ret (fst r)))\<rparr>"

record mail =
  ma_from :: string
  ma_to :: string
  ma_subject :: string
  ma_text :: string

record smtp_config =
  sm_host :: string
  sm_port :: "rat option"
  sm_secure :: bool
  sm_user :: "string option"
  sm_pass :: "string option"
  sm_fromAddress :: string
  sm_fromName :: "string option"

text \<open>The transport is created once from the configuration; it answers with the message id.\<close>

record transport_options =
  to_host :: string
  to_port :: "rat option"
  to_secure :: bool
  to_auth :: "(string \<times> string) option"

type_synonym mailer = "transport_options \<Rightarrow> mail \<Rightarrow> string option wact"

definition smtp_transport :: "smtp_config \<Rightarrow> transport_options" where
  "smtp_transport cfg = \<lparr>to_host = sm_host cfg, to_port = sm_port cfg, to_secure = sm_secure cfg,
     to_auth = (if truthyS (sm_user cfg) \<and> truthyS (sm_pass cfg)
                then Some (the (sm_user cfg), the (sm_pass cfg)) else None)\<rparr>"

definition smtp_from :: "smtp_config \<Rightarrow> string" where
  "smtp_from cfg =
     (if truthyS (sm_fromName cfg)
      then [CHR 0x22] @ the (sm_fromName cfg) @ [CHR 0x22] @ '' <'' @ sm_fromAddress cfg @ ''>''
      else sm_fromAddress cfg)"

definition smtp_send :: "mailer \<Rightarrow> smtp_config \<Rightarrow> message \<Rightarrow> sent wact" where
  "smtp_send mailer cfg m =
     bindA (mailer (smtp_transport cfg) \<lparr>ma_from = smtp_from cfg, ma_to = ms_to m,
       ma_subject = orElse (ms_subject m) ''(no subject)'', ma_text = ms_body m\<rparr>) (\<lambda>i.
     bindA nowA (\<lambda>t.
     ret \<lparr>st_channel = ''email'', st_to = ms_to m, st_externalId = i, st_sentAt = t\<rparr>))"

definition smtp_driver :: "mailer \<Rightarrow> smtp_config \<Rightarrow> driver" where
  "smtp_driver mailer cfg = \<lparr>dv_name = ''smtp'', dv_channel = ''email'', dv_send = smtp_send mailer cfg\<rparr>"

definition http_failed :: "string \<Rightarrow> http_response \<Rightarrow> unit wact" where
  "http_failed who res = throwIf (\<not> http_ok res)
     (Plain (who @ '' HTTP '' @ show_int (hr_status res) @ '': '' @ take 200 (orElse (hr_text res) [])))"

text \<open>The secret part of a webhook address never leaves the driver.\<close>

definition maskWebhook :: "(string \<Rightarrow> string option) \<Rightarrow> string \<Rightarrow> string" where
  "maskWebhook origin url =
     (case origin url of Some u \<Rightarrow> u @ ''/...'' | None \<Rightarrow> ''slack:webhook'')"

definition slack_url :: "string option \<Rightarrow> message \<Rightarrow> string option" where
  "slack_url dflt m =
     (if ms_to m \<noteq> [] \<and> starts_with (ms_to m) ''https://'' then Some (ms_to m) else dflt)"

definition slack_body :: "message \<Rightarrow> json" where
  "slack_body m = JObj
     ([(''text'', JStr (if truthyS (ms_subject m)
          then ''*'' @ the (ms_subject m) @ ''*'' @ [CHR 0x0A] @ ms_body m else ms_body m))] @
      (case member_of (ms_payload m) ''blocks'' of
         None \<Rightarrow> [] | Some b \<Rightarrow> if falsy b then [] else [(''blocks'', b)]))"

definition slack_send :: "net \<Rightarrow> (string \<Rightarrow> string option) \<Rightarrow> string option \<Rightarrow> message \<Rightarrow> sent wact" where
  "slack_send net origin dflt m =
     bindA (throwIf (\<not> truthyS (slack_url dflt m))
       (Plain ''slack: no webhook url (set NOTIFICATION_SLACK_WEBHOOK_URL or pass message.to)'')) (\<lambda>_.
     let url = the (slack_url dflt m) in
     bindA (net ''POST'' url [(''content-type'', ''application/json'')] (slack_body m)) (\<lambda>res.
     bindA (http_failed ''slack webhook'' res) (\<lambda>_.
     bindA nowA (\<lambda>t.
     ret \<lparr>st_channel = ''slack'', st_to = maskWebhook origin url, st_externalId = None, st_sentAt = t\<rparr>))))"

definition slack_driver :: "net \<Rightarrow> (string \<Rightarrow> string option) \<Rightarrow> string option \<Rightarrow> driver" where
  "slack_driver net origin dflt =
     \<lparr>dv_name = ''slack'', dv_channel = ''slack'', dv_send = slack_send net origin dflt\<rparr>"

record whatsapp_config =
  wa_phoneNumberId :: string
  wa_accessToken :: string
  wa_apiHost :: "string option"
  wa_apiVersion :: "string option"

definition whatsapp_body :: "message \<Rightarrow> json" where
  "whatsapp_body m =
     (case member_of (ms_payload m) ''template'' of
        Some t \<Rightarrow>
          if falsy t
          then JObj [(''messaging_product'', JStr ''whatsapp''), (''to'', JStr (ms_to m)), (''type'', JStr ''text''),
            (''text'', JObj [(''body'', JStr (ms_body m)), (''preview_url'', JBool False)])]
          else JObj [(''messaging_product'', JStr ''whatsapp''), (''to'', JStr (ms_to m)),
            (''type'', JStr ''template''), (''template'', t)]
      | None \<Rightarrow> JObj [(''messaging_product'', JStr ''whatsapp''), (''to'', JStr (ms_to m)), (''type'', JStr ''text''),
            (''text'', JObj [(''body'', JStr (ms_body m)), (''preview_url'', JBool False)])])"

definition text_of :: "json option \<Rightarrow> string option" where
  "text_of v = (case v of Some (JStr s) \<Rightarrow> Some s | _ \<Rightarrow> None)"

definition whatsapp_send :: "net \<Rightarrow> whatsapp_config \<Rightarrow> message \<Rightarrow> sent wact" where
  "whatsapp_send net cfg m =
     bindA (net ''POST''
       (''https://'' @ orElse (wa_apiHost cfg) ''graph.facebook.com'' @ ''/'' @ orElse (wa_apiVersion cfg) ''v18.0'' @
        ''/'' @ wa_phoneNumberId cfg @ ''/messages'')
       [(''content-type'', ''application/json''), (''authorization'', ''Bearer '' @ wa_accessToken cfg)]
       (whatsapp_body m)) (\<lambda>res.
     bindA (http_failed ''whatsapp'' res) (\<lambda>_.
     let v = (case hr_json res of Inl _ \<Rightarrow> JObj [] | Inr v \<Rightarrow> v) in
     bindA (not_null ''messages'' v) (\<lambda>_.
     bindA nowA (\<lambda>t.
     ret \<lparr>st_channel = ''whatsapp'', st_to = ms_to m,
       st_externalId = text_of (member_of (item0 (member_of (Some v) ''messages'')) ''id''), st_sentAt = t\<rparr>))))"

definition whatsapp_driver :: "net \<Rightarrow> whatsapp_config \<Rightarrow> driver" where
  "whatsapp_driver net cfg =
     \<lparr>dv_name = ''whatsapp'', dv_channel = ''whatsapp'', dv_send = whatsapp_send net cfg\<rparr>"

record ntfy_config =
  nt_baseUrl :: string
  nt_defaultTopic :: "string option"
  nt_bearerToken :: "string option"

definition tag_texts :: "json option \<Rightarrow> string list" where
  "tag_texts v = (case v of
     Some (JArr xs) \<Rightarrow> map (\<lambda>x. case x of JStr s \<Rightarrow> s | _ \<Rightarrow> []) xs | _ \<Rightarrow> [])"

definition ntfy_headers :: "ntfy_config \<Rightarrow> message \<Rightarrow> (string \<times> string) list" where
  "ntfy_headers cfg m =
     [(''content-type'', ''text/plain; charset=utf-8'')] @
     (if truthyS (ms_subject m) then [(''Title'', the (ms_subject m))] else []) @
     (if truthyS (nt_bearerToken cfg) then [(''Authorization'', ''Bearer '' @ the (nt_bearerToken cfg))] else []) @
     (let p = text_of (member_of (ms_payload m) ''priority'') in
      if truthyS p then [(''Priority'', the p)] else []) @
     (let ts = tag_texts (member_of (ms_payload m) ''tags'') in
      if ts \<noteq> [] then [(''Tags'', join '','' ts)] else [])"

definition ntfy_topic :: "ntfy_config \<Rightarrow> message \<Rightarrow> string option" where
  "ntfy_topic cfg m = (if ms_to m \<noteq> [] then Some (ms_to m) else nt_defaultTopic cfg)"

definition ntfy_send :: "net \<Rightarrow> ntfy_config \<Rightarrow> message \<Rightarrow> sent wact" where
  "ntfy_send net cfg m =
     bindA (throwIf (\<not> truthyS (ntfy_topic cfg m))
       (Plain ''ntfy: no topic (set NOTIFICATION_NTFY_DEFAULT_TOPIC or pass message.to)'')) (\<lambda>_.
     let topic = the (ntfy_topic cfg m) in
     bindA (net ''POST'' (strip_slash (nt_baseUrl cfg) @ ''/'' @ encodeURIComponent topic)
       (ntfy_headers cfg m) (JStr (ms_body m))) (\<lambda>res.
     bindA (http_failed ''ntfy'' res) (\<lambda>_.
     bindA nowA (\<lambda>t.
     ret \<lparr>st_channel = ''ntfy'', st_to = topic, st_externalId = None, st_sentAt = t\<rparr>))))"

definition ntfy_driver :: "net \<Rightarrow> ntfy_config \<Rightarrow> driver" where
  "ntfy_driver net cfg = \<lparr>dv_name = ''ntfy'', dv_channel = ''ntfy'', dv_send = ntfy_send net cfg\<rparr>"

subsection \<open>Which drivers run\<close>

record driver_services =
  dr_net :: net
  dr_mailer :: mailer
  dr_origin :: "string \<Rightarrow> string option"
  dr_number :: "string \<Rightarrow> rat option"

definition smtp_enabled :: "(string \<Rightarrow> string option) \<Rightarrow> bool" where
  "smtp_enabled env \<longleftrightarrow> env ''NOTIFICATION_SMTP_ENABLED'' = Some ''true'' \<and> truthyS (env ''NOTIFICATION_SMTP_HOST'')"

definition slack_enabled :: "(string \<Rightarrow> string option) \<Rightarrow> bool" where
  "slack_enabled env \<longleftrightarrow>
     env ''NOTIFICATION_SLACK_ENABLED'' = Some ''true'' \<and> truthyS (env ''NOTIFICATION_SLACK_WEBHOOK_URL'')"

definition whatsapp_enabled :: "(string \<Rightarrow> string option) \<Rightarrow> bool" where
  "whatsapp_enabled env \<longleftrightarrow>
     env ''NOTIFICATION_WHATSAPP_ENABLED'' = Some ''true'' \<and>
     truthyS (env ''NOTIFICATION_WHATSAPP_PHONE_NUMBER_ID'') \<and> truthyS (env ''NOTIFICATION_WHATSAPP_ACCESS_TOKEN'')"

definition ntfy_enabled :: "(string \<Rightarrow> string option) \<Rightarrow> bool" where
  "ntfy_enabled env \<longleftrightarrow>
     env ''NOTIFICATION_NTFY_ENABLED'' = Some ''true'' \<and> truthyS (env ''NOTIFICATION_NTFY_BASE_URL'')"

definition buildDrivers :: "driver_services \<Rightarrow> (string \<Rightarrow> string option) \<Rightarrow> driver list" where
  "buildDrivers ds env =
     [console_driver []] @
     (if smtp_enabled env then [smtp_driver (dr_mailer ds)
        \<lparr>sm_host = the (env ''NOTIFICATION_SMTP_HOST''),
         sm_port = dr_number ds (orElse (env ''NOTIFICATION_SMTP_PORT'') ''587''),
         sm_secure = (env ''NOTIFICATION_SMTP_SECURE'' = Some ''true''),
         sm_user = env ''NOTIFICATION_SMTP_USER'', sm_pass = env ''NOTIFICATION_SMTP_PASS'',
         sm_fromAddress = orElse (env ''NOTIFICATION_SMTP_FROM_ADDRESS'') ''noreply@localhost'',
         sm_fromName = env ''NOTIFICATION_SMTP_FROM_NAME''\<rparr>] else []) @
     (if slack_enabled env then
        [slack_driver (dr_net ds) (dr_origin ds) (env ''NOTIFICATION_SLACK_WEBHOOK_URL'')] else []) @
     (if whatsapp_enabled env then [whatsapp_driver (dr_net ds)
        \<lparr>wa_phoneNumberId = the (env ''NOTIFICATION_WHATSAPP_PHONE_NUMBER_ID''),
         wa_accessToken = the (env ''NOTIFICATION_WHATSAPP_ACCESS_TOKEN''),
         wa_apiHost = env ''NOTIFICATION_WHATSAPP_API_HOST'',
         wa_apiVersion = env ''NOTIFICATION_WHATSAPP_API_VERSION''\<rparr>] else []) @
     (if ntfy_enabled env then [ntfy_driver (dr_net ds)
        \<lparr>nt_baseUrl = the (env ''NOTIFICATION_NTFY_BASE_URL''),
         nt_defaultTopic = env ''NOTIFICATION_NTFY_DEFAULT_TOPIC'',
         nt_bearerToken = env ''NOTIFICATION_NTFY_BEARER_TOKEN''\<rparr>] else [])"

subsection \<open>What the dispatcher gets from them\<close>

lemma http_failed_eq: "http_failed who res w = (Inr u, w') \<longleftrightarrow> http_ok res \<and> w' = w"
  by (auto simp: http_failed_def throwIf_eq_Inr)

lemma console_sends:
  "dv_send (console_driver kept) m w = (Inr s, w') \<Longrightarrow> st_channel s = ''console'' \<and> st_to s = ms_to m"
  by (auto simp: console_driver_def console_send_def bindA_eq_Inr Let_def)

lemma smtp_sends:
  "dv_send (smtp_driver mailer cfg) m w = (Inr s, w') \<Longrightarrow> st_channel s = ''email'' \<and> st_to s = ms_to m"
  by (auto simp: smtp_driver_def smtp_send_def bindA_eq_Inr)

lemma slack_sends:
  "dv_send (slack_driver net origin dflt) m w = (Inr s, w') \<Longrightarrow>
    st_channel s = ''slack'' \<and> (\<exists>u. slack_url dflt m = Some u \<and> u \<noteq> [] \<and> st_to s = maskWebhook origin u)"
  by (auto simp: slack_driver_def slack_send_def bindA_eq_Inr throwIf_eq_Inr truthyS_def Let_def split: option.splits)

lemma whatsapp_sends:
  "dv_send (whatsapp_driver net cfg) m w = (Inr s, w') \<Longrightarrow> st_channel s = ''whatsapp'' \<and> st_to s = ms_to m"
  by (auto simp: whatsapp_driver_def whatsapp_send_def bindA_eq_Inr Let_def)

lemma ntfy_sends:
  "dv_send (ntfy_driver net cfg) m w = (Inr s, w') \<Longrightarrow>
    st_channel s = ''ntfy'' \<and> ntfy_topic cfg m = Some (st_to s) \<and> st_to s \<noteq> []"
  by (auto simp: ntfy_driver_def ntfy_send_def bindA_eq_Inr throwIf_eq_Inr truthyS_def Let_def split: option.splits)

text \<open>What the dispatcher relies on: a driver answers on the channel it is registered for.\<close>

locale channel_driver =
  fixes d :: driver and ch :: string
  assumes channel: "dv_channel d = ch"
    and speaks: "dv_send d m w = (Inr s, w') \<Longrightarrow> st_channel s = ch"
begin

text \<open>The last driver of a channel gets its messages.\<close>

lemma takes_over: "dispatch_send (ds @ [d]) ch m = dv_send d m"
  by (simp add: dispatch_send_def byChannel_map_of channel)

lemma answers_on_channel:
  "dispatch_send (ds @ [d]) ch m w = (Inr s, w') \<Longrightarrow> st_channel s = ch"
  using speaks by (simp add: takes_over)

lemma leaves_others: "ch' \<noteq> ch \<Longrightarrow>
    map_of (byChannel (ds @ [d])) ch' = map_of (byChannel ds) ch'"
  by (simp add: byChannel_map_of channel)

end

interpretation console_channel: channel_driver "console_driver kept" "''console''" for kept
  by unfold_locales (simp add: console_driver_def, simp add: console_sends)

interpretation smtp_channel: channel_driver "smtp_driver mailer cfg" "''email''" for mailer cfg
  by unfold_locales (simp add: smtp_driver_def, simp add: smtp_sends)

interpretation slack_channel: channel_driver "slack_driver net origin dflt" "''slack''" for net origin dflt
  by unfold_locales (simp add: slack_driver_def, simp add: slack_sends)

interpretation whatsapp_channel: channel_driver "whatsapp_driver net cfg" "''whatsapp''" for net cfg
  by unfold_locales (simp add: whatsapp_driver_def, simp add: whatsapp_sends)

interpretation ntfy_channel: channel_driver "ntfy_driver net cfg" "''ntfy''" for net cfg
  by unfold_locales (simp add: ntfy_driver_def, simp add: ntfy_sends)

lemmas channels = console_channel.channel smtp_channel.channel slack_channel.channel
  whatsapp_channel.channel ntfy_channel.channel

lemma built_drivers_speak:
  assumes "d \<in> set (buildDrivers ds env)" and "dv_send d m w = (Inr s, w')"
  shows "st_channel s = dv_channel d"
  using assms
  by (auto simp: buildDrivers_def channels split: if_splits
      dest: console_channel.speaks smtp_channel.speaks slack_channel.speaks whatsapp_channel.speaks ntfy_channel.speaks)

lemma built_channels:
  "map dv_channel (buildDrivers ds env) =
     [''console''] @ (if smtp_enabled env then [''email''] else []) @ (if slack_enabled env then [''slack''] else []) @
     (if whatsapp_enabled env then [''whatsapp''] else []) @ (if ntfy_enabled env then [''ntfy''] else [])"
  by (simp add: buildDrivers_def channels)

text \<open>
  A notification goes out on the channel it was sent to, and only on a channel the environment
  enables: whenever the dispatcher over the built drivers answers, the answer names the requested
  channel, and its driver was switched on with everything it needs.
\<close>

theorem dispatched_on_channel:
  assumes "dispatch_send (buildDrivers ds env) ch m w = (Inr s, w')"
  shows "st_channel s = ch" and
    "ch = ''console'' \<or> (ch = ''email'' \<and> smtp_enabled env) \<or> (ch = ''slack'' \<and> slack_enabled env) \<or>
     (ch = ''whatsapp'' \<and> whatsapp_enabled env) \<or> (ch = ''ntfy'' \<and> ntfy_enabled env)"
proof -
  obtain d where d: "map_of (byChannel (buildDrivers ds env)) ch = Some d" "dv_send d m w = (Inr s, w')"
    using assms by (auto simp: dispatch_send_def throw_def split: option.splits)
  then have mem: "d \<in> set (buildDrivers ds env)" "dv_channel d = ch"
    by (auto simp: byChannel_map_of split: list.splits dest!: arg_cong [of "filter _ _" _ set])
  then show "st_channel s = ch"
    using built_drivers_speak [OF mem(1) d(2)] by simp
  have "ch \<in> set (map dv_channel (buildDrivers ds env))"
    using mem by auto
  then show "ch = ''console'' \<or> (ch = ''email'' \<and> smtp_enabled env) \<or> (ch = ''slack'' \<and> slack_enabled env) \<or>
     (ch = ''whatsapp'' \<and> whatsapp_enabled env) \<or> (ch = ''ntfy'' \<and> ntfy_enabled env)"
    unfolding built_channels by (simp split: if_splits)
qed

text \<open>
  A Slack message never gives its webhook away: what the driver reports (and what ends up in logs
  and audit rows) depends on the address only through its origin.
\<close>

theorem slack_webhook_masked:
  assumes "slack_send net origin (Some u) m w = (Inr s, w')" and "\<not> starts_with (ms_to m) ''https://''"
  shows "st_to s = (case origin u of Some x \<Rightarrow> x @ ''/...'' | None \<Rightarrow> ''slack:webhook'')"
  using slack_sends [of net origin "Some u" m w s w'] assms
  by (auto simp: slack_driver_def slack_url_def maskWebhook_def split: if_splits)

end
