(* ===== verification/Platform.thy ===== *)
theory Platform
  imports Job_Queue Documents
begin

text \<open>
  The other services behind the API: the object store (\<^verbatim>\<open>providers/object-storage\<close>, over the client
  of MinIO) and the queue over Redis (\<^verbatim>\<open>providers/queue/bullmq.queue.provider.ts\<close>), with the factory
  that picks a queue. Both clients are parameters; the log lines are left out.
\<close>

subsection \<open>The object store\<close>

record minio_config =
  mo_endPoint :: string
  mo_port :: "rat option"
  mo_useSSL :: bool
  mo_accessKey :: string
  mo_secretKey :: string
  mo_region :: string

text \<open>What the client of the store offers, for a configuration.\<close>

record minio_client =
  mc_bucketExists :: "minio_config \<Rightarrow> string \<Rightarrow> bool wact"
  mc_makeBucket :: "minio_config \<Rightarrow> string \<Rightarrow> unit wact"
  mc_putObject :: "minio_config \<Rightarrow> string \<Rightarrow> string \<Rightarrow> string \<Rightarrow> nat \<Rightarrow> (string \<times> string) list \<Rightarrow> unit wact"
  mc_presignedGetObject :: "minio_config \<Rightarrow> string \<Rightarrow> string \<Rightarrow> int \<Rightarrow> string wact"

record minio_store =
  mi_bucket :: string
  mi_internal :: minio_config
  mi_public :: minio_config

definition minio_new :: "(string \<Rightarrow> rat option) \<Rightarrow> (string \<Rightarrow> string option) \<Rightarrow> minio_store" where
  "minio_new number env =
     (let internal = \<lparr>mo_endPoint = orElse (env ''OBJECT_STORE_ENDPOINT'') ''localhost'',
            mo_port = (case env ''OBJECT_STORE_PORT'' of None \<Rightarrow> Some 9000 | Some p \<Rightarrow> number p),
            mo_useSSL = (orElse (env ''OBJECT_STORE_USE_SSL'') ''false'' = ''true''),
            mo_accessKey = orElse (env ''OBJECT_STORE_ACCESS_KEY'') ''bidready_minio'',
            mo_secretKey = orElse (env ''OBJECT_STORE_SECRET_KEY'') ''bidready_minio_dev_pw'',
            mo_region = orElse (env ''OBJECT_STORE_REGION'') ''me-central-1''\<rparr>
      in \<lparr>mi_bucket = orElse (env ''OBJECT_STORE_BUCKET'') ''bidready-documents'', mi_internal = internal,
          mi_public = (if truthyS (env ''OBJECT_STORE_PUBLIC_HOST'')
                       then internal\<lparr>mo_endPoint := the (env ''OBJECT_STORE_PUBLIC_HOST'')\<rparr> else internal)\<rparr>)"

definition minio_onModuleInit :: "minio_client \<Rightarrow> minio_store \<Rightarrow> unit wact" where
  "minio_onModuleInit c s =
     tryA (bindA (mc_bucketExists c (mi_internal s) (mi_bucket s)) (\<lambda>there.
       if \<not> there then mc_makeBucket c (mi_internal s) (mi_bucket s) else ret ())) (\<lambda>_. ret ())"

definition minio_putObject :: "minio_client \<Rightarrow> minio_store \<Rightarrow> string \<Rightarrow> string \<Rightarrow> string \<Rightarrow> unit wact" where
  "minio_putObject c s key body contentType =
     mc_putObject c (mi_internal s) (mi_bucket s) key body (length body) [(''Content-Type'', contentType)]"

definition minio_presignedGetUrl :: "minio_client \<Rightarrow> minio_store \<Rightarrow> string \<Rightarrow> int option \<Rightarrow> string wact" where
  "minio_presignedGetUrl c s key expires =
     mc_presignedGetObject c (mi_public s) (mi_bucket s) key (orElse expires 600)"

text \<open>Starting without a reachable store does not fail.\<close>

lemma minio_init_never_fails: "\<exists>w'. minio_onModuleInit c s w = (Inr (), w')"
proof (cases "bindA (mc_bucketExists c (mi_internal s) (mi_bucket s)) (\<lambda>there.
       if \<not> there then mc_makeBucket c (mi_internal s) (mi_bucket s) else ret ()) w")
  case (Pair r w')
  then show ?thesis by (cases r) (simp_all add: minio_onModuleInit_def tryA_def)
qed

text \<open>What is written and what is signed are the same bucket; only the host may differ.\<close>

lemma minio_one_bucket:
  "mi_public (minio_new number env) =
     (mi_internal (minio_new number env))\<lparr>mo_endPoint := mo_endPoint (mi_public (minio_new number env))\<rparr>"
  by (simp add: minio_new_def Let_def)

subsection \<open>The queue over Redis\<close>

record bull_options =
  bo_delay :: "int option"
  bo_attempts :: int
  bo_backoff :: "(string \<times> int) option"
  bo_jobId :: "string option"
  bo_removeOnComplete :: "int \<times> int"
  bo_removeOnFail :: "int \<times> int"

record bull_config =
  bc_redisUrl :: string
  bc_prefix :: "string option"

text \<open>A job as the library hands it to a worker.\<close>

record bull_job =
  bj_id :: json
  bj_name :: string
  bj_data :: json
  bj_attemptsMade :: int
  bj_timestamp :: time

text \<open>What the library is told: a queue opened, a job added, a worker started, something closed.\<close>

datatype bull_call =
    OpenQueue string "string option"
  | AddJob string string json bull_options
  | StartWorker string int "string option"
  | CloseWorker string | CloseQueue string | QuitConnection

record bull_state =
  bl_queues :: "string list"
  bl_workers :: "string list"
  bl_calls :: "bull_call list"

definition bull_options_of :: "enqueue_opts \<Rightarrow> bull_options" where
  "bull_options_of o' = \<lparr>bo_delay = eo_delayMs o', bo_attempts = orElse (eo_maxAttempts o') 1,
     bo_backoff = map_option (\<lambda>d. (''fixed'', d)) (eo_backoffMs o'), bo_jobId = eo_dedupeKey o',
     bo_removeOnComplete = (3600, 1000), bo_removeOnFail = (24 * 3600, 5000)\<rparr>"

definition bull_queue :: "bull_config \<Rightarrow> string \<Rightarrow> bull_state \<Rightarrow> bull_state" where
  "bull_queue cfg name st =
     (if name \<in> set (bl_queues st) then st
      else st\<lparr>bl_queues := bl_queues st @ [name], bl_calls := bl_calls st @ [OpenQueue name (bc_prefix cfg)]\<rparr>)"

text \<open>The id the library gives the job is an argument; \<open>text\<close> is \<^verbatim>\<open>String(...)\<close>.\<close>

definition bull_enqueue ::
    "bull_config \<Rightarrow> (json \<Rightarrow> string) \<Rightarrow> json \<Rightarrow> string \<Rightarrow> string \<Rightarrow> json \<Rightarrow> enqueue_opts \<Rightarrow> bull_state \<Rightarrow>
     string \<times> bull_state" where
  "bull_enqueue cfg to_text i q jobName payload opts st =
     (let st1 = bull_queue cfg q st
      in (to_text i, st1\<lparr>bl_calls := bl_calls st1 @ [AddJob q jobName payload (bull_options_of opts)]\<rparr>))"

definition bull_handler :: "(json \<Rightarrow> string) \<Rightarrow> (queue_job \<Rightarrow> bool) \<Rightarrow> bull_job \<Rightarrow> bool" where
  "bull_handler to_text h j =
     h \<lparr>qj_id = to_text (bj_id j), qj_name = bj_name j, qj_payload = bj_data j,
       qj_attemptsMade = bj_attemptsMade j, qj_enqueuedAt = bj_timestamp j\<rparr>"

definition bull_process :: "bull_config \<Rightarrow> string \<Rightarrow> int option \<Rightarrow> bull_state \<Rightarrow> bull_state" where
  "bull_process cfg q concurrency st =
     st\<lparr>bl_workers := bl_workers st @ [q],
        bl_calls := bl_calls st @ [StartWorker q (orElse concurrency 1) (bc_prefix cfg)]\<rparr>"

definition bull_close :: "bull_state \<Rightarrow> bull_state" where
  "bull_close st = st\<lparr>bl_calls := bl_calls st @ map CloseWorker (bl_workers st) @
     map CloseQueue (bl_queues st) @ [QuitConnection]\<rparr>"

datatype queue_choice = Memory | Bull bull_config

definition createQueueProvider :: "(string \<Rightarrow> string option) \<Rightarrow> api_error + queue_choice" where
  "createQueueProvider env =
     (let provider = toLowerCase (orElse (env ''QUEUE_PROVIDER'') ''memory'') in
      if provider = ''memory'' then Inr Memory
      else if provider = ''bullmq'' then
        Inr (Bull \<lparr>bc_redisUrl = (case env ''REDIS_URL'' of Some u \<Rightarrow> u
            | None \<Rightarrow> ''redis://'' @ orElse (env ''REDIS_HOST'') ''localhost'' @ '':'' @ orElse (env ''REDIS_PORT'') ''6379''),
          bc_prefix = Some (orElse (env ''BULLMQ_PREFIX'') ''bidready'')\<rparr>)
      else Inl (Plain (''Unsupported QUEUE_PROVIDER: '' @ provider)))"

text \<open>A queue is opened once, and closing closes every queue and worker that was opened.\<close>

inductive bull_reachable :: "bull_config \<Rightarrow> bull_state \<Rightarrow> bool" for cfg where
  "bull_reachable cfg \<lparr>bl_queues = [], bl_workers = [], bl_calls = []\<rparr>"
| "bull_reachable cfg st \<Longrightarrow> bull_reachable cfg (snd (bull_enqueue cfg to_text i q jobName payload opts st))"
| "bull_reachable cfg st \<Longrightarrow> bull_reachable cfg (bull_process cfg q c st)"

definition opened :: "bull_state \<Rightarrow> string list" where
  "opened st = concat (map (\<lambda>c. case c of OpenQueue q _ \<Rightarrow> [q] | _ \<Rightarrow> []) (bl_calls st))"

theorem bull_queues_opened_once:
  assumes "bull_reachable cfg st"
  shows "opened st = bl_queues st \<and> distinct (opened st)"
  using assms
  by (induction rule: bull_reachable.induct)
    (auto simp: opened_def bull_enqueue_def bull_queue_def bull_process_def Let_def)

lemma bull_close_closes_all:
  assumes "bull_reachable cfg st" and "q \<in> set (opened st)"
  shows "CloseQueue q \<in> set (bl_calls (bull_close st))"
  using bull_queues_opened_once [OF assms(1)] assms(2) by (auto simp: bull_close_def)

end
