(* ===== verification/Html.thy ===== *)
theory Html
  imports Web_Pages
begin

text \<open>
  What the components of the web application render, and how a user works with them. A rendered
  tree is a \<open>node\<close>: a text or an element with its attributes and children, where the handlers
  are the events they dispatch. Texts are lists of UTF-16 code units, since most of them are Arabic;
  \<open>asc\<close> is the text of a string of the model. \<open>offers\<close> says which events a tree lets the user
  cause: nothing from a disabled control, a form by one of its enabled submit buttons, an option
  that is listed, no more characters than \<^verbatim>\<open>maxLength\<close>. \<open>Asked\<close> is a click that is followed by
  the answer to \<^verbatim>\<open>window.confirm\<close>. The checks a browser makes of
  \<^verbatim>\<open>required\<close> and of the input types are left out: more events are offered, never fewer.
\<close>

subsection \<open>Texts and trees\<close>

type_synonym utext = "nat list"

definition asc :: "string \<Rightarrow> utext" where
  "asc s = map of_char s"

lemma asc_simps [simp]: "asc [] = []" "asc (a @ b) = asc a @ asc b" "asc s = [] \<longleftrightarrow> s = []"
  by (simp_all add: asc_def)

lemma asc_inj [simp]: "asc a = asc b \<longleftrightarrow> a = b"
  by (simp add: asc_def inj_map_eq_map inj_def)

record web_file =
  wf_name :: string
  wf_size :: nat
  wf_content :: string

datatype (plugins del: quickcheck_random quickcheck_exhaustive quickcheck_full_exhaustive quickcheck_narrowing) 'e attr =
    Val utext
  | On_off bool
  | Num int
  | Click 'e
  | Submit 'e
  | Typed "string \<Rightarrow> 'e"
  | Checked "bool \<Rightarrow> 'e"
  | Asked "bool \<Rightarrow> 'e"
  | Picked "web_file option \<Rightarrow> 'e"

text \<open>\<open>Broken\<close> is a value that React refuses to render.\<close>

datatype (plugins del: quickcheck_random quickcheck_exhaustive quickcheck_full_exhaustive quickcheck_narrowing) 'e node =
    Tx utext
  | El string "(string \<times> 'e attr) list" "'e node list"
  | Broken

definition str :: "string \<Rightarrow> string \<Rightarrow> string \<times> 'e attr" where
  "str k v = (k, Val (asc v))"

definition cls :: "string \<Rightarrow> string \<times> 'e attr" where
  "cls v = str ''className'' v"

definition tx :: "string \<Rightarrow> 'e node" where
  "tx s = Tx (asc s)"

text \<open>A tree without its handlers' events, as the server sends it inside a page.\<close>

definition static :: "'e node list \<Rightarrow> unit node list" where
  "static ns = map (map_node (\<lambda>_. ())) ns"

subsection \<open>What a user can do\<close>

definition off :: "(string \<times> 'e attr) list \<Rightarrow> bool" where
  "off as \<longleftrightarrow> map_of as ''disabled'' = Some (On_off True)"

text \<open>The submit buttons below a node, each with whether it is disabled.\<close>

primrec submits :: "'e node \<Rightarrow> bool list"
  and submits_list :: "'e node list \<Rightarrow> bool list" where
  "submits (Tx _) = []"
| "submits (El tag as cs) =
     (if tag = ''button'' \<and> map_of as ''type'' = Some (Val (asc ''submit'')) then [off as] else []) @ submits_list cs"
| "submits Broken = []"
| "submits_list [] = []"
| "submits_list (n # ns) = submits n @ submits_list ns"

definition option_values :: "'e node list \<Rightarrow> utext list" where
  "option_values cs = concat (map (\<lambda>c. case c of
     El tag as _ \<Rightarrow> (case map_of as ''value'' of Some (Val v) \<Rightarrow> if off as then [] else [v] | _ \<Rightarrow> [])
   | _ \<Rightarrow> []) cs)"

definition typeable :: "string \<Rightarrow> (string \<times> 'e attr) list \<Rightarrow> 'e node list \<Rightarrow> string \<Rightarrow> bool" where
  "typeable tag as cs v \<longleftrightarrow>
     (if tag = ''select'' then asc v \<in> set (option_values cs)
      else (case map_of as ''maxLength'' of Some (Num n) \<Rightarrow> int (length v) \<le> n | _ \<Rightarrow> True))"

definition causes :: "string \<Rightarrow> (string \<times> 'e attr) list \<Rightarrow> 'e node list \<Rightarrow> 'e attr \<Rightarrow> 'e \<Rightarrow> bool" where
  "causes tag as cs h e =
     (case h of
        Click x \<Rightarrow> \<not> off as \<and> e = x
      | Submit x \<Rightarrow> e = x \<and> (submits_list cs = [] \<or> False \<in> set (submits_list cs))
      | Typed f \<Rightarrow> \<not> off as \<and> (\<exists>v. typeable tag as cs v \<and> e = f v)
      | Checked f \<Rightarrow> \<not> off as \<and> (\<exists>b. e = f b)
      | Asked f \<Rightarrow> \<not> off as \<and> (\<exists>b. e = f b)
      | Picked f \<Rightarrow> \<not> off as \<and> (\<exists>x. e = f x)
      | _ \<Rightarrow> False)"

primrec offers :: "'e node \<Rightarrow> 'e \<Rightarrow> bool"
  and offers_list :: "'e node list \<Rightarrow> 'e \<Rightarrow> bool" where
  "offers (Tx _) e \<longleftrightarrow> False"
| "offers (El tag as cs) e \<longleftrightarrow> (\<exists>p \<in> set as. causes tag as cs (snd p) e) \<or> offers_list cs e"
| "offers Broken e \<longleftrightarrow> False"
| "offers_list [] e \<longleftrightarrow> False"
| "offers_list (n # ns) e \<longleftrightarrow> offers n e \<or> offers_list ns e"

lemma causes_simps [simp]:
  "causes tag as cs (Val v) e \<longleftrightarrow> False"
  "causes tag as cs (On_off b) e \<longleftrightarrow> False"
  "causes tag as cs (Num n) e \<longleftrightarrow> False"
  "causes tag as cs (Click x) e \<longleftrightarrow> \<not> off as \<and> e = x"
  "causes tag as cs (Submit x) e \<longleftrightarrow> e = x \<and> (submits_list cs = [] \<or> False \<in> set (submits_list cs))"
  "causes tag as cs (Typed f) e \<longleftrightarrow> \<not> off as \<and> (\<exists>v. typeable tag as cs v \<and> e = f v)"
  "causes tag as cs (Checked g) e \<longleftrightarrow> \<not> off as \<and> (\<exists>b. e = g b)"
  "causes tag as cs (Asked g) e \<longleftrightarrow> \<not> off as \<and> (\<exists>b. e = g b)"
  "causes tag as cs (Picked h) e \<longleftrightarrow> \<not> off as \<and> (\<exists>y. e = h y)"
  by (simp_all add: causes_def)

lemma offers_list_append [simp]: "offers_list (a @ b) e \<longleftrightarrow> offers_list a e \<or> offers_list b e"
  by (induction a) simp_all

lemma submits_list_append [simp]: "submits_list (a @ b) = submits_list a @ submits_list b"
  by (induction a) simp_all

lemma offers_list_map [simp]:
  "offers_list (map f xs) e \<longleftrightarrow> (\<exists>x \<in> set xs. offers (f x) e)"
  "offers_list (concat (map g xs)) e \<longleftrightarrow> (\<exists>x \<in> set xs. offers_list (g x) e)"
  by (induction xs) simp_all

lemma submits_list_map [simp]:
  "submits_list (map f xs) = concat (map (\<lambda>x. submits (f x)) xs)"
  "submits_list (concat (map g xs)) = concat (map (\<lambda>x. submits_list (g x)) xs)"
  by (induction xs) simp_all

lemma if_trees [simp]:
  "offers_list (if b then x else y) e = (if b then offers_list x e else offers_list y e)"
  "submits_list (if b then x else y) = (if b then submits_list x else submits_list y)"
  by simp_all

lemma tx_simps [simp]: "offers (tx s) e = False" "submits (tx s) = []" "snd (str k v) = Val (asc v)"
    "snd (cls v) = Val (asc v)" "fst (str k v) = k" "fst (cls v) = ''className''"
  by (simp_all add: tx_def str_def cls_def)

lemma option_values_simps [simp]:
  "option_values [] = []" "option_values (a @ b) = option_values a @ option_values b"
  "option_values (concat (map g xs)) = concat (map (\<lambda>x. option_values (g x)) xs)"
  by (induction xs) (simp_all add: option_values_def)

lemma option_values_Cons:
  "option_values (El tag as cs # ns) =
     (case map_of as ''value'' of Some (Val v) \<Rightarrow> if off as then [] else [v] | _ \<Rightarrow> []) @ option_values ns"
  by (simp add: option_values_def)

subsection \<open>A component at work\<close>

text \<open>
  A component is its view, its reaction to an event up to the first \<^verbatim>\<open>await\<close>, what it does with
  an answer, and how it starts: its state and the requests of its mount effects. Reactions give
  the new state, the requests sent and the effects on the browser. \<open>ambient\<close> events come without
  the user, such as new properties after a refresh; \<open>locks\<close> marks the requests during which the
  component is busy, which are those that change something on the server and a few others. A run keeps the requests without an answer; the answers are those
  \<open>replies\<close> allows, in any order.
\<close>

datatype effect = Refresh | Push string | Replace string | Open_tab "json option" | Set_cookie string | Reset_form

type_synonym ('s, 'r) outcome = "'s \<times> 'r list \<times> effect list"

record ('s, 'e, 'r, 'a) component =
  cp_view :: "'s \<Rightarrow> 'e node list"
  cp_react :: "'e \<Rightarrow> 's \<Rightarrow> ('s, 'r) outcome"
  cp_settle :: "'r \<Rightarrow> 'a \<Rightarrow> 's \<Rightarrow> ('s, 'r) outcome"
  cp_ambient :: "'e \<Rightarrow> bool"
  cp_locks :: "'r \<Rightarrow> bool"
  cp_start :: 's
  cp_mount :: "'r list"

inductive ui_run :: "('s, 'e, 'r, 'a) component \<Rightarrow> ('r \<Rightarrow> 'a \<Rightarrow> bool) \<Rightarrow> 's \<Rightarrow> 'r list \<Rightarrow> bool"
  for cp replies where
  mounted: "ui_run cp replies (cp_start cp) (cp_mount cp)"
| user: "ui_run cp replies s rs \<Longrightarrow> offers_list (cp_view cp s) e \<Longrightarrow>
    cp_react cp e s = (s', qs, fx) \<Longrightarrow> ui_run cp replies s' (rs @ qs)"
| other: "ui_run cp replies s rs \<Longrightarrow> cp_ambient cp e \<Longrightarrow>
    cp_react cp e s = (s', qs, fx) \<Longrightarrow> ui_run cp replies s' (rs @ qs)"
| answered: "ui_run cp replies s (xs @ r # ys) \<Longrightarrow> replies r a \<Longrightarrow>
    cp_settle cp r a s = (s', qs, fx) \<Longrightarrow> ui_run cp replies s' (xs @ ys @ qs)"

text \<open>What holds of the state at the start, of every request sent, and is kept, holds in every run.\<close>

lemma ui_invariant:
  assumes "ui_run cp replies s rs"
    and "I (cp_start cp) \<and> list_all P (cp_mount cp)"
    and "\<And>s e s' qs fx. I s \<Longrightarrow> offers_list (cp_view cp s) e \<or> cp_ambient cp e \<Longrightarrow>
      cp_react cp e s = (s', qs, fx) \<Longrightarrow> I s' \<and> list_all P qs"
    and "\<And>s r a s' qs fx. I s \<Longrightarrow> P r \<Longrightarrow> replies r a \<Longrightarrow> cp_settle cp r a s = (s', qs, fx) \<Longrightarrow>
      I s' \<and> list_all P qs"
  shows "I s \<and> list_all P rs"
  using assms(1)
proof (induction rule: ui_run.induct)
  case mounted
  show ?case by (rule assms(2))
next
  case (user s rs e s' qs fx)
  then show ?case using assms(3) [of s e s' qs fx] by simp
next
  case (other s rs e s' qs fx)
  then show ?case using assms(3) [of s e s' qs fx] by simp
next
  case (answered s xs r ys a s' qs fx)
  then show ?case using assms(4) [of s r a s' qs fx] by simp
qed

definition always_sends :: "('s, 'e, 'r, 'a) component \<Rightarrow> ('r \<Rightarrow> bool) \<Rightarrow> bool" where
  "always_sends cp P \<longleftrightarrow> (\<forall>s rs. ui_run cp (\<lambda>_ _. True) s rs \<longrightarrow> list_all P rs)"

lemma always_sendsI:
  assumes "I (cp_start cp) \<and> list_all P (cp_mount cp)"
    and "\<And>s e. I s \<Longrightarrow> offers_list (cp_view cp s) e \<or> cp_ambient cp e \<Longrightarrow>
      I (fst (cp_react cp e s)) \<and> list_all P (fst (snd (cp_react cp e s)))"
    and "\<And>s r a. I s \<Longrightarrow> P r \<Longrightarrow> I (fst (cp_settle cp r a s)) \<and> list_all P (fst (snd (cp_settle cp r a s)))"
  shows "always_sends cp P"
  unfolding always_sends_def
proof (intro allI impI)
  fix s rs
  assume "ui_run cp (\<lambda>_ _. True) s rs"
  then have "I s \<and> list_all P rs"
  proof (rule ui_invariant)
    show "I (cp_start cp) \<and> list_all P (cp_mount cp)" by (rule assms(1))
    show "I s' \<and> list_all P qs"
      if "I s" "offers_list (cp_view cp s) e \<or> cp_ambient cp e" "cp_react cp e s = (s', qs, fx)"
      for s e s' qs fx
      using assms(2) [OF that(1,2)] that(3) by simp
    show "I s' \<and> list_all P qs"
      if "I s" "P r" "True" "cp_settle cp r a s = (s', qs, fx)" for s r a s' qs fx
      using assms(3) [OF that(1,2), of a] that(4) by simp
  qed
  then show "list_all P rs" by simp
qed

lemma always_sends_mono: "always_sends cp P \<Longrightarrow> (\<And>r. P r \<Longrightarrow> Q r) \<Longrightarrow> always_sends cp Q"
  by (auto simp: always_sends_def list_all_iff)

text \<open>Whatever the server answers, at most one locking request is out.\<close>

definition never_two_calls :: "('s, 'e, 'r, 'a) component \<Rightarrow> bool" where
  "never_two_calls cp \<longleftrightarrow>
     (\<forall>s rs. ui_run cp (\<lambda>_ _. True) s rs \<longrightarrow> length (filter (cp_locks cp) rs) \<le> 1)"

text \<open>
  The contract of a component that is busy while it waits: only some events send a locking request,
  none of them is offered while it is busy, and it is busy as long as the request is out.
\<close>

locale busy_form =
  fixes cp :: "('s, 'e, 'r, 'a) component"
    and busy :: "'s \<Rightarrow> bool"
    and calls :: "'e \<Rightarrow> bool"
  assumes start_idle: "\<not> busy (cp_start cp) \<and> filter (cp_locks cp) (cp_mount cp) = []"
    and ambient_quiet: "cp_ambient cp e \<Longrightarrow> \<not> calls e"
    and quiet: "\<not> calls e \<Longrightarrow> cp_react cp e s = (s', qs, fx) \<Longrightarrow>
      filter (cp_locks cp) qs = [] \<and> busy s' = busy s"
    and calling: "calls e \<Longrightarrow> \<not> busy s \<Longrightarrow> cp_react cp e s = (s', qs, fx) \<Longrightarrow>
      length (filter (cp_locks cp) qs) \<le> 1 \<and> busy s' = (filter (cp_locks cp) qs \<noteq> [])"
    and locked: "busy s \<Longrightarrow> offers_list (cp_view cp s) e \<Longrightarrow> \<not> calls e"
    and settled: "cp_locks cp r \<Longrightarrow> cp_settle cp r a s = (s', qs, fx) \<Longrightarrow>
      length (filter (cp_locks cp) qs) \<le> 1 \<and> (filter (cp_locks cp) qs \<noteq> [] \<longrightarrow> busy s')"
    and loaded: "\<not> cp_locks cp r \<Longrightarrow> cp_settle cp r a s = (s', qs, fx) \<Longrightarrow>
      filter (cp_locks cp) qs = [] \<and> busy s' = busy s"
begin

lemma one_call:
  "ui_run cp replies s rs \<Longrightarrow>
    length (filter (cp_locks cp) rs) \<le> 1 \<and> (filter (cp_locks cp) rs \<noteq> [] \<longrightarrow> busy s)"
proof (induction rule: ui_run.induct)
  case mounted
  then show ?case using start_idle by simp
next
  case (user s rs e s' qs fx)
  show ?case
  proof (cases "calls e")
    case True
    then have "\<not> busy s" using user.hyps(2) locked by blast
    then show ?thesis using calling [OF True _ user.hyps(3)] user.IH by simp
  next
    case False
    then show ?thesis using quiet [OF False user.hyps(3)] user.IH by simp
  qed
next
  case (other s rs e s' qs fx)
  then show ?case using quiet [OF ambient_quiet [OF other.hyps(2)] other.hyps(3)] by simp
next
  case (answered s xs r ys a s' qs fx)
  show ?case
  proof (cases "cp_locks cp r")
    case True
    then show ?thesis using settled [OF True answered.hyps(3)] answered.IH by auto
  next
    case False
    then show ?thesis using loaded [OF False answered.hyps(3)] answered.IH by auto
  qed
qed

lemma no_second_call: "never_two_calls cp"
  using one_call by (auto simp: never_two_calls_def)

end

text \<open>Most components are released by the answer: with no request out the user can act again.\<close>

locale released_form = busy_form cp busy calls
  for cp :: "('s, 'e, 'r, 'a) component" and busy :: "'s \<Rightarrow> bool" and calls :: "'e \<Rightarrow> bool" +
  assumes released: "cp_locks cp r \<Longrightarrow> cp_settle cp r a s = (s', qs, fx) \<Longrightarrow>
      busy s' \<Longrightarrow> filter (cp_locks cp) qs \<noteq> []"
begin

lemma busy_iff_waiting: "ui_run cp replies s rs \<Longrightarrow> busy s \<longleftrightarrow> filter (cp_locks cp) rs \<noteq> []"
proof (induction rule: ui_run.induct)
  case mounted
  then show ?case using start_idle by simp
next
  case (user s rs e s' qs fx)
  show ?case
  proof (cases "calls e")
    case True
    then have "\<not> busy s" using user.hyps(2) locked by blast
    then show ?thesis using calling [OF True _ user.hyps(3)] user.IH by simp
  next
    case False
    then show ?thesis using quiet [OF False user.hyps(3)] user.IH by simp
  qed
next
  case (other s rs e s' qs fx)
  then show ?case using quiet [OF ambient_quiet [OF other.hyps(2)] other.hyps(3)] by simp
next
  case (answered s xs r ys a s' qs fx)
  show ?case
  proof (cases "cp_locks cp r")
    case True
    have "length (filter (cp_locks cp) (xs @ r # ys)) \<le> 1" using one_call [OF answered.hyps(1)] by blast
    then have "filter (cp_locks cp) (xs @ ys) = []" using True by simp
    then show ?thesis
      using settled [OF True answered.hyps(3)] released [OF True answered.hyps(3)] by auto
  next
    case False
    then show ?thesis using loaded [OF False answered.hyps(3)] answered.IH by simp
  qed
qed

lemma idle_again: "ui_run cp replies s [] \<Longrightarrow> \<not> busy s"
  using busy_iff_waiting by force

end

end
