(* ===== verification/I18n.thy ===== *)
theory I18n
  imports Html
begin

text \<open>
  The two languages of the web application, \<^verbatim>\<open>lib/i18n.ts\<close>, \<^verbatim>\<open>lib/locale.ts\<close> and
  \<^verbatim>\<open>lib/locale-context.tsx\<close>: the dictionary, the cookie that remembers the choice and the way
  the server reads it back. Arabic texts are written as their code units.
\<close>

subsection \<open>The dictionary\<close>

datatype lang = Ar | En

definition lang_name :: "lang \<Rightarrow> string" where
  "lang_name l = (case l of Ar \<Rightarrow> ''ar'' | En \<Rightarrow> ''en'')"

definition strings_shell :: "(string \<times> utext \<times> utext) list" where
  "strings_shell = [
    (''appName'', [1605, 1606, 1589, 1577, 32, 1580, 1575, 1607, 1586, 1610, 1577, 32, 1575, 1604,
      1593, 1591, 1575, 1569, 1575, 1578], asc ''BidReady KSA''),
    (''dashboard'', [1604, 1608, 1581, 1577, 32, 1575, 1604, 1578, 1581, 1603, 1605], asc
      ''Dashboard''),
    (''openTenders'', [1575, 1604, 1593, 1591, 1575, 1569, 1575, 1578, 32, 1575, 1604, 1605, 1601,
      1578, 1608, 1581, 1577], asc ''Open tenders''),
    (''bidReady'', [1580, 1575, 1607, 1586, 1577, 32, 1604, 1604, 1578, 1602, 1583, 1610, 1605],
      asc ''Bid-ready''),
    (''criticalGaps'', [1601, 1580, 1608, 1575, 1578, 32, 1581, 1585, 1580, 1577], asc
      ''Critical gaps''),
    (''expiringDocs'', [1608, 1579, 1575, 1574, 1602, 32, 1605, 1606, 1578, 1607, 1610, 1577, 32,
      1602, 1585, 1610, 1576, 1575, 1611], asc ''Docs expiring''),
    (''tenderFeed'', [1602, 1575, 1574, 1605, 1577, 32, 1575, 1604, 1593, 1591, 1575, 1569, 1575,
      1578], asc ''Tender feed''),
    (''taskRail'', [1575, 1604, 1605, 1607, 1575, 1605, 32, 1575, 1604, 1581, 1585, 1580, 1577],
      asc ''Critical tasks''),
    (''expiryRadar'', [1585, 1575, 1583, 1575, 1585, 32, 1575, 1606, 1578, 1607, 1575, 1569, 32,
      1575, 1604, 1589, 1604, 1575, 1581, 1610, 1577], asc ''Expiry radar''),
    (''status'', [1575, 1604, 1581, 1575, 1604, 1577], asc ''Status''),
    (''owner'', [1575, 1604, 1605, 1587, 1572, 1608, 1604], asc ''Owner''),
    (''due'', [1575, 1604, 1575, 1587, 1578, 1581, 1602, 1575, 1602], asc ''Due''),
    (''risk'', [1575, 1604, 1605, 1582, 1575, 1591, 1585], asc ''Risk''),
    (''signIn'', [1578, 1587, 1580, 1610, 1604, 32, 1575, 1604, 1583, 1582, 1608, 1604], asc
      ''Sign in''),
    (''signingIn'', [1580, 1575, 1585, 1610, 32, 1575, 1604, 1583, 1582, 1608, 1604] @ asc
      ''...'', asc ''Signing in'' @ [8230]),
    (''signOut'', [1578, 1587, 1580, 1610, 1604, 32, 1575, 1604, 1582, 1585, 1608, 1580], asc
      ''Sign out''),
    (''signInPrompt'', [1575, 1604, 1585, 1580, 1575, 1569, 32, 1578, 1587, 1580, 1610, 1604, 32,
      1575, 1604, 1583, 1582, 1608, 1604, 32, 1604, 1604, 1608, 1589, 1608, 1604, 32, 1573, 1604,
      1609, 32, 1605, 1587, 1575, 1581, 1577, 32, 1575, 1604, 1593, 1605, 1604], asc
      ''Sign in to access your workspace''),
    (''email'', [1575, 1604, 1576, 1585, 1610, 1583, 32, 1575, 1604, 1573, 1604, 1603, 1578, 1585,
      1608, 1606, 1610], asc ''Email''),
    (''password'', [1603, 1604, 1605, 1577, 32, 1575, 1604, 1605, 1585, 1608, 1585], asc
      ''Password''),
    (''emptyTenders'', [1604, 1575, 32, 1578, 1608, 1580, 1583, 32, 1593, 1591, 1575, 1569, 1575,
      1578, 32, 1576, 1593, 1583], asc ''No tenders yet''),
    (''emptyTasks'', [1604, 1575, 32, 1578, 1608, 1580, 1583, 32, 1605, 1607, 1575, 1605, 32,
      1581, 1585, 1580, 1577], asc ''No critical tasks''),
    (''emptyExpiring'', [1604, 1575, 32, 1578, 1608, 1580, 1583, 32, 1608, 1579, 1575, 1574, 1602,
      32, 1602, 1575, 1585, 1576, 1578, 32, 1593, 1604, 1609, 32, 1575, 1604, 1575, 1606, 1578,
      1607, 1575, 1569], asc ''No expiring docs''),
    (''loadFailed'', [1578, 1593, 1584, 1617, 1585, 32, 1578, 1581, 1605, 1610, 1604, 32, 1575,
      1604, 1576, 1610, 1575, 1606, 1575, 1578, 46, 32, 1571, 1593, 1583, 32, 1575, 1604, 1605,
      1581, 1575, 1608, 1604, 1577, 32, 1604, 1575, 1581, 1602, 1575, 1611] @ asc ''.'', asc
      ''Could not load data. Try again later.''),
    (''navDashboard'', [1604, 1608, 1581, 1577, 32, 1575, 1604, 1578, 1581, 1603, 1605], asc
      ''Dashboard''),
    (''navTenders'', [1575, 1604, 1593, 1591, 1575, 1569, 1575, 1578], asc ''Tenders''),
    (''navDocuments'', [1575, 1604, 1608, 1579, 1575, 1574, 1602], asc ''Documents''),
    (''navCompliance'', [1575, 1604, 1575, 1605, 1578, 1579, 1575, 1604], asc ''Compliance''),
    (''navReports'', [1575, 1604, 1578, 1602, 1575, 1585, 1610, 1585], asc ''Reports''),
    (''navAdmin'', [1575, 1604, 1573, 1583, 1575, 1585, 1577], asc ''Admin''),
    (''navSettings'', [1575, 1604, 1573, 1593, 1583, 1575, 1583, 1575, 1578], asc ''Settings''),
    (''skipToContent'', [1575, 1606, 1578, 1602, 1604, 32, 1573, 1604, 1609, 32, 1575, 1604, 1605,
      1581, 1578, 1608, 1609, 32, 1575, 1604, 1585, 1574, 1610, 1587, 1610], asc
      ''Skip to main content''),
    (''toggleLocale'', asc ''English'', [1575, 1604, 1593, 1585, 1576, 1610, 1577])]"

definition strings_admin :: "(string \<times> utext \<times> utext) list" where
  "strings_admin = [
    (''adminTitle'', [1575, 1604, 1573, 1583, 1575, 1585, 1577], asc ''Administration''),
    (''adminLead'', [1608, 1589, 1608, 1604, 32, 1604, 1573, 1593, 1583, 1575, 1583, 1575, 1578,
      32, 1581, 1605, 1575, 1610, 1577, 32, 1575, 1604, 1576, 1610, 1575, 1606, 1575, 1578, 32,
      1608, 1593, 1605, 1604, 1610, 1575, 1578, 32, 1575, 1604, 1575, 1605, 1578, 1579, 1575,
      1604, 32, 1608, 1575, 1604, 1575, 1587, 1578, 1610, 1593, 1575, 1576] @ asc ''.'', asc
      ''PDPL controls + compliance workflows + ingestion oversight.''),
    (''adminCardDpo'', [1605, 1587, 1572, 1608, 1604, 32, 1581, 1605, 1575, 1610, 1577, 32, 1575,
      1604, 1576, 1610, 1575, 1606, 1575, 1578], asc ''DPO contact''),
    (''adminCardDpoDesc'', [1576, 1610, 1575, 1606, 1575, 1578, 32, 1575, 1604, 1575, 1578, 1589,
      1575, 1604, 32, 43, 32, 1580, 1607, 1577, 32, 1575, 1604, 1573, 1576, 1604, 1575, 1594, 32,
      43, 32, 1587, 1610, 1575, 1587, 1577, 32, 1575, 1604, 1575, 1581, 1578, 1601, 1575, 1592] @
      asc ''.'', asc ''Contact details + authority recipient + retention policy.''),
    (''adminCardDsr'', [1581, 1602, 1608, 1602, 32, 1571, 1589, 1581, 1575, 1576, 32, 1575, 1604,
      1576, 1610, 1575, 1606, 1575, 1578], asc ''Data subject rights''),
    (''adminCardDsrDesc'', [1591, 1604, 1576, 1575, 1578, 32, 1575, 1604, 1608, 1589, 1608, 1604,
      32, 1608, 1575, 1604, 1605, 1587, 1581, 32, 1608, 1575, 1604, 1578, 1589, 1581, 1610, 1581,
      32, 43, 32, 1587, 1610, 1585, 32, 1575, 1604, 1605, 1608, 1575, 1601, 1602, 1575, 1578] @
      asc ''.'', asc ''Access / erasure / rectification requests + approval workflow.''),
    (''adminCardRetention'', [1573, 1580, 1585, 1575, 1569, 1575, 1578, 32, 1575, 1604, 1575,
      1581, 1578, 1601, 1575, 1592], asc ''Retention actions''),
    (''adminCardRetentionDesc'', [1573, 1578, 1604, 1575, 1601, 32, 1575, 1604, 1608, 1579, 1575,
      1574, 1602, 32, 1576, 1605, 1608, 1575, 1601, 1602, 1577, 32, 1605, 1606, 1601, 1589, 1604,
      1577, 32, 43, 32, 1575, 1604, 1605, 1587, 1581, 32, 1575, 1604, 1610, 1608, 1605, 1610] @
      asc ''.'', asc ''Audit-trailed document destruction + daily sweep.''),
    (''adminCardConsent'', [1587, 1580, 1604, 32, 1575, 1604, 1605, 1608, 1575, 1601, 1602, 1575,
      1578], asc ''Consent ledger''),
    (''adminCardConsentDesc'', [1587, 1580, 1604, 32, 1605, 1606, 1581, 47, 1587, 1581, 1576, 32,
      1575, 1604, 1605, 1608, 1575, 1601, 1602, 1577, 32, 1604, 1603, 1604, 32, 1594, 1585, 1590,
      32, 1608, 1604, 1603, 1604, 32, 1593, 1605, 1610, 1604] @ asc ''.'', asc
      ''Grant / withdraw events per purpose, per subject.''),
    (''adminCardIngestion'', [1608, 1592, 1575, 1574, 1601, 32, 1575, 1604, 1575, 1587, 1578,
      1610, 1593, 1575, 1576], asc ''Ingestion jobs''),
    (''adminCardIngestionDesc'', [1591, 1575, 1576, 1608, 1585, 32, 1575, 1604, 1605, 1593, 1575,
      1604, 1580, 1577, 32, 40, 1573, 1593, 1578, 1605, 1575, 1583, 1548, 32, 1585, 1601, 1593,
      32, 1610, 1583, 1608, 1610, 1548, 32, 1576, 1585, 1610, 1583, 32, 1608, 1575, 1585, 1583] @
      asc '').'', asc ''Worker queue (Etimad, manual upload, inbound email).''),
    (''open'', [1601, 1578, 1581], asc ''Open''),
    (''save'', [1581, 1601, 1592], asc ''Save''),
    (''saving'', [1580, 1575, 1585, 1613, 32, 1575, 1604, 1581, 1601, 1592] @ asc ''...'', asc
      ''Saving'' @ [8230]),
    (''cancel'', [1573, 1604, 1594, 1575, 1569], asc ''Cancel''),
    (''refresh'', [1578, 1581, 1583, 1610, 1579], asc ''Refresh''),
    (''notConfigured'', [1604, 1605, 32, 1610, 1578, 1605, 32, 1575, 1604, 1578, 1607, 1610, 1574,
      1577, 32, 1576, 1593, 1583], asc ''Not configured yet''),
    (''approve'', [1575, 1593, 1578, 1605, 1575, 1583], asc ''Approve''),
    (''deny'', [1585, 1601, 1590], asc ''Deny''),
    (''execute'', [1578, 1606, 1601, 1610, 1584], asc ''Execute''),
    (''manualSweep'', [1578, 1588, 1594, 1610, 1604, 32, 1575, 1604, 1605, 1587, 1581, 32, 1610,
      1583, 1608, 1610, 1575, 1611], asc ''Run manual sweep''),
    (''filterAll'', [1575, 1604, 1603, 1604], asc ''All''),
    (''filterPending'', [1602, 1610, 1583, 32, 1575, 1604, 1575, 1606, 1578, 1592, 1575, 1585],
      asc ''Pending''),
    (''filterApproved'', [1605, 1593, 1578, 1605, 1583], asc ''Approved''),
    (''filterDenied'', [1605, 1585, 1601, 1608, 1590], asc ''Denied''),
    (''filterCompleted'', [1605, 1603, 1578, 1605, 1604], asc ''Completed''),
    (''filterExecuted'', [1605, 1606, 1601, 1617, 1584], asc ''Executed''),
    (''filterFailed'', [1601, 1588, 1604], asc ''Failed''),
    (''filterProcessing'', [1602, 1610, 1583, 32, 1575, 1604, 1605, 1593, 1575, 1604, 1580, 1577],
      asc ''Processing''),
    (''filterByStatus'', [1578, 1589, 1601, 1610, 1577, 32, 1581, 1587, 1576, 32, 1575, 1604,
      1581, 1575, 1604, 1577], asc ''Filter by status''),
    (''filterByKind'', [1578, 1589, 1601, 1610, 1577, 32, 1581, 1587, 1576, 32, 1575, 1604, 1606,
      1608, 1593], asc ''Filter by kind''),
    (''noResults'', [1604, 1575, 32, 1578, 1608, 1580, 1583, 32, 1606, 1578, 1575, 1574, 1580],
      asc ''No results''),
    (''dpoName'', [1575, 1604, 1575, 1587, 1605], asc ''Name''),
    (''dpoEmail'', [1575, 1604, 1576, 1585, 1610, 1583, 32, 1575, 1604, 1573, 1604, 1603, 1578,
      1585, 1608, 1606, 1610, 32, 1604, 1604, 1605, 1587, 1572, 1608, 1604], asc ''DPO email''),
    (''dpoPhone'', [1575, 1604, 1607, 1575, 1578, 1601, 32, 40, 1575, 1582, 1578, 1610, 1575,
      1585, 1610] @ asc '')'', asc ''Phone (optional)''),
    (''authorityEmail'', [1576, 1585, 1610, 1583, 32, 1575, 1604, 1580, 1607, 1577, 32, 1575,
      1604, 1605, 1582, 1578, 1589, 1577, 32, 40, 1587, 1583, 1575, 1610, 1575] @ asc '')'', asc
      ''Authority email (SDAIA)''),
    (''retentionPolicyDays'', [1587, 1610, 1575, 1587, 1577, 32, 1575, 1604, 1575, 1581, 1578,
      1601, 1575, 1592, 32, 40, 1576, 1575, 1604, 1571, 1610, 1575, 1605] @ asc '')'', asc
      ''Retention policy (days)''),
    (''subjectEmail'', [1576, 1585, 1610, 1583, 32, 1589, 1575, 1581, 1576, 32, 1575, 1604, 1576,
      1610, 1575, 1606, 1575, 1578], asc ''Subject email''),
    (''requestType'', [1606, 1608, 1593, 32, 1575, 1604, 1591, 1604, 1576], asc ''Request type''),
    (''dsrAccess'', [1608, 1589, 1608, 1604], asc ''Access''),
    (''dsrErasure'', [1605, 1587, 1581], asc ''Erasure''),
    (''dsrRectification'', [1578, 1589, 1581, 1610, 1581], asc ''Rectification''),
    (''notes'', [1605, 1604, 1575, 1581, 1592, 1575, 1578], asc ''Notes''),
    (''purpose'', [1575, 1604, 1594, 1585, 1590], asc ''Purpose''),
    (''consentState'', [1575, 1604, 1581, 1575, 1604, 1577], asc ''State''),
    (''granted'', [1605, 1605, 1606, 1608, 1581, 1577], asc ''Granted''),
    (''withdrawn'', [1605, 1587, 1581, 1608, 1576, 1577], asc ''Withdrawn''),
    (''recordEvent'', [1578, 1587, 1580, 1610, 1604, 32, 1581, 1583, 1579], asc ''Record event''),
    (''current'', [1575, 1604, 1581, 1575, 1604, 1577, 32, 1575, 1604, 1581, 1575, 1604, 1610,
      1577], asc ''Current''),
    (''notRecorded'', [1594, 1610, 1585, 32, 1605, 1587, 1580, 1617, 1604, 32, 40, 1575, 1601,
      1578, 1585, 1575, 1590, 1610, 58, 32, 1605, 1585, 1601, 1608, 1590] @ asc '')'', asc
      ''Not recorded (default deny)''),
    (''kind'', [1575, 1604, 1606, 1608, 1593], asc ''Kind''),
    (''enqueue'', [1573, 1590, 1575, 1601, 1577, 32, 1608, 1592, 1610, 1601, 1577], asc
      ''Enqueue job''),
    (''kindEtimad'', [1573, 1593, 1578, 1605, 1575, 1583], asc ''Etimad''),
    (''kindUpload'', [1585, 1601, 1593], asc ''Upload''),
    (''kindEmail'', [1576, 1585, 1610, 1583], asc ''Email''),
    (''kindLink'', [1585, 1575, 1576, 1591], asc ''Link''),
    (''rawNotice'', [1606, 1589, 32, 1575, 1604, 1573, 1593, 1604, 1575, 1606], asc
      ''Notice text''),
    (''resultPayload'', [1575, 1604, 1606, 1578, 1610, 1580, 1577], asc ''Result''),
    (''errorMessage'', [1585, 1587, 1575, 1604, 1577, 32, 1575, 1604, 1582, 1591, 1571], asc
      ''Error''),
    (''attempts'', [1575, 1604, 1605, 1581, 1575, 1608, 1604, 1575, 1578], asc ''Attempts''),
    (''backToAdmin'', [8592, 32, 1575, 1604, 1593, 1608, 1583, 1577, 32, 1573, 1604, 1609, 32,
      1575, 1604, 1573, 1583, 1575, 1585, 1577], [8592] @ asc '' Back to admin''),
    (''accessDenied'', [1604, 1575, 32, 1578, 1605, 1604, 1603, 32, 1575, 1604, 1589, 1604, 1575,
      1581, 1610, 1577, 32, 1604, 1607, 1584, 1607, 32, 1575, 1604, 1573, 1580, 1585, 1575, 1569,
      1575, 1578] @ asc ''.'', asc ''You do not have permission to perform these actions.'')]"

definition strings_tender :: "(string \<times> utext \<times> utext) list" where
  "strings_tender = [
    (''clientsTitle'', [1575, 1604, 1593, 1605, 1604, 1575, 1569], asc ''Clients''),
    (''clientsLead'', [1587, 1580, 1617, 1604, 32, 1575, 1604, 1588, 1585, 1603, 1575, 1578, 47,
      1575, 1604, 1580, 1607, 1575, 1578, 32, 1575, 1604, 1578, 1610, 32, 1578, 1602, 1583, 1617,
      1605, 32, 1604, 1607, 1575, 32, 1575, 1604, 1593, 1591, 1575, 1569, 1575, 1578, 32, 1602,
      1576, 1604, 32, 1573, 1606, 1588, 1575, 1569, 32, 1575, 1604, 1605, 1606, 1575, 1601, 1587,
      1575, 1578] @ asc ''.'', asc
      ''Register the companies/agencies you bid for before creating tenders.''),
    (''newClient'', [1593, 1605, 1610, 1604, 32, 1580, 1583, 1610, 1583], asc ''New client''),
    (''clientName'', [1575, 1587, 1605, 32, 1575, 1604, 1593, 1605, 1610, 1604], asc
      ''Client name''),
    (''tenderTitleLabel'', [1593, 1606, 1608, 1575, 1606, 32, 1575, 1604, 1605, 1606, 1575, 1601,
      1587, 1577], asc ''Tender title''),
    (''tendersTitle'', [1575, 1604, 1593, 1591, 1575, 1569, 1575, 1578], asc ''Tenders''),
    (''tendersLead'', [1573, 1606, 1588, 1575, 1569, 32, 1608, 1573, 1583, 1575, 1585, 1577, 32,
      1575, 1604, 1593, 1591, 1575, 1569, 1575, 1578, 32, 1575, 1604, 1605, 1585, 1578, 1576,
      1591, 1577, 32, 1576, 1603, 1604, 32, 1593, 1605, 1610, 1604] @ asc ''.'', asc
      ''Create and manage tenders linked to each client.''),
    (''newTender'', [1605, 1606, 1575, 1601, 1587, 1577, 32, 1580, 1583, 1610, 1583, 1577], asc
      ''New tender''),
    (''client'', [1575, 1604, 1593, 1605, 1610, 1604], asc ''Client''),
    (''sourceLabel'', [1575, 1604, 1605, 1589, 1583, 1585], asc ''Source''),
    (''selectClient'', [1575, 1582, 1578, 1585, 32, 1593, 1605, 1610, 1604, 1575, 1611], asc
      ''Select a client''),
    (''noClientsYet'', [1604, 1575, 32, 1610, 1608, 1580, 1583, 32, 1593, 1605, 1604, 1575, 1569,
      32, 1576, 1593, 1583, 32, 8212, 32, 1571, 1606, 1588, 1574, 32, 1593, 1605, 1610, 1604,
      1575, 1611, 32, 1571, 1608, 1604, 1575, 1611] @ asc ''.'', asc ''No clients yet '' @ [8212]
      @ asc '' create one first.''),
    (''noTendersYet'', [1604, 1575, 32, 1578, 1608, 1580, 1583, 32, 1593, 1591, 1575, 1569, 1575,
      1578, 32, 1576, 1593, 1583, 46, 32, 1575, 1576, 1583, 1571, 32, 1576, 1573, 1590, 1575,
      1601, 1577, 32, 1605, 1606, 1575, 1601, 1587, 1577, 32, 1580, 1583, 1610, 1583, 1577] @ asc
      ''.'', asc ''No tenders yet. Add a new tender to get started.''),
    (''requirementsTitle'', [1575, 1604, 1605, 1578, 1591, 1604, 1576, 1575, 1578], asc
      ''Requirements''),
    (''matricesTitle'', [1605, 1589, 1601, 1608, 1601, 1575, 1578, 32, 1575, 1604, 1575, 1605,
      1578, 1579, 1575, 1604], asc ''Compliance matrices''),
    (''accessTitle'', [1575, 1604, 1589, 1604, 1575, 1581, 1610, 1575, 1578], asc ''Access''),
    (''category'', [1575, 1604, 1601, 1574, 1577], asc ''Category''),
    (''textLabel'', [1575, 1604, 1606, 1589], asc ''Text''),
    (''addRequirements'', [1573, 1590, 1575, 1601, 1577, 32, 1605, 1578, 1591, 1604, 1576, 1575,
      1578], asc ''Add requirements''),
    (''bulkPaste'', [1575, 1604, 1589, 1602, 32, 1587, 1591, 1585, 1575, 1611, 32, 1608, 1575,
      1581, 1583, 1575, 1611, 32, 1604, 1603, 1604, 32, 1605, 1578, 1591, 1604, 1576, 32, 40,
      1575, 1604, 1601, 1574, 1577, 58, 32, 1575, 1604, 1606, 1589] @ asc '')'', asc
      ''Paste one requirement per line: '' @ [34] @ asc ''category: text'' @ [34]),
    (''bulkExample'', [1605, 1579, 1575, 1604, 58, 10] @ asc ''legal: '' @ [1587, 1580, 1604, 32,
      1578, 1580, 1575, 1585, 1610, 32, 1587, 1575, 1585, 1610, 10] @ asc ''financial: '' @ [1590,
      1605, 1575, 1606, 32, 1576, 1606, 1603, 1610], asc ''Example:'' @ [10] @ asc
      ''legal: Valid commercial registration'' @ [10] @ asc ''financial: Bank guarantee''),
    (''generateMatrixAction'', [1573, 1606, 1588, 1575, 1569, 32, 1605, 1589, 1601, 1608, 1601,
      1577, 32, 1580, 1583, 1610, 1583, 1577], asc ''Generate new matrix''),
    (''matrixVersion'', [1575, 1604, 1573, 1589, 1583, 1575, 1585], asc ''Version''),
    (''items'', [1575, 1604, 1593, 1606, 1575, 1589, 1585], asc ''Items''),
    (''noMatricesYet'', [1604, 1575, 32, 1578, 1608, 1580, 1583, 32, 1605, 1589, 1601, 1608, 1601,
      1575, 1578, 32, 1576, 1593, 1583, 46, 32, 1575, 1590, 1594, 1591, 32, 34, 1573, 1606, 1588,
      1575, 1569, 32, 1605, 1589, 1601, 1608, 1601, 1577, 32, 1580, 1583, 1610, 1583, 1577, 34,
      32, 1604, 1578, 1608, 1604, 1610, 1583, 32, 1608, 1575, 1581, 1583, 1577] @ asc ''.'', asc
      ''No matrices yet. Click '' @ [34] @ asc ''Generate new matrix'' @ [34] @ asc
      '' to create one.''),
    (''noRequirementsYet'', [1604, 1575, 32, 1578, 1608, 1580, 1583, 32, 1605, 1578, 1591, 1604,
      1576, 1575, 1578, 32, 1576, 1593, 1583] @ asc ''.'', asc ''No requirements yet.''),
    (''itemStatus'', [1575, 1604, 1581, 1575, 1604, 1577], asc ''Status''),
    (''itemRisk'', [1575, 1604, 1605, 1582, 1575, 1591, 1585], asc ''Risk''),
    (''itemMissing'', [1605, 1601, 1602, 1608, 1583, 1577], asc ''Missing''),
    (''itemPartial'', [1580, 1586, 1574, 1610, 1577], asc ''Partial''),
    (''itemSatisfied'', [1605, 1603, 1578, 1605, 1604, 1577], asc ''Satisfied''),
    (''itemOverridden'', [1605, 1578, 1580, 1575, 1608, 1614, 1586, 1577], asc ''Overridden''),
    (''riskLow'', [1605, 1606, 1582, 1601, 1590, 1577], asc ''Low''),
    (''riskMedium'', [1605, 1578, 1608, 1587, 1591, 1577], asc ''Medium''),
    (''riskHigh'', [1605, 1585, 1578, 1601, 1593, 1577], asc ''High''),
    (''riskCritical'', [1581, 1585, 1580, 1577], asc ''Critical''),
    (''userIdLabel'', [1605, 1593, 1585, 1617, 1601, 32, 1575, 1604, 1605, 1587, 1578, 1582, 1583,
      1605], asc ''User ID''),
    (''user'', [1575, 1604, 1605, 1587, 1578, 1582, 1583, 1605], asc ''User''),
    (''role'', [1575, 1604, 1583, 1608, 1585], asc ''Role''),
    (''grantAccess'', [1605, 1606, 1581, 32, 1589, 1604, 1575, 1581, 1610, 1577], asc
      ''Grant access''),
    (''revoke'', [1587, 1581, 1576], asc ''Revoke''),
    (''noAccessYet'', [1604, 1605, 32, 1578, 1615, 1605, 1606, 1581, 32, 1589, 1604, 1575, 1581,
      1610, 1577, 32, 1604, 1571, 1581, 1583, 32, 1576, 1593, 1583] @ asc ''.'', asc
      ''No access has been granted yet.''),
    (''statusIntake'', [1575, 1587, 1578, 1604, 1575, 1605], asc ''Intake''),
    (''statusReview'', [1605, 1585, 1575, 1580, 1593, 1577], asc ''Review''),
    (''statusReady'', [1580, 1575, 1607, 1586], asc ''Ready''),
    (''statusSubmitted'', [1605, 1615, 1602, 1583, 1614, 1617, 1605], asc ''Submitted''),
    (''changeStatus'', [1578, 1594, 1610, 1610, 1585, 32, 1575, 1604, 1581, 1575, 1604, 1577], asc
      ''Change status''),
    (''adminCardAudit'', [1587, 1580, 1604, 32, 1575, 1604, 1578, 1583, 1602, 1610, 1602], asc
      ''Audit log''),
    (''adminCardAuditDesc'', [1570, 1582, 1585, 32, 1575, 1604, 1571, 1581, 1583, 1575, 1579, 32,
      1575, 1604, 1605, 1587, 1580, 1617, 1604, 1577, 32, 1604, 1603, 1604, 32, 1575, 1604, 1605,
      1587, 1578, 1582, 1583, 1605, 1610, 1606, 32, 1608, 1575, 1604, 1573, 1580, 1585, 1575,
      1569, 1575, 1578, 32, 1575, 1604, 1581, 1587, 1575, 1587, 1577] @ asc ''.'', asc
      ''Recent audited events across users and sensitive actions.'')]"

definition strings_training :: "(string \<times> utext \<times> utext) list" where
  "strings_training = [
    (''adminCardTraining'', [1587, 1580, 1604, 32, 1578, 1583, 1585, 1610, 1576, 32, 1575, 1604,
      1605, 1608, 1592, 1601, 1610, 1606], asc ''Training register''),
    (''adminCardTrainingDesc'', [1573, 1579, 1576, 1575, 1578, 32, 1573, 1606, 1580, 1575, 1586,
      32, 1578, 1583, 1585, 1610, 1576, 1575, 1578, 32, 1581, 1605, 1575, 1610, 1577, 32, 1575,
      1604, 1576, 1610, 1575, 1606, 1575, 1578, 32, 1604, 1604, 1605, 1608, 1592, 1601, 1610,
      1606, 1548, 32, 1605, 1593, 32, 1578, 1578, 1576, 1593, 32, 1575, 1604, 1575, 1606, 1578,
      1607, 1575, 1569] @ asc ''.'', asc
      ''Evidence of staff PDPL training completion, with expiry tracking.''),
    (''trainingTitle'', [1587, 1580, 1604, 32, 1578, 1583, 1585, 1610, 1576, 32, 1575, 1604, 1605,
      1608, 1592, 1601, 1610, 1606], asc ''DPO training register''),
    (''trainingLead'', [1587, 1580, 1604, 1617, 32, 1605, 1608, 1579, 1614, 1617, 1602, 32, 1576,
      1578, 1583, 1585, 1610, 1576, 1575, 1578, 32, 1581, 1605, 1575, 1610, 1577, 32, 1575, 1604,
      1576, 1610, 1575, 1606, 1575, 1578, 32, 1604, 1603, 1604, 32, 1605, 1608, 1592, 1601, 32,
      1610, 1593, 1575, 1604, 1580, 32, 1576, 1610, 1575, 1606, 1575, 1578, 32, 1588, 1582, 1589,
      1610, 1577] @ asc ''.'', asc
      ''Auditable record of PDPL training per staff member handling personal data.''),
    (''trainingSubjectName'', [1575, 1587, 1605, 32, 1575, 1604, 1605, 1608, 1592, 1601], asc
      ''Subject name''),
    (''trainingSubjectEmail'', [1576, 1585, 1610, 1583, 32, 1575, 1604, 1605, 1608, 1592, 1601,
      32, 1575, 1604, 1573, 1604, 1603, 1578, 1585, 1608, 1606, 1610], asc ''Subject email''),
    (''trainingTopic'', [1605, 1608, 1590, 1608, 1593, 32, 1575, 1604, 1578, 1583, 1585, 1610,
      1576], asc ''Training topic''),
    (''trainingProvider'', [1575, 1604, 1580, 1607, 1577, 32, 1575, 1604, 1605, 1615, 1602, 1583,
      1616, 1617, 1605, 1577], asc ''Provider''),
    (''trainingCompletedAt'', [1578, 1575, 1585, 1610, 1582, 32, 1575, 1604, 1573, 1606, 1580,
      1575, 1586], asc ''Completed at''),
    (''trainingValidUntil'', [1589, 1575, 1604, 1581, 32, 1581, 1578, 1609], asc ''Valid until''),
    (''trainingEvidenceRef'', [1605, 1585, 1580, 1593, 32, 1575, 1604, 1573, 1579, 1576, 1575,
      1578], asc ''Evidence ref''),
    (''trainingNotes'', [1605, 1604, 1575, 1581, 1592, 1575, 1578], asc ''Notes''),
    (''trainingAddRecord'', [1573, 1590, 1575, 1601, 1577, 32, 1587, 1580, 1604], asc
      ''Add record''),
    (''trainingFilterAll'', [1575, 1604, 1603, 1604], asc ''All''),
    (''trainingFilterActive'', [1587, 1575, 1585, 1610, 1577], asc ''Active''),
    (''trainingFilterExpiring'', [1602, 1575, 1585, 1576, 1578, 32, 1593, 1604, 1609, 32, 1575,
      1604, 1575, 1606, 1578, 1607, 1575, 1569], asc ''Expiring''),
    (''trainingFilterExpired'', [1605, 1606, 1578, 1607, 1610, 1577], asc ''Expired''),
    (''trainingFilterNoExpiry'', [1576, 1583, 1608, 1606, 32, 1575, 1606, 1578, 1607, 1575, 1569],
      asc ''No expiry''),
    (''trainingStatusActive'', [1587, 1575, 1585, 1610, 1577], asc ''Active''),
    (''trainingStatusExpiring'', [1602, 1575, 1585, 1576, 1578, 32, 1593, 1604, 1609, 32, 1575,
      1604, 1575, 1606, 1578, 1607, 1575, 1569], asc ''Expiring''),
    (''trainingStatusExpired'', [1605, 1606, 1578, 1607, 1610, 1577], asc ''Expired''),
    (''trainingStatusNoExpiry'', [1576, 1583, 1608, 1606, 32, 1575, 1606, 1578, 1607, 1575, 1569],
      asc ''No expiry''),
    (''trainingDaysLeft'', [1610, 1608, 1605, 1611, 1575, 32, 1605, 1578, 1576, 1602, 1610, 1575,
      1611], asc ''days left''),
    (''trainingDaysExpired'', [1610, 1608, 1605, 1611, 1575, 32, 1605, 1606, 1584, 32, 1575, 1604,
      1575, 1606, 1578, 1607, 1575, 1569], asc ''days expired''),
    (''trainingTotalLabel'', [1575, 1604, 1573, 1580, 1605, 1575, 1604, 1610], asc ''Total''),
    (''trainingNoRecords'', [1604, 1575, 32, 1578, 1608, 1580, 1583, 32, 1587, 1580, 1604, 1575,
      1578, 32, 1578, 1583, 1585, 1610, 1576, 32, 1576, 1593, 1583] @ asc ''.'', asc
      ''No training records yet.''),
    (''trainingDelete'', [1581, 1584, 1601], asc ''Delete''),
    (''trainingEdit'', [1578, 1593, 1583, 1610, 1604], asc ''Edit''),
    (''trainingSave'', [1581, 1601, 1592], asc ''Save''),
    (''trainingCancel'', [1573, 1604, 1594, 1575, 1569], asc ''Cancel''),
    (''trainingConfirmDelete'', [1578, 1571, 1603, 1610, 1583, 32, 1581, 1584, 1601, 32, 1587,
      1580, 1604, 32, 1575, 1604, 1578, 1583, 1585, 1610, 1576, 1567], asc
      ''Delete this training record?'')]"

definition strings_sector :: "(string \<times> utext \<times> utext) list" where
  "strings_sector = [
    (''sectorReclassify'', [1573, 1593, 1575, 1583, 1577, 32, 1578, 1589, 1606, 1610, 1601, 32,
      1575, 1604, 1602, 1591, 1575, 1593, 32, 40, 1575, 1604, 1584, 1603, 1575, 1569, 32, 1575,
      1604, 1575, 1589, 1591, 1606, 1575, 1593, 1610] @ asc '')'', asc
      ''Re-classify sector (LLM)''),
    (''sectorReclassifyRunning'', [1580, 1575, 1585, 1610, 32, 1575, 1604, 1578, 1589, 1606, 1610,
      1601, 8230], asc ''Classifying'' @ [8230]),
    (''sectorReclassifyDone'', [1578, 1605, 32, 1575, 1604, 1578, 1589, 1606, 1610, 1601] @ asc
      '':'', asc ''Classified as:''),
    (''sectorReclassifyFailed'', [1578, 1593, 1584, 1617, 1585, 32, 1573, 1593, 1575, 1583, 1577,
      32, 1575, 1604, 1578, 1589, 1606, 1610, 1601], asc ''Re-classify failed'')]"

definition strings_ingestion :: "(string \<times> utext \<times> utext) list" where
  "strings_ingestion = [
    (''adminCardIngestionRuns'', [1578, 1588, 1594, 1610, 1604, 1575, 1578, 32, 1605, 1615, 1580,
      1605, 1616, 1617, 1593, 32, 1575, 1604, 1593, 1591, 1575, 1569, 1575, 1578], asc
      ''Ingestion runs''),
    (''adminCardIngestionRunsDesc'', [1605, 1585, 1575, 1602, 1576, 1577, 32, 1608, 1578, 1588,
      1594, 1610, 1604, 32, 1578, 1580, 1605, 1610, 1593, 32, 1575, 1604, 1593, 1591, 1575, 1569,
      1575, 1578, 32, 1605, 1606, 32, 1575, 1604, 1605, 1589, 1575, 1583, 1585, 32, 1575, 1604,
      1585, 1587, 1605, 1610, 1577] @ asc ''.'', asc
      ''Monitor + trigger external-source tender ingestion runs.''),
    (''ingestionRunsTitle'', [1578, 1588, 1594, 1610, 1604, 1575, 1578, 32, 1575, 1604, 1605,
      1615, 1580, 1605, 1616, 1617, 1593], asc ''Ingestion runs''),
    (''ingestionRunsLead'', [1610, 1602, 1608, 1605, 32, 1582, 1583, 1605, 1577, 32, 1580, 1605,
      1593, 32, 1575, 1604, 1593, 1591, 1575, 1569, 1575, 1578, 32, 1576, 1587, 1581, 1576, 32,
      1575, 1604, 1576, 1610, 1575, 1606, 1575, 1578, 32, 1608, 1573, 1579, 1585, 1575, 1574,
      1607, 1575, 32, 1579, 1605, 32, 1573, 1585, 1587, 1575, 1604, 1607, 1575, 32, 1573, 1604,
      1609, 32, 1575, 1604, 1605, 1606, 1589, 1577] @ asc ''.'', asc
      ''The ingestion service scrapes sources, LLM-enriches, then syncs curation-ready tenders here.''),
    (''ingestionTrigger'', [1578, 1588, 1594, 1610, 1604, 32, 1580, 1583, 1610, 1583], asc
      ''Trigger run''),
    (''ingestionSource'', [1575, 1604, 1605, 1589, 1583, 1585], asc ''Source''),
    (''ingestionStarted'', [1576, 1583, 1571, 32, 1601, 1610], asc ''Started''),
    (''ingestionStatus'', [1575, 1604, 1581, 1575, 1604, 1577], asc ''Status''),
    (''ingestionCounters'', [1575, 1604, 1593, 1583, 1617, 1575, 1583, 1575, 1578], asc
      ''Counters''),
    (''ingestionMaxPages'', [1581, 1583, 32, 1575, 1604, 1589, 1601, 1581, 1575, 1578], asc
      ''Max pages''),
    (''ingestionMaxItems'', [1581, 1583, 32, 1575, 1604, 1593, 1606, 1575, 1589, 1585], asc
      ''Max items''),
    (''ingestionSyncToAdmin'', [1605, 1586, 1575, 1605, 1606, 1577, 32, 1601, 1608, 1585, 1610,
      1577], asc ''Sync now''),
    (''ingestionNoRuns'', [1604, 1575, 32, 1578, 1608, 1580, 1583, 32, 1578, 1588, 1594, 1610,
      1604, 1575, 1578, 32, 1576, 1593, 1583] @ asc ''.'', asc ''No runs yet.''),
    (''ingestionTriggerSuccess'', [1578, 1605, 32, 1576, 1583, 1569, 32, 1575, 1604, 1578, 1588,
      1594, 1610, 1604, 32, 1576, 1606, 1580, 1575, 1581], asc ''Run triggered successfully''),
    (''ingestionTriggerFailed'', [1578, 1593, 1584, 1617, 1585, 32, 1576, 1583, 1569, 32, 1575,
      1604, 1578, 1588, 1594, 1610, 1604], asc ''Trigger failed''),
    (''auditTitle'', [1587, 1580, 1604, 32, 1575, 1604, 1578, 1583, 1602, 1610, 1602], asc
      ''Audit log''),
    (''auditAction'', [1575, 1604, 1573, 1580, 1585, 1575, 1569], asc ''Action''),
    (''auditEntity'', [1575, 1604, 1603, 1610, 1575, 1606], asc ''Entity''),
    (''auditTimestamp'', [1575, 1604, 1608, 1602, 1578], asc ''Timestamp''),
    (''auditUser'', [1575, 1604, 1605, 1587, 1578, 1582, 1583, 1605], asc ''User''),
    (''auditAnonymised'', [1605, 1580, 1607, 1614, 1617, 1604], asc ''Anonymised'')]"

definition strings_documents :: "(string \<times> utext \<times> utext) list" where
  "strings_documents = [
    (''documentsTitle'', [1575, 1604, 1608, 1579, 1575, 1574, 1602], asc ''Documents''),
    (''documentsLead'', [1582, 1586, 1575, 1606, 1577, 32, 1608, 1579, 1575, 1574, 1602, 32, 1575,
      1604, 1593, 1605, 1610, 1604, 32, 1575, 1604, 1602, 1575, 1576, 1604, 1577, 32, 1604, 1573,
      1593, 1575, 1583, 1577, 32, 1575, 1604, 1575, 1587, 1578, 1582, 1583, 1575, 1605, 32, 1593,
      1576, 1585, 32, 1575, 1604, 1593, 1591, 1575, 1569, 1575, 1578] @ asc ''.'', asc
      ''Per-client document vault, reusable across tenders.''),
    (''registerDocument'', [1578, 1587, 1580, 1610, 1604, 32, 1608, 1579, 1610, 1602, 1577], asc
      ''Register document''),
    (''filename'', [1575, 1587, 1605, 32, 1575, 1604, 1605, 1604, 1601], asc ''Filename''),
    (''documentType'', [1575, 1604, 1606, 1608, 1593], asc ''Type''),
    (''sensitivity'', [1575, 1604, 1581, 1587, 1575, 1587, 1610, 1577], asc ''Sensitivity''),
    (''expiresAt'', [1578, 1575, 1585, 1610, 1582, 32, 1575, 1604, 1575, 1606, 1578, 1607, 1575,
      1569], asc ''Expires at''),
    (''docTypeLegal'', [1602, 1575, 1606, 1608, 1606, 1610], asc ''legal''),
    (''docTypeFinancial'', [1605, 1575, 1604, 1610], asc ''financial''),
    (''docTypeTechnical'', [1601, 1606, 1610], asc ''technical''),
    (''docTypeAdmin'', [1573, 1583, 1575, 1585, 1610], asc ''admin''),
    (''docTypeOther'', [1570, 1582, 1585], asc ''other''),
    (''sensitivityLow'', [1605, 1606, 1582, 1601, 1590, 1577], asc ''low''),
    (''sensitivityMedium'', [1605, 1578, 1608, 1587, 1591, 1577], asc ''medium''),
    (''sensitivityHigh'', [1605, 1585, 1578, 1601, 1593, 1577], asc ''high''),
    (''stateActive'', [1606, 1588, 1591, 1577], asc ''Active''),
    (''stateExpiring'', [1602, 1575, 1585, 1576, 1578, 32, 1593, 1604, 1609, 32, 1575, 1604, 1575,
      1606, 1578, 1607, 1575, 1569], asc ''Expiring''),
    (''stateRestricted'', [1605, 1602, 1610, 1614, 1617, 1583, 1577], asc ''Restricted''),
    (''stateArchived'', [1605, 1572, 1585, 1588, 1601, 1577], asc ''Archived''),
    (''cycleState'', [1578, 1594, 1610, 1610, 1585, 32, 1575, 1604, 1581, 1575, 1604, 1577], asc
      ''Change state''),
    (''noDocumentsYet'', [1604, 1575, 32, 1578, 1608, 1580, 1583, 32, 1608, 1579, 1575, 1574,
      1602, 32, 1576, 1593, 1583, 46, 32, 1575, 1576, 1583, 1571, 32, 1576, 1578, 1587, 1580,
      1610, 1604, 32, 1608, 1579, 1610, 1602, 1577, 32, 1580, 1583, 1610, 1583, 1577] @ asc ''.'',
      asc ''No documents yet. Register one to get started.'')]"

definition strings_compliance :: "(string \<times> utext \<times> utext) list" where
  "strings_compliance = [
    (''complianceTitle'', [1575, 1604, 1575, 1605, 1578, 1579, 1575, 1604], asc ''Compliance''),
    (''complianceLead'', [1606, 1592, 1585, 1577, 32, 1588, 1575, 1605, 1604, 1577, 32, 1593,
      1604, 1609, 32, 1605, 1589, 1601, 1608, 1601, 1575, 1578, 32, 1575, 1604, 1575, 1605, 1578,
      1579, 1575, 1604, 32, 1604, 1603, 1604, 32, 1575, 1604, 1593, 1591, 1575, 1569, 1575, 1578]
      @ asc ''.'', asc ''Cross-tender view of compliance matrix coverage.''),
    (''latestVersion'', [1571, 1581, 1583, 1579, 32, 1573, 1589, 1583, 1575, 1585], asc
      ''Latest version''),
    (''matrixCount'', [1593, 1583, 1583, 32, 1575, 1604, 1605, 1589, 1601, 1608, 1601, 1575,
      1578], asc ''Matrices''),
    (''generatedAt'', [1578, 1575, 1585, 1610, 1582, 32, 1575, 1604, 1578, 1608, 1604, 1610,
      1583], asc ''Generated at''),
    (''noMatrix'', [1604, 1575, 32, 1578, 1608, 1580, 1583, 32, 1605, 1589, 1601, 1608, 1601,
      1577], asc ''No matrix''),
    (''generateNew'', [1573, 1606, 1588, 1575, 1569], asc ''Generate'')]"

definition strings_reports :: "(string \<times> utext \<times> utext) list" where
  "strings_reports = [
    (''reportsTitle'', [1575, 1604, 1578, 1602, 1575, 1585, 1610, 1585], asc ''Reports''),
    (''reportsLead'', [1605, 1572, 1588, 1585, 1575, 1578, 32, 1575, 1604, 1571, 1583, 1575, 1569,
      32, 1593, 1576, 1585, 32, 1575, 1604, 1593, 1591, 1575, 1569, 1575, 1578, 32, 1608, 1575,
      1604, 1608, 1579, 1575, 1574, 1602, 32, 1608, 1587, 1580, 1604, 32, 1575, 1604, 1578, 1583,
      1602, 1610, 1602] @ asc ''.'', asc ''KPIs across tenders, documents, and the audit log.''),
    (''reportTenderStatus'', [1578, 1608, 1586, 1617, 1593, 32, 1581, 1575, 1604, 1575, 1578, 32,
      1575, 1604, 1593, 1591, 1575, 1569, 1575, 1578], asc ''Tender status distribution''),
    (''reportDocHealth'', [1589, 1581, 1577, 32, 1575, 1604, 1608, 1579, 1575, 1574, 1602], asc
      ''Document health''),
    (''reportAuditActivity'', [1570, 1582, 1585, 32, 1575, 1604, 1606, 1588, 1575, 1591, 32, 40,
      1570, 1582, 1585] @ asc '' 100 '' @ [1581, 1583, 1579] @ asc '')'', asc
      ''Recent activity (last 100 events)''),
    (''expiryWindow'', [1606, 1575, 1601, 1584, 1577, 32, 1575, 1604, 1575, 1606, 1578, 1607,
      1575, 1569], asc ''Expiry window''),
    (''next30Days'', [1582, 1604, 1575, 1604] @ asc '' 30 '' @ [1610, 1608, 1605, 1575, 1611], asc
      ''Next 30 days''),
    (''next60Days'', [1582, 1604, 1575, 1604] @ asc '' 60 '' @ [1610, 1608, 1605, 1575, 1611], asc
      ''Next 60 days''),
    (''next90Days'', [1582, 1604, 1575, 1604] @ asc '' 90 '' @ [1610, 1608, 1605, 1575, 1611], asc
      ''Next 90 days''),
    (''total'', [1575, 1604, 1573, 1580, 1605, 1575, 1604, 1610], asc ''Total''),
    (''count'', [1575, 1604, 1593, 1583, 1583], asc ''Count''),
    (''topActions'', [1571, 1576, 1585, 1586, 32, 1575, 1604, 1573, 1580, 1585, 1575, 1569, 1575,
      1578], asc ''Top actions'')]"

definition strings_settings :: "(string \<times> utext \<times> utext) list" where
  "strings_settings = [
    (''settingsTitle'', [1575, 1604, 1573, 1593, 1583, 1575, 1583, 1575, 1578], asc ''Settings''),
    (''settingsLead'', [1575, 1604, 1605, 1604, 1601, 32, 1575, 1604, 1588, 1582, 1589, 1610, 32,
      1608, 1575, 1604, 1604, 1594, 1577, 32, 1608, 1587, 1580, 1604, 32, 1575, 1604, 1605, 1572,
      1587, 1587, 1577] @ asc ''.'', asc ''Profile, language, organization.''),
    (''profileCard'', [1575, 1604, 1605, 1604, 1601, 32, 1575, 1604, 1588, 1582, 1589, 1610], asc
      ''Profile''),
    (''languageCard'', [1575, 1604, 1604, 1594, 1577], asc ''Language''),
    (''organizationCard'', [1575, 1604, 1605, 1572, 1587, 1587, 1577], asc ''Organization''),
    (''accountActionsCard'', [1573, 1580, 1585, 1575, 1569, 1575, 1578, 32, 1575, 1604, 1581,
      1587, 1575, 1576], asc ''Account actions''),
    (''yourErasureLink'', [1604, 1591, 1604, 1576, 32, 1605, 1587, 1581, 32, 1576, 1610, 1575,
      1606, 1575, 1578, 1603, 1548, 32, 1578, 1608, 1580, 1617, 1607, 32, 1573, 1604, 1609], asc
      ''To request erasure of your account, go to''),
    (''notSignedIn'', [1594, 1610, 1585, 32, 1605, 1587, 1580, 1614, 1617, 1604, 32, 1575, 1604,
      1583, 1582, 1608, 1604], asc ''Not signed in'')]"

definition strings :: "(string \<times> utext \<times> utext) list" where
  "strings = strings_shell @ strings_admin @ strings_tender @ strings_training @ strings_sector @ strings_ingestion @ strings_documents @ strings_compliance @ strings_reports @ strings_settings"

definition t_text :: "string \<Rightarrow> lang \<Rightarrow> utext" where
  "t_text key l = (case map_of strings key of
     Some (ar, en) \<Rightarrow> (case l of Ar \<Rightarrow> ar | En \<Rightarrow> en)
   | None \<Rightarrow> [])"

lemmas strings_tables = strings_shell_def strings_admin_def strings_tender_def strings_training_def
  strings_sector_def strings_ingestion_def strings_documents_def strings_compliance_def
  strings_reports_def strings_settings_def

subsection \<open>The language of a request\<close>

definition DEFAULT_LOCALE :: lang where "DEFAULT_LOCALE = Ar"

definition LOCALE_COOKIE :: string where "LOCALE_COOKIE = ''bidready_locale''"

definition isLocale :: "string option \<Rightarrow> lang option" where
  "isLocale v = (if v = Some ''ar'' then Some Ar else if v = Some ''en'' then Some En else None)"

definition dir :: "lang \<Rightarrow> string" where
  "dir l = (case l of Ar \<Rightarrow> ''rtl'' | En \<Rightarrow> ''ltr'')"

text \<open>\<open>window\<close>: the code runs in a browser, where it does not look at the cookies.\<close>

definition resolveServerLocale :: "bool \<Rightarrow> (string \<Rightarrow> string option) \<Rightarrow> lang" where
  "resolveServerLocale window cookies =
     (if window then DEFAULT_LOCALE else orElse (isLocale (cookies LOCALE_COOKIE)) DEFAULT_LOCALE)"

text \<open>The state of the provider: the language and the cookie line it wrote last.\<close>

definition locale_cookie :: "lang \<Rightarrow> string" where
  "locale_cookie next = LOCALE_COOKIE @ ''='' @ lang_name next @ ''; Path=/; Max-Age='' @
     show_nat (60 * 60 * 24 * 365) @ ''; SameSite=Lax''"

definition setLocale :: "lang \<Rightarrow> lang \<Rightarrow> lang \<times> effect list" where
  "setLocale next cur = (next, [Set_cookie (locale_cookie next), Refresh])"

text \<open>What a browser keeps of a cookie line: the name and the value before the attributes.\<close>

definition kept_cookie :: "string \<Rightarrow> string \<times> string" where
  "kept_cookie line =
     (let pair = takeWhile (\<lambda>c. c \<noteq> CHR '';'') line
      in (takeWhile (\<lambda>c. c \<noteq> CHR ''='') pair, tl (dropWhile (\<lambda>c. c \<noteq> CHR ''='') pair)))"

lemma kept_locale: "kept_cookie (locale_cookie l) = (LOCALE_COOKIE, lang_name l)"
  by (cases l) (simp_all add: kept_cookie_def locale_cookie_def LOCALE_COOKIE_def lang_name_def)

text \<open>
  The next page of the server is in the language the user chose, whatever other cookies there are.
\<close>

lemma chosen_language_served:
  "resolveServerLocale False (cookies(fst (kept_cookie c) \<mapsto> snd (kept_cookie c))) = fst (setLocale l cur)"
  if "Set_cookie c \<in> set (snd (setLocale l cur))"
  using that
  by (cases l) (auto simp: setLocale_def resolveServerLocale_def isLocale_def orElse_def kept_locale lang_name_def)

lemma server_language_known: "resolveServerLocale w cookies = Ar \<or> resolveServerLocale w cookies = En"
  by (cases "resolveServerLocale w cookies") simp_all

subsection \<open>The dictionary is complete\<close>

lemma strings_texts: "list_all (\<lambda>(_, ar, en). ar \<noteq> [] \<and> en \<noteq> []) strings"
  unfolding strings_def by (simp add: strings_tables)

end
