(* ===== verification/Forms.thy ===== *)
theory Forms
  imports I18n
begin

text \<open>
  What the components of the web application share: the parts of the platform they print with, the
  message of an error, and the shell around every page.
\<close>

subsection \<open>The platform\<close>

text \<open>
  How dates print depends on the machine: parameters (\<open>pl_dateText\<close> is
  \<^verbatim>\<open>new Date(v).toLocaleString()\<close> of a value of an answer). \<open>pl_toIso\<close> is \<^verbatim>\<open>new Date(s).toISOString()\<close>,
  \<open>None\<close> where it throws, and \<open>pl_number\<close> is \<^verbatim>\<open>Number(s)\<close>, \<open>None\<close> for \<^verbatim>\<open>NaN\<close>.
\<close>

record platform =
  pl_dateTime :: "time \<Rightarrow> utext"
  pl_date :: "time \<Rightarrow> utext"
  pl_dateTimeIn :: "string \<Rightarrow> time \<Rightarrow> utext"
  pl_dateIn :: "string \<Rightarrow> time \<Rightarrow> utext"
  pl_dateText :: "json \<Rightarrow> utext"
  pl_toIso :: "string \<Rightarrow> string option"
  pl_number :: "string \<Rightarrow> rat option"

text \<open>\<^verbatim>\<open>x.toFixed(n)\<close>, on exact numbers\<close>

definition toFixed :: "nat \<Rightarrow> rat \<Rightarrow> string" where
  "toFixed n x =
     (let k = nat \<lfloor>\<bar>x\<bar> * 10 ^ n + 1 / 2\<rfloor>;
          frac = show_nat (k mod 10 ^ n)
      in (if x < 0 then ''-'' else []) @ show_nat (k div 10 ^ n) @ (if n = 0 then [] else ''.'' @ replicate (n - length frac) (CHR ''0'') @ frac))"

definition file_size :: "int \<Rightarrow> string" where
  "file_size n =
     (if n < 1024 then show_int n @ '' B''
      else if n < 1024 * 1024 then show_int (js_round (of_int n / 1024)) @ '' KB''
      else toFixed 1 (of_int n / (1024 * 1024)) @ '' MB'')"

subsection \<open>Errors\<close>

text \<open>The message of a failed call: one of the dictionary, or what the answer says.\<close>

datatype shown = Msg utext | Raw json

fun show_json :: "json \<Rightarrow> 'e node list" where
  "show_json (JStr s) = [tx s]"
| "show_json (JNum n) = [tx (stringify (JNum n))]"
| "show_json (JArr xs) = concat (map show_json xs)"
| "show_json (JObj kvs) = [Broken]"
| "show_json v = []"

definition show_error :: "shown option \<Rightarrow> 'e node list" where
  "show_error e = (case e of None \<Rightarrow> [] | Some (Msg t) \<Rightarrow> [Tx t] | Some (Raw v) \<Rightarrow> show_json v)"

lemma show_json_inert [simp]:
  "offers_list (show_json v) e \<longleftrightarrow> False" "submits_list (show_json v) = []"
  by (induction v rule: show_json.induct) simp_all

lemma show_error_inert [simp]:
  "offers_list (show_error x) e \<longleftrightarrow> False" "submits_list (show_error x) = []"
  by (simp_all add: show_error_def split: option.split shown.split)

definition truthy_shown :: "shown option \<Rightarrow> bool" where
  "truthy_shown e \<longleftrightarrow> (case e of None \<Rightarrow> False | Some (Msg t) \<Rightarrow> t \<noteq> [] | Some (Raw v) \<Rightarrow> \<not> falsy v)"

definition said :: "string \<Rightarrow> shown" where "said s = Raw (JStr s)"

text \<open>\<^verbatim>\<open>body?.message ?? fallback\<close>\<close>

definition api_message :: "string \<Rightarrow> json \<Rightarrow> shown" where
  "api_message fallback b =
     (case member_of (Some b) ''message'' of None \<Rightarrow> said fallback | Some JNull \<Rightarrow> said fallback | Some v \<Rightarrow> Raw v)"

definition plain_error :: "string \<Rightarrow> web_error \<Rightarrow> shown" where
  "plain_error fallback e = (case e of ApiError _ b \<Rightarrow> api_message fallback b | Failed _ \<Rightarrow> said fallback)"

definition guarded_error :: "lang \<Rightarrow> string \<Rightarrow> web_error \<Rightarrow> shown" where
  "guarded_error l fallback e =
     (case e of
        ApiError s b \<Rightarrow> if s = 403 then Msg (t_text ''accessDenied'' l) else api_message fallback b
      | Failed _ \<Rightarrow> said fallback)"

definition denied_or_failed :: "lang \<Rightarrow> web_error \<Rightarrow> shown" where
  "denied_or_failed l e =
     (case e of
        ApiError s b \<Rightarrow> if s = 403 then Msg (t_text ''accessDenied'' l) else said ''Failed''
      | Failed _ \<Rightarrow> said ''Failed'')"

text \<open>A value inside a template literal: \<^verbatim>\<open>String(v)\<close>.\<close>

fun js_string :: "json \<Rightarrow> string" where
  "js_string (JStr s) = s"
| "js_string (JArr xs) = join '','' (map (\<lambda>x. if x = JNull then [] else js_string x) xs)"
| "js_string (JObj kvs) = ''[object Object]''"
| "js_string v = stringify v"

definition in_template :: "json option \<Rightarrow> string" where
  "in_template v = (case v of None \<Rightarrow> ''undefined'' | Some x \<Rightarrow> js_string x)"

text \<open>\<^verbatim>\<open>title: body?.message ?? err.status\<close>\<close>

definition titled_error :: "utext \<Rightarrow> web_error \<Rightarrow> shown" where
  "titled_error title e =
     (case e of
        ApiError s b \<Rightarrow> Msg (title @ asc '': '' @
          (case member_of (Some b) ''message'' of
             None \<Rightarrow> asc (show_int s) | Some JNull \<Rightarrow> asc (show_int s)
           | Some v \<Rightarrow> asc (js_string v)))
      | Failed _ \<Rightarrow> Msg title)"

text \<open>Reading a member of an answer: \<^verbatim>\<open>undefined\<close> and \<^verbatim>\<open>null\<close> have none and throw.\<close>

definition answer_member :: "json option \<Rightarrow> string \<Rightarrow> json option option" where
  "answer_member v k = (case v of None \<Rightarrow> None | Some JNull \<Rightarrow> None | Some x \<Rightarrow> Some (member_of (Some x) k))"

end
