(* ===== verification/Forms_Tender.thy ===== *)
theory Forms_Tender
  imports Forms
begin

text \<open>
  The client components around tenders, documents and clients (\<^verbatim>\<open>app/tenders\<close>,
  \<^verbatim>\<open>app/documents\<close>, \<^verbatim>\<open>app/clients\<close>): for each its state (the properties that a refresh may
  change and the \<^verbatim>\<open>useState\<close> values), its events, its view, its reaction and what it makes of the
  answer. The trees of the views are those of the JSX, attribute by attribute.
\<close>

subsection \<open>Who has access to a tender\<close>

definition ACCESS_ROLES :: "string list" where
  "ACCESS_ROLES = [''Owner'', ''Editor'', ''Reviewer'', ''Viewer'']"

record access_form =
  af_granted :: "tender_access list"
  af_users :: "public_user list option"
  af_usersDenied :: bool
  af_userId :: string
  af_role :: string
  af_busy :: bool
  af_error :: "shown option"

datatype access_event =
    Set_userId string | Set_role string | Grant | Revoke tender_access | Access_refreshed "tender_access list"

datatype access_call = Listing_users api_call | Granting api_call | Revoking api_call

text \<open>The users come as the rows of the API, the other answers only count as such.\<close>

datatype access_answer = Users_are "public_user list" | Done | Refused web_error

definition access_grantable :: "access_form \<Rightarrow> public_user list" where
  "access_grantable s = grantable (af_granted s) (case af_users s of None \<Rightarrow> [] | Some us \<Rightarrow> us)"

definition userById :: "access_form \<Rightarrow> ident \<Rightarrow> public_user option" where
  "userById s i =
     map_of (rev (map (\<lambda>u. (pu_id u, u)) (case af_users s of None \<Rightarrow> [] | Some us \<Rightarrow> us))) i"

definition access_section_view :: "platform \<Rightarrow> lang \<Rightarrow> access_form \<Rightarrow> access_event node list" where
  "access_section_view pl l s =
     [El ''section'' [cls ''panel'']
        ([El ''header'' [cls ''panel-header''] [El ''h2'' [] [Tx (t_text ''accessTitle'' l)]],
         El ''form'' [cls ''admin-form-inline'', (''onSubmit'', Submit Grant),
             (''noValidate'', On_off True)]
           ([El ''label'' [str ''htmlFor'' ''access-user'']
              [Tx (if af_usersDenied s \<or> af_users s = None then t_text ''userIdLabel'' l else
                  t_text ''user'' l)]] @
           (if af_users s \<noteq> None \<and> \<not> af_usersDenied s
            then (if length (access_grantable s) = 0
                  then [El ''p'' [cls ''muted'']
                          [Tx (if af_users s = Some [] then t_text ''noResults'' l else (if l = Ar
                              then [1578, 1605, 32, 1605, 1606, 1581, 32, 1575, 1604, 1589, 1604,
                                  1575, 1581, 1610, 1577, 32, 1604, 1580, 1605, 1610, 1593, 32,
                                      1575, 1604, 1605, 1587, 1578, 1582, 1583, 1605, 1610, 1606] @
                                          asc ''.'' else asc ''All users already have access.''))]]
                  else [El ''select'' [str ''id'' ''access-user'', (''required'', On_off True),
                            str ''value'' (af_userId s), (''onChange'', Typed Set_userId)]
                          (concat (map (\<lambda>u.
                            [El ''option'' [str ''key'' (pu_id u), str ''value'' (pu_id u)]
                               [tx (pu_name u),
                                tx '' ('',
                                tx (role_name (pu_role u)),
                                Tx (asc '') '' @ [8212] @ asc '' ''),
                                tx (pu_email u)]])
                            (access_grantable s)))])
            else [El ''input'' [str ''id'' ''access-user'', str ''type'' ''text'',
                      (''required'', On_off True), str ''value'' (af_userId s),
                      (''onChange'', Typed Set_userId), str ''placeholder'' ''uuid''] []]) @
           [El ''label'' [str ''htmlFor'' ''access-role''] [Tx (t_text ''role'' l)],
            El ''select'' [str ''id'' ''access-role'', str ''value'' (af_role s),
                (''onChange'', Typed Set_role)]
              (concat (map (\<lambda>r.
                [El ''option'' [str ''key'' r, str ''value'' r] [tx r]])
                ACCESS_ROLES)),
            El ''button'' [str ''type'' ''submit'',
                (''disabled'', On_off (af_busy s \<or> trim (af_userId s) = [] \<or> (af_users s
                    \<noteq> None \<and> length (access_grantable s) = 0))),
                (''aria-busy'', On_off (af_busy s))]
              [Tx (if af_busy s then t_text ''saving'' l else t_text ''grantAccess'' l)]])] @
        (if truthy_shown (af_error s)
         then [El ''p'' [str ''role'' ''alert'', cls ''form-error''] (show_error (af_error s))]
         else []) @
        (if length (af_granted s) = 0
         then [El ''p'' [cls ''muted''] [Tx (t_text ''noAccessYet'' l)]]
         else [El ''table'' [cls ''admin-table'']
                 [El ''thead'' []
                    [El ''tr'' []
                       [El ''th'' [str ''scope'' ''col''] [Tx (t_text ''user'' l)],
                        El ''th'' [str ''scope'' ''col''] [Tx (t_text ''role'' l)],
                        El ''th'' [str ''scope'' ''col''] [Tx (t_text ''auditTimestamp'' l)],
                        El ''th'' [str ''scope'' ''col''] []]],
                  El ''tbody'' []
                    (concat (map (\<lambda>a.
                      (let u = userById s (ta_userId a)
                       in [El ''tr'' [str ''key'' (ta_id a)]
                             [El ''td'' []
                                ((case u of
                                  Some u \<Rightarrow>
                                    [El ''strong'' [] [tx (pu_name u)],
                                     El ''br'' [] [],
                                     El ''span'' [cls ''muted small''] [tx (pu_email u)]]
                                | None \<Rightarrow> [El ''span'' [cls ''mono'']
                                            [tx (take 8 (ta_userId a)), Tx [8230]]])),
                              El ''td'' [] [El ''span'' [cls ''chip''] [tx (ta_role a)]],
                              El ''td'' [cls ''muted''] [Tx (pl_dateTime pl (ta_grantedAt a))],
                              El ''td'' []
                                [El ''button'' [str ''type'' ''button'', cls ''btn-sm btn-danger'',
                                     (''disabled'', On_off (af_busy s)),
                                     (''onClick'', Click (Revoke a))]
                                   [Tx (t_text ''revoke'' l)]]]]))
                      (af_granted s)))]]))]"

definition access_react :: "string \<Rightarrow> access_event \<Rightarrow> access_form \<Rightarrow> (access_form, access_call) outcome" where
  "access_react tenderId e s =
     (case e of
        Set_userId v \<Rightarrow> (s\<lparr>af_userId := v\<rparr>, [], [])
      | Set_role v \<Rightarrow> (s\<lparr>af_role := v\<rparr>, [], [])
      | Access_refreshed rows \<Rightarrow> (s\<lparr>af_granted := rows\<rparr>, [], [])
      | Grant \<Rightarrow> (s\<lparr>af_busy := True, af_error := None\<rparr>,
          [Granting (web_grantAccess tenderId
             (JObj [(''userId'', JStr (trim (af_userId s))), (''role'', JStr (af_role s))]))], [])
      | Revoke row \<Rightarrow> (s\<lparr>af_busy := True, af_error := None\<rparr>,
          [Revoking (web_revokeAccess tenderId (ta_userId row))], []))"

text \<open>
  The effect that loads the users runs once, with the empty \<^verbatim>\<open>userId\<close> of the first rendering in its
  closure: the first user is preselected whatever was typed meanwhile.
\<close>

definition access_loaded :: "access_answer \<Rightarrow> access_form \<Rightarrow> access_form" where
  "access_loaded a s =
     (case a of
        Users_are us \<Rightarrow> s\<lparr>af_users := Some us, af_userId := (if us \<noteq> [] then pu_id (hd us) else af_userId s)\<rparr>
      | Refused (ApiError st _) \<Rightarrow> if st = 403 then s\<lparr>af_usersDenied := True\<rparr> else s
      | _ \<Rightarrow> s)"

definition access_settle ::
    "lang \<Rightarrow> access_call \<Rightarrow> access_answer \<Rightarrow> access_form \<Rightarrow> (access_form, access_call) outcome" where
  "access_settle l r a s =
     (case r of
        Listing_users _ \<Rightarrow> (access_loaded a s, [], [])
      | Granting _ \<Rightarrow> (case a of
            Refused e \<Rightarrow> (s\<lparr>af_error := Some (guarded_error l ''Failed'' e), af_busy := False\<rparr>, [], [])
          | _ \<Rightarrow> (s\<lparr>af_userId := [], af_busy := False\<rparr>, [], [Refresh]))
      | Revoking _ \<Rightarrow> (case a of
            Refused e \<Rightarrow> (s\<lparr>af_error := Some (denied_or_failed l e), af_busy := False\<rparr>, [], [])
          | _ \<Rightarrow> (s\<lparr>af_busy := False\<rparr>, [], [Refresh])))"

definition access_init :: "tender_access list \<Rightarrow> access_form" where
  "access_init rows = \<lparr>af_granted = rows, af_users = None, af_usersDenied = False, af_userId = [],
     af_role = ''Reviewer'', af_busy = False, af_error = None\<rparr>"

definition access_ambient :: "access_event \<Rightarrow> bool" where
  "access_ambient e \<longleftrightarrow> (case e of Access_refreshed _ \<Rightarrow> True | _ \<Rightarrow> False)"

definition access_locks :: "access_call \<Rightarrow> bool" where
  "access_locks r \<longleftrightarrow> (case r of Listing_users _ \<Rightarrow> False | _ \<Rightarrow> True)"

definition access_section ::
    "platform \<Rightarrow> lang \<Rightarrow> string \<Rightarrow> tender_access list \<Rightarrow> (access_form, access_event, access_call, access_answer) component" where
  "access_section pl l tenderId rows = \<lparr>cp_view = access_section_view pl l, cp_react = access_react tenderId,
     cp_settle = access_settle l, cp_ambient = access_ambient, cp_locks = access_locks,
     cp_start = access_init rows, cp_mount = [Listing_users web_listUsers]\<rparr>"

interpretation access: released_form "access_section pl l tenderId rows" af_busy "\<lambda>e. e = Grant \<or> (\<exists>a. e = Revoke a)"
  for pl l tenderId rows
proof unfold_locales
  show "af_busy s \<Longrightarrow> offers_list (cp_view (access_section pl l tenderId rows) s) e \<Longrightarrow>
      \<not> (e = Grant \<or> (\<exists>a. e = Revoke a))" for s e
    by (cases e) (auto simp: access_section_def access_section_view_def off_def str_def cls_def split: option.splits if_splits)
qed (auto simp: access_section_def access_react_def access_settle_def access_loaded_def access_init_def
    access_ambient_def access_locks_def split: access_event.splits access_call.splits access_answer.splits
    web_error.splits if_splits)

text \<open>The answer of a call that the component only waits for.\<close>

type_synonym web_answer = "web_error + json option"

subsection \<open>The requirements of a tender\<close>

record requirements_form =
  rf_initial :: "tender_requirement list"
  rf_bulk :: string
  rf_busy :: bool
  rf_error :: "shown option"

datatype requirements_event = Set_bulk string | Add_requirements | Requirements_refreshed "tender_requirement list"

definition requirements_view :: "lang \<Rightarrow> requirements_form \<Rightarrow> requirements_event node list" where
  "requirements_view l s =
     [El ''section'' [cls ''panel'']
        ([El ''header'' [cls ''panel-header'']
           [El ''h2'' [] [Tx (t_text ''requirementsTitle'' l)],
            El ''span'' [cls ''muted small''] [Tx (asc (show_nat (length (rf_initial s))))]]] @
        (if length (rf_initial s) = 0
         then [El ''p'' [cls ''muted''] [Tx (t_text ''noRequirementsYet'' l)]]
         else [El ''table'' [cls ''admin-table'']
                 [El ''thead'' []
                    [El ''tr'' []
                       [El ''th'' [str ''scope'' ''col''] [Tx (t_text ''category'' l)],
                        El ''th'' [str ''scope'' ''col''] [Tx (t_text ''textLabel'' l)],
                        El ''th'' [str ''scope'' ''col''] [Tx (t_text ''itemRisk'' l)]]],
                  El ''tbody'' []
                    (concat (map (\<lambda>r.
                      [El ''tr'' [str ''key'' (tr_id r)]
                         [El ''td'' [] [El ''span'' [cls ''chip''] [tx (tr_category r)]],
                          El ''td'' [] [tx (tr_text r)],
                          El ''td'' []
                            [El ''span'' [cls (''chip chip-'' @ tr_risk r)] [tx (tr_risk r)]]]])
                      (rf_initial s)))]]) @
        [El ''details'' [cls ''bulk-add'']
           [El ''summary'' [] [Tx (t_text ''addRequirements'' l)],
            El ''form'' [cls ''admin-form'', (''onSubmit'', Submit Add_requirements)]
              ([El ''label'' [str ''htmlFor'' ''bulk-text''] [Tx (t_text ''bulkPaste'' l)],
               El ''textarea'' [str ''id'' ''bulk-text'', (''rows'', Num 6),
                   str ''value'' (rf_bulk s), (''onChange'', Typed Set_bulk),
                   (''placeholder'', Val (t_text ''bulkExample'' l))] []] @
              (if length (parseBulkText (rf_bulk s)) > 0
               then [El ''p'' [cls ''muted small'']
                       [Tx (asc (show_nat (length (parseBulkText (rf_bulk s))))),
                        tx '' '',
                        Tx (if l = Ar then [1587, 1591, 1585, 32, 1587, 1610, 1615, 1590, 1575,
                            1601] else asc ''lines will be added'')]]
               else []) @
              (if truthy_shown (rf_error s)
               then [El ''p'' [str ''role'' ''alert'', cls ''form-error'']
                       ((show_error (rf_error s)))]
               else []) @
              [El ''button'' [str ''type'' ''submit'',
                   (''disabled'', On_off (rf_busy s \<or> length (parseBulkText (rf_bulk s)) = 0)),
                   (''aria-busy'', On_off (rf_busy s))]
                 [Tx (if rf_busy s then t_text ''saving'' l else t_text ''save'' l)]])]])]"

definition requirements_react ::
    "string \<Rightarrow> requirements_event \<Rightarrow> requirements_form \<Rightarrow> (requirements_form, api_call) outcome" where
  "requirements_react tenderId e s =
     (case e of
        Set_bulk v \<Rightarrow> (s\<lparr>rf_bulk := v\<rparr>, [], [])
      | Requirements_refreshed rows \<Rightarrow> (s\<lparr>rf_initial := rows\<rparr>, [], [])
      | Add_requirements \<Rightarrow>
          if length (parseBulkText (rf_bulk s)) = 0 then (s, [], [])
          else (s\<lparr>rf_busy := True, rf_error := None\<rparr>,
            [web_bulkAddRequirements tenderId (map (\<lambda>(c, x). JObj [(''category'', JStr c), (''text'', JStr x)])
               (parseBulkText (rf_bulk s)))], []))"

definition requirements_settle ::
    "api_call \<Rightarrow> web_answer \<Rightarrow> requirements_form \<Rightarrow> (requirements_form, api_call) outcome" where
  "requirements_settle r a s =
     (case a of
        Inr _ \<Rightarrow> (s\<lparr>rf_bulk := [], rf_busy := False\<rparr>, [], [Refresh])
      | Inl e \<Rightarrow> (s\<lparr>rf_error := Some (plain_error ''Failed'' e), rf_busy := False\<rparr>, [], []))"

definition requirements_section ::
    "lang \<Rightarrow> string \<Rightarrow> tender_requirement list \<Rightarrow> (requirements_form, requirements_event, api_call, web_answer) component" where
  "requirements_section l tenderId rows = \<lparr>cp_view = requirements_view l, cp_react = requirements_react tenderId,
     cp_settle = requirements_settle, cp_ambient = (\<lambda>e. \<exists>r. e = Requirements_refreshed r), cp_locks = (\<lambda>_. True),
     cp_start = \<lparr>rf_initial = rows, rf_bulk = [], rf_busy = False, rf_error = None\<rparr>, cp_mount = []\<rparr>"

interpretation requirements: released_form "requirements_section l tenderId rows" rf_busy "\<lambda>e. e = Add_requirements"
  for l tenderId rows
proof unfold_locales
  show "rf_busy s \<Longrightarrow> offers_list (cp_view (requirements_section l tenderId rows) s) e \<Longrightarrow> \<not> e = Add_requirements"
    for s e
    by (cases e) (auto simp: requirements_section_def requirements_view_def off_def str_def cls_def split: if_splits)
qed (auto simp: requirements_section_def requirements_react_def requirements_settle_def
    split: requirements_event.splits sum.splits if_splits)

subsection \<open>The matrices of a tender\<close>

definition status_label :: "string \<Rightarrow> string" where
  "status_label st = orElse (map_of [(''missing'', ''itemMissing''), (''partial'', ''itemPartial''),
     (''satisfied'', ''itemSatisfied''), (''overridden'', ''itemOverridden'')] st) []"

definition risk_label :: "string \<Rightarrow> string" where
  "risk_label r = orElse (map_of [(''low'', ''riskLow''), (''medium'', ''riskMedium''),
     (''high'', ''riskHigh''), (''critical'', ''riskCritical'')] r) []"

text \<open>\<open>mf_effect\<close> numbers the runs of the effect that loads the items; all but the last are cancelled.\<close>

record matrices_form =
  mf_initial :: "compliance_matrix list"
  mf_busy :: bool
  mf_error :: "shown option"
  mf_openVersion :: "int option"
  mf_items :: "compliance_item list option"
  mf_loading :: bool
  mf_effect :: nat

datatype matrices_event = Generate | Open_version int | Matrices_refreshed "compliance_matrix list"

datatype matrices_call = Generating api_call | Loading_items nat int

datatype matrices_answer = Items_are "compliance_item list" | Generated | Matrices_refused web_error

definition matrices_view :: "lang \<Rightarrow> matrices_form \<Rightarrow> matrices_event node list" where
  "matrices_view l s =
     [El ''section'' [cls ''panel'']
        ([El ''header'' [cls ''panel-header'']
           [El ''h2'' [] [Tx (t_text ''matricesTitle'' l)],
            El ''button'' [str ''type'' ''button'', cls ''btn'', (''onClick'', Click Generate),
                (''disabled'', On_off (mf_busy s)), (''aria-busy'', On_off (mf_busy s))]
              [Tx (if mf_busy s then t_text ''saving'' l else t_text ''generateMatrixAction'' l)]]] @
        (if truthy_shown (mf_error s)
         then [El ''p'' [str ''role'' ''alert'', cls ''form-error''] (show_error (mf_error s))]
         else []) @
        (if length (mf_initial s) = 0
         then [El ''p'' [cls ''muted''] [Tx (t_text ''noMatricesYet'' l)]]
         else [El ''div'' [cls ''filter-row'']
                 (concat (map (\<lambda>m.
                   [El ''button'' [str ''type'' ''button'', str ''key'' (cm_id m),
                        (''onClick'', Click (Open_version (cm_version m))),
                        cls (''chip '' @ (if mf_openVersion s = Some (cm_version m) then
                            ''chip-active'' else ''''))]
                      [tx ''v'', Tx (asc (show_int (cm_version m)))]])
                   (mf_initial s)))] @
              (if mf_loading s
               then [El ''p'' [cls ''muted''] [Tx [8230]]]
               else (if mf_items s \<noteq> None \<and> mf_items s \<noteq> Some []
                     then [El ''table'' [cls ''admin-table'']
                             [El ''thead'' []
                                [El ''tr'' []
                                   [El ''th'' [str ''scope'' ''col'']
                                      [Tx (t_text ''category'' l)],
                                    El ''th'' [str ''scope'' ''col'']
                                      [Tx (t_text ''textLabel'' l)],
                                    El ''th'' [str ''scope'' ''col'']
                                      [Tx (t_text ''itemStatus'' l)],
                                    El ''th'' [str ''scope'' ''col'']
                                      [Tx (t_text ''itemRisk'' l)],
                                    El ''th'' [str ''scope'' ''col''] [Tx (t_text ''owner'' l)]]],
                              El ''tbody'' []
                                (concat (map (\<lambda>item.
                                  [El ''tr'' [str ''key'' (ci_id item)]
                                     [El ''td'' []
                                        [El ''span'' [cls ''chip''] [tx (ci_category item)]],
                                      El ''td'' [] [tx (ci_requirementText item)],
                                      El ''td'' []
                                        [El ''span'' [cls (''chip chip-'' @ ci_status item)]
                                           [Tx (t_text (status_label (ci_status item)) l)]],
                                      El ''td'' []
                                        [El ''span'' [cls (''chip chip-'' @ ci_risk item)]
                                           [Tx (t_text (risk_label (ci_risk item)) l)]],
                                      El ''td'' [cls ''muted''] [tx (orElse (ci_owner item) [])]]])
                                  (the (mf_items s))))]]
                     else [El ''p'' [cls ''muted''] [Tx (t_text ''noResults'' l)]]))))]"

text \<open>
  The effect after a change of the open version. Effects of a click run before the page is painted,
  so they are part of the same step.
\<close>

definition open_effect :: "matrices_form \<Rightarrow> matrices_form \<times> matrices_call list" where
  "open_effect s =
     (case mf_openVersion s of
        None \<Rightarrow> (s\<lparr>mf_items := None, mf_effect := mf_effect s + 1\<rparr>, [])
      | Some v \<Rightarrow> (s\<lparr>mf_loading := True, mf_effect := mf_effect s + 1\<rparr>, [Loading_items (mf_effect s + 1) v]))"

definition matrices_react ::
    "string \<Rightarrow> matrices_event \<Rightarrow> matrices_form \<Rightarrow> (matrices_form, matrices_call) outcome" where
  "matrices_react tenderId e s =
     (case e of
        Generate \<Rightarrow> (s\<lparr>mf_busy := True, mf_error := None\<rparr>, [Generating (web_generateMatrix tenderId)], [])
      | Open_version v \<Rightarrow>
          if mf_openVersion s = Some v then (s, [], [])
          else (let (s', qs) = open_effect (s\<lparr>mf_openVersion := Some v\<rparr>) in (s', qs, []))
      | Matrices_refreshed rows \<Rightarrow> (s\<lparr>mf_initial := rows\<rparr>, [], []))"

definition matrices_loaded :: "nat \<Rightarrow> matrices_answer \<Rightarrow> matrices_form \<Rightarrow> matrices_form" where
  "matrices_loaded k a s =
     (if k \<noteq> mf_effect s then s
      else s\<lparr>mf_items := Some (case a of Items_are xs \<Rightarrow> xs | _ \<Rightarrow> []), mf_loading := False\<rparr>)"

definition matrices_settle ::
    "matrices_call \<Rightarrow> matrices_answer \<Rightarrow> matrices_form \<Rightarrow> (matrices_form, matrices_call) outcome" where
  "matrices_settle r a s =
     (case r of
        Loading_items k v \<Rightarrow> (matrices_loaded k a s, [], [])
      | Generating _ \<Rightarrow> (case a of
            Matrices_refused e \<Rightarrow> (s\<lparr>mf_error := Some (plain_error ''Failed'' e), mf_busy := False\<rparr>, [], [])
          | _ \<Rightarrow> (s\<lparr>mf_busy := False\<rparr>, [], [Refresh])))"

definition matrices_init :: "compliance_matrix list \<Rightarrow> matrices_form" where
  "matrices_init rows = \<lparr>mf_initial = rows, mf_busy = False, mf_error = None,
     mf_openVersion = (case rows of [] \<Rightarrow> None | m # _ \<Rightarrow> Some (cm_version m)),
     mf_items = None, mf_loading = False, mf_effect = 0\<rparr>"

definition matrices_section ::
    "lang \<Rightarrow> string \<Rightarrow> compliance_matrix list \<Rightarrow> (matrices_form, matrices_event, matrices_call, matrices_answer) component" where
  "matrices_section l tenderId rows = \<lparr>cp_view = matrices_view l, cp_react = matrices_react tenderId,
     cp_settle = matrices_settle, cp_ambient = (\<lambda>e. \<exists>r. e = Matrices_refreshed r),
     cp_locks = (\<lambda>r. \<exists>c. r = Generating c),
     cp_start = fst (open_effect (matrices_init rows)), cp_mount = snd (open_effect (matrices_init rows))\<rparr>"

interpretation matrices: released_form "matrices_section l tenderId rows" mf_busy "\<lambda>e. e = Generate"
  for l tenderId rows
proof unfold_locales
  show "mf_busy s \<Longrightarrow> offers_list (cp_view (matrices_section l tenderId rows) s) e \<Longrightarrow> \<not> e = Generate" for s e
    by (cases e) (auto simp: matrices_section_def matrices_view_def off_def str_def cls_def split: if_splits)
qed (auto simp: matrices_section_def matrices_react_def matrices_settle_def matrices_loaded_def
    open_effect_def matrices_init_def Let_def
    split: matrices_event.splits matrices_call.splits matrices_answer.splits option.splits list.splits if_splits)

subsection \<open>The sector of a tender\<close>

record sector_form =
  sf_sector :: "string option"
  sf_category :: "string option"
  sf_confidence :: "rat option"
  sf_busy :: bool
  sf_result :: "string option"
  sf_error :: "shown option"

datatype sector_event = Reclassify

text \<open>Only owners see the button.\<close>

definition sector_view :: "lang \<Rightarrow> bool \<Rightarrow> sector_form \<Rightarrow> sector_event node list" where
  "sector_view l isOwner s =
     (if \<not> isOwner then [] else
     [El ''div'' [cls ''sector-reclassify'']
        ((if truthyS (sf_sector s)
         then [El ''span'' [cls ''muted small'']
                 [tx (the (sf_sector s)),
                  Tx (asc '' '' @ [183] @ asc '' ''),
                  Tx (case sf_category s of Some v \<Rightarrow> asc v | None \<Rightarrow> [8212]),
                  Tx (asc '' '' @ [183]),
                  tx '' '',
                  Tx (case sf_confidence s of Some currentConfidence \<Rightarrow> asc (''conf '' @
                      toFixed 2 currentConfidence) | None \<Rightarrow> asc ''conf '' @ [8212])]]
         else []) @
        [El ''button'' [str ''type'' ''button'', cls ''btn-sm'', (''disabled'', On_off (sf_busy s)),
             (''onClick'', Click Reclassify)]
           [Tx (if sf_busy s then t_text ''sectorReclassifyRunning'' l else t_text
               ''sectorReclassify'' l)]] @
        (if truthyS (sf_result s)
         then [El ''span'' [str ''role'' ''status'', cls ''small'']
                 [Tx (t_text ''sectorReclassifyDone'' l), tx '' '', tx (the (sf_result s))]]
         else []) @
        (if truthy_shown (sf_error s)
         then [El ''span'' [str ''role'' ''alert'', cls ''row-error''] (show_error (sf_error s))]
         else []))])"

definition sector_react :: "string \<Rightarrow> sector_event \<Rightarrow> sector_form \<Rightarrow> (sector_form, api_call) outcome" where
  "sector_react tenderId e s =
     (s\<lparr>sf_busy := True, sf_result := None, sf_error := None\<rparr>, [web_reclassifySector tenderId True], [])"

text \<open>The line about the new sector; \<open>None\<close> where reading the answer throws.\<close>

definition sector_result :: "json option \<Rightarrow> string option" where
  "sector_result v =
     (case answer_member v ''classification'' of
        None \<Rightarrow> None
      | Some c \<Rightarrow> (case answer_member c ''confidence'' of
            Some (Some (JNum q)) \<Rightarrow> Some (in_template (member_of c ''sector'') @ '' / '' @
              in_template (member_of c ''category'') @ '' (conf '' @ toFixed 2 q @ '')'')
          | _ \<Rightarrow> None))"

definition sector_settle :: "lang \<Rightarrow> api_call \<Rightarrow> web_answer \<Rightarrow> sector_form \<Rightarrow> (sector_form, api_call) outcome" where
  "sector_settle l r a s =
     (let failed = (\<lambda>e. (s\<lparr>sf_error := Some (titled_error (t_text ''sectorReclassifyFailed'' l) e), sf_busy := False\<rparr>, [], []))
      in case a of
           Inl e \<Rightarrow> failed e
         | Inr v \<Rightarrow> (case sector_result v of
               None \<Rightarrow> failed (Failed [])
             | Some line \<Rightarrow> (s\<lparr>sf_result := Some line, sf_busy := False\<rparr>, [], [Refresh])))"

definition sector_reclassify ::
    "lang \<Rightarrow> string \<Rightarrow> bool \<Rightarrow> tender \<Rightarrow> (sector_form, sector_event, api_call, web_answer) component" where
  "sector_reclassify l tenderId isOwner tn = \<lparr>cp_view = sector_view l isOwner, cp_react = sector_react tenderId,
     cp_settle = sector_settle l, cp_ambient = (\<lambda>_. False), cp_locks = (\<lambda>_. True),
     cp_start = \<lparr>sf_sector = tn_sector tn, sf_category = tn_sectorCategory tn, sf_confidence = tn_sectorConfidence tn,
       sf_busy = False, sf_result = None, sf_error = None\<rparr>, cp_mount = []\<rparr>"

interpretation sector: released_form "sector_reclassify l tenderId isOwner tn" sf_busy "\<lambda>e. True"
  for l tenderId isOwner tn
proof unfold_locales
  show "sf_busy s \<Longrightarrow> offers_list (cp_view (sector_reclassify l tenderId isOwner tn) s) e \<Longrightarrow> \<not> True" for s e
    by (cases e) (auto simp: sector_reclassify_def sector_view_def off_def str_def cls_def split: if_splits)
qed (auto simp: sector_reclassify_def sector_react_def sector_settle_def Let_def split: sum.splits option.splits)

subsection \<open>The status of a tender\<close>

definition TENDER_STATUSES :: "string list" where
  "TENDER_STATUSES = [''intake'', ''review'', ''ready'', ''submitted'']"

record status_form =
  tsf_tender :: tender
  tsf_busy :: bool
  tsf_error :: "shown option"

datatype status_event = Set_status string | Tender_refreshed tender

definition status_view :: "lang \<Rightarrow> status_form \<Rightarrow> status_event node list" where
  "status_view l s =
     [El ''div'' [cls ''sweep-cluster'']
        ([El ''label'' [str ''htmlFor'' ''status-select'', cls ''muted small'']
           [Tx (t_text ''changeStatus'' l)],
         El ''select'' [str ''id'' ''status-select'', str ''value'' (tn_status (tsf_tender s)),
             (''disabled'', On_off (tsf_busy s)), (''onChange'', Typed Set_status)]
           (concat (map (\<lambda>s.
             [El ''option'' [str ''key'' s, str ''value'' s] [tx s]])
             TENDER_STATUSES))] @
        (if truthy_shown (tsf_error s)
         then [El ''span'' [str ''role'' ''alert'', cls ''row-error''] (show_error (tsf_error s))]
         else []))]"

definition status_react :: "status_event \<Rightarrow> status_form \<Rightarrow> (status_form, api_call) outcome" where
  "status_react e s =
     (case e of
        Tender_refreshed tn \<Rightarrow> (s\<lparr>tsf_tender := tn\<rparr>, [], [])
      | Set_status next \<Rightarrow>
          if next = tn_status (tsf_tender s) then (s, [], [])
          else (s\<lparr>tsf_busy := True, tsf_error := None\<rparr>, [web_setTenderStatus (tn_id (tsf_tender s)) next], []))"

definition status_settle :: "api_call \<Rightarrow> web_answer \<Rightarrow> status_form \<Rightarrow> (status_form, api_call) outcome" where
  "status_settle r a s =
     (case a of
        Inr _ \<Rightarrow> (s\<lparr>tsf_busy := False\<rparr>, [], [Refresh])
      | Inl e \<Rightarrow> (s\<lparr>tsf_error := Some (plain_error ''Failed'' e), tsf_busy := False\<rparr>, [], []))"

definition status_control :: "lang \<Rightarrow> tender \<Rightarrow> (status_form, status_event, api_call, web_answer) component" where
  "status_control l tn = \<lparr>cp_view = status_view l, cp_react = status_react, cp_settle = status_settle,
     cp_ambient = (\<lambda>e. \<exists>tn. e = Tender_refreshed tn), cp_locks = (\<lambda>_. True),
     cp_start = \<lparr>tsf_tender = tn, tsf_busy = False, tsf_error = None\<rparr>, cp_mount = []\<rparr>"

interpretation status: released_form "status_control l tn" tsf_busy "\<lambda>e. \<exists>v. e = Set_status v" for l tn
proof unfold_locales
  show "tsf_busy s \<Longrightarrow> offers_list (cp_view (status_control l tn) s) e \<Longrightarrow> \<not> (\<exists>v. e = Set_status v)" for s e
    by (cases e) (auto simp: status_control_def status_view_def off_def str_def cls_def split: if_splits)
qed (auto simp: status_control_def status_react_def status_settle_def
    split: status_event.splits sum.splits if_splits)

subsection \<open>A new tender, a new client\<close>

record tender_create_form =
  tcf_clients :: "client_company list"
  tcf_title :: string
  tcf_company :: string
  tcf_source :: string
  tcf_busy :: bool
  tcf_error :: "shown option"

datatype tender_create_event = Set_title string | Set_company string | Set_source string | Create

definition first_client :: "client_company list \<Rightarrow> string" where
  "first_client clients = (case clients of [] \<Rightarrow> [] | c # _ \<Rightarrow> cc_id c)"

definition tender_create_view :: "lang \<Rightarrow> tender_create_form \<Rightarrow> tender_create_event node list" where
  "tender_create_view l s =
     [El ''form'' [cls ''admin-form-inline'', (''onSubmit'', Submit Create),
          (''noValidate'', On_off True)]
        ([El ''label'' [str ''htmlFor'' ''tender-title''] [Tx (t_text ''tenderTitleLabel'' l)],
         El ''input'' [str ''id'' ''tender-title'', str ''type'' ''text'',
             (''required'', On_off True), (''maxLength'', Num 300), str ''value'' (tcf_title s),
             (''onChange'', Typed Set_title)] [],
         El ''label'' [str ''htmlFor'' ''tender-client''] [Tx (t_text ''client'' l)],
         El ''select'' [str ''id'' ''tender-client'', (''required'', On_off True),
             str ''value'' (tcf_company s), (''onChange'', Typed Set_company)]
           ([El ''option'' [str ''value'' '''', (''disabled'', On_off True)]
              [Tx (t_text ''selectClient'' l)]] @
           concat (map (\<lambda>c.
             [El ''option'' [str ''key'' (cc_id c), str ''value'' (cc_id c)] [tx (cc_name c)]])
             (tcf_clients s))),
         El ''label'' [str ''htmlFor'' ''tender-source''] [Tx (t_text ''sourceLabel'' l)],
         El ''select'' [str ''id'' ''tender-source'', str ''value'' (tcf_source s),
             (''onChange'', Typed Set_source)]
           [El ''option'' [str ''value'' ''manual''] [tx ''manual''],
            El ''option'' [str ''value'' ''etimad''] [tx ''etimad''],
            El ''option'' [str ''value'' ''email''] [tx ''email''],
            El ''option'' [str ''value'' ''link''] [tx ''link'']]] @
        (if truthy_shown (tcf_error s)
         then [El ''p'' [str ''role'' ''alert'', cls ''form-error''] (show_error (tcf_error s))]
         else []) @
        [El ''button'' [str ''type'' ''submit'',
             (''disabled'', On_off (tcf_busy s \<or> trim (tcf_title s) = [] \<or> tcf_company s =
                 [])),
             (''aria-busy'', On_off (tcf_busy s))]
           [Tx (if tcf_busy s then t_text ''saving'' l else t_text ''save'' l)]])]"

definition tender_create_react ::
    "tender_create_event \<Rightarrow> tender_create_form \<Rightarrow> (tender_create_form, api_call) outcome" where
  "tender_create_react e s =
     (case e of
        Set_title v \<Rightarrow> (s\<lparr>tcf_title := v\<rparr>, [], [])
      | Set_company v \<Rightarrow> (s\<lparr>tcf_company := v\<rparr>, [], [])
      | Set_source v \<Rightarrow> (s\<lparr>tcf_source := v\<rparr>, [], [])
      | Create \<Rightarrow> (s\<lparr>tcf_busy := True, tcf_error := None\<rparr>,
          [web_createTender (JObj [(''title'', JStr (trim (tcf_title s))), (''clientCompanyId'', JStr (tcf_company s)),
             (''source'', JStr (tcf_source s))])], []))"

definition tender_create_settle ::
    "api_call \<Rightarrow> web_answer \<Rightarrow> tender_create_form \<Rightarrow> (tender_create_form, api_call) outcome" where
  "tender_create_settle r a s =
     (let failed = (\<lambda>e. (s\<lparr>tcf_error := Some (plain_error ''Failed'' e), tcf_busy := False\<rparr>, [], []))
      in case a of
           Inl e \<Rightarrow> failed e
         | Inr v \<Rightarrow> (case answer_member v ''id'' of
               None \<Rightarrow> failed (Failed [])
             | Some i \<Rightarrow> (s\<lparr>tcf_busy := False\<rparr>, [], [Push (''/tenders/'' @ in_template i), Refresh])))"

definition tender_create ::
    "lang \<Rightarrow> client_company list \<Rightarrow> (tender_create_form, tender_create_event, api_call, web_answer) component" where
  "tender_create l clients = \<lparr>cp_view = tender_create_view l, cp_react = tender_create_react,
     cp_settle = tender_create_settle, cp_ambient = (\<lambda>_. False), cp_locks = (\<lambda>_. True),
     cp_start = \<lparr>tcf_clients = clients, tcf_title = [], tcf_company = first_client clients, tcf_source = ''manual'',
       tcf_busy = False, tcf_error = None\<rparr>, cp_mount = []\<rparr>"

interpretation tender_form: released_form "tender_create l clients" tcf_busy "\<lambda>e. e = Create" for l clients
proof unfold_locales
  show "tcf_busy s \<Longrightarrow> offers_list (cp_view (tender_create l clients) s) e \<Longrightarrow> \<not> e = Create" for s e
    by (cases e) (auto simp: tender_create_def tender_create_view_def off_def str_def cls_def split: if_splits)
qed (auto simp: tender_create_def tender_create_react_def tender_create_settle_def Let_def
    split: tender_create_event.splits sum.splits option.splits)

record client_create_form =
  ccf_name :: string
  ccf_busy :: bool
  ccf_error :: "shown option"

datatype client_create_event = Set_name string | Create_client

definition client_create_view :: "lang \<Rightarrow> client_create_form \<Rightarrow> client_create_event node list" where
  "client_create_view l s =
     [El ''form'' [cls ''admin-form-inline'', (''onSubmit'', Submit Create_client),
          (''noValidate'', On_off True)]
        ([El ''label'' [str ''htmlFor'' ''client-name''] [Tx (t_text ''clientName'' l)],
         El ''input'' [str ''id'' ''client-name'', str ''type'' ''text'',
             (''required'', On_off True), (''maxLength'', Num 200), str ''value'' (ccf_name s),
             (''onChange'', Typed Set_name)] []] @
        (if truthy_shown (ccf_error s)
         then [El ''p'' [str ''role'' ''alert'', cls ''form-error''] (show_error (ccf_error s))]
         else []) @
        [El ''button'' [str ''type'' ''submit'',
             (''disabled'', On_off (ccf_busy s \<or> trim (ccf_name s) = [])),
             (''aria-busy'', On_off (ccf_busy s))]
           [Tx (if ccf_busy s then t_text ''saving'' l else t_text ''save'' l)]])]"

definition client_create_react ::
    "client_create_event \<Rightarrow> client_create_form \<Rightarrow> (client_create_form, api_call) outcome" where
  "client_create_react e s =
     (case e of
        Set_name v \<Rightarrow> (s\<lparr>ccf_name := v\<rparr>, [], [])
      | Create_client \<Rightarrow> (s\<lparr>ccf_busy := True, ccf_error := None\<rparr>, [web_createClient (trim (ccf_name s))], []))"

definition client_create_settle ::
    "api_call \<Rightarrow> web_answer \<Rightarrow> client_create_form \<Rightarrow> (client_create_form, api_call) outcome" where
  "client_create_settle r a s =
     (case a of
        Inr _ \<Rightarrow> (s\<lparr>ccf_name := [], ccf_busy := False\<rparr>, [], [Refresh])
      | Inl e \<Rightarrow> (s\<lparr>ccf_error := Some (plain_error ''Failed'' e), ccf_busy := False\<rparr>, [], []))"

definition client_create :: "lang \<Rightarrow> (client_create_form, client_create_event, api_call, web_answer) component" where
  "client_create l = \<lparr>cp_view = client_create_view l, cp_react = client_create_react, cp_settle = client_create_settle,
     cp_ambient = (\<lambda>_. False), cp_locks = (\<lambda>_. True),
     cp_start = \<lparr>ccf_name = [], ccf_busy = False, ccf_error = None\<rparr>, cp_mount = []\<rparr>"

interpretation client_form: released_form "client_create l" ccf_busy "\<lambda>e. e = Create_client" for l
proof unfold_locales
  show "ccf_busy s \<Longrightarrow> offers_list (cp_view (client_create l) s) e \<Longrightarrow> \<not> e = Create_client" for s e
    by (cases e) (auto simp: client_create_def client_create_view_def off_def str_def cls_def split: if_splits)
qed (auto simp: client_create_def client_create_react_def client_create_settle_def
    split: client_create_event.splits sum.splits)

subsection \<open>Documents\<close>

definition DOCUMENT_TYPES :: "string list" where
  "DOCUMENT_TYPES = [''legal'', ''financial'', ''technical'', ''admin'', ''other'']"

definition SENSITIVITIES :: "string list" where
  "SENSITIVITIES = [''low'', ''medium'', ''high'']"

text \<open>\<^verbatim>\<open>expiresAt ? new Date(expiresAt).toISOString() : null\<close>; the outer \<open>None\<close> where it throws.\<close>

definition expiry_value :: "platform \<Rightarrow> string \<Rightarrow> string option option" where
  "expiry_value pl s = (if s = [] then Some None else map_option Some (pl_toIso pl s))"

record upload_form =
  uf_clients :: "client_company list"
  uf_file :: "web_file option"
  uf_company :: string
  uf_documentType :: string
  uf_sensitivity :: string
  uf_expiresAt :: string
  uf_busy :: bool
  uf_error :: "shown option"

datatype upload_event =
    Set_file "web_file option" | Set_upload_company string | Set_upload_type string
  | Set_upload_sensitivity string | Set_upload_expires string | Upload

text \<open>The request is the file and the fields of the form that \<open>web_uploadDocument\<close> sends.\<close>

datatype upload_call = Uploading web_file "(string \<times> string) list"

definition upload_view :: "lang \<Rightarrow> upload_form \<Rightarrow> upload_event node list" where
  "upload_view l s =
     [El ''form'' [cls ''admin-form-inline'', (''onSubmit'', Submit Upload),
          (''noValidate'', On_off True)]
        ([El ''label'' [str ''htmlFor'' ''upload-file'']
           [Tx (if l = Ar then [1575, 1604, 1605, 1604, 1601] else asc ''File'')],
         El ''input'' [str ''id'' ''upload-file'', str ''type'' ''file'',
             (''required'', On_off True), (''onChange'', Picked Set_file)] [],
         El ''label'' [str ''htmlFor'' ''upload-client''] [Tx (t_text ''client'' l)],
         El ''select'' [str ''id'' ''upload-client'', (''required'', On_off True),
             str ''value'' (uf_company s), (''onChange'', Typed Set_upload_company)]
           ([El ''option'' [str ''value'' '''', (''disabled'', On_off True)]
              [Tx (t_text ''selectClient'' l)]] @
           concat (map (\<lambda>c.
             [El ''option'' [str ''key'' (cc_id c), str ''value'' (cc_id c)] [tx (cc_name c)]])
             (uf_clients s))),
         El ''label'' [str ''htmlFor'' ''upload-type''] [Tx (t_text ''documentType'' l)],
         El ''select'' [str ''id'' ''upload-type'', str ''value'' (uf_documentType s),
             (''onChange'', Typed Set_upload_type)]
           (concat (map (\<lambda>tp.
             [El ''option'' [str ''key'' tp, str ''value'' tp] [tx tp]])
             DOCUMENT_TYPES)),
         El ''label'' [str ''htmlFor'' ''upload-sens''] [Tx (t_text ''sensitivity'' l)],
         El ''select'' [str ''id'' ''upload-sens'', str ''value'' (uf_sensitivity s),
             (''onChange'', Typed Set_upload_sensitivity)]
           (concat (map (\<lambda>s.
             [El ''option'' [str ''key'' s, str ''value'' s] [tx s]])
             SENSITIVITIES)),
         El ''label'' [str ''htmlFor'' ''upload-expires''] [Tx (t_text ''expiresAt'' l)],
         El ''input'' [str ''id'' ''upload-expires'', str ''type'' ''date'',
             str ''value'' (uf_expiresAt s), (''onChange'', Typed Set_upload_expires)] []] @
        (case uf_file s of
          Some file \<Rightarrow>
            [El ''p'' [cls ''muted small'']
               [tx (wf_name file),
                Tx (asc '' '' @ [183]),
                tx '' '',
                tx (file_size (int (wf_size file)))]]
        | None \<Rightarrow> []) @
        (if truthy_shown (uf_error s)
         then [El ''p'' [str ''role'' ''alert'', cls ''form-error''] (show_error (uf_error s))]
         else []) @
        [El ''button'' [str ''type'' ''submit'',
             (''disabled'', On_off (uf_busy s \<or> uf_file s = None \<or> uf_company s = [])),
             (''aria-busy'', On_off (uf_busy s))]
           [Tx (if uf_busy s then (if l = Ar then [1580, 1575, 1585, 1613, 32, 1575, 1604, 1585,
               1601, 1593] @ asc ''...'' else asc ''Uploading'' @ [8230]) else (if l = Ar then
                   [1585, 1601, 1593] else asc ''Upload''))]])]"

definition upload_react :: "platform \<Rightarrow> lang \<Rightarrow> upload_event \<Rightarrow> upload_form \<Rightarrow> (upload_form, upload_call) outcome" where
  "upload_react pl l e s =
     (case e of
        Set_file f \<Rightarrow> (s\<lparr>uf_file := f\<rparr>, [], [])
      | Set_upload_company v \<Rightarrow> (s\<lparr>uf_company := v\<rparr>, [], [])
      | Set_upload_type v \<Rightarrow> (s\<lparr>uf_documentType := v\<rparr>, [], [])
      | Set_upload_sensitivity v \<Rightarrow> (s\<lparr>uf_sensitivity := v\<rparr>, [], [])
      | Set_upload_expires v \<Rightarrow> (s\<lparr>uf_expiresAt := v\<rparr>, [], [])
      | Upload \<Rightarrow>
          (case uf_file s of
             None \<Rightarrow> (s\<lparr>uf_error := Some (Msg (if l = Ar
                 then [1575, 1604, 1585, 1580, 1575, 1569, 32, 1575, 1582, 1578, 1610, 1575, 1585, 32, 1605, 1604, 1601] else (asc ''Please choose a file'')))\<rparr>, [], [])
           | Some file \<Rightarrow>
               (case expiry_value pl (uf_expiresAt s) of
                  None \<Rightarrow> (s\<lparr>uf_busy := False, uf_error := Some (said ''Failed'')\<rparr>, [], [])
                | Some x \<Rightarrow> (s\<lparr>uf_busy := True, uf_error := None\<rparr>,
                    [Uploading file (upload_fields (uf_company s) (Some (uf_documentType s)) (Some (uf_sensitivity s)) x)],
                    []))))"

text \<open>
  After the answer the code reads \<^verbatim>\<open>e.currentTarget\<close> of the submit event. React clears it when the
  handler gives up control, that is at the \<^verbatim>\<open>await\<close>: \<open>attached\<close> says whether it is still there.
\<close>

definition upload_settle ::
    "bool \<Rightarrow> upload_call \<Rightarrow> web_answer \<Rightarrow> upload_form \<Rightarrow> (upload_form, upload_call) outcome" where
  "upload_settle attached r a s =
     (case a of
        Inr _ \<Rightarrow>
          (let s' = s\<lparr>uf_file := None, uf_expiresAt := []\<rparr>
           in if attached then (s'\<lparr>uf_busy := False\<rparr>, [], [Reset_form, Refresh])
              else (s'\<lparr>uf_error := Some (said ''Failed''), uf_busy := False\<rparr>, [], []))
      | Inl e \<Rightarrow> (s\<lparr>uf_error := Some (plain_error ''Failed'' e), uf_busy := False\<rparr>, [], []))"

definition document_upload ::
    "platform \<Rightarrow> lang \<Rightarrow> bool \<Rightarrow> client_company list \<Rightarrow> (upload_form, upload_event, upload_call, web_answer) component" where
  "document_upload pl l attached clients = \<lparr>cp_view = upload_view l, cp_react = upload_react pl l,
     cp_settle = upload_settle attached, cp_ambient = (\<lambda>_. False), cp_locks = (\<lambda>_. True),
     cp_start = \<lparr>uf_clients = clients, uf_file = None, uf_company = first_client clients, uf_documentType = ''other'',
       uf_sensitivity = ''low'', uf_expiresAt = [], uf_busy = False, uf_error = None\<rparr>, cp_mount = []\<rparr>"

interpretation upload: released_form "document_upload pl l attached clients" uf_busy "\<lambda>e. e = Upload"
  for pl l attached clients
proof unfold_locales
  show "uf_busy s \<Longrightarrow> offers_list (cp_view (document_upload pl l attached clients) s) e \<Longrightarrow> \<not> e = Upload" for s e
    by (cases e) (auto simp: document_upload_def upload_view_def off_def str_def cls_def split: if_splits option.splits)
qed (auto simp: document_upload_def upload_react_def upload_settle_def Let_def
    split: upload_event.splits sum.splits option.splits if_splits)

record register_form =
  gf_clients :: "client_company list"
  gf_filename :: string
  gf_company :: string
  gf_documentType :: string
  gf_sensitivity :: string
  gf_expiresAt :: string
  gf_busy :: bool
  gf_error :: "shown option"

datatype register_event =
    Set_filename string | Set_register_company string | Set_register_type string
  | Set_register_sensitivity string | Set_register_expires string | Register

definition register_view :: "lang \<Rightarrow> register_form \<Rightarrow> register_event node list" where
  "register_view l s =
     [El ''form'' [cls ''admin-form-inline'', (''onSubmit'', Submit Register),
          (''noValidate'', On_off True)]
        ([El ''label'' [str ''htmlFor'' ''doc-filename''] [Tx (t_text ''filename'' l)],
         El ''input'' [str ''id'' ''doc-filename'', str ''type'' ''text'',
             (''required'', On_off True), (''maxLength'', Num 300), str ''value'' (gf_filename s),
             (''onChange'', Typed Set_filename)] [],
         El ''label'' [str ''htmlFor'' ''doc-client''] [Tx (t_text ''client'' l)],
         El ''select'' [str ''id'' ''doc-client'', (''required'', On_off True),
             str ''value'' (gf_company s), (''onChange'', Typed Set_register_company)]
           ([El ''option'' [str ''value'' '''', (''disabled'', On_off True)]
              [Tx (t_text ''selectClient'' l)]] @
           concat (map (\<lambda>c.
             [El ''option'' [str ''key'' (cc_id c), str ''value'' (cc_id c)] [tx (cc_name c)]])
             (gf_clients s))),
         El ''label'' [str ''htmlFor'' ''doc-type''] [Tx (t_text ''documentType'' l)],
         El ''select'' [str ''id'' ''doc-type'', str ''value'' (gf_documentType s),
             (''onChange'', Typed Set_register_type)]
           (concat (map (\<lambda>tp.
             [El ''option'' [str ''key'' tp, str ''value'' tp] [tx tp]])
             DOCUMENT_TYPES)),
         El ''label'' [str ''htmlFor'' ''doc-sens''] [Tx (t_text ''sensitivity'' l)],
         El ''select'' [str ''id'' ''doc-sens'', str ''value'' (gf_sensitivity s),
             (''onChange'', Typed Set_register_sensitivity)]
           (concat (map (\<lambda>s.
             [El ''option'' [str ''key'' s, str ''value'' s] [tx s]])
             SENSITIVITIES)),
         El ''label'' [str ''htmlFor'' ''doc-expires''] [Tx (t_text ''expiresAt'' l)],
         El ''input'' [str ''id'' ''doc-expires'', str ''type'' ''date'',
             str ''value'' (gf_expiresAt s), (''onChange'', Typed Set_register_expires)] []] @
        (if truthy_shown (gf_error s)
         then [El ''p'' [str ''role'' ''alert'', cls ''form-error''] (show_error (gf_error s))]
         else []) @
        [El ''button'' [str ''type'' ''submit'',
             (''disabled'', On_off (gf_busy s \<or> trim (gf_filename s) = [] \<or> gf_company s =
                 [])),
             (''aria-busy'', On_off (gf_busy s))]
           [Tx (if gf_busy s then t_text ''saving'' l else t_text ''save'' l)]])]"

definition register_react :: "platform \<Rightarrow> register_event \<Rightarrow> register_form \<Rightarrow> (register_form, api_call) outcome" where
  "register_react pl e s =
     (case e of
        Set_filename v \<Rightarrow> (s\<lparr>gf_filename := v\<rparr>, [], [])
      | Set_register_company v \<Rightarrow> (s\<lparr>gf_company := v\<rparr>, [], [])
      | Set_register_type v \<Rightarrow> (s\<lparr>gf_documentType := v\<rparr>, [], [])
      | Set_register_sensitivity v \<Rightarrow> (s\<lparr>gf_sensitivity := v\<rparr>, [], [])
      | Set_register_expires v \<Rightarrow> (s\<lparr>gf_expiresAt := v\<rparr>, [], [])
      | Register \<Rightarrow>
          (case expiry_value pl (gf_expiresAt s) of
             None \<Rightarrow> (s\<lparr>gf_busy := False, gf_error := Some (said ''Failed'')\<rparr>, [], [])
           | Some x \<Rightarrow> (s\<lparr>gf_busy := True, gf_error := None\<rparr>,
               [web_registerDocument (JObj [(''filename'', JStr (trim (gf_filename s))),
                  (''clientCompanyId'', JStr (gf_company s)), (''documentType'', JStr (gf_documentType s)),
                  (''sensitivity'', JStr (gf_sensitivity s)), (''expiresAt'', jopt x)])], [])))"

definition register_settle :: "api_call \<Rightarrow> web_answer \<Rightarrow> register_form \<Rightarrow> (register_form, api_call) outcome" where
  "register_settle r a s =
     (case a of
        Inr _ \<Rightarrow> (s\<lparr>gf_filename := [], gf_expiresAt := [], gf_busy := False\<rparr>, [], [Refresh])
      | Inl e \<Rightarrow> (s\<lparr>gf_error := Some (plain_error ''Failed'' e), gf_busy := False\<rparr>, [], []))"

definition document_register ::
    "platform \<Rightarrow> lang \<Rightarrow> client_company list \<Rightarrow> (register_form, register_event, api_call, web_answer) component" where
  "document_register pl l clients = \<lparr>cp_view = register_view l, cp_react = register_react pl,
     cp_settle = register_settle, cp_ambient = (\<lambda>_. False), cp_locks = (\<lambda>_. True),
     cp_start = \<lparr>gf_clients = clients, gf_filename = [], gf_company = first_client clients, gf_documentType = ''other'',
       gf_sensitivity = ''low'', gf_expiresAt = [], gf_busy = False, gf_error = None\<rparr>, cp_mount = []\<rparr>"

interpretation register: released_form "document_register pl l clients" gf_busy "\<lambda>e. e = Register" for pl l clients
proof unfold_locales
  show "gf_busy s \<Longrightarrow> offers_list (cp_view (document_register pl l clients) s) e \<Longrightarrow> \<not> e = Register" for s e
    by (cases e) (auto simp: document_register_def register_view_def off_def str_def cls_def split: if_splits)
qed (auto simp: document_register_def register_react_def register_settle_def
    split: register_event.splits sum.splits option.splits)

definition ALL_STATES :: "string list" where
  "ALL_STATES = [''active'', ''expiring'', ''restricted'', ''archived'']"

record doc_row_form =
  drf_doc :: client_document
  drf_busy :: bool
  drf_error :: "shown option"

datatype doc_row_event = Set_doc_state string | Doc_refreshed client_document

definition doc_row_view :: "lang \<Rightarrow> doc_row_form \<Rightarrow> doc_row_event node list" where
  "doc_row_view l s =
     [El ''div'' [cls ''row-actions'']
        ([El ''select'' [(''aria-label'', Val (t_text ''cycleState'' l)),
             str ''value'' (cd_state (drf_doc s)), (''disabled'', On_off (drf_busy s)),
             (''onChange'', Typed Set_doc_state), cls ''state-select'']
           (concat (map (\<lambda>s.
             [El ''option'' [str ''key'' s, str ''value'' s] [tx s]])
             ALL_STATES)),
         El ''button'' [str ''type'' ''button'', cls ''btn-sm'', (''disabled'', On_off (drf_busy s)),
             (''onClick'', Click (Set_doc_state (next_state (cd_state (drf_doc s))))),
             (''title'', Val ([8594] @ asc '' '' @ asc (next_state (cd_state (drf_doc s)))))]
           [Tx ([8594] @ asc '' ''), tx (next_state (cd_state (drf_doc s)))]] @
        (if truthy_shown (drf_error s)
         then [El ''span'' [str ''role'' ''alert'', cls ''row-error''] (show_error (drf_error s))]
         else []))]"

definition doc_row_react :: "doc_row_event \<Rightarrow> doc_row_form \<Rightarrow> (doc_row_form, api_call) outcome" where
  "doc_row_react e s =
     (case e of
        Doc_refreshed d \<Rightarrow> (s\<lparr>drf_doc := d\<rparr>, [], [])
      | Set_doc_state next \<Rightarrow>
          if next = cd_state (drf_doc s) then (s, [], [])
          else (s\<lparr>drf_busy := True, drf_error := None\<rparr>, [web_setDocumentState (cd_id (drf_doc s)) next], []))"

definition doc_row_settle :: "lang \<Rightarrow> api_call \<Rightarrow> web_answer \<Rightarrow> doc_row_form \<Rightarrow> (doc_row_form, api_call) outcome" where
  "doc_row_settle l r a s =
     (case a of
        Inr _ \<Rightarrow> (s\<lparr>drf_busy := False\<rparr>, [], [Refresh])
      | Inl e \<Rightarrow> (s\<lparr>drf_error := Some (guarded_error l ''Failed'' e), drf_busy := False\<rparr>, [], []))"

definition doc_row_init :: "client_document \<Rightarrow> doc_row_form" where
  "doc_row_init d = \<lparr>drf_doc = d, drf_busy = False, drf_error = None\<rparr>"

definition document_row :: "lang \<Rightarrow> client_document \<Rightarrow> (doc_row_form, doc_row_event, api_call, web_answer) component" where
  "document_row l d = \<lparr>cp_view = doc_row_view l, cp_react = doc_row_react, cp_settle = doc_row_settle l,
     cp_ambient = (\<lambda>e. \<exists>d. e = Doc_refreshed d), cp_locks = (\<lambda>_. True), cp_start = doc_row_init d, cp_mount = []\<rparr>"

interpretation doc_row: released_form "document_row l d" drf_busy "\<lambda>e. \<exists>v. e = Set_doc_state v" for l d
proof unfold_locales
  show "drf_busy s \<Longrightarrow> offers_list (cp_view (document_row l d) s) e \<Longrightarrow> \<not> (\<exists>v. e = Set_doc_state v)" for s e
    by (cases e) (auto simp: document_row_def doc_row_view_def off_def str_def cls_def split: if_splits)
qed (auto simp: document_row_def doc_row_react_def doc_row_settle_def doc_row_init_def
    split: doc_row_event.splits sum.splits if_splits)

record download_form =
  dlf_busy :: bool
  dlf_error :: "shown option"

datatype download_event = Download_it

definition download_view :: "lang \<Rightarrow> download_form \<Rightarrow> download_event node list" where
  "download_view l s =
     [El ''button'' [str ''type'' ''button'', cls ''btn btn-primary'',
          (''disabled'', On_off (dlf_busy s)), (''onClick'', Click Download_it)]
        [Tx (if dlf_busy s then t_text ''saving'' l else (if l = Ar then [1578, 1606, 1586, 1610,
            1604] else asc ''Download''))]] @
     (if truthy_shown (dlf_error s)
      then [El ''p'' [str ''role'' ''alert'', cls ''form-error small'']
              ((show_error (dlf_error s)))]
      else [])"

definition download_react :: "string \<Rightarrow> download_event \<Rightarrow> download_form \<Rightarrow> (download_form, api_call) outcome" where
  "download_react documentId e s =
     (s\<lparr>dlf_busy := True, dlf_error := None\<rparr>, [web_documentDownloadUrl documentId], [])"

definition download_settle :: "api_call \<Rightarrow> web_answer \<Rightarrow> download_form \<Rightarrow> (download_form, api_call) outcome" where
  "download_settle r a s =
     (let failed = (\<lambda>e. (s\<lparr>dlf_error := Some (plain_error ''Failed'' e), dlf_busy := False\<rparr>, [], []))
      in case a of
           Inl e \<Rightarrow> failed e
         | Inr v \<Rightarrow> (case answer_member v ''url'' of
               None \<Rightarrow> failed (Failed [])
             | Some url \<Rightarrow> (s\<lparr>dlf_busy := False\<rparr>, [], [Open_tab url])))"

definition download_init :: download_form where
  "download_init = \<lparr>dlf_busy = False, dlf_error = None\<rparr>"

definition download_link :: "lang \<Rightarrow> string \<Rightarrow> (download_form, download_event, api_call, web_answer) component" where
  "download_link l documentId = \<lparr>cp_view = download_view l, cp_react = download_react documentId,
     cp_settle = download_settle, cp_ambient = (\<lambda>_. False), cp_locks = (\<lambda>_. True), cp_start = download_init, cp_mount = []\<rparr>"

interpretation download: released_form "download_link l documentId" dlf_busy "\<lambda>e. True" for l documentId
proof unfold_locales
  show "dlf_busy s \<Longrightarrow> offers_list (cp_view (download_link l documentId) s) e \<Longrightarrow> \<not> True" for s e
    by (cases e) (auto simp: download_link_def download_view_def off_def str_def cls_def split: if_splits)
qed (auto simp: download_link_def download_react_def download_settle_def download_init_def Let_def
    split: sum.splits option.splits)

end
