(* ===== verification/Forms_Admin.thy ===== *)
theory Forms_Admin
  imports Forms_Tender
begin

text \<open>
  The client components of the administration, the settings, the sign-in and the header
  (\<^verbatim>\<open>app/admin\<close>, \<^verbatim>\<open>app/settings\<close>, \<^verbatim>\<open>app/login\<close>, \<^verbatim>\<open>components/AppHeader.tsx\<close>).
\<close>

subsection \<open>Consents\<close>

record consent_form =
  ctf_email :: string
  ctf_purpose :: string
  ctf_history :: "consent_event list option"
  ctf_current :: "string option option"
  ctf_busy :: bool
  ctf_error :: "shown option"
  ctf_recordState :: string

datatype consent_ui = Set_email string | Set_purpose string | Set_record_state string | Look_up | Record_event

text \<open>Both requests keep the address and the purpose of the rendering that sent them.\<close>

datatype consent_call = Lookup string string | Recording string string string

datatype consent_answer = Looked_up "consent_event list" "string option" | Consent_done | Consent_refused web_error

definition consent_calls :: "consent_call \<Rightarrow> api_call list" where
  "consent_calls r =
     (case r of
        Lookup email purpose \<Rightarrow> [web_listConsentForSubject email, web_checkConsent email purpose]
      | Recording email purpose st \<Rightarrow> [web_recordConsent (JObj [(''subjectEmail'', JStr email),
          (''purpose'', JStr purpose), (''state'', JStr st), (''source'', JStr ''admin-ui'')])])"

definition consent_view :: "platform \<Rightarrow> lang \<Rightarrow> consent_form \<Rightarrow> consent_ui node list" where
  "consent_view pl l s =
     [El ''div'' [cls ''stack'']
        ([El ''section'' [cls ''panel'']
           ([El ''h2'' [] [Tx (t_text ''current'' l)],
            El ''form'' [cls ''admin-form-inline'', (''onSubmit'', Submit Look_up),
                (''noValidate'', On_off True)]
              [El ''label'' [str ''htmlFor'' ''cs-email''] [Tx (t_text ''subjectEmail'' l)],
               El ''input'' [str ''id'' ''cs-email'', str ''type'' ''email'',
                   (''required'', On_off True), str ''value'' (ctf_email s),
                   (''onChange'', Typed Set_email)] [],
               El ''label'' [str ''htmlFor'' ''cs-purpose''] [Tx (t_text ''purpose'' l)],
               El ''input'' [str ''id'' ''cs-purpose'', str ''type'' ''text'',
                   (''required'', On_off True), str ''value'' (ctf_purpose s),
                   (''onChange'', Typed Set_purpose)] [],
               El ''button'' [str ''type'' ''submit'', (''disabled'', On_off (ctf_busy s)),
                   (''aria-busy'', On_off (ctf_busy s))]
                 [Tx (t_text ''refresh'' l)]]] @
           (case ctf_current s of
             Some now_state \<Rightarrow>
               [El ''p'' [cls ''current-state'']
                  ([Tx (t_text ''current'' l),
                   tx '':'',
                   tx '' ''] @
                  (if now_state = None
                   then [El ''span'' [cls ''chip''] [Tx (t_text ''notRecorded'' l)]]
                   else [El ''span'' [cls (''chip chip-'' @ the now_state)]
                           [Tx (t_text (if now_state = Some ''granted'' then ''granted'' else
                               ''withdrawn'') l)]]))]
           | None \<Rightarrow> []))] @
        (if ctf_email s \<noteq> []
         then [El ''section'' [cls ''panel'']
                 [El ''h2'' [] [Tx (t_text ''recordEvent'' l)],
                  El ''form'' [cls ''admin-form-inline'', (''onSubmit'', Submit Record_event),
                      (''noValidate'', On_off True)]
                    [El ''label'' [str ''htmlFor'' ''cs-state''] [Tx (t_text ''consentState'' l)],
                     El ''select'' [str ''id'' ''cs-state'', str ''value'' (ctf_recordState s),
                         (''onChange'', Typed Set_record_state)]
                       [El ''option'' [str ''value'' ''granted''] [Tx (t_text ''granted'' l)],
                        El ''option'' [str ''value'' ''withdrawn''] [Tx (t_text ''withdrawn'' l)]],
                     El ''button'' [str ''type'' ''submit'', (''disabled'', On_off (ctf_busy s)),
                         (''aria-busy'', On_off (ctf_busy s))]
                       [Tx (if ctf_busy s then t_text ''saving'' l else t_text ''save'' l)]]]]
         else []) @
        (case ctf_history s of
          Some history \<Rightarrow>
            [El ''section'' [cls ''panel'']
               ([El ''h2'' [] [Tx (asc ''History '' @ [8212] @ asc '' ''), tx (ctf_email s)]] @
               (if history = []
                then [El ''p'' [cls ''muted''] [Tx (t_text ''noResults'' l)]]
                else [El ''table'' [cls ''admin-table'']
                        [El ''thead'' []
                           [El ''tr'' []
                              [El ''th'' [str ''scope'' ''col''] [Tx (t_text ''purpose'' l)],
                               El ''th'' [str ''scope'' ''col''] [Tx (t_text ''consentState'' l)],
                               El ''th'' [str ''scope'' ''col''] [tx ''recordedAt''],
                               El ''th'' [str ''scope'' ''col''] [tx ''source'']]],
                         El ''tbody'' []
                           (concat (map (\<lambda>row.
                             [El ''tr'' [str ''key'' (ce_id row)]
                                [El ''td'' [cls ''mono''] [tx (ce_purpose row)],
                                 El ''td'' []
                                   [El ''span'' [cls (''chip chip-'' @ ce_state row)]
                                      [Tx (t_text (if ce_state row = ''granted'' then ''granted''
                                          else ''withdrawn'') l)]],
                                 El ''td'' [cls ''muted'']
                                   [Tx (pl_dateTime pl (ce_recordedAt row))],
                                 El ''td'' [cls ''muted''] [tx (ce_source row)]]])
                             history))]]))]
        | None \<Rightarrow> []) @
        (if truthy_shown (ctf_error s)
         then [El ''p'' [str ''role'' ''alert'', cls ''form-error''] (show_error (ctf_error s))]
         else []))]"

definition consent_react :: "consent_ui \<Rightarrow> consent_form \<Rightarrow> (consent_form, consent_call) outcome" where
  "consent_react e s =
     (case e of
        Set_email v \<Rightarrow> (s\<lparr>ctf_email := v\<rparr>, [], [])
      | Set_purpose v \<Rightarrow> (s\<lparr>ctf_purpose := v\<rparr>, [], [])
      | Set_record_state v \<Rightarrow> (s\<lparr>ctf_recordState := v\<rparr>, [], [])
      | Look_up \<Rightarrow> (s\<lparr>ctf_busy := True, ctf_error := None\<rparr>, [Lookup (ctf_email s) (ctf_purpose s)], [])
      | Record_event \<Rightarrow> (s\<lparr>ctf_busy := True, ctf_error := None\<rparr>,
          [Recording (ctf_email s) (ctf_purpose s) (ctf_recordState s)], []))"

definition consent_looked_up :: "consent_answer \<Rightarrow> consent_form \<Rightarrow> consent_form" where
  "consent_looked_up a s =
     (case a of
        Looked_up rows st \<Rightarrow> s\<lparr>ctf_history := Some rows, ctf_current := Some st, ctf_busy := False\<rparr>
      | Consent_refused e \<Rightarrow> s\<lparr>ctf_error := Some (plain_error ''Failed'' e), ctf_busy := False\<rparr>
      | Consent_done \<Rightarrow> s\<lparr>ctf_error := Some (said ''Failed''), ctf_busy := False\<rparr>)"

text \<open>After an event is recorded the ledger is looked up again.\<close>

definition consent_settle ::
    "consent_call \<Rightarrow> consent_answer \<Rightarrow> consent_form \<Rightarrow> (consent_form, consent_call) outcome" where
  "consent_settle r a s =
     (case r of
        Lookup _ _ \<Rightarrow> (consent_looked_up a s, [], [])
      | Recording email purpose _ \<Rightarrow>
          (case a of
             Consent_refused e \<Rightarrow> (s\<lparr>ctf_error := Some (plain_error ''Failed'' e), ctf_busy := False\<rparr>, [], [])
           | _ \<Rightarrow> (s\<lparr>ctf_busy := True, ctf_error := None\<rparr>, [Lookup email purpose], [])))"

definition consent_init :: consent_form where
  "consent_init = \<lparr>ctf_email = [], ctf_purpose = ''whatsapp_reminders'', ctf_history = None, ctf_current = None,
     ctf_busy = False, ctf_error = None, ctf_recordState = ''granted''\<rparr>"

definition consent_tool ::
    "platform \<Rightarrow> lang \<Rightarrow> (consent_form, consent_ui, consent_call, consent_answer) component" where
  "consent_tool pl l = \<lparr>cp_view = consent_view pl l, cp_react = consent_react, cp_settle = consent_settle,
     cp_ambient = (\<lambda>_. False), cp_locks = (\<lambda>_. True), cp_start = consent_init, cp_mount = []\<rparr>"

interpretation consent: released_form "consent_tool pl l" ctf_busy "\<lambda>e. e = Look_up \<or> e = Record_event" for pl l
proof unfold_locales
  show "ctf_busy s \<Longrightarrow> offers_list (cp_view (consent_tool pl l) s) e \<Longrightarrow> \<not> (e = Look_up \<or> e = Record_event)" for s e
    by (cases e) (auto simp: consent_tool_def consent_view_def off_def str_def cls_def split: if_splits option.splits)
qed (auto simp: consent_tool_def consent_react_def consent_settle_def consent_looked_up_def consent_init_def
    split: consent_ui.splits consent_call.splits consent_answer.splits)

subsection \<open>The data-protection officer\<close>

text \<open>The number of days is \<open>None\<close> when it is \<^verbatim>\<open>NaN\<close>, which is sent as \<^verbatim>\<open>null\<close>.\<close>

record dpo_form =
  dpf_initial :: "dpo_contact option"
  dpf_name :: string
  dpf_email :: string
  dpf_phone :: string
  dpf_authorityEmail :: string
  dpf_days :: "rat option"
  dpf_busy :: bool
  dpf_error :: "shown option"
  dpf_savedAt :: "json option"

datatype dpo_event = Set_contact string string | Save_contact | Contact_refreshed "dpo_contact option"

definition number_text :: "rat option \<Rightarrow> string" where
  "number_text q = (case q of None \<Rightarrow> ''NaN'' | Some n \<Rightarrow> stringify (JNum n))"

definition number_json :: "rat option \<Rightarrow> json" where
  "number_json q = (case q of None \<Rightarrow> JNull | Some n \<Rightarrow> JNum n)"

definition saved_shown :: "json option \<Rightarrow> bool" where
  "saved_shown v \<longleftrightarrow> (case v of None \<Rightarrow> False | Some x \<Rightarrow> \<not> falsy x)"

definition dpo_view :: "platform \<Rightarrow> lang \<Rightarrow> dpo_form \<Rightarrow> dpo_event node list" where
  "dpo_view pl l s =
     [El ''form'' [cls ''admin-form'', (''onSubmit'', Submit Save_contact),
          (''noValidate'', On_off True)]
        ((if dpf_initial s = None
         then [El ''p'' [cls ''muted''] [Tx (t_text ''notConfigured'' l)]]
         else []) @
        [El ''label'' [str ''htmlFor'' ''dpo-name''] [Tx (t_text ''dpoName'' l)],
         El ''input'' [str ''id'' ''dpo-name'', str ''type'' ''text'', (''required'', On_off True),
             (''maxLength'', Num 120), str ''value'' (dpf_name s),
             (''onChange'', Typed (Set_contact ''name''))] [],
         El ''label'' [str ''htmlFor'' ''dpo-email''] [Tx (t_text ''dpoEmail'' l)],
         El ''input'' [str ''id'' ''dpo-email'', str ''type'' ''email'', (''required'', On_off True),
             (''maxLength'', Num 254), str ''value'' (dpf_email s),
             (''onChange'', Typed (Set_contact ''email''))] [],
         El ''label'' [str ''htmlFor'' ''dpo-phone''] [Tx (t_text ''dpoPhone'' l)],
         El ''input'' [str ''id'' ''dpo-phone'', str ''type'' ''tel'', (''maxLength'', Num 40),
             str ''value'' (dpf_phone s), (''onChange'', Typed (Set_contact ''phone''))] [],
         El ''label'' [str ''htmlFor'' ''authority-email''] [Tx (t_text ''authorityEmail'' l)],
         El ''input'' [str ''id'' ''authority-email'', str ''type'' ''email'',
             (''required'', On_off True), (''maxLength'', Num 254),
             str ''value'' (dpf_authorityEmail s),
             (''onChange'', Typed (Set_contact ''authorityEmail''))] [],
         El ''label'' [str ''htmlFor'' ''retention-days'']
           [Tx (t_text ''retentionPolicyDays'' l)],
         El ''input'' [str ''id'' ''retention-days'', str ''type'' ''number'', (''min'', Num 30),
             (''max'', Num 36500), str ''value'' (number_text (dpf_days s)),
             (''onChange'', Typed (Set_contact ''retentionPolicyDays''))] []] @
        (if truthy_shown (dpf_error s)
         then [El ''p'' [str ''role'' ''alert'', cls ''form-error''] (show_error (dpf_error s))]
         else []) @
        (if saved_shown (dpf_savedAt s) \<and> \<not> truthy_shown (dpf_error s)
         then [El ''p'' [cls ''form-success'']
                 [Tx ([10003] @ asc '' ''), Tx (pl_dateText pl (the (dpf_savedAt s)))]]
         else []) @
        [El ''button'' [str ''type'' ''submit'', (''disabled'', On_off (dpf_busy s)),
             (''aria-busy'', On_off (dpf_busy s))]
           [Tx (if dpf_busy s then t_text ''saving'' l else t_text ''save'' l)]])]"

definition dpo_react :: "platform \<Rightarrow> dpo_event \<Rightarrow> dpo_form \<Rightarrow> (dpo_form, api_call) outcome" where
  "dpo_react pl e s =
     (case e of
        Set_contact k v \<Rightarrow>
          ((if k = ''name'' then s\<lparr>dpf_name := v\<rparr> else if k = ''email'' then s\<lparr>dpf_email := v\<rparr>
            else if k = ''phone'' then s\<lparr>dpf_phone := v\<rparr> else if k = ''authorityEmail'' then s\<lparr>dpf_authorityEmail := v\<rparr>
            else s\<lparr>dpf_days := pl_number pl v\<rparr>), [], [])
      | Contact_refreshed c \<Rightarrow> (s\<lparr>dpf_initial := c\<rparr>, [], [])
      | Save_contact \<Rightarrow> (s\<lparr>dpf_busy := True, dpf_error := None\<rparr>,
          [web_upsertDpoContact (JObj [(''name'', JStr (dpf_name s)), (''email'', JStr (dpf_email s)),
             (''phone'', if dpf_phone s = [] then JNull else JStr (dpf_phone s)),
             (''authorityEmail'', JStr (dpf_authorityEmail s)),
             (''retentionPolicyDays'', number_json (dpf_days s))])], []))"

definition dpo_settle :: "lang \<Rightarrow> api_call \<Rightarrow> web_answer \<Rightarrow> dpo_form \<Rightarrow> (dpo_form, api_call) outcome" where
  "dpo_settle l r a s =
     (let failed = (\<lambda>e. (s\<lparr>dpf_error := Some (guarded_error l ''Save failed'' e), dpf_busy := False\<rparr>, [], []))
      in case a of
           Inl e \<Rightarrow> failed e
         | Inr v \<Rightarrow> (case answer_member v ''updatedAt'' of
               None \<Rightarrow> failed (Failed [])
             | Some t \<Rightarrow> (s\<lparr>dpf_savedAt := t, dpf_busy := False\<rparr>, [], [Refresh])))"

definition dpo_init :: "dpo_contact option \<Rightarrow> dpo_form" where
  "dpo_init c = \<lparr>dpf_initial = c,
     dpf_name = (case c of None \<Rightarrow> [] | Some d \<Rightarrow> dc_name d),
     dpf_email = (case c of None \<Rightarrow> [] | Some d \<Rightarrow> dc_email d),
     dpf_phone = (case c of None \<Rightarrow> [] | Some d \<Rightarrow> orElse (dc_phone d) []),
     dpf_authorityEmail = (case c of None \<Rightarrow> [] | Some d \<Rightarrow> dc_authorityEmail d),
     dpf_days = Some (case c of None \<Rightarrow> 2555 | Some d \<Rightarrow> of_int (dc_retentionPolicyDays d)),
     dpf_busy = False, dpf_error = None, dpf_savedAt = None\<rparr>"

definition dpo_contact_form ::
    "platform \<Rightarrow> lang \<Rightarrow> dpo_contact option \<Rightarrow> (dpo_form, dpo_event, api_call, web_answer) component" where
  "dpo_contact_form pl l c = \<lparr>cp_view = dpo_view pl l, cp_react = dpo_react pl, cp_settle = dpo_settle l,
     cp_ambient = (\<lambda>e. \<exists>c. e = Contact_refreshed c), cp_locks = (\<lambda>_. True), cp_start = dpo_init c, cp_mount = []\<rparr>"

interpretation dpo: released_form "dpo_contact_form pl l c" dpf_busy "\<lambda>e. e = Save_contact" for pl l c
proof unfold_locales
  show "dpf_busy s \<Longrightarrow> offers_list (cp_view (dpo_contact_form pl l c) s) e \<Longrightarrow> \<not> e = Save_contact" for s e
    by (cases e) (auto simp: dpo_contact_form_def dpo_view_def off_def str_def cls_def split: if_splits option.splits)
qed (auto simp: dpo_contact_form_def dpo_react_def dpo_settle_def dpo_init_def Let_def
    split: dpo_event.splits sum.splits option.splits if_splits)

subsection \<open>Data-subject requests\<close>

definition REQUEST_TYPES :: "string list" where
  "REQUEST_TYPES = [''access'', ''erasure'', ''rectification'']"

record dsr_create_form =
  dcf_type :: string
  dcf_email :: string
  dcf_notes :: string
  dcf_busy :: bool
  dcf_error :: "shown option"

datatype dsr_create_event = Set_type string | Set_subject string | Set_notes string | File_request

definition dsr_create_view :: "lang \<Rightarrow> dsr_create_form \<Rightarrow> dsr_create_event node list" where
  "dsr_create_view l s =
     [El ''form'' [cls ''admin-form-inline'', (''onSubmit'', Submit File_request),
          (''noValidate'', On_off True)]
        ([El ''label'' [str ''htmlFor'' ''dsr-email''] [Tx (t_text ''subjectEmail'' l)],
         El ''input'' [str ''id'' ''dsr-email'', str ''type'' ''email'', (''required'', On_off True),
             str ''value'' (dcf_email s), (''onChange'', Typed Set_subject)] [],
         El ''label'' [str ''htmlFor'' ''dsr-type''] [Tx (t_text ''requestType'' l)],
         El ''select'' [str ''id'' ''dsr-type'', str ''value'' (dcf_type s),
             (''onChange'', Typed Set_type)]
           (concat (map (\<lambda>tp.
             [El ''option'' [str ''key'' tp, str ''value'' tp]
                [Tx (t_text (if tp = ''access'' then ''dsrAccess'' else (if tp = ''erasure'' then
                    ''dsrErasure'' else ''dsrRectification'')) l)]])
             REQUEST_TYPES)),
         El ''label'' [str ''htmlFor'' ''dsr-notes''] [Tx (t_text ''notes'' l)],
         El ''input'' [str ''id'' ''dsr-notes'', str ''type'' ''text'', (''maxLength'', Num 2000),
             str ''value'' (dcf_notes s), (''onChange'', Typed Set_notes)] []] @
        (if truthy_shown (dcf_error s)
         then [El ''p'' [str ''role'' ''alert'', cls ''form-error''] (show_error (dcf_error s))]
         else []) @
        [El ''button'' [str ''type'' ''submit'', (''disabled'', On_off (dcf_busy s)),
             (''aria-busy'', On_off (dcf_busy s))]
           [Tx (if dcf_busy s then t_text ''saving'' l else t_text ''save'' l)]])]"

text \<open>Empty notes are \<^verbatim>\<open>undefined\<close>, which \<^verbatim>\<open>JSON.stringify\<close> leaves out.\<close>

definition dsr_create_react :: "dsr_create_event \<Rightarrow> dsr_create_form \<Rightarrow> (dsr_create_form, api_call) outcome" where
  "dsr_create_react e s =
     (case e of
        Set_type v \<Rightarrow> (s\<lparr>dcf_type := v\<rparr>, [], [])
      | Set_subject v \<Rightarrow> (s\<lparr>dcf_email := v\<rparr>, [], [])
      | Set_notes v \<Rightarrow> (s\<lparr>dcf_notes := v\<rparr>, [], [])
      | File_request \<Rightarrow> (s\<lparr>dcf_busy := True, dcf_error := None\<rparr>,
          [web_createDataSubjectRequest (JObj ([(''type'', JStr (dcf_type s)), (''subjectEmail'', JStr (dcf_email s))] @
             (if dcf_notes s = [] then [] else [(''notes'', JStr (dcf_notes s))])))], []))"

definition dsr_create_settle :: "api_call \<Rightarrow> web_answer \<Rightarrow> dsr_create_form \<Rightarrow> (dsr_create_form, api_call) outcome" where
  "dsr_create_settle r a s =
     (case a of
        Inr _ \<Rightarrow> (s\<lparr>dcf_email := [], dcf_notes := [], dcf_busy := False\<rparr>, [], [Refresh])
      | Inl e \<Rightarrow> (s\<lparr>dcf_error := Some (plain_error ''Failed'' e), dcf_busy := False\<rparr>, [], []))"

definition dsr_create :: "lang \<Rightarrow> (dsr_create_form, dsr_create_event, api_call, web_answer) component" where
  "dsr_create l = \<lparr>cp_view = dsr_create_view l, cp_react = dsr_create_react, cp_settle = dsr_create_settle,
     cp_ambient = (\<lambda>_. False), cp_locks = (\<lambda>_. True),
     cp_start = \<lparr>dcf_type = ''access'', dcf_email = [], dcf_notes = [], dcf_busy = False, dcf_error = None\<rparr>, cp_mount = []\<rparr>"

interpretation dsr_form: released_form "dsr_create l" dcf_busy "\<lambda>e. e = File_request" for l
proof unfold_locales
  show "dcf_busy s \<Longrightarrow> offers_list (cp_view (dsr_create l) s) e \<Longrightarrow> \<not> e = File_request" for s e
    by (cases e) (auto simp: dsr_create_def dsr_create_view_def off_def str_def cls_def split: if_splits)
qed (auto simp: dsr_create_def dsr_create_react_def dsr_create_settle_def
    split: dsr_create_event.splits sum.splits)

datatype row_op = Approve_it | Deny_it | Execute_it

record dsr_actions_form =
  daf_row :: subject_request
  daf_busy :: bool
  daf_error :: "shown option"

datatype dsr_event = Run_request row_op | Request_refreshed subject_request

definition dsr_view :: "lang \<Rightarrow> dsr_actions_form \<Rightarrow> dsr_event node list" where
  "dsr_view l s =
     [El ''div'' [cls ''row-actions'']
        ((if ds_status (daf_row s) = ''pending''
         then [El ''button'' [str ''type'' ''button'', cls ''btn-sm'',
                   (''disabled'', On_off (daf_busy s)),
                   (''onClick'', Click (Run_request Approve_it))]
                 [Tx (t_text ''approve'' l)],
               El ''button'' [str ''type'' ''button'', cls ''btn-sm btn-danger'',
                   (''disabled'', On_off (daf_busy s)), (''onClick'', Click (Run_request Deny_it))]
                 [Tx (t_text ''deny'' l)]]
         else []) @
        (if ds_status (daf_row s) = ''approved''
         then [El ''button'' [str ''type'' ''button'', cls ''btn-sm btn-primary'',
                   (''disabled'', On_off (daf_busy s)),
                   (''onClick'', Click (Run_request Execute_it))]
                 [Tx (t_text ''execute'' l)]]
         else []) @
        (if truthy_shown (daf_error s)
         then [El ''span'' [str ''role'' ''alert'', cls ''row-error''] (show_error (daf_error s))]
         else []))]"

definition dsr_react :: "dsr_event \<Rightarrow> dsr_actions_form \<Rightarrow> (dsr_actions_form, api_call) outcome" where
  "dsr_react e s =
     (case e of
        Request_refreshed row \<Rightarrow> (s\<lparr>daf_row := row\<rparr>, [], [])
      | Run_request op \<Rightarrow> (s\<lparr>daf_busy := True, daf_error := None\<rparr>,
          [case op of
             Approve_it \<Rightarrow> web_approveDataSubjectRequest (ds_id (daf_row s))
           | Deny_it \<Rightarrow> web_denyDataSubjectRequest (ds_id (daf_row s)) None
           | Execute_it \<Rightarrow> web_executeDataSubjectRequest (ds_id (daf_row s))], []))"

definition dsr_settle :: "lang \<Rightarrow> api_call \<Rightarrow> web_answer \<Rightarrow> dsr_actions_form \<Rightarrow> (dsr_actions_form, api_call) outcome" where
  "dsr_settle l r a s =
     (case a of
        Inr _ \<Rightarrow> (s\<lparr>daf_busy := False\<rparr>, [], [Refresh])
      | Inl e \<Rightarrow> (s\<lparr>daf_error := Some (guarded_error l ''Failed'' e), daf_busy := False\<rparr>, [], []))"

definition dsr_actions_init :: "subject_request \<Rightarrow> dsr_actions_form" where
  "dsr_actions_init row = \<lparr>daf_row = row, daf_busy = False, daf_error = None\<rparr>"

definition dsr_actions :: "lang \<Rightarrow> subject_request \<Rightarrow> (dsr_actions_form, dsr_event, api_call, web_answer) component" where
  "dsr_actions l row = \<lparr>cp_view = dsr_view l, cp_react = dsr_react, cp_settle = dsr_settle l,
     cp_ambient = (\<lambda>e. \<exists>r. e = Request_refreshed r), cp_locks = (\<lambda>_. True),
     cp_start = dsr_actions_init row, cp_mount = []\<rparr>"

interpretation dsr_row: released_form "dsr_actions l row" daf_busy "\<lambda>e. \<exists>op. e = Run_request op" for l row
proof unfold_locales
  show "daf_busy s \<Longrightarrow> offers_list (cp_view (dsr_actions l row) s) e \<Longrightarrow> \<not> (\<exists>op. e = Run_request op)" for s e
    by (cases e) (auto simp: dsr_actions_def dsr_view_def off_def str_def cls_def split: if_splits)
qed (auto simp: dsr_actions_def dsr_react_def dsr_settle_def dsr_actions_init_def
    split: dsr_event.splits sum.splits)

subsection \<open>Retention\<close>

record retention_form =
  rtf_row :: retention_action
  rtf_busy :: bool
  rtf_error :: "shown option"

datatype retention_event = Run_action row_op | Action_refreshed retention_action

definition retention_view :: "lang \<Rightarrow> retention_form \<Rightarrow> retention_event node list" where
  "retention_view l s =
     (if ra_status (rtf_row s) \<noteq> ''pending'' then [El ''span'' [cls ''muted small''] [Tx [8212]]] else
     [El ''div'' [cls ''row-actions'']
        ([El ''button'' [str ''type'' ''button'', cls ''btn-sm'', (''disabled'', On_off (rtf_busy s)),
             (''onClick'', Click (Run_action Approve_it))]
           [Tx (t_text ''approve'' l)],
         El ''button'' [str ''type'' ''button'', cls ''btn-sm btn-danger'',
             (''disabled'', On_off (rtf_busy s)), (''onClick'', Click (Run_action Deny_it))]
           [Tx (t_text ''deny'' l)]] @
        (if truthy_shown (rtf_error s)
         then [El ''span'' [str ''role'' ''alert'', cls ''row-error''] (show_error (rtf_error s))]
         else []))])"

definition retention_react :: "retention_event \<Rightarrow> retention_form \<Rightarrow> (retention_form, api_call) outcome" where
  "retention_react e s =
     (case e of
        Action_refreshed row \<Rightarrow> (s\<lparr>rtf_row := row\<rparr>, [], [])
      | Run_action op \<Rightarrow> (s\<lparr>rtf_busy := True, rtf_error := None\<rparr>,
          [if op = Approve_it then web_approveRetention (ra_id (rtf_row s)) else web_denyRetention (ra_id (rtf_row s))], []))"

definition retention_settle :: "lang \<Rightarrow> api_call \<Rightarrow> web_answer \<Rightarrow> retention_form \<Rightarrow> (retention_form, api_call) outcome" where
  "retention_settle l r a s =
     (case a of
        Inr _ \<Rightarrow> (s\<lparr>rtf_busy := False\<rparr>, [], [Refresh])
      | Inl e \<Rightarrow> (s\<lparr>rtf_error := Some (guarded_error l ''Failed'' e), rtf_busy := False\<rparr>, [], []))"

definition retention_init :: "retention_action \<Rightarrow> retention_form" where
  "retention_init row = \<lparr>rtf_row = row, rtf_busy = False, rtf_error = None\<rparr>"

definition retention_row :: "lang \<Rightarrow> retention_action \<Rightarrow> (retention_form, retention_event, api_call, web_answer) component" where
  "retention_row l row = \<lparr>cp_view = retention_view l, cp_react = retention_react, cp_settle = retention_settle l,
     cp_ambient = (\<lambda>e. \<exists>r. e = Action_refreshed r), cp_locks = (\<lambda>_. True), cp_start = retention_init row, cp_mount = []\<rparr>"

interpretation retention_ui: released_form "retention_row l row" rtf_busy "\<lambda>e. \<exists>op. e = Run_action op" for l row
proof unfold_locales
  show "rtf_busy s \<Longrightarrow> offers_list (cp_view (retention_row l row) s) e \<Longrightarrow> \<not> (\<exists>op. e = Run_action op)" for s e
    by (cases e) (auto simp: retention_row_def retention_view_def off_def str_def cls_def split: if_splits)
qed (auto simp: retention_row_def retention_react_def retention_settle_def retention_init_def
    split: retention_event.splits sum.splits if_splits)

record sweep_form =
  msf_busy :: bool
  msf_last :: "utext option"
  msf_error :: "shown option"

datatype sweep_event = Sweep_now

definition sweep_view :: "lang \<Rightarrow> sweep_form \<Rightarrow> sweep_event node list" where
  "sweep_view l s =
     [El ''div'' [cls ''sweep-cluster'']
        ([El ''button'' [str ''type'' ''button'', cls ''btn'', (''disabled'', On_off (msf_busy s)),
             (''onClick'', Click Sweep_now)]
           [Tx (if msf_busy s then t_text ''saving'' l else t_text ''manualSweep'' l)]] @
        (case msf_last s of
          Some line \<Rightarrow> [El ''span'' [cls ''muted small''] [Tx line]]
        | None \<Rightarrow> []) @
        (if truthy_shown (msf_error s)
         then [El ''span'' [str ''role'' ''alert'', cls ''form-error small'']
                 ((show_error (msf_error s)))]
         else []))]"

definition sweep_react :: "sweep_event \<Rightarrow> sweep_form \<Rightarrow> (sweep_form, api_call) outcome" where
  "sweep_react e s = (s\<lparr>msf_busy := True, msf_error := None\<rparr>, [web_manualSweep], [])"

definition sweep_settle :: "lang \<Rightarrow> api_call \<Rightarrow> web_answer \<Rightarrow> sweep_form \<Rightarrow> (sweep_form, api_call) outcome" where
  "sweep_settle l r a s =
     (let failed = (\<lambda>e. (s\<lparr>msf_error := Some (denied_or_failed l e), msf_busy := False\<rparr>, [], []))
      in case a of
           Inl e \<Rightarrow> failed e
         | Inr v \<Rightarrow> (case (answer_member v ''created'', answer_member v ''docsScanned'') of
               (Some c, Some d) \<Rightarrow> (s\<lparr>msf_last := Some (if l = Ar
                   then asc (in_template c) @ (asc '' '' @ [1573, 1590, 1575, 1601, 1577, 32, 1605, 1606] @ asc '' '') @ asc (in_template d) @ (asc '' '' @ [1608, 1579, 1610, 1602, 1577])
                   else asc (in_template c @ '' created, '' @ in_template d @ '' scanned'')), msf_busy := False\<rparr>, [], [Refresh])
             | _ \<Rightarrow> failed (Failed [])))"

definition sweep_init :: sweep_form where
  "sweep_init = \<lparr>msf_busy = False, msf_last = None, msf_error = None\<rparr>"

definition manual_sweep :: "lang \<Rightarrow> (sweep_form, sweep_event, api_call, web_answer) component" where
  "manual_sweep l = \<lparr>cp_view = sweep_view l, cp_react = sweep_react, cp_settle = sweep_settle l,
     cp_ambient = (\<lambda>_. False), cp_locks = (\<lambda>_. True), cp_start = sweep_init, cp_mount = []\<rparr>"

interpretation sweep_ui: released_form "manual_sweep l" msf_busy "\<lambda>e. True" for l
proof unfold_locales
  show "msf_busy s \<Longrightarrow> offers_list (cp_view (manual_sweep l) s) e \<Longrightarrow> \<not> True" for s e
    by (cases e) (auto simp: manual_sweep_def sweep_view_def off_def str_def cls_def split: if_splits option.splits)
qed (auto simp: manual_sweep_def sweep_react_def sweep_settle_def sweep_init_def Let_def
    split: sum.splits option.splits prod.splits if_splits)

subsection \<open>Ingestion\<close>

record enqueue_form =
  eef_text :: string
  eef_busy :: bool
  eef_error :: "shown option"
  eef_last :: "string option"

datatype enqueue_event = Set_notice string | Enqueue

definition enqueue_view :: "lang \<Rightarrow> enqueue_form \<Rightarrow> enqueue_event node list" where
  "enqueue_view l s =
     [El ''form'' [cls ''admin-form'', (''onSubmit'', Submit Enqueue), (''noValidate'', On_off True)]
        ([El ''label'' [str ''htmlFor'' ''etimad-text''] [Tx (t_text ''rawNotice'' l)],
         El ''textarea'' [str ''id'' ''etimad-text'', (''required'', On_off True), (''rows'', Num 6),
             str ''value'' (eef_text s), (''onChange'', Typed Set_notice),
             (''placeholder'', Val (if l = Ar then [1575, 1604, 1589, 1602, 32, 1606, 1589, 32,
                 1573, 1593, 1604, 1575, 1606, 32, 1575, 1604, 1605, 1606, 1575, 1601, 1587, 1577,
                     32, 1607, 1606, 1575] @ asc ''...'' else asc
                         ''Paste the tender notice text here'' @ [8230]))] []] @
        (if truthy_shown (eef_error s)
         then [El ''p'' [str ''role'' ''alert'', cls ''form-error''] (show_error (eef_error s))]
         else []) @
        (if truthyS (eef_last s) \<and> \<not> truthy_shown (eef_error s)
         then [El ''p'' [cls ''form-success'']
                 [Tx ([10003] @ asc '' ''),
                  Tx (if l = Ar then [1578, 1605, 1578, 32, 1573, 1590, 1575, 1601, 1577, 32, 1575,
                      1604, 1608, 1592, 1610, 1601, 1577] else asc ''Job enqueued''),
                  tx '':'',
                  tx '' '',
                  El ''code'' [cls ''mono''] [tx (the (eef_last s))]]]
         else []) @
        [El ''button'' [str ''type'' ''submit'', (''disabled'', On_off (eef_busy s)),
             (''aria-busy'', On_off (eef_busy s))]
           [Tx (if eef_busy s then t_text ''saving'' l else t_text ''enqueue'' l)]])]"

definition enqueue_react :: "enqueue_event \<Rightarrow> enqueue_form \<Rightarrow> (enqueue_form, api_call) outcome" where
  "enqueue_react e s =
     (case e of
        Set_notice v \<Rightarrow> (s\<lparr>eef_text := v\<rparr>, [], [])
      | Enqueue \<Rightarrow> (s\<lparr>eef_busy := True, eef_error := None\<rparr>,
          [web_enqueueIngestion (JObj [(''kind'', JStr ''etimad''),
             (''payload'', JObj [(''text'', JStr (eef_text s))])])], []))"

text \<open>The id of a job is a string; anything else would not be shown.\<close>

definition enqueue_settle :: "api_call \<Rightarrow> web_answer \<Rightarrow> enqueue_form \<Rightarrow> (enqueue_form, api_call) outcome" where
  "enqueue_settle r a s =
     (let failed = (\<lambda>e. (s\<lparr>eef_error := Some (plain_error ''Failed'' e), eef_busy := False\<rparr>, [], []))
      in case a of
           Inl e \<Rightarrow> failed e
         | Inr v \<Rightarrow> (case answer_member v ''id'' of
               None \<Rightarrow> failed (Failed [])
             | Some i \<Rightarrow> (s\<lparr>eef_last := (case i of Some (JStr x) \<Rightarrow> Some x | _ \<Rightarrow> None), eef_text := [],
                 eef_busy := False\<rparr>, [], [Refresh])))"

definition enqueue_init :: enqueue_form where
  "enqueue_init = \<lparr>eef_text = [], eef_busy = False, eef_error = None, eef_last = None\<rparr>"

definition etimad_enqueue :: "lang \<Rightarrow> (enqueue_form, enqueue_event, api_call, web_answer) component" where
  "etimad_enqueue l = \<lparr>cp_view = enqueue_view l, cp_react = enqueue_react, cp_settle = enqueue_settle,
     cp_ambient = (\<lambda>_. False), cp_locks = (\<lambda>_. True), cp_start = enqueue_init, cp_mount = []\<rparr>"

interpretation enqueue_ui: released_form "etimad_enqueue l" eef_busy "\<lambda>e. e = Enqueue" for l
proof unfold_locales
  show "eef_busy s \<Longrightarrow> offers_list (cp_view (etimad_enqueue l) s) e \<Longrightarrow> \<not> e = Enqueue" for s e
    by (cases e) (auto simp: etimad_enqueue_def enqueue_view_def off_def str_def cls_def split: if_splits)
qed (auto simp: etimad_enqueue_def enqueue_react_def enqueue_settle_def enqueue_init_def Let_def
    split: enqueue_event.splits sum.splits option.splits)

record trigger_form =
  trf_busy :: bool
  trf_sourceCode :: string
  trf_maxPages :: string
  trf_maxItems :: string
  trf_syncToAdmin :: bool
  trf_success :: "utext option"
  trf_error :: "shown option"

datatype trigger_event = Set_source_code string | Set_max_pages string | Set_max_items string | Set_sync bool | Trigger

definition trigger_view :: "lang \<Rightarrow> trigger_form \<Rightarrow> trigger_event node list" where
  "trigger_view l s =
     [El ''form'' [cls ''admin-form'', (''onSubmit'', Submit Trigger)]
        ([El ''label'' []
           [El ''span'' [] [Tx (t_text ''ingestionSource'' l)],
            El ''input'' [str ''value'' (trf_sourceCode s), (''onChange'', Typed Set_source_code),
                (''required'', On_off True), (''maxLength'', Num 80)] []],
         El ''label'' []
           [El ''span'' [] [Tx (t_text ''ingestionMaxPages'' l)],
            El ''input'' [str ''type'' ''number'', (''min'', Num 1), (''max'', Num 50),
                str ''value'' (trf_maxPages s), (''onChange'', Typed Set_max_pages)] []],
         El ''label'' []
           [El ''span'' [] [Tx (t_text ''ingestionMaxItems'' l)],
            El ''input'' [str ''type'' ''number'', (''min'', Num 1), (''max'', Num 500),
                str ''value'' (trf_maxItems s), (''onChange'', Typed Set_max_items)] []],
         El ''label'' [cls ''checkbox-row'']
           [El ''input'' [str ''type'' ''checkbox'', (''checked'', On_off (trf_syncToAdmin s)),
                (''onChange'', Checked Set_sync)] [],
            El ''span'' [] [Tx (t_text ''ingestionSyncToAdmin'' l)]]] @
        (case trf_success s of
          Some success \<Rightarrow> [El ''p'' [str ''role'' ''status'', cls ''form-success''] [Tx
              success]]
        | None \<Rightarrow> []) @
        (if truthy_shown (trf_error s)
         then [El ''p'' [str ''role'' ''alert'', cls ''form-error''] (show_error (trf_error s))]
         else []) @
        [El ''button'' [str ''type'' ''submit'', (''disabled'', On_off (trf_busy s))]
           [Tx (t_text ''ingestionTrigger'' l)]])]"

definition trigger_react :: "platform \<Rightarrow> trigger_event \<Rightarrow> trigger_form \<Rightarrow> (trigger_form, api_call) outcome" where
  "trigger_react pl e s =
     (case e of
        Set_source_code v \<Rightarrow> (s\<lparr>trf_sourceCode := v\<rparr>, [], [])
      | Set_max_pages v \<Rightarrow> (s\<lparr>trf_maxPages := v\<rparr>, [], [])
      | Set_max_items v \<Rightarrow> (s\<lparr>trf_maxItems := v\<rparr>, [], [])
      | Set_sync b \<Rightarrow> (s\<lparr>trf_syncToAdmin := b\<rparr>, [], [])
      | Trigger \<Rightarrow> (s\<lparr>trf_busy := True, trf_success := None, trf_error := None\<rparr>,
          [web_triggerIngestionRun (JObj [(''sourceCode'', JStr (trim (trf_sourceCode s))),
             (''maxPages'', number_json (pl_number pl (trf_maxPages s))),
             (''maxItems'', number_json (pl_number pl (trf_maxItems s))),
             (''syncToAdmin'', JBool (trf_syncToAdmin s))])], []))"

text \<open>The line about the run that was started; \<open>None\<close> where reading the answer throws.\<close>

definition trigger_line :: "lang \<Rightarrow> json option \<Rightarrow> utext option" where
  "trigger_line l v =
     (let n = (\<lambda>k. in_template (member_of v k))
      in case answer_member v ''runId'' of
           Some (Some (JStr i)) \<Rightarrow> Some (t_text ''ingestionTriggerSuccess'' l @ (asc '' '' @ [8212] @ asc '' '') @ asc (take 8 i) @ ([8230] @ asc '' d='') @
             asc (n ''discovered'' @ '' c='' @ n ''captured'' @ '' n='' @ n ''normalised'' @ '' e='' @ n ''enriched'' @
               '' ready='' @ n ''curationReady'' @ '' rej='' @ n ''rejected''))
         | _ \<Rightarrow> None)"

definition trigger_settle :: "lang \<Rightarrow> api_call \<Rightarrow> web_answer \<Rightarrow> trigger_form \<Rightarrow> (trigger_form, api_call) outcome" where
  "trigger_settle l r a s =
     (let failed = (\<lambda>e. (s\<lparr>trf_error := Some (titled_error (t_text ''ingestionTriggerFailed'' l) e), trf_busy := False\<rparr>, [], []))
      in case a of
           Inl e \<Rightarrow> failed e
         | Inr v \<Rightarrow> (case trigger_line l v of
               None \<Rightarrow> failed (Failed [])
             | Some line \<Rightarrow> (s\<lparr>trf_success := Some line, trf_busy := False\<rparr>, [], [Refresh])))"

definition trigger_init :: trigger_form where
  "trigger_init = \<lparr>trf_busy = False, trf_sourceCode = ''etimad'', trf_maxPages = ''1'', trf_maxItems = ''5'',
     trf_syncToAdmin = True, trf_success = None, trf_error = None\<rparr>"

definition ingestion_trigger :: "platform \<Rightarrow> lang \<Rightarrow> (trigger_form, trigger_event, api_call, web_answer) component" where
  "ingestion_trigger pl l = \<lparr>cp_view = trigger_view l, cp_react = trigger_react pl, cp_settle = trigger_settle l,
     cp_ambient = (\<lambda>_. False), cp_locks = (\<lambda>_. True), cp_start = trigger_init, cp_mount = []\<rparr>"

interpretation trigger_ui: released_form "ingestion_trigger pl l" trf_busy "\<lambda>e. e = Trigger" for pl l
proof unfold_locales
  show "trf_busy s \<Longrightarrow> offers_list (cp_view (ingestion_trigger pl l) s) e \<Longrightarrow> \<not> e = Trigger" for s e
    by (cases e) (auto simp: ingestion_trigger_def trigger_view_def off_def str_def cls_def split: if_splits option.splits)
qed (auto simp: ingestion_trigger_def trigger_react_def trigger_settle_def trigger_init_def Let_def
    split: trigger_event.splits sum.splits option.splits)

subsection \<open>The training register\<close>

definition empty_training :: training_form where
  "empty_training = \<lparr>tf_subjectName = [], tf_subjectEmail = [], tf_topic = [], tf_provider = [], tf_completedAt = [],
     tf_validUntil = [], tf_evidenceRef = [], tf_notes = []\<rparr>"

definition set_field :: "string \<Rightarrow> string \<Rightarrow> training_form \<Rightarrow> training_form" where
  "set_field k v f =
     (if k = ''subjectName'' then f\<lparr>tf_subjectName := v\<rparr> else if k = ''subjectEmail'' then f\<lparr>tf_subjectEmail := v\<rparr>
      else if k = ''topic'' then f\<lparr>tf_topic := v\<rparr> else if k = ''provider'' then f\<lparr>tf_provider := v\<rparr>
      else if k = ''completedAt'' then f\<lparr>tf_completedAt := v\<rparr> else if k = ''validUntil'' then f\<lparr>tf_validUntil := v\<rparr>
      else if k = ''evidenceRef'' then f\<lparr>tf_evidenceRef := v\<rparr> else f\<lparr>tf_notes := v\<rparr>)"

record training_register_form =
  taf_open :: bool
  taf_busy :: bool
  taf_form :: training_form
  taf_error :: "shown option"

datatype training_register_event = Open_form | Cancel_form | Set_field string string | Save_training

definition training_register_view :: "lang \<Rightarrow> training_register_form \<Rightarrow> training_register_event node list" where
  "training_register_view l s =
     (if \<not> taf_open s then
     [El ''button'' [str ''type'' ''button'', cls ''btn-primary'', (''onClick'', Click Open_form)]
        [Tx (t_text ''trainingAddRecord'' l)]] else
     [El ''form'' [cls ''admin-form'', (''onSubmit'', Submit Save_training)]
        ([El ''label'' []
           [El ''span'' [] [Tx (t_text ''trainingSubjectName'' l)],
            El ''input'' [str ''value'' (tf_subjectName (taf_form s)),
                (''onChange'', Typed (Set_field ''subjectName'')), (''required'', On_off True),
                (''maxLength'', Num 200)] []],
         El ''label'' []
           [El ''span'' [] [Tx (t_text ''trainingSubjectEmail'' l)],
            El ''input'' [str ''type'' ''email'', str ''value'' (tf_subjectEmail (taf_form s)),
                (''onChange'', Typed (Set_field ''subjectEmail'')), (''required'', On_off True),
                (''maxLength'', Num 254)] []],
         El ''label'' []
           [El ''span'' [] [Tx (t_text ''trainingTopic'' l)],
            El ''input'' [str ''value'' (tf_topic (taf_form s)),
                (''onChange'', Typed (Set_field ''topic'')), (''required'', On_off True),
                (''maxLength'', Num 200)] []],
         El ''label'' []
           [El ''span'' [] [Tx (t_text ''trainingProvider'' l)],
            El ''input'' [str ''value'' (tf_provider (taf_form s)),
                (''onChange'', Typed (Set_field ''provider'')), (''maxLength'', Num 120)] []],
         El ''label'' []
           [El ''span'' [] [Tx (t_text ''trainingCompletedAt'' l)],
            El ''input'' [str ''type'' ''date'', str ''value'' (tf_completedAt (taf_form s)),
                (''onChange'', Typed (Set_field ''completedAt'')), (''required'', On_off True)] []],
         El ''label'' []
           [El ''span'' [] [Tx (t_text ''trainingValidUntil'' l)],
            El ''input'' [str ''type'' ''date'', str ''value'' (tf_validUntil (taf_form s)),
                (''onChange'', Typed (Set_field ''validUntil''))] []],
         El ''label'' []
           [El ''span'' [] [Tx (t_text ''trainingEvidenceRef'' l)],
            El ''input'' [str ''value'' (tf_evidenceRef (taf_form s)),
                (''onChange'', Typed (Set_field ''evidenceRef'')), (''maxLength'', Num 500)] []],
         El ''label'' []
           [El ''span'' [] [Tx (t_text ''trainingNotes'' l)],
            El ''textarea'' [str ''value'' (tf_notes (taf_form s)),
                (''onChange'', Typed (Set_field ''notes'')), (''maxLength'', Num 2000),
                (''rows'', Num 3)] []]] @
        (if truthy_shown (taf_error s)
         then [El ''p'' [str ''role'' ''alert'', cls ''form-error''] (show_error (taf_error s))]
         else []) @
        [El ''div'' [cls ''row-actions'']
           [El ''button'' [str ''type'' ''button'', cls ''btn-sm'',
                (''disabled'', On_off (taf_busy s)), (''onClick'', Click Cancel_form)]
              [Tx (t_text ''trainingCancel'' l)],
            El ''button'' [str ''type'' ''submit'', (''disabled'', On_off (taf_busy s))]
              [Tx (t_text ''trainingSave'' l)]]])])"

definition training_register_react ::
    "platform \<Rightarrow> training_register_event \<Rightarrow> training_register_form \<Rightarrow> (training_register_form, api_call) outcome" where
  "training_register_react pl e s =
     (case e of
        Open_form \<Rightarrow> (s\<lparr>taf_open := True\<rparr>, [], [])
      | Cancel_form \<Rightarrow> (s\<lparr>taf_form := empty_training, taf_open := False, taf_error := None\<rparr>, [], [])
      | Set_field k v \<Rightarrow> (s\<lparr>taf_form := set_field k v (taf_form s)\<rparr>, [], [])
      | Save_training \<Rightarrow>
          (case training_create_body (pl_toIso pl) (taf_form s) of
             None \<Rightarrow> (s\<lparr>taf_error := Some (said ''Failed''), taf_busy := False\<rparr>, [], [])
           | Some body \<Rightarrow> (s\<lparr>taf_error := None, taf_busy := True\<rparr>, [web_createTrainingRecord body], [])))"

definition training_register_settle ::
    "api_call \<Rightarrow> web_answer \<Rightarrow> training_register_form \<Rightarrow> (training_register_form, api_call) outcome" where
  "training_register_settle r a s =
     (case a of
        Inr _ \<Rightarrow> (s\<lparr>taf_form := empty_training, taf_open := False, taf_busy := False\<rparr>, [], [Refresh])
      | Inl e \<Rightarrow> (s\<lparr>taf_error := Some (said (extractError e)), taf_busy := False\<rparr>, [], []))"

definition training_register_init :: training_register_form where
  "training_register_init = \<lparr>taf_open = False, taf_busy = False, taf_form = empty_training, taf_error = None\<rparr>"

definition training_register ::
    "platform \<Rightarrow> lang \<Rightarrow> (training_register_form, training_register_event, api_call, web_answer) component" where
  "training_register pl l = \<lparr>cp_view = training_register_view l, cp_react = training_register_react pl,
     cp_settle = training_register_settle, cp_ambient = (\<lambda>_. False), cp_locks = (\<lambda>_. True),
     cp_start = training_register_init, cp_mount = []\<rparr>"

interpretation training_ui: released_form "training_register pl l" taf_busy "\<lambda>e. e = Save_training" for pl l
proof unfold_locales
  show "taf_busy s \<Longrightarrow> offers_list (cp_view (training_register pl l) s) e \<Longrightarrow> \<not> e = Save_training" for s e
    by (cases e) (auto simp: training_register_def training_register_view_def off_def str_def cls_def split: if_splits)
qed (auto simp: training_register_def training_register_react_def training_register_settle_def
    training_register_init_def split: training_register_event.splits sum.splits option.splits)

record training_row_form =
  twf_row :: training_with_status
  twf_editing :: bool
  twf_busy :: bool
  twf_error :: "shown option"
  twf_form :: training_form

datatype training_row_event =
    Edit_row | Cancel_edit | Set_row_field string string | Save_row | Remove_row bool

definition training_row_view :: "lang \<Rightarrow> training_row_form \<Rightarrow> training_row_event node list" where
  "training_row_view l s =
     (if twf_editing s then
     [El ''form'' [cls ''row-edit-form'', (''onSubmit'', Submit Save_row)]
        ([El ''input'' [str ''value'' (tf_topic (twf_form s)),
             (''onChange'', Typed (Set_row_field ''topic'')),
             (''placeholder'', Val (t_text ''trainingTopic'' l)), (''required'', On_off True)] [],
         El ''input'' [str ''value'' (tf_provider (twf_form s)),
             (''onChange'', Typed (Set_row_field ''provider'')),
             (''placeholder'', Val (t_text ''trainingProvider'' l))] [],
         El ''input'' [str ''type'' ''date'', str ''value'' (tf_completedAt (twf_form s)),
             (''onChange'', Typed (Set_row_field ''completedAt'')), (''required'', On_off True)] [],
         El ''input'' [str ''type'' ''date'', str ''value'' (tf_validUntil (twf_form s)),
             (''onChange'', Typed (Set_row_field ''validUntil''))] [],
         El ''div'' [cls ''row-actions'']
           [El ''button'' [str ''type'' ''button'', cls ''btn-sm'',
                (''disabled'', On_off (twf_busy s)), (''onClick'', Click Cancel_edit)]
              [Tx (t_text ''trainingCancel'' l)],
            El ''button'' [str ''type'' ''submit'', cls ''btn-sm btn-primary'',
                (''disabled'', On_off (twf_busy s))]
              [Tx (t_text ''trainingSave'' l)]]] @
        (if truthy_shown (twf_error s)
         then [El ''span'' [str ''role'' ''alert'', cls ''row-error''] (show_error (twf_error s))]
         else []))] else
     [El ''div'' [cls ''row-actions'']
        ([El ''button'' [str ''type'' ''button'', cls ''btn-sm'', (''disabled'', On_off (twf_busy s)),
             (''onClick'', Click Edit_row)]
           [Tx (t_text ''trainingEdit'' l)],
         El ''button'' [str ''type'' ''button'', cls ''btn-sm btn-danger'',
             (''disabled'', On_off (twf_busy s)), (''onClick'', Asked Remove_row)]
           [Tx (t_text ''trainingDelete'' l)]] @
        (if truthy_shown (twf_error s)
         then [El ''span'' [str ''role'' ''alert'', cls ''row-error''] (show_error (twf_error s))]
         else []))])"

definition training_row_react ::
    "platform \<Rightarrow> training_row_event \<Rightarrow> training_row_form \<Rightarrow> (training_row_form, api_call) outcome" where
  "training_row_react pl e s =
     (case e of
        Edit_row \<Rightarrow> (s\<lparr>twf_editing := True\<rparr>, [], [])
      | Cancel_edit \<Rightarrow> (s\<lparr>twf_editing := False\<rparr>, [], [])
      | Set_row_field k v \<Rightarrow> (s\<lparr>twf_form := set_field k v (twf_form s)\<rparr>, [], [])
      | Remove_row confirmed \<Rightarrow>
          if \<not> confirmed then (s, [], [])
          else (s\<lparr>twf_busy := True, twf_error := None\<rparr>, [web_removeTrainingRecord (dt_id (ts_row (twf_row s)))], [])
      | Save_row \<Rightarrow>
          (case training_update_body (pl_toIso pl) (twf_form s) of
             None \<Rightarrow> (s\<lparr>twf_error := Some (said ''Failed''), twf_busy := False\<rparr>, [], [])
           | Some body \<Rightarrow> (s\<lparr>twf_busy := True, twf_error := None\<rparr>,
               [web_updateTrainingRecord (dt_id (ts_row (twf_row s))) body], [])))"

text \<open>Only a saved edit closes the form: the call tells a removal from an update by its method.\<close>

definition training_row_settle ::
    "api_call \<Rightarrow> web_answer \<Rightarrow> training_row_form \<Rightarrow> (training_row_form, api_call) outcome" where
  "training_row_settle r a s =
     (case a of
        Inr _ \<Rightarrow> (s\<lparr>twf_editing := (if ac_method r = ''DELETE'' then twf_editing s else False), twf_busy := False\<rparr>,
          [], [Refresh])
      | Inl e \<Rightarrow> (s\<lparr>twf_error := Some (said (extractError e)), twf_busy := False\<rparr>, [], []))"

text \<open>The row's dates as the API prints them, cut to the day.\<close>

definition training_row_init :: "training_with_status \<Rightarrow> training_row_form" where
  "training_row_init row =
     (let r = ts_row row
      in \<lparr>twf_row = row, twf_editing = False, twf_busy = False, twf_error = None,
          twf_form = \<lparr>tf_subjectName = [], tf_subjectEmail = [], tf_topic = dt_topic r,
            tf_provider = orElse (dt_provider r) [],
            tf_completedAt = isoToDateInput (Some (iso_datetime (dt_completedAt r))),
            tf_validUntil = isoToDateInput (map_option iso_datetime (dt_validUntil r)),
            tf_evidenceRef = orElse (dt_evidenceRef r) [], tf_notes = orElse (dt_notes r) []\<rparr>\<rparr>)"

definition training_row ::
    "platform \<Rightarrow> lang \<Rightarrow> training_with_status \<Rightarrow> (training_row_form, training_row_event, api_call, web_answer) component" where
  "training_row pl l row = \<lparr>cp_view = training_row_view l, cp_react = training_row_react pl,
     cp_settle = training_row_settle, cp_ambient = (\<lambda>_. False), cp_locks = (\<lambda>_. True),
     cp_start = training_row_init row, cp_mount = []\<rparr>"

interpretation training_row_ui: released_form "training_row pl l row" twf_busy "\<lambda>e. e = Save_row \<or> e = Remove_row True"
  for pl l row
proof unfold_locales
  show "twf_busy s \<Longrightarrow> offers_list (cp_view (training_row pl l row) s) e \<Longrightarrow>
      \<not> (e = Save_row \<or> e = Remove_row True)" for s e
    by (cases e) (auto simp: training_row_def training_row_view_def off_def str_def cls_def split: if_splits)
qed (auto simp: training_row_def training_row_react_def training_row_settle_def training_row_init_def Let_def
    split: training_row_event.splits sum.splits option.splits if_splits)

subsection \<open>Signing in and out, the language\<close>

record login_form =
  lf_auth :: auth_state
  lf_email :: string
  lf_password :: string

datatype login_ui_event = Set_login_email string | Set_login_password string | Sign_in

definition login_view :: "login_form \<Rightarrow> login_ui_event node list" where
  "login_view s =
     [El ''form'' [cls ''login-form'', (''onSubmit'', Submit Sign_in), (''noValidate'', On_off True)]
        ([El ''h1'' [] [Tx (t_text ''appName'' DEFAULT_LOCALE)],
         El ''p'' [cls ''muted''] [Tx (t_text ''signInPrompt'' DEFAULT_LOCALE)],
         El ''label'' [str ''htmlFor'' ''email''] [Tx (t_text ''email'' DEFAULT_LOCALE)],
         El ''input'' [str ''id'' ''email'', str ''type'' ''email'',
             str ''autoComplete'' ''username'', str ''value'' (lf_email s),
             (''onChange'', Typed Set_login_email), (''required'', On_off True)] [],
         El ''label'' [str ''htmlFor'' ''password''] [Tx (t_text ''password'' DEFAULT_LOCALE)],
         El ''input'' [str ''id'' ''password'', str ''type'' ''password'',
             str ''autoComplete'' ''current-password'', str ''value'' (lf_password s),
             (''onChange'', Typed Set_login_password), (''minLength'', Num 8),
             (''required'', On_off True)] []] @
        (if truthyS (au_error (lf_auth s))
         then [El ''p'' [str ''role'' ''alert'', cls ''form-error'']
                 [tx (the (au_error (lf_auth s)))]]
         else []) @
        [El ''button'' [str ''type'' ''submit'', (''disabled'', On_off (au_pending (lf_auth s))),
             (''aria-busy'', On_off (au_pending (lf_auth s)))]
           [Tx (if au_pending (lf_auth s) then t_text ''signingIn'' DEFAULT_LOCALE else t_text
               ''signIn'' DEFAULT_LOCALE)]])]"

definition login_react :: "login_ui_event \<Rightarrow> login_form \<Rightarrow> (login_form, api_call) outcome" where
  "login_react e s =
     (case e of
        Set_login_email v \<Rightarrow> (s\<lparr>lf_email := v\<rparr>, [], [])
      | Set_login_password v \<Rightarrow> (s\<lparr>lf_password := v\<rparr>, [], [])
      | Sign_in \<Rightarrow> (s\<lparr>lf_auth := (auth_reset (lf_auth s))\<lparr>au_pending := True, au_error := None\<rparr>\<rparr>,
          [login_call (lf_email s) (lf_password s)], []))"

definition login_settle ::
    "(string \<times> string) list \<Rightarrow> api_call \<Rightarrow> web_answer \<Rightarrow> login_form \<Rightarrow> (login_form, api_call) outcome" where
  "login_settle params r a s =
     (let failed = (\<lambda>e. (s\<lparr>lf_auth := (lf_auth s)\<lparr>au_pending := False,
            au_error := Some (if web_message e \<noteq> [] then ''Invalid credentials'' else ''Sign-in failed'')\<rparr>\<rparr>, [], []))
      in case a of
           Inl e \<Rightarrow> failed e
         | Inr v \<Rightarrow> (case login_user v of
               Inl e \<Rightarrow> failed e
             | Inr u \<Rightarrow> (s\<lparr>lf_auth := (lf_auth s)\<lparr>au_user := u, au_pending := False\<rparr>\<rparr>, [],
                 [Replace (login_target params), Refresh])))"

definition login_init :: login_form where
  "login_init = \<lparr>lf_auth = auth_initial JNull, lf_email = [], lf_password = []\<rparr>"

definition login_component :: "(string \<times> string) list \<Rightarrow> (login_form, login_ui_event, api_call, web_answer) component" where
  "login_component params = \<lparr>cp_view = login_view, cp_react = login_react, cp_settle = login_settle params,
     cp_ambient = (\<lambda>_. False), cp_locks = (\<lambda>_. True), cp_start = login_init, cp_mount = []\<rparr>"

interpretation login_ui: released_form "login_component params" "\<lambda>s. au_pending (lf_auth s)" "\<lambda>e. e = Sign_in" for params
proof unfold_locales
  show "au_pending (lf_auth s) \<Longrightarrow> offers_list (cp_view (login_component params) s) e \<Longrightarrow> \<not> e = Sign_in" for s e
    by (cases e) (auto simp: login_component_def login_view_def off_def str_def cls_def split: if_splits)
qed (auto simp: login_component_def login_react_def login_settle_def login_init_def auth_initial_def auth_reset_def
    Let_def split: login_ui_event.splits sum.splits)

text \<open>The form in its two steps is the sign-in of the context: what the call ends in, it ends in.\<close>

lemma login_steps:
  assumes "login_react Sign_in s = (s', [c], fx)"
  shows "lf_auth (fst (login_settle params c (apiFetch env c) s')) =
    fst (auth_login env (lf_email s) (lf_password s) (lf_auth s))"
  using assms by (auto simp: login_react_def login_settle_def auth_login_def auth_reset_def Let_def
      split: sum.splits)

text \<open>The sign-out of the settings stays busy: the page is left.\<close>

record sign_out_form =
  sof_busy :: bool

datatype sign_out_event = Sign_out

definition sign_out_view :: "lang \<Rightarrow> sign_out_form \<Rightarrow> sign_out_event node list" where
  "sign_out_view l s =
     [El ''button'' [str ''type'' ''button'', cls ''btn btn-danger'',
          (''disabled'', On_off (sof_busy s)), (''onClick'', Click Sign_out)]
        [Tx (if sof_busy s then t_text ''saving'' l else t_text ''signOut'' l)]]"

definition sign_out_react :: "sign_out_event \<Rightarrow> sign_out_form \<Rightarrow> (sign_out_form, api_call) outcome" where
  "sign_out_react e s = (s\<lparr>sof_busy := True\<rparr>, [logout_call], [])"

definition sign_out_settle :: "api_call \<Rightarrow> web_answer \<Rightarrow> sign_out_form \<Rightarrow> (sign_out_form, api_call) outcome" where
  "sign_out_settle r a s = (s, [], [Replace ''/login'', Refresh])"

definition settings_sign_out :: "lang \<Rightarrow> (sign_out_form, sign_out_event, api_call, web_answer) component" where
  "settings_sign_out l = \<lparr>cp_view = sign_out_view l, cp_react = sign_out_react, cp_settle = sign_out_settle,
     cp_ambient = (\<lambda>_. False), cp_locks = (\<lambda>_. True), cp_start = \<lparr>sof_busy = False\<rparr>, cp_mount = []\<rparr>"

interpretation sign_out: busy_form "settings_sign_out l" sof_busy "\<lambda>e. True" for l
proof unfold_locales
  show "sof_busy s \<Longrightarrow> offers_list (cp_view (settings_sign_out l) s) e \<Longrightarrow> \<not> True" for s e
    by (cases e) (auto simp: settings_sign_out_def sign_out_view_def off_def str_def cls_def)
qed (auto simp: settings_sign_out_def sign_out_react_def sign_out_settle_def)

datatype locale_event = Choose lang

definition locale_view :: "lang \<Rightarrow> locale_event node list" where
  "locale_view cur =
     [El ''div'' [cls ''filter-row'']
        [El ''button'' [str ''type'' ''button'',
             cls (''chip '' @ (if cur = Ar then ''chip-active'' else '''')),
             (''onClick'', Click (Choose Ar))]
           [Tx [1575, 1604, 1593, 1585, 1576, 1610, 1577]],
         El ''button'' [str ''type'' ''button'',
             cls (''chip '' @ (if cur = En then ''chip-active'' else '''')),
             (''onClick'', Click (Choose En))]
           [tx ''English''],
         El ''span'' [cls ''muted small'']
           [Tx (if cur = Ar then [1575, 1604, 1608, 1575, 1580, 1607, 1577, 32, 1575, 1604, 1581,
               1575, 1604, 1610, 1577] else asc ''Current'')]]]"

definition locale_react :: "locale_event \<Rightarrow> lang \<Rightarrow> lang \<times> effect list" where
  "locale_react e cur = (case e of Choose next \<Rightarrow> setLocale next cur)"

text \<open>
  The header: the language of the provider and the user. Its sign-out button is not disabled while
  the call is out.
\<close>

record header_form =
  hd_locale :: lang
  hd_user :: "public_user option"

datatype header_event = Toggle_locale | Log_out

definition header_view :: "header_form \<Rightarrow> header_event node list" where
  "header_view s =
     [El ''header'' [cls ''app-header-bar'', str ''role'' ''banner'']
        [El ''div'' [cls ''brand''] [Tx (t_text ''appName'' (hd_locale s))],
         El ''div'' [cls ''header-actions'']
           ([El ''button'' [str ''type'' ''button'', cls ''locale-toggle'',
                (''onClick'', Click Toggle_locale),
                (''aria-label'', Val (t_text ''toggleLocale'' (hd_locale s)))]
              [Tx (t_text ''toggleLocale'' (hd_locale s))]] @
           (case hd_user s of
             Some user \<Rightarrow>
               [El ''span'' [cls ''user-pill'', str ''title'' (pu_email user)]
                  [tx (pu_name user)],
                El ''button'' [str ''type'' ''button'', cls ''logout-btn'',
                    (''onClick'', Click Log_out)]
                  [Tx (t_text ''signOut'' (hd_locale s))]]
           | None \<Rightarrow> []))]]"

definition header_react :: "header_event \<Rightarrow> header_form \<Rightarrow> (header_form, api_call) outcome" where
  "header_react e s =
     (case e of
        Toggle_locale \<Rightarrow>
          (let (l, fx) = setLocale (if hd_locale s = Ar then En else Ar) (hd_locale s) in (s\<lparr>hd_locale := l\<rparr>, [], fx))
      | Log_out \<Rightarrow> (s, [logout_call], []))"

definition header_settle :: "api_call \<Rightarrow> web_answer \<Rightarrow> header_form \<Rightarrow> (header_form, api_call) outcome" where
  "header_settle r a s = (s, [], [Replace ''/login'', Refresh])"

lemma toggle_twice:
  "fst (header_react Toggle_locale (fst (header_react Toggle_locale s))) = s"
  by (cases "hd_locale s") (simp_all add: header_react_def setLocale_def)

end
