(* ===== verification/Pages_View.thy ===== *)
theory Pages_View
  imports Forms_Admin
begin

text \<open>
  The pages of the web application as the server renders them (\<^verbatim>\<open>app/**/page.tsx\<close>,
  \<^verbatim>\<open>app/layout.tsx\<close>, \<^verbatim>\<open>components/\<close>): functions of the language, the user and the rows that were
  loaded, with the client components in their first state. The rows are those of the API, which the
  loaders of \<open>Web_Pages\<close> fetch.
\<close>

subsection \<open>The shell\<close>

definition NAV_ITEMS :: "(string \<times> string) list" where
  "NAV_ITEMS = [(''/'', ''navDashboard''), (''/tenders'', ''navTenders''), (''/documents'', ''navDocuments''),
     (''/compliance'', ''navCompliance''), (''/reports'', ''navReports''), (''/admin'', ''navAdmin''),
     (''/settings'', ''navSettings'')]"

definition AppSidebar :: "lang \<Rightarrow> unit node list" where
  "AppSidebar l =
     [El ''nav'' [cls ''app-sidebar'', (''aria-label'', Val (t_text ''navDashboard'' l))]
        [El ''ul'' []
           (concat (map (\<lambda>item.
             [El ''li'' [str ''key'' (fst item)]
                [El ''a'' [str ''href'' (fst item)] [Tx (t_text (snd item) l)]]])
             NAV_ITEMS))]]"

definition AppShell :: "lang \<Rightarrow> public_user option \<Rightarrow> unit node list \<Rightarrow> unit node list" where
  "AppShell l user children =
     [El ''div'' [cls ''app-shell'']
        ([El ''a'' [str ''href'' ''#main'', cls ''skip-link''] [Tx (t_text ''skipToContent'' l)]] @
        (static (header_view \<lparr>hd_locale = l, hd_user = user\<rparr>)) @
        [El ''div'' [cls ''app-body'']
           (AppSidebar l @
           [El ''main'' [str ''id'' ''main'', cls ''app-main'', (''tabIndex'', Num (-1))]
              (children)])])]"

definition root_layout :: "string \<Rightarrow> lang \<Rightarrow> unit node list \<Rightarrow> unit node list" where
  "root_layout fonts l children =
     [El ''html'' [str ''lang'' (lang_name l), str ''dir'' (dir l), cls fonts]
        [El ''body'' [] children]]"

text \<open>What a page remembers of a failed load: nobody else than owners is let in, or it failed.\<close>

definition load_error :: "web_error \<Rightarrow> string option" where
  "load_error e = (case e of ApiError s _ \<Rightarrow> if s = 403 then Some ''forbidden'' else Some ''fail'' | Failed _ \<Rightarrow> Some ''fail'')"

definition audit_load_error :: "web_error \<Rightarrow> string option" where
  "audit_load_error e =
     (case e of
        ApiError s _ \<Rightarrow> if s = 403 then Some ''forbidden'' else if s \<noteq> 401 then Some ''fail'' else None
      | Failed _ \<Rightarrow> Some ''fail'')"

definition runs_load_error :: "web_error \<Rightarrow> string option" where
  "runs_load_error e =
     (case e of
        ApiError s _ \<Rightarrow> if s = 403 then Some ''forbidden'' else if s = 503 then Some ''unreachable'' else Some ''fail''
      | Failed _ \<Rightarrow> Some ''fail'')"

subsection \<open>The dashboard\<close>

record task_summary =
  tk_requirementId :: string
  tk_requirementText :: string
  tk_category :: string
  tk_owner :: string
  tk_risk :: string
  tk_status :: string
  tk_dueDate :: "string option"

definition critical_tasks :: "task_summary list" where
  "critical_tasks =
     [\<lparr>tk_requirementId = ''r-1'', tk_requirementText = ''Valid CR & Zakat'', tk_category = ''legal'',
       tk_owner = ''DocController'', tk_risk = ''critical'', tk_status = ''missing'', tk_dueDate = Some ''2026-05-22''\<rparr>,
      \<lparr>tk_requirementId = ''r-2'', tk_requirementText = ''Bid bond'', tk_category = ''financial'',
       tk_owner = ''Finance'', tk_risk = ''critical'', tk_status = ''missing'', tk_dueDate = Some ''2026-05-24''\<rparr>]"

definition kpi_cards :: "kpis \<Rightarrow> (string \<times> nat) list" where
  "kpi_cards k = [(''openTenders'', kp_openTenders k), (''bidReady'', kp_bidReady k),
     (''criticalGaps'', kp_criticalGaps k), (''expiringDocs'', kp_expiringDocs k)]"

definition KPIStrip :: "lang \<Rightarrow> kpis \<Rightarrow> unit node list" where
  "KPIStrip l kpis =
     [El ''section'' [cls ''kpi-strip'', (''aria-label'', Val (t_text ''dashboard'' l))]
        (concat (map (\<lambda>c.
          [El ''div'' [str ''key'' (fst c), cls ''kpi-card'']
             [El ''div'' [cls ''kpi-label''] [Tx (t_text (fst c) l)],
              El ''div'' [cls ''kpi-value''] [Tx (asc (show_nat (snd c)))]]])
          (kpi_cards kpis)))]"

definition TenderFeed :: "lang \<Rightarrow> tender list \<Rightarrow> unit node list" where
  "TenderFeed l tenders =
     [El ''section'' [cls ''panel'']
        [El ''h2'' [] [Tx (t_text ''tenderFeed'' l)],
         El ''ul'' [cls ''feed'']
           (concat (map (\<lambda>tender.
             [El ''li'' [str ''key'' (tn_id tender), cls ''feed-row'']
                [El ''a'' [cls ''feed-title'', str ''href'' (''/tenders/'' @ tn_id tender)]
                   [tx (tn_title tender)],
                 El ''span'' [cls (''badge badge-'' @ tn_status tender)] [tx (tn_status tender)],
                 El ''span'' [cls ''muted''] [tx (tn_source tender)]]])
             tenders))]]"

definition TaskRail :: "lang \<Rightarrow> task_summary list \<Rightarrow> unit node list" where
  "TaskRail l tasks =
     [El ''section'' [cls ''panel'']
        [El ''h2'' [] [Tx (t_text ''taskRail'' l)],
         El ''ul'' [cls ''task-list'']
           (concat (map (\<lambda>task.
             [El ''li'' [str ''key'' (tk_requirementId task), cls (''task task-'' @ tk_risk task)]
                [El ''div'' [cls ''task-text''] [tx (tk_requirementText task)],
                 El ''div'' [cls ''task-meta'']
                   ([El ''span'' [] [Tx (t_text ''owner'' l), tx '': '', tx (tk_owner task)]] @
                   (if truthyS (tk_dueDate task)
                    then [El ''span'' []
                            [Tx (t_text ''due'' l), tx '': '', tx (the (tk_dueDate task))]]
                    else []) @
                   [El ''span'' [] [Tx (t_text ''risk'' l), tx '': '', tx (tk_risk task)]])]])
             tasks))]]"

definition ExpiryRadar :: "lang \<Rightarrow> client_document list \<Rightarrow> unit node list" where
  "ExpiryRadar l docs =
     [El ''section'' [cls ''panel'']
        [El ''h2'' [] [Tx (t_text ''expiryRadar'' l)],
         El ''ul'' [cls ''expiry-list'']
           (concat (map (\<lambda>doc.
             [El ''li'' [str ''key'' (cd_id doc), cls (''expiry expiry-'' @ cd_state doc)]
                ([El ''span'' [cls ''expiry-name''] [tx (cd_filename doc)],
                 El ''span'' [cls ''muted''] [tx (cd_documentType doc)]] @
                (case cd_expiresAt doc of
                  Some expiresAt \<Rightarrow>
                    [El ''span'' [cls ''expiry-date''] [Tx (asc (iso_datetime expiresAt))]]
                | None \<Rightarrow> []))])
             docs))]]"

definition home_page ::
    "lang \<Rightarrow> public_user option \<Rightarrow> tender list \<Rightarrow> client_document list \<Rightarrow> bool \<Rightarrow> unit node list" where
  "home_page l user tenders expiring loadError =
     AppShell l user
       ([El ''header'' [cls ''page-header''] [El ''h1'' [] [Tx (t_text ''dashboard'' l)]]] @
       (if loadError
        then [El ''p'' [str ''role'' ''alert'', cls ''form-error'']
                [Tx (t_text ''loadFailed'' l)]]
        else []) @
       (KPIStrip l (dashboard_kpis tenders expiring)) @
       [El ''div'' [cls ''grid-2'']
          ((if length tenders = 0
           then [El ''section'' [cls ''panel empty'']
                   [El ''h2'' [] [Tx (t_text ''tenderFeed'' l)],
                    El ''p'' [cls ''muted''] [Tx (t_text ''emptyTenders'' l)]]]
           else TenderFeed l tenders) @
          [El ''div'' [cls ''stack'']
             ((if length critical_tasks = 0
              then [El ''section'' [cls ''panel empty'']
                      [El ''h2'' [] [Tx (t_text ''taskRail'' l)],
                       El ''p'' [cls ''muted''] [Tx (t_text ''emptyTasks'' l)]]]
              else TaskRail l critical_tasks) @
             (if length expiring = 0
              then [El ''section'' [cls ''panel empty'']
                      [El ''h2'' [] [Tx (t_text ''expiryRadar'' l)],
                       El ''p'' [cls ''muted''] [Tx (t_text ''emptyExpiring'' l)]]]
              else ExpiryRadar l expiring))])])"

subsection \<open>Tenders and clients\<close>

definition tenders_page ::
    "lang \<Rightarrow> public_user option \<Rightarrow> tender list \<Rightarrow> client_company list \<Rightarrow> bool \<Rightarrow> unit node list" where
  "tenders_page l user tenders clients loadError =
     AppShell l user
       [El ''header'' [cls ''page-header'']
          [El ''h1'' [] [Tx (t_text ''tendersTitle'' l)],
           El ''p'' [cls ''muted''] [Tx (t_text ''tendersLead'' l)]],
        El ''section'' [cls ''panel'']
          ([El ''h2'' [] [Tx (t_text ''newTender'' l)]] @
          (if length clients = 0
           then [El ''p'' [cls ''muted'']
                   [Tx (t_text ''noClientsYet'' l),
                    tx '' '',
                    El ''Link'' [str ''href'' ''/clients''] [tx ''/clients'']]]
           else static (tender_create_view l (cp_start (tender_create l clients))))),
        El ''section'' [cls ''panel'']
          ([El ''h2'' [] [Tx (t_text ''tendersTitle'' l)]] @
          (if loadError
           then [El ''p'' [str ''role'' ''alert'', cls ''form-error'']
                   [Tx (t_text ''loadFailed'' l)]]
           else []) @
          (if length tenders = 0
           then [El ''p'' [cls ''muted''] [Tx (t_text ''noTendersYet'' l)]]
           else [El ''table'' [cls ''admin-table'']
                   [El ''thead'' []
                      [El ''tr'' []
                         [El ''th'' [str ''scope'' ''col''] [Tx (t_text ''tenderTitleLabel'' l)],
                          El ''th'' [str ''scope'' ''col''] [Tx (t_text ''status'' l)],
                          El ''th'' [str ''scope'' ''col''] [Tx (t_text ''sourceLabel'' l)],
                          El ''th'' [str ''scope'' ''col''] [Tx (t_text ''client'' l)],
                          El ''th'' [str ''scope'' ''col''] []]],
                    El ''tbody'' []
                      (concat (map (\<lambda>tender.
                        [El ''tr'' [str ''key'' (tn_id tender)]
                           [El ''td'' []
                              [El ''Link'' [str ''href'' (''/tenders/'' @ tn_id tender),
                                   cls ''feed-title'']
                                 [tx (tn_title tender)]],
                            El ''td'' []
                              [El ''span'' [cls (''chip chip-'' @ tn_status tender)]
                                 [tx (tn_status tender)]],
                            El ''td'' [cls ''muted''] [tx (tn_source tender)],
                            El ''td'' [cls ''mono muted'']
                              [tx (take 8 (tn_company tender)), Tx [8230]],
                            El ''td'' []
                              [El ''Link'' [str ''href'' (''/tenders/'' @ tn_id tender),
                                   cls ''btn-sm'']
                                 [Tx (t_text ''open'' l), Tx (asc '' '' @ [8594])]]]])
                        tenders))]]))]"

definition status_chip :: "string \<Rightarrow> string" where
  "status_chip st =
     (if st = ''intake'' then ''statusIntake'' else if st = ''review'' then ''statusReview''
      else if st = ''ready'' then ''statusReady'' else if st = ''submitted'' then ''statusSubmitted'' else ''statusIntake'')"

definition viewer_is_owner :: "public_user option \<Rightarrow> bool" where
  "viewer_is_owner user \<longleftrightarrow> (case user of None \<Rightarrow> False | Some u \<Rightarrow> role_name (pu_role u) = ''Owner'')"

definition tender_page ::
    "platform \<Rightarrow> lang \<Rightarrow> public_user option \<Rightarrow> tender \<Rightarrow> tender_requirement list \<Rightarrow> compliance_matrix list \<Rightarrow>
     tender_access list \<Rightarrow> unit node list" where
  "tender_page pl l user tender requirements matrices access =
     AppShell l user
       ([El ''Link'' [str ''href'' ''/tenders'', cls ''muted breadcrumb'']
          [Tx ([8592] @ asc '' ''), Tx (t_text ''tendersTitle'' l)],
        El ''header'' [cls ''page-header page-header-row'']
          ([El ''div'' []
             ([El ''h1'' [] [tx (tn_title tender)],
              El ''div'' [cls ''meta-row'']
                [El ''span'' []
                   [Tx (t_text ''status'' l),
                    tx '':'',
                    tx '' '',
                    El ''span'' [cls (''chip chip-'' @ tn_status tender)]
                      [Tx (t_text (status_chip (tn_status tender)) l)]],
                 El ''span'' [cls ''muted'']
                   [Tx (t_text ''sourceLabel'' l), tx '': '', tx (tn_source tender)],
                 El ''span'' [cls ''muted mono''] [tx (take 8 (tn_id tender)), Tx [8230]]]] @
             (static (sector_view l (viewer_is_owner user) (cp_start (sector_reclassify l (tn_id
                 tender) (viewer_is_owner user) tender)))))] @
          (static (status_view l (cp_start (status_control l tender)))))] @
       (static (requirements_view l (cp_start (requirements_section l (tn_id tender)
           requirements)))) @
       (static (matrices_view l (matrices_init matrices))) @
       (static (access_section_view pl l (access_init access))))"

definition clients_page ::
    "platform \<Rightarrow> lang \<Rightarrow> public_user option \<Rightarrow> client_company list \<Rightarrow> bool \<Rightarrow> unit node list" where
  "clients_page pl l user clients loadError =
     AppShell l user
       [El ''header'' [cls ''page-header'']
          [El ''h1'' [] [Tx (t_text ''clientsTitle'' l)],
           El ''p'' [cls ''muted''] [Tx (t_text ''clientsLead'' l)]],
        El ''section'' [cls ''panel'']
          ([El ''h2'' [] [Tx (t_text ''newClient'' l)]] @
          (static (client_create_view l (cp_start (client_create l))))),
        El ''section'' [cls ''panel'']
          ([El ''h2'' [] [Tx (t_text ''clientsTitle'' l)]] @
          (if loadError
           then [El ''p'' [str ''role'' ''alert'', cls ''form-error'']
                   [Tx (t_text ''loadFailed'' l)]]
           else []) @
          (if length clients = 0
           then [El ''p'' [cls ''muted''] [Tx (t_text ''noClientsYet'' l)]]
           else [El ''table'' [cls ''admin-table'']
                   [El ''thead'' []
                      [El ''tr'' []
                         [El ''th'' [str ''scope'' ''col''] [Tx (t_text ''clientName'' l)],
                          El ''th'' [str ''scope'' ''col''] [tx ''id''],
                          El ''th'' [str ''scope'' ''col''] [Tx (t_text ''auditTimestamp'' l)]]],
                    El ''tbody'' []
                      (concat (map (\<lambda>c.
                        [El ''tr'' [str ''key'' (cc_id c)]
                           [El ''td'' [] [tx (cc_name c)],
                            El ''td'' [cls ''mono muted''] [tx (take 8 (cc_id c)), Tx [8230]],
                            El ''td'' [cls ''muted''] [Tx (pl_dateTime pl (cc_createdAt c))]]])
                        clients))]]))]"

subsection \<open>Documents\<close>

definition STATE_FILTERS :: "(string \<times> string) list" where
  "STATE_FILTERS = [('''', ''filterAll''), (''active'', ''stateActive''), (''expiring'', ''stateExpiring''),
     (''restricted'', ''stateRestricted''), (''archived'', ''stateArchived'')]"

definition SENSITIVITY_FILTERS :: "(string \<times> string) list" where
  "SENSITIVITY_FILTERS = [('''', ''filterAll''), (''low'', ''sensitivityLow''), (''medium'', ''sensitivityMedium''),
     (''high'', ''sensitivityHigh'')]"

definition doc_state_key :: "string \<Rightarrow> string" where
  "doc_state_key st = orElse (map_of [(''active'', ''stateActive''), (''expiring'', ''stateExpiring''),
     (''restricted'', ''stateRestricted''), (''archived'', ''stateArchived'')] st) ''stateActive''"

definition doc_sens_key :: "string \<Rightarrow> string" where
  "doc_sens_key st = orElse (map_of [(''low'', ''sensitivityLow''), (''medium'', ''sensitivityMedium''),
     (''high'', ''sensitivityHigh'')] st) ''sensitivityLow''"

definition known_types :: "client_document list \<Rightarrow> string list" where
  "known_types docs = sort (remdups (map cd_documentType docs))"

definition client_name :: "client_company list \<Rightarrow> ident \<Rightarrow> utext" where
  "client_name clients i =
     (case List.find (\<lambda>c. cc_id c = i) clients of
        Some c \<Rightarrow> asc (cc_name c) | None \<Rightarrow> asc (take 8 i) @ [8230])"

text \<open>A filter that is set, as a member of the query.\<close>

definition chosen :: "string \<Rightarrow> string option \<Rightarrow> (string \<times> string) list" where
  "chosen k v = (if truthyS v then [(k, the v)] else [])"

definition FilterRow ::
    "lang \<Rightarrow> string option \<Rightarrow> (string \<times> string) list \<Rightarrow> (string \<Rightarrow> string) \<Rightarrow> unit node list" where
  "FilterRow l current options hrefFor =
     [El ''div'' [cls ''filter-row'']
        (concat (map (\<lambda>opt.
          [El ''Link'' [str ''key'' (if fst opt = [] then ''all'' else fst opt),
               str ''href'' (hrefFor (fst opt)),
               cls (''chip '' @ (if current = Some (fst opt) \<or> (\<not> truthyS current \<and> fst
                   opt = []) then ''chip-active'' else ''''))]
             [Tx (t_text (snd opt) l)]])
          options))]"

definition TypeFilterRow :: "lang \<Rightarrow> string option \<Rightarrow> string list \<Rightarrow> (string \<Rightarrow> string) \<Rightarrow> unit node list" where
  "TypeFilterRow l current options hrefFor =
     [El ''div'' [cls ''filter-row'']
        ([El ''Link'' [str ''href'' (hrefFor []),
             cls (''chip '' @ (if \<not> (truthyS current) then ''chip-active'' else ''''))]
           [Tx (t_text ''filterAll'' l)]] @
        concat (map (\<lambda>value.
          [El ''Link'' [str ''key'' value, str ''href'' (hrefFor value),
               cls (''chip '' @ (if current = Some value then ''chip-active'' else ''''))]
             [tx value]])
          options))]"

definition documents_page ::
    "platform \<Rightarrow> lang \<Rightarrow> public_user option \<Rightarrow> doc_filter \<Rightarrow> client_document list \<Rightarrow> client_company list \<Rightarrow> bool \<Rightarrow>
     unit node list" where
  "documents_page pl l user f docs clients loadError =
     AppShell l user
       ([El ''header'' [cls ''page-header'']
          [El ''h1'' [] [Tx (t_text ''documentsTitle'' l)],
           El ''p'' [cls ''muted''] [Tx (t_text ''documentsLead'' l)]],
        El ''section'' [cls ''panel'']
          ([El ''h2'' []
             [Tx (if l = Ar then [1585, 1601, 1593, 32, 1608, 1579, 1610, 1602, 1577] else asc
                 ''Upload document'')]] @
          (if length clients = 0
           then [El ''p'' [cls ''muted'']
                   [Tx (t_text ''noClientsYet'' l),
                    tx '' '',
                    El ''Link'' [str ''href'' ''/clients''] [tx ''/clients'']]]
           else static (upload_view l (cp_start (document_upload pl l False clients)))))] @
       (if length clients > 0
        then [El ''details'' [cls ''quick-register'']
                [El ''summary'' []
                   [Tx (if l = Ar then [1578, 1587, 1580, 1610, 1604, 32, 1587, 1585, 1610, 1593,
                       32, 40, 1576, 1610, 1575, 1606, 1575, 1578, 32, 1608, 1589, 1601, 1610, 1577,
                           32, 1601, 1602, 1591, 1548, 32, 1576, 1583, 1608, 1606, 32, 1605, 1604,
                               1601] @ asc '')'' else asc
                                   ''Quick register (metadata only, no file)'')],
                 El ''section'' [cls ''panel'']
                   ([El ''h2'' [] [Tx (t_text ''registerDocument'' l)]] @
                   (static (register_view l (cp_start (document_register pl l clients)))))]]
        else []) @
       [El ''section'' [cls ''panel'']
          ([El ''header'' [cls ''panel-header'']
             [El ''h2'' [] [Tx (t_text ''documentsTitle'' l)],
              El ''div'' [cls ''filter-cluster'']
                ((FilterRow l (df_state f) STATE_FILTERS (filter_href (chosen ''sensitivity''
                    (df_sensitivity f) @ chosen ''type'' (df_type f)) ''state'')) @
                (FilterRow l (df_sensitivity f) SENSITIVITY_FILTERS (filter_href (chosen ''state''
                    (df_state f) @ chosen ''type'' (df_type f)) ''sensitivity'')) @
                (if length (known_types docs) > 0
                 then TypeFilterRow l (df_type f) (known_types docs) (filter_href (chosen ''state''
                     (df_state f) @ chosen ''sensitivity'' (df_sensitivity f)) ''type'')
                 else []))]] @
          (if loadError
           then [El ''p'' [str ''role'' ''alert'', cls ''form-error'']
                   [Tx (t_text ''loadFailed'' l)]]
           else []) @
          (if length docs = 0
           then [El ''p'' [cls ''muted''] [Tx (t_text ''noDocumentsYet'' l)]]
           else (if length (filter_docs f docs) = 0
                 then [El ''p'' [cls ''muted''] [Tx (t_text ''noResults'' l)]]
                 else [El ''table'' [cls ''admin-table'']
                         [El ''thead'' []
                            [El ''tr'' []
                               [El ''th'' [str ''scope'' ''col''] [Tx (t_text ''filename'' l)],
                                El ''th'' [str ''scope'' ''col''] [Tx (t_text ''client'' l)],
                                El ''th'' [str ''scope'' ''col'']
                                  [Tx (t_text ''documentType'' l)],
                                El ''th'' [str ''scope'' ''col''] [Tx (t_text ''sensitivity'' l)],
                                El ''th'' [str ''scope'' ''col''] [Tx (t_text ''status'' l)],
                                El ''th'' [str ''scope'' ''col''] [Tx (t_text ''expiresAt'' l)],
                                El ''th'' [str ''scope'' ''col''] []]],
                          El ''tbody'' []
                            (concat (map (\<lambda>doc.
                              (let stateKey = doc_state_key (cd_state doc);
                                   sensKey = doc_sens_key (cd_sensitivity doc)
                               in [El ''tr'' [str ''key'' (cd_id doc)]
                                     [El ''td'' []
                                        [El ''Link'' [str ''href'' (''/documents/'' @ cd_id doc),
                                             cls ''feed-title'']
                                           [tx (cd_filename doc)]],
                                      El ''td'' [cls ''muted'']
                                        [Tx (client_name clients (cd_company doc))],
                                      El ''td'' []
                                        [El ''span'' [cls ''chip''] [tx (cd_documentType doc)]],
                                      El ''td'' []
                                        [El ''span'' [cls (''chip chip-sens-'' @ cd_sensitivity doc)]
                                           [Tx (t_text sensKey l)]],
                                      El ''td'' []
                                        [El ''span'' [cls (''chip chip-'' @ cd_state doc)]
                                           [Tx (t_text stateKey l)]],
                                      El ''td'' [cls ''muted'']
                                        [Tx (case cd_expiresAt doc of Some expiresAt \<Rightarrow>
                                            pl_date pl expiresAt | None \<Rightarrow> [8212])],
                                      El ''td'' [] (static (doc_row_view l (doc_row_init doc)))]]))
                              (filter_docs f docs)))]])))])"

definition owner_name :: "client_company list \<Rightarrow> ident \<Rightarrow> string" where
  "owner_name clients i = (case List.find (\<lambda>c. cc_id c = i) clients of Some c \<Rightarrow> cc_name c | None \<Rightarrow> i)"

definition document_page ::
    "platform \<Rightarrow> lang \<Rightarrow> public_user option \<Rightarrow> client_document \<Rightarrow> evidence_link list \<Rightarrow> client_company list \<Rightarrow>
     unit node list" where
  "document_page pl l user doc evidence clients =
     AppShell l user
       [El ''Link'' [str ''href'' ''/documents'', cls ''muted breadcrumb'']
          [Tx ([8592] @ asc '' ''), Tx (t_text ''documentsTitle'' l)],
        El ''header'' [cls ''page-header page-header-row'']
          [El ''div'' []
             [El ''h1'' [] [tx (cd_filename doc)],
              El ''div'' [cls ''meta-row'']
                [El ''span'' []
                   [Tx (t_text ''status'' l),
                    tx '':'',
                    tx '' '',
                    El ''span'' [cls (''chip chip-'' @ cd_state doc)]
                      [Tx (t_text (doc_state_key (cd_state doc)) l)]],
                 El ''span'' []
                   [Tx (t_text ''sensitivity'' l),
                    tx '':'',
                    tx '' '',
                    El ''span'' [cls (''chip chip-sens-'' @ cd_sensitivity doc)]
                      [Tx (t_text (doc_sens_key (cd_sensitivity doc)) l)]],
                 El ''span'' [cls ''muted mono''] [tx (take 8 (cd_id doc)), Tx [8230]]]],
           El ''div'' [cls ''sweep-cluster'']
             ((if truthyS (cd_storageKey doc) then static (download_view l download_init) else []) @
             (static (doc_row_view l (doc_row_init doc))))],
        El ''section'' [cls ''panel'']
          [El ''h2'' []
             [Tx (if l = Ar then [1575, 1604, 1576, 1610, 1575, 1606, 1575, 1578] else asc
                 ''Metadata'')],
           El ''ul'' [cls ''kvs'']
             ([El ''li'' []
                [El ''span'' [cls ''muted''] [Tx (t_text ''client'' l)],
                 El ''strong'' [] [tx (owner_name clients (cd_company doc))]],
              El ''li'' []
                [El ''span'' [cls ''muted''] [Tx (t_text ''documentType'' l)],
                 El ''span'' [cls ''chip''] [tx (cd_documentType doc)]],
              El ''li'' []
                [El ''span'' [cls ''muted''] [Tx (t_text ''expiresAt'' l)],
                 El ''span'' []
                   [Tx (case cd_expiresAt doc of Some expiresAt \<Rightarrow> pl_date pl expiresAt |
                       None \<Rightarrow> [8212])]],
              El ''li'' []
                [El ''span'' [cls ''muted''] [Tx (t_text ''auditTimestamp'' l)],
                 El ''span'' [cls ''muted''] [Tx (pl_dateTime pl (cd_createdAt doc))]]] @
             (if truthyS (cd_storageKey doc)
              then [El ''li'' []
                      [El ''span'' [cls ''muted''] [tx ''contentType''],
                       El ''span'' [cls ''mono'']
                         [Tx (case cd_contentType doc of Some v \<Rightarrow> asc v | None
                             \<Rightarrow> [8212])]],
                    El ''li'' []
                      [El ''span'' [cls ''muted''] [tx ''sizeBytes''],
                       El ''span'' [cls ''mono'']
                         [Tx (case cd_sizeBytes doc of Some n \<Rightarrow> asc (file_size n) | None
                             \<Rightarrow> [8212])]]]
              else []))],
        El ''section'' [cls ''panel'']
          ([El ''header'' [cls ''panel-header'']
             [El ''h2'' []
                [Tx (if l = Ar then [1575, 1604, 1575, 1587, 1578, 1582, 1583, 1575, 1605, 32, 1601,
                    1610, 32, 1575, 1604, 1605, 1589, 1601, 1608, 1601, 1575, 1578] else asc
                        ''Used as evidence in'')],
              El ''span'' [cls ''muted small''] [Tx (asc (show_nat (length evidence)))]]] @
          (if length evidence = 0
           then [El ''p'' [cls ''muted'']
                   [Tx (if l = Ar then [1604, 1605, 32, 1578, 1615, 1587, 1578, 1582, 1583, 1605,
                       32, 1607, 1584, 1607, 32, 1575, 1604, 1608, 1579, 1610, 1602, 1577, 32, 1601,
                           1610, 32, 1571, 1610, 32, 1576, 1606, 1583, 32, 1575, 1605, 1578, 1579,
                               1575, 1604, 32, 1576, 1593, 1583] @ asc ''.'' else asc
                                   ''Not used as evidence in any compliance item yet.'')]]
           else [El ''table'' [cls ''admin-table'']
                   [El ''thead'' []
                      [El ''tr'' []
                         [El ''th'' [str ''scope'' ''col''] [tx ''complianceItemId''],
                          El ''th'' [str ''scope'' ''col''] [Tx (t_text ''notes'' l)],
                          El ''th'' [str ''scope'' ''col''] [Tx (t_text ''auditTimestamp'' l)]]],
                    El ''tbody'' []
                      (concat (map (\<lambda>link.
                        [El ''tr'' [str ''key'' (el_id link)]
                           [El ''td'' [cls ''mono''] [tx (take 8 (el_itemId link)), Tx [8230]],
                            El ''td'' [cls ''muted'']
                              [Tx (case el_note link of Some v \<Rightarrow> asc v | None
                                  \<Rightarrow> [8212])],
                            El ''td'' [cls ''muted''] [Tx (pl_dateTime pl (el_createdAt link))]]])
                        evidence))]]))]"

subsection \<open>Compliance and reports\<close>

definition first_matrix :: "compliance_matrix list \<Rightarrow> compliance_matrix option" where
  "first_matrix ms = (case ms of [] \<Rightarrow> None | m # _ \<Rightarrow> Some m)"

definition compliance_page ::
    "platform \<Rightarrow> lang \<Rightarrow> public_user option \<Rightarrow> tender list \<Rightarrow> (tender \<times> compliance_matrix list) list \<Rightarrow> bool \<Rightarrow>
     unit node list" where
  "compliance_page pl l user tenders rows loadError =
     AppShell l user
       [El ''header'' [cls ''page-header'']
          [El ''h1'' [] [Tx (t_text ''complianceTitle'' l)],
           El ''p'' [cls ''muted''] [Tx (t_text ''complianceLead'' l)]],
        El ''section'' [cls ''kpi-strip'']
          [El ''div'' [cls ''kpi-card'']
             [El ''div'' [cls ''kpi-label''] [Tx (t_text ''tendersTitle'' l)],
              El ''div'' [cls ''kpi-value''] [Tx (asc (show_nat (length tenders)))]],
           El ''div'' [cls ''kpi-card'']
             [El ''div'' [cls ''kpi-label''] [Tx (t_text ''matricesTitle'' l)],
              El ''div'' [cls ''kpi-value'']
                [Tx (asc (show_nat (sum_list (map (\<lambda>(_, ms). length ms) rows))))]],
           El ''div'' [cls ''kpi-card'']
             [El ''div'' [cls ''kpi-label'']
                [Tx (if l = Ar then [1578, 1594, 1591, 1610, 1577, 32, 1575, 1604, 1605, 1589, 1601,
                    1608, 1601, 1575, 1578] else asc ''Matrix coverage'')],
              El ''div'' [cls ''kpi-value'']
                [Tx (asc (show_int (matrix_coverage (map (\<lambda>(_, ms). length ms) rows)))),
                 tx ''%'']],
           El ''div'' [cls ''kpi-card'']
             [El ''div'' [cls ''kpi-label'']
                [Tx (if l = Ar then [1593, 1591, 1575, 1569, 1575, 1578, 32, 1576, 1583, 1608, 1606,
                    32, 1605, 1589, 1601, 1608, 1601, 1577] else asc ''Tenders w/o matrix'')],
              El ''div'' [cls ''kpi-value'']
                [Tx (asc (show_int (int (length tenders) - int (length (filter (\<lambda>(_, ms). ms
                    \<noteq> []) rows)))))]]],
        El ''section'' [cls ''panel'']
          ([El ''h2'' [] [Tx (t_text ''tendersTitle'' l)]] @
          (if loadError
           then [El ''p'' [str ''role'' ''alert'', cls ''form-error'']
                   [Tx (t_text ''loadFailed'' l)]]
           else []) @
          (if length rows = 0
           then [El ''p'' [cls ''muted''] [Tx (t_text ''noTendersYet'' l)]]
           else [El ''table'' [cls ''admin-table'']
                   [El ''thead'' []
                      [El ''tr'' []
                         [El ''th'' [str ''scope'' ''col''] [Tx (t_text ''tenderTitleLabel'' l)],
                          El ''th'' [str ''scope'' ''col''] [Tx (t_text ''status'' l)],
                          El ''th'' [str ''scope'' ''col''] [Tx (t_text ''latestVersion'' l)],
                          El ''th'' [str ''scope'' ''col''] [Tx (t_text ''matrixCount'' l)],
                          El ''th'' [str ''scope'' ''col''] [Tx (t_text ''generatedAt'' l)],
                          El ''th'' [str ''scope'' ''col''] []]],
                    El ''tbody'' []
                      (concat (map (\<lambda>(tender, matrices).
                        (let latest = first_matrix matrices
                         in [El ''tr'' [str ''key'' (tn_id tender)]
                               [El ''td'' []
                                  [El ''Link'' [str ''href'' (''/tenders/'' @ tn_id tender),
                                       cls ''feed-title'']
                                     [tx (tn_title tender)]],
                                El ''td'' []
                                  [El ''span'' [cls (''chip chip-'' @ tn_status tender)]
                                     [tx (tn_status tender)]],
                                El ''td'' [cls ''mono'']
                                  [Tx (case latest of Some latest \<Rightarrow> asc (''v'' @
                                      show_int (cm_version latest)) | None \<Rightarrow> [8212])],
                                El ''td'' [cls ''muted''] [Tx (asc (show_nat (length matrices)))],
                                El ''td'' [cls ''muted'']
                                  [Tx (case latest of Some latest \<Rightarrow> pl_dateTime pl
                                      (cm_generatedAt latest) | None \<Rightarrow> [8212])],
                                El ''td'' []
                                  ((case latest of
                                    Some latest \<Rightarrow>
                                      [El ''Link'' [str ''href'' (''/tenders/'' @ tn_id tender),
                                           cls ''btn-sm'']
                                         [Tx (t_text ''open'' l), Tx (asc '' '' @ [8594])]]
                                  | None \<Rightarrow> [El ''Link'' [str ''href'' (''/tenders/'' @
                                      tn_id tender),
                                                cls ''btn-sm'']
                                              [Tx (t_text ''generateNew'' l),
                                               Tx (asc '' '' @ [8594])]]))]]))
                        rows))]]))]"

definition REPORT_STATUS_LABEL :: "(string \<times> string) list" where
  "REPORT_STATUS_LABEL = [(''intake'', ''statusIntake''), (''review'', ''statusReview''), (''ready'', ''statusReady''),
     (''submitted'', ''statusSubmitted'')]"

definition REPORT_DOC_LABEL :: "(string \<times> string) list" where
  "REPORT_DOC_LABEL = [(''active'', ''stateActive''), (''expiring'', ''stateExpiring''),
     (''restricted'', ''stateRestricted''), (''archived'', ''stateArchived'')]"

definition labelled :: "lang \<Rightarrow> (string \<times> string) list \<Rightarrow> string \<Rightarrow> utext" where
  "labelled l labels k = (case map_of labels k of Some key \<Rightarrow> t_text key l | None \<Rightarrow> asc k)"

definition StatTable :: "lang \<Rightarrow> (string \<times> nat) list \<Rightarrow> (string \<Rightarrow> utext) \<Rightarrow> nat \<Rightarrow> unit node list" where
  "StatTable l entries labelFor whole =
     (if entries = [] then [El ''p'' [cls ''muted''] [Tx (t_text ''noResults'' l)]] else
     [El ''table'' [cls ''admin-table'']
        [El ''thead'' []
           [El ''tr'' []
              [El ''th'' [str ''scope'' ''col''] [Tx (t_text ''status'' l)],
               El ''th'' [str ''scope'' ''col''] [Tx (t_text ''count'' l)],
               El ''th'' [str ''scope'' ''col''] [tx ''%'']]],
         El ''tbody'' []
           (concat (map (\<lambda>(k, n, p).
             [El ''tr'' [str ''key'' k]
                [El ''td'' [] [El ''span'' [cls (''chip chip-'' @ k)] [Tx (labelFor k)]],
                 El ''td'' [] [Tx (asc (show_nat n))],
                 El ''td'' [cls ''muted''] [Tx (asc (show_int p)), tx ''%'']]])
             (stat_table entries whole)) @
           [El ''tr'' []
              [El ''td'' [cls ''muted''] [Tx (t_text ''total'' l)],
               El ''td'' [] [El ''strong'' [] [Tx (asc (show_nat whole))]],
               El ''td'' [cls ''muted''] [tx ''100%'']]])]])"

definition reports_page ::
    "lang \<Rightarrow> public_user option \<Rightarrow> tender list \<Rightarrow> client_document list \<Rightarrow> audit_event list \<Rightarrow> bool \<Rightarrow> time \<Rightarrow>
     unit node list" where
  "reports_page l user tenders docs audit forbidden now =
     AppShell l user
       [El ''header'' [cls ''page-header'']
          [El ''h1'' [] [Tx (t_text ''reportsTitle'' l)],
           El ''p'' [cls ''muted''] [Tx (t_text ''reportsLead'' l)]],
        El ''div'' [cls ''grid-2'']
          [El ''section'' [cls ''panel'']
             ([El ''h2'' [] [Tx (t_text ''reportTenderStatus'' l)]] @
             (StatTable l (tally tn_status tenders) (labelled l REPORT_STATUS_LABEL) (length
                 tenders))),
           El ''section'' [cls ''panel'']
             ([El ''h2'' [] [Tx (t_text ''reportDocHealth'' l)]] @
             (StatTable l (tally cd_state docs) (labelled l REPORT_DOC_LABEL) (length docs)) @
             [El ''hr'' [cls ''hr-soft''] [],
              El ''h3'' [cls ''muted small''] [Tx (t_text ''expiryWindow'' l)],
              El ''ul'' [cls ''kvs'']
                [El ''li'' []
                   [El ''span'' [] [Tx (t_text ''next30Days'' l)],
                    El ''strong'' [] [Tx (asc (show_nat (within_days 30 now docs)))]],
                 El ''li'' []
                   [El ''span'' [] [Tx (t_text ''next60Days'' l)],
                    El ''strong'' [] [Tx (asc (show_nat (within_days 60 now docs)))]],
                 El ''li'' []
                   [El ''span'' [] [Tx (t_text ''next90Days'' l)],
                    El ''strong'' [] [Tx (asc (show_nat (within_days 90 now docs)))]]]])],
        El ''section'' [cls ''panel'']
          ([El ''h2'' [] [Tx (t_text ''reportAuditActivity'' l)]] @
          (if forbidden
           then [El ''p'' [cls ''muted''] [Tx (t_text ''accessDenied'' l)]]
           else (if length (top_actions (map ae_action audit)) = 0
                 then [El ''p'' [cls ''muted''] [Tx (t_text ''noResults'' l)]]
                 else [El ''p'' [cls ''muted small'']
                         [Tx (t_text ''total'' l),
                          tx '': '',
                          Tx (asc (show_nat (length audit))),
                          Tx (asc '' '' @ [183]),
                          tx '' '',
                          Tx (t_text ''topActions'' l)],
                       El ''table'' [cls ''admin-table'']
                         [El ''thead'' []
                            [El ''tr'' []
                               [El ''th'' [str ''scope'' ''col''] [Tx (t_text ''auditAction'' l)],
                                El ''th'' [str ''scope'' ''col''] [Tx (t_text ''count'' l)]]],
                          El ''tbody'' []
                            (concat (map (\<lambda>(action, n).
                              [El ''tr'' [str ''key'' action]
                                 [El ''td'' [] [El ''span'' [cls ''chip''] [tx action]],
                                  El ''td'' [cls ''muted''] [Tx (asc (show_nat n))]]])
                              (top_actions (map ae_action audit))))]])))]"

subsection \<open>Settings and sign-in\<close>

definition settings_page :: "lang \<Rightarrow> public_user option \<Rightarrow> unit node list" where
  "settings_page l user =
     AppShell l user
       [El ''header'' [cls ''page-header'']
          [El ''h1'' [] [Tx (t_text ''settingsTitle'' l)],
           El ''p'' [cls ''muted''] [Tx (t_text ''settingsLead'' l)]],
        El ''div'' [cls ''grid-2'']
          [El ''section'' [cls ''panel'']
             ([El ''h2'' [] [Tx (t_text ''profileCard'' l)]] @
             (case user of
               Some user \<Rightarrow>
                 [El ''ul'' [cls ''kvs'']
                    [El ''li'' []
                       [El ''span'' [cls ''muted''] [Tx (t_text ''dpoName'' l)],
                        El ''strong'' [] [tx (pu_name user)]],
                     El ''li'' []
                       [El ''span'' [cls ''muted''] [Tx (t_text ''email'' l)],
                        El ''strong'' [] [tx (pu_email user)]],
                     El ''li'' []
                       [El ''span'' [cls ''muted''] [Tx (t_text ''role'' l)],
                        El ''span'' [cls ''chip''] [tx (role_name (pu_role user))]]]]
             | None \<Rightarrow> [El ''p'' [cls ''muted''] [Tx (t_text ''notSignedIn'' l)]])),
           El ''section'' [cls ''panel'']
             ([El ''h2'' [] [Tx (t_text ''organizationCard'' l)]] @
             (case user of
               Some user \<Rightarrow>
                 [El ''ul'' [cls ''kvs'']
                    [El ''li'' []
                       [El ''span'' [cls ''muted''] [tx ''organizationId''],
                        El ''span'' [cls ''mono''] [tx (pu_org user)]]]]
             | None \<Rightarrow> [El ''p'' [cls ''muted''] [Tx [8212]]])),
           El ''section'' [cls ''panel'']
             ([El ''h2'' [] [Tx (t_text ''languageCard'' l)]] @ (static (locale_view l))),
           El ''section'' [cls ''panel'']
             [El ''h2'' [] [Tx (t_text ''accountActionsCard'' l)],
              El ''div'' [cls ''stack'']
                ((static (sign_out_view l \<lparr>sof_busy = False\<rparr>)) @
                [El ''p'' [cls ''muted small'']
                   [Tx (t_text ''yourErasureLink'' l),
                    tx '' '',
                    El ''Link'' [str ''href'' ''/admin/data-subject-requests'']
                      [tx ''/admin/data-subject-requests''],
                    tx ''.'']])]]]"

definition login_page :: "unit node list" where
  "login_page =
     [El ''main'' [cls ''login-wrap''] (static (login_view login_init))]"

subsection \<open>The administration\<close>

record admin_tile =
  tl_href :: string
  tl_title :: string
  tl_desc :: string

definition TILES :: "admin_tile list" where
  "TILES = map (\<lambda>(h, a, b). \<lparr>tl_href = h, tl_title = a, tl_desc = b\<rparr>)
     [(''/admin/dpo-contact'', ''adminCardDpo'', ''adminCardDpoDesc''),
      (''/admin/data-subject-requests'', ''adminCardDsr'', ''adminCardDsrDesc''),
      (''/admin/retention'', ''adminCardRetention'', ''adminCardRetentionDesc''),
      (''/admin/consent'', ''adminCardConsent'', ''adminCardConsentDesc''),
      (''/admin/ingestion'', ''adminCardIngestion'', ''adminCardIngestionDesc''),
      (''/admin/audit'', ''adminCardAudit'', ''adminCardAuditDesc''),
      (''/admin/training-register'', ''adminCardTraining'', ''adminCardTrainingDesc''),
      (''/admin/ingestion-runs'', ''adminCardIngestionRuns'', ''adminCardIngestionRunsDesc'')]"

definition admin_page :: "lang \<Rightarrow> public_user option \<Rightarrow> unit node list" where
  "admin_page l user =
     AppShell l user
       [El ''header'' [cls ''page-header'']
          [El ''h1'' [] [Tx (t_text ''adminTitle'' l)],
           El ''p'' [cls ''muted''] [Tx (t_text ''adminLead'' l)]],
        El ''div'' [cls ''admin-grid'']
          (concat (map (\<lambda>tile.
            [El ''Link'' [str ''key'' (tl_href tile), cls ''admin-tile'',
                 str ''href'' (tl_href tile)]
               [El ''h2'' [] [Tx (t_text (tl_title tile) l)],
                El ''p'' [] [Tx (t_text (tl_desc tile) l)],
                El ''span'' [cls ''muted small'']
                  [Tx (t_text ''open'' l), Tx (asc '' '' @ [8594])]]])
            TILES))]"

definition audit_page ::
    "platform \<Rightarrow> lang \<Rightarrow> public_user option \<Rightarrow> audit_event list \<Rightarrow> string option \<Rightarrow> unit node list" where
  "audit_page pl l user rows loadError =
     AppShell l user
       ([El ''Link'' [str ''href'' ''/admin'', cls ''muted breadcrumb'']
          [Tx (t_text ''backToAdmin'' l)],
        El ''header'' [cls ''page-header'']
          [El ''h1'' [] [Tx (t_text ''auditTitle'' l)],
           El ''p'' [cls ''muted''] [Tx (t_text ''adminCardAuditDesc'' l)]]] @
       (if loadError = Some ''forbidden''
        then [El ''p'' [str ''role'' ''alert'', cls ''form-error'']
                [Tx (t_text ''accessDenied'' l)]]
        else []) @
       (if loadError = Some ''fail''
        then [El ''p'' [str ''role'' ''alert'', cls ''form-error'']
                [Tx (t_text ''loadFailed'' l)]]
        else []) @
       [El ''section'' [cls ''panel'']
          ((if length rows = 0 \<and> (\<not> (truthyS loadError))
           then [El ''p'' [cls ''muted''] [Tx (t_text ''noResults'' l)]]
           else [El ''table'' [cls ''admin-table'']
                   [El ''thead'' []
                      [El ''tr'' []
                         [El ''th'' [str ''scope'' ''col''] [Tx (t_text ''auditTimestamp'' l)],
                          El ''th'' [str ''scope'' ''col''] [Tx (t_text ''auditAction'' l)],
                          El ''th'' [str ''scope'' ''col''] [Tx (t_text ''auditEntity'' l)],
                          El ''th'' [str ''scope'' ''col''] [Tx (t_text ''auditUser'' l)]]],
                    El ''tbody'' []
                      (concat (map (\<lambda>row.
                        [El ''tr'' [str ''key'' (ae_id row)]
                           [El ''td'' [cls ''muted''] [Tx (pl_dateTime pl (ae_timestamp row))],
                            El ''td'' [] [El ''span'' [cls ''chip''] [tx (ae_action row)]],
                            El ''td'' [cls ''mono'']
                              [tx (ae_entityType row),
                               tx ''/'',
                               tx (take 8 (ae_entityId row)),
                               Tx [8230]],
                            El ''td'' [cls ''mono muted'']
                              ((if truthyS (ae_userId row)
                               then [Tx (asc (take 8 (the (ae_userId row))) @ [8230])]
                               else [El ''span'' [cls ''chip chip-denied'']
                                       [Tx (t_text ''auditAnonymised'' l)]]))]])
                        rows))]]))])"

definition consent_page :: "platform \<Rightarrow> lang \<Rightarrow> public_user option \<Rightarrow> unit node list" where
  "consent_page pl l user =
     AppShell l user
       ([El ''Link'' [str ''href'' ''/admin'', cls ''muted breadcrumb'']
          [Tx (t_text ''backToAdmin'' l)],
        El ''header'' [cls ''page-header'']
          [El ''h1'' [] [Tx (t_text ''adminCardConsent'' l)],
           El ''p'' [cls ''muted''] [Tx (t_text ''adminCardConsentDesc'' l)]]] @
       (static (consent_view pl l consent_init)))"

definition dpo_page ::
    "platform \<Rightarrow> lang \<Rightarrow> public_user option \<Rightarrow> dpo_contact option \<Rightarrow> string option \<Rightarrow> unit node list" where
  "dpo_page pl l user initial loadError =
     AppShell l user
       ([El ''Link'' [str ''href'' ''/admin'', cls ''muted breadcrumb'']
          [Tx (t_text ''backToAdmin'' l)],
        El ''header'' [cls ''page-header'']
          [El ''h1'' [] [Tx (t_text ''adminCardDpo'' l)],
           El ''p'' [cls ''muted''] [Tx (t_text ''adminCardDpoDesc'' l)]]] @
       (if loadError = Some ''fail''
        then [El ''p'' [str ''role'' ''alert'', cls ''form-error'']
                [Tx (t_text ''loadFailed'' l)]]
        else []) @
       (static (dpo_view pl l (dpo_init initial))))"

text \<open>The filters of the lists: an unknown value of the query is no filter.\<close>

definition REQUEST_FILTERS :: "(string \<times> string) list" where
  "REQUEST_FILTERS = [('''', ''filterAll''), (''pending'', ''filterPending''), (''approved'', ''filterApproved''),
     (''denied'', ''filterDenied''), (''completed'', ''filterCompleted'')]"

definition list_filter :: "(string \<times> string) list \<Rightarrow> string option \<Rightarrow> string option" where
  "list_filter filters v = known_filter (tl (map fst filters)) v"

definition request_key :: "string \<Rightarrow> string" where
  "request_key st =
     (if st = ''pending'' then ''filterPending'' else if st = ''approved'' then ''filterApproved''
      else if st = ''denied'' then ''filterDenied'' else ''filterCompleted'')"

definition RequestChip :: "lang \<Rightarrow> string \<Rightarrow> unit node list" where
  "RequestChip l status = [El ''span'' [cls (''chip chip-'' @ status)] [Tx (t_text (request_key status) l)]]"

definition RequestFilter :: "lang \<Rightarrow> string option \<Rightarrow> unit node list" where
  "RequestFilter l current =
     [El ''div'' [cls ''filter-row'', str ''role'' ''tablist'',
          (''aria-label'', Val (t_text ''filterByStatus'' l))]
        (concat (map (\<lambda>opt.
          [El ''Link'' [str ''key'' (if fst opt = [] then ''all'' else fst opt),
               str ''href'' (if fst opt \<noteq> [] then ''/admin/data-subject-requests?status='' @
                   fst opt else ''/admin/data-subject-requests''),
               cls (''chip '' @ (if current = Some (fst opt) \<or> (\<not> truthyS current \<and> fst
                   opt = []) then ''chip-active'' else ''''))]
             [Tx (t_text (snd opt) l)]])
          REQUEST_FILTERS))]"

definition dsr_page ::
    "platform \<Rightarrow> lang \<Rightarrow> public_user option \<Rightarrow> string option \<Rightarrow> subject_request list \<Rightarrow> string option \<Rightarrow> unit node list" where
  "dsr_page pl l user status rows loadError =
     AppShell l user
       [El ''Link'' [str ''href'' ''/admin'', cls ''muted breadcrumb'']
          [Tx (t_text ''backToAdmin'' l)],
        El ''header'' [cls ''page-header'']
          [El ''h1'' [] [Tx (t_text ''adminCardDsr'' l)],
           El ''p'' [cls ''muted''] [Tx (t_text ''adminCardDsrDesc'' l)]],
        El ''section'' [cls ''panel'']
          ([El ''h2'' [] [Tx (t_text ''recordEvent'' l)]] @
          (static (dsr_create_view l (cp_start (dsr_create l))))),
        El ''section'' [cls ''panel'']
          ([El ''header'' [cls ''panel-header'']
             ([El ''h2'' [] [Tx (t_text ''adminCardDsr'' l)]] @ RequestFilter l status)] @
          (if loadError = Some ''fail''
           then [El ''p'' [str ''role'' ''alert'', cls ''form-error'']
                   [Tx (t_text ''loadFailed'' l)]]
           else []) @
          (if length rows = 0
           then [El ''p'' [cls ''muted''] [Tx (t_text ''noResults'' l)]]
           else [El ''table'' [cls ''admin-table'']
                   [El ''thead'' []
                      [El ''tr'' []
                         [El ''th'' [str ''scope'' ''col''] [Tx (t_text ''subjectEmail'' l)],
                          El ''th'' [str ''scope'' ''col''] [Tx (t_text ''requestType'' l)],
                          El ''th'' [str ''scope'' ''col''] [Tx (t_text ''status'' l)],
                          El ''th'' [str ''scope'' ''col''] [Tx (t_text ''due'' l)],
                          El ''th'' [str ''scope'' ''col''] []]],
                    El ''tbody'' []
                      (concat (map (\<lambda>row.
                        [El ''tr'' [str ''key'' (ds_id row)]
                           [El ''td'' [] [tx (ds_subjectEmail row)],
                            El ''td'' []
                              [Tx (t_text (if ds_type row = ''access'' then ''dsrAccess'' else (if
                                  ds_type row = ''erasure'' then ''dsrErasure'' else
                                      ''dsrRectification'')) l)],
                            El ''td'' [] (RequestChip l (ds_status row)),
                            El ''td'' [cls ''muted''] [Tx (pl_dateTime pl (ds_requestedAt row))],
                            El ''td'' [] (static (dsr_view l (dsr_actions_init row)))]])
                        rows))]]))]"

definition ACTION_FILTERS :: "(string \<times> string) list" where
  "ACTION_FILTERS = [('''', ''filterAll''), (''pending'', ''filterPending''), (''approved'', ''filterApproved''),
     (''denied'', ''filterDenied''), (''executed'', ''filterExecuted'')]"

definition action_key :: "string \<Rightarrow> string" where
  "action_key st =
     (if st = ''pending'' then ''filterPending'' else if st = ''approved'' then ''filterApproved''
      else if st = ''denied'' then ''filterDenied'' else ''filterExecuted'')"

definition ActionChip :: "lang \<Rightarrow> string \<Rightarrow> unit node list" where
  "ActionChip l status = [El ''span'' [cls (''chip chip-'' @ status)] [Tx (t_text (action_key status) l)]]"

definition ActionFilter :: "lang \<Rightarrow> string option \<Rightarrow> unit node list" where
  "ActionFilter l current =
     [El ''div'' [cls ''filter-row'']
        (concat (map (\<lambda>opt.
          [El ''Link'' [str ''key'' (if fst opt = [] then ''all'' else fst opt),
               str ''href'' (if fst opt \<noteq> [] then ''/admin/retention?status='' @ fst opt else
                   ''/admin/retention''),
               cls (''chip '' @ (if current = Some (fst opt) \<or> (\<not> truthyS current \<and> fst
                   opt = []) then ''chip-active'' else ''''))]
             [Tx (t_text (snd opt) l)]])
          ACTION_FILTERS))]"

definition retention_page ::
    "lang \<Rightarrow> public_user option \<Rightarrow> string option \<Rightarrow> retention_action list \<Rightarrow> string option \<Rightarrow> unit node list" where
  "retention_page l user status rows loadError =
     AppShell l user
       [El ''Link'' [str ''href'' ''/admin'', cls ''muted breadcrumb'']
          [Tx (t_text ''backToAdmin'' l)],
        El ''header'' [cls ''page-header page-header-row'']
          ([El ''div'' []
             [El ''h1'' [] [Tx (t_text ''adminCardRetention'' l)],
              El ''p'' [cls ''muted''] [Tx (t_text ''adminCardRetentionDesc'' l)]]] @
          (static (sweep_view l sweep_init))),
        El ''section'' [cls ''panel'']
          ([El ''header'' [cls ''panel-header'']
             ([El ''h2'' [] [Tx (t_text ''adminCardRetention'' l)]] @ ActionFilter l status)] @
          (if loadError = Some ''fail''
           then [El ''p'' [str ''role'' ''alert'', cls ''form-error'']
                   [Tx (t_text ''loadFailed'' l)]]
           else []) @
          (if length rows = 0
           then [El ''p'' [cls ''muted''] [Tx (t_text ''noResults'' l)]]
           else [El ''table'' [cls ''admin-table'']
                   [El ''thead'' []
                      [El ''tr'' []
                         [El ''th'' [str ''scope'' ''col''] [Tx (t_text ''kind'' l)],
                          El ''th'' [str ''scope'' ''col''] [tx ''documentId''],
                          El ''th'' [str ''scope'' ''col''] [tx ''reason''],
                          El ''th'' [str ''scope'' ''col''] [Tx (t_text ''status'' l)],
                          El ''th'' [str ''scope'' ''col''] [tx ''requestedBy''],
                          El ''th'' [str ''scope'' ''col''] []]],
                    El ''tbody'' []
                      (concat (map (\<lambda>row.
                        [El ''tr'' [str ''key'' (ra_id row)]
                           [El ''td'' [] [tx (ra_action row)],
                            El ''td'' [cls ''mono''] [tx (take 8 (ra_documentId row)), Tx [8230]],
                            El ''td'' [] [tx (ra_reason row)],
                            El ''td'' [] (ActionChip l (ra_status row)),
                            El ''td'' [cls ''muted mono'']
                              [tx (take 8 (ra_requestedBy row)), Tx [8230]],
                            El ''td'' [] (static (retention_view l (retention_init row)))]])
                        rows))]]))]"

definition JOB_STATUS_FILTERS :: "(string \<times> string) list" where
  "JOB_STATUS_FILTERS = [('''', ''filterAll''), (''pending'', ''filterPending''), (''processing'', ''filterProcessing''),
     (''completed'', ''filterCompleted''), (''failed'', ''filterFailed'')]"

definition JOB_KIND_FILTERS :: "(string \<times> string) list" where
  "JOB_KIND_FILTERS = [('''', ''filterAll''), (''etimad'', ''kindEtimad''), (''upload'', ''kindUpload''),
     (''email'', ''kindEmail''), (''link'', ''kindLink'')]"

definition kind_key :: "string \<Rightarrow> string" where
  "kind_key k = orElse (map_of [(''etimad'', ''kindEtimad''), (''upload'', ''kindUpload''), (''email'', ''kindEmail''),
     (''link'', ''kindLink'')] k) []"

definition filter_href_at :: "string \<Rightarrow> (string \<times> string) list \<Rightarrow> string \<Rightarrow> string \<Rightarrow> string" where
  "filter_href_at prefix extra key v =
     (let q = search_params (if v \<noteq> [] then params_set key v extra else extra)
      in if q \<noteq> [] then prefix @ ''?'' @ q else prefix)"

definition ingestion_page ::
    "platform \<Rightarrow> lang \<Rightarrow> public_user option \<Rightarrow> string option \<Rightarrow> string option \<Rightarrow> ingestion_job list \<Rightarrow> string option \<Rightarrow>
     unit node list" where
  "ingestion_page pl l user status kind rows loadError =
     AppShell l user
       [El ''Link'' [str ''href'' ''/admin'', cls ''muted breadcrumb'']
          [Tx (t_text ''backToAdmin'' l)],
        El ''header'' [cls ''page-header'']
          [El ''h1'' [] [Tx (t_text ''adminCardIngestion'' l)],
           El ''p'' [cls ''muted''] [Tx (t_text ''adminCardIngestionDesc'' l)]],
        El ''section'' [cls ''panel'']
          ([El ''h2'' []
             [Tx (t_text ''enqueue'' l),
              Tx (asc '' '' @ [8212] @ asc '' ''),
              Tx (t_text ''kindEtimad'' l)]] @
          (static (enqueue_view l enqueue_init))),
        El ''section'' [cls ''panel'']
          ([El ''header'' [cls ''panel-header'']
             [El ''h2'' [] [Tx (t_text ''adminCardIngestion'' l)],
              El ''div'' [cls ''filter-cluster'']
                ((FilterRow l status JOB_STATUS_FILTERS (filter_href_at ''/admin/ingestion'' (chosen
                    ''kind'' kind) ''status'')) @
                (FilterRow l kind JOB_KIND_FILTERS (filter_href_at ''/admin/ingestion'' (chosen
                    ''status'' status) ''kind'')))]] @
          (if loadError = Some ''fail''
           then [El ''p'' [str ''role'' ''alert'', cls ''form-error'']
                   [Tx (t_text ''loadFailed'' l)]]
           else []) @
          (if length rows = 0
           then [El ''p'' [cls ''muted''] [Tx (t_text ''noResults'' l)]]
           else [El ''table'' [cls ''admin-table'']
                   [El ''thead'' []
                      [El ''tr'' []
                         [El ''th'' [str ''scope'' ''col''] [Tx (t_text ''kind'' l)],
                          El ''th'' [str ''scope'' ''col''] [Tx (t_text ''status'' l)],
                          El ''th'' [str ''scope'' ''col''] [Tx (t_text ''attempts'' l)],
                          El ''th'' [str ''scope'' ''col''] [tx ''created''],
                          El ''th'' [str ''scope'' ''col''] [Tx (t_text ''errorMessage'' l)]]],
                    El ''tbody'' []
                      (concat (map (\<lambda>row.
                        [El ''tr'' [str ''key'' (ij_id row)]
                           [El ''td'' [] [Tx (t_text (kind_key (ij_kind row)) l)],
                            El ''td'' []
                              [El ''span'' [cls (''chip chip-'' @ ij_status row)]
                                 [tx (ij_status row)]],
                            El ''td'' [cls ''muted''] [Tx (asc (show_int (ij_attempts row)))],
                            El ''td'' [cls ''muted''] [Tx (pl_dateTime pl (ij_createdAt row))],
                            El ''td'' [cls ''muted small'']
                              [Tx (case ij_errorMessage row of Some v \<Rightarrow> asc v | None
                                  \<Rightarrow> [8212])]]])
                        rows))]]))]"

record web_run =
  wr_id :: string
  wr_sourceId :: string
  wr_source :: "string option"
  wr_status :: string
  wr_startedAt :: time
  wr_discoveredCount :: nat
  wr_capturedCount :: nat
  wr_normalisedCount :: nat
  wr_enrichedCount :: nat
  wr_curationReadyCount :: nat
  wr_rejectedCount :: nat

definition date_tag :: "lang \<Rightarrow> string" where
  "date_tag l = (if l = Ar then ''ar-SA'' else ''en-GB'')"

definition run_class :: "string \<Rightarrow> string" where
  "run_class st =
     (if st = ''completed'' then ''chip-active'' else if st = ''failed'' then ''chip-restricted''
      else if st = ''running'' then ''chip-expiring'' else [])"

definition RunChip :: "string \<Rightarrow> unit node list" where
  "RunChip status = [El ''span'' [cls (''chip '' @ run_class status)] [tx status]]"

definition runs_page ::
    "platform \<Rightarrow> lang \<Rightarrow> public_user option \<Rightarrow> web_run list \<Rightarrow> string option \<Rightarrow> unit node list" where
  "runs_page pl l user loaded loadError =
     AppShell l user
       ([El ''Link'' [str ''href'' ''/admin'', cls ''muted breadcrumb'']
          [Tx (t_text ''backToAdmin'' l)],
        El ''header'' [cls ''page-header'']
          [El ''h1'' [] [Tx (t_text ''ingestionRunsTitle'' l)],
           El ''p'' [cls ''muted''] [Tx (t_text ''ingestionRunsLead'' l)]]] @
       (static (trigger_view l trigger_init)) @
       [El ''section'' [cls ''panel'']
          ([El ''header'' [cls ''panel-header'']
             [El ''h2'' [] [Tx (t_text ''ingestionRunsTitle'' l)]]] @
          (if loadError = Some ''forbidden''
           then [El ''p'' [str ''role'' ''alert'', cls ''form-error'']
                   [Tx (t_text ''accessDenied'' l)]]
           else []) @
          (if loadError = Some ''unreachable''
           then [El ''p'' [str ''role'' ''alert'', cls ''form-error'']
                   [Tx (asc ''ingestion service unreachable '' @ [8212] @ asc
                       '' check INGESTION_SERVICE_URL + INGESTION_TRIGGER_TOKEN on the admin portal.'')]]
           else []) @
          (if loadError = Some ''fail''
           then [El ''p'' [str ''role'' ''alert'', cls ''form-error'']
                   [Tx (t_text ''loadFailed'' l)]]
           else []) @
          (if (\<not> (truthyS loadError)) \<and> length loaded = 0
           then [El ''p'' [cls ''muted''] [Tx (t_text ''ingestionNoRuns'' l)]]
           else [El ''table'' [cls ''admin-table'']
                   [El ''thead'' []
                      [El ''tr'' []
                         [El ''th'' [str ''scope'' ''col''] [Tx (t_text ''ingestionSource'' l)],
                          El ''th'' [str ''scope'' ''col''] [Tx (t_text ''ingestionStarted'' l)],
                          El ''th'' [str ''scope'' ''col''] [Tx (t_text ''ingestionStatus'' l)],
                          El ''th'' [str ''scope'' ''col''] [Tx (t_text ''ingestionCounters'' l)]]],
                    El ''tbody'' []
                      (concat (map (\<lambda>r.
                        [El ''tr'' [str ''key'' (wr_id r)]
                           [El ''td'' [] [tx (orElse (wr_source r) (take 8 (wr_sourceId r)))],
                            El ''td'' [cls ''muted'']
                              [Tx (pl_dateTimeIn pl (date_tag l) (wr_startedAt r))],
                            El ''td'' [] (RunChip (wr_status r)),
                            El ''td'' [cls ''muted small'']
                              [tx ''d='',
                               Tx (asc (show_nat (wr_discoveredCount r))),
                               Tx (asc '' '' @ [183] @ asc '' c=''),
                               Tx (asc (show_nat (wr_capturedCount r))),
                               Tx (asc '' '' @ [183] @ asc '' n=''),
                               Tx (asc (show_nat (wr_normalisedCount r))),
                               Tx (asc '' '' @ [183] @ asc '' e=''),
                               Tx (asc (show_nat (wr_enrichedCount r))),
                               Tx (asc '' '' @ [183] @ asc '' ready=''),
                               Tx (asc (show_nat (wr_curationReadyCount r))),
                               Tx (asc '' '' @ [183] @ asc '' rej=''),
                               Tx (asc (show_nat (wr_rejectedCount r)))]]])
                        loaded))]]))])"

definition TRAINING_FILTERS :: "(string \<times> string) list" where
  "TRAINING_FILTERS = [(''all'', ''trainingFilterAll''), (''active'', ''trainingFilterActive''),
     (''expiring'', ''trainingFilterExpiring''), (''expired'', ''trainingFilterExpired''),
     (''no-expiry'', ''trainingFilterNoExpiry'')]"

definition KPI :: "lang \<Rightarrow> string \<Rightarrow> nat \<Rightarrow> unit node list" where
  "KPI l labelKey v =
     [El ''div'' [cls ''kpi-card'']
        [El ''span'' [cls ''kpi-label''] [Tx (t_text labelKey l)],
         El ''span'' [cls ''kpi-value''] [Tx (asc (show_nat v))]]]"

definition TrainingFilter :: "lang \<Rightarrow> string \<Rightarrow> unit node list" where
  "TrainingFilter l current =
     [El ''div'' [cls ''filter-row'']
        (concat (map (\<lambda>f.
          (let active = current = fst f;
               href = (if fst f = ''all'' then ''/admin/training-register'' else
                   ''/admin/training-register?status='' @ fst f)
           in [El ''Link'' [str ''key'' (fst f), str ''href'' href,
                   cls (''chip '' @ (if active then ''chip-active'' else ''''))]
                 [Tx (t_text (snd f) l)]]))
          TRAINING_FILTERS))]"

definition ExpiryChip :: "lang \<Rightarrow> expiry_status \<Rightarrow> int option \<Rightarrow> unit node list" where
  "ExpiryChip l status days =
     (case status of
        NoExpiry \<Rightarrow>
         [El ''span'' [cls ''chip''] [Tx (t_text ''trainingStatusNoExpiry'' l)]]
      | Active \<Rightarrow>
         [El ''span'' [cls ''chip chip-active'']
            ([Tx (t_text ''trainingStatusActive'' l)] @
            (case days of Some n \<Rightarrow> [Tx ((asc '' '' @ [183] @ asc '' '') @ asc (show_int n @ '' '') @ t_text
                ''trainingDaysLeft'' l)] | None \<Rightarrow> []))]
      | Expiring \<Rightarrow>
         [El ''span'' [cls ''chip chip-expiring'']
            ([Tx (t_text ''trainingStatusExpiring'' l)] @
            (case days of Some n \<Rightarrow> [Tx ((asc '' '' @ [183] @ asc '' '') @ asc (show_int n @ '' '') @ t_text
                ''trainingDaysLeft'' l)] | None \<Rightarrow> []))]
      | Expired \<Rightarrow>
         [El ''span'' [cls ''chip chip-restricted'']
            ([Tx (t_text ''trainingStatusExpired'' l)] @
            (case days of Some n \<Rightarrow> [Tx ((asc '' '' @ [183] @ asc '' '') @ asc (show_int \<bar>n\<bar> @ '' '')
                @ t_text ''trainingDaysExpired'' l)] | None \<Rightarrow> []))])"

definition training_page ::
    "platform \<Rightarrow> lang \<Rightarrow> public_user option \<Rightarrow> string \<Rightarrow> training_with_status list \<Rightarrow> training_summary option \<Rightarrow>
     string option \<Rightarrow> unit node list" where
  "training_page pl l user status rows summary loadError =
     AppShell l user
       ([El ''Link'' [str ''href'' ''/admin'', cls ''muted breadcrumb'']
          [Tx (t_text ''backToAdmin'' l)],
        El ''header'' [cls ''page-header'']
          [El ''h1'' [] [Tx (t_text ''trainingTitle'' l)],
           El ''p'' [cls ''muted''] [Tx (t_text ''trainingLead'' l)]]] @
       (case summary of
         Some summary \<Rightarrow>
           [El ''section'' [cls ''kpi-strip'']
              ((KPI l ''trainingTotalLabel'' (sm_total summary)) @
              (KPI l ''trainingStatusActive'' (sm_active summary)) @
              (KPI l ''trainingStatusExpiring'' (sm_expiring summary)) @
              (KPI l ''trainingStatusExpired'' (sm_expired summary)) @
              (KPI l ''trainingStatusNoExpiry'' (sm_noExpiry summary)))]
       | None \<Rightarrow> []) @
       (static (training_register_view l training_register_init)) @
       [El ''section'' [cls ''panel'']
          ([El ''header'' [cls ''panel-header'']
             ([El ''h2'' [] [Tx (t_text ''trainingTitle'' l)]] @ TrainingFilter l status)] @
          (if loadError = Some ''forbidden''
           then [El ''p'' [str ''role'' ''alert'', cls ''form-error'']
                   [Tx (t_text ''accessDenied'' l)]]
           else []) @
          (if loadError = Some ''fail''
           then [El ''p'' [str ''role'' ''alert'', cls ''form-error'']
                   [Tx (t_text ''loadFailed'' l)]]
           else []) @
          (if (\<not> (truthyS loadError)) \<and> length rows = 0
           then [El ''p'' [cls ''muted''] [Tx (t_text ''trainingNoRecords'' l)]]
           else [El ''table'' [cls ''admin-table'']
                   [El ''thead'' []
                      [El ''tr'' []
                         [El ''th'' [str ''scope'' ''col'']
                            [Tx (t_text ''trainingSubjectName'' l)],
                          El ''th'' [str ''scope'' ''col'']
                            [Tx (t_text ''trainingSubjectEmail'' l)],
                          El ''th'' [str ''scope'' ''col''] [Tx (t_text ''trainingTopic'' l)],
                          El ''th'' [str ''scope'' ''col'']
                            [Tx (t_text ''trainingCompletedAt'' l)],
                          El ''th'' [str ''scope'' ''col'']
                            [Tx (t_text ''trainingValidUntil'' l)],
                          El ''th'' [str ''scope'' ''col''] [Tx (t_text ''status'' l)],
                          El ''th'' [str ''scope'' ''col''] []]],
                    El ''tbody'' []
                      (concat (map (\<lambda>row.
                        [El ''tr'' [str ''key'' (dt_id (ts_row row))]
                           [El ''td'' [] [tx (dt_subjectName (ts_row row))],
                            El ''td'' [cls ''mono''] [tx (dt_subjectEmail (ts_row row))],
                            El ''td'' [] [tx (dt_topic (ts_row row))],
                            El ''td'' []
                              [Tx (pl_dateIn pl (date_tag l) (dt_completedAt (ts_row row)))],
                            El ''td'' []
                              [Tx (case dt_validUntil (ts_row row) of Some validUntil \<Rightarrow>
                                  pl_dateIn pl (date_tag l) validUntil | None \<Rightarrow> [8212])],
                            El ''td'' []
                              ((ExpiryChip l (ts_expiryStatus row) (ts_daysUntilExpiry row))),
                            El ''td'' [] (static (training_row_view l (training_row_init row)))]])
                        rows))]]))])"

subsection \<open>What the pages load\<close>

text \<open>
  The rows as the API answers them, and the error: a failed call leaves the page with no rows. Pages
  that load two lists lose both when one fails.
\<close>

definition load_rows :: "(web_error \<Rightarrow> 'x) \<Rightarrow> 'x \<Rightarrow> web_error + json option \<Rightarrow> json option \<times> 'x" where
  "load_rows failed fine a = (case a of Inr v \<Rightarrow> (v, fine) | Inl e \<Rightarrow> (Some (JArr []), failed e))"

definition load_two ::
    "(web_error \<Rightarrow> 'x) \<Rightarrow> 'x \<Rightarrow> json option \<Rightarrow> web_error + json option \<times> json option \<Rightarrow> (json option \<times> json option) \<times> 'x" where
  "load_two failed fine none a = (case a of Inr vs \<Rightarrow> (vs, fine) | Inl e \<Rightarrow> ((Some (JArr []), none), failed e))"

definition tenders_load :: "bool \<Rightarrow> web_env \<Rightarrow> (json option \<times> json option) \<times> bool" where
  "tenders_load second_first env = load_two list_page_error False (Some (JArr []))
     (both second_first (apiFetch env web_listTenders) (apiFetch env web_listClients))"

definition documents_load :: "bool \<Rightarrow> web_env \<Rightarrow> (json option \<times> json option) \<times> bool" where
  "documents_load second_first env = load_two list_page_error False (Some (JArr []))
     (both second_first (apiFetch env web_listDocuments) (apiFetch env web_listClients))"

definition clients_load :: "web_env \<Rightarrow> json option \<times> bool" where
  "clients_load env = load_rows list_page_error False (apiFetch env web_listClients)"

definition compliance_matrices :: "web_env \<Rightarrow> json option \<Rightarrow> (json \<times> json option) list" where
  "compliance_matrices env tenders =
     map (\<lambda>t. (t, safe_list env (web_listMatrices (in_template (member_of (Some t) ''id'')))))
       (case tenders of Some (JArr ts) \<Rightarrow> ts | _ \<Rightarrow> [])"

definition compliance_load :: "web_env \<Rightarrow> (json option \<times> bool) \<times> (json \<times> json option) list" where
  "compliance_load env =
     (let loaded = load_rows list_page_error False (apiFetch env web_listTenders)
      in (loaded, compliance_matrices env (fst loaded)))"

definition audit_load :: "web_env \<Rightarrow> json option \<times> string option" where
  "audit_load env = load_rows audit_load_error None (apiFetch env audit_call)"

text \<open>No contact is \<^verbatim>\<open>null\<close>, also after a failure.\<close>

definition dpo_load :: "web_env \<Rightarrow> json option \<times> string option" where
  "dpo_load env = (case getDpoContact env of Inr v \<Rightarrow> (v, None) | Inl e \<Rightarrow> (Some JNull, load_error e))"

definition dsr_load :: "web_env \<Rightarrow> string option \<Rightarrow> json option \<times> string option" where
  "dsr_load env status = load_rows load_error None
     (apiFetch env (web_listDataSubjectRequests (list_filter REQUEST_FILTERS status)))"

definition retention_load :: "web_env \<Rightarrow> string option \<Rightarrow> json option \<times> string option" where
  "retention_load env status = load_rows load_error None
     (apiFetch env (web_listRetentionActions (list_filter ACTION_FILTERS status)))"

definition ingestion_load :: "web_env \<Rightarrow> string option \<Rightarrow> string option \<Rightarrow> json option \<times> string option" where
  "ingestion_load env status kind = load_rows load_error None
     (apiFetch env (web_listIngestions (list_filter JOB_STATUS_FILTERS status) (list_filter JOB_KIND_FILTERS kind)))"

definition runs_load :: "web_env \<Rightarrow> json option \<times> string option" where
  "runs_load env = load_rows runs_load_error None (apiFetch env (web_listIngestionRuns 50))"

definition training_load :: "bool \<Rightarrow> web_env \<Rightarrow> string option \<Rightarrow> (json option \<times> json option) \<times> string option" where
  "training_load second_first env status = load_two load_error None (Some JNull)
     (both second_first (apiFetch env (web_listTrainingRecords (Some (parseStatus status))))
       (apiFetch env web_trainingRecordsSummary))"

text \<open>A filter of the address that no chip has is dropped before it reaches the API.\<close>

lemma list_filter_known: "list_filter filters v = Some s \<Longrightarrow> s \<in> fst ` set (tl filters)"
  by (auto simp: list_filter_def known_filter_def map_tl [symmetric] split: option.splits if_splits)

end
