(* ===== verification/Navigation.thy ===== *)
theory Navigation
  imports Pages_View
begin

text \<open>
  Where the links of the pages lead. The pages of the application are those with a file under
  \<^verbatim>\<open>app\<close> (the router of Next.js matches the path by its segments); the links are the \<^verbatim>\<open>href\<close>
  attributes of the trees that \<open>Pages_View\<close> renders.
\<close>

subsection \<open>The links of a tree\<close>

primrec hrefs :: "'e node \<Rightarrow> utext list"
  and hrefs_list :: "'e node list \<Rightarrow> utext list" where
  "hrefs (Tx _) = []"
| "hrefs (El tag as cs) = (case map_of as ''href'' of Some (Val v) \<Rightarrow> [v] | _ \<Rightarrow> []) @ hrefs_list cs"
| "hrefs Broken = []"
| "hrefs_list [] = []"
| "hrefs_list (n # ns) = hrefs n @ hrefs_list ns"

lemma hrefs_list_append [simp]: "hrefs_list (a @ b) = hrefs_list a @ hrefs_list b"
  by (induction a) simp_all

lemma hrefs_list_concat: "hrefs_list ns = concat (map hrefs ns)"
  by (induction ns) simp_all

lemma hrefs_list_map [simp]:
  "hrefs_list (concat (map g xs)) = concat (map (\<lambda>x. hrefs_list (g x)) xs)"
  "hrefs_list (map f xs) = concat (map (\<lambda>x. hrefs (f x)) xs)"
  by (induction xs) simp_all

lemma list_all_maps [simp]:
  "list_all P (concat (map f xs)) \<longleftrightarrow> (\<forall>x \<in> set xs. list_all P (f x))"
  "list_all P (map g xs) \<longleftrightarrow> (\<forall>x \<in> set xs. P (g x))"
  by (induction xs) simp_all

lemma map_of_handlers:
  "map_of (map (\<lambda>(k, v). (k, f v)) as) k = map_option f (map_of as k)"
  by (induction as) auto

lemma hrefs_static_node: "hrefs (map_node f n) = hrefs n"
proof (induction n)
  case (El tag as cs)
  then have "map hrefs (map (map_node f) cs) = map hrefs cs" by simp
  then have "hrefs_list (map (map_node f) cs) = hrefs_list cs" unfolding hrefs_list_concat by metis
  moreover have "map_of (map (map_prod id (map_attr f)) as) ''href'' = map_option (map_attr f) (map_of as ''href'')"
    by (simp add: map_prod_def map_of_handlers)
  ultimately show ?case by (simp split: option.split attr.split)
qed simp_all

lemma hrefs_static [simp]: "hrefs_list (static ns) = hrefs_list ns"
  by (simp add: static_def hrefs_list_concat hrefs_static_node comp_def)

lemma hrefs_tx [simp]: "hrefs (tx s) = []" by (simp add: tx_def)

lemma hrefs_show_json [simp]: "hrefs_list (show_json v) = []"
  by (induction v rule: show_json.induct) (simp_all add: hrefs_list_concat)

lemma hrefs_show_error [simp]: "hrefs_list (show_error e) = []"
  by (simp add: show_error_def split: option.split shown.split)

subsection \<open>The pages\<close>

definition STATIC_PAGES :: "string list" where
  "STATIC_PAGES = [''/'', ''/login'', ''/tenders'', ''/documents'', ''/clients'', ''/compliance'', ''/reports'', ''/settings'',
     ''/admin'', ''/admin/audit'', ''/admin/consent'', ''/admin/data-subject-requests'', ''/admin/dpo-contact'',
     ''/admin/ingestion'', ''/admin/ingestion-runs'', ''/admin/retention'', ''/admin/training-register'']"

definition DYNAMIC_PAGES :: "string list" where
  "DYNAMIC_PAGES = [''/tenders/'', ''/documents/'']"

text \<open>The code units of \<^verbatim>\<open>/\<close>, \<^verbatim>\<open>?\<close> and \<^verbatim>\<open>#\<close>.\<close>

abbreviation slash :: nat where "slash \<equiv> 47"
abbreviation question :: nat where "question \<equiv> 63"
abbreviation hash :: nat where "hash \<equiv> 35"

definition page_path :: "utext \<Rightarrow> bool" where
  "page_path p \<longleftrightarrow> p \<in> set (map asc STATIC_PAGES) \<or>
     list_ex (\<lambda>d. take (length d) p = asc d \<and> drop (length d) p \<noteq> [] \<and> slash \<notin> set (drop (length d) p)) DYNAMIC_PAGES"

text \<open>Without a path a link stays on the page it is on.\<close>

definition path_part :: "utext \<Rightarrow> utext" where
  "path_part h = takeWhile (\<lambda>c. c \<noteq> question \<and> c \<noteq> hash) h"

definition leads_to_page :: "utext \<Rightarrow> bool" where
  "leads_to_page h \<longleftrightarrow> path_part h = [] \<or> page_path (path_part h)"

definition clean_id :: "ident \<Rightarrow> bool" where
  "clean_id i \<longleftrightarrow> i \<noteq> [] \<and> list_all (\<lambda>c. c \<noteq> slash \<and> c \<noteq> question \<and> c \<noteq> hash) (asc i)"

definition link_ok :: "bool \<Rightarrow> utext \<Rightarrow> bool" where
  "link_ok c h \<longleftrightarrow> leads_to_page h \<and> (h = asc ''/clients'' \<longrightarrow> c)"

lemma link_ok_id:
  assumes "clean_id i" and "d \<in> set DYNAMIC_PAGES"
  shows "link_ok c (asc d @ asc i)"
proof -
  have i: "takeWhile (\<lambda>c. c \<noteq> question \<and> c \<noteq> hash) (asc i) = asc i" "slash \<notin> set (asc i)" "i \<noteq> []"
    using assms(1) by (auto simp: clean_id_def list_all_iff takeWhile_eq_all_conv)
  have d: "list_all (\<lambda>c. c \<noteq> question \<and> c \<noteq> hash) (asc d)" "asc d @ asc i \<noteq> asc ''/clients''"
    using assms(2) by (auto simp: DYNAMIC_PAGES_def asc_def)
  have "path_part (asc d @ asc i) = asc d @ asc i"
    using i(1) d(1) by (simp add: path_part_def takeWhile_append list_all_iff)
  moreover have "page_path (asc d @ asc i)"
    using i(2,3) assms(2) unfolding page_path_def list_ex_iff
    by (intro disjI2 bexI [of _ d]) (simp_all add: asc_def)
  ultimately show ?thesis using d(2) by (simp add: link_ok_def leads_to_page_def)
qed

lemma link_ok_page:
  assumes "p \<in> set STATIC_PAGES" and "p = ''/clients'' \<Longrightarrow> c"
  shows "link_ok c (asc p)"
proof -
  have "list_all (\<lambda>p. list_all (\<lambda>c. c \<noteq> question \<and> c \<noteq> hash) (asc p)) STATIC_PAGES"
    by (simp add: STATIC_PAGES_def asc_def)
  then have "path_part (asc p) = asc p"
    using assms(1) by (simp add: path_part_def list_all_iff takeWhile_eq_all_conv)
  then show ?thesis using assms by (auto simp: link_ok_def leads_to_page_def page_path_def)
qed

text \<open>What follows the question mark does not matter.\<close>

lemma link_ok_query:
  assumes "p \<in> set STATIC_PAGES"
  shows "link_ok c (asc p @ question # q)"
proof -
  have "list_all (\<lambda>p. list_all (\<lambda>c. c \<noteq> question \<and> c \<noteq> hash) (asc p)) STATIC_PAGES"
    by (simp add: STATIC_PAGES_def asc_def)
  then have *: "list_all (\<lambda>c. c \<noteq> question \<and> c \<noteq> hash) (asc p)" using assms by (simp add: list_all_iff)
  then have "path_part (asc p @ question # q) = asc p"
    by (simp add: path_part_def takeWhile_append list_all_iff)
  moreover have "asc p @ question # q \<noteq> asc ''/clients''"
  proof
    assume "asc p @ question # q = asc ''/clients''"
    then have "question \<in> set (asc ''/clients'')" by (metis in_set_conv_decomp)
    then show False by (simp add: asc_def)
  qed
  ultimately show ?thesis using assms by (auto simp: link_ok_def leads_to_page_def page_path_def)
qed

lemma link_ok_fragment: "link_ok c (asc ''#main'')"
  by (simp add: link_ok_def leads_to_page_def path_part_def asc_def)

subsection \<open>The links of the pages\<close>

text \<open>No client component has a link.\<close>

lemma links_access_section_view [simp]: "hrefs_list (access_section_view pl l s) = []"
  by (simp add: access_section_view_def str_def cls_def Let_def split: option.split)

lemma links_requirements_view [simp]: "hrefs_list (requirements_view l s) = []"
  by (simp add: requirements_view_def str_def cls_def Let_def split: option.split)

lemma links_matrices_view [simp]: "hrefs_list (matrices_view l s) = []"
  by (simp add: matrices_view_def str_def cls_def Let_def split: option.split)

lemma links_sector_view [simp]: "hrefs_list (sector_view l b s) = []"
  by (simp add: sector_view_def str_def cls_def Let_def split: option.split)

lemma links_status_view [simp]: "hrefs_list (status_view l s) = []"
  by (simp add: status_view_def str_def cls_def Let_def split: option.split)

lemma links_tender_create_view [simp]: "hrefs_list (tender_create_view l s) = []"
  by (simp add: tender_create_view_def str_def cls_def Let_def split: option.split)

lemma links_client_create_view [simp]: "hrefs_list (client_create_view l s) = []"
  by (simp add: client_create_view_def str_def cls_def Let_def split: option.split)

lemma links_upload_view [simp]: "hrefs_list (upload_view l s) = []"
  by (simp add: upload_view_def str_def cls_def Let_def split: option.split)

lemma links_register_view [simp]: "hrefs_list (register_view l s) = []"
  by (simp add: register_view_def str_def cls_def Let_def split: option.split)

lemma links_doc_row_view [simp]: "hrefs_list (doc_row_view l s) = []"
  by (simp add: doc_row_view_def str_def cls_def Let_def split: option.split)

lemma links_download_view [simp]: "hrefs_list (download_view l s) = []"
  by (simp add: download_view_def str_def cls_def Let_def split: option.split)

lemma links_consent_view [simp]: "hrefs_list (consent_view pl l s) = []"
  by (simp add: consent_view_def str_def cls_def Let_def split: option.split)

lemma links_dpo_view [simp]: "hrefs_list (dpo_view pl l s) = []"
  by (simp add: dpo_view_def str_def cls_def Let_def split: option.split)

lemma links_dsr_create_view [simp]: "hrefs_list (dsr_create_view l s) = []"
  by (simp add: dsr_create_view_def str_def cls_def Let_def split: option.split)

lemma links_dsr_view [simp]: "hrefs_list (dsr_view l s) = []"
  by (simp add: dsr_view_def str_def cls_def Let_def split: option.split)

lemma links_retention_view [simp]: "hrefs_list (retention_view l s) = []"
  by (simp add: retention_view_def str_def cls_def Let_def split: option.split)

lemma links_sweep_view [simp]: "hrefs_list (sweep_view l s) = []"
  by (simp add: sweep_view_def str_def cls_def Let_def split: option.split)

lemma links_enqueue_view [simp]: "hrefs_list (enqueue_view l s) = []"
  by (simp add: enqueue_view_def str_def cls_def Let_def split: option.split)

lemma links_trigger_view [simp]: "hrefs_list (trigger_view l s) = []"
  by (simp add: trigger_view_def str_def cls_def Let_def split: option.split)

lemma links_training_register_view [simp]: "hrefs_list (training_register_view l s) = []"
  by (simp add: training_register_view_def str_def cls_def Let_def split: option.split)

lemma links_training_row_view [simp]: "hrefs_list (training_row_view l s) = []"
  by (simp add: training_row_view_def str_def cls_def Let_def split: option.split)

lemma links_login_view [simp]: "hrefs_list (login_view s) = []"
  by (simp add: login_view_def str_def cls_def Let_def split: option.split)

lemma links_sign_out_view [simp]: "hrefs_list (sign_out_view l s) = []"
  by (simp add: sign_out_view_def str_def cls_def Let_def split: option.split)

lemma links_locale_view [simp]: "hrefs_list (locale_view l) = []"
  by (simp add: locale_view_def str_def cls_def Let_def split: option.split)

lemma links_header_view [simp]: "hrefs_list (header_view s) = []"
  by (simp add: header_view_def str_def cls_def Let_def split: option.split)

text \<open>The addresses of the pages; \<open>asc\<close> and the literals are opened the way \<open>simp\<close> leaves them.\<close>

lemma links_to_pages [simp]:
  "link_ok c (asc ''/'')" "link_ok c (asc ''/tenders'')" "link_ok c (asc ''/documents'')"
  "link_ok c (asc ''/compliance'')" "link_ok c (asc ''/reports'')" "link_ok c (asc ''/settings'')"
  "link_ok c (asc ''/admin'')" "link_ok c (asc ''/admin/audit'')" "link_ok c (asc ''/admin/consent'')"
  "link_ok c (asc ''/admin/data-subject-requests'')" "link_ok c (asc ''/admin/dpo-contact'')"
  "link_ok c (asc ''/admin/ingestion'')" "link_ok c (asc ''/admin/ingestion-runs'')"
  "link_ok c (asc ''/admin/retention'')" "link_ok c (asc ''/admin/training-register'')"
  "link_ok True (asc ''/clients'')" "link_ok c (asc ''#main'')"
  by (intro link_ok_page link_ok_fragment; simp add: STATIC_PAGES_def)+

lemma link_tender: "clean_id i \<Longrightarrow> link_ok c (asc (''/tenders/'' @ i))"
  using link_ok_id [of i "''/tenders/''" c] by (simp add: DYNAMIC_PAGES_def asc_def)

lemma link_document: "clean_id i \<Longrightarrow> link_ok c (asc (''/documents/'' @ i))"
  using link_ok_id [of i "''/documents/''" c] by (simp add: DYNAMIC_PAGES_def asc_def)

lemma link_filter:
  "link_ok c (asc (''/documents?'' @ q))" "link_ok c (asc (''/admin/ingestion?'' @ q))"
  "link_ok c (asc (''/admin/data-subject-requests?'' @ q))" "link_ok c (asc (''/admin/retention?'' @ q))"
  "link_ok c (asc (''/admin/training-register?'' @ q))"
  using link_ok_query [of "''/documents''" c "asc q"] link_ok_query [of "''/admin/ingestion''" c "asc q"]
    link_ok_query [of "''/admin/data-subject-requests''" c "asc q"]
    link_ok_query [of "''/admin/retention''" c "asc q"] link_ok_query [of "''/admin/training-register''" c "asc q"]
  by (simp_all add: STATIC_PAGES_def asc_def)

lemmas link_simps [simp] =
  link_tender [unfolded append_Cons append_Nil] link_document [unfolded append_Cons append_Nil]
  link_filter [unfolded append_Cons append_Nil]

lemma link_filter_href [simp]:
  "link_ok c (asc (filter_href extra k v))" "link_ok c (asc (filter_href_at ''/admin/ingestion'' extra k v))"
  by (simp_all add: filter_href_def filter_href_at_def Let_def)

lemma hrefs_El [simp]: "hrefs_list [El tag as cs] = hrefs (El tag as cs)" by simp

lemmas tree_simps = str_def cls_def Let_def

lemma links_shell [simp]:
  "list_all (link_ok c) (hrefs_list (AppShell l user ns)) \<longleftrightarrow> list_all (link_ok c) (hrefs_list ns)"
  by (simp add: AppShell_def AppSidebar_def NAV_ITEMS_def tree_simps)

lemma links_parts [simp]:
  "hrefs_list (KPIStrip l k) = []" "hrefs_list (TaskRail l ts) = []" "hrefs_list (ExpiryRadar l docs) = []"
  "hrefs_list (StatTable l es f n) = []" "hrefs_list (RequestChip l st) = []" "hrefs_list (ActionChip l st) = []"
  "hrefs_list (RunChip st) = []" "hrefs_list (KPI l key n) = []" "hrefs_list (ExpiryChip l e d) = []"
  by (simp_all add: KPIStrip_def TaskRail_def ExpiryRadar_def StatTable_def RequestChip_def ActionChip_def
      RunChip_def KPI_def ExpiryChip_def tree_simps split: option.split expiry_status.split prod.split)

lemma links_feed [simp]:
  "\<forall>t \<in> set ts. clean_id (tn_id t) \<Longrightarrow> list_all (link_ok c) (hrefs_list (TenderFeed l ts))"
  by (simp add: TenderFeed_def tree_simps list_all_iff)

lemma links_filters [simp]:
  "\<forall>v. link_ok c (asc (h v)) \<Longrightarrow> list_all (link_ok c) (hrefs_list (FilterRow l cur opts h))"
  "\<forall>v. link_ok c (asc (h v)) \<Longrightarrow> list_all (link_ok c) (hrefs_list (TypeFilterRow l cur types h))"
  "list_all (link_ok c) (hrefs_list (RequestFilter l cur))"
  "list_all (link_ok c) (hrefs_list (ActionFilter l cur))"
  "list_all (link_ok c) (hrefs_list (TrainingFilter l cur'))"
  by (simp_all add: FilterRow_def TypeFilterRow_def RequestFilter_def ActionFilter_def TrainingFilter_def tree_simps)

subsection \<open>Every page\<close>

text \<open>A page and what was loaded for it.\<close>

datatype page =
    Home "tender list" "client_document list" bool
  | Tenders "tender list" "client_company list" bool
  | Tender_details tender "tender_requirement list" "compliance_matrix list" "tender_access list"
  | Clients "client_company list" bool
  | Documents doc_filter "client_document list" "client_company list" bool
  | Document_details client_document "evidence_link list" "client_company list"
  | Compliance_overview "tender list" "(tender \<times> compliance_matrix list) list" bool
  | Reports "tender list" "client_document list" "audit_event list" bool time
  | Settings | Sign_in_page | Administration
  | Audit_log "audit_event list" "string option"
  | Consents
  | Dpo_contact "dpo_contact option" "string option"
  | Subject_requests "string option" "subject_request list" "string option"
  | Retention_actions "string option" "retention_action list" "string option"
  | Ingestions "string option" "string option" "ingestion_job list" "string option"
  | Ingestion_runs "web_run list" "string option"
  | Training_register string "training_with_status list" "training_summary option" "string option"

fun rendered :: "platform \<Rightarrow> lang \<Rightarrow> public_user option \<Rightarrow> page \<Rightarrow> unit node list" where
  "rendered pl l u (Home ts ds e) = home_page l u ts ds e"
| "rendered pl l u (Tenders ts cs e) = tenders_page l u ts cs e"
| "rendered pl l u (Tender_details t rs ms gs) = tender_page pl l u t rs ms gs"
| "rendered pl l u (Clients cs e) = clients_page pl l u cs e"
| "rendered pl l u (Documents f ds cs e) = documents_page pl l u f ds cs e"
| "rendered pl l u (Document_details d es cs) = document_page pl l u d es cs"
| "rendered pl l u (Compliance_overview ts rs e) = compliance_page pl l u ts rs e"
| "rendered pl l u (Reports ts ds as fb now) = reports_page l u ts ds as fb now"
| "rendered pl l u Settings = settings_page l u"
| "rendered pl l u Sign_in_page = login_page"
| "rendered pl l u Administration = admin_page l u"
| "rendered pl l u (Audit_log as e) = audit_page pl l u as e"
| "rendered pl l u Consents = consent_page pl l u"
| "rendered pl l u (Dpo_contact c e) = dpo_page pl l u c e"
| "rendered pl l u (Subject_requests st rs e) = dsr_page pl l u st rs e"
| "rendered pl l u (Retention_actions st rs e) = retention_page l u st rs e"
| "rendered pl l u (Ingestions st k js e) = ingestion_page pl l u st k js e"
| "rendered pl l u (Ingestion_runs rs e) = runs_page pl l u rs e"
| "rendered pl l u (Training_register st rs sm e) = training_page pl l u st rs sm e"

text \<open>The ids that the links of a page are built from, and whether it offers the page of clients.\<close>

fun linked_ids :: "page \<Rightarrow> ident list" where
  "linked_ids (Home ts _ _) = map tn_id ts"
| "linked_ids (Tenders ts _ _) = map tn_id ts"
| "linked_ids (Documents _ ds _ _) = map cd_id ds"
| "linked_ids (Compliance_overview _ rs _) = map (tn_id \<circ> fst) rs"
| "linked_ids _ = []"

fun offers_clients :: "page \<Rightarrow> bool" where
  "offers_clients (Tenders _ cs _) = (cs = [])"
| "offers_clients (Documents _ _ cs _) = (cs = [])"
| "offers_clients _ = False"

lemmas page_defs = home_page_def tenders_page_def tender_page_def clients_page_def documents_page_def
  document_page_def compliance_page_def reports_page_def settings_page_def login_page_def admin_page_def
  audit_page_def consent_page_def dpo_page_def dsr_page_def retention_page_def ingestion_page_def
  runs_page_def training_page_def

definition links_ok :: "platform \<Rightarrow> lang \<Rightarrow> public_user option \<Rightarrow> page \<Rightarrow> bool" where
  "links_ok pl l u p \<longleftrightarrow>
     (list_all clean_id (linked_ids p) \<longrightarrow> list_all (link_ok (offers_clients p)) (hrefs_list (rendered pl l u p)))"

lemma filter_docs_subset: "set (filter_docs f ds) \<subseteq> set ds"
  by (auto simp: filter_docs_def)

lemma links_home_page: "links_ok pl l u (Home ts ds e)"
  by (auto simp: links_ok_def home_page_def tree_simps split: option.split)

lemma links_tenders_page: "links_ok pl l u (Tenders ts cs e)"
  by (auto simp: links_ok_def tenders_page_def tree_simps split: option.split)

lemma links_tender_page: "links_ok pl l u (Tender_details t rs ms gs)"
  by (auto simp: links_ok_def tender_page_def tree_simps split: option.split)

lemma links_clients_page: "links_ok pl l u (Clients cs e)"
  by (auto simp: links_ok_def clients_page_def tree_simps split: option.split)

lemma links_documents_page: "links_ok pl l u (Documents f ds cs e)"
  using filter_docs_subset [of f ds]
  by (auto simp: links_ok_def documents_page_def tree_simps split: option.split)

lemma links_document_page: "links_ok pl l u (Document_details d es cs)"
  by (auto simp: links_ok_def document_page_def tree_simps split: option.split)

lemma links_compliance_page: "links_ok pl l u (Compliance_overview ts rs e)"
  by (auto simp: links_ok_def compliance_page_def tree_simps split: option.split)

lemma links_reports_page: "links_ok pl l u (Reports ts ds aes fb now)"
  by (auto simp: links_ok_def reports_page_def tree_simps split: option.split)

lemma links_settings_page: "links_ok pl l u (Settings)"
  by (auto simp: links_ok_def settings_page_def tree_simps split: option.split)

lemma links_login_page: "links_ok pl l u (Sign_in_page)"
  by (auto simp: links_ok_def login_page_def tree_simps split: option.split)

lemma links_admin_page: "links_ok pl l u (Administration)"
  by (auto simp: links_ok_def admin_page_def tree_simps TILES_def split: option.split)

lemma links_audit_page: "links_ok pl l u (Audit_log aes e)"
  by (auto simp: links_ok_def audit_page_def tree_simps split: option.split)

lemma links_consent_page: "links_ok pl l u (Consents)"
  by (auto simp: links_ok_def consent_page_def tree_simps split: option.split)

lemma links_dpo_page: "links_ok pl l u (Dpo_contact c e)"
  by (auto simp: links_ok_def dpo_page_def tree_simps split: option.split)

lemma links_dsr_page: "links_ok pl l u (Subject_requests st rs e)"
  by (auto simp: links_ok_def dsr_page_def tree_simps split: option.split)

lemma links_retention_page: "links_ok pl l u (Retention_actions st rs e)"
  by (auto simp: links_ok_def retention_page_def tree_simps split: option.split)

lemma links_ingestion_page: "links_ok pl l u (Ingestions st k js e)"
  by (auto simp: links_ok_def ingestion_page_def tree_simps split: option.split)

lemma links_runs_page: "links_ok pl l u (Ingestion_runs rs e)"
  by (auto simp: links_ok_def runs_page_def tree_simps split: option.split)

lemma links_training_page: "links_ok pl l u (Training_register st rs sm e)"
  by (auto simp: links_ok_def training_page_def tree_simps split: option.split)

lemmas links_pages = links_home_page links_tenders_page links_tender_page links_clients_page links_documents_page
  links_document_page links_compliance_page links_reports_page links_settings_page links_login_page links_admin_page
  links_audit_page links_consent_page links_dpo_page links_dsr_page links_retention_page links_ingestion_page
  links_runs_page links_training_page

lemma every_page_links_ok: "links_ok pl l u p"
  by (cases p) (simp_all only: links_pages)


definition web_platform :: platform where
  "web_platform = \<lparr>pl_dateTime = (\<lambda>t. asc (iso_datetime t)), pl_date = (\<lambda>t. asc (iso_datetime t)),
     pl_dateTimeIn = (\<lambda>_ t. asc (iso_datetime t)), pl_dateIn = (\<lambda>_ t. asc (iso_datetime t)),
     pl_dateText = (\<lambda>v. asc (js_string v)), pl_toIso = Some, pl_number = (\<lambda>_. None)\<rparr>"

definition roads_tender :: tender where
  "roads_tender = \<lparr>tn_id = ''t-1'', tn_title = ''Roads'', tn_source = ''manual'', tn_status = ''intake'', tn_org = ''g'',
     tn_company = ''c-1'', tn_sector = None, tn_sectorCategory = None, tn_sectorConfidence = None,
     tn_sectorClassifiedAt = None, tn_sectorInputHash = None, tn_sectorModel = None, tn_createdAt = 0, tn_updatedAt = 0\<rparr>"


end
