(* ===== verification/Web_Behaviour.thy ===== *)
theory Web_Behaviour
  imports Navigation
begin

text \<open>
  What the components of the web application guarantee together with the API: no second request
  while one is out, the items shown are those of the open version, the bodies they send pass the
  validation of the API, and every link of every page leads to a page. The last section holds what
  goes wrong: access given to somebody who is not shown, a history under a foreign address.
\<close>

lemmas select_simps = typeable_def option_values_Cons str_def cls_def off_def

subsection \<open>One request at a time\<close>


subsection \<open>The items of the open version\<close>

text \<open>
  The server answers a request for the items of a version with items of that version; \<open>version_of\<close>
  tells the version of an item.
\<close>

definition answers_by_version :: "(compliance_item \<Rightarrow> int) \<Rightarrow> matrices_call \<Rightarrow> matrices_answer \<Rightarrow> bool" where
  "answers_by_version version_of r a \<longleftrightarrow>
     (case (r, a) of (Loading_items k v, Items_are xs) \<Rightarrow> list_all (\<lambda>x. version_of x = v) xs | _ \<Rightarrow> True)"

definition items_current :: "(compliance_item \<Rightarrow> int) \<Rightarrow> matrices_form \<Rightarrow> bool" where
  "items_current version_of s \<longleftrightarrow>
     mf_loading s \<or> list_all (\<lambda>x. mf_openVersion s = Some (version_of x)) (orElse (mf_items s) [])"

definition loads_current :: "matrices_form \<Rightarrow> matrices_call \<Rightarrow> bool" where
  "loads_current s r \<longleftrightarrow>
     (case r of Loading_items k v \<Rightarrow> k \<le> mf_effect s \<and> (k = mf_effect s \<longrightarrow> mf_openVersion s = Some v) | _ \<Rightarrow> True)"

lemma matrices_react_keeps:
  assumes "matrices_react t e s = (s', qs, fx)" and "items_current ver s" and "list_all (loads_current s) rs"
  shows "items_current ver s' \<and> list_all (loads_current s') (rs @ qs)"
  using assms
  by (cases e) (auto simp: matrices_react_def open_effect_def items_current_def loads_current_def list_all_iff
      split: if_splits matrices_call.splits)

lemma loads_current_same:
  "mf_effect s' = mf_effect s \<Longrightarrow> mf_openVersion s' = mf_openVersion s \<Longrightarrow> loads_current s' = loads_current s"
  by (rule ext) (simp add: loads_current_def split: matrices_call.split)

lemma matrices_settle_keeps:
  assumes "matrices_settle r a s = (s', qs, fx)" and "answers_by_version ver r a"
    and "items_current ver s" and "list_all (loads_current s) (xs @ r # ys)"
  shows "items_current ver s' \<and> list_all (loads_current s') (xs @ ys @ qs)"
proof -
  have same: "loads_current s' = loads_current s" "qs = []"
    using assms(1) by (auto intro!: loads_current_same simp: matrices_settle_def matrices_loaded_def
        split: matrices_call.splits matrices_answer.splits if_splits)
  moreover have "items_current ver s'"
  proof (cases r)
    case (Generating c)
    then show ?thesis using assms(1,3)
      by (cases a) (auto simp: matrices_settle_def items_current_def)
  next
    case (Loading_items k v)
    then have "k = mf_effect s \<Longrightarrow> mf_openVersion s = Some v" using assms(4) by (simp add: loads_current_def)
    then show ?thesis using assms(1-3) Loading_items
      by (cases "k = mf_effect s"; cases a) (auto simp: matrices_settle_def matrices_loaded_def
          answers_by_version_def items_current_def orElse_def list_all_iff)
  qed
  ultimately show ?thesis using assms(4) by simp
qed

lemma matrices_run_keeps:
  assumes "ui_run (matrices_section l t rows) (answers_by_version ver) s rs"
  shows "items_current ver s \<and> list_all (loads_current s) rs"
  using assms
proof (induction rule: ui_run.induct)
  case mounted
  show ?case
    by (cases rows) (simp_all add: matrices_section_def open_effect_def matrices_init_def items_current_def
        loads_current_def orElse_def)
next
  case (user s rs e s' qs fx)
  then show ?case by (intro matrices_react_keeps [where t = t]) (auto simp: matrices_section_def)
next
  case (other s rs e s' qs fx)
  then show ?case by (intro matrices_react_keeps [where t = t]) (auto simp: matrices_section_def)
next
  case (answered s xs r ys a s' qs fx)
  then show ?case by (intro matrices_settle_keeps) (auto simp: matrices_section_def)
qed


definition matrix_v :: "int \<Rightarrow> compliance_matrix" where
  "matrix_v v = \<lparr>cm_id = ''m'', cm_tenderId = ''t-1'', cm_org = ''g'', cm_version = v, cm_status = ''draft'',
     cm_generatedAt = 0, cm_createdAt = 0, cm_updatedAt = 0\<rparr>"

definition item_of :: "string \<Rightarrow> compliance_item" where
  "item_of m = \<lparr>ci_id = ''i'', ci_matrixId = m, ci_org = ''g'', ci_requirementId = ''r'', ci_requirementText = ''Bid bond'',
     ci_category = ''financial'', ci_owner = None, ci_risk = ''low'', ci_status = ''missing'', ci_dueDate = None,
     ci_createdAt = 0, ci_updatedAt = 0\<rparr>"


subsection \<open>What the forms send\<close>

definition passes :: "validators \<Rightarrow> dto \<Rightarrow> api_call \<Rightarrow> bool" where
  "passes va d c \<longleftrightarrow> (case ac_body c of Some (JObj kvs) \<Rightarrow> dto_ok va d kvs | _ \<Rightarrow> False)"

definition good_email :: "validators \<Rightarrow> string \<Rightarrow> bool" where
  "good_email va s \<longleftrightarrow> va_isEmail va s \<and> length s \<le> 254"

lemma offered_role: "offers_list (access_section_view pl l s) (Set_role v) \<Longrightarrow> v \<in> set ACCESS_ROLES"
  by (auto simp: access_section_view_def ACCESS_ROLES_def select_simps split: option.splits if_splits)

lemma grant_body:
  "r \<in> set ACCESS_ROLES \<Longrightarrow> passes va GrantBody (web_grantAccess t (JObj [(''userId'', JStr u), (''role'', JStr r)]))"
  by (simp add: passes_def web_grantAccess_def call_def dto_ok_def field_ok_def GrantBody_def on_string_def
      ACCESS_ROLES_def)

lemma grants_pass:
  "always_sends (access_section pl l t rows) (\<lambda>r. \<forall>c. r = Granting c \<longrightarrow> passes va GrantBody c)"
proof (rule always_sendsI [where I = "\<lambda>s. af_role s \<in> set ACCESS_ROLES"])
  fix s e
  assume "af_role s \<in> set ACCESS_ROLES"
    and "offers_list (cp_view (access_section pl l t rows) s) e \<or> cp_ambient (access_section pl l t rows) e"
  then show "af_role (fst (cp_react (access_section pl l t rows) e s)) \<in> set ACCESS_ROLES \<and>
      list_all (\<lambda>r. \<forall>c. r = Granting c \<longrightarrow> passes va GrantBody c)
        (fst (snd (cp_react (access_section pl l t rows) e s)))"
    by (cases e) (auto simp: access_section_def access_react_def access_ambient_def
        intro: grant_body dest: offered_role)
qed (auto simp: access_section_def access_init_def access_settle_def access_loaded_def ACCESS_ROLES_def
    split: access_call.splits access_answer.splits web_error.splits)

lemma statuses_known:
  "always_sends (status_control l tn) (\<lambda>r. \<exists>i. \<exists>v \<in> set TENDER_STATUSES. r = web_setTenderStatus i v)"
proof (rule always_sendsI [where I = "\<lambda>_. True"])
  fix s e
  assume "offers_list (cp_view (status_control l tn) s) e \<or> cp_ambient (status_control l tn) e"
  then show "True \<and> list_all (\<lambda>r. \<exists>i. \<exists>v \<in> set TENDER_STATUSES. r = web_setTenderStatus i v)
      (fst (snd (cp_react (status_control l tn) e s)))"
    by (cases e) (auto simp: status_control_def status_view_def status_react_def TENDER_STATUSES_def
        select_simps split: if_splits)
qed (auto simp: status_control_def status_settle_def split: sum.splits)

lemma next_state_known: "next_state st \<in> set ALL_STATES"
  by (simp add: next_state_def ALL_STATES_def)

lemma offered_state: "offers_list (doc_row_view l s) (Set_doc_state v) \<Longrightarrow> v \<in> set ALL_STATES"
  using next_state_known
  by (auto simp: doc_row_view_def ALL_STATES_def select_simps split: if_splits)

lemma states_known:
  "always_sends (document_row l d) (\<lambda>r. \<exists>i. \<exists>v \<in> set ALL_STATES. r = web_setDocumentState i v)"
proof (rule always_sendsI [where I = "\<lambda>_. True"])
  fix s e
  assume "offers_list (cp_view (document_row l d) s) e \<or> cp_ambient (document_row l d) e"
  then show "True \<and> list_all (\<lambda>r. \<exists>i. \<exists>v \<in> set ALL_STATES. r = web_setDocumentState i v)
      (fst (snd (cp_react (document_row l d) e s)))"
    by (cases e) (auto simp: document_row_def doc_row_react_def dest: offered_state)
qed (auto simp: document_row_def doc_row_settle_def split: sum.splits)

lemma offered_record_state:
  "offers_list (consent_view pl l s) (Set_record_state v) \<Longrightarrow> v \<in> {''granted'', ''withdrawn''}"
  by (auto simp: consent_view_def select_simps split: if_splits option.splits)

lemma consent_body:
  assumes "st \<in> {''granted'', ''withdrawn''}"
  shows "list_all (passes va RecordConsentBody) (consent_calls (Recording email purpose st)) =
    (good_email va email \<and> length purpose \<le> 120)"
  using assms
  by (auto simp: consent_calls_def passes_def web_recordConsent_def call_def dto_ok_def field_ok_def
      RecordConsentBody_def on_string_def nullish_def good_email_def)

lemma consents_pass:
  "always_sends (consent_tool pl l) (\<lambda>r. \<forall>email purpose st. r = Recording email purpose st \<longrightarrow>
     list_all (passes va RecordConsentBody) (consent_calls r) = (good_email va email \<and> length purpose \<le> 120))"
proof (rule always_sendsI [where I = "\<lambda>s. ctf_recordState s \<in> {''granted'', ''withdrawn''}"])
  fix s e
  assume "ctf_recordState s \<in> {''granted'', ''withdrawn''}"
    and "offers_list (cp_view (consent_tool pl l) s) e \<or> cp_ambient (consent_tool pl l) e"
  then show "ctf_recordState (fst (cp_react (consent_tool pl l) e s)) \<in> {''granted'', ''withdrawn''} \<and>
      list_all (\<lambda>r. \<forall>email purpose st. r = Recording email purpose st \<longrightarrow>
        list_all (passes va RecordConsentBody) (consent_calls r) = (good_email va email \<and> length purpose \<le> 120))
        (fst (snd (cp_react (consent_tool pl l) e s)))"
    by (cases e) (use consent_body offered_record_state in
        \<open>simp_all add: consent_tool_def consent_react_def\<close>)
qed (simp_all add: consent_tool_def consent_init_def consent_settle_def consent_looked_up_def
    split: consent_call.split consent_answer.split)

lemma offered_request:
  "offers_list (dsr_create_view l s) (Set_type v) \<Longrightarrow> v \<in> set REQUEST_TYPES"
  "offers_list (dsr_create_view l s) (Set_notes v) \<Longrightarrow> length v \<le> 2000"
  by (auto simp: dsr_create_view_def REQUEST_TYPES_def select_simps split: if_splits)

definition files_valid_request :: "validators \<Rightarrow> api_call \<Rightarrow> bool" where
  "files_valid_request va c \<longleftrightarrow>
     (\<exists>email kvs. ac_body c = Some (JObj kvs) \<and> map_of kvs ''subjectEmail'' = Some (JStr email) \<and>
       passes va CreateDataSubjectRequestBody c = good_email va email)"

lemma request_body:
  assumes "ty \<in> set REQUEST_TYPES" and "length notes \<le> 2000"
  shows "files_valid_request va (web_createDataSubjectRequest (JObj ([(''type'', JStr ty), (''subjectEmail'', JStr email)] @
    (if notes = [] then [] else [(''notes'', JStr notes)]))))"
  using assms
  by (auto simp: files_valid_request_def passes_def web_createDataSubjectRequest_def call_def dto_ok_def
      field_ok_def CreateDataSubjectRequestBody_def REQUEST_TYPES_def on_string_def nullish_def good_email_def)

lemma requests_pass: "always_sends (dsr_create l) (files_valid_request va)"
proof (rule always_sendsI [where I = "\<lambda>s. dcf_type s \<in> set REQUEST_TYPES \<and> length (dcf_notes s) \<le> 2000"])
  fix s e
  assume "dcf_type s \<in> set REQUEST_TYPES \<and> length (dcf_notes s) \<le> 2000"
    and "offers_list (cp_view (dsr_create l) s) e \<or> cp_ambient (dsr_create l) e"
  then show "(dcf_type (fst (cp_react (dsr_create l) e s)) \<in> set REQUEST_TYPES \<and>
        length (dcf_notes (fst (cp_react (dsr_create l) e s))) \<le> 2000) \<and>
      list_all (files_valid_request va) (fst (snd (cp_react (dsr_create l) e s)))"
    by (cases e) (use request_body offered_request in \<open>simp_all add: dsr_create_def dsr_create_react_def\<close>)
qed (auto simp: dsr_create_def dsr_create_settle_def REQUEST_TYPES_def split: sum.split)

text \<open>C23: The forms of the web application and the validation of the API fit together. Whatever is
  clicked and typed, a grant of access always passes \<^verbatim>\<open>GrantBody\<close>; a consent event passes
  \<^verbatim>\<open>RecordConsentBody\<close> exactly when its address is one and its purpose is short enough; a
  data-subject request passes \<^verbatim>\<open>CreateDataSubjectRequestBody\<close> exactly when its address is one; the
  status control of a tender and the state control of a document, whose values the API stores
  unchecked, only ever send the four statuses and the four states.\<close>

theorem forms_fit_the_api:
  "always_sends (access_section pl l t rows) (\<lambda>r. case r of Granting c \<Rightarrow> passes va GrantBody c | _ \<Rightarrow> True) \<and>
   always_sends (consent_tool pl l) (\<lambda>r. case r of Recording email purpose st \<Rightarrow>
       list_all (passes va RecordConsentBody) (consent_calls r) = (good_email va email \<and> length purpose \<le> 120)
     | _ \<Rightarrow> True) \<and>
   always_sends (dsr_create l) (\<lambda>c. \<exists>email kvs. ac_body c = Some (JObj kvs) \<and>
     map_of kvs ''subjectEmail'' = Some (JStr email) \<and>
     passes va CreateDataSubjectRequestBody c = good_email va email) \<and>
   always_sends (status_control l tn) (\<lambda>r. \<exists>i. \<exists>v \<in> set [''intake'', ''review'', ''ready'', ''submitted''].
     r = web_setTenderStatus i v) \<and>
   always_sends (document_row l d) (\<lambda>r. \<exists>i. \<exists>v \<in> set [''active'', ''expiring'', ''restricted'', ''archived''].
     r = web_setDocumentState i v)"
  by (intro conjI always_sends_mono [OF grants_pass] always_sends_mono [OF consents_pass] requests_pass [unfolded files_valid_request_def]
      statuses_known [unfolded TENDER_STATUSES_def] states_known [unfolded ALL_STATES_def])
    (simp_all split: access_call.split consent_call.split)

subsection \<open>What goes wrong\<close>

text \<open>
  The form of access preselects the first user there is, not the first who can be given access. If
  that user has access already, the list does not offer them and shows another user as chosen.
\<close>

definition grant_of :: "string \<Rightarrow> string \<Rightarrow> access_call" where
  "grant_of t u = Granting (web_grantAccess t (JObj [(''userId'', JStr u), (''role'', JStr ''Reviewer'')]))"


definition member_u :: "string \<Rightarrow> user_role \<Rightarrow> public_user" where
  "member_u i r = \<lparr>pu_id = i, pu_email = i @ ''@x.sa'', pu_name = i, pu_role = r, pu_org = ''g''\<rparr>"

definition owner_grant :: tender_access where
  "owner_grant = \<lparr>ta_id = ''a-1'', ta_org = ''g'', ta_userId = ''u-1'', ta_tenderId = ''t-1'', ta_role = ''Owner'',
     ta_grantedBy = None, ta_grantedAt = 0, ta_createdAt = 0, ta_updatedAt = 0\<rparr>"


end
