(* ===== verification/Spec2Isabelle.thy ===== *)
theory Spec2Isabelle
  imports Isolation Audit_Trail DataSubject Retention Consent Access_Control Notifications Incident
    Training Documents Compliance Reminders Export Ingestion Webhooks Billing Llm Portal Auth Fit
    Job_Queue Boundary Http_Tenancy Prisma_Repos
    Web_Pages Llm_Providers Drivers Platform Web_Behaviour
begin

text \<open>
  Munafasah Desk, a desk for public tenders: an API (\<^verbatim>\<open>src/apps/api\<close>, NestJS over PostgreSQL) and a web
  application (\<^verbatim>\<open>src/apps/web\<close>, Next.js). Organisations keep client companies, tenders, documents and
  compliance matrices in it; it classifies tenders with a language model, exports submission packs,
  answers data-subject requests, keeps a consent ledger and an audit trail, takes tenders in from
  outside, bills through Stripe and notifies. This development models the API from the HTTP request
  down to the queries of the database client, and the web application from its client of the API to
  the trees that its pages and forms render and what a user can do with them.

  \<^bold>\<open>How the program is modelled.\<close> A row of \<^verbatim>\<open>schema.prisma\<close> is a record (\<open>Rows\<close>), the state of the
  process a record \<open>world\<close> with one table per repository, a clock and a supply of ids (\<open>World\<close>). A
  method that awaits repositories and may throw is an \<open>act\<close>: from a world to an exception or a
  value, and the world it leaves (\<open>Desk_Prelude\<close>). An exception undoes nothing, as in the code. The
  services run on the in-memory repositories of \<^verbatim>\<open>repositories/fake\<close>, which implement the same
  interfaces as those of \<^verbatim>\<open>repositories/prisma\<close>; the latter are modelled by the queries they send.

  \<^bold>\<open>The parts, from the bottom up.\<close>
  \<^item> \<open>Desk_Prelude\<close>, \<open>Hex\<close>, \<open>Uri\<close>, \<open>Net\<close>: JSON, exceptions, actions, texts, dates, stable sorting; hex
    and UTF-8; percent encoding with its inverse; requests to other services and the reading of
    their answers.
  \<^item> \<open>Rows\<close>, \<open>World\<close>, \<open>Store\<close>: the data, the state, and the access pattern of tenant-scoped tables as
    locales (\<open>tenant_reader\<close>, \<open>tenant_writer\<close>, \<open>tenant_store\<close>; \<open>row_machine\<close> for rows that move through
    states). \<open>Repos_Core\<close>, \<open>Repos_Compliance\<close>, \<open>Repos_Pdpl\<close>, \<open>Repos_Ops\<close>: every repository method, with
    the interpretations.
  \<^item> \<open>Prisma_Repos\<close>: the production repositories as queries, and the tenancy guard of
    \<^verbatim>\<open>prisma.service.ts\<close> in front of the client.
  \<^item> \<open>Audit_Trail\<close>, \<open>Access_Control\<close>, \<open>Consent\<close>, \<open>Notifications\<close>, \<open>Documents\<close>, \<open>DataSubject\<close>, \<open>Retention\<close>,
    \<open>Incident\<close>, \<open>Training\<close>, \<open>Compliance\<close>, \<open>Reminders\<close>, \<open>Export\<close>, \<open>Fit\<close>, \<open>Ingestion\<close>, \<open>Portal\<close>, \<open>Webhooks\<close>, \<open>Billing\<close>,
    \<open>Llm\<close>, \<open>Auth\<close>, \<open>Job_Queue\<close>: the services under \<^verbatim>\<open>audit\<close>, \<^verbatim>\<open>pdpl\<close>, \<^verbatim>\<open>document-vault\<close>, \<^verbatim>\<open>compliance\<close>, \<^verbatim>\<open>export\<close>,
    \<^verbatim>\<open>fit-scoring\<close>, \<^verbatim>\<open>ingestion\<close>, \<^verbatim>\<open>ingestion-portal\<close>, \<^verbatim>\<open>webhooks\<close>, \<^verbatim>\<open>billing\<close>, \<^verbatim>\<open>sector\<close>, \<^verbatim>\<open>auth\<close> and \<^verbatim>\<open>providers\<close>,
    one theory each with its definitions in the order of the code, its invariants and its lemmas.
  \<^item> \<open>Llm_Providers\<close>, \<open>Drivers\<close>, \<open>Platform\<close>: the model providers, the notification drivers (the locale
    \<open>channel_driver\<close> is what the dispatcher relies on), the object store and the queue over Redis.
  \<^item> \<open>Boundary\<close>, \<open>Validation\<close>, \<open>Controllers\<close>, \<open>Routes\<close>: the exception filter, the log line, the tenancy
    inspector and the ingestion proxy; the validated request bodies; every handler; and the table of
    routes with guards, roles, audit metadata and status. \<open>serve\<close> is a request from its route through
    guards, handler and interceptor to its answer, \<open>respond\<close> adds the exception filter.
  \<^item> \<open>Isolation\<close>, \<open>Tenancy\<close>, \<open>Http\<close>, \<open>Http_Tenancy\<close>: tenant isolation of repository writes, of services
    and handlers, what the guards guarantee for each route, and isolation at the HTTP interface.
  \<^item> \<open>Web_Client\<close>, \<open>Web_Pages\<close>: every call of \<^verbatim>\<open>apps/web/lib/api.ts\<close>, how it is performed, and that it
    arrives at its handler; the gate in front of the pages, signing in, loading, the figures,
    filters and the paste of requirements.
  \<^item> \<open>Html\<close>, \<open>I18n\<close>, \<open>Forms\<close>: trees of elements with the events their handlers dispatch, what a user can
    do with a tree (\<open>offers\<close>), a client component as a state machine of events, requests, answers and
    effects (\<open>component\<close>, \<open>ui_run\<close>) with the locales \<open>busy_form\<close> and \<open>released_form\<close>; the dictionary of
    \<^verbatim>\<open>lib/i18n.ts\<close> in both languages; the messages of errors.
  \<^item> \<open>Forms_Tender\<close>, \<open>Forms_Admin\<close>, \<open>Pages_View\<close>: every client component under \<^verbatim>\<open>app\<close> (state, tree,
    handlers, what it makes of answers) with its interpretation of the locales, and the tree of every
    page, attribute by attribute. \<open>Navigation\<close>, \<open>Web_Behaviour\<close>: where the links lead, and what the
    forms guarantee together with the API.

  \<^bold>\<open>What the lemmas show.\<close> Safety: no sequence of requests of other organisations changes or reads into
  the rows of an organisation; only the open routes are served without a session; production reads
  answer with rows of their organisation; whoever asks for erasure or destruction is not who
  approves it; audit events and log lines carry no secrets; a revoked key, an erased account, a
  stale Stripe event are refused. Invariants over all reachable states: jobs, requests, retention
  actions, matrix versions, grants, reminders, queue attempts. Function: erasure, sweeps, exports,
  uploads, classification, claims, billing do exactly what they say, on every branch. Refinement: the
  consent ledger is a set of permissions. Equivalence: the tenancy guard and the audit interceptor
  change nothing they should not. Round trips: signatures, keys, the CSV artifact, percent encoding,
  the bulk paste. Web: no form sends twice, the items shown are
  those of the open version, forms and validation fit, links lead to pages. Termination: deliveries settle, retries drain.

  \<^bold>\<open>Bounds and fuel.\<close> Delivery attempts recurse on the attempts left, which each attempt uses up; the
  retry schedule of the queue ends because every timer that fires decreases the calls its job has
  left. No other loop of the code needs a bound: they run over lists.

  \<^bold>\<open>Parameters.\<close> Code outside the repository is an argument: HMAC and hashes, bcrypt, token signing and
  verification, \<^verbatim>\<open>fetch\<close>, mail, \<^verbatim>\<open>JSON.parse\<close>, URL and number parsing, the zod schemas, the object store,
  Redis, the generated database client, the router of express. What a theorem needs of one (the
  router selects a registered route, the client answers a read with matching rows, a random id is
  new) is a named hypothesis with a witness.

  \<^bold>\<open>Abstractions.\<close> Strings are lists of code units below 256; the texts of the web application are lists of
  UTF-16 code units (\<open>utext\<close>). Messages of the API keep to the former (em dashes and ellipses of messages are
  written with ASCII); floating-point figures are exact rationals; dates are whole milliseconds, and
  an invalid date is not represented; JSON texts are printed for whole numbers only; a method runs
  without interleaving, so two requests act one after the other (the interleaving of timers, workers
  and requests is that of whole steps).

  \<^bold>\<open>Not modelled.\<close> The JSON text of an answer (an answer is the value the handler returns); HEAD
  requests and the rate limiter; log lines other than their redaction; module wiring and start-up;
  the runtime of React and Next.js, style sheets and the constraint validation of the browser (the
  model offers more events than a browser, never fewer); the printing of dates (a parameter);
  scripts and tests.
\<close>

section \<open>Properties that span components\<close>


definition iso_ops :: "(ident \<times> tenant_write) list" where
  "iso_ops = [(''g'', CreateCompany \<lparr>ccc_name = ''x'', ccc_org = ''h''\<rparr>), (''g'', DeleteCompany ''u''),
     (''k'', UpdateCompany ''u'' \<lparr>ucc_name = Some ''stolen''\<rparr>), (''g'', DeleteCompany ''uu'')]"


end
